(* ===== verification/Prelude.thy ===== *)
theory Prelude
  imports Complex_Main
begin

text \<open>
  What every component shares: the JavaScript operations on strings and optional values that
  the TypeScript uses, updating and removing the elements of an array by their key, and the
  interface of a component that is driven by a list of events.

  A JavaScript string is a \<open>string\<close> (a \<open>char list\<close>), its characters being the bytes of its
  UTF-8 form; \<open>undefined\<close> and \<open>null\<close> are \<open>None\<close>. A value \<open>x | undefined\<close> is an option.
\<close>

section \<open>Truthiness, \<open>||\<close> and \<open>??\<close>\<close>

definition truthy :: "string option \<Rightarrow> bool" where
  "truthy x = (case x of None \<Rightarrow> False | Some s \<Rightarrow> s \<noteq> [])"

definition js_or :: "string option \<Rightarrow> string option \<Rightarrow> string option" where
  "js_or x y = (if truthy x then x else y)"

definition js_or_str :: "string option \<Rightarrow> string \<Rightarrow> string" where
  "js_or_str x y = (case x of None \<Rightarrow> y | Some s \<Rightarrow> if s = [] then y else s)"

definition nullish :: "'a option \<Rightarrow> 'a \<Rightarrow> 'a" where
  "nullish x y = (case x of None \<Rightarrow> y | Some v \<Rightarrow> v)"

lemma truthy_simps [simp]:
  "\<not> truthy None" "truthy (Some s) \<longleftrightarrow> s \<noteq> []"
  by (simp_all add: truthy_def)

lemma js_or_simps [simp]:
  "js_or None y = y" "js_or (Some s) y = (if s = [] then y else Some s)"
  by (simp_all add: js_or_def)

lemma js_or_str_simps [simp]:
  "js_or_str None y = y" "js_or_str (Some s) y = (if s = [] then y else s)"
  by (simp_all add: js_or_str_def)

lemma nullish_simps [simp]: "nullish None y = y" "nullish (Some v) y = v"
  by (simp_all add: nullish_def)

lemma js_or_truthy: "truthy (js_or x y) \<longleftrightarrow> truthy x \<or> truthy y"
  by (cases x) simp_all

section \<open>Calls that may throw\<close>

text \<open>\<open>Inl\<close> is the error that leaves the function.\<close>

fun bind_sum :: "'e + 'a \<Rightarrow> ('a \<Rightarrow> 'e + 'b) \<Rightarrow> 'e + 'b" where
  "bind_sum (Inl e) f = Inl e"
| "bind_sum (Inr x) f = f x"

lemma bind_sum_Inl: "(\<exists>e. bind_sum x f = Inl e) \<longleftrightarrow> (\<exists>e. x = Inl e) \<or> (\<exists>y e. x = Inr y \<and> f y = Inl e)"
  by (cases x) auto

lemma bind_sum_Inr: "bind_sum x f = Inr z \<longleftrightarrow> (\<exists>y. x = Inr y \<and> f y = Inr z)"
  by (cases x) auto

section \<open>Strings\<close>

definition is_ws :: "char \<Rightarrow> bool" where
  "is_ws c = (c \<in> {CHR '' '', CHR 0x09, CHR 0x0A, CHR 0x0B, CHR 0x0C, CHR 0x0D})"

definition trim :: "string \<Rightarrow> string" where
  "trim s = rev (dropWhile is_ws (rev (dropWhile is_ws s)))"

definition lower_char :: "char \<Rightarrow> char" where
  "lower_char c = (if of_char c \<in> {65..90 :: nat} then char_of (of_char c + 32 :: nat) else c)"

definition upper_char :: "char \<Rightarrow> char" where
  "upper_char c = (if of_char c \<in> {97..122 :: nat} then char_of (of_char c - 32 :: nat) else c)"

definition toLowerCase :: "string \<Rightarrow> string" where
  "toLowerCase = map lower_char"

definition toUpperCase :: "string \<Rightarrow> string" where
  "toUpperCase = map upper_char"

fun starts_with :: "string \<Rightarrow> string \<Rightarrow> bool" where
  "starts_with s [] = True"
| "starts_with [] (p # ps) = False"
| "starts_with (c # s) (p # ps) = (c = p \<and> starts_with s ps)"

definition ends_with :: "string \<Rightarrow> string \<Rightarrow> bool" where
  "ends_with s p = starts_with (rev s) (rev p)"

fun includes_str :: "string \<Rightarrow> string \<Rightarrow> bool" where
  "includes_str [] p = (p = [])"
| "includes_str (c # s) p = (starts_with (c # s) p \<or> includes_str s p)"

fun join :: "string \<Rightarrow> string list \<Rightarrow> string" where
  "join sep [] = []"
| "join sep [x] = x"
| "join sep (x # y # ys) = x @ sep @ join sep (y # ys)"

fun nat_to_string :: "nat \<Rightarrow> string" where
  "nat_to_string n =
     (if n < 10 then [char_of (48 + n)] else nat_to_string (n div 10) @ [char_of (48 + n mod 10)])"

declare nat_to_string.simps [simp del]

definition digit36 :: "nat \<Rightarrow> char" where
  "digit36 d = (if d < 10 then char_of (48 + d) else char_of (87 + d))"

fun base36 :: "nat \<Rightarrow> string" where
  "base36 n = (if n < 36 then [digit36 n] else base36 (n div 36) @ [digit36 (n mod 36)])"

declare base36.simps [simp del]

lemma starts_with_iff: "starts_with s p \<longleftrightarrow> (\<exists>t. s = p @ t)"
  by (induction s p rule: starts_with.induct) auto

lemma ends_with_iff: "ends_with s p \<longleftrightarrow> (\<exists>t. s = t @ p)"
  by (simp add: ends_with_def starts_with_iff) (metis rev_append rev_rev_ident)

lemma ends_with_append [simp]: "ends_with (s @ p) p"
  by (simp add: ends_with_iff)

lemma includes_str_iff: "includes_str s p \<longleftrightarrow> (\<exists>a b. s = a @ p @ b)"
proof (induction s)
  case Nil
  then show ?case by simp
next
  case (Cons c s)
  have "(\<exists>a b. c # s = a @ p @ b) \<longleftrightarrow> (\<exists>b. c # s = p @ b) \<or> (\<exists>a b. s = a @ p @ b)"
    by (metis append_Cons append_Nil neq_Nil_conv list.inject)
  with Cons show ?case by (simp add: starts_with_iff)
qed

lemma nat_to_string_nonempty [simp]: "nat_to_string n \<noteq> []"
  by (subst nat_to_string.simps) simp

text \<open>Decimal numerals are read back as the number they write and consist of digits.\<close>

definition digits_value :: "string \<Rightarrow> nat" where
  "digits_value s = foldl (\<lambda>a c. 10 * a + (of_char c - 48)) 0 s"

lemma digits_value_numeral [simp]: "digits_value (nat_to_string n) = n"
proof (induction n rule: nat_to_string.induct)
  case (1 n)
  show ?case
  proof (cases "n < 10")
    case True
    then show ?thesis by (subst nat_to_string.simps) (simp add: digits_value_def)
  next
    case False
    with 1 show ?thesis by (subst nat_to_string.simps) (simp add: digits_value_def)
  qed
qed

lemma nat_to_string_inj [simp]: "nat_to_string m = nat_to_string n \<longleftrightarrow> m = n"
  by (metis digits_value_numeral)

lemma nat_to_string_digits: "c \<in> set (nat_to_string n) \<Longrightarrow> of_char c \<in> {48..57 :: nat}"
proof (induction n rule: nat_to_string.induct)
  case (1 n)
  then show ?case
    by (cases "n < 10") (auto simp: nat_to_string.simps [of n] split: if_splits)
qed

lemma trim_Nil [simp]: "trim [] = []"
  by (simp add: trim_def)

section \<open>Arrays: find, update and remove by key\<close>

definition update_by :: "('a \<Rightarrow> 'k) \<Rightarrow> 'k \<Rightarrow> ('a \<Rightarrow> 'a) \<Rightarrow> 'a list \<Rightarrow> 'a list" where
  "update_by key k f xs = map (\<lambda>x. if key x = k then f x else x) xs"

definition remove_by :: "('a \<Rightarrow> 'k) \<Rightarrow> 'k \<Rightarrow> 'a list \<Rightarrow> 'a list" where
  "remove_by key k xs = filter (\<lambda>x. key x \<noteq> k) xs"

definition find_by :: "('a \<Rightarrow> 'k) \<Rightarrow> 'k \<Rightarrow> 'a list \<Rightarrow> 'a option" where
  "find_by key k xs = List.find (\<lambda>x. key x = k) xs"

lemma find_by_Nil [simp]: "find_by key k [] = None"
  by (simp add: find_by_def)

lemma find_by_Cons [simp]:
  "find_by key k (x # xs) = (if key x = k then Some x else find_by key k xs)"
  by (simp add: find_by_def)

lemma find_by_append:
  "find_by key k (xs @ ys) = (case find_by key k xs of None \<Rightarrow> find_by key k ys | Some x \<Rightarrow> Some x)"
  by (induction xs) simp_all

lemma find_by_None_iff: "find_by key k xs = None \<longleftrightarrow> k \<notin> key ` set xs"
  by (induction xs) auto

lemma find_by_SomeD: "find_by key k xs = Some x \<Longrightarrow> x \<in> set xs \<and> key x = k"
  by (induction xs) (auto split: if_splits)

lemma find_by_distinct:
  "distinct (map key xs) \<Longrightarrow> x \<in> set xs \<Longrightarrow> find_by key (key x) xs = Some x"
  by (induction xs) (auto simp: image_iff)

lemma update_by_simps [simp]:
  "update_by key k f [] = []"
  "update_by key k f (x # xs) = (if key x = k then f x else x) # update_by key k f xs"
  by (simp_all add: update_by_def)

lemma length_update_by [simp]: "length (update_by key k f xs) = length xs"
  by (simp add: update_by_def)

lemma update_by_absent: "k \<notin> key ` set xs \<Longrightarrow> update_by key k f xs = xs"
  by (induction xs) auto

lemma remove_by_simps [simp]:
  "remove_by key k [] = []"
  "remove_by key k (x # xs) = (if key x = k then remove_by key k xs else x # remove_by key k xs)"
  by (simp_all add: remove_by_def)

lemma set_remove_by: "set (remove_by key k xs) = {x \<in> set xs. key x \<noteq> k}"
  by (simp add: remove_by_def)

lemma remove_by_absent: "k \<notin> key ` set xs \<Longrightarrow> remove_by key k xs = xs"
  by (induction xs) auto

lemma distinct_remove_by: "distinct (map key xs) \<Longrightarrow> distinct (map key (remove_by key k xs))"
  by (induction xs) (auto simp: set_remove_by)

lemma find_by_remove_by:
  "find_by key j (remove_by key k xs) = (if j = k then None else find_by key j xs)"
  by (induction xs) auto

text \<open>The values a partial function has on a list, in order.\<close>

fun somes :: "('a \<Rightarrow> 'b option) \<Rightarrow> 'a list \<Rightarrow> 'b list" where
  "somes f [] = []"
| "somes f (x # xs) = (case f x of None \<Rightarrow> somes f xs | Some y \<Rightarrow> y # somes f xs)"

lemma somes_append [simp]: "somes f (xs @ ys) = somes f xs @ somes f ys"
  by (induction xs) (simp_all split: option.split)

lemma set_somes: "set (somes f xs) = {y. \<exists>x \<in> set xs. f x = Some y}"
  by (induction xs) (auto split: option.split)

lemma distinct_somes_filter: "distinct (somes f xs) \<Longrightarrow> distinct (somes f (filter P xs))"
  by (induction xs) (auto simp: set_somes split: option.splits)

lemma somes_cong: "(\<And>x. x \<in> set xs \<Longrightarrow> f (h x) = f x) \<Longrightarrow> somes f (map h xs) = somes f xs"
  by (induction xs) (auto split: option.split)

text \<open>
  A patch that never changes the key of the element it is applied to: the shape of every
  \<open>xs.map((x) => (x.id === id ? { ...x, ...patch } : x))\<close> in the editors.
\<close>

locale keyed =
  fixes key :: "'a \<Rightarrow> 'k" and patch :: "'p \<Rightarrow> 'a \<Rightarrow> 'a"
  assumes key_patch: "key (patch p x) = key x"
begin

lemma keys_update [simp]: "map key (update_by key k (patch p) xs) = map key xs"
  by (induction xs) (simp_all add: key_patch)

lemma distinct_update: "distinct (map key xs) \<Longrightarrow> distinct (map key (update_by key k (patch p) xs))"
  by simp

lemma find_update:
  "find_by key j (update_by key k (patch p) xs) =
     (if j = k then map_option (patch p) (find_by key j xs) else find_by key j xs)"
  by (induction xs) (auto simp: key_patch)

lemma update_update:
  "update_by key k (patch p) (update_by key k (patch q) xs) =
     update_by key k (\<lambda>x. patch p (patch q x)) xs"
  by (induction xs) (auto simp: key_patch)

lemma update_commute:
  "j \<noteq> k \<Longrightarrow> update_by key j (patch p) (update_by key k (patch q) xs) =
     update_by key k (patch q) (update_by key j (patch p) xs)"
  by (induction xs) (auto simp: key_patch)

end

section \<open>A store keyed by identifier\<close>

text \<open>What the users of a store rely on: a saved value is what the next load returns, and the other
  entries do not move.\<close>

locale keyed_store =
  fixes ident :: "'a \<Rightarrow> 'i" and load :: "'s \<Rightarrow> 'i \<Rightarrow> 'a option" and save :: "'a \<Rightarrow> 's \<Rightarrow> 's"
    and ok :: "'s \<Rightarrow> bool"
  assumes load_save: "ok s \<Longrightarrow> load (save a s) i = (if i = ident a then Some a else load s i)"
    and ok_save: "ok s \<Longrightarrow> ok (save a s)"
begin

lemma load_own: "ok s \<Longrightarrow> load (save a s) (ident a) = Some a"
  by (simp add: load_save)

lemma ok_saves: "ok s \<Longrightarrow> ok (foldl (\<lambda>s a. save a s) s as)"
  by (induction "as" arbitrary: s) (simp_all add: ok_save)

text \<open>After a sequence of saves every identifier holds the last value saved under it.\<close>

lemma load_saves:
  "ok s \<Longrightarrow> load (foldl (\<lambda>s a. save a s) s as) i =
     (case find_by ident i (rev as) of None \<Rightarrow> load s i | Some a \<Rightarrow> Some a)"
  by (induction "as" arbitrary: s)
    (auto simp: load_save ok_save find_by_append split: option.splits)

lemma save_overwrite:
  "ok s \<Longrightarrow> ident a = ident b \<Longrightarrow> load (save a (save b s)) i = load (save a s) i"
  by (simp add: load_save ok_save)

lemma save_commute:
  "ok s \<Longrightarrow> ident a \<noteq> ident b \<Longrightarrow> load (save a (save b s)) i = load (save b (save a s)) i"
  by (simp add: load_save ok_save)

end

section \<open>Components driven by events\<close>

text \<open>
  A component is a state and a step function over its events; \<open>run\<close> handles a list of
  events in order. The invariant of a component holds after every run.
\<close>

definition run :: "('s \<Rightarrow> 'e \<Rightarrow> 's) \<Rightarrow> 's \<Rightarrow> 'e list \<Rightarrow> 's" where
  "run step s es = foldl step s es"

lemma run_simps [simp]:
  "run step s [] = s"
  "run step s (e # es) = run step (step s e) es"
  by (simp_all add: run_def)

lemma run_append: "run step s (es @ fs) = run step (run step s es) fs"
  by (simp add: run_def)

locale machine =
  fixes step :: "'s \<Rightarrow> 'e \<Rightarrow> 's" and inv :: "'s \<Rightarrow> bool"
  assumes step_inv: "inv s \<Longrightarrow> inv (step s e)"
begin

lemma run_inv: "inv s \<Longrightarrow> inv (run step s es)"
  by (induction es arbitrary: s) (simp_all add: step_inv)

end

text \<open>A machine whose steps keep the invariant only for the events the environment can send:
  \<open>ok s e\<close>. A run is admissible when every event was possible where it happened.\<close>

fun admissible :: "('s \<Rightarrow> 'e \<Rightarrow> 's) \<Rightarrow> ('s \<Rightarrow> 'e \<Rightarrow> bool) \<Rightarrow> 's \<Rightarrow> 'e list \<Rightarrow> bool" where
  "admissible step ok s [] = True"
| "admissible step ok s (e # es) = (ok s e \<and> admissible step ok (step s e) es)"

locale guarded_machine =
  fixes step :: "'s \<Rightarrow> 'e \<Rightarrow> 's" and ok :: "'s \<Rightarrow> 'e \<Rightarrow> bool" and inv :: "'s \<Rightarrow> bool"
  assumes step_inv: "inv s \<Longrightarrow> ok s e \<Longrightarrow> inv (step s e)"
begin

lemma run_inv: "inv s \<Longrightarrow> admissible step ok s es \<Longrightarrow> inv (run step s es)"
  by (induction es arbitrary: s) (simp_all add: step_inv)

end

sublocale machine \<subseteq> guarded: guarded_machine step "\<lambda>s e. True" inv
  by unfold_locales (rule step_inv)

end
