(* ===== verification/Js_Object.thy ===== *)
theory Js_Object
  imports Prelude
begin

text \<open>
  JavaScript objects used as dictionaries, and the JSON values that cross the network.

  An object is the list of its entries in insertion order. Assignment replaces the value of
  an existing key in place and appends a new one; \<open>{ ...a, ...b }\<close> assigns the entries of
  \<open>b\<close> one after the other. A JSON number is a rational: the code compares, adds and rounds
  the numbers it reads and never depends on the rounding of a double.
\<close>

section \<open>Objects\<close>

type_synonym 'v obj = "(string \<times> 'v) list"

fun obj_set :: "string \<Rightarrow> 'v \<Rightarrow> 'v obj \<Rightarrow> 'v obj" where
  "obj_set k v [] = [(k, v)]"
| "obj_set k v ((k', v') # xs) = (if k' = k then (k, v) # xs else (k', v') # obj_set k v xs)"

definition obj_get :: "'v obj \<Rightarrow> string \<Rightarrow> 'v option" where
  "obj_get xs k = map_of xs k"

definition obj_delete :: "string \<Rightarrow> 'v obj \<Rightarrow> 'v obj" where
  "obj_delete k xs = filter (\<lambda>(k', v). k' \<noteq> k) xs"

fun obj_spread :: "'v obj \<Rightarrow> 'v obj \<Rightarrow> 'v obj" where
  "obj_spread a [] = a"
| "obj_spread a ((k, v) # b) = obj_spread (obj_set k v a) b"

definition keys :: "'v obj \<Rightarrow> string list" where
  "keys xs = map fst xs"

definition wf_obj :: "'v obj \<Rightarrow> bool" where
  "wf_obj xs = distinct (keys xs)"

lemma obj_get_simps [simp]:
  "obj_get [] k = None"
  "obj_get ((k', v) # xs) k = (if k = k' then Some v else obj_get xs k)"
  by (simp_all add: obj_get_def)

lemma obj_get_set [simp]: "obj_get (obj_set k v xs) j = (if j = k then Some v else obj_get xs j)"
  by (induction xs) auto

lemma obj_get_delete [simp]: "obj_get (obj_delete k xs) j = (if j = k then None else obj_get xs j)"
  by (induction xs) (auto simp: obj_delete_def)

lemma set_keys_obj_set [simp]: "set (keys (obj_set k v xs)) = insert k (set (keys xs))"
  by (induction k v xs rule: obj_set.induct) (auto simp: keys_def)

lemma wf_obj_Nil [simp]: "wf_obj []"
  by (simp add: wf_obj_def keys_def)

lemma wf_obj_set [simp]: "wf_obj xs \<Longrightarrow> wf_obj (obj_set k v xs)"
proof (induction xs)
  case Nil
  then show ?case by (simp add: wf_obj_def keys_def)
next
  case (Cons e xs)
  obtain k' v' where e: "e = (k', v')" by (cases e)
  have "set (map fst (obj_set k v xs)) = insert k (set (map fst xs))"
    using set_keys_obj_set [of k v xs] by (simp add: keys_def)
  with Cons e show ?case by (auto simp: wf_obj_def keys_def)
qed

lemma wf_obj_delete [simp]: "wf_obj xs \<Longrightarrow> wf_obj (obj_delete k xs)"
  by (induction xs) (auto simp: wf_obj_def keys_def obj_delete_def)

lemma wf_obj_spread [simp]: "wf_obj a \<Longrightarrow> wf_obj (obj_spread a b)"
  by (induction a b rule: obj_spread.induct) simp_all

lemma keys_obj_set_old: "k \<in> set (keys xs) \<Longrightarrow> keys (obj_set k v xs) = keys xs"
  by (induction k v xs rule: obj_set.induct) (auto simp: keys_def)

lemma obj_get_None_iff: "obj_get xs k = None \<longleftrightarrow> k \<notin> set (keys xs)"
  by (simp add: obj_get_def keys_def map_of_eq_None_iff)

lemma obj_get_spread:
  "wf_obj b \<Longrightarrow> obj_get (obj_spread a b) k = (case obj_get b k of None \<Rightarrow> obj_get a k | Some v \<Rightarrow> Some v)"
proof (induction a b rule: obj_spread.induct)
  case (1 a)
  then show ?case by simp
next
  case (2 a k' v b)
  then have "wf_obj b" and "obj_get b k' = None"
    by (auto simp: wf_obj_def keys_def obj_get_def map_of_eq_None_iff)
  with 2 show ?case by (auto split: option.splits)
qed

lemma obj_set_absent: "k \<notin> set (keys xs) \<Longrightarrow> obj_set k v xs = xs @ [(k, v)]"
  by (induction k v xs rule: obj_set.induct) (auto simp: keys_def)

lemma obj_delete_set: "k \<notin> set (keys xs) \<Longrightarrow> obj_delete k (obj_set k v xs) = xs"
  by (simp add: obj_set_absent) (induction xs, auto simp: obj_delete_def keys_def)

section \<open>JSON values\<close>

datatype json =
  JNull | JBool bool | JNum rat | JStr string | JArr "json list" | JObj "(string \<times> json) list"

fun json_truthy :: "json \<Rightarrow> bool" where
  "json_truthy JNull = False"
| "json_truthy (JBool b) = b"
| "json_truthy (JNum n) = (n \<noteq> 0)"
| "json_truthy (JStr s) = (s \<noteq> [])"
| "json_truthy (JArr xs) = True"
| "json_truthy (JObj xs) = True"

text \<open>\<open>typeof v\<close>; \<open>typeof undefined\<close> is the value at \<open>None\<close>.\<close>

fun js_typeof :: "json option \<Rightarrow> string" where
  "js_typeof None = ''undefined''"
| "js_typeof (Some JNull) = ''object''"
| "js_typeof (Some (JBool b)) = ''boolean''"
| "js_typeof (Some (JNum n)) = ''number''"
| "js_typeof (Some (JStr s)) = ''string''"
| "js_typeof (Some (JArr xs)) = ''object''"
| "js_typeof (Some (JObj xs)) = ''object''"

text \<open>
  Property access \<open>v.k\<close>. On \<open>null\<close> and \<open>undefined\<close> the code only uses \<open>?.\<close> where this
  can happen, so the value is \<open>undefined\<close>.
\<close>

fun jget :: "json option \<Rightarrow> string \<Rightarrow> json option" where
  "jget (Some (JObj xs)) k = obj_get xs k"
| "jget _ k = None"

text \<open>
  \<open>v as T\<close> is not checked at run time. The model reads a value of another type as absent;
  \<open>null\<close> is absent for every use the code makes of it (\<open>||\<close>, \<open>?.\<close>, \<open>??\<close>).
\<close>

fun as_string :: "json option \<Rightarrow> string option" where
  "as_string (Some (JStr s)) = Some s"
| "as_string _ = None"

fun as_number :: "json option \<Rightarrow> rat option" where
  "as_number (Some (JNum n)) = Some n"
| "as_number _ = None"

fun as_array :: "json option \<Rightarrow> json list option" where
  "as_array (Some (JArr xs)) = Some xs"
| "as_array _ = None"

fun as_object :: "json option \<Rightarrow> json option" where
  "as_object (Some (JObj xs)) = Some (JObj xs)"
| "as_object _ = None"

lemma as_array_None_iff: "as_array v = None \<longleftrightarrow> (\<nexists>xs. v = Some (JArr xs))"
  by (cases v rule: as_array.cases) auto

lemma jget_obj_set [simp]:
  "jget (Some (JObj (obj_set k v xs))) j = (if j = k then Some v else jget (Some (JObj xs)) j)"
  by simp

end
