(* ===== verification/Onboarding_Types.thy ===== *)
theory Onboarding_Types
  imports Js_Object
begin

text \<open>
  The data model of the onboarding application: \<open>features/onboarding/types.ts\<close> and
  \<open>constants.ts\<close> of example-apps/onboarding-flow.

  Every interface is a record, every union of string literals a datatype with the literals as
  constructors. A field \<open>x?: T\<close> is an option: an absent key and a key that holds
  \<open>undefined\<close> are the same value, since the code reads them only through \<open>||\<close>, \<open>??\<close>, \<open>?.\<close>
  and truth tests. \<open>Partial<Application>\<close> is the record of the optional fields; \<open>None\<close> there
  is an absent key.
\<close>

section \<open>Enumerations\<close>

datatype application_status =
  DRAFT | SUBMITTED | UNDER_REVIEW | ACTION_REQUIRED | APPROVED | UNABLE_TO_PROCEED

datatype onboarding_method = UPLOAD_PREFILL | MANUAL

datatype document_status = UPLOADED | PROCESSING | EXTRACTED | NEEDS_ATTENTION

datatype document_type =
  TRADE_LICENSE | MEMORANDUM_OF_ASSOCIATION | CERTIFICATE_OF_INCORPORATION | PASSPORT
| EMIRATES_ID | PROOF_OF_ADDRESS | BANK_STATEMENT | OTHER

datatype verification_flag = ILLEGIBLE | FAKE_SUSPECTED | IRRELEVANT | WRONG_FORMAT | EXPIRED

datatype verification_status = PASS | WARN | FAIL

datatype upload_mode = BULK | INDIVIDUAL

datatype address_type = REGISTERED | OPERATING | CORRESPONDENCE

datatype contact_type = PRIMARY | COMPLIANCE | FINANCE

text \<open>The string a document type is at run time.\<close>

fun doc_type_name :: "document_type \<Rightarrow> string" where
  "doc_type_name TRADE_LICENSE = ''TRADE_LICENSE''"
| "doc_type_name MEMORANDUM_OF_ASSOCIATION = ''MEMORANDUM_OF_ASSOCIATION''"
| "doc_type_name CERTIFICATE_OF_INCORPORATION = ''CERTIFICATE_OF_INCORPORATION''"
| "doc_type_name PASSPORT = ''PASSPORT''"
| "doc_type_name EMIRATES_ID = ''EMIRATES_ID''"
| "doc_type_name PROOF_OF_ADDRESS = ''PROOF_OF_ADDRESS''"
| "doc_type_name BANK_STATEMENT = ''BANK_STATEMENT''"
| "doc_type_name OTHER = ''OTHER''"

section \<open>Records\<close>

record verification_result =
  ver_status :: verification_status
  ver_flags :: "verification_flag list"
  ver_message :: string

record doc =
  doc_file_id :: string
  doc_doc_type :: document_type
  doc_filename :: string
  doc_status :: document_status
  doc_uploaded_at :: string
  doc_verification :: "verification_result option"

record field_provenance =
  fp_source_doc_type :: document_type
  fp_page_number :: int
  fp_confidence :: rat
  fp_snippet :: string

record director =
  dir_id :: string
  dir_full_name :: string
  dir_nationality :: string
  dir_date_of_birth :: string
  dir_passport_number :: string
  dir_email :: string
  dir_phone :: string
  dir_is_signatory :: bool

record signatory =
  sig_id :: string
  sig_full_name :: string
  sig_role :: string
  sig_email :: string
  sig_phone :: string

record ubo =
  ubo_id :: string
  ubo_full_name :: string
  ubo_nationality :: string
  ubo_date_of_birth :: string
  ubo_ownership_percentage :: rat
  ubo_passport_number :: string
  ubo_residential_address :: string

record business_profile =
  bp_legal_name :: "string option"
  bp_trade_name :: "string option"
  bp_license_number :: "string option"
  bp_license_expiry :: "string option"
  bp_jurisdiction :: "string option"
  bp_entity_type :: "string option"
  bp_incorporation_date :: "string option"

record address =
  addr_id :: string
  addr_type :: address_type
  addr_line1 :: string
  addr_line2 :: "string option"
  addr_city :: string
  addr_emirate :: "string option"
  addr_country :: string
  addr_postal_code :: "string option"

record business_contact =
  bc_id :: string
  bc_type :: contact_type
  bc_full_name :: string
  bc_email :: string
  bc_phone :: string
  bc_role :: string

record business_activity =
  ba_primary_activity :: "string option"
  ba_secondary_activities :: "string list option"
  ba_purpose_of_account :: "string option"
  ba_source_of_funds :: "string option"

record transfer_behavior =
  tb_expected_monthly_volume_usd :: "rat option"
  tb_expected_monthly_transactions :: "rat option"
  tb_primary_transfer_purpose :: "string option"
  tb_expected_counterparties :: "string list option"
  tb_high_risk_jurisdictions :: "bool option"

record ownership_structure =
  os_is_subsidiary :: "bool option"
  os_parent_company_name :: "string option"
  os_parent_company_jurisdiction :: "string option"
  os_ownership_chart_uploaded :: "bool option"

record submission_confirmations =
  confirm_accuracy :: bool
  confirm_authority :: bool

record ops_note =
  on_id :: string
  on_author :: string
  on_content :: string
  on_created_at :: string

record api_result =
  ar_accountHolderId :: string
  ar_legalEntityId :: string
  ar_documentIds :: "string list"
  ar_kycRequirementId :: string

record application =
  application_id :: string
  app_status :: application_status
  app_method :: onboarding_method
  created_at :: string
  updated_at :: string
  current_step :: int
  completed_steps :: "int list"
  app_upload_mode :: "upload_mode option"
  app_profile :: business_profile
  addresses :: "address list"
  business_contacts :: "business_contact list"
  app_activity :: business_activity
  app_transfer :: transfer_behavior
  app_ownership :: ownership_structure
  directors :: "director list"
  signatories :: "signatory list"
  ubos :: "ubo list"
  documents :: "doc list"
  app_provenance :: "field_provenance obj"
  app_confirmations :: submission_confirmations
  ops_notes :: "ops_note list"
  app_api_result :: "api_result option"

record step_definition =
  step_id :: int
  step_title :: string
  step_path :: string
  step_description :: string

section \<open>The constants of \<open>constants.ts\<close>\<close>

definition mk_step :: "int \<Rightarrow> string \<Rightarrow> string \<Rightarrow> string \<Rightarrow> step_definition" where
  "mk_step i t p d = \<lparr>step_id = i, step_title = t, step_path = p, step_description = d\<rparr>"

definition ONBOARDING_STEPS :: "step_definition list" where
  "ONBOARDING_STEPS =
    [mk_step 1 ''Upload documents'' ''documents'' ''Upload required business documents'',
     mk_step 2 ''Business identity'' ''identity'' ''Basic business information'',
     mk_step 3 ''Addresses'' ''addresses'' ''Registered and operating addresses'',
     mk_step 4 ''Business contacts'' ''contacts'' ''Key contact persons'',
     mk_step 5 ''Business activity & purpose'' ''activity'' ''Nature of business operations'',
     mk_step 6 ''Expected transfer behavior'' ''transfers'' ''UAE to US transfer patterns'',
     mk_step 7 ''Ownership structure'' ''ownership'' ''Company ownership details'',
     mk_step 8 ''Directors & signatories'' ''directors'' ''Key decision makers'',
     mk_step 9 ''UBOs'' ''ubos'' ''Ultimate beneficial owners'',
     mk_step 10 ''Review & submit'' ''review'' ''Final review and submission'']"

fun DOCUMENT_TYPE_LABELS :: "document_type \<Rightarrow> string" where
  "DOCUMENT_TYPE_LABELS TRADE_LICENSE = ''Trade License''"
| "DOCUMENT_TYPE_LABELS MEMORANDUM_OF_ASSOCIATION = ''Memorandum of Association''"
| "DOCUMENT_TYPE_LABELS CERTIFICATE_OF_INCORPORATION = ''Certificate of Incorporation''"
| "DOCUMENT_TYPE_LABELS PASSPORT = ''Passport (Authorized Signatory)''"
| "DOCUMENT_TYPE_LABELS EMIRATES_ID = ''Emirates ID''"
| "DOCUMENT_TYPE_LABELS PROOF_OF_ADDRESS = ''Proof of Address''"
| "DOCUMENT_TYPE_LABELS BANK_STATEMENT = ''Bank Statement''"
| "DOCUMENT_TYPE_LABELS OTHER = ''Other Documents''"

section \<open>Partial updates\<close>

record partial_app =
  p_application_id :: "string option"
  p_status :: "application_status option"
  p_method :: "onboarding_method option"
  p_current_step :: "int option"
  p_completed_steps :: "int list option"
  p_upload_mode :: "upload_mode option"
  p_profile :: "business_profile option"
  p_addresses :: "address list option"
  p_contacts :: "business_contact list option"
  p_activity :: "business_activity option"
  p_transfer :: "transfer_behavior option"
  p_ownership :: "ownership_structure option"
  p_directors :: "director list option"
  p_signatories :: "signatory list option"
  p_ubos :: "ubo list option"
  p_documents :: "doc list option"
  p_provenance :: "field_provenance obj option"
  p_confirmations :: "submission_confirmations option"
  p_ops_notes :: "ops_note list option"
  p_api_result :: "api_result option"

definition no_updates :: partial_app where
  "no_updates = \<lparr>p_application_id = None, p_status = None, p_method = None,
     p_current_step = None, p_completed_steps = None, p_upload_mode = None,
     p_profile = None, p_addresses = None, p_contacts = None, p_activity = None,
     p_transfer = None, p_ownership = None, p_directors = None, p_signatories = None,
     p_ubos = None, p_documents = None, p_provenance = None, p_confirmations = None,
     p_ops_notes = None, p_api_result = None\<rparr>"

text \<open>One key of \<open>{ ...x, ...y }\<close> for two objects with optional fields.\<close>

definition later :: "'a option \<Rightarrow> 'a option \<Rightarrow> 'a option" where
  "later x y = (case y of None \<Rightarrow> x | Some v \<Rightarrow> Some v)"

lemma later_simps [simp]: "later x None = x" "later x (Some v) = Some v"
  by (simp_all add: later_def)

text \<open>\<open>{ ...app, ...updates }\<close>: the keys of \<open>updates\<close> win.\<close>

definition apply_partial :: "partial_app \<Rightarrow> application \<Rightarrow> application" where
  "apply_partial u a = a\<lparr>
     application_id := nullish (p_application_id u) (application_id a),
     app_status := nullish (p_status u) (app_status a),
     app_method := nullish (p_method u) (app_method a),
     current_step := nullish (p_current_step u) (current_step a),
     completed_steps := nullish (p_completed_steps u) (completed_steps a),
     app_upload_mode := later (app_upload_mode a) (p_upload_mode u),
     app_profile := nullish (p_profile u) (app_profile a),
     addresses := nullish (p_addresses u) (addresses a),
     business_contacts := nullish (p_contacts u) (business_contacts a),
     app_activity := nullish (p_activity u) (app_activity a),
     app_transfer := nullish (p_transfer u) (app_transfer a),
     app_ownership := nullish (p_ownership u) (app_ownership a),
     directors := nullish (p_directors u) (directors a),
     signatories := nullish (p_signatories u) (signatories a),
     ubos := nullish (p_ubos u) (ubos a),
     documents := nullish (p_documents u) (documents a),
     app_provenance := nullish (p_provenance u) (app_provenance a),
     app_confirmations := nullish (p_confirmations u) (app_confirmations a),
     ops_notes := nullish (p_ops_notes u) (ops_notes a),
     app_api_result := later (app_api_result a) (p_api_result u)\<rparr>"

lemma apply_no_updates [simp]: "apply_partial no_updates a = a"
  by (simp add: apply_partial_def no_updates_def)

lemma apply_partial_frame [simp]:
  "created_at (apply_partial u a) = created_at a"
  "updated_at (apply_partial u a) = updated_at a"
  by (simp_all add: apply_partial_def)

lemma apply_partial_id:
  "p_application_id u = None \<Longrightarrow> application_id (apply_partial u a) = application_id a"
  by (simp add: apply_partial_def)

lemma steps_ids: "map step_id ONBOARDING_STEPS = [1..10]"
  by (simp add: ONBOARDING_STEPS_def mk_step_def upto.simps)

lemma steps_paths_distinct: "distinct (map step_path ONBOARDING_STEPS)"
  by (simp add: ONBOARDING_STEPS_def mk_step_def)

end
