(* ===== verification/Regex.thy ===== *)
theory Regex
  imports Prelude
begin

text \<open>
  The regular expressions of the TypeScript, as data, and the search \<open>re.test(s)\<close>. Only the
  constructs the code uses: a character class, sequence, alternation, an optional part, one
  or more characters of a class, the word boundary and the two anchors.

  A position of the input is the character before it (\<open>None\<close> at the start) and the rest of
  the input; \<open>ends r p\<close> lists the positions where a match of \<open>r\<close> from \<open>p\<close> can end.
\<close>

datatype rx =
  Cls "char \<Rightarrow> bool" | Seq rx rx | Alt rx rx | Opt rx | Many1 "char \<Rightarrow> bool"
| WordB | AtStart | AtEnd | Empty

type_synonym pos = "char option \<times> string"

definition between :: "char \<Rightarrow> char \<Rightarrow> char \<Rightarrow> bool" where
  "between a b c = (of_char a \<le> (of_char c :: nat) \<and> (of_char c :: nat) \<le> of_char b)"

definition is_digit :: "char \<Rightarrow> bool" where
  "is_digit c = between CHR ''0'' CHR ''9'' c"

definition is_alnum_lower :: "char \<Rightarrow> bool" where
  "is_alnum_lower c = (between CHR ''a'' CHR ''z'' c \<or> is_digit c)"

definition is_word :: "char \<Rightarrow> bool" where
  "is_word c = (between CHR ''a'' CHR ''z'' c \<or> between CHR ''A'' CHR ''Z'' c \<or> is_digit c \<or> c = CHR ''_'')"

definition at_boundary :: "pos \<Rightarrow> bool" where
  "at_boundary p =
     ((case fst p of None \<Rightarrow> False | Some c \<Rightarrow> is_word c) \<noteq>
      (case snd p of [] \<Rightarrow> False | c # _ \<Rightarrow> is_word c))"

fun many1 :: "(char \<Rightarrow> bool) \<Rightarrow> string \<Rightarrow> pos list" where
  "many1 q [] = []"
| "many1 q (c # s) = (if q c then (Some c, s) # many1 q s else [])"

fun ends :: "rx \<Rightarrow> pos \<Rightarrow> pos list" where
  "ends Empty p = [p]"
| "ends (Cls q) (b, []) = []"
| "ends (Cls q) (b, c # s) = (if q c then [(Some c, s)] else [])"
| "ends (Seq r1 r2) p = concat (map (ends r2) (ends r1 p))"
| "ends (Alt r1 r2) p = ends r1 p @ ends r2 p"
| "ends (Opt r) p = ends r p @ [p]"
| "ends (Many1 q) (b, s) = many1 q s"
| "ends WordB p = (if at_boundary p then [p] else [])"
| "ends AtStart p = (if fst p = None then [p] else [])"
| "ends AtEnd p = (if snd p = [] then [p] else [])"

fun search_from :: "rx \<Rightarrow> char option \<Rightarrow> string \<Rightarrow> bool" where
  "search_from r b [] = (ends r (b, []) \<noteq> [])"
| "search_from r b (c # s) = (ends r (b, c # s) \<noteq> [] \<or> search_from r (Some c) s)"

text \<open>\<open>re.test(s)\<close> for a regular expression without flags.\<close>

definition rx_test :: "rx \<Rightarrow> string \<Rightarrow> bool" where
  "rx_test r s = search_from r None s"

fun lit :: "string \<Rightarrow> rx" where
  "lit [] = Empty"
| "lit (c # s) = Seq (Cls (\<lambda>d. d = c)) (lit s)"

fun rx_seq :: "rx list \<Rightarrow> rx" where
  "rx_seq [] = Empty"
| "rx_seq (r # rs) = Seq r (rx_seq rs)"

fun rx_alts :: "rx list \<Rightarrow> rx" where
  "rx_alts [] = Cls (\<lambda>c. False)"
| "rx_alts (r # rs) = Alt r (rx_alts rs)"

text \<open>The optional separator \<open>[-_ ]?\<close> of the keyword patterns.\<close>

definition opt_sep :: rx where
  "opt_sep = Opt (Cls (\<lambda>c. c = CHR ''-'' \<or> c = CHR ''_'' \<or> c = CHR '' ''))"

lemma snd_many1: "(b, t) \<in> set (many1 q s) \<Longrightarrow> \<exists>u. u \<noteq> [] \<and> s = u @ t \<and> list_all q u"
proof (induction q s rule: many1.induct)
  case (1 q)
  then show ?case by simp
next
  case (2 q c s)
  then consider "t = s" "q c" | "q c" "(b, t) \<in> set (many1 q s)"
    by (auto split: if_splits)
  then show ?case
  proof cases
    case 1
    then show ?thesis by (intro exI [of _ "[c]"]) simp
  next
    case 2
    with "2.IH" obtain u where "u \<noteq> []" "s = u @ t" "list_all q u" by auto
    with 2 show ?thesis by (intro exI [of _ "c # u"]) simp
  qed
qed

lemma ends_suffix: "(b, t) \<in> set (ends r (a, s)) \<Longrightarrow> \<exists>u. s = u @ t"
proof (induction r arbitrary: a s b t)
  case (Cls q)
  then show ?case by (cases s) (auto split: if_splits)
next
  case (Seq r1 r2)
  then obtain c m where "(c, m) \<in> set (ends r1 (a, s))" "(b, t) \<in> set (ends r2 (c, m))" by auto
  with Seq.IH obtain u v where "s = u @ m" "m = v @ t" by metis
  then show ?case by simp
next
  case (Many1 q)
  then show ?case using snd_many1 [of b t q s] by auto
qed (auto split: if_splits)

lemma ends_lit: "ends (lit p) (b, s) \<noteq> [] \<longleftrightarrow> starts_with s p"
proof (induction p arbitrary: b s)
  case Nil
  then show ?case by simp
next
  case (Cons c p)
  then show ?case by (cases s) auto
qed

text \<open>A literal pattern is found exactly where \<open>includes\<close> finds it.\<close>

lemma rx_test_lit: "rx_test (lit p) s \<longleftrightarrow> includes_str s p"
proof -
  have "search_from (lit p) b s \<longleftrightarrow> includes_str s p" for b
  proof (induction s arbitrary: b)
    case Nil
    then show ?case by (cases p) (simp_all add: ends_lit)
  next
    case (Cons c s)
    then show ?case by (simp add: ends_lit)
  qed
  then show ?thesis by (simp add: rx_test_def)
qed

text \<open>A pattern that starts with \<open>^\<close> is tried at the first position only.\<close>

lemma rx_test_anchored: "rx_test (Seq AtStart r) s \<longleftrightarrow> ends r (None, s) \<noteq> []"
proof -
  have "\<not> search_from (Seq AtStart r) (Some c) t" for c t
    by (induction t arbitrary: c) simp_all
  then show ?thesis by (cases s) (simp_all add: rx_test_def)
qed

lemma ends_lit_rest: "(b', t) \<in> set (ends (lit p) (b, s)) \<Longrightarrow> s = p @ t"
proof (induction p arbitrary: b s)
  case Nil
  then show ?case by simp
next
  case (Cons c p)
  then show ?case by (cases s) (auto split: if_splits)
qed

lemma ends_lit_append: "\<exists>b'. (b', t) \<in> set (ends (lit p) (b, p @ t))"
  by (induction p arbitrary: b) auto

lemma many1_append: "u \<noteq> [] \<Longrightarrow> list_all q u \<Longrightarrow> \<exists>b. (b, t) \<in> set (many1 q (u @ t))"
proof (induction u)
  case Nil
  then show ?case by simp
next
  case (Cons c u)
  then show ?case by (cases "u = []") auto
qed

end
