(* ===== verification/Documents.thy ===== *)
theory Documents
  imports Onboarding_Types Regex
begin

text \<open>
  Classification and verification of uploaded files:
  \<open>features/documents/classifier.ts\<close> and \<open>verification.ts\<close>.

  A \<open>File\<close> of the browser is a record: its name, its MIME type (empty when unknown), its size
  in bytes, the dimensions its image decoder reports (\<open>None\<close> when decoding fails) and the text
  \<open>FileReader.readAsDataURL\<close> returns for it (\<open>None\<close> when reading fails). Lower case is that of
  the ASCII letters.
\<close>

record upload_file =
  f_name :: string
  f_type :: string
  f_size :: nat
  f_dims :: "(nat \<times> nat) option"
  f_dataurl :: "string option"

section \<open>classifier.ts\<close>

record classification_result =
  cl_docType :: document_type
  cl_confidence :: rat

record rule =
  r_type :: document_type
  r_strong :: "rx list"
  r_patterns :: "rx list"

definition mk_rule :: "document_type \<Rightarrow> rx list \<Rightarrow> rx list \<Rightarrow> rule" where
  "mk_rule t s p = \<lparr>r_type = t, r_strong = s, r_patterns = p\<rparr>"

text \<open>\<open>/\b w \b/\<close> and \<open>/w1[-_ ]?w2[-_ ]?...wn/\<close>.\<close>

definition whole_word :: "string \<Rightarrow> rx" where
  "whole_word w = rx_seq [WordB, lit w, WordB]"

fun spaced :: "string list \<Rightarrow> rx" where
  "spaced [] = Empty"
| "spaced [w] = lit w"
| "spaced (w # v # vs) = rx_seq [lit w, opt_sep, spaced (v # vs)]"

definition RULES :: "rule list" where
  "RULES =
    [mk_rule MEMORANDUM_OF_ASSOCIATION
       [whole_word ''moa'', lit ''memorandum'']
       [spaced [''articles'', ''of'', ''association''], whole_word ''aoa''],
     mk_rule CERTIFICATE_OF_INCORPORATION
       [whole_word ''coi'', lit ''incorporation'', spaced [''certificate'', ''of'', ''incorp'']]
       [whole_word ''cert''],
     mk_rule TRADE_LICENSE
       [spaced [''trade'', ''license''], rx_seq [WordB, spaced [''trade'', ''lic''], WordB],
        whole_word ''tl'']
       [lit ''license''],
     mk_rule EMIRATES_ID
       [spaced [''emirates'', ''id''], whole_word ''eid'']
       [rx_seq [WordB, spaced [''id'', ''card''], WordB]],
     mk_rule PASSPORT
       [lit ''passport'', whole_word ''pp'']
       [],
     mk_rule PROOF_OF_ADDRESS
       [spaced [''proof'', ''of'', ''address''], whole_word ''poa'', spaced [''utility'', ''bill'']]
       [lit ''address'', lit ''utility''],
     mk_rule BANK_STATEMENT
       [spaced [''bank'', ''statement''], whole_word ''statement'']
       [whole_word ''bank'']]"

text \<open>\<open>name.replace(/\.[a-z0-9]+$/, "")\<close>: the class has no dot, so only the last dot can start
  a match, and the match is the last dot with the non-empty run of class characters after it.\<close>

definition strip_extension :: "string \<Rightarrow> string" where
  "strip_extension s =
     (let ext = takeWhile is_alnum_lower (rev s); rest = dropWhile is_alnum_lower (rev s)
      in if ext \<noteq> [] \<and> rest \<noteq> [] \<and> hd rest = CHR ''.'' then rev (tl rest) else s)"

definition rule_matches :: "(rule \<Rightarrow> rx list) \<Rightarrow> string \<Rightarrow> rule \<Rightarrow> bool" where
  "rule_matches sel name r = list_ex (\<lambda>re. rx_test re name) (sel r)"

definition classifyFilename :: "string \<Rightarrow> classification_result" where
  "classifyFilename filename =
     (let name = strip_extension (toLowerCase filename) in
      case List.find (rule_matches r_strong name) RULES of
        Some r \<Rightarrow> \<lparr>cl_docType = r_type r, cl_confidence = 95 / 100\<rparr>
      | None \<Rightarrow>
          (case List.find (rule_matches r_patterns name) RULES of
             Some r \<Rightarrow> \<lparr>cl_docType = r_type r, cl_confidence = 6 / 10\<rparr>
           | None \<Rightarrow> \<lparr>cl_docType = OTHER, cl_confidence = 0\<rparr>))"

section \<open>verification.ts\<close>

definition ACCEPTED_MIME :: "string list" where
  "ACCEPTED_MIME = [''application/pdf'', ''image/png'', ''image/jpeg'', ''image/jpg'']"

text \<open>\<open>/\b(test|dummy|fake|copy|untitled|screenshot|img_\d+)\b/i\<close>; the flag \<open>i\<close> is the search in
  the lower-case name.\<close>

definition SUSPICIOUS :: rx where
  "SUSPICIOUS =
     rx_seq [WordB,
       rx_alts [lit ''test'', lit ''dummy'', lit ''fake'', lit ''copy'', lit ''untitled'',
                lit ''screenshot'', Seq (lit ''img_'') (Many1 is_digit)],
       WordB]"

definition bullet :: string where
  "bullet = [CHR '' '', CHR 0xE2, CHR 0x80, CHR 0xA2, CHR '' '']"

definition em_dash :: string where
  "em_dash = [CHR 0xE2, CHR 0x80, CHR 0x94]"

fun FLAG_LABELS :: "verification_flag \<Rightarrow> string" where
  "FLAG_LABELS ILLEGIBLE = ''Document appears illegible or low-resolution''"
| "FLAG_LABELS FAKE_SUSPECTED =
     ''Filename looks suspicious '' @ em_dash @ '' verify authenticity''"
| "FLAG_LABELS IRRELEVANT = ''File doesn'' @ [CHR 0x27] @ ''t match the expected document type''"
| "FLAG_LABELS WRONG_FORMAT = ''Unsupported file format''"
| "FLAG_LABELS EXPIRED = ''Document appears to be expired''"

definition describeFlags :: "verification_flag list \<Rightarrow> string" where
  "describeFlags flags = join bullet (map FLAG_LABELS flags)"

text \<open>\<open>readImageDimensions(file).catch(() => null)\<close>: the decoder's answer.\<close>

definition readImageDimensions :: "upload_file \<Rightarrow> (nat \<times> nat) option" where
  "readImageDimensions file = f_dims file"

definition push_new :: "'a \<Rightarrow> 'a list \<Rightarrow> 'a list" where
  "push_new x xs = (if x \<in> set xs then xs else xs @ [x])"

definition heuristic_flags :: "upload_file \<Rightarrow> document_type \<Rightarrow> verification_flag list" where
  "heuristic_flags file expectedType =
     (let flags = (if f_size file < 1024 then [ILLEGIBLE] else []);
          flags = (if rx_test SUSPICIOUS (toLowerCase (f_name file)) then flags @ [FAKE_SUSPECTED]
                   else flags);
          detected = classifyFilename (f_name file);
          flags = (if expectedType \<noteq> OTHER \<and> cl_docType detected \<noteq> OTHER \<and>
                      cl_docType detected \<noteq> expectedType
                   then flags @ [IRRELEVANT] else flags)
      in if starts_with (f_type file) ''image/'' then
           (case readImageDimensions file of
              None \<Rightarrow> flags
            | Some (w, h) \<Rightarrow> if w < 100 \<or> h < 100 then push_new ILLEGIBLE flags else flags)
         else flags)"

definition verifyDocument :: "upload_file \<Rightarrow> document_type \<Rightarrow> bool \<Rightarrow> verification_result" where
  "verifyDocument file expectedType trusted =
     (if trusted then \<lparr>ver_status = PASS, ver_flags = [], ver_message = ''Verified''\<rparr>
      else if f_type file \<noteq> [] \<and> f_type file \<notin> set ACCEPTED_MIME then
        \<lparr>ver_status = FAIL, ver_flags = [WRONG_FORMAT],
         ver_message = ''Unsupported file type ('' @ js_or_str (Some (f_type file)) ''unknown'' @
                       ''). Use PDF, JPG or PNG.''\<rparr>
      else
        (let flags = heuristic_flags file expectedType in
         if flags = [] then \<lparr>ver_status = PASS, ver_flags = flags, ver_message = ''Verified''\<rparr>
         else \<lparr>ver_status = (if ILLEGIBLE \<in> set flags then FAIL else WARN), ver_flags = flags,
               ver_message = describeFlags flags\<rparr>))"

record verification_summary =
  vs_fail :: nat
  vs_warn :: nat
  vs_pass :: nat

fun summarize_step :: "verification_summary \<Rightarrow> verification_result option \<Rightarrow> verification_summary" where
  "summarize_step out None = out"
| "summarize_step out (Some r) =
     (case ver_status r of
        FAIL \<Rightarrow> out\<lparr>vs_fail := vs_fail out + 1\<rparr>
      | WARN \<Rightarrow> out\<lparr>vs_warn := vs_warn out + 1\<rparr>
      | PASS \<Rightarrow> out\<lparr>vs_pass := vs_pass out + 1\<rparr>)"

definition summarizeVerification :: "verification_result option list \<Rightarrow> verification_summary" where
  "summarizeVerification results =
     foldl summarize_step \<lparr>vs_fail = 0, vs_warn = 0, vs_pass = 0\<rparr> results"

section \<open>Severity\<close>

text \<open>The statuses ordered by severity: \<open>PASS < WARN < FAIL\<close>.\<close>

fun rank_status :: "verification_status \<Rightarrow> nat" where
  "rank_status PASS = 0"
| "rank_status WARN = 1"
| "rank_status FAIL = 2"

instantiation verification_status :: linorder
begin

definition less_eq_verification_status :: "verification_status \<Rightarrow> verification_status \<Rightarrow> bool" where
  "less_eq_verification_status a b = (rank_status a \<le> rank_status b)"

definition less_verification_status :: "verification_status \<Rightarrow> verification_status \<Rightarrow> bool" where
  "less_verification_status a b = (rank_status a < rank_status b)"

instance
proof
  fix a b :: verification_status
  show "a \<le> b \<Longrightarrow> b \<le> a \<Longrightarrow> a = b"
    by (cases a; cases b) (simp_all add: less_eq_verification_status_def)
qed (auto simp: less_eq_verification_status_def less_verification_status_def)

end

text \<open>What one flag says of a document.\<close>

fun severity :: "verification_flag \<Rightarrow> verification_status" where
  "severity ILLEGIBLE = FAIL"
| "severity WRONG_FORMAT = FAIL"
| "severity FAKE_SUSPECTED = WARN"
| "severity IRRELEVANT = WARN"
| "severity EXPIRED = WARN"

definition worst :: "verification_flag list \<Rightarrow> verification_status" where
  "worst flags = foldr (\<lambda>f s. max (severity f) s) flags PASS"

section \<open>Facts about classification\<close>

definition strength :: "string \<Rightarrow> rule \<Rightarrow> nat" where
  "strength name r =
     (if rule_matches r_strong name r then 2 else if rule_matches r_patterns name r then 1 else 0)"

definition greatest :: "nat list \<Rightarrow> nat" where
  "greatest xs = foldr max xs 0"

lemma greatest_simps [simp]: "greatest [] = 0" "greatest (x # xs) = max x (greatest xs)"
  by (simp_all add: greatest_def)

lemma greatest_ge: "x \<in> set xs \<Longrightarrow> x \<le> greatest xs"
  by (induction xs) (auto simp: le_max_iff_disj)

lemma greatest_le: "(\<And>x. x \<in> set xs \<Longrightarrow> x \<le> n) \<Longrightarrow> greatest xs \<le> n"
  by (induction xs) auto

lemma find_cong_set: "(\<And>x. x \<in> set xs \<Longrightarrow> P x = Q x) \<Longrightarrow> List.find P xs = List.find Q xs"
  by (induction xs) auto

lemma find_SomeD: "List.find P xs = Some x \<Longrightarrow> x \<in> set xs \<and> P x"
  by (induction xs) (auto split: if_splits)

lemma find_None: "List.find P xs = None \<longleftrightarrow> (\<forall>x\<in>set xs. \<not> P x)"
  by (induction xs) auto

text \<open>The two scans of the rules find the first rule of the greatest strength.\<close>

lemma two_scans:
  "(case List.find (rule_matches r_strong name) rs of
      Some r \<Rightarrow> Some (2, r)
    | None \<Rightarrow> (case List.find (rule_matches r_patterns name) rs of
                 Some r \<Rightarrow> Some (1, r) | None \<Rightarrow> None)) =
   (let m = greatest (map (strength name) rs) in
    if m = 0 then None else map_option (Pair m) (List.find (\<lambda>r. strength name r = m) rs))"
proof (cases "List.find (rule_matches r_strong name) rs")
  case (Some r)
  then have r: "r \<in> set rs" "rule_matches r_strong name r" using find_SomeD by fast+
  have "greatest (map (strength name) rs) \<ge> strength name r"
    by (rule greatest_ge) (use r in auto)
  moreover have "greatest (map (strength name) rs) \<le> 2"
    by (rule greatest_le) (auto simp: strength_def)
  ultimately have m: "greatest (map (strength name) rs) = 2" using r by (simp add: strength_def)
  have "List.find (\<lambda>r. strength name r = 2) rs = List.find (rule_matches r_strong name) rs"
    by (rule find_cong_set) (simp add: strength_def)
  with Some m show ?thesis by simp
next
  case None
  then have weak: "strength name r = (if rule_matches r_patterns name r then 1 else 0)"
    if "r \<in> set rs" for r
    using that by (auto simp: find_None strength_def)
  show ?thesis
  proof (cases "List.find (rule_matches r_patterns name) rs")
    case (Some r)
    then have r: "r \<in> set rs" "rule_matches r_patterns name r" using find_SomeD by fast+
    have "greatest (map (strength name) rs) \<ge> strength name r"
      by (rule greatest_ge) (use r in auto)
    moreover have "greatest (map (strength name) rs) \<le> 1"
      by (rule greatest_le) (auto simp: weak)
    ultimately have m: "greatest (map (strength name) rs) = 1" using r weak by simp
    have "List.find (\<lambda>r. strength name r = 1) rs = List.find (rule_matches r_patterns name) rs"
      by (rule find_cong_set) (simp add: weak)
    with Some None m show ?thesis by simp
  next
    case none: None
    have "greatest (map (strength name) rs) \<le> 0"
      by (rule greatest_le) (use none in \<open>auto simp: weak find_None\<close>)
    with None none show ?thesis by simp
  qed
qed

section \<open>Facts about verification\<close>

lemma worst_simps [simp]: "worst [] = PASS" "worst (f # fs) = max (severity f) (worst fs)"
  by (simp_all add: worst_def)

lemma max_status_simps [simp]:
  "max FAIL s = FAIL" "max s FAIL = FAIL" "max PASS s = s" "max s PASS = s" "max WARN WARN = WARN"
  by (cases s; simp add: max_def less_eq_verification_status_def)+

lemma worst_append: "worst (fs @ gs) = max (worst fs) (worst gs)"
  by (induction fs) (simp_all add: max.assoc)

lemma set_push_new [simp]: "set (push_new x xs) = insert x (set xs)"
  by (auto simp: push_new_def)

lemma distinct_push_new [simp]: "distinct (push_new x xs) = distinct xs"
  by (auto simp: push_new_def)

lemma set_heuristic_flags:
  "set (heuristic_flags f t) =
     (if f_size f < 1024 \<or> (starts_with (f_type f) ''image/'' \<and>
         (case f_dims f of None \<Rightarrow> False | Some (w, h) \<Rightarrow> w < 100 \<or> h < 100))
      then {ILLEGIBLE} else {}) \<union>
     (if rx_test SUSPICIOUS (toLowerCase (f_name f)) then {FAKE_SUSPECTED} else {}) \<union>
     (if t \<noteq> OTHER \<and> cl_docType (classifyFilename (f_name f)) \<notin> {OTHER, t}
      then {IRRELEVANT} else {})"
  by (auto simp: heuristic_flags_def readImageDimensions_def Let_def split: option.split)

lemma distinct_heuristic_flags: "distinct (heuristic_flags f t)"
  by (auto simp: heuristic_flags_def Let_def split: option.split)

lemma worst_mild:
  "set fs \<subseteq> {ILLEGIBLE, FAKE_SUSPECTED, IRRELEVANT} \<Longrightarrow>
     worst fs = (if fs = [] then PASS else if ILLEGIBLE \<in> set fs then FAIL else WARN)"
  by (induction fs) auto

section \<open>Properties\<close>


text \<open>Keywords are matched between word boundaries and an underscore is a word character, so
  the names \<open>moa_company.pdf\<close> and \<open>coi_company.pdf\<close> of the naming guide that the upload page
  shows are not recognised as a memorandum and a certificate: they land in OTHER. With a dash
  instead of the underscore they are recognised.\<close>

theorem naming_guide_misses_moa_and_coi:
  "cl_docType (classifyFilename ''moa_company.pdf'') = OTHER \<and>
   cl_docType (classifyFilename ''coi_company.pdf'') = OTHER \<and>
   cl_docType (classifyFilename ''moa-company.pdf'') = MEMORANDUM_OF_ASSOCIATION"
  by (intro conjI; code_simp)

text \<open>The outcome of a verification is the severity of the worst flag it raised: FAIL with an
  illegible or wrongly formatted file, WARN with the milder flags, PASS with none. No flag is
  raised twice, and EXPIRED is never raised.\<close>

theorem verify_worst_flag:
  "ver_status (verifyDocument file t trusted) = worst (ver_flags (verifyDocument file t trusted)) \<and>
   distinct (ver_flags (verifyDocument file t trusted)) \<and>
   EXPIRED \<notin> set (ver_flags (verifyDocument file t trusted))"
proof -
  have "set (heuristic_flags file t) \<subseteq> {ILLEGIBLE, FAKE_SUSPECTED, IRRELEVANT}"
    by (auto simp: set_heuristic_flags split: if_splits)
  then have "EXPIRED \<notin> set (heuristic_flags file t)"
    and "worst (heuristic_flags file t) =
           (if heuristic_flags file t = [] then PASS
            else if ILLEGIBLE \<in> set (heuristic_flags file t) then FAIL else WARN)"
    by (auto simp: worst_mild)
  then show ?thesis
    by (simp add: verifyDocument_def Let_def distinct_heuristic_flags)
qed

text \<open>The flags of an untrusted file, exactly: a MIME type outside the accepted ones is the only
  flag of the file; otherwise the file is illegible when it is under 1 KiB or an image under
  100 pixels, suspicious by its name, and irrelevant when its name is classified as a type other
  than the expected one. A trusted file has no flag.\<close>

theorem verify_flags_spec:
  "set (ver_flags (verifyDocument file t trusted)) =
     (if trusted then {}
      else if f_type file \<noteq> [] \<and> f_type file \<notin> set ACCEPTED_MIME then {WRONG_FORMAT}
      else {fl. (fl = ILLEGIBLE \<and>
                   (f_size file < 1024 \<or> (starts_with (f_type file) ''image/'' \<and>
                      (\<exists>w h. f_dims file = Some (w, h) \<and> (w < 100 \<or> h < 100))))) \<or>
                (fl = FAKE_SUSPECTED \<and> rx_test SUSPICIOUS (toLowerCase (f_name file))) \<or>
                (fl = IRRELEVANT \<and> t \<noteq> OTHER \<and>
                   cl_docType (classifyFilename (f_name file)) \<notin> {OTHER, t})})"
proof -
  have "set (ver_flags (verifyDocument file t trusted)) =
     (if trusted then {}
      else if f_type file \<noteq> [] \<and> f_type file \<notin> set ACCEPTED_MIME then {WRONG_FORMAT}
      else set (heuristic_flags file t))"
    by (simp add: verifyDocument_def Let_def)
  then show ?thesis
    by (auto simp: set_heuristic_flags split: option.splits if_splits)
qed

end
