(* ===== verification/Onboarding_Store.thy ===== *)
theory Onboarding_Store
  imports Onboarding_Types
begin

text \<open>
  The persistence of applications in the browser (\<open>features/onboarding/store.ts\<close>) and the
  React hook over it (\<open>features/onboarding/useApplication.ts\<close>).

  The item \<open>fintech_applications\<close> of \<open>localStorage\<close> is a value of \<open>slot\<close>: absent, the JSON
  text of an array of applications, other JSON, or text that is not JSON.
  \<open>JSON.stringify\<close> followed by \<open>JSON.parse\<close> is the identity on applications, whose fields are
  strings, booleans, finite numbers and arrays and objects of these. The clock and
  \<open>Math.random\<close> are arguments. The quota of the storage is not modelled.

  A callback of the hook works on the \<open>application\<close> of the render that created it, not on the
  current one: the captured value is an argument (\<open>captured\<close>) of every callback.
\<close>

section \<open>store.ts\<close>

datatype slot = NoItem | JsonApps "application list" | JsonOther | NotJson

datatype js_error = TypeError string

definition generateApplicationId :: "nat \<Rightarrow> string \<Rightarrow> string" where
  "generateApplicationId now rnd =
     ''APP-'' @ toUpperCase (base36 now) @ ''-'' @ toUpperCase (take 4 (drop 2 rnd))"

definition empty_profile :: business_profile where
  "empty_profile = \<lparr>bp_legal_name = None, bp_trade_name = None, bp_license_number = None,
     bp_license_expiry = None, bp_jurisdiction = None, bp_entity_type = None,
     bp_incorporation_date = None\<rparr>"

definition empty_activity :: business_activity where
  "empty_activity = \<lparr>ba_primary_activity = None, ba_secondary_activities = None,
     ba_purpose_of_account = None, ba_source_of_funds = None\<rparr>"

definition empty_transfer :: transfer_behavior where
  "empty_transfer = \<lparr>tb_expected_monthly_volume_usd = None, tb_expected_monthly_transactions = None,
     tb_primary_transfer_purpose = None, tb_expected_counterparties = None,
     tb_high_risk_jurisdictions = None\<rparr>"

definition empty_ownership :: ownership_structure where
  "empty_ownership = \<lparr>os_is_subsidiary = None, os_parent_company_name = None,
     os_parent_company_jurisdiction = None, os_ownership_chart_uploaded = None\<rparr>"

text \<open>\<open>ms\<close> is \<open>Date.now()\<close>, \<open>stamp\<close> the ISO text of the same clock, \<open>rnd\<close> the base 36 text of
  \<open>Math.random()\<close>.\<close>

definition createNewApplication :: "nat \<Rightarrow> string \<Rightarrow> string \<Rightarrow> onboarding_method \<Rightarrow> application" where
  "createNewApplication ms rnd stamp m =
    \<lparr>application_id = generateApplicationId ms rnd, app_status = DRAFT, app_method = m,
     created_at = stamp, updated_at = stamp, current_step = 1, completed_steps = [],
     app_upload_mode = Some BULK, app_profile = empty_profile, addresses = [],
     business_contacts = [], app_activity = empty_activity, app_transfer = empty_transfer,
     app_ownership = empty_ownership, directors = [], signatories = [], ubos = [],
     documents = [], app_provenance = [],
     app_confirmations = \<lparr>confirm_accuracy = False, confirm_authority = False\<rparr>,
     ops_notes = [], app_api_result = None\<rparr>"

text \<open>\<open>None\<close> is JSON that is not an array: the array methods the callers use are then
  \<open>undefined\<close>, and calling them throws.\<close>

fun getAllApplications :: "slot \<Rightarrow> application list option" where
  "getAllApplications NoItem = Some []"
| "getAllApplications (JsonApps apps) = Some apps"
| "getAllApplications JsonOther = None"
| "getAllApplications NotJson = Some []"

definition getApplicationById :: "slot \<Rightarrow> string \<Rightarrow> js_error + application option" where
  "getApplicationById sl i =
     (case getAllApplications sl of
        None \<Rightarrow> Inl (TypeError ''apps.find is not a function'')
      | Some apps \<Rightarrow> Inr (find_by application_id i apps))"

fun findIndex :: "('a \<Rightarrow> bool) \<Rightarrow> 'a list \<Rightarrow> int" where
  "findIndex p [] = -1"
| "findIndex p (x # xs) = (if p x then 0 else let i = findIndex p xs in if i < 0 then -1 else i + 1)"

definition saveApplication :: "string \<Rightarrow> application \<Rightarrow> slot \<Rightarrow> js_error + slot" where
  "saveApplication now a sl =
     (case getAllApplications sl of
        None \<Rightarrow> Inl (TypeError ''apps.findIndex is not a function'')
      | Some apps \<Rightarrow>
          (let index = findIndex (\<lambda>b. application_id b = application_id a) apps;
               updatedApp = a\<lparr>updated_at := now\<rparr>
           in Inr (JsonApps (if index \<ge> 0 then apps[nat index := updatedApp]
                             else apps @ [updatedApp]))))"

section \<open>The store as a keyed store\<close>

lemma findIndex_ge: "findIndex p xs \<ge> -1"
  by (induction xs) (auto simp: Let_def)

lemma findIndex_neg_iff: "findIndex p xs < 0 \<longleftrightarrow> (\<forall>x\<in>set xs. \<not> p x)"
  by (induction xs) (auto simp: Let_def)

lemma find_by_upsert:
  "key y = k \<Longrightarrow>
   find_by key i (let n = findIndex (\<lambda>x. key x = k) xs in
                  if n \<ge> 0 then xs[nat n := y] else xs @ [y]) =
     (if i = k then Some y else find_by key i xs)"
proof (induction xs)
  case Nil
  then show ?case by simp
next
  case (Cons x xs)
  show ?case
  proof (cases "findIndex (\<lambda>x. key x = k) xs < 0")
    case True
    with Cons show ?thesis by (auto simp: Let_def)
  next
    case False
    then have "nat (findIndex (\<lambda>x. key x = k) xs + 1) = Suc (nat (findIndex (\<lambda>x. key x = k) xs))"
      by simp
    with False Cons show ?thesis by (auto simp: Let_def)
  qed
qed

text \<open>The two operations as total functions on a slot that does not make them throw.\<close>

definition slot_ok :: "slot \<Rightarrow> bool" where
  "slot_ok sl = (getAllApplications sl \<noteq> None)"

definition slot_load :: "slot \<Rightarrow> string \<Rightarrow> application option" where
  "slot_load sl i = (case getApplicationById sl i of Inl e \<Rightarrow> None | Inr r \<Rightarrow> r)"

definition slot_save :: "string \<Rightarrow> application \<Rightarrow> slot \<Rightarrow> slot" where
  "slot_save now a sl = (case saveApplication now a sl of Inl e \<Rightarrow> sl | Inr sl' \<Rightarrow> sl')"

text \<open>A save made at time \<open>now\<close> of an application that already carries that time.\<close>

definition slot_put :: "application \<Rightarrow> slot \<Rightarrow> slot" where
  "slot_put a sl = slot_save (updated_at a) a sl"

lemma slot_save_ok [simp]: "slot_ok sl \<Longrightarrow> slot_ok (slot_save now a sl)"
  by (auto simp: slot_ok_def slot_save_def saveApplication_def Let_def split: option.splits sum.splits)

lemma slot_load_save:
  assumes "slot_ok sl"
  shows "slot_load (slot_save now a sl) i =
           (if i = application_id a then Some (a\<lparr>updated_at := now\<rparr>) else slot_load sl i)"
proof -
  obtain apps where apps: "getAllApplications sl = Some apps"
    using assms by (auto simp: slot_ok_def)
  have "slot_load (slot_save now a sl) i =
      find_by application_id i
        (let n = findIndex (\<lambda>b. application_id b = application_id a) apps in
         if n \<ge> 0 then apps[nat n := a\<lparr>updated_at := now\<rparr>] else apps @ [a\<lparr>updated_at := now\<rparr>])"
    by (simp add: slot_load_def slot_save_def saveApplication_def getApplicationById_def apps Let_def)
  also have "\<dots> = (if i = application_id a then Some (a\<lparr>updated_at := now\<rparr>)
                    else find_by application_id i apps)"
    by (rule find_by_upsert) simp
  finally show ?thesis by (simp add: slot_load_def getApplicationById_def apps)
qed

lemma updated_at_same [simp]: "a\<lparr>updated_at := updated_at a\<rparr> = a"
  by simp

interpretation apps: keyed_store application_id slot_load slot_put slot_ok
  by unfold_locales (simp_all add: slot_put_def slot_load_save)

lemma getApplicationById_ok:
  "slot_ok sl \<Longrightarrow> getApplicationById sl i = Inr (slot_load sl i)"
  by (auto simp: slot_ok_def slot_load_def getApplicationById_def)

lemma saveApplication_ok:
  "slot_ok sl \<Longrightarrow> saveApplication now a sl = Inr (slot_save now a sl)"
  by (auto simp: slot_ok_def slot_save_def saveApplication_def Let_def split: option.splits)

lemma slot_save_distinct:
  assumes "getAllApplications sl = Some apps" "distinct (map application_id apps)"
    and "getAllApplications (slot_save now a sl) = Some apps'"
  shows "distinct (map application_id apps')"
proof -
  let ?n = "findIndex (\<lambda>b. application_id b = application_id a) apps"
  have at: "?n \<ge> 0 \<Longrightarrow> nat ?n < length apps \<and> application_id (apps ! nat ?n) = application_id a"
    by (induction apps) (auto simp: Let_def nat_add_distrib split: if_splits)
  have "map application_id (apps[nat ?n := a\<lparr>updated_at := now\<rparr>]) = map application_id apps" if "?n \<ge> 0"
    using at [OF that] by (simp add: map_update list_update_same_conv [THEN iffD2])
  moreover have "application_id a \<notin> set (map application_id apps)" if "\<not> ?n \<ge> 0"
    using that findIndex_neg_iff [of "\<lambda>b. application_id b = application_id a" apps] by auto
  ultimately show ?thesis
    using assms by (auto simp: slot_save_def saveApplication_def Let_def split: if_splits)
qed

section \<open>useApplication.ts\<close>

text \<open>The state of the hook and the storage it writes to. \<open>lastSaved\<close> is the time of the last
  save.\<close>

record hook =
  hk_application :: "application option"
  hk_loading :: bool
  hk_lastSaved :: "string option"
  hk_slot :: slot

text \<open>A callback returns the new state and the exception that leaves it, if any: the state
  updates made before the exception stay.\<close>

type_synonym hook_result = "js_error option \<times> hook"

definition hook_init :: "slot \<Rightarrow> hook" where
  "hook_init sl = \<lparr>hk_application = None, hk_loading = True, hk_lastSaved = None, hk_slot = sl\<rparr>"

text \<open>The effect that runs on mount and when \<open>applicationId\<close> changes.\<close>

definition loadEffect :: "string option \<Rightarrow> hook \<Rightarrow> hook_result" where
  "loadEffect aid h =
     (case aid of
        None \<Rightarrow> (None, h\<lparr>hk_loading := False\<rparr>)
      | Some i \<Rightarrow>
          if i = [] then (None, h\<lparr>hk_loading := False\<rparr>)
          else (case getApplicationById (hk_slot h) i of
                  Inl e \<Rightarrow> (Some e, h)
                | Inr app \<Rightarrow> (None, h\<lparr>hk_application := app, hk_loading := False\<rparr>)))"

text \<open>The common tail of \<open>updateApplication\<close> and \<open>updateField\<close>: set the state, save, note the
  time.\<close>

definition commit :: "string \<Rightarrow> application \<Rightarrow> hook \<Rightarrow> hook_result" where
  "commit now updatedApp h =
     (let h1 = h\<lparr>hk_application := Some updatedApp\<rparr> in
      case saveApplication now updatedApp (hk_slot h1) of
        Inl e \<Rightarrow> (Some e, h1)
      | Inr sl \<Rightarrow> (None, h1\<lparr>hk_slot := sl, hk_lastSaved := Some now\<rparr>))"

definition updateApplication ::
  "string \<Rightarrow> application option \<Rightarrow> partial_app \<Rightarrow> hook \<Rightarrow> hook_result" where
  "updateApplication now captured updates h =
     (case captured of None \<Rightarrow> (None, h) | Some a \<Rightarrow> commit now (apply_partial updates a) h)"

text \<open>\<open>[field]: value\<close>: the field and its value, one constructor per key of \<open>Application\<close> a page
  passes.\<close>

datatype field_value =
  F_profile business_profile | F_addresses "address list" | F_contacts "business_contact list"
| F_activity business_activity | F_transfer transfer_behavior | F_ownership ownership_structure
| F_directors "director list" | F_signatories "signatory list" | F_ubos "ubo list"
| F_documents "doc list" | F_confirmations submission_confirmations
| F_upload_mode upload_mode | F_status application_status

fun set_field :: "field_value \<Rightarrow> application \<Rightarrow> application" where
  "set_field (F_profile v) a = a\<lparr>app_profile := v\<rparr>"
| "set_field (F_addresses v) a = a\<lparr>addresses := v\<rparr>"
| "set_field (F_contacts v) a = a\<lparr>business_contacts := v\<rparr>"
| "set_field (F_activity v) a = a\<lparr>app_activity := v\<rparr>"
| "set_field (F_transfer v) a = a\<lparr>app_transfer := v\<rparr>"
| "set_field (F_ownership v) a = a\<lparr>app_ownership := v\<rparr>"
| "set_field (F_directors v) a = a\<lparr>directors := v\<rparr>"
| "set_field (F_signatories v) a = a\<lparr>signatories := v\<rparr>"
| "set_field (F_ubos v) a = a\<lparr>ubos := v\<rparr>"
| "set_field (F_documents v) a = a\<lparr>documents := v\<rparr>"
| "set_field (F_confirmations v) a = a\<lparr>app_confirmations := v\<rparr>"
| "set_field (F_upload_mode v) a = a\<lparr>app_upload_mode := Some v\<rparr>"
| "set_field (F_status v) a = a\<lparr>app_status := v\<rparr>"

definition updateField ::
  "string \<Rightarrow> application option \<Rightarrow> field_value \<Rightarrow> hook \<Rightarrow> hook_result" where
  "updateField now captured fv h =
     (case captured of None \<Rightarrow> (None, h) | Some a \<Rightarrow> commit now (set_field fv a) h)"

definition completeStep :: "string \<Rightarrow> application option \<Rightarrow> int \<Rightarrow> hook \<Rightarrow> hook_result" where
  "completeStep now captured stepId h =
     (case captured of
        None \<Rightarrow> (None, h)
      | Some a \<Rightarrow>
          (let completedSteps = (if stepId \<in> set (completed_steps a) then completed_steps a
                                 else completed_steps a @ [stepId])
           in updateApplication now captured
                (no_updates\<lparr>p_completed_steps := Some completedSteps\<rparr>) h))"

definition setCurrentStep :: "string \<Rightarrow> application option \<Rightarrow> int \<Rightarrow> hook \<Rightarrow> hook_result" where
  "setCurrentStep now captured stepId h =
     updateApplication now captured (no_updates\<lparr>p_current_step := Some stepId\<rparr>) h"

definition updateStatus ::
  "string \<Rightarrow> application option \<Rightarrow> application_status \<Rightarrow> hook \<Rightarrow> hook_result" where
  "updateStatus now captured st h =
     updateApplication now captured (no_updates\<lparr>p_status := Some st\<rparr>) h"

text \<open>\<open>useApplicationsList\<close>: the applications shown and the loading flag.\<close>

record apps_list =
  al_applications :: "application list option"
  al_loading :: bool

definition refreshList :: "slot \<Rightarrow> apps_list \<Rightarrow> apps_list" where
  "refreshList sl v = v\<lparr>al_applications := getAllApplications sl, al_loading := False\<rparr>"

section \<open>The hook as a machine\<close>

text \<open>The events of a page whose callbacks are those of the last render, each with its time.\<close>

datatype hook_event =
  Load "string option" | Update string partial_app | Field string field_value
| Complete string int | Goto string int | Status string application_status

fun hook_step :: "hook \<Rightarrow> hook_event \<Rightarrow> hook" where
  "hook_step h (Load aid) = snd (loadEffect aid h)"
| "hook_step h (Update now u) = snd (updateApplication now (hk_application h) u h)"
| "hook_step h (Field now fv) = snd (updateField now (hk_application h) fv h)"
| "hook_step h (Complete now n) = snd (completeStep now (hk_application h) n h)"
| "hook_step h (Goto now n) = snd (setCurrentStep now (hk_application h) n h)"
| "hook_step h (Status now s) = snd (updateStatus now (hk_application h) s h)"

text \<open>The two copies of an application agree but for the time of the save, which the hook does
  not put in its own copy.\<close>

definition same_app :: "application \<Rightarrow> application \<Rightarrow> bool" where
  "same_app a b = (a\<lparr>updated_at := []\<rparr> = b\<lparr>updated_at := []\<rparr>)"

definition hook_synced :: "hook \<Rightarrow> bool" where
  "hook_synced h =
     (slot_ok (hk_slot h) \<and>
      (case hk_application h of
         None \<Rightarrow> True
       | Some a \<Rightarrow> (case slot_load (hk_slot h) (application_id a) of
                     None \<Rightarrow> False | Some b \<Rightarrow> same_app a b)))"

lemma same_app_refl [simp]: "same_app a a" "same_app a (a\<lparr>updated_at := t\<rparr>)"
  by (simp_all add: same_app_def)

lemma slot_load_id: "slot_load sl i = Some a \<Longrightarrow> application_id a = i"
  by (auto simp: slot_load_def getApplicationById_def split: option.splits dest: find_by_SomeD)

lemma commit_synced: "slot_ok (hk_slot h) \<Longrightarrow> hook_synced (snd (commit now a h))"
  by (simp add: commit_def saveApplication_ok hook_synced_def slot_load_save)

lemma commit_ok:
  "slot_ok (hk_slot h) \<Longrightarrow> commit now a h =
     (None, h\<lparr>hk_application := Some a, hk_slot := slot_save now a (hk_slot h),
              hk_lastSaved := Some now\<rparr>)"
  by (simp add: commit_def saveApplication_ok)

lemma hook_synced_slot_ok: "hook_synced h \<Longrightarrow> slot_ok (hk_slot h)"
  by (simp add: hook_synced_def)

lemma updateApplication_synced:
  "hook_synced h \<Longrightarrow> hook_synced (snd (updateApplication now captured u h))"
  by (auto simp: updateApplication_def commit_synced hook_synced_slot_ok split: option.split)

lemma updateField_synced:
  "hook_synced h \<Longrightarrow> hook_synced (snd (updateField now captured fv h))"
  by (auto simp: updateField_def commit_synced hook_synced_slot_ok split: option.split)

lemma loadEffect_synced: "hook_synced h \<Longrightarrow> hook_synced (snd (loadEffect aid h))"
  by (auto simp: loadEffect_def hook_synced_def getApplicationById_ok slot_load_id
      split: option.splits)

lemma hook_step_synced: "hook_synced h \<Longrightarrow> hook_synced (hook_step h e)"
  by (cases e)
    (auto simp: updateApplication_synced updateField_synced loadEffect_synced completeStep_def
      setCurrentStep_def updateStatus_def Let_def split: option.split)

interpretation hook: machine hook_step hook_synced
  by unfold_locales (rule hook_step_synced)

section \<open>Properties\<close>

text \<open>Saving an application and reading any identifier back: the saved application, stamped
  with the time of the save, is what its own identifier returns, and every other identifier
  returns what it returned before. The save itself does not throw when the stored value is
  readable.\<close>

theorem save_then_get:
  assumes "getAllApplications sl \<noteq> None"
  shows "\<exists>sl'. saveApplication now a sl = Inr sl' \<and>
           getApplicationById sl' i =
             (if i = application_id a then Inr (Some (a\<lparr>updated_at := now\<rparr>))
              else getApplicationById sl i)"
proof -
  have ok: "slot_ok sl" using assms by (simp add: slot_ok_def)
  then have "getApplicationById (slot_save now a sl) i =
      (if i = application_id a then Inr (Some (a\<lparr>updated_at := now\<rparr>)) else getApplicationById sl i)"
    by (simp add: getApplicationById_ok slot_load_save)
  with saveApplication_ok [OF ok] show ?thesis by blast
qed

definition sample_app :: "string \<Rightarrow> application" where
  "sample_app i = (createNewApplication 0 ''0.abcd'' ''t0'' MANUAL)\<lparr>application_id := i\<rparr>"

lemma save_then_get_witness:
  "getAllApplications (JsonApps [sample_app ''A'']) \<noteq> None \<and>
   (\<exists>sl'. saveApplication ''t1'' (sample_app ''B'') (JsonApps [sample_app ''A'']) = Inr sl' \<and>
          getApplicationById sl' ''A'' = Inr (Some (sample_app ''A'')))"
  using save_then_get [of "JsonApps [sample_app ''A'']" "''t1''" "sample_app ''B''" "''A''"]
  by (auto simp: getApplicationById_def sample_app_def)

text \<open>C8. Whatever a page does with the callbacks of its last render (load an application,
  update it, set a field, complete a step, move to a step, change the status), the application
  in the hook's state and the one in storage are the same but for the time stamp: autosave
  loses nothing.\<close>

theorem autosave_in_step:
  assumes "getAllApplications sl \<noteq> None"
  shows "hook_synced (run hook_step (hook_init sl) es)"
  using hook.run_inv [of "hook_init sl" es] assms
  by (simp add: hook_init_def hook_synced_def slot_ok_def)

lemma autosave_in_step_witness:
  "getAllApplications (JsonApps [sample_app ''A'']) \<noteq> None \<and>
   hook_synced (run hook_step (hook_init (JsonApps [sample_app ''A'']))
     [Load (Some ''A''), Complete ''t1'' 1, Goto ''t2'' 2])"
  using autosave_in_step [of "JsonApps [sample_app ''A'']"
      "[Load (Some ''A''), Complete ''t1'' 1, Goto ''t2'' 2]"]
  by (simp del: run_simps)

text \<open>Two updates made by callbacks of the same render are not composed: both start from
  the captured application, so the storage ends with the second update only, whatever the
  first one changed. (An upload that finishes after an edit overwrites the edit.)\<close>

theorem stale_closure_loses_update:
  assumes "getAllApplications (hk_slot h) \<noteq> None" and "p_application_id v = None"
  shows "slot_load
           (hk_slot (snd (updateApplication t2 (Some a) v (snd (updateApplication t1 (Some a) u h)))))
           (application_id a) = Some ((apply_partial v a)\<lparr>updated_at := t2\<rparr>)"
proof -
  have "slot_ok (hk_slot h)" using assms(1) by (simp add: slot_ok_def)
  then show ?thesis
    by (simp add: updateApplication_def commit_ok slot_load_save apply_partial_id assms(2))
qed

lemma stale_closure_loses_update_witness:
  "\<exists>u v. apply_partial u (sample_app ''A'') \<noteq> sample_app ''A'' \<and>
     slot_load (hk_slot (snd (updateApplication ''t2'' (Some (sample_app ''A'')) v
        (snd (updateApplication ''t1'' (Some (sample_app ''A'')) u
           (hook_init (JsonApps [sample_app ''A''])))))))
       ''A'' = Some ((apply_partial v (sample_app ''A''))\<lparr>updated_at := ''t2''\<rparr>)"
proof -
  let ?u = "no_updates\<lparr>p_status := Some SUBMITTED\<rparr>" and ?v = "no_updates\<lparr>p_current_step := Some 2\<rparr>"
  have "apply_partial ?u (sample_app ''A'') \<noteq> sample_app ''A''"
    by (simp add: apply_partial_def no_updates_def sample_app_def createNewApplication_def)
  moreover have "application_id (sample_app ''A'') = ''A''"
    by (simp add: sample_app_def)
  ultimately show ?thesis
    using stale_closure_loses_update
      [of "hook_init (JsonApps [sample_app ''A''])" ?v "''t2''" "sample_app ''A''" "''t1''" ?u]
    by (auto simp: hook_init_def no_updates_def)
qed

end
