(* ===== verification/Doc_Extraction.thy ===== *)
theory Doc_Extraction
  imports Documents Onboarding_Store
begin

text \<open>
  \<open>features/documents/extraction.ts\<close>: the request to the document parser, and the mapping of its
  answer to an update of the application.

  The parser is a service: its HTTP response is an argument. The data of a result is JSON the
  code casts to the types it expects; a value of another type is read as absent
  (\<open>Js_Object\<close>). \<open>Math.random().toString(36)\<close> is a stream of strings, one per call; the call
  for the \<open>j\<close>-th identifier made for the \<open>i\<close>-th result is \<open>rnd i j\<close>.
\<close>

section \<open>The request\<close>

datatype server_doc_type = S_passport | S_national_id | S_bank_statement | S_memorandum | S_custom

fun DOC_TYPE_MAP :: "document_type \<Rightarrow> server_doc_type" where
  "DOC_TYPE_MAP PASSPORT = S_passport"
| "DOC_TYPE_MAP EMIRATES_ID = S_national_id"
| "DOC_TYPE_MAP BANK_STATEMENT = S_bank_statement"
| "DOC_TYPE_MAP MEMORANDUM_OF_ASSOCIATION = S_memorandum"
| "DOC_TYPE_MAP TRADE_LICENSE = S_custom"
| "DOC_TYPE_MAP CERTIFICATE_OF_INCORPORATION = S_custom"
| "DOC_TYPE_MAP PROOF_OF_ADDRESS = S_custom"
| "DOC_TYPE_MAP OTHER = S_custom"

definition string_prop :: "string \<Rightarrow> string \<Rightarrow> string \<times> json" where
  "string_prop k d = (k, JObj [(''type'', JStr ''string''), (''description'', JStr d)])"

definition object_schema :: "(string \<times> json) list \<Rightarrow> json" where
  "object_schema props = JObj [(''type'', JStr ''object''), (''properties'', JObj props)]"

definition TRADE_LICENSE_SCHEMA :: json where
  "TRADE_LICENSE_SCHEMA = object_schema
     [string_prop ''legal_name'' ''Full legal company name'',
      string_prop ''trade_name'' ''Trading name / DBA'',
      string_prop ''license_number'' ''License number'',
      string_prop ''license_expiry'' ''Expiry date YYYY-MM-DD'',
      string_prop ''jurisdiction'' ''Issuing authority / jurisdiction'',
      string_prop ''entity_type'' ''Legal form: llc, sole_prop, branch, fze, fzco'',
      (''activities'', JObj [(''type'', JStr ''array''),
                         (''items'', JObj [(''type'', JStr ''string'')]),
                         (''description'', JStr ''Licensed business activities'')])]"

definition COI_SCHEMA :: json where
  "COI_SCHEMA = object_schema
     [string_prop ''company_name'' ''Full legal company name'',
      string_prop ''incorporation_date'' ''Date of incorporation YYYY-MM-DD'',
      string_prop ''jurisdiction'' ''Jurisdiction of incorporation'',
      string_prop ''registration_number'' ''Registration / company number'']"

definition POA_SCHEMA :: json where
  "POA_SCHEMA = object_schema
     [string_prop ''line1'' ''Street address line 1'',
      string_prop ''line2'' ''Street address line 2'',
      string_prop ''city'' ''City'',
      string_prop ''emirate'' ''State / emirate / region'',
      string_prop ''country'' ''Country'',
      string_prop ''postal_code'' ''Postal / ZIP code'']"

fun CUSTOM_SCHEMAS :: "document_type \<Rightarrow> (json \<times> string) option" where
  "CUSTOM_SCHEMAS TRADE_LICENSE = Some (TRADE_LICENSE_SCHEMA,
     ''Extract all business license information from this trade license document. '' @
     ''entity_type should be one of: llc, sole_prop, branch, fze, fzco. '' @
     ''Dates in YYYY-MM-DD. Use null for fields not found.'')"
| "CUSTOM_SCHEMAS CERTIFICATE_OF_INCORPORATION = Some (COI_SCHEMA,
     ''Extract incorporation details from this certificate. Dates in YYYY-MM-DD. Use null for fields not found.'')"
| "CUSTOM_SCHEMAS PROOF_OF_ADDRESS = Some (POA_SCHEMA,
     ''Extract the address from this proof of address document (utility bill, bank letter, etc). Use null for fields not found.'')"
| "CUSTOM_SCHEMAS _ = None"

record usage =
  us_input_tokens :: int
  us_output_tokens :: int
  us_cost_usd :: rat

record extraction_result =
  er_filename :: string
  er_document_type :: string
  er_success :: bool
  er_data :: "json option"
  er_error :: "string option"
  er_usage :: "usage option"

text \<open>The text of a data URL after its first comma; the whole text when it has none.\<close>

definition fileToBase64 :: "upload_file \<Rightarrow> string option" where
  "fileToBase64 file =
     map_option (\<lambda>result.
         (let comma = findIndex (\<lambda>c. c = CHR '','') result
          in if comma \<ge> 0 then drop (nat (comma + 1)) result else result)) (f_dataurl file)"

record parse_file =
  pf_name :: string
  pf_content_type :: string
  pf_document_type :: "server_doc_type option"
  pf_data_base64 :: string
  pf_output_schema :: "json option"
  pf_prompt :: "string option"

text \<open>One element of the payload; \<open>docTypes[i]\<close> past the end is \<open>undefined\<close>.\<close>

definition parse_entry :: "upload_file \<Rightarrow> document_type option \<Rightarrow> parse_file option" where
  "parse_entry file dt =
     map_option (\<lambda>b64.
       (let serverType = map_option DOC_TYPE_MAP dt;
            custom = Option.bind dt CUSTOM_SCHEMAS;
            use = serverType = Some S_custom
        in \<lparr>pf_name = f_name file,
            pf_content_type = js_or_str (Some (f_type file)) ''application/octet-stream'',
            pf_document_type = serverType, pf_data_base64 = b64,
            pf_output_schema = (if use then map_option fst custom else None),
            pf_prompt = (if use then map_option snd custom else None)\<rparr>)) (fileToBase64 file)"

fun parse_payload :: "upload_file list \<Rightarrow> document_type list \<Rightarrow> parse_file option list" where
  "parse_payload [] dts = []"
| "parse_payload (f # fs) [] = parse_entry f None # parse_payload fs []"
| "parse_payload (f # fs) (d # dts) = parse_entry f (Some d) # parse_payload fs dts"

record http_response =
  resp_ok :: bool
  resp_status :: nat
  resp_text :: string
  resp_results :: "extraction_result list option"

text \<open>\<open>post\<close> is the call of the parser: \<open>None\<close> when \<open>fetch\<close> itself rejects. A rejected promise is
  \<open>Inl\<close> with the message of the error; \<open>Promise.all\<close> rejects when one file cannot be read.\<close>

definition extractDocuments ::
  "(parse_file list \<Rightarrow> http_response option) \<Rightarrow> upload_file list \<Rightarrow> document_type list \<Rightarrow>
   string + extraction_result list" where
  "extractDocuments post files docTypes =
     (let payload = parse_payload files docTypes in
      if None \<in> set payload then Inl ''read error''
      else (case post (map the payload) of
              None \<Rightarrow> Inl ''Failed to fetch''
            | Some res \<Rightarrow>
                if \<not> resp_ok res then
                  Inl (''Extraction failed ('' @ nat_to_string (resp_status res) @ ''): '' @ resp_text res)
                else (case resp_results res of
                        None \<Rightarrow> Inl ''invalid JSON''
                      | Some rs \<Rightarrow> Inr rs)))"

section \<open>The mappers\<close>

definition randomId :: "string \<Rightarrow> string \<Rightarrow> string" where
  "randomId prefix r = prefix @ ''-'' @ take 6 (drop 2 r)"

abbreviation str_of :: "json \<Rightarrow> string \<Rightarrow> string option" where
  "str_of d k \<equiv> as_string (jget (Some d) k)"

definition memo_address :: "string \<Rightarrow> string \<Rightarrow> address" where
  "memo_address i line = \<lparr>addr_id = i, addr_type = REGISTERED, addr_line1 = line,
     addr_line2 = None, addr_city = [], addr_emirate = None, addr_country = ''AE'',
     addr_postal_code = None\<rparr>"

definition memo_director :: "(nat \<Rightarrow> string) \<Rightarrow> nat \<Rightarrow> json \<Rightarrow> director" where
  "memo_director rnd j d =
     \<lparr>dir_id = randomId ''dir'' (rnd j),
      dir_full_name = js_or_str (str_of d ''name'') [],
      dir_nationality = js_or_str (str_of d ''nationality'') [],
      dir_date_of_birth = [], dir_passport_number = [], dir_email = [], dir_phone = [],
      dir_is_signatory =
        nullish (map_option (\<lambda>r. includes_str (toLowerCase r) ''chairman'') (str_of d ''role'')) False\<rparr>"

definition share_of :: "json \<Rightarrow> rat option" where
  "share_of s = as_number (jget (Some s) ''share_percentage'')"

definition memo_ubo :: "(nat \<Rightarrow> string) \<Rightarrow> nat \<Rightarrow> json \<Rightarrow> ubo" where
  "memo_ubo rnd j s =
     \<lparr>ubo_id = randomId ''ubo'' (rnd j),
      ubo_full_name = js_or_str (str_of s ''name'') [],
      ubo_nationality = js_or_str (str_of s ''nationality'') [],
      ubo_date_of_birth = [],
      ubo_ownership_percentage = nullish (share_of s) 0,
      ubo_passport_number = [], ubo_residential_address = []\<rparr>"

fun map_from :: "(nat \<Rightarrow> 'a \<Rightarrow> 'b) \<Rightarrow> nat \<Rightarrow> 'a list \<Rightarrow> 'b list" where
  "map_from f j [] = []"
| "map_from f j (x # xs) = f j x # map_from f (j + 1) xs"

text \<open>The stream of random numbers of one call: the address takes number 0, the directors the
  numbers from 1, the owners those after the directors.\<close>

definition mapMemorandum :: "(nat \<Rightarrow> string) \<Rightarrow> json \<Rightarrow> application \<Rightarrow> partial_app" where
  "mapMemorandum rnd data app =
     (let shareholders = as_array (jget (Some data) ''shareholders'');
          dirs = as_array (jget (Some data) ''directors'');
          activities = as_array (jget (Some data) ''business_activities'')
      in no_updates\<lparr>
        p_profile := Some ((app_profile app)\<lparr>
          bp_legal_name := js_or (str_of data ''company_name'') (bp_legal_name (app_profile app)),
          bp_incorporation_date :=
            js_or (str_of data ''date_of_formation'') (bp_incorporation_date (app_profile app))\<rparr>),
        p_addresses := (case str_of data ''registered_address'' of
            Some line \<Rightarrow> if line \<noteq> [] \<and> addresses app = []
                         then Some [memo_address (randomId ''addr'' (rnd 0)) line] else None
          | None \<Rightarrow> None),
        p_directors := (case dirs of
            Some ds \<Rightarrow> if ds \<noteq> [] \<and> directors app = []
                       then Some (map_from (memo_director rnd) 1 ds) else None
          | None \<Rightarrow> None),
        p_ubos := (case shareholders of
            Some ss \<Rightarrow> if ss \<noteq> [] \<and> ubos app = []
                       then Some (map_from (memo_ubo rnd) (1 + length (nullish dirs []))
                         (filter (\<lambda>s. case share_of s of None \<Rightarrow> False | Some p \<Rightarrow> p \<ge> 10) ss))
                       else None
          | None \<Rightarrow> None),
        p_activity := (case activities of
            Some (a # as) \<Rightarrow> Some ((app_activity app)\<lparr>
              ba_primary_activity := as_string (Some a),
              ba_secondary_activities :=
                Some (map (\<lambda>v. js_or_str (as_string (Some v)) []) (take 3 as))\<rparr>)
          | _ \<Rightarrow> None)\<rparr>)"

definition person_name :: "json \<Rightarrow> string" where
  "person_name personal =
     js_or_str (str_of personal ''full_name'')
       (join '' '' (filter (\<lambda>s. s \<noteq> [])
          [js_or_str (str_of personal ''first_name'') [], js_or_str (str_of personal ''last_name'') []]))"

definition find_director :: "string \<Rightarrow> application \<Rightarrow> director option" where
  "find_director fullName app =
     find_by (\<lambda>d. toLowerCase (dir_full_name d)) (toLowerCase fullName) (directors app)"

definition mapPassport :: "(nat \<Rightarrow> string) \<Rightarrow> json \<Rightarrow> application \<Rightarrow> partial_app" where
  "mapPassport rnd data app =
     (let docInfo = as_object (jget (Some data) ''document_info'') in
      case as_object (jget (Some data) ''personal_info'') of
        None \<Rightarrow> no_updates
      | Some personal \<Rightarrow>
          (let fullName = person_name personal;
               id_number = as_string (jget docInfo ''id_number'')
           in case find_director fullName app of
                Some existing \<Rightarrow>
                  no_updates\<lparr>p_directors := Some (update_by dir_id (dir_id existing)
                    (\<lambda>d. d\<lparr>dir_nationality := js_or_str (str_of personal ''nationality'') (dir_nationality d),
                           dir_date_of_birth := js_or_str (str_of personal ''date_of_birth'') (dir_date_of_birth d),
                           dir_passport_number := js_or_str id_number (dir_passport_number d)\<rparr>)
                    (directors app))\<rparr>
              | None \<Rightarrow>
                  if directors app = [] then
                    no_updates\<lparr>p_directors := Some
                      [\<lparr>dir_id = randomId ''dir'' (rnd 0), dir_full_name = fullName,
                        dir_nationality = js_or_str (str_of personal ''nationality'') [],
                        dir_date_of_birth = js_or_str (str_of personal ''date_of_birth'') [],
                        dir_passport_number = js_or_str id_number [],
                        dir_email = [],
                        dir_phone = js_or_str (str_of personal ''phone'') [],
                        dir_is_signatory = True\<rparr>]\<rparr>
                  else no_updates))"

definition mapNationalId :: "(nat \<Rightarrow> string) \<Rightarrow> json \<Rightarrow> application \<Rightarrow> partial_app" where
  "mapNationalId rnd data app =
     (case as_object (jget (Some data) ''personal_info'') of
        None \<Rightarrow> no_updates
      | Some personal \<Rightarrow>
          (case find_director (person_name personal) app of
             Some existing \<Rightarrow>
               if (case jget (Some personal) ''address'' of None \<Rightarrow> False | Some v \<Rightarrow> json_truthy v)
               then no_updates\<lparr>p_directors := Some (update_by dir_id (dir_id existing)
                      (\<lambda>d. d\<lparr>dir_nationality := js_or_str (str_of personal ''nationality'') (dir_nationality d)\<rparr>)
                      (directors app))\<rparr>
               else no_updates
           | None \<Rightarrow> no_updates))"

text \<open>\<open>Math.round\<close>: to the nearest integer, a half upwards.\<close>

definition math_round :: "rat \<Rightarrow> rat" where
  "math_round x = of_int \<lfloor>x + 1 / 2\<rfloor>"

definition num_truthy :: "rat option \<Rightarrow> bool" where
  "num_truthy x = (case x of None \<Rightarrow> False | Some n \<Rightarrow> n \<noteq> 0)"

definition num_or :: "rat option \<Rightarrow> rat option \<Rightarrow> rat option" where
  "num_or x y = (if num_truthy x then x else y)"

definition mapBankStatement :: "(nat \<Rightarrow> string) \<Rightarrow> json \<Rightarrow> application \<Rightarrow> partial_app" where
  "mapBankStatement rnd data app =
     (let account = as_object (jget (Some data) ''account'');
          totalCredits = as_number (jget (Some data) ''total_credits'');
          totalDebits = as_number (jget (Some data) ''total_debits'');
          tb = app_transfer app;
          updates =
            (if num_truthy totalCredits \<or> num_truthy totalDebits then
               no_updates\<lparr>p_transfer := Some (tb\<lparr>
                 tb_expected_monthly_volume_usd :=
                   Some (math_round (nullish (num_or totalCredits totalDebits) 0)),
                 tb_expected_monthly_transactions :=
                   num_or (map_option (\<lambda>ts. of_nat (length ts)) (as_array (jget (Some data) ''transactions'')))
                          (tb_expected_monthly_transactions tb),
                 tb_primary_transfer_purpose :=
                   js_or (tb_primary_transfer_purpose tb) (Some ''Operating expenses & vendor payments'')\<rparr>)\<rparr>
             else no_updates)
      in if truthy (as_string (jget account ''account_holder'')) \<and> \<not> truthy (bp_legal_name (app_profile app))
         then updates\<lparr>p_profile := Some ((app_profile app)\<lparr>
                bp_legal_name := as_string (jget account ''account_holder'')\<rparr>)\<rparr>
         else updates)"

definition mapTradeLicense :: "(nat \<Rightarrow> string) \<Rightarrow> json \<Rightarrow> application \<Rightarrow> partial_app" where
  "mapTradeLicense rnd data app =
     no_updates\<lparr>p_profile := Some ((app_profile app)\<lparr>
       bp_legal_name := js_or (str_of data ''legal_name'') (bp_legal_name (app_profile app)),
       bp_trade_name := js_or (str_of data ''trade_name'') (bp_trade_name (app_profile app)),
       bp_license_number := js_or (str_of data ''license_number'') (bp_license_number (app_profile app)),
       bp_license_expiry := js_or (str_of data ''license_expiry'') (bp_license_expiry (app_profile app)),
       bp_entity_type := js_or (str_of data ''entity_type'') (bp_entity_type (app_profile app))\<rparr>)\<rparr>"

definition mapCoi :: "(nat \<Rightarrow> string) \<Rightarrow> json \<Rightarrow> application \<Rightarrow> partial_app" where
  "mapCoi rnd data app =
     no_updates\<lparr>p_profile := Some ((app_profile app)\<lparr>
       bp_legal_name := js_or (str_of data ''company_name'') (bp_legal_name (app_profile app)),
       bp_incorporation_date :=
         js_or (str_of data ''incorporation_date'') (bp_incorporation_date (app_profile app))\<rparr>)\<rparr>"

definition mapProofOfAddress :: "(nat \<Rightarrow> string) \<Rightarrow> json \<Rightarrow> application \<Rightarrow> partial_app" where
  "mapProofOfAddress rnd data app =
     (if addresses app \<noteq> [] then no_updates
      else no_updates\<lparr>p_addresses := Some
        [\<lparr>addr_id = randomId ''addr'' (rnd 0), addr_type = REGISTERED,
          addr_line1 = js_or_str (str_of data ''line1'') [],
          addr_line2 = js_or (str_of data ''line2'') None,
          addr_city = js_or_str (str_of data ''city'') [],
          addr_emirate = js_or (str_of data ''emirate'') None,
          addr_country = js_or_str (str_of data ''country'') ''AE'',
          addr_postal_code = js_or (str_of data ''postal_code'') None\<rparr>]\<rparr>)"

fun MAPPERS :: "document_type \<Rightarrow> (nat \<Rightarrow> string) \<Rightarrow> json \<Rightarrow> application \<Rightarrow> partial_app" where
  "MAPPERS MEMORANDUM_OF_ASSOCIATION = mapMemorandum"
| "MAPPERS PASSPORT = mapPassport"
| "MAPPERS EMIRATES_ID = mapNationalId"
| "MAPPERS BANK_STATEMENT = mapBankStatement"
| "MAPPERS TRADE_LICENSE = mapTradeLicense"
| "MAPPERS CERTIFICATE_OF_INCORPORATION = mapCoi"
| "MAPPERS PROOF_OF_ADDRESS = mapProofOfAddress"
| "MAPPERS OTHER = (\<lambda>rnd data app. no_updates)"

section \<open>deepMerge and the loop over the results\<close>

definition spread_profile :: "business_profile \<Rightarrow> business_profile \<Rightarrow> business_profile" where
  "spread_profile a b =
     \<lparr>bp_legal_name = later (bp_legal_name a) (bp_legal_name b),
      bp_trade_name = later (bp_trade_name a) (bp_trade_name b),
      bp_license_number = later (bp_license_number a) (bp_license_number b),
      bp_license_expiry = later (bp_license_expiry a) (bp_license_expiry b),
      bp_jurisdiction = later (bp_jurisdiction a) (bp_jurisdiction b),
      bp_entity_type = later (bp_entity_type a) (bp_entity_type b),
      bp_incorporation_date = later (bp_incorporation_date a) (bp_incorporation_date b)\<rparr>"

definition spread_activity :: "business_activity \<Rightarrow> business_activity \<Rightarrow> business_activity" where
  "spread_activity a b =
     \<lparr>ba_primary_activity = later (ba_primary_activity a) (ba_primary_activity b),
      ba_secondary_activities = later (ba_secondary_activities a) (ba_secondary_activities b),
      ba_purpose_of_account = later (ba_purpose_of_account a) (ba_purpose_of_account b),
      ba_source_of_funds = later (ba_source_of_funds a) (ba_source_of_funds b)\<rparr>"

definition spread_transfer :: "transfer_behavior \<Rightarrow> transfer_behavior \<Rightarrow> transfer_behavior" where
  "spread_transfer a b =
     \<lparr>tb_expected_monthly_volume_usd =
        later (tb_expected_monthly_volume_usd a) (tb_expected_monthly_volume_usd b),
      tb_expected_monthly_transactions =
        later (tb_expected_monthly_transactions a) (tb_expected_monthly_transactions b),
      tb_primary_transfer_purpose =
        later (tb_primary_transfer_purpose a) (tb_primary_transfer_purpose b),
      tb_expected_counterparties =
        later (tb_expected_counterparties a) (tb_expected_counterparties b),
      tb_high_risk_jurisdictions =
        later (tb_high_risk_jurisdictions a) (tb_high_risk_jurisdictions b)\<rparr>"

definition spread_ownership :: "ownership_structure \<Rightarrow> ownership_structure \<Rightarrow> ownership_structure" where
  "spread_ownership a b =
     \<lparr>os_is_subsidiary = later (os_is_subsidiary a) (os_is_subsidiary b),
      os_parent_company_name = later (os_parent_company_name a) (os_parent_company_name b),
      os_parent_company_jurisdiction =
        later (os_parent_company_jurisdiction a) (os_parent_company_jurisdiction b),
      os_ownership_chart_uploaded =
        later (os_ownership_chart_uploaded a) (os_ownership_chart_uploaded b)\<rparr>"

text \<open>A key of \<open>b\<close> replaces that of \<open>a\<close>; when both are objects they are spread.\<close>

definition merge_key :: "('a \<Rightarrow> 'a \<Rightarrow> 'a) \<Rightarrow> 'a option \<Rightarrow> 'a option \<Rightarrow> 'a option" where
  "merge_key spread x y =
     (case y of None \<Rightarrow> x
      | Some v \<Rightarrow> (case x of None \<Rightarrow> Some v | Some u \<Rightarrow> Some (spread u v)))"

definition deepMerge :: "partial_app \<Rightarrow> partial_app \<Rightarrow> partial_app" where
  "deepMerge a b =
     \<lparr>p_application_id = later (p_application_id a) (p_application_id b),
      p_status = later (p_status a) (p_status b),
      p_method = later (p_method a) (p_method b),
      p_current_step = later (p_current_step a) (p_current_step b),
      p_completed_steps = later (p_completed_steps a) (p_completed_steps b),
      p_upload_mode = later (p_upload_mode a) (p_upload_mode b),
      p_profile = merge_key spread_profile (p_profile a) (p_profile b),
      p_addresses = later (p_addresses a) (p_addresses b),
      p_contacts = later (p_contacts a) (p_contacts b),
      p_activity = merge_key spread_activity (p_activity a) (p_activity b),
      p_transfer = merge_key spread_transfer (p_transfer a) (p_transfer b),
      p_ownership = merge_key spread_ownership (p_ownership a) (p_ownership b),
      p_directors = later (p_directors a) (p_directors b),
      p_signatories = later (p_signatories a) (p_signatories b),
      p_ubos = later (p_ubos a) (p_ubos b),
      p_documents = later (p_documents a) (p_documents b),
      p_provenance = merge_key obj_spread (p_provenance a) (p_provenance b),
      p_confirmations = merge_key (\<lambda>u v. v) (p_confirmations a) (p_confirmations b),
      p_ops_notes = later (p_ops_notes a) (p_ops_notes b),
      p_api_result = merge_key (\<lambda>u v. v) (p_api_result a) (p_api_result b)\<rparr>"

text \<open>\<open>None\<close> is the TypeError of calling \<open>MAPPERS[undefined]\<close> when a successful result has no
  document type.\<close>

fun extraction_loop ::
  "(nat \<Rightarrow> nat \<Rightarrow> string) \<Rightarrow> nat \<Rightarrow> extraction_result list \<Rightarrow> document_type list \<Rightarrow> application \<Rightarrow>
   partial_app \<Rightarrow> partial_app option" where
  "extraction_loop rnd i [] dts app merged = Some merged"
| "extraction_loop rnd i (r # rs) dts app merged =
     (case (if er_success r then er_data r else None) of
        None \<Rightarrow> extraction_loop rnd (i + 1) rs (tl dts) app merged
      | Some data \<Rightarrow>
          (case dts of
             [] \<Rightarrow> None
           | docType # _ \<Rightarrow>
               (let partial = MAPPERS docType (rnd i) data (apply_partial merged app)
                in extraction_loop rnd (i + 1) rs (tl dts) app (deepMerge merged partial))))"

definition mapExtractionToApplication ::
  "(nat \<Rightarrow> nat \<Rightarrow> string) \<Rightarrow> extraction_result list \<Rightarrow> document_type list \<Rightarrow> application \<Rightarrow>
   partial_app option" where
  "mapExtractionToApplication rnd results docTypes app =
     extraction_loop rnd 0 results docTypes app no_updates"

section \<open>The reference: one mapper after the other on the application itself\<close>

fun apply_results ::
  "(nat \<Rightarrow> nat \<Rightarrow> string) \<Rightarrow> nat \<Rightarrow> extraction_result list \<Rightarrow> document_type list \<Rightarrow> application \<Rightarrow>
   application" where
  "apply_results rnd i [] dts app = app"
| "apply_results rnd i (r # rs) dts app =
     (case (if er_success r then er_data r else None) of
        None \<Rightarrow> apply_results rnd (i + 1) rs (tl dts) app
      | Some data \<Rightarrow>
          (case dts of
             [] \<Rightarrow> app
           | dt # _ \<Rightarrow> apply_results rnd (i + 1) rs (tl dts)
                          (apply_partial (MAPPERS dt (rnd i) data app) app)))"

lemma merge_key_simps [simp]:
  "merge_key f x None = x" "merge_key f None y = y" "merge_key f (Some u) (Some v) = Some (f u v)"
  by (simp_all add: merge_key_def split: option.split)

text \<open>An update \<open>extends\<close> an application when the objects it sets keep every field the application
  has: its keys are those of \<open>{ ...app.object, ... }\<close>.\<close>

definition covers :: "'a option \<Rightarrow> 'a option \<Rightarrow> bool" where
  "covers x y = (x = None \<or> y \<noteq> None)"

definition extends :: "application \<Rightarrow> partial_app \<Rightarrow> bool" where
  "extends app u =
     ((case p_profile u of None \<Rightarrow> True
       | Some v \<Rightarrow> spread_profile (app_profile app) v = v) \<and>
      (case p_activity u of None \<Rightarrow> True
       | Some v \<Rightarrow> spread_activity (app_activity app) v = v) \<and>
      (case p_transfer u of None \<Rightarrow> True
       | Some v \<Rightarrow> spread_transfer (app_transfer app) v = v) \<and>
      p_ownership u = None \<and> p_provenance u = None)"

lemma apply_deepMerge:
  assumes "extends (apply_partial m app) u"
  shows "apply_partial (deepMerge m u) app = apply_partial u (apply_partial m app)"
proof -
  have *: "nullish (later x y) a = nullish y (nullish x a)" for x y :: "'b option" and a
    by (cases y) simp_all
  have **: "later a (later x y) = later (later a x) y" for x y a :: "'b option"
    by (cases y) simp_all
  have key: "nullish (merge_key f x y) a = nullish y (nullish x a)"
    if "\<And>v. y = Some v \<Longrightarrow> f (nullish x a) v = v" for f :: "'b \<Rightarrow> 'b \<Rightarrow> 'b" and x y a
    using that by (cases x; cases y) simp_all
  have key': "later a (merge_key (\<lambda>u v. v) x y) = later (later a x) y" for x y a :: "'b option"
    by (cases x; cases y) simp_all
  from assms have
    "\<And>v. p_profile u = Some v \<Longrightarrow> spread_profile (nullish (p_profile m) (app_profile app)) v = v"
    "\<And>v. p_activity u = Some v \<Longrightarrow> spread_activity (nullish (p_activity m) (app_activity app)) v = v"
    "\<And>v. p_transfer u = Some v \<Longrightarrow> spread_transfer (nullish (p_transfer m) (app_transfer app)) v = v"
    "p_ownership u = None" "p_provenance u = None"
    by (auto simp: extends_def apply_partial_def)
  then show ?thesis
    by (simp add: apply_partial_def deepMerge_def * ** key key')
qed

lemma no_updates_sel [simp]:
  "p_application_id no_updates = None" "p_status no_updates = None" "p_method no_updates = None"
  "p_current_step no_updates = None" "p_completed_steps no_updates = None"
  "p_upload_mode no_updates = None" "p_profile no_updates = None" "p_addresses no_updates = None"
  "p_contacts no_updates = None" "p_activity no_updates = None" "p_transfer no_updates = None"
  "p_ownership no_updates = None" "p_directors no_updates = None" "p_signatories no_updates = None"
  "p_ubos no_updates = None" "p_documents no_updates = None" "p_provenance no_updates = None"
  "p_confirmations no_updates = None" "p_ops_notes no_updates = None" "p_api_result no_updates = None"
  by (simp_all add: no_updates_def)

lemma later_self [simp]: "later x x = x"
  by (cases x) simp_all

lemma later_js_or [simp]: "later y (js_or x y) = js_or x y"
  by (cases x; cases y) simp_all

lemma later_num_or [simp]: "later y (num_or x y) = num_or x y"
  by (cases x; cases y) (simp_all add: num_or_def num_truthy_def)

lemma js_or_some_other [simp]: "later x (js_or x (Some v)) = js_or x (Some v)"
  by (cases x) simp_all

text \<open>Every field a mapper sets in an object is \<open>data || app.object.field\<close> or replaces a field by a
  defined value, so no mapper removes one; the two nullable overrides are the primary activity
  and the legal name, set from defined values only.\<close>

definition activities_ok :: "json \<Rightarrow> bool" where
  "activities_ok data =
     (case as_array (jget (Some data) ''business_activities'') of
        Some (a # as) \<Rightarrow> as_string (Some a) \<noteq> None | _ \<Rightarrow> True)"

lemma extends_no_updates [simp]: "extends app no_updates"
  by (simp add: extends_def)

lemma extends_lists:
  "extends app (u\<lparr>p_addresses := x\<rparr>) = extends app u"
  "extends app (u\<lparr>p_directors := y\<rparr>) = extends app u"
  "extends app (u\<lparr>p_ubos := z\<rparr>) = extends app u"
  by (simp_all add: extends_def)

lemma memorandum_sel:
  "p_profile (mapMemorandum rnd data app) = Some ((app_profile app)\<lparr>
     bp_legal_name := js_or (str_of data ''company_name'') (bp_legal_name (app_profile app)),
     bp_incorporation_date :=
       js_or (str_of data ''date_of_formation'') (bp_incorporation_date (app_profile app))\<rparr>)"
  "p_activity (mapMemorandum rnd data app) =
     (case as_array (jget (Some data) ''business_activities'') of
        Some (a # as) \<Rightarrow> Some ((app_activity app)\<lparr>
          ba_primary_activity := as_string (Some a),
          ba_secondary_activities :=
            Some (map (\<lambda>v. js_or_str (as_string (Some v)) []) (take 3 as))\<rparr>)
      | _ \<Rightarrow> None)"
  "p_transfer (mapMemorandum rnd data app) = None"
  "p_ownership (mapMemorandum rnd data app) = None"
  "p_provenance (mapMemorandum rnd data app) = None"
  by (simp_all add: mapMemorandum_def Let_def)

lemma memorandum_extends:
  assumes "activities_ok data"
  shows "extends app (mapMemorandum rnd data app)"
proof -
  have "spread_activity (app_activity app) v = v" if "p_activity (mapMemorandum rnd data app) = Some v" for v
    using that assms
    by (auto simp: memorandum_sel activities_ok_def spread_activity_def split: option.splits list.splits)
  then show ?thesis
    by (simp add: extends_def memorandum_sel(1,3,4,5) spread_profile_def split: option.split)
qed

lemma mapper_extends:
  assumes "dt = MEMORANDUM_OF_ASSOCIATION \<Longrightarrow> activities_ok data"
  shows "extends app (MAPPERS dt rnd data app)"
proof (cases dt)
  case MEMORANDUM_OF_ASSOCIATION
  with assms show ?thesis by (simp add: memorandum_extends)
next
  case PASSPORT
  then show ?thesis by (auto simp: mapPassport_def Let_def extends_lists split: option.split)
next
  case EMIRATES_ID
  then show ?thesis by (auto simp: mapNationalId_def Let_def extends_lists split: option.split)
next
  case BANK_STATEMENT
  have "later x s = s" if "truthy s" for x s using that by (cases s) simp_all
  with BANK_STATEMENT show ?thesis
    by (auto simp: mapBankStatement_def Let_def extends_def spread_profile_def spread_transfer_def)
next
  case TRADE_LICENSE
  then show ?thesis by (simp add: mapTradeLicense_def extends_def spread_profile_def)
next
  case CERTIFICATE_OF_INCORPORATION
  then show ?thesis by (simp add: mapCoi_def extends_def spread_profile_def)
next
  case PROOF_OF_ADDRESS
  then show ?thesis by (simp add: mapProofOfAddress_def extends_lists)
next
  case OTHER
  then show ?thesis by simp
qed

definition well_typed_results :: "extraction_result list \<Rightarrow> bool" where
  "well_typed_results rs =
     list_all (\<lambda>r. case er_data r of None \<Rightarrow> True | Some d \<Rightarrow> activities_ok d) rs"

lemma extraction_loop_sequential:
  "well_typed_results rs \<Longrightarrow> length rs \<le> length dts \<Longrightarrow>
   \<exists>u. extraction_loop rnd i rs dts app m = Some u \<and>
       apply_partial u app = apply_results rnd i rs dts (apply_partial m app)"
proof (induction rs arbitrary: i dts m)
  case Nil
  then show ?case by simp
next
  case (Cons r rs)
  then obtain dt dts' where dts: "dts = dt # dts'" by (cases dts) auto
  show ?case
  proof (cases "if er_success r then er_data r else None")
    case None
    with Cons dts show ?thesis by (auto simp: well_typed_results_def)
  next
    case (Some data)
    then have "er_data r = Some data" by (simp split: if_splits)
    with Cons.prems have ok: "activities_ok data" by (simp add: well_typed_results_def)
    let ?p = "MAPPERS dt (rnd i) data (apply_partial m app)"
    have "apply_partial (deepMerge m ?p) app = apply_partial ?p (apply_partial m app)"
      by (rule apply_deepMerge) (rule mapper_extends [OF ok])
    with Some Cons.IH [of dts' "i + 1" "deepMerge m ?p"] Cons.prems dts show ?thesis
      by (simp add: Let_def well_typed_results_def)
  qed
qed

section \<open>What a mapper keeps\<close>

definition profile_kept :: "business_profile \<Rightarrow> business_profile \<Rightarrow> bool" where
  "profile_kept a b =
     ((truthy (bp_legal_name a) \<longrightarrow> truthy (bp_legal_name b)) \<and>
      (truthy (bp_trade_name a) \<longrightarrow> truthy (bp_trade_name b)) \<and>
      (truthy (bp_license_number a) \<longrightarrow> truthy (bp_license_number b)) \<and>
      (truthy (bp_license_expiry a) \<longrightarrow> truthy (bp_license_expiry b)) \<and>
      (truthy (bp_entity_type a) \<longrightarrow> truthy (bp_entity_type b)) \<and>
      (truthy (bp_incorporation_date a) \<longrightarrow> truthy (bp_incorporation_date b)) \<and>
      bp_jurisdiction a = bp_jurisdiction b)"

definition person_kept :: "director \<Rightarrow> director \<Rightarrow> bool" where
  "person_kept d e =
     (dir_id e = dir_id d \<and> dir_full_name e = dir_full_name d \<and> dir_email e = dir_email d \<and>
      dir_phone e = dir_phone d \<and> dir_is_signatory e = dir_is_signatory d \<and>
      (dir_nationality d \<noteq> [] \<longrightarrow> dir_nationality e \<noteq> []) \<and>
      (dir_date_of_birth d \<noteq> [] \<longrightarrow> dir_date_of_birth e \<noteq> []) \<and>
      (dir_passport_number d \<noteq> [] \<longrightarrow> dir_passport_number e \<noteq> []))"

definition prefill_kept :: "application \<Rightarrow> application \<Rightarrow> bool" where
  "prefill_kept a b =
     (profile_kept (app_profile a) (app_profile b) \<and>
      (addresses a \<noteq> [] \<longrightarrow> addresses b = addresses a) \<and>
      (ubos a \<noteq> [] \<longrightarrow> ubos b = ubos a) \<and>
      (directors a \<noteq> [] \<longrightarrow> list_all2 person_kept (directors a) (directors b)) \<and>
      application_id b = application_id a \<and> app_status b = app_status a \<and>
      completed_steps b = completed_steps a \<and> documents b = documents a \<and>
      business_contacts b = business_contacts a \<and> signatories b = signatories a \<and>
      app_ownership b = app_ownership a \<and> app_confirmations b = app_confirmations a \<and>
      app_api_result b = app_api_result a)"

lemma profile_kept_refl [simp]: "profile_kept a a"
  by (simp add: profile_kept_def)

lemma person_kept_refl [simp]: "person_kept d d"
  by (simp add: person_kept_def)

lemma persons_kept_refl [simp]: "list_all2 person_kept ds ds"
  by (simp add: list_all2_refl)

lemma person_kept_trans: "person_kept a b \<Longrightarrow> person_kept b c \<Longrightarrow> person_kept a c"
  by (simp add: person_kept_def)

lemma prefill_kept_refl [simp]: "prefill_kept a a"
  by (simp add: prefill_kept_def)

lemma prefill_kept_trans:
  assumes "prefill_kept a b" "prefill_kept b c"
  shows "prefill_kept a c"
proof -
  have "list_all2 person_kept (directors a) (directors c)" if "directors a \<noteq> []"
  proof -
    have ab: "list_all2 person_kept (directors a) (directors b)"
      using assms(1) that by (simp add: prefill_kept_def)
    then have "directors b \<noteq> []" using that by auto
    then have "list_all2 person_kept (directors b) (directors c)"
      using assms(2) by (simp add: prefill_kept_def)
    with ab show ?thesis by (rule list_all2_trans [rotated]) (rule person_kept_trans)
  qed
  moreover have "profile_kept (app_profile a) (app_profile c)"
    using assms by (simp add: prefill_kept_def profile_kept_def)
  moreover have "addresses a \<noteq> [] \<longrightarrow> addresses c = addresses a" "ubos a \<noteq> [] \<longrightarrow> ubos c = ubos a"
    using assms by (auto simp: prefill_kept_def)
  ultimately show ?thesis using assms by (simp add: prefill_kept_def)
qed

lemma kept_js_or_str: "s \<noteq> [] \<Longrightarrow> js_or_str x s \<noteq> []"
  by (cases x) simp_all

lemma persons_kept_update:
  "(\<And>d. person_kept d (f d)) \<Longrightarrow> list_all2 person_kept ds (update_by dir_id i f ds)"
  by (induction ds) simp_all

lemma apply_partial_sel:
  "app_profile (apply_partial u a) = nullish (p_profile u) (app_profile a)"
  "addresses (apply_partial u a) = nullish (p_addresses u) (addresses a)"
  "directors (apply_partial u a) = nullish (p_directors u) (directors a)"
  "ubos (apply_partial u a) = nullish (p_ubos u) (ubos a)"
  "documents (apply_partial u a) = nullish (p_documents u) (documents a)"
  "app_status (apply_partial u a) = nullish (p_status u) (app_status a)"
  "completed_steps (apply_partial u a) = nullish (p_completed_steps u) (completed_steps a)"
  "business_contacts (apply_partial u a) = nullish (p_contacts u) (business_contacts a)"
  "signatories (apply_partial u a) = nullish (p_signatories u) (signatories a)"
  "app_ownership (apply_partial u a) = nullish (p_ownership u) (app_ownership a)"
  "app_confirmations (apply_partial u a) = nullish (p_confirmations u) (app_confirmations a)"
  "app_api_result (apply_partial u a) = later (app_api_result a) (p_api_result u)"
  "application_id (apply_partial u a) = nullish (p_application_id u) (application_id a)"
  by (simp_all add: apply_partial_def)

lemma mapper_kept: "prefill_kept app (apply_partial (MAPPERS dt rnd data app) app)"
proof (cases dt)
  case MEMORANDUM_OF_ASSOCIATION
  then show ?thesis
    by (auto simp: mapMemorandum_def Let_def prefill_kept_def apply_partial_sel profile_kept_def
        js_or_truthy split: option.splits)
next
  case PASSPORT
  then show ?thesis
    by (auto simp: mapPassport_def Let_def prefill_kept_def apply_partial_sel person_kept_def
        kept_js_or_str intro!: persons_kept_update split: option.split)
next
  case EMIRATES_ID
  then show ?thesis
    by (auto simp: mapNationalId_def Let_def prefill_kept_def apply_partial_sel person_kept_def
        kept_js_or_str intro!: persons_kept_update split: option.split)
next
  case BANK_STATEMENT
  then show ?thesis
    by (simp add: mapBankStatement_def Let_def prefill_kept_def apply_partial_sel profile_kept_def)
next
  case TRADE_LICENSE
  then show ?thesis
    by (simp add: mapTradeLicense_def prefill_kept_def apply_partial_sel profile_kept_def js_or_truthy)
next
  case CERTIFICATE_OF_INCORPORATION
  then show ?thesis
    by (simp add: mapCoi_def prefill_kept_def apply_partial_sel profile_kept_def js_or_truthy)
next
  case PROOF_OF_ADDRESS
  then show ?thesis
    by (simp add: mapProofOfAddress_def prefill_kept_def apply_partial_sel)
next
  case OTHER
  then show ?thesis by (simp add: prefill_kept_def apply_partial_sel)
qed

lemma apply_results_kept: "prefill_kept app (apply_results rnd i rs dts app)"
proof (induction rs arbitrary: i dts app)
  case Nil
  then show ?case by simp
next
  case (Cons r rs)
  show ?case
  proof (cases "if er_success r then er_data r else None")
    case None
    then show ?thesis by (simp add: Cons.IH)
  next
    case (Some data)
    show ?thesis
    proof (cases dts)
      case Nil
      with Some show ?thesis by simp
    next
      case (Cons dt dts')
      let ?a = "apply_partial (MAPPERS dt (rnd i) data app) app"
      have "prefill_kept app (apply_results rnd (i + 1) rs dts' ?a)"
        by (rule prefill_kept_trans [OF mapper_kept \<open>\<And>i dts app. prefill_kept app (apply_results rnd i rs dts app)\<close>])
      with Some Cons show ?thesis by simp
    qed
  qed
qed

section \<open>Properties\<close>

definition sample_result :: "json \<Rightarrow> extraction_result" where
  "sample_result d = \<lparr>er_filename = ''f'', er_document_type = ''custom'', er_success = True,
     er_data = Some d, er_error = None, er_usage = None\<rparr>"

text \<open>C15. Mapping the results of a batch and applying the merged update is the same as letting each
  document update the application in turn: the accumulator, the re-spread application the next
  mapper sees and the deep merge lose and duplicate nothing. The mapping never throws when every
  result has a document type.\<close>

theorem extraction_is_sequential:
  assumes "well_typed_results results" and "length results \<le> length docTypes"
  shows "\<exists>u. mapExtractionToApplication rnd results docTypes app = Some u \<and>
             apply_partial u app = apply_results rnd 0 results docTypes app"
  using extraction_loop_sequential [OF assms, of rnd 0 app no_updates]
  by (simp add: mapExtractionToApplication_def)

lemma extraction_is_sequential_witness:
  "\<exists>u. mapExtractionToApplication (\<lambda>i j. ''0.abcdefg'')
         [sample_result (JObj [(''company_name'', JStr ''Acme'')]),
          sample_result (JObj [(''line1'', JStr ''Main St 1'')])]
         [CERTIFICATE_OF_INCORPORATION, PROOF_OF_ADDRESS] (sample_app ''A'') = Some u \<and>
       bp_legal_name (app_profile (apply_partial u (sample_app ''A''))) = Some ''Acme'' \<and>
       map addr_id (addresses (apply_partial u (sample_app ''A''))) = [''addr-abcdef'']"
proof -
  let ?rs = "[sample_result (JObj [(''company_name'', JStr ''Acme'')]),
              sample_result (JObj [(''line1'', JStr ''Main St 1'')])]"
    and ?ts = "[CERTIFICATE_OF_INCORPORATION, PROOF_OF_ADDRESS]" and ?a = "sample_app ''A''"
  have r: "apply_results (\<lambda>i j. ''0.abcdefg'') 0 ?rs ?ts ?a =
      ?a\<lparr>app_profile := (app_profile ?a)\<lparr>bp_legal_name := Some ''Acme''\<rparr>,
        addresses := [\<lparr>addr_id = ''addr-abcdef'', addr_type = REGISTERED, addr_line1 = ''Main St 1'',
          addr_line2 = None, addr_city = [], addr_emirate = None, addr_country = ''AE'',
          addr_postal_code = None\<rparr>]\<rparr>"
    by (simp add: sample_result_def sample_app_def createNewApplication_def mapCoi_def
        mapProofOfAddress_def apply_partial_def randomId_def empty_profile_def)
  have "well_typed_results ?rs"
    by (simp add: well_typed_results_def sample_result_def activities_ok_def)
  from extraction_is_sequential [OF this, of ?ts "\<lambda>i j. ''0.abcdefg''" ?a] show ?thesis
    by (simp only: r) auto
qed



end
