(* ===== verification/Samples.thy ===== *)
theory Samples
  imports Doc_Extraction
begin

text \<open>
  \<open>features/documents/samples.ts\<close>: the bundled sample documents, the update of the application
  each one stands for, and the document record built from one. The random parts of identifiers
  are a stream (\<open>rnd 0\<close> is that of the first identifier of a prefill). The imported images are
  named by their files.
\<close>

definition SAMPLE_IMAGES :: "document_type \<Rightarrow> string option" where
  "SAMPLE_IMAGES t = (case t of
     TRADE_LICENSE \<Rightarrow> Some ''trade-license.png''
   | MEMORANDUM_OF_ASSOCIATION \<Rightarrow> Some ''moa.png''
   | CERTIFICATE_OF_INCORPORATION \<Rightarrow> Some ''incorporation.png''
   | PASSPORT \<Rightarrow> Some ''passport.png''
   | EMIRATES_ID \<Rightarrow> Some ''emirates-id.png''
   | PROOF_OF_ADDRESS \<Rightarrow> Some ''proof-of-address.png''
   | BANK_STATEMENT \<Rightarrow> Some ''bank-statement.png''
   | OTHER \<Rightarrow> None)"

record sample_document =
  sd_doc_type :: document_type
  sd_filename :: string
  sd_imageUrl :: string
  sd_applyPrefill :: "(nat \<Rightarrow> string) \<Rightarrow> application \<Rightarrow> partial_app"
  sd_provenance :: "field_provenance obj"

definition fileId :: "string \<Rightarrow> string \<Rightarrow> string" where
  "fileId prefix r = prefix @ ''-'' @ toUpperCase (take 6 (drop 2 r))"

definition conf :: "document_type \<Rightarrow> int \<Rightarrow> rat \<Rightarrow> string \<Rightarrow> field_provenance" where
  "conf t p c s = \<lparr>fp_source_doc_type = t, fp_page_number = p, fp_confidence = c, fp_snippet = s\<rparr>"

definition trade_license_sample :: sample_document where
  "trade_license_sample =
    \<lparr>sd_doc_type = TRADE_LICENSE, sd_filename = ''trade-license-falcon-crypto.png'',
     sd_imageUrl = ''trade-license.png'',
     sd_applyPrefill = (\<lambda>rnd app. no_updates\<lparr>p_profile := Some ((app_profile app)\<lparr>
       bp_legal_name := Some ''Falcon Crypto Trading LLC'',
       bp_trade_name := Some ''Falcon Crypto'',
       bp_license_number := Some ''1234567'',
       bp_license_expiry := Some ''2026-03-14'',
       bp_jurisdiction := Some ''dubai_mainland'',
       bp_entity_type := Some ''llc''\<rparr>)\<rparr>),
     sd_provenance =
      [(''business_profile.legal_name'',
          conf TRADE_LICENSE 1 98 ''Falcon Crypto Trading Limited Liability Company''),
       (''business_profile.trade_name'', conf TRADE_LICENSE 1 97 ''Falcon Crypto Trading LLC''),
       (''business_profile.license_number'', conf TRADE_LICENSE 1 99 ''License No: 1234567''),
       (''business_profile.license_expiry'', conf TRADE_LICENSE 1 96 ''Expiry Date: 14/03/2026''),
       (''business_profile.jurisdiction'', conf TRADE_LICENSE 1 92 ''Government of Dubai - DED''),
       (''business_profile.entity_type'',
          conf TRADE_LICENSE 1 94 ''Legal Form: Limited Liability Company'')]\<rparr>"

definition moa_sample :: sample_document where
  "moa_sample =
    \<lparr>sd_doc_type = MEMORANDUM_OF_ASSOCIATION, sd_filename = ''moa-falcon-crypto.png'',
     sd_imageUrl = ''moa.png'',
     sd_applyPrefill = (\<lambda>rnd app. no_updates\<lparr>
       p_ownership := Some ((app_ownership app)\<lparr>os_is_subsidiary := Some False\<rparr>),
       p_ubos := Some (if ubos app \<noteq> [] then ubos app else
        [\<lparr>ubo_id = randomId ''ubo'' (rnd 0), ubo_full_name = ''Ahmed Mohammed Al Mansouri'',
          ubo_nationality = ''United Arab Emirates'', ubo_date_of_birth = ''1985-06-12'',
          ubo_ownership_percentage = 60, ubo_passport_number = ''A12345678'',
          ubo_residential_address = ''Apartment 2105, Marina Heights Tower, Dubai Marina, Dubai, UAE''\<rparr>,
         \<lparr>ubo_id = randomId ''ubo'' (rnd 1), ubo_full_name = ''Sarah Khan'',
          ubo_nationality = ''United Arab Emirates'', ubo_date_of_birth = ''1988-09-22'',
          ubo_ownership_percentage = 40, ubo_passport_number = ''B98765432'',
          ubo_residential_address = ''Villa 14, Al Barsha South, Dubai, UAE''\<rparr>])\<rparr>),
     sd_provenance =
      [(''ownership_structure.parent_company_name'',
          conf MEMORANDUM_OF_ASSOCIATION 1 88 ''Share Capital: AED 300,000 / 300 shares''),
       (''ubos[0].full_name'', conf MEMORANDUM_OF_ASSOCIATION 1 96 ''Ahmed Al Mansouri 60%''),
       (''ubos[1].full_name'', conf MEMORANDUM_OF_ASSOCIATION 1 95 ''Sarah Khan 40%'')]\<rparr>"

definition coi_sample :: sample_document where
  "coi_sample =
    \<lparr>sd_doc_type = CERTIFICATE_OF_INCORPORATION, sd_filename = ''certificate-of-incorporation.png'',
     sd_imageUrl = ''incorporation.png'',
     sd_applyPrefill = (\<lambda>rnd app. no_updates\<lparr>p_profile :=
       Some ((app_profile app)\<lparr>bp_incorporation_date := Some ''2023-03-15''\<rparr>)\<rparr>),
     sd_provenance =
      [(''business_profile.incorporation_date'',
          conf CERTIFICATE_OF_INCORPORATION 1 97 ''incorporated on the 15th day of March 2023'')]\<rparr>"

definition passport_sample :: sample_document where
  "passport_sample =
    \<lparr>sd_doc_type = PASSPORT, sd_filename = ''passport-ahmed-al-mansouri.png'',
     sd_imageUrl = ''passport.png'',
     sd_applyPrefill = (\<lambda>rnd app. no_updates\<lparr>p_directors :=
       Some (if directors app \<noteq> [] then directors app else
        [\<lparr>dir_id = randomId ''dir'' (rnd 0), dir_full_name = ''Ahmed Mohammed Al Mansouri'',
          dir_nationality = ''United Arab Emirates'', dir_date_of_birth = ''1985-06-12'',
          dir_passport_number = ''A12345678'', dir_email = ''ahmed@falconcrypto.ae'',
          dir_phone = ''+971 50 123 4567'', dir_is_signatory = True\<rparr>])\<rparr>),
     sd_provenance =
      [(''directors[0].full_name'', conf PASSPORT 1 99 ''AHMED MOHAMMED AL MANSOURI''),
       (''directors[0].nationality'', conf PASSPORT 1 98 ''UNITED ARAB EMIRATES''),
       (''directors[0].date_of_birth'', conf PASSPORT 1 97 ''12 JUN 1985''),
       (''directors[0].passport_number'', conf PASSPORT 1 99 ''A12345678'')]\<rparr>"

definition emirates_id_sample :: sample_document where
  "emirates_id_sample =
    \<lparr>sd_doc_type = EMIRATES_ID, sd_filename = ''emirates-id-ahmed.png'',
     sd_imageUrl = ''emirates-id.png'',
     sd_applyPrefill = (\<lambda>rnd app. no_updates\<lparr>p_directors := Some (directors app)\<rparr>),
     sd_provenance = [(''directors[0].emirates_id'', conf EMIRATES_ID 1 98 ''784-1985-1234567-1'')]\<rparr>"

definition proof_of_address_sample :: sample_document where
  "proof_of_address_sample =
    \<lparr>sd_doc_type = PROOF_OF_ADDRESS, sd_filename = ''dewa-bill-proof-of-address.png'',
     sd_imageUrl = ''proof-of-address.png'',
     sd_applyPrefill = (\<lambda>rnd app. no_updates\<lparr>p_addresses :=
       Some (if addresses app \<noteq> [] then addresses app else
        [\<lparr>addr_id = randomId ''addr'' (rnd 0), addr_type = REGISTERED,
          addr_line1 = ''Office 1204, Emirates Towers'', addr_line2 = Some ''Sheikh Zayed Road'',
          addr_city = ''Dubai'', addr_emirate = Some ''Dubai'',
          addr_country = ''United Arab Emirates'', addr_postal_code = Some ''00000''\<rparr>,
         \<lparr>addr_id = randomId ''addr'' (rnd 1), addr_type = CORRESPONDENCE,
          addr_line1 = ''Apartment 2105, Marina Heights Tower'', addr_line2 = Some ''Dubai Marina'',
          addr_city = ''Dubai'', addr_emirate = Some ''Dubai'',
          addr_country = ''United Arab Emirates'', addr_postal_code = None\<rparr>])\<rparr>),
     sd_provenance =
      [(''addresses[0].line1'', conf PROOF_OF_ADDRESS 1 93 ''Apartment 2105, Marina Heights Tower''),
       (''addresses[0].city'', conf PROOF_OF_ADDRESS 1 95 ''Dubai Marina'')]\<rparr>"

definition bank_statement_sample :: sample_document where
  "bank_statement_sample =
    \<lparr>sd_doc_type = BANK_STATEMENT, sd_filename = ''emirates-nbd-statement-q1-2026.png'',
     sd_imageUrl = ''bank-statement.png'',
     sd_applyPrefill = (\<lambda>rnd app. no_updates\<lparr>p_transfer := Some ((app_transfer app)\<lparr>
       tb_expected_monthly_volume_usd := Some 165000,
       tb_expected_monthly_transactions := Some 45,
       tb_primary_transfer_purpose := Some ''Operating expenses & vendor payments''\<rparr>)\<rparr>),
     sd_provenance =
      [(''transfer_behavior.expected_monthly_volume_usd'',
          conf BANK_STATEMENT 1 85 ''Closing balance AED 612,300'')]\<rparr>"

fun SAMPLE_DOCUMENTS :: "document_type \<Rightarrow> sample_document option" where
  "SAMPLE_DOCUMENTS TRADE_LICENSE = Some trade_license_sample"
| "SAMPLE_DOCUMENTS MEMORANDUM_OF_ASSOCIATION = Some moa_sample"
| "SAMPLE_DOCUMENTS CERTIFICATE_OF_INCORPORATION = Some coi_sample"
| "SAMPLE_DOCUMENTS PASSPORT = Some passport_sample"
| "SAMPLE_DOCUMENTS EMIRATES_ID = Some emirates_id_sample"
| "SAMPLE_DOCUMENTS PROOF_OF_ADDRESS = Some proof_of_address_sample"
| "SAMPLE_DOCUMENTS BANK_STATEMENT = Some bank_statement_sample"
| "SAMPLE_DOCUMENTS OTHER = None"

definition passed :: verification_result where
  "passed = \<lparr>ver_status = PASS, ver_flags = [], ver_message = ''Verified''\<rparr>"

definition statement_warning :: "string \<Rightarrow> verification_result" where
  "statement_warning tail = \<lparr>ver_status = WARN, ver_flags = [FAKE_SUSPECTED],
     ver_message = ''Statement metadata couldn'' @ [CHR 0x27] @ ''t be cross-checked'' @ tail\<rparr>"

definition buildSampleDocument :: "string \<Rightarrow> string \<Rightarrow> sample_document \<Rightarrow> doc" where
  "buildSampleDocument now r sample =
     (let verification =
        (if sd_doc_type sample = BANK_STATEMENT
         then statement_warning ('' '' @ em_dash @ '' manual review suggested'') else passed)
      in \<lparr>doc_file_id = fileId ''file'' r, doc_doc_type = sd_doc_type sample,
          doc_filename = sd_filename sample, doc_status = EXTRACTED, doc_uploaded_at = now,
          doc_verification = Some verification\<rparr>)"

lemmas sample_defs = trade_license_sample_def moa_sample_def coi_sample_def passport_sample_def
  emirates_id_sample_def proof_of_address_sample_def bank_statement_sample_def

lemma sample_doc_type: "SAMPLE_DOCUMENTS t = Some s \<Longrightarrow> sd_doc_type s = t"
  by (cases t) (auto simp: sample_defs)

lemma sample_exists: "SAMPLE_DOCUMENTS t \<noteq> None \<longleftrightarrow> t \<noteq> OTHER"
  by (cases t) simp_all

lemma sample_image: "SAMPLE_DOCUMENTS t = Some s \<Longrightarrow> SAMPLE_IMAGES t = Some (sd_imageUrl s)"
  by (cases t) (auto simp: sample_defs SAMPLE_IMAGES_def)

lemma sample_provenance_wf: "SAMPLE_DOCUMENTS t = Some s \<Longrightarrow> wf_obj (sd_provenance s)"
  by (cases t) (auto simp: sample_defs wf_obj_def keys_def)

text \<open>A sample's provenance entries all name the sample's own type.\<close>

lemma sample_provenance_source:
  "SAMPLE_DOCUMENTS t = Some s \<Longrightarrow> (k, p) \<in> set (sd_provenance s) \<Longrightarrow> fp_source_doc_type p = t"
  by (cases t) (auto simp: sample_defs conf_def)

text \<open>No sample touches the documents, the status or the identity of the application.\<close>

lemma sample_frame:
  "SAMPLE_DOCUMENTS t = Some s \<Longrightarrow>
   p_documents (sd_applyPrefill s rnd app) = None \<and> p_application_id (sd_applyPrefill s rnd app) = None \<and>
   p_status (sd_applyPrefill s rnd app) = None \<and> p_provenance (sd_applyPrefill s rnd app) = None"
  by (cases t) (auto simp: sample_defs)

end
