(* ===== verification/Bulk_Upload.thy ===== *)
theory Bulk_Upload
  imports Samples
begin

text \<open>
  \<open>features/documents/components/BulkUploadZone.tsx\<close>, with the badge of
  \<open>DocumentVerificationBadge.tsx\<close>.

  The component keeps a list of pending files. Its asynchronous handlers are split where they
  await: a running \<open>addFiles\<close> or \<open>updateType\<close> is a thread, the list of the verifications it has
  still to make, and \<open>ThreadStep k\<close> completes the first one of thread \<open>k\<close>; \<open>processFiles\<close> is its
  start, which captures the pending files and the application of that render, and its end. The
  parser's answer, the clock and the random numbers are arguments.
\<close>

section \<open>Pending files\<close>

record pending_file =
  pe_id :: string
  pe_file :: "upload_file option"
  pe_filename :: string
  pe_detectedType :: document_type
  pe_confidence :: rat
  pe_verification :: "verification_result option"
  pe_verifying :: bool
  pe_trusted :: bool

definition DOC_TYPE_OPTIONS :: "document_type list" where
  "DOC_TYPE_OPTIONS =
     [TRADE_LICENSE, MEMORANDUM_OF_ASSOCIATION, CERTIFICATE_OF_INCORPORATION, PASSPORT,
      EMIRATES_ID, PROOF_OF_ADDRESS, BANK_STATEMENT, OTHER]"

definition pending_status :: "pending_file \<Rightarrow> verification_status option" where
  "pending_status e = map_option ver_status (pe_verification e)"

text \<open>\<open>status ?? (WARN ? NEEDS_ATTENTION : EXTRACTED)\<close>\<close>

definition pendingToDocument ::
  "string \<Rightarrow> string \<Rightarrow> pending_file \<Rightarrow> document_status option \<Rightarrow> doc" where
  "pendingToDocument now r entry st =
     \<lparr>doc_file_id = fileId ''file'' r, doc_doc_type = pe_detectedType entry,
      doc_filename = pe_filename entry,
      doc_status = nullish st (if pending_status entry = Some WARN then NEEDS_ATTENTION else EXTRACTED),
      doc_uploaded_at = now, doc_verification = pe_verification entry\<rparr>"

section \<open>Processing the files\<close>

text \<open>What the environment answers while the files are processed: the time, the random numbers of
  the identifiers (of the \<open>i\<close>-th document; and for the \<open>i\<close>-th prefill, the \<open>j\<close>-th), and the
  parser.\<close>

record proc_env =
  pv_now :: string
  pv_doc :: "nat \<Rightarrow> string"
  pv_sample :: "nat \<Rightarrow> nat \<Rightarrow> string"
  pv_extract :: "nat \<Rightarrow> nat \<Rightarrow> string"
  pv_post :: "parse_file list \<Rightarrow> http_response option"

text \<open>\<open>{ ...a, ...b }\<close> on updates.\<close>

definition spread_partial :: "partial_app \<Rightarrow> partial_app \<Rightarrow> partial_app" where
  "spread_partial a b =
     \<lparr>p_application_id = later (p_application_id a) (p_application_id b),
      p_status = later (p_status a) (p_status b),
      p_method = later (p_method a) (p_method b),
      p_current_step = later (p_current_step a) (p_current_step b),
      p_completed_steps = later (p_completed_steps a) (p_completed_steps b),
      p_upload_mode = later (p_upload_mode a) (p_upload_mode b),
      p_profile = later (p_profile a) (p_profile b),
      p_addresses = later (p_addresses a) (p_addresses b),
      p_contacts = later (p_contacts a) (p_contacts b),
      p_activity = later (p_activity a) (p_activity b),
      p_transfer = later (p_transfer a) (p_transfer b),
      p_ownership = later (p_ownership a) (p_ownership b),
      p_directors = later (p_directors a) (p_directors b),
      p_signatories = later (p_signatories a) (p_signatories b),
      p_ubos = later (p_ubos a) (p_ubos b),
      p_documents = later (p_documents a) (p_documents b),
      p_provenance = later (p_provenance a) (p_provenance b),
      p_confirmations = later (p_confirmations a) (p_confirmations b),
      p_ops_notes = later (p_ops_notes a) (p_ops_notes b),
      p_api_result = later (p_api_result a) (p_api_result b)\<rparr>"

record sample_batch =
  sb_docs :: "doc list"
  sb_prefill :: partial_app
  sb_provenance :: "field_provenance obj"

text \<open>The loop, with the number of the entry and the accumulators.\<close>

fun process_samples ::
  "proc_env \<Rightarrow> nat \<Rightarrow> pending_file list \<Rightarrow> application \<Rightarrow> sample_batch \<Rightarrow> sample_batch" where
  "process_samples v i [] app b = b"
| "process_samples v i (entry # es) app b =
     (case SAMPLE_DOCUMENTS (pe_detectedType entry) of
        None \<Rightarrow> process_samples v (i + 1) es app b
      | Some sample \<Rightarrow>
          (let partial = sd_applyPrefill sample (pv_sample v i) (apply_partial (sb_prefill b) app)
           in process_samples v (i + 1) es app
                \<lparr>sb_docs = sb_docs b @ [buildSampleDocument (pv_now v) (pv_doc v i) sample],
                 sb_prefill = spread_partial (sb_prefill b) partial,
                 sb_provenance = obj_spread (sb_provenance b) (sd_provenance sample)\<rparr>))"

definition processSampleEntries ::
  "proc_env \<Rightarrow> pending_file list \<Rightarrow> application \<Rightarrow> sample_batch" where
  "processSampleEntries v entries app =
     process_samples v 0 entries app \<lparr>sb_docs = [], sb_prefill = no_updates, sb_provenance = []\<rparr>"

fun number_docs :: "proc_env \<Rightarrow> nat \<Rightarrow> document_status option \<Rightarrow> pending_file list \<Rightarrow> doc list" where
  "number_docs v i st [] = []"
| "number_docs v i st (e # es) = pendingToDocument (pv_now v) (pv_doc v i) e st # number_docs v (i + 1) st es"

record real_batch =
  rb_docs :: "doc list"
  rb_prefill :: partial_app
  rb_hadFailures :: bool

text \<open>A rejected promise is \<open>Inl\<close> with the message of the error. The identifiers of these
  documents are numbered after those of the \<open>n\<close> samples.\<close>

definition processRealEntries ::
  "proc_env \<Rightarrow> nat \<Rightarrow> pending_file list \<Rightarrow> application \<Rightarrow> string + real_batch" where
  "processRealEntries v n entries app =
     (let files = List.map_filter pe_file entries;
          docTypes = map pe_detectedType entries
      in case extractDocuments (pv_post v) files docTypes of
           Inl e \<Rightarrow> Inl e
         | Inr results \<Rightarrow>
             (case mapExtractionToApplication (pv_extract v) results docTypes app of
                None \<Rightarrow> Inl ''mapper is not a function''
              | Some prefill \<Rightarrow>
                  Inr \<lparr>rb_docs = number_docs v n (Some EXTRACTED) entries, rb_prefill = prefill,
                       rb_hadFailures = list_ex (\<lambda>r. \<not> er_success r) results\<rparr>))"

datatype toast =
  T_success string "string option" | T_warning string | T_error string "string option"

text \<open>The \<open>try\<close> of \<open>extractRealFiles\<close>: the batch and the toasts. Its \<open>finally\<close> is the
  \<open>setExtracting(false)\<close> of the end of the processing.\<close>

definition extractRealFiles ::
  "proc_env \<Rightarrow> nat \<Rightarrow> pending_file list \<Rightarrow> application \<Rightarrow> (doc list \<times> partial_app) \<times> toast list" where
  "extractRealFiles v n entries app =
     (if entries = [] then (([], no_updates), [])
      else (case processRealEntries v n entries app of
              Inr b \<Rightarrow> ((rb_docs b, rb_prefill b),
                        (if rb_hadFailures b
                         then [T_warning (''Some documents couldn'' @ [CHR 0x27] @ ''t be processed by AI'')]
                         else []))
            | Inl e \<Rightarrow> ((number_docs v n None entries, no_updates),
                        [T_error ''AI extraction failed'' (Some e)])))"

definition ellipsis :: string where
  "ellipsis = [CHR 0xE2, CHR 0x80, CHR 0xA6]"

text \<open>The guards of \<open>processFiles\<close>: the toast that ends it.\<close>

definition process_guard :: "pending_file list \<Rightarrow> toast option" where
  "process_guard pending =
     (if list_ex pe_verifying pending then Some (T_error (''Verification still running'' @ ellipsis) None)
      else if list_ex (\<lambda>p. pending_status p = Some FAIL) pending
      then Some (T_error ''Remove or replace failed files before processing'' None)
      else None)"

definition real_entries :: "pending_file list \<Rightarrow> pending_file list" where
  "real_entries = filter (\<lambda>p. pe_file p \<noteq> None \<and> \<not> pe_trusted p)"

definition sample_entries :: "pending_file list \<Rightarrow> pending_file list" where
  "sample_entries = filter (\<lambda>p. pe_trusted p \<and> SAMPLE_DOCUMENTS (pe_detectedType p) \<noteq> None)"

text \<open>The update \<open>processFiles\<close> makes, from the pending files and the application it captured.\<close>

definition process_update ::
  "proc_env \<Rightarrow> pending_file list \<Rightarrow> application \<Rightarrow> partial_app \<times> toast list" where
  "process_update v pending app =
     (let realEntries = real_entries pending;
          samples = processSampleEntries v (sample_entries pending) app;
          provenance = obj_spread (app_provenance app) (sb_provenance samples);
          ((docs, prefill), toasts) =
            extractRealFiles v (length (sb_docs samples)) realEntries
              (apply_partial (sb_prefill samples) app);
          updates = (spread_partial (sb_prefill samples) prefill)\<lparr>
            p_documents := Some (documents app @ sb_docs samples @ docs),
            p_provenance := Some provenance\<rparr>
      in (updates, toasts @
           [T_success (nat_to_string (length (sb_docs samples) + length docs) @ '' document(s) processed'')
              (Some (if realEntries \<noteq> []
                     then ''AI extracted and prefilled fields from uploaded documents''
                     else ''Categorized and prefilled where possible''))]))"

section \<open>The component as a state machine\<close>

record verify_job =
  vj_id :: string
  vj_file :: upload_file
  vj_expectedType :: document_type
  vj_trusted :: bool

text \<open>The state: the pending files, the \<open>extracting\<close> flag, the running handlers, the captured
  values of a running \<open>processFiles\<close>, the hook of the page, and the toasts shown.\<close>

record zone =
  z_pending :: "pending_file list"
  z_extracting :: bool
  z_threads :: "verify_job list list"
  z_processing :: "(pending_file list \<times> application) option"
  z_hook :: hook
  z_toasts :: "toast list"

definition newEntry :: "string \<Rightarrow> upload_file \<Rightarrow> pending_file" where
  "newEntry i f =
     (let cls = classifyFilename (f_name f)
      in \<lparr>pe_id = i, pe_file = Some f, pe_filename = f_name f, pe_detectedType = cl_docType cls,
          pe_confidence = cl_confidence cls, pe_verification = None, pe_verifying = True,
          pe_trusted = False\<rparr>)"

definition entry_job :: "pending_file \<Rightarrow> verify_job option" where
  "entry_job e = map_option (\<lambda>f. \<lparr>vj_id = pe_id e, vj_file = f, vj_expectedType = pe_detectedType e,
                                  vj_trusted = False\<rparr>) (pe_file e)"

text \<open>\<open>addFiles\<close> up to its first await; the identifiers of the new entries are \<open>ids\<close>.\<close>

definition addFiles :: "(string \<times> upload_file) list \<Rightarrow> zone \<Rightarrow> zone" where
  "addFiles files z =
     (let newEntries = map (\<lambda>(i, f). newEntry i f) files
      in z\<lparr>z_pending := z_pending z @ newEntries,
           z_threads := z_threads z @ [List.map_filter entry_job newEntries]\<rparr>)"

text \<open>One verification of a thread completes.\<close>

definition set_verification :: "string \<Rightarrow> verification_result \<Rightarrow> pending_file list \<Rightarrow> pending_file list" where
  "set_verification i result =
     update_by pe_id i (\<lambda>x. x\<lparr>pe_verification := Some result, pe_verifying := False\<rparr>)"

definition run_job :: "verify_job \<Rightarrow> verification_result" where
  "run_job j = verifyDocument (vj_file j) (vj_expectedType j) (vj_trusted j)"

definition threadStep :: "nat \<Rightarrow> zone \<Rightarrow> zone" where
  "threadStep k z =
     (if k < length (z_threads z) then
        (case z_threads z ! k of
           [] \<Rightarrow> z
         | j # js \<Rightarrow> z\<lparr>z_pending := set_verification (vj_id j) (run_job j) (z_pending z),
                       z_threads := (z_threads z)[k := js]\<rparr>)
      else z)"

definition retype :: "document_type \<Rightarrow> pending_file \<Rightarrow> pending_file" where
  "retype docType x = x\<lparr>pe_detectedType := docType, pe_verifying := (pe_file x \<noteq> None)\<rparr>"

definition updateType :: "string \<Rightarrow> document_type \<Rightarrow> zone \<Rightarrow> zone" where
  "updateType i docType z =
     (let pending' = update_by pe_id i (retype docType) (z_pending z)
      in case find_by pe_id i (z_pending z) of
           None \<Rightarrow> z\<lparr>z_pending := pending'\<rparr>
         | Some entry \<Rightarrow>
             (case pe_file entry of
                None \<Rightarrow> z\<lparr>z_pending := pending'\<rparr>
              | Some f \<Rightarrow> z\<lparr>z_pending := pending',
                  z_threads := z_threads z @ [[\<lparr>vj_id = i, vj_file = f, vj_expectedType = docType,
                                                vj_trusted = pe_trusted entry\<rparr>]]\<rparr>))"

definition removeEntry :: "string \<Rightarrow> zone \<Rightarrow> zone" where
  "removeEntry i z = z\<lparr>z_pending := remove_by pe_id i (z_pending z)\<rparr>"

definition clearPending :: "zone \<Rightarrow> zone" where
  "clearPending z = z\<lparr>z_pending := []\<rparr>"

text \<open>The keys of \<open>SAMPLE_DOCUMENTS\<close> in their order; the values that are not null.\<close>

definition all_samples :: "sample_document list" where
  "all_samples = List.map_filter SAMPLE_DOCUMENTS DOC_TYPE_OPTIONS"

definition sampleEntry :: "nat \<Rightarrow> sample_document \<Rightarrow> pending_file" where
  "sampleEntry ms s =
     \<lparr>pe_id = nat_to_string ms @ ''-'' @ doc_type_name (sd_doc_type s), pe_file = None,
      pe_filename = sd_filename s, pe_detectedType = sd_doc_type s, pe_confidence = 1,
      pe_verification = Some (if sd_doc_type s = BANK_STATEMENT then statement_warning [] else passed),
      pe_verifying = False, pe_trusted = True\<rparr>"

definition loadAllSamples :: "nat \<Rightarrow> zone \<Rightarrow> zone" where
  "loadAllSamples ms z =
     (let entries = map (sampleEntry ms) all_samples
      in z\<lparr>z_pending := z_pending z @ entries,
           z_toasts := z_toasts z @
             [T_success (nat_to_string (length entries) @ '' sample documents loaded'') None]\<rparr>)"

text \<open>The click on "Process files" (disabled while \<open>extracting\<close>): the guards, then the captured
  values. \<open>extracting\<close> is only set when there are files to extract.\<close>

definition processStart :: "zone \<Rightarrow> zone" where
  "processStart z =
     (if z_extracting z then z
      else (case process_guard (z_pending z) of
              Some t \<Rightarrow> z\<lparr>z_toasts := z_toasts z @ [t]\<rparr>
            | None \<Rightarrow>
                (case hk_application (z_hook z) of
                   None \<Rightarrow> z
                 | Some app \<Rightarrow> z\<lparr>z_processing := Some (z_pending z, app),
                                 z_extracting := (real_entries (z_pending z) \<noteq> [])\<rparr>)))"

text \<open>The rest of \<open>processFiles\<close> after its await; an exception of the save keeps the pending files
  (\<open>setPending\<close> comes after \<open>updateApplication\<close>).\<close>

definition processEnd :: "proc_env \<Rightarrow> zone \<Rightarrow> zone" where
  "processEnd v z =
     (case z_processing z of
        None \<Rightarrow> z
      | Some (pending, app) \<Rightarrow>
          (let (updates, toasts) = process_update v pending app;
               (err, hook') = updateApplication (pv_now v) (Some app) updates (z_hook z);
               z' = z\<lparr>z_processing := None, z_extracting := False, z_hook := hook'\<rparr>
           in case err of
                Some e \<Rightarrow> z'\<lparr>z_toasts := z_toasts z @ butlast toasts\<rparr>
              | None \<Rightarrow> z'\<lparr>z_pending := [], z_toasts := z_toasts z @ toasts\<rparr>))"

datatype zone_event =
  AddFiles "(string \<times> upload_file) list" | ThreadStep nat | ChangeType string document_type
| Remove string | LoadSamples nat | Clear | ProcessStart | ProcessEnd proc_env
| Edit string partial_app

fun zone_step :: "zone \<Rightarrow> zone_event \<Rightarrow> zone" where
  "zone_step z (AddFiles fs) = addFiles fs z"
| "zone_step z (ThreadStep k) = threadStep k z"
| "zone_step z (ChangeType i t) = updateType i t z"
| "zone_step z (Remove i) = removeEntry i z"
| "zone_step z (LoadSamples ms) = loadAllSamples ms z"
| "zone_step z Clear = clearPending z"
| "zone_step z ProcessStart = processStart z"
| "zone_step z (ProcessEnd v) = processEnd v z"
| "zone_step z (Edit now u) =
     z\<lparr>z_hook := snd (updateApplication now (hk_application (z_hook z)) u (z_hook z))\<rparr>"

definition zone_init :: "hook \<Rightarrow> zone" where
  "zone_init h = \<lparr>z_pending = [], z_extracting = False, z_threads = [], z_processing = None,
     z_hook = h, z_toasts = []\<rparr>"

section \<open>What the component shows\<close>

record zone_counts =
  zc_pass :: nat
  zc_warn :: nat
  zc_fail :: nat

fun count_entry :: "zone_counts \<Rightarrow> pending_file \<Rightarrow> zone_counts" where
  "count_entry acc p =
     (if pending_status p = Some FAIL then acc\<lparr>zc_fail := zc_fail acc + 1\<rparr>
      else if pending_status p = Some WARN then acc\<lparr>zc_warn := zc_warn acc + 1\<rparr>
      else if pending_status p = Some PASS then acc\<lparr>zc_pass := zc_pass acc + 1\<rparr>
      else acc)"

definition counts :: "pending_file list \<Rightarrow> zone_counts" where
  "counts pending = foldl count_entry \<lparr>zc_pass = 0, zc_warn = 0, zc_fail = 0\<rparr> pending"

text \<open>The badge: its label and the lines of its tooltip.\<close>

fun badge_label :: "verification_status \<Rightarrow> string" where
  "badge_label PASS = ''Verified''"
| "badge_label WARN = ''Needs review''"
| "badge_label FAIL = ''Rejected''"

definition DocumentVerificationBadge :: "verification_result option \<Rightarrow> (string \<times> string list) option" where
  "DocumentVerificationBadge result =
     map_option (\<lambda>r. (badge_label (ver_status r),
       badge_label (ver_status r) #
       (if ver_flags r \<noteq> [] then map FLAG_LABELS (ver_flags r) else [ver_message r]))) result"

record pending_row =
  row_filename :: string
  row_hint :: "string option"
  row_type :: document_type
  row_options :: "string list"
  row_verifying :: bool
  row_badge :: "(string \<times> string list) option"

definition pending_row_view :: "pending_file \<Rightarrow> pending_row" where
  "pending_row_view p =
     \<lparr>row_filename = pe_filename p,
      row_hint =
        (if pe_confidence p < 9 / 10 then
           Some (if pe_confidence p = 0
                 then ''Couldn'' @ [CHR 0x27] @ ''t auto-categorize '' @ em_dash @ '' pick a type''
                 else ''Low-confidence match '' @ em_dash @ '' please confirm'')
         else None),
      row_type = pe_detectedType p,
      row_options = map DOCUMENT_TYPE_LABELS DOC_TYPE_OPTIONS,
      row_verifying = pe_verifying p,
      row_badge = (if pe_verifying p then None else DocumentVerificationBadge (pe_verification p))\<rparr>"

record pending_panel =
  pp_title :: string
  pp_counts :: zone_counts
  pp_button :: string
  pp_disabled :: bool
  pp_rows :: "pending_row list"

definition pending_panel_view :: "zone \<Rightarrow> pending_panel option" where
  "pending_panel_view z =
     (let pending = z_pending z in
      if pending = [] then None
      else Some \<lparr>pp_title = nat_to_string (length pending) @ '' file'' @
                   (if length pending > 1 then ''s'' else []) @ '' ready'',
                 pp_counts = counts pending,
                 pp_button = (if z_extracting z then ''Extracting'' @ ellipsis else ''Process files''),
                 pp_disabled = z_extracting z,
                 pp_rows = map pending_row_view pending\<rparr>)"

section \<open>Facts: the update\<close>

lemma apply_spread: "apply_partial (spread_partial u w) a = apply_partial w (apply_partial u a)"
proof -
  have *: "nullish (later x y) c = nullish y (nullish x c)" for x y :: "'b option" and c
    by (cases y) simp_all
  have **: "later c (later x y) = later (later c x) y" for c x y :: "'b option"
    by (cases y) simp_all
  show ?thesis by (simp add: apply_partial_def spread_partial_def * **)
qed

lemma apply_with_docs:
  "apply_partial (w\<lparr>p_documents := Some d, p_provenance := Some p\<rparr>) a =
     (apply_partial w a)\<lparr>documents := d, app_provenance := p\<rparr>"
  by (simp add: apply_partial_def)

text \<open>The reference: the samples update the application one after the other.\<close>

fun apply_samples :: "proc_env \<Rightarrow> nat \<Rightarrow> pending_file list \<Rightarrow> application \<Rightarrow> application" where
  "apply_samples v i [] app = app"
| "apply_samples v i (e # es) app =
     (case SAMPLE_DOCUMENTS (pe_detectedType e) of
        None \<Rightarrow> apply_samples v (i + 1) es app
      | Some s \<Rightarrow> apply_samples v (i + 1) es (apply_partial (sd_applyPrefill s (pv_sample v i) app) app))"

lemma process_samples_prefill:
  "apply_partial (sb_prefill (process_samples v i es app b)) app =
     apply_samples v i es (apply_partial (sb_prefill b) app)"
  by (induction v i es app b rule: process_samples.induct)
    (auto simp: Let_def apply_spread split: option.split)

lemma length_number_docs [simp]: "length (number_docs v i st es) = length es"
  by (induction es arbitrary: i) simp_all

lemma process_samples_length:
  "list_all (\<lambda>e. SAMPLE_DOCUMENTS (pe_detectedType e) \<noteq> None) es \<Longrightarrow>
   length (sb_docs (process_samples v i es app b)) = length (sb_docs b) + length es"
  by (induction v i es app b rule: process_samples.induct) (auto simp: Let_def split: option.split)

lemma sample_entries_ok:
  "list_all (\<lambda>e. SAMPLE_DOCUMENTS (pe_detectedType e) \<noteq> None) (sample_entries p)"
  by (auto simp: sample_entries_def list_all_iff)

section \<open>Facts: verification of the new documents\<close>

definition verified_doc :: "doc \<Rightarrow> bool" where
  "verified_doc d = (\<exists>r. doc_verification d = Some r \<and> ver_status r \<noteq> FAIL)"

definition verified_entry :: "pending_file \<Rightarrow> bool" where
  "verified_entry e = (\<exists>r. pe_verification e = Some r \<and> ver_status r \<noteq> FAIL)"

lemma verified_sample: "verified_doc (buildSampleDocument now r s)"
  by (simp add: verified_doc_def buildSampleDocument_def Let_def statement_warning_def passed_def)

lemma process_samples_verified:
  "list_all verified_doc (sb_docs b) \<Longrightarrow>
   list_all verified_doc (sb_docs (process_samples v i es app b))"
  by (induction v i es app b rule: process_samples.induct)
    (auto simp: Let_def verified_sample split: option.split)

lemma number_docs_verified:
  "list_all verified_entry es \<Longrightarrow> list_all verified_doc (number_docs v i st es)"
  by (induction es arbitrary: i)
    (simp_all add: verified_doc_def verified_entry_def pendingToDocument_def)

lemma extractRealFiles_verified:
  "list_all verified_entry es \<Longrightarrow> list_all verified_doc (fst (fst (extractRealFiles v n es app)))"
  by (auto simp: extractRealFiles_def processRealEntries_def Let_def number_docs_verified
      split: sum.splits option.splits)

lemma extractRealFiles_length:
  "length (fst (fst (extractRealFiles v n es app))) = length es"
  by (auto simp: extractRealFiles_def processRealEntries_def Let_def split: sum.splits option.splits)

lemma process_update_docs:
  "p_documents (fst (process_update v pending app)) =
     Some (documents app @ sb_docs (processSampleEntries v (sample_entries pending) app) @
       fst (fst (extractRealFiles v
         (length (sb_docs (processSampleEntries v (sample_entries pending) app)))
         (real_entries pending)
         (apply_partial (sb_prefill (processSampleEntries v (sample_entries pending) app)) app))))"
  by (simp add: process_update_def Let_def case_prod_beta)

section \<open>Facts: the entries of a reachable state\<close>

text \<open>Only a file is verified, and an entry that is not being verified carries its result.\<close>

definition entry_ok :: "pending_file \<Rightarrow> bool" where
  "entry_ok e =
     ((pe_verifying e \<longrightarrow> pe_file e \<noteq> None) \<and> (pe_verifying e \<or> pe_verification e \<noteq> None))"

definition entries_inv :: "zone \<Rightarrow> bool" where
  "entries_inv z =
     (list_all entry_ok (z_pending z) \<and>
      (case z_processing z of None \<Rightarrow> True
       | Some (p, app) \<Rightarrow> list_all entry_ok p \<and> process_guard p = None))"

lemma entries_ok_update:
  "list_all entry_ok es \<Longrightarrow> (\<And>x. entry_ok x \<Longrightarrow> entry_ok (f x)) \<Longrightarrow> list_all entry_ok (update_by pe_id i f es)"
  by (induction es) simp_all

lemma entries_inv_init: "entries_inv (zone_init h)"
  by (simp add: entries_inv_def zone_init_def)

lemma entry_ok_new [simp]: "entry_ok (newEntry i f)" "entry_ok (sampleEntry ms s)"
  by (simp_all add: entry_ok_def newEntry_def Let_def sampleEntry_def)

lemma new_entries_ok:
  "list_all entry_ok (map (\<lambda>(i, f). newEntry i f) fs)" "list_all entry_ok (map (sampleEntry ms) ss)"
  by (auto simp: list_all_iff)

lemma entries_inv_pending:
  "entries_inv z \<Longrightarrow> list_all entry_ok p \<Longrightarrow> entries_inv (z\<lparr>z_pending := p\<rparr>)"
  by (simp add: entries_inv_def)

lemma entries_inv_frame [simp]:
  "entries_inv (z\<lparr>z_threads := t\<rparr>) = entries_inv z"
  "entries_inv (z\<lparr>z_toasts := ts\<rparr>) = entries_inv z"
  "entries_inv (z\<lparr>z_hook := h\<rparr>) = entries_inv z"
  "entries_inv (z\<lparr>z_extracting := b\<rparr>) = entries_inv z"
  by (simp_all add: entries_inv_def)

lemma entries_invD: "entries_inv z \<Longrightarrow> list_all entry_ok (z_pending z)"
  by (simp add: entries_inv_def)

lemma set_verification_ok: "list_all entry_ok p \<Longrightarrow> list_all entry_ok (set_verification i r p)"
  by (simp add: set_verification_def entries_ok_update entry_ok_def)

lemma change_type_ok:
  "list_all entry_ok p \<Longrightarrow> list_all entry_ok (update_by pe_id i (retype t) p)"
  by (rule entries_ok_update) (auto simp: entry_ok_def retype_def)

lemma threadStep_entries: "entries_inv z \<Longrightarrow> entries_inv (threadStep k z)"
  by (auto simp: threadStep_def entries_inv_pending set_verification_ok entries_invD split: list.split)

lemma updateType_entries: "entries_inv z \<Longrightarrow> entries_inv (updateType i t z)"
  by (auto simp: updateType_def Let_def entries_inv_pending change_type_ok entries_invD
      split: option.split)

lemma processStart_entries: "entries_inv z \<Longrightarrow> entries_inv (processStart z)"
  by (auto simp: processStart_def entries_inv_def split: option.splits)

lemma processEnd_entries: "entries_inv z \<Longrightarrow> entries_inv (processEnd v z)"
  by (auto simp: processEnd_def entries_inv_def Let_def case_prod_beta split: option.split)

lemma entries_inv_step: "entries_inv z \<Longrightarrow> entries_inv (zone_step z e)"
proof (cases e)
  case (AddFiles fs)
  moreover assume "entries_inv z"
  ultimately show ?thesis
    by (simp add: addFiles_def Let_def entries_inv_pending entries_invD new_entries_ok)
next
  case (Remove i)
  moreover assume "entries_inv z"
  ultimately show ?thesis
    by (auto simp: removeEntry_def entries_inv_def list_all_iff set_remove_by)
next
  case (LoadSamples ms)
  moreover assume "entries_inv z"
  ultimately show ?thesis
    by (simp add: loadAllSamples_def Let_def entries_inv_pending entries_invD new_entries_ok)
next
  case Clear
  moreover assume "entries_inv z"
  ultimately show ?thesis by (simp add: clearPending_def entries_inv_pending)
qed (simp_all add: threadStep_entries updateType_entries processStart_entries processEnd_entries)

interpretation zone: machine zone_step entries_inv
  by unfold_locales (rule entries_inv_step)

lemma guard_verified:
  "process_guard p = None \<Longrightarrow> list_all entry_ok p \<Longrightarrow> list_all verified_entry p"
  by (auto simp: process_guard_def list_all_iff list_ex_iff entry_ok_def verified_entry_def
      pending_status_def split: if_splits)

text \<open>Every entry that is being verified has a verification outstanding in some thread. The
  identifiers of new entries are fresh (a millisecond clock and five random characters).\<close>

definition outstanding :: "zone \<Rightarrow> string set" where
  "outstanding z = vj_id ` (\<Union>js\<in>set (z_threads z). set js)"

definition jobs_inv :: "zone \<Rightarrow> bool" where
  "jobs_inv z =
     (distinct (map pe_id (z_pending z)) \<and>
      (\<forall>e\<in>set (z_pending z). pe_verifying e \<longrightarrow> pe_file e \<noteq> None \<and> pe_id e \<in> outstanding z))"

fun fresh_event :: "zone \<Rightarrow> zone_event \<Rightarrow> bool" where
  "fresh_event z (AddFiles fs) = distinct (map pe_id (z_pending z) @ map fst fs)"
| "fresh_event z (LoadSamples ms) =
     distinct (map pe_id (z_pending z) @ map (\<lambda>s. pe_id (sampleEntry ms s)) all_samples)"
| "fresh_event z _ = True"

interpretation pending: keyed pe_id retype
  by unfold_locales (simp add: retype_def)

definition with_result :: "verification_result \<Rightarrow> pending_file \<Rightarrow> pending_file" where
  "with_result r x = x\<lparr>pe_verification := Some r, pe_verifying := False\<rparr>"

interpretation verified: keyed pe_id with_result
  by unfold_locales (simp add: with_result_def)

lemma set_verification_alt: "set_verification i r = update_by pe_id i (with_result r)"
  by (simp add: set_verification_def with_result_def [abs_def])

lemma set_update_by: "set (update_by key k f xs) = (\<lambda>x. if key x = k then f x else x) ` set xs"
  by (simp add: update_by_def)

lemma outstanding_append: "outstanding (z\<lparr>z_threads := z_threads z @ [js]\<rparr>) = outstanding z \<union> vj_id ` set js"
  by (auto simp: outstanding_def)

lemma outstanding_frame [simp]:
  "outstanding (z\<lparr>z_pending := p\<rparr>) = outstanding z"
  "outstanding (z\<lparr>z_toasts := ts\<rparr>) = outstanding z"
  "outstanding (z\<lparr>z_hook := h\<rparr>) = outstanding z"
  "outstanding (z\<lparr>z_processing := pr\<rparr>) = outstanding z"
  "outstanding (z\<lparr>z_extracting := b\<rparr>) = outstanding z"
  by (simp_all add: outstanding_def)

lemma entry_job_new:
  "entry_job (newEntry i f) = Some \<lparr>vj_id = i, vj_file = f,
     vj_expectedType = cl_docType (classifyFilename (f_name f)), vj_trusted = False\<rparr>"
  by (simp add: entry_job_def newEntry_def Let_def)

lemma newEntry_sel:
  "pe_id (newEntry i f) = i" "pe_file (newEntry i f) = Some f" "pe_trusted (newEntry i f) = False"
  "pe_verifying (newEntry i f) = True"
  by (simp_all add: newEntry_def Let_def)

lemma addFiles_jobs:
  assumes inv: "jobs_inv z" and fresh: "distinct (map pe_id (z_pending z) @ map fst fs)"
  shows "jobs_inv (addFiles fs z)"
proof -
  let ?new = "map (\<lambda>(i, f). newEntry i f) fs"
  have "map pe_id ?new = map fst fs"
    by (induction fs) (auto simp: newEntry_def Let_def)
  with fresh have ids: "distinct (map pe_id (z_pending z @ ?new))"
    by (simp only: map_append)
  have "map vj_id (List.map_filter entry_job ?new) = map fst fs"
    by (induction fs) (auto simp: map_filter_simps entry_job_new)
  then have jobs: "vj_id ` set (List.map_filter entry_job ?new) = fst ` set fs"
    by (metis list.set_map)
  have "pe_file e \<noteq> None \<and> pe_id e \<in> fst ` set fs" if "e \<in> set ?new" for e
    using that by (force simp: newEntry_def Let_def)
  moreover have "outstanding (addFiles fs z) = outstanding z \<union> fst ` set fs"
    by (auto simp: addFiles_def Let_def outstanding_def jobs [symmetric])
  moreover have "z_pending (addFiles fs z) = z_pending z @ ?new"
    by (simp add: addFiles_def Let_def)
  ultimately show ?thesis using inv ids unfolding jobs_inv_def by auto
qed

lemma threadStep_jobs:
  assumes inv: "jobs_inv z"
  shows "jobs_inv (threadStep k z)"
proof (cases "k < length (z_threads z) \<and> z_threads z ! k \<noteq> []")
  case False
  with inv show ?thesis by (auto simp: threadStep_def split: list.split)
next
  case True
  then obtain j js where k: "k < length (z_threads z)" "z_threads z ! k = j # js"
    by (auto simp: neq_Nil_conv)
  let ?z = "threadStep k z"
  have step: "?z = z\<lparr>z_pending := set_verification (vj_id j) (run_job j) (z_pending z),
                     z_threads := (z_threads z)[k := js]\<rparr>"
    using k by (simp add: threadStep_def)
  have "outstanding z \<subseteq> insert (vj_id j) (outstanding ?z)"
  proof
    fix x assume "x \<in> outstanding z"
    then obtain t q where t: "t \<in> set (z_threads z)" "q \<in> set t" "x = vj_id q"
      by (auto simp: outstanding_def)
    then obtain n where n: "n < length (z_threads z)" "z_threads z ! n = t"
      by (auto simp: in_set_conv_nth)
    show "x \<in> insert (vj_id j) (outstanding ?z)"
    proof (cases "n = k")
      case True
      with n t k have "q = j \<or> q \<in> set js" by auto
      moreover have "js \<in> set ((z_threads z)[k := js])" using k by (simp add: set_update_memI)
      ultimately show ?thesis using t by (auto simp: step outstanding_def)
    next
      case False
      with n have "(z_threads z)[k := js] ! n = t" by simp
      with n have "t \<in> set ((z_threads z)[k := js])"
        by (metis length_list_update nth_mem)
      with t show ?thesis by (auto simp: step outstanding_def)
    qed
  qed
  with inv show ?thesis
    by (auto simp: jobs_inv_def step set_verification_alt set_update_by with_result_def)
qed

lemma updateType_jobs:
  assumes inv: "jobs_inv z"
  shows "jobs_inv (updateType i t z)"
proof -
  let ?p = "update_by pe_id i (retype t) (z_pending z)"
  have dist: "distinct (map pe_id ?p)" using inv by (simp add: jobs_inv_def)
  have files: "pe_verifying e \<longrightarrow> pe_file e \<noteq> None" if "e \<in> set ?p" for e
    using that inv by (auto simp: set_update_by jobs_inv_def retype_def split: if_splits)
  have old: "e \<in> set (z_pending z)" if "e \<in> set ?p" "pe_id e \<noteq> i" for e
    using that by (auto simp: set_update_by retype_def split: if_splits)
  show ?thesis
  proof (cases "find_by pe_id i (z_pending z)")
    case None
    then have "?p = z_pending z" by (intro update_by_absent) (simp add: find_by_None_iff)
    with None inv show ?thesis by (simp add: updateType_def)
  next
    case (Some x)
    then have x: "x \<in> set (z_pending z)" "pe_id x = i" using find_by_SomeD by fastforce+
    have only: "pe_file e = pe_file x" if "e \<in> set ?p" "pe_id e = i" for e
    proof -
      from that obtain y where y: "y \<in> set (z_pending z)" "e = (if pe_id y = i then retype t y else y)"
        by (auto simp: set_update_by)
      with that x have "pe_id y = pe_id x" by (auto simp: retype_def split: if_splits)
      with y x inv have "y = x"
        by (auto simp: jobs_inv_def distinct_map dest: inj_onD)
      with y x show ?thesis by (simp add: retype_def)
    qed
    show ?thesis
    proof (cases "pe_file x")
      case None
      with Some have "updateType i t z = z\<lparr>z_pending := ?p\<rparr>" by (simp add: updateType_def)
      then have eq: "z_pending (updateType i t z) = ?p"
        "outstanding (updateType i t z) = outstanding z" by simp_all
      have "pe_id e \<in> outstanding z" if "e \<in> set ?p" "pe_verifying e" for e
        using old [OF that(1)] only [OF that(1)] files [OF that(1)] that None inv
        by (auto simp: jobs_inv_def)
      then show ?thesis using dist files unfolding jobs_inv_def eq by blast
    next
      case (Some f)
      with \<open>find_by pe_id i (z_pending z) = Some x\<close>
      have eq: "z_pending (updateType i t z) = ?p"
        "outstanding (updateType i t z) = insert i (outstanding z)"
        by (auto simp: updateType_def outstanding_def)
      have "pe_id e \<in> insert i (outstanding z)" if "e \<in> set ?p" "pe_verifying e" for e
        using old [OF that(1)] that inv by (auto simp: jobs_inv_def)
      then show ?thesis using dist files unfolding jobs_inv_def eq by blast
    qed
  qed
qed

lemma jobs_inv_frame [simp]:
  "jobs_inv (z\<lparr>z_toasts := ts\<rparr>) = jobs_inv z"
  "jobs_inv (z\<lparr>z_hook := h\<rparr>) = jobs_inv z"
  "jobs_inv (z\<lparr>z_processing := pr\<rparr>) = jobs_inv z"
  "jobs_inv (z\<lparr>z_extracting := b\<rparr>) = jobs_inv z"
  by (simp_all add: jobs_inv_def)

lemma clearPending_jobs: "jobs_inv (clearPending z)"
  by (simp add: clearPending_def jobs_inv_def)

lemma processStart_jobs: "jobs_inv z \<Longrightarrow> jobs_inv (processStart z)"
  by (simp add: processStart_def split: option.split)

lemma jobs_inv_step: "jobs_inv z \<Longrightarrow> fresh_event z e \<Longrightarrow> jobs_inv (zone_step z e)"
proof (cases e)
  case (LoadSamples ms)
  moreover assume "jobs_inv z" "fresh_event z e"
  ultimately show ?thesis
    by (auto simp: loadAllSamples_def Let_def jobs_inv_def sampleEntry_def o_def)
next
  case (ProcessEnd v)
  moreover assume "jobs_inv z"
  ultimately show ?thesis
    by (auto simp: processEnd_def Let_def case_prod_beta jobs_inv_def split: option.split)
next
  case (Remove i)
  moreover assume "jobs_inv z"
  ultimately show ?thesis
    by (simp add: removeEntry_def jobs_inv_def distinct_remove_by set_remove_by)
qed (simp_all add: addFiles_jobs threadStep_jobs updateType_jobs clearPending_jobs processStart_jobs)

interpretation jobs: guarded_machine zone_step fresh_event jobs_inv
  by unfold_locales (rule jobs_inv_step)

section \<open>Properties\<close>

text \<open>Verification never gets stuck: whatever files are added, re-categorised, removed or
  cleared while others are being verified, once every running handler has finished no pending
  file is left "verifying", so "Process files" is not blocked by its first guard.\<close>

theorem verification_never_stuck:
  assumes "admissible zone_step fresh_event (zone_init h) es"
    and "\<forall>js\<in>set (z_threads (run zone_step (zone_init h) es)). js = []"
  shows "\<not> list_ex pe_verifying (z_pending (run zone_step (zone_init h) es))"
proof -
  have "jobs_inv (run zone_step (zone_init h) es)"
    by (rule jobs.run_inv) (use assms in \<open>simp_all add: zone_init_def jobs_inv_def\<close>)
  moreover from assms(2) have "outstanding (run zone_step (zone_init h) es) = {}"
    by (auto simp: outstanding_def)
  ultimately show ?thesis by (auto simp: jobs_inv_def list_ex_iff)
qed

definition sample_file :: "string \<Rightarrow> upload_file" where
  "sample_file n = \<lparr>f_name = n, f_type = ''application/pdf'', f_size = 2048, f_dims = None,
     f_dataurl = Some ''data:,AAAA''\<rparr>"

lemma verification_never_stuck_witness:
  "\<not> list_ex pe_verifying (z_pending (run zone_step (zone_init (hook_init NoItem))
     [AddFiles [(''a'', sample_file ''passport.pdf'')], ThreadStep 0]))"
proof (rule verification_never_stuck)
  show "admissible zone_step fresh_event (zone_init (hook_init NoItem))
     [AddFiles [(''a'', sample_file ''passport.pdf'')], ThreadStep 0]"
    by (simp add: zone_init_def)
  show "\<forall>js\<in>set (z_threads (run zone_step (zone_init (hook_init NoItem))
     [AddFiles [(''a'', sample_file ''passport.pdf'')], ThreadStep 0])). js = []"
    by (simp add: zone_init_def addFiles_def threadStep_def Let_def entry_job_new map_filter_simps)
qed


definition hook_with :: "application \<Rightarrow> hook" where
  "hook_with a = (hook_init (JsonApps [a]))\<lparr>hk_application := Some a, hk_loading := False\<rparr>"

definition sample_env :: "(parse_file list \<Rightarrow> http_response option) \<Rightarrow> proc_env" where
  "sample_env post = \<lparr>pv_now = ''t'', pv_doc = (\<lambda>i. ''0.abcdefg''), pv_sample = (\<lambda>i j. ''0.abcdefg''),
     pv_extract = (\<lambda>i j. ''0.abcdefg''), pv_post = post\<rparr>"


text \<open>The answer of the parser to the extraction of some entries, and what its contract promises:
  at most one result per file, with activities that are strings.\<close>

definition parser_answer :: "proc_env \<Rightarrow> pending_file list \<Rightarrow> string + extraction_result list" where
  "parser_answer v entries =
     extractDocuments (pv_post v) (List.map_filter pe_file entries) (map pe_detectedType entries)"

definition parser_contract :: "proc_env \<Rightarrow> pending_file list \<Rightarrow> bool" where
  "parser_contract v entries =
     (case parser_answer v entries of
        Inl e \<Rightarrow> True
      | Inr results \<Rightarrow> well_typed_results results \<and> length results \<le> length entries)"

text \<open>The reference: the samples one after the other, then the mappers of the extracted files.\<close>

definition process_in_turn :: "proc_env \<Rightarrow> pending_file list \<Rightarrow> application \<Rightarrow> application" where
  "process_in_turn v pending app =
     (let a = apply_samples v 0 (sample_entries pending) app;
          entries = real_entries pending
      in case parser_answer v entries of
           Inl e \<Rightarrow> a
         | Inr results \<Rightarrow> apply_results (pv_extract v) 0 results (map pe_detectedType entries) a)"

lemma extract_prefill:
  assumes "parser_contract v entries"
  shows "apply_partial (snd (fst (extractRealFiles v n entries a))) a =
    (case parser_answer v entries of
       Inl e \<Rightarrow> a
     | Inr results \<Rightarrow> apply_results (pv_extract v) 0 results (map pe_detectedType entries) a)"
proof (cases "parser_answer v entries")
  case (Inl e)
  then show ?thesis
    by (simp add: parser_answer_def extractRealFiles_def processRealEntries_def)
next
  case (Inr results)
  with assms have ok: "well_typed_results results" "length results \<le> length (map pe_detectedType entries)"
    by (simp_all add: parser_contract_def)
  obtain w where w: "extraction_loop (pv_extract v) 0 results (map pe_detectedType entries) a
      no_updates = Some w"
    "apply_partial w a = apply_results (pv_extract v) 0 results (map pe_detectedType entries) a"
    using extraction_loop_sequential [OF ok, of "pv_extract v" 0 a no_updates] by auto
  show ?thesis
  proof (cases "entries = []")
    case True
    with ok Inr show ?thesis by (simp add: extractRealFiles_def)
  next
    case False
    with Inr w show ?thesis
      by (simp add: parser_answer_def extractRealFiles_def processRealEntries_def
          mapExtractionToApplication_def)
  qed
qed

text \<open>Processing is sequential: applying the update of "Process files" to the captured
  application gives the application on which the samples' prefills and then the mappers of the
  extracted documents acted one after the other, with the new documents and provenance set; when
  the extraction fails only the samples act, and the documents are attached all the same.\<close>

theorem processing_is_sequential:
  assumes "parser_contract v (real_entries pending)"
  shows "\<exists>new prov. length new = length (sample_entries pending) + length (real_entries pending) \<and>
    apply_partial (fst (process_update v pending app)) app =
      (process_in_turn v pending app)\<lparr>documents := documents app @ new, app_provenance := prov\<rparr>"
proof -
  let ?b = "processSampleEntries v (sample_entries pending) app"
  let ?a = "apply_samples v 0 (sample_entries pending) app"
  let ?r = "extractRealFiles v (length (sb_docs ?b)) (real_entries pending) ?a"
  have a: "apply_partial (sb_prefill ?b) app = ?a"
    by (simp add: processSampleEntries_def process_samples_prefill)
  have "apply_partial (fst (process_update v pending app)) app = (apply_partial (snd (fst ?r)) ?a)
      \<lparr>documents := documents app @ sb_docs ?b @ fst (fst ?r),
       app_provenance := obj_spread (app_provenance app) (sb_provenance ?b)\<rparr>"
    by (simp add: process_update_def Let_def case_prod_beta apply_with_docs apply_spread a)
  moreover have "apply_partial (snd (fst ?r)) ?a = process_in_turn v pending app"
    by (simp add: extract_prefill [OF assms] process_in_turn_def Let_def)
  moreover have "length (sb_docs ?b @ fst (fst ?r)) =
      length (sample_entries pending) + length (real_entries pending)"
    by (simp add: processSampleEntries_def process_samples_length [OF sample_entries_ok]
        extractRealFiles_length)
  ultimately show ?thesis by metis
qed

definition coi_answer :: "parse_file list \<Rightarrow> http_response option" where
  "coi_answer files = Some \<lparr>resp_ok = True, resp_status = 200, resp_text = [],
     resp_results = Some [sample_result (JObj [(''company_name'', JStr ''Acme'')])]\<rparr>"

definition verified_coi :: pending_file where
  "verified_coi = \<lparr>pe_id = ''a'', pe_file = Some (sample_file ''coi.pdf''), pe_filename = ''coi.pdf'',
     pe_detectedType = CERTIFICATE_OF_INCORPORATION, pe_confidence = 95 / 100,
     pe_verification = Some passed, pe_verifying = False, pe_trusted = False\<rparr>"

lemma processing_is_sequential_witness:
  "\<exists>new prov. length new = 1 \<and>
     apply_partial (fst (process_update (sample_env coi_answer) [verified_coi] (sample_app ''A'')))
       (sample_app ''A'') =
     (process_in_turn (sample_env coi_answer) [verified_coi] (sample_app ''A''))
       \<lparr>documents := new, app_provenance := prov\<rparr>"
proof -
  have "real_entries [verified_coi] = [verified_coi]" "sample_entries [verified_coi] = []"
    by (simp_all add: real_entries_def sample_entries_def verified_coi_def)
  moreover have "parser_contract (sample_env coi_answer) [verified_coi]"
    by (simp add: parser_contract_def parser_answer_def extractDocuments_def sample_env_def
        coi_answer_def well_typed_results_def sample_result_def activities_ok_def Let_def)
  moreover have "documents (sample_app ''A'') = []"
    by (simp add: sample_app_def createNewApplication_def)
  ultimately show ?thesis
    using processing_is_sequential [of "sample_env coi_answer" "[verified_coi]" "sample_app ''A''"]
    by simp
qed

text \<open>A verification can end up being that of a type the file no longer has: if the type of the
  second of two added files is changed, and verified, before the upload handler reaches that
  file, the handler's verification against the old type comes last. The file then shows, with
  nothing outstanding, a verification that ignores the type the user chose.\<close>

theorem stale_verification_wins:
  assumes "i \<noteq> j"
  shows "let z = run zone_step (zone_init h)
               [AddFiles [(i, f), (j, g)], ThreadStep 0, ChangeType j t, ThreadStep 1, ThreadStep 0]
         in (\<forall>js\<in>set (z_threads z). js = []) \<and>
            (\<exists>e. find_by pe_id j (z_pending z) = Some e \<and> pe_detectedType e = t \<and> \<not> pe_verifying e \<and>
               pe_verification e =
                 Some (verifyDocument g (cl_docType (classifyFilename (f_name g))) False))"
  using assms
  by (simp add: zone_init_def addFiles_def threadStep_def updateType_def set_verification_def
      entry_job_new map_filter_simps newEntry_sel retype_def run_job_def Let_def)

lemma stale_verification_wins_witness:
  "let z = run zone_step (zone_init (hook_init NoItem))
         [AddFiles [(''a'', sample_file ''x.pdf''), (''b'', sample_file ''moa.pdf'')], ThreadStep 0,
          ChangeType ''b'' PASSPORT, ThreadStep 1, ThreadStep 0]
   in \<exists>e. find_by pe_id ''b'' (z_pending z) = Some e \<and> pe_detectedType e = PASSPORT \<and>
          pe_verification e =
            Some (verifyDocument (sample_file ''moa.pdf'') (cl_docType (classifyFilename ''moa.pdf'')) False)"
  using stale_verification_wins [of "''a''" "''b''" "hook_init NoItem" "sample_file ''x.pdf''"
      "sample_file ''moa.pdf''" PASSPORT]
  unfolding Let_def by (auto simp: sample_file_def)

text \<open>While the extraction runs the page stays live, but its end works on the captured values:
  every file pending by then is cleared, also those added meanwhile, which become no documents,
  and the stored application is the captured one with the update, without the edits made
  meanwhile.\<close>

theorem process_end_discards_later_work:
  assumes "z_processing z = Some (pending, app)" and "getAllApplications (hk_slot (z_hook z)) \<noteq> None"
  shows "z_pending (zone_step z (ProcessEnd v)) = [] \<and>
         (let a = apply_partial (fst (process_update v pending app)) app
          in slot_load (hk_slot (z_hook (zone_step z (ProcessEnd v)))) (application_id a) =
               Some (a\<lparr>updated_at := pv_now v\<rparr>))"
proof -
  have "slot_ok (hk_slot (z_hook z))" using assms(2) by (simp add: slot_ok_def)
  then show ?thesis
    by (simp add: assms(1) processEnd_def Let_def case_prod_beta updateApplication_def commit_ok
        slot_load_save)
qed

lemma process_end_discards_later_work_witness:
  "let z = run zone_step (zone_init (hook_with (sample_app ''A'')))
         [LoadSamples 0, ProcessStart, AddFiles [(''a'', sample_file ''x.pdf'')]]
   in length (z_pending z) = 8 \<and> z_pending (zone_step z (ProcessEnd (sample_env (\<lambda>p. None)))) = []"
proof -
  let ?p = "map (sampleEntry 0) all_samples"
  have all: "all_samples = [trade_license_sample, moa_sample, coi_sample, passport_sample,
      emirates_id_sample, proof_of_address_sample, bank_statement_sample]"
    by (simp add: all_samples_def DOC_TYPE_OPTIONS_def map_filter_simps)
  have "process_guard ?p = None"
    by (simp add: all process_guard_def pending_status_def sampleEntry_def sample_defs passed_def
        statement_warning_def)
  let ?z = "run zone_step (zone_init (hook_with (sample_app ''A'')))
         [LoadSamples 0, ProcessStart, AddFiles [(''a'', sample_file ''x.pdf'')]]"
  have "z_processing ?z = Some (?p, sample_app ''A'')" "getAllApplications (hk_slot (z_hook ?z)) \<noteq> None"
    and "length (z_pending ?z) = 8"
    using \<open>process_guard ?p = None\<close>
    by (simp_all add: zone_init_def loadAllSamples_def processStart_def hook_with_def addFiles_def
        hook_init_def Let_def) (simp add: all)
  with process_end_discards_later_work [of ?z ?p "sample_app ''A''"] show ?thesis
    by (simp only: Let_def simp_thms)
qed

end
