(* ===== verification/Submission.thy ===== *)
theory Submission
  imports Onboarding_Store
begin

text \<open>
  \<open>features/onboarding/api.ts\<close>: the connection of the page to the backend and the submission of
  an application.

  The backend is a parameter. \<open>verify key\<close> is its answer to the session check made with an API
  key; \<open>srv sent req\<close> is its answer to a request, after the requests \<open>sent\<close>. The SDK returns an
  answer with \<open>error\<close> or \<open>data\<close>. The module's variables, the key the SDK is configured with and
  the item of \<open>sessionStorage\<close> are the record \<open>conn\<close>; a promise is represented by its outcome.
  An error message that ends in the JSON text of a value is kept as the pair.
\<close>

record api_response =
  res_error :: "json option"
  res_data :: "json option"

datatype exn = Exn string | ExnJson string json

definition has_error :: "api_response \<Rightarrow> bool" where
  "has_error r = (case res_error r of None \<Rightarrow> False | Some e \<Rightarrow> json_truthy e)"

section \<open>The connection\<close>

record conn =
  cn_stored :: "string option"
  cn_sdk :: "string option"
  cn_promise :: "(exn + string) option"

definition getStoredApiKey :: "conn \<Rightarrow> string option" where
  "getStoredApiKey c = cn_stored c"

definition verifySession :: "(string \<Rightarrow> api_response) \<Rightarrow> string \<Rightarrow> exn + string" where
  "verifySession verify key =
     (let res = verify key in
      if has_error res \<or> \<not> (case res_data res of None \<Rightarrow> False | Some d \<Rightarrow> json_truthy d)
      then Inl (Exn ''Invalid API key'')
      else (let tenantId = as_string (jget (res_data res) ''tenant_id'') in
            if truthy tenantId then Inr (the tenantId)
            else Inl (Exn ''Session response is missing tenant_id'')))"

definition activate :: "(string \<Rightarrow> api_response) \<Rightarrow> string \<Rightarrow> conn \<Rightarrow> conn" where
  "activate verify key c =
     c\<lparr>cn_sdk := Some key, cn_promise := Some (verifySession verify key)\<rparr>"

definition connectWithApiKey ::
  "(string \<Rightarrow> api_response) \<Rightarrow> string \<Rightarrow> conn \<Rightarrow> exn option \<times> conn" where
  "connectWithApiKey verify apiKey c =
     (let trimmed = trim apiKey in
      if trimmed = [] then (Some (Exn ''API key is required''), c)
      else (let c' = activate verify trimmed c in
            case verifySession verify trimmed of
              Inl e \<Rightarrow> (Some e, c')
            | Inr t \<Rightarrow> (None, c'\<lparr>cn_stored := Some trimmed\<rparr>)))"

definition resolveTenantId ::
  "(string \<Rightarrow> api_response) \<Rightarrow> conn \<Rightarrow> (exn + string) \<times> conn" where
  "resolveTenantId verify c =
     (case cn_promise c of
        Some p \<Rightarrow> (p, c)
      | None \<Rightarrow>
          (case getStoredApiKey c of
             None \<Rightarrow> (Inl (Exn (''Not connected '' @ [CHR 0xE2, CHR 0x80, CHR 0x94] @ '' enter an API key'')), c)
           | Some key \<Rightarrow>
               if key = [] then
                 (Inl (Exn (''Not connected '' @ [CHR 0xE2, CHR 0x80, CHR 0x94] @ '' enter an API key'')), c)
               else (verifySession verify key, activate verify key c)))"

text \<open>The module is loaded: its variables are fresh, the storage is that of the tab.\<close>

definition loadModule :: "(string \<Rightarrow> api_response) \<Rightarrow> string option \<Rightarrow> conn" where
  "loadModule verify stored =
     (let c = \<lparr>cn_stored = stored, cn_sdk = None, cn_promise = None\<rparr> in
      case getStoredApiKey c of
        None \<Rightarrow> c
      | Some key \<Rightarrow> if key = [] then c else activate verify key c)"

datatype conn_event = Connect string | Resolve | Reload

fun conn_step :: "(string \<Rightarrow> api_response) \<Rightarrow> conn \<Rightarrow> conn_event \<Rightarrow> conn" where
  "conn_step verify c (Connect k) = snd (connectWithApiKey verify k c)"
| "conn_step verify c Resolve = snd (resolveTenantId verify c)"
| "conn_step verify c Reload = loadModule verify (cn_stored c)"

text \<open>The tenant a page uses is the one the key of its requests resolves to, and a stored key is
  one that was verified.\<close>

definition conn_inv :: "(string \<Rightarrow> api_response) \<Rightarrow> conn \<Rightarrow> bool" where
  "conn_inv verify c =
     ((case cn_promise c of None \<Rightarrow> True
       | Some p \<Rightarrow> (case cn_sdk c of None \<Rightarrow> False | Some k \<Rightarrow> p = verifySession verify k)) \<and>
      (case cn_stored c of None \<Rightarrow> True | Some k \<Rightarrow> \<exists>t. verifySession verify k = Inr t))"

lemma activate_inv: "conn_inv verify c \<Longrightarrow> conn_inv verify (activate verify k c)"
  by (simp add: conn_inv_def activate_def)

lemma conn_step_inv: "conn_inv verify c \<Longrightarrow> conn_inv verify (conn_step verify c e)"
proof (cases e)
  case (Connect k)
  assume inv: "conn_inv verify c"
  show ?thesis
  proof (cases "trim k = []")
    case True
    with Connect inv show ?thesis by (simp add: connectWithApiKey_def)
  next
    case False
    with Connect inv show ?thesis
      by (auto simp: connectWithApiKey_def Let_def conn_inv_def activate_def split: sum.splits)
  qed
next
  case Resolve
  assume "conn_inv verify c"
  with Resolve show ?thesis
    by (auto simp: resolveTenantId_def activate_inv split: option.splits)
next
  case Reload
  assume "conn_inv verify c"
  with Reload show ?thesis
    by (auto simp: loadModule_def getStoredApiKey_def conn_inv_def activate_def Let_def
        split: option.splits)
qed

interpretation conn: machine "conn_step verify" "conn_inv verify"
  by unfold_locales (rule conn_step_inv)

section \<open>The requests\<close>

fun DOCUMENT_TYPE_MAP :: "document_type \<Rightarrow> string" where
  "DOCUMENT_TYPE_MAP TRADE_LICENSE = ''business_registration''"
| "DOCUMENT_TYPE_MAP MEMORANDUM_OF_ASSOCIATION = ''business_registration''"
| "DOCUMENT_TYPE_MAP CERTIFICATE_OF_INCORPORATION = ''business_registration''"
| "DOCUMENT_TYPE_MAP PASSPORT = ''identity_document''"
| "DOCUMENT_TYPE_MAP EMIRATES_ID = ''identity_document''"
| "DOCUMENT_TYPE_MAP PROOF_OF_ADDRESS = ''proof_of_address''"
| "DOCUMENT_TYPE_MAP BANK_STATEMENT = ''source_of_funds''"
| "DOCUMENT_TYPE_MAP OTHER = ''other''"

definition HOLDER_TYPE_MAP :: "string obj" where
  "HOLDER_TYPE_MAP =
     [(''llc'', ''business''), (''sole_prop'', ''individual''), (''branch'', ''business''),
      (''fze'', ''business''), (''fzco'', ''business'')]"

definition LEGAL_STRUCTURE_MAP :: "string obj" where
  "LEGAL_STRUCTURE_MAP =
     [(''llc'', ''llc''), (''sole_prop'', ''sole_proprietorship''), (''branch'', ''corporation''),
      (''fze'', ''corporation''), (''fzco'', ''corporation'')]"

record address_request =
  aq_address_types :: "string list"
  aq_line1 :: string
  aq_line2 :: "string option"
  aq_locality :: string
  aq_region :: "string option"
  aq_country :: string
  aq_postal_code :: "string option"
  aq_primary :: bool

record identification_request =
  iq_id_type :: string
  iq_id_number :: string
  iq_issuing_country :: "string option"

definition mapAddresses :: "application \<Rightarrow> address_request list" where
  "mapAddresses app = map (\<lambda>addr.
     \<lparr>aq_address_types = [''business''], aq_line1 = addr_line1 addr, aq_line2 = addr_line2 addr,
      aq_locality = addr_city addr, aq_region = addr_emirate addr, aq_country = addr_country addr,
      aq_postal_code = addr_postal_code addr, aq_primary = (addr_type addr = REGISTERED)\<rparr>)
     (addresses app)"

text \<open>The persons of the loop, by the two fields it reads: passport number and nationality.\<close>

definition persons :: "application \<Rightarrow> (string \<times> string) list" where
  "persons app =
     map (\<lambda>d. (dir_passport_number d, dir_nationality d)) (directors app) @
     map (\<lambda>u. (ubo_passport_number u, ubo_nationality u)) (ubos app)"

fun identification_loop ::
  "(string \<times> string) list \<Rightarrow> string list \<Rightarrow> identification_request list \<Rightarrow>
   identification_request list" where
  "identification_loop [] seen ids = ids"
| "identification_loop ((number, nationality) # ps) seen ids =
     (if number \<noteq> [] \<and> ''passport'' \<notin> set seen
      then identification_loop ps (''passport'' # seen)
             (ids @ [\<lparr>iq_id_type = ''passport'', iq_id_number = number,
                      iq_issuing_country = js_or (Some nationality) None\<rparr>])
      else identification_loop ps seen ids)"

definition mapIdentifications :: "application \<Rightarrow> identification_request list" where
  "mapIdentifications app = identification_loop (persons app) [] []"

record legal_entity_request =
  le_legal_entity_type :: string
  le_business_name :: "string option"
  le_doing_business_as_names :: "string list option"
  le_date_formed :: "string option"
  le_citizenship_country :: string
  le_legal_structure :: "string option"
  le_tenant_id :: string
  le_addresses :: "address_request list"
  le_identifications :: "identification_request list"

record account_holder_request =
  ah_account_holder_type :: string
  ah_status :: string
  ah_kyc_status :: string
  ah_risk_level :: string
  ah_enabled_currencies :: "string list"
  ah_chain_screening :: bool
  ah_tenant_id :: string
  ah_legal_entity :: legal_entity_request

record document_request =
  dq_account_holder_id :: string
  dq_document_type :: string
  dq_name :: string
  dq_file_name :: string
  dq_primary :: bool
  dq_status :: string
  dq_tenant_id :: string

record kyc_request =
  kq_account_holder_id :: string
  kq_legal_entity_id :: string
  kq_scope :: string
  kq_requirement_type :: string
  kq_status :: string
  kq_document_id :: "string option"
  kq_tenant_id :: string

datatype api_request =
  CreateAccountHolder account_holder_request | CreateDocument document_request
| CreateKyc kyc_request | ShowAccountHolder string | ShowKyc string

type_synonym server = "api_request list \<Rightarrow> api_request \<Rightarrow> api_response"

section \<open>Submitting\<close>

record onboarding_result =
  or_accountHolderId :: string
  or_legalEntityId :: string
  or_documentIds :: "string list"
  or_kycRequirementId :: string

text \<open>\<open>(res.data as ApiResponse).id\<close>: reading it throws when there is no data; an object without
  an id gives the empty text.\<close>

definition id_of :: "json \<Rightarrow> string" where
  "id_of d = nullish (as_string (jget (Some d) ''id'')) []"

definition type_error :: exn where
  "type_error = Exn ''Cannot read properties of undefined''"

definition account_holder_body :: "string \<Rightarrow> application \<Rightarrow> account_holder_request" where
  "account_holder_body tenantId app =
     (let profile = app_profile app;
          entityType = nullish (bp_entity_type profile) [];
          holderType = nullish (obj_get HOLDER_TYPE_MAP entityType) ''business'';
          isIndividual = (holderType = ''individual'')
      in \<lparr>ah_account_holder_type = holderType, ah_status = ''pending'', ah_kyc_status = ''not_started'',
          ah_risk_level = ''low'', ah_enabled_currencies = [''USD''], ah_chain_screening = False,
          ah_tenant_id = tenantId,
          ah_legal_entity =
            \<lparr>le_legal_entity_type = (if isIndividual then ''individual'' else ''business''),
             le_business_name = bp_legal_name profile,
             le_doing_business_as_names =
               (if truthy (bp_trade_name profile) then Some [the (bp_trade_name profile)] else None),
             le_date_formed = js_or (bp_incorporation_date profile) None,
             le_citizenship_country = ''AE'',
             le_legal_structure = obj_get LEGAL_STRUCTURE_MAP entityType,
             le_tenant_id = tenantId,
             le_addresses = mapAddresses app,
             le_identifications = mapIdentifications app\<rparr>\<rparr>)"

definition document_body :: "string \<Rightarrow> string \<Rightarrow> doc \<Rightarrow> document_request" where
  "document_body tenantId accountHolderId d =
     \<lparr>dq_account_holder_id = accountHolderId,
      dq_document_type = DOCUMENT_TYPE_MAP (doc_doc_type d),
      dq_name = toLowerCase (doc_type_name (doc_doc_type d)),
      dq_file_name = doc_filename d, dq_primary = True, dq_status = ''submitted'',
      dq_tenant_id = tenantId\<rparr>"

definition kyc_body :: "string \<Rightarrow> string \<Rightarrow> string \<Rightarrow> string list \<Rightarrow> kyc_request" where
  "kyc_body tenantId accountHolderId legalEntityId documentIds =
     \<lparr>kq_account_holder_id = accountHolderId, kq_legal_entity_id = legalEntityId,
      kq_scope = ''account_holder'', kq_requirement_type = ''identity_document'',
      kq_status = ''submitted'',
      kq_document_id = (case documentIds of [] \<Rightarrow> None | d # _ \<Rightarrow> Some d),
      kq_tenant_id = tenantId\<rparr>"

text \<open>The loop over the documents: the identifiers, or the exception that ends the submission,
  with the requests sent.\<close>

fun create_documents ::
  "server \<Rightarrow> string \<Rightarrow> string \<Rightarrow> doc list \<Rightarrow> string list \<Rightarrow> api_request list \<Rightarrow>
   (exn + string list) \<times> api_request list" where
  "create_documents srv tenantId ah [] ids sent = (Inr ids, sent)"
| "create_documents srv tenantId ah (d # ds) ids sent =
     (let req = CreateDocument (document_body tenantId ah d);
          docRes = srv sent req;
          sent' = sent @ [req]
      in if has_error docRes
         then (Inl (ExnJson ''Failed to create Document: '' (the (res_error docRes))), sent')
         else (case res_data docRes of
                 None \<Rightarrow> (Inl type_error, sent')
               | Some docBody \<Rightarrow> create_documents srv tenantId ah ds (ids @ [id_of docBody]) sent'))"

definition submit_requests ::
  "server \<Rightarrow> string \<Rightarrow> application \<Rightarrow> api_request list \<Rightarrow>
   (exn + onboarding_result) \<times> api_request list" where
  "submit_requests srv tenantId app sent0 =
     (let req1 = CreateAccountHolder (account_holder_body tenantId app);
          ahRes = srv sent0 req1;
          sent1 = sent0 @ [req1]
      in if has_error ahRes
         then (Inl (ExnJson ''Failed to create AccountHolder: '' (the (res_error ahRes))), sent1)
         else (case res_data ahRes of
                 None \<Rightarrow> (Inl type_error, sent1)
               | Some ahBody \<Rightarrow>
                   (let accountHolderId = id_of ahBody;
                        legalEntityId =
                          nullish (as_string (jget (jget (Some ahBody) ''legal_entity'') ''id'')) []
                    in case create_documents srv tenantId accountHolderId (documents app) [] sent1 of
                         (Inl e, sent2) \<Rightarrow> (Inl e, sent2)
                       | (Inr documentIds, sent2) \<Rightarrow>
                           (let req3 = CreateKyc (kyc_body tenantId accountHolderId legalEntityId documentIds);
                                kycRes = srv sent2 req3;
                                sent3 = sent2 @ [req3]
                            in if has_error kycRes
                               then (Inl (ExnJson ''Failed to create KycRequirement: ''
                                           (the (res_error kycRes))), sent3)
                               else (case res_data kycRes of
                                       None \<Rightarrow> (Inl type_error, sent3)
                                     | Some kycBody \<Rightarrow>
                                         (Inr \<lparr>or_accountHolderId = accountHolderId,
                                               or_legalEntityId = legalEntityId,
                                               or_documentIds = documentIds,
                                               or_kycRequirementId = id_of kycBody\<rparr>, sent3))))))"

definition submitOnboarding ::
  "(string \<Rightarrow> api_response) \<Rightarrow> server \<Rightarrow> application \<Rightarrow> conn \<Rightarrow> api_request list \<Rightarrow>
   (exn + onboarding_result) \<times> conn \<times> api_request list" where
  "submitOnboarding verify srv app c sent0 =
     (case resolveTenantId verify c of
        (Inl e, c') \<Rightarrow> (Inl e, c', sent0)
      | (Inr tenantId, c') \<Rightarrow>
          (let (r, sent) = submit_requests srv tenantId app sent0 in (r, c', sent)))"

record submission_details =
  sub_accountHolder :: json
  sub_legalEntity :: json
  sub_kycRequirement :: "json option"

definition fetchSubmissionDetails ::
  "server \<Rightarrow> conn \<Rightarrow> onboarding_result \<Rightarrow> api_request list \<Rightarrow>
   (exn + submission_details option) \<times> api_request list" where
  "fetchSubmissionDetails srv c result sent =
     (if \<not> truthy (getStoredApiKey c) then (Inr None, sent)
      else
        (let req1 = ShowAccountHolder (or_accountHolderId result);
             ahRes = srv sent req1;
             req2 = ShowKyc (or_kycRequirementId result);
             kycRes = srv (sent @ [req1]) req2;
             sent' = sent @ [req1, req2]
         in if has_error ahRes \<or> has_error kycRes then (Inr None, sent')
            else (case res_data ahRes of
                    None \<Rightarrow> (Inl type_error, sent')
                  | Some accountHolder \<Rightarrow>
                      (case jget (Some accountHolder) ''legal_entity'' of
                         None \<Rightarrow> (Inr None, sent')
                       | Some legalEntity \<Rightarrow>
                           if json_truthy legalEntity
                           then (Inr (Some \<lparr>sub_accountHolder = accountHolder,
                                            sub_legalEntity = legalEntity,
                                            sub_kycRequirement = res_data kycRes\<rparr>), sent')
                           else (Inr None, sent')))))"

section \<open>Facts\<close>

lemma identification_loop_seen:
  "''passport'' \<in> set seen \<Longrightarrow> identification_loop ps seen ids = ids"
  by (induction ps seen ids rule: identification_loop.induct) auto

lemma identification_loop_first:
  "''passport'' \<notin> set seen \<Longrightarrow> identification_loop ps seen ids =
     ids @ (case List.find (\<lambda>(n, c). n \<noteq> []) ps of
              None \<Rightarrow> []
            | Some (n, c) \<Rightarrow> [\<lparr>iq_id_type = ''passport'', iq_id_number = n,
                               iq_issuing_country = js_or (Some c) None\<rparr>])"
  by (induction ps seen ids rule: identification_loop.induct)
    (auto simp: identification_loop_seen)

fun tenant_of :: "api_request \<Rightarrow> string list" where
  "tenant_of (CreateAccountHolder r) = [ah_tenant_id r, le_tenant_id (ah_legal_entity r)]"
| "tenant_of (CreateDocument r) = [dq_tenant_id r]"
| "tenant_of (CreateKyc r) = [kq_tenant_id r]"
| "tenant_of (ShowAccountHolder i) = []"
| "tenant_of (ShowKyc i) = []"

fun is_create_holder :: "api_request \<Rightarrow> bool" where
  "is_create_holder (CreateAccountHolder r) = True"
| "is_create_holder _ = False"

text \<open>The requests that create the documents.\<close>

definition document_requests :: "string \<Rightarrow> string \<Rightarrow> doc list \<Rightarrow> api_request list" where
  "document_requests t ah ds = map (\<lambda>d. CreateDocument (document_body t ah d)) ds"

lemma create_documents_sent:
  assumes "create_documents srv t ah ds ids l = (r, l')"
  shows "\<exists>k\<le>length ds. l' = l @ document_requests t ah (take k ds) \<and>
     (case r of Inl e \<Rightarrow> 0 < k
      | Inr ids' \<Rightarrow> k = length ds \<and> length ids' = length ids + length ds)"
  using assms
proof (induction ds arbitrary: ids l)
  case Nil
  then show ?case by (auto simp: document_requests_def)
next
  case (Cons d ds)
  let ?req = "CreateDocument (document_body t ah d)"
  show ?case
  proof (cases "has_error (srv l ?req) \<or> res_data (srv l ?req) = None")
    case True
    with Cons.prems show ?thesis
      by (intro exI [of _ 1]) (auto simp: Let_def document_requests_def split: if_splits)
  next
    case False
    then obtain b where b: "res_data (srv l ?req) = Some b" by auto
    with False Cons.prems have "create_documents srv t ah ds (ids @ [id_of b]) (l @ [?req]) = (r, l')"
      by (simp add: Let_def)
    from Cons.IH [OF this] obtain k where "k \<le> length ds"
      "l' = (l @ [?req]) @ document_requests t ah (take k ds)"
      "case r of Inl e \<Rightarrow> 0 < k
       | Inr ids' \<Rightarrow> k = length ds \<and> length ids' = length (ids @ [id_of b]) + length ds" by blast
    then show ?thesis
      by (intro exI [of _ "k + 1"]) (auto simp: document_requests_def split: sum.splits)
  qed
qed

text \<open>Every submission sends the creation of the account holder first, then a prefix of the
  documents, and the requirement last.\<close>

lemma submit_requests_sent:
  assumes "submit_requests srv t app l = (r, l')"
  shows "\<exists>ah k rest. k \<le> length (documents app) \<and>
     l' = l @ CreateAccountHolder (account_holder_body t app) #
            document_requests t ah (take k (documents app)) @ rest \<and>
     (rest = [] \<or> k = length (documents app) \<and> (\<exists>le ids. rest = [CreateKyc (kyc_body t ah le ids)])) \<and>
     (\<forall>res. r = Inr res \<longrightarrow>
        ah = or_accountHolderId res \<and> length (or_documentIds res) = length (documents app) \<and>
        k = length (documents app) \<and>
        rest = [CreateKyc (kyc_body t ah (or_legalEntityId res) (or_documentIds res))])"
proof -
  let ?req = "CreateAccountHolder (account_holder_body t app)"
  show ?thesis
  proof (cases "has_error (srv l ?req) \<or> res_data (srv l ?req) = None")
    case True
    with assms have "l' = l @ [?req]" "\<exists>e. r = Inl e"
      by (auto simp: submit_requests_def Let_def split: if_splits)
    then show ?thesis
      by (intro exI [of _ "[]"] exI [of _ "0::nat"]) (auto simp: document_requests_def)
  next
    case False
    then obtain b where b: "res_data (srv l ?req) = Some b" "\<not> has_error (srv l ?req)" by auto
    obtain q l2 where q: "create_documents srv t (id_of b) (documents app) [] (l @ [?req]) = (q, l2)"
      by fastforce
    from create_documents_sent [OF this] obtain k where k: "k \<le> length (documents app)"
      "l2 = (l @ [?req]) @ document_requests t (id_of b) (take k (documents app))"
      "case q of Inl e \<Rightarrow> 0 < k
       | Inr ids' \<Rightarrow> k = length (documents app) \<and> length ids' = length (documents app)"
      by (metis add_0 list.size(3))
    show ?thesis
    proof (cases q)
      case (Inl e)
      with assms b q have "l' = l2" "r = Inl e" by (auto simp: submit_requests_def Let_def)
      with k show ?thesis
        by (intro exI [of _ "id_of b"] exI [of _ k] exI [of _ "[]"]) auto
    next
      case (Inr ids)
      let ?le = "nullish (as_string (jget (jget (Some b) ''legal_entity'') ''id'')) []"
      from Inr assms b q have "l' = l2 @ [CreateKyc (kyc_body t (id_of b) ?le ids)]"
        and "\<And>res. r = Inr res \<Longrightarrow> or_accountHolderId res = id_of b \<and> or_legalEntityId res = ?le \<and>
               or_documentIds res = ids"
        by (auto simp: submit_requests_def Let_def split: if_splits option.splits)
      with k Inr show ?thesis
        by (intro exI [of _ "id_of b"] exI [of _ k]
            exI [of _ "[CreateKyc (kyc_body t (id_of b) ?le ids)]"]) auto
    qed
  qed
qed

lemma document_requests_tenant:
  "req \<in> set (document_requests t ah ds) \<Longrightarrow> set (tenant_of req) = {t} \<and> \<not> is_create_holder req"
  by (auto simp: document_requests_def document_body_def)

lemma submit_requests_tenant:
  assumes "submit_requests srv t app [] = (r, sent)"
  shows "\<forall>req\<in>set sent. set (tenant_of req) = {t}"
proof -
  have "set (tenant_of (CreateAccountHolder (account_holder_body t app))) = {t}"
    "\<And>ah le ids. set (tenant_of (CreateKyc (kyc_body t ah le ids))) = {t}"
    by (simp_all add: account_holder_body_def kyc_body_def Let_def)
  with submit_requests_sent [OF assms] document_requests_tenant show ?thesis
    by (fastforce simp del: tenant_of.simps)
qed

section \<open>Properties\<close>


text \<open>A backend that accepts everything and numbers what it creates.\<close>

definition accepting :: server where
  "accepting sent req =
     \<lparr>res_error = None,
      res_data = Some (JObj [(''id'', JStr (nat_to_string (length sent))),
                             (''legal_entity'', JObj [(''id'', JStr ''le'')])])\<rparr>"

definition one_doc :: application where
  "one_doc = (sample_app ''A'')\<lparr>documents :=
     [\<lparr>doc_file_id = ''f'', doc_doc_type = PASSPORT, doc_filename = ''p.pdf'', doc_status = EXTRACTED,
       doc_uploaded_at = ''t'', doc_verification = None\<rparr>]\<rparr>"


text \<open>A submission is not transactional and not idempotent: whatever the backend answers, each
  attempt creates exactly one account holder, before anything else, and sends nothing that
  removes it. An attempt that fails at a document leaves the account holder behind, and trying
  again creates another one.\<close>

theorem every_attempt_creates_a_holder:
  "length (filter is_create_holder (snd (submit_requests srv tenant app sent))) =
     length (filter is_create_holder sent) + 1 \<and>
   length (filter is_create_holder
     (snd (submit_requests srv tenant app (snd (submit_requests srv tenant app sent))))) =
     length (filter is_create_holder sent) + 2"
proof -
  have one: "length (filter is_create_holder (snd (submit_requests srv tenant app l))) =
      length (filter is_create_holder l) + 1" for l
  proof -
    obtain r l' where r: "submit_requests srv tenant app l = (r, l')" by fastforce
    from submit_requests_sent [OF r] obtain ah k rest where
      "l' = l @ CreateAccountHolder (account_holder_body tenant app) #
          document_requests tenant ah (take k (documents app)) @ rest"
      "rest = [] \<or> (\<exists>le ids. rest = [CreateKyc (kyc_body tenant ah le ids)])" by blast
    moreover have "filter is_create_holder (document_requests tenant ah ds) = []" for ah ds
      by (induction ds) (simp_all add: document_requests_def)
    ultimately show ?thesis using r by auto
  qed
  show ?thesis by (simp add: one)
qed

text \<open>C33. Requests never mix tenants: in a tab that started without a stored key, whatever keys were
  tried at the gate, every request of a submission carries the tenant to which the key that the
  SDK sends with it resolves; and without a verified key nothing is sent.\<close>

theorem submission_tenant_matches_key:
  assumes "c = run (conn_step verify) (loadModule verify None) es"
    and "submitOnboarding verify srv app c [] = (r, c', sent)"
  shows "sent = [] \<and> (\<exists>e. r = Inl e) \<or>
         (\<exists>key tenant. cn_sdk c' = Some key \<and> verifySession verify key = Inr tenant \<and>
            (\<forall>req\<in>set sent. set (tenant_of req) = {tenant}))"
proof -
  have inv0: "conn_inv verify (loadModule verify None)"
    by (simp add: loadModule_def getStoredApiKey_def conn_inv_def)
  have inv: "conn_inv verify c" unfolding assms(1) by (rule conn.run_inv) (rule inv0)
  obtain q d where q: "resolveTenantId verify c = (q, d)" by fastforce
  have d: "conn_inv verify d" using conn_step_inv [OF inv, of Resolve] q by simp
  show ?thesis
  proof (cases q)
    case (Inl e)
    with assms(2) q show ?thesis by (auto simp: submitOnboarding_def)
  next
    case (Inr tenant)
    with q have "cn_promise d = Some (Inr tenant)"
      by (auto simp: resolveTenantId_def activate_def split: option.splits if_splits)
    with d obtain key where key: "cn_sdk d = Some key" "verifySession verify key = Inr tenant"
      by (auto simp: conn_inv_def split: option.splits)
    from assms(2) q Inr have r: "c' = d" "submit_requests srv tenant app [] = (r, sent)"
      by (auto simp: submitOnboarding_def Let_def case_prod_beta)
    have "\<forall>req\<in>set sent. set (tenant_of req) = {tenant}"
      using r(2) by (rule submit_requests_tenant)
    with key r show ?thesis by blast
  qed
qed

definition accepts_key :: "string \<Rightarrow> api_response" where
  "accepts_key key = (if key = ''k1''
     then \<lparr>res_error = None, res_data = Some (JObj [(''tenant_id'', JStr ''T'')])\<rparr>
     else \<lparr>res_error = Some (JStr ''unauthorized''), res_data = None\<rparr>)"

lemma submission_tenant_matches_key_witness:
  "\<exists>r c' sent. submitOnboarding accepts_key accepting one_doc
       (run (conn_step accepts_key) (loadModule accepts_key None) [Connect ''k2'', Connect ''k1'']) [] =
       (r, c', sent) \<and> sent \<noteq> [] \<and> (\<forall>req\<in>set sent. set (tenant_of req) = {''T''})"
proof -
  let ?c = "run (conn_step accepts_key) (loadModule accepts_key None) [Connect ''k2'', Connect ''k1'']"
  have c: "?c = \<lparr>cn_stored = Some ''k1'', cn_sdk = Some ''k1'', cn_promise = Some (Inr ''T'')\<rparr>"
    by (simp add: loadModule_def getStoredApiKey_def connectWithApiKey_def activate_def accepts_key_def
        verifySession_def has_error_def trim_def is_ws_def Let_def)
  obtain r c' sent where s: "submitOnboarding accepts_key accepting one_doc ?c [] = (r, c', sent)"
    by (metis prod_cases3)
  then have "submitOnboarding accepts_key accepting one_doc
      \<lparr>cn_stored = Some ''k1'', cn_sdk = Some ''k1'', cn_promise = Some (Inr ''T'')\<rparr> [] = (r, c', sent)"
    by (simp only: c)
  then have "sent \<noteq> []" "cn_sdk c' = Some ''k1''"
    by (auto simp: submitOnboarding_def resolveTenantId_def submit_requests_def accepting_def
        one_doc_def has_error_def Let_def)
  moreover have "verifySession accepts_key ''k1'' = Inr ''T''"
    by (simp add: verifySession_def accepts_key_def has_error_def)
  ultimately show ?thesis
    using submission_tenant_matches_key [OF refl s] s
    by (intro exI [of _ r] exI [of _ c'] exI [of _ sent]) (auto simp del: run_simps)
qed

text \<open>Identifications: at most one is submitted, the passport of the first person, directors
  before owners, who has a number; the passports of all other directors and owners are dropped.\<close>

theorem identifications_first_passport:
  "mapIdentifications app =
     (case List.find (\<lambda>(n, c). n \<noteq> []) (persons app) of
        None \<Rightarrow> []
      | Some (n, c) \<Rightarrow> [\<lparr>iq_id_type = ''passport'', iq_id_number = n,
                         iq_issuing_country = (if c = [] then None else Some c)\<rparr>])"
  by (simp add: mapIdentifications_def identification_loop_first split: option.split)

end
