(* ===== verification/Onboarding_Flow.thy ===== *)
theory Onboarding_Flow
  imports Bulk_Upload Submission
begin

text \<open>
  The pages of the applicant: \<open>OnboardingLayout.tsx\<close>, \<open>OnboardingStepper.tsx\<close>,
  \<open>OnboardingActionBar.tsx\<close>, the steps that change the application (\<open>StepDocuments.tsx\<close>,
  \<open>StepIdentity.tsx\<close>, \<open>StepReview.tsx\<close>) and \<open>pages/Start.tsx\<close>.

  A page is a function of the application to what it shows, and handlers that call the hook
  (\<open>Onboarding_Store\<close>) or the submission (\<open>Submission\<close>). Navigation is the path that
  \<open>navigate\<close> is called with. The steps for addresses, contacts, activity, transfers, ownership,
  directors and owners have uncontrolled inputs and buttons without handlers: they change nothing
  (\<open>Step_Views\<close> says what they show).
\<close>

section \<open>The stepper and the layout\<close>

datatype step_status = S_complete | S_current | S_incomplete

definition getStepStatus :: "int list \<Rightarrow> int \<Rightarrow> int \<Rightarrow> step_status" where
  "getStepStatus completedSteps currentStep stepId =
     (if stepId \<in> set completedSteps then S_complete
      else if stepId = currentStep then S_current else S_incomplete)"

definition step_progress :: "int list \<Rightarrow> rat" where
  "step_progress completedSteps =
     of_nat (length completedSteps) / of_nat (length ONBOARDING_STEPS) * 100"

record stepper_item =
  si_id :: int
  si_title :: "string option"
  si_status :: step_status
  si_warning :: bool

definition stepper_items :: "int \<Rightarrow> int list \<Rightarrow> bool \<Rightarrow> stepper_item list" where
  "stepper_items currentStep completedSteps collapsed =
     map (\<lambda>step. let st = getStepStatus completedSteps currentStep (step_id step) in
       \<lparr>si_id = step_id step, si_title = (if collapsed then None else Some (step_title step)),
        si_status = st, si_warning = (st = S_incomplete \<and> st \<noteq> S_current)\<rparr>) ONBOARDING_STEPS"

text \<open>\<open>location.pathname.split("/").pop() || "documents"\<close>\<close>

definition last_segment :: "string \<Rightarrow> string" where
  "last_segment pathname =
     js_or_str (Some (rev (takeWhile (\<lambda>c. c \<noteq> CHR ''/'') (rev pathname)))) ''documents''"

definition find_step_path :: "string \<Rightarrow> step_definition option" where
  "find_step_path p = find_by step_path p ONBOARDING_STEPS"

definition find_step_id :: "int \<Rightarrow> step_definition option" where
  "find_step_id i = find_by step_id i ONBOARDING_STEPS"

definition currentStepId :: "string \<Rightarrow> int" where
  "currentStepId pathname =
     (case find_step_path (last_segment pathname) of None \<Rightarrow> 1
      | Some s \<Rightarrow> if step_id s = 0 then 1 else step_id s)"

definition onboarding_path :: "string \<Rightarrow> string \<Rightarrow> string" where
  "onboarding_path applicationId p = ''/onboarding/'' @ applicationId @ ''/'' @ p"

definition step_target :: "string \<Rightarrow> int \<Rightarrow> string option" where
  "step_target applicationId i = map_option (\<lambda>s. onboarding_path applicationId (step_path s)) (find_step_id i)"

definition handleStepClick :: "string \<Rightarrow> int \<Rightarrow> string option" where
  "handleStepClick applicationId stepId = step_target applicationId stepId"

definition handleBack :: "string \<Rightarrow> string \<Rightarrow> string option" where
  "handleBack applicationId pathname =
     (let cur = currentStepId pathname in
      if cur > 1 then step_target applicationId (cur - 1) else None)"

definition handleContinue :: "string \<Rightarrow> string \<Rightarrow> string option" where
  "handleContinue applicationId pathname =
     (let cur = currentStepId pathname in
      if cur < int (length ONBOARDING_STEPS) then step_target applicationId (cur + 1) else None)"

definition handleSaveExit :: string where
  "handleSaveExit = ''/start''"

record action_bar =
  ab_back :: bool
  ab_continue :: "string option"

definition OnboardingActionBar :: "string \<Rightarrow> action_bar" where
  "OnboardingActionBar pathname =
     (let cur = currentStepId pathname; isLastStep = (cur = int (length ONBOARDING_STEPS))
      in \<lparr>ab_back = (cur > 1),
          ab_continue = (if \<not> isLastStep then Some (if isLastStep then ''Submit'' else ''Continue'') else None)\<rparr>)"

text \<open>The effect that follows the URL.\<close>

definition syncStep :: "string \<Rightarrow> string \<Rightarrow> hook \<Rightarrow> hook_result" where
  "syncStep now pathname h =
     (case hk_application h of
        None \<Rightarrow> (None, h)
      | Some app \<Rightarrow>
          if currentStepId pathname \<noteq> current_step app
          then setCurrentStep now (hk_application h) (currentStepId pathname) h
          else (None, h))"

datatype layout_view = L_loading | L_not_found | L_page application action_bar "stepper_item list"

definition layout_view :: "string \<Rightarrow> bool \<Rightarrow> hook \<Rightarrow> layout_view" where
  "layout_view pathname collapsed h =
     (if hk_loading h then L_loading
      else (case hk_application h of
              None \<Rightarrow> L_not_found
            | Some app \<Rightarrow> L_page app (OnboardingActionBar pathname)
                (stepper_items (currentStepId pathname) (completed_steps app) collapsed)))"

section \<open>The steps that change the application\<close>

datatype profile_field =
  PF_legal_name | PF_trade_name | PF_license_number | PF_license_expiry | PF_jurisdiction
| PF_entity_type | PF_incorporation_date

fun set_profile :: "profile_field \<Rightarrow> string \<Rightarrow> business_profile \<Rightarrow> business_profile" where
  "set_profile PF_legal_name v p = p\<lparr>bp_legal_name := Some v\<rparr>"
| "set_profile PF_trade_name v p = p\<lparr>bp_trade_name := Some v\<rparr>"
| "set_profile PF_license_number v p = p\<lparr>bp_license_number := Some v\<rparr>"
| "set_profile PF_license_expiry v p = p\<lparr>bp_license_expiry := Some v\<rparr>"
| "set_profile PF_jurisdiction v p = p\<lparr>bp_jurisdiction := Some v\<rparr>"
| "set_profile PF_entity_type v p = p\<lparr>bp_entity_type := Some v\<rparr>"
| "set_profile PF_incorporation_date v p = p\<lparr>bp_incorporation_date := Some v\<rparr>"

definition updateProfile :: "profile_field \<Rightarrow> string \<Rightarrow> application \<Rightarrow> partial_app" where
  "updateProfile f v app = no_updates\<lparr>p_profile := Some (set_profile f v (app_profile app))\<rparr>"

definition upload_mode_of :: "application \<Rightarrow> upload_mode" where
  "upload_mode_of app = nullish (app_upload_mode app) BULK"

definition setMode :: "upload_mode \<Rightarrow> partial_app" where
  "setMode m = no_updates\<lparr>p_upload_mode := Some m\<rparr>"

definition REQUIRED_DOCUMENTS :: "document_type list" where
  "REQUIRED_DOCUMENTS =
     [TRADE_LICENSE, MEMORANDUM_OF_ASSOCIATION, CERTIFICATE_OF_INCORPORATION, PASSPORT,
      EMIRATES_ID, PROOF_OF_ADDRESS, BANK_STATEMENT]"

fun STATUS_LABEL :: "document_status \<Rightarrow> string" where
  "STATUS_LABEL UPLOADED = ''Processing''"
| "STATUS_LABEL PROCESSING = ''Extracting''"
| "STATUS_LABEL EXTRACTED = ''Ready''"
| "STATUS_LABEL NEEDS_ATTENTION = ''Needs attention''"

definition documents_summary :: "application \<Rightarrow> verification_summary" where
  "documents_summary app = summarizeVerification (map doc_verification (documents app))"

definition getDocumentsForType :: "application \<Rightarrow> document_type \<Rightarrow> doc list" where
  "getDocumentsForType app t = filter (\<lambda>d. doc_doc_type d = t) (documents app)"

definition plural :: "nat \<Rightarrow> string" where
  "plural n = (if n > 1 then ''s'' else [])"

definition documents_alert :: "application \<Rightarrow> string option" where
  "documents_alert app =
     (let s = documents_summary app in
      if vs_fail s > 0 \<or> vs_warn s > 0 then
        Some (if vs_fail s > 0
              then nat_to_string (vs_fail s) @ '' document'' @ plural (vs_fail s) @ '' rejected''
              else nat_to_string (vs_warn s) @ '' document'' @ plural (vs_warn s) @ '' need review'')
      else None)"

definition handleUseSample ::
  "string \<Rightarrow> string \<Rightarrow> (nat \<Rightarrow> string) \<Rightarrow> document_type \<Rightarrow> application \<Rightarrow> partial_app option" where
  "handleUseSample now r rnd docType app =
     map_option (\<lambda>sample.
       (sd_applyPrefill sample rnd app)\<lparr>
         p_documents := Some (documents app @ [buildSampleDocument now r sample]),
         p_provenance := Some (obj_spread (app_provenance app) (sd_provenance sample))\<rparr>)
       (SAMPLE_DOCUMENTS docType)"

section \<open>Review and submit\<close>

definition incompleteSteps :: "application \<Rightarrow> step_definition list" where
  "incompleteSteps app =
     filter (\<lambda>step. step_id step \<notin> set (completed_steps app) \<and> step_id step \<noteq> 10) ONBOARDING_STEPS"

definition confirmAccuracy :: "bool \<Rightarrow> application \<Rightarrow> partial_app" where
  "confirmAccuracy checked app =
     no_updates\<lparr>p_confirmations := Some ((app_confirmations app)\<lparr>confirm_accuracy := checked\<rparr>)\<rparr>"

definition confirmAuthority :: "bool \<Rightarrow> application \<Rightarrow> partial_app" where
  "confirmAuthority checked app =
     no_updates\<lparr>p_confirmations := Some ((app_confirmations app)\<lparr>confirm_authority := checked\<rparr>)\<rparr>"

datatype flow_toast = FT_success string string | FT_error string "exn option"

definition to_api_result :: "onboarding_result \<Rightarrow> api_result" where
  "to_api_result r = \<lparr>ar_accountHolderId = or_accountHolderId r, ar_legalEntityId = or_legalEntityId r,
     ar_documentIds = or_documentIds r, ar_kycRequirementId = or_kycRequirementId r\<rparr>"

definition submittedApp :: "string \<Rightarrow> onboarding_result \<Rightarrow> application \<Rightarrow> application" where
  "submittedApp now r app =
     app\<lparr>app_status := SUBMITTED, updated_at := now, app_api_result := Some (to_api_result r)\<rparr>"

text \<open>The outcome of \<open>handleSubmit\<close>: the storage, the connection, the requests sent, the path
  navigated to and the toast.\<close>

record submit_outcome =
  so_slot :: slot
  so_conn :: conn
  so_sent :: "api_request list"
  so_navigate :: "string option"
  so_toast :: flow_toast

definition handleSubmit ::
  "(string \<Rightarrow> api_response) \<Rightarrow> server \<Rightarrow> string \<Rightarrow> string \<Rightarrow> application \<Rightarrow> slot \<Rightarrow> conn \<Rightarrow>
   api_request list \<Rightarrow> submit_outcome" where
  "handleSubmit verify srv now applicationId app sl c sent =
     (if incompleteSteps app \<noteq> [] then
        \<lparr>so_slot = sl, so_conn = c, so_sent = sent, so_navigate = None,
         so_toast = FT_error ''Please complete all steps before submitting'' None\<rparr>
      else if \<not> confirm_accuracy (app_confirmations app) \<or> \<not> confirm_authority (app_confirmations app) then
        \<lparr>so_slot = sl, so_conn = c, so_sent = sent, so_navigate = None,
         so_toast = FT_error ''Please confirm all declarations before submitting'' None\<rparr>
      else
        (let (res, c', sent') = submitOnboarding verify srv app c sent in
         case res of
           Inl e \<Rightarrow> \<lparr>so_slot = sl, so_conn = c', so_sent = sent', so_navigate = None,
                     so_toast = FT_error ''Submission failed'' (Some e)\<rparr>
         | Inr r \<Rightarrow>
             (case saveApplication now (submittedApp now r app) sl of
                Inl (TypeError m) \<Rightarrow>
                  \<lparr>so_slot = sl, so_conn = c', so_sent = sent', so_navigate = None,
                   so_toast = FT_error ''Submission failed'' (Some (Exn m))\<rparr>
              | Inr sl' \<Rightarrow>
                  \<lparr>so_slot = sl', so_conn = c', so_sent = sent',
                   so_navigate = Some (''/status/'' @ applicationId),
                   so_toast = FT_success ''Application submitted successfully!''
                                (''AccountHolder: '' @ or_accountHolderId r)\<rparr>)))"

record checklist_item =
  ci_title :: string
  ci_complete :: bool

definition checklist :: "application \<Rightarrow> checklist_item list" where
  "checklist app = map (\<lambda>step. \<lparr>ci_title = step_title step,
     ci_complete = (step_id step \<in> set (completed_steps app))\<rparr>) (butlast ONBOARDING_STEPS)"

definition submit_disabled :: "application \<Rightarrow> bool \<Rightarrow> bool" where
  "submit_disabled app submitting = (incompleteSteps app \<noteq> [] \<or> submitting)"

section \<open>The start page\<close>

definition existingApplications :: "slot \<Rightarrow> application list option" where
  "existingApplications sl = map_option (filter (\<lambda>a. app_status a = DRAFT)) (getAllApplications sl)"

definition handleCreateApplication ::
  "nat \<Rightarrow> string \<Rightarrow> string \<Rightarrow> onboarding_method option \<Rightarrow> slot \<Rightarrow> js_error + (slot \<times> string option)" where
  "handleCreateApplication ms rnd now selectedMethod sl =
     (case selectedMethod of
        None \<Rightarrow> Inr (sl, None)
      | Some m \<Rightarrow>
          (let newApp = createNewApplication ms rnd now m in
           case saveApplication now newApp sl of
             Inl e \<Rightarrow> Inl e
           | Inr sl' \<Rightarrow> Inr (sl', Some (onboarding_path (application_id newApp) ''documents''))))"

definition stepPaths :: "string list" where
  "stepPaths = [''documents'', ''identity'', ''addresses'', ''contacts'', ''activity'', ''transfers'',
                ''ownership'', ''directors'', ''ubos'', ''review'']"

text \<open>\<open>stepPaths[app.current_step - 1] || "documents"\<close>: an index out of range is undefined.\<close>

definition handleResumeApplication :: "application \<Rightarrow> string" where
  "handleResumeApplication app =
     (let i = current_step app - 1;
          currentPath = (if 0 \<le> i \<and> i < int (length stepPaths) then stepPaths ! nat i else ''documents'')
      in onboarding_path (application_id app) currentPath)"

section \<open>The applicant's session\<close>

text \<open>What a user of these pages can do, on one browser: the path, the hook of the open
  application with the storage, the connection, the requests sent to the backend.\<close>

record flow =
  fw_path :: string
  fw_id :: string
  fw_hook :: hook
  fw_conn :: conn
  fw_sent :: "api_request list"

datatype flow_event =
  Create nat string string "onboarding_method option" | Open string string | Click int | Back | Continue
| Sync string | Mode string upload_mode | UseSample string string "nat \<Rightarrow> string" document_type
| Profile string profile_field string | Process proc_env "pending_file list"
| Accuracy string bool | Authority string bool | ConnectKey string | Submit string

definition goto_path :: "string option \<Rightarrow> flow \<Rightarrow> flow" where
  "goto_path p s = (case p of None \<Rightarrow> s | Some q \<Rightarrow> s\<lparr>fw_path := q\<rparr>)"

text \<open>A handler that updates the application of the hook.\<close>

definition with_update :: "string \<Rightarrow> (application \<Rightarrow> partial_app option) \<Rightarrow> flow \<Rightarrow> flow" where
  "with_update now f s =
     (case hk_application (fw_hook s) of
        None \<Rightarrow> s
      | Some app \<Rightarrow>
          (case f app of
             None \<Rightarrow> s
           | Some u \<Rightarrow> s\<lparr>fw_hook := snd (updateApplication now (Some app) u (fw_hook s))\<rparr>))"

fun flow_step :: "(string \<Rightarrow> api_response) \<Rightarrow> server \<Rightarrow> flow \<Rightarrow> flow_event \<Rightarrow> flow" where
  "flow_step verify srv s (Create ms rnd now m) =
     (case handleCreateApplication ms rnd now m (hk_slot (fw_hook s)) of
        Inl e \<Rightarrow> s
      | Inr (sl, p) \<Rightarrow> goto_path p (s\<lparr>fw_hook := (fw_hook s)\<lparr>hk_slot := sl\<rparr>\<rparr>))"
| "flow_step verify srv s (Open i p) =
     s\<lparr>fw_id := i, fw_path := onboarding_path i p,
       fw_hook := snd (loadEffect (Some i) (hook_init (hk_slot (fw_hook s))))\<rparr>"
| "flow_step verify srv s (Click n) = goto_path (handleStepClick (fw_id s) n) s"
| "flow_step verify srv s Back = goto_path (handleBack (fw_id s) (fw_path s)) s"
| "flow_step verify srv s Continue = goto_path (handleContinue (fw_id s) (fw_path s)) s"
| "flow_step verify srv s (Sync now) = s\<lparr>fw_hook := snd (syncStep now (fw_path s) (fw_hook s))\<rparr>"
| "flow_step verify srv s (Mode now m) = with_update now (\<lambda>app. Some (setMode m)) s"
| "flow_step verify srv s (UseSample now r rnd t) = with_update now (handleUseSample now r rnd t) s"
| "flow_step verify srv s (Profile now f v) = with_update now (\<lambda>app. Some (updateProfile f v app)) s"
| "flow_step verify srv s (Process v pending) =
     with_update (pv_now v) (\<lambda>app. Some (fst (process_update v pending app))) s"
| "flow_step verify srv s (Accuracy now b) = with_update now (\<lambda>app. Some (confirmAccuracy b app)) s"
| "flow_step verify srv s (Authority now b) = with_update now (\<lambda>app. Some (confirmAuthority b app)) s"
| "flow_step verify srv s (ConnectKey k) = s\<lparr>fw_conn := snd (connectWithApiKey verify k (fw_conn s))\<rparr>"
| "flow_step verify srv s (Submit now) =
     (case hk_application (fw_hook s) of
        None \<Rightarrow> s
      | Some app \<Rightarrow>
          if submit_disabled app False then s
          else (let out = handleSubmit verify srv now (fw_id s) app (hk_slot (fw_hook s)) (fw_conn s) (fw_sent s)
                in goto_path (so_navigate out)
                     (s\<lparr>fw_hook := (fw_hook s)\<lparr>hk_slot := so_slot out\<rparr>, fw_conn := so_conn out,
                        fw_sent := so_sent out\<rparr>)))"

section \<open>Facts\<close>

lemma last_segment_path:
  "p \<noteq> [] \<Longrightarrow> CHR ''/'' \<notin> set p \<Longrightarrow> last_segment (onboarding_path i p) = p"
proof -
  assume p: "p \<noteq> []" "CHR ''/'' \<notin> set p"
  have "takeWhile (\<lambda>c. c \<noteq> CHR ''/'') (rev p @ CHR ''/'' # rest) = rev p" for rest
    using p by (subst takeWhile_append2) auto
  with p show ?thesis by (simp add: last_segment_def onboarding_path_def)
qed

lemma step_paths_ok:
  "s \<in> set ONBOARDING_STEPS \<Longrightarrow> step_path s \<noteq> [] \<and> CHR ''/'' \<notin> set (step_path s) \<and> step_id s \<ge> 1"
  by (auto simp: ONBOARDING_STEPS_def mk_step_def)

lemma currentStepId_step:
  assumes "s \<in> set ONBOARDING_STEPS"
  shows "currentStepId (onboarding_path i (step_path s)) = step_id s"
proof -
  have "find_by step_path (step_path s) ONBOARDING_STEPS = Some s"
    using steps_paths_distinct assms by (rule find_by_distinct)
  with step_paths_ok [OF assms] show ?thesis
    by (simp add: currentStepId_def last_segment_path find_step_path_def)
qed

lemma length_steps [simp]: "length ONBOARDING_STEPS = 10"
  by (simp add: ONBOARDING_STEPS_def)

lemma find_step_id_SomeD: "find_step_id n = Some s \<Longrightarrow> s \<in> set ONBOARDING_STEPS \<and> step_id s = n"
  unfolding find_step_id_def by (rule find_by_SomeD)

lemma step_id_bounds: "s \<in> set ONBOARDING_STEPS \<Longrightarrow> 1 \<le> step_id s \<and> step_id s \<le> 10"
  by (auto simp: ONBOARDING_STEPS_def mk_step_def)

lemma find_step_id_Some: "1 \<le> n \<Longrightarrow> n \<le> 10 \<Longrightarrow> \<exists>s. find_step_id n = Some s"
proof -
  assume "1 \<le> n" "n \<le> 10"
  then have "n \<in> set (map step_id ONBOARDING_STEPS)" by (simp add: steps_ids)
  then have "find_step_id n \<noteq> None" by (simp add: find_step_id_def find_by_None_iff)
  then show ?thesis by blast
qed

lemma currentStepId_target:
  "step_target i n = Some p \<Longrightarrow> currentStepId p = n"
  by (auto simp: step_target_def currentStepId_step dest: find_step_id_SomeD)

lemma incompleteSteps_Nil_iff:
  "incompleteSteps app = [] \<longleftrightarrow> {1..9} \<subseteq> set (completed_steps app)"
proof -
  have "incompleteSteps app = [] \<longleftrightarrow>
      (\<forall>n \<in> set (map step_id ONBOARDING_STEPS). n \<in> set (completed_steps app) \<or> n = 10)"
    by (auto simp: incompleteSteps_def filter_empty_conv)
  also have "\<dots> \<longleftrightarrow> (\<forall>n \<in> {1..10}. n \<in> set (completed_steps app) \<or> n = 10)"
    by (simp add: steps_ids)
  also have "\<dots> \<longleftrightarrow> {1..9} \<subseteq> set (completed_steps app)" by force
  finally show ?thesis .
qed

text \<open>No update of these pages contains the completed steps.\<close>

lemma mapper_completed: "p_completed_steps (MAPPERS dt rnd data app) = None"
  by (cases dt) (simp_all add: mapMemorandum_def mapPassport_def mapNationalId_def
      mapBankStatement_def mapTradeLicense_def mapCoi_def mapProofOfAddress_def Let_def
      split: option.split)

lemma extraction_loop_completed:
  "extraction_loop rnd i rs dts app m = Some u \<Longrightarrow> p_completed_steps m = None \<Longrightarrow>
   p_completed_steps u = None"
proof (induction rs arbitrary: i dts m)
  case Nil
  then show ?case by simp
next
  case (Cons r rs)
  have *: "p_completed_steps (deepMerge m (MAPPERS dt rnd' data a)) = None" for dt rnd' data a
    using Cons.prems(2) by (simp add: deepMerge_def mapper_completed)
  show ?case
    using Cons.prems Cons.IH * by (auto simp: Let_def split: option.splits list.splits if_splits)
qed

lemma sample_completed: "SAMPLE_DOCUMENTS t = Some s \<Longrightarrow> p_completed_steps (sd_applyPrefill s rnd app) = None"
  by (cases t) (auto simp: sample_defs)

lemma process_samples_completed:
  "p_completed_steps (sb_prefill b) = None \<Longrightarrow>
   p_completed_steps (sb_prefill (process_samples v i es app b)) = None"
  by (induction v i es app b rule: process_samples.induct)
    (auto simp: Let_def spread_partial_def sample_completed split: option.split)

lemma extractRealFiles_completed:
  "p_completed_steps (snd (fst (extractRealFiles v n es app))) = None"
  by (auto simp: extractRealFiles_def processRealEntries_def mapExtractionToApplication_def Let_def
      dest: extraction_loop_completed split: sum.splits option.splits)

lemma process_update_completed: "p_completed_steps (fst (process_update v pending app)) = None"
  by (simp add: process_update_def Let_def case_prod_beta spread_partial_def
      extractRealFiles_completed processSampleEntries_def process_samples_completed)

section \<open>What holds of every application of a session\<close>

text \<open>A predicate on the applications of a session: on the one in memory and on every stored one.\<close>

definition slot_all :: "(application \<Rightarrow> bool) \<Rightarrow> slot \<Rightarrow> bool" where
  "slot_all good sl = (case getAllApplications sl of None \<Rightarrow> True | Some apps \<Rightarrow> list_all good apps)"

definition hook_all :: "(application \<Rightarrow> bool) \<Rightarrow> hook \<Rightarrow> bool" where
  "hook_all good h =
     (slot_all good (hk_slot h) \<and> (case hk_application h of None \<Rightarrow> True | Some a \<Rightarrow> good a))"

lemma goto_path_sel [simp]:
  "fw_hook (goto_path p s) = fw_hook s" "fw_sent (goto_path p s) = fw_sent s"
  by (simp_all add: goto_path_def split: option.split)

text \<open>The interface between the pages and such a predicate: new applications have it, and every update a
  page makes to an application that has it is \<open>harmless\<close>.\<close>

locale flow_invariant =
  fixes good :: "application \<Rightarrow> bool" and harmless :: "partial_app \<Rightarrow> bool"
  assumes good_new: "good (createNewApplication ms rnd now m)"
    and good_stamp: "good a \<Longrightarrow> good (a\<lparr>updated_at := now\<rparr>)"
    and good_apply: "good a \<Longrightarrow> harmless u \<Longrightarrow> good (apply_partial u a)"
    and good_submitted: "good a \<Longrightarrow> good (submittedApp now res a)"
    and harmless_step: "harmless (no_updates\<lparr>p_current_step := Some n\<rparr>)"
    and harmless_mode: "harmless (setMode um)"
    and harmless_profile: "harmless (updateProfile f v a)"
    and harmless_accuracy: "harmless (confirmAccuracy b a)"
    and harmless_authority: "harmless (confirmAuthority b a)"
    and harmless_sample: "good a \<Longrightarrow> handleUseSample now r rn t a = Some u \<Longrightarrow> harmless u"
    and harmless_process: "good a \<Longrightarrow> harmless (fst (process_update env pending a))"
begin

lemma save_good:
  assumes "slot_all good sl" "good a" "saveApplication now a sl = Inr sl'"
  shows "slot_all good sl'"
proof -
  have upd: "list_all good (xs[n := b])" if "list_all good xs" "good b" for xs n b
    using that set_update_subset_insert [of xs n b] by (auto simp: list_all_iff)
  obtain apps where apps: "getAllApplications sl = Some apps" "list_all good apps"
    using assms(1,3) by (auto simp: slot_all_def saveApplication_def split: option.splits)
  then have "sl' = JsonApps (let index = findIndex (\<lambda>b. application_id b = application_id a) apps
      in if index \<ge> 0 then apps[nat index := a\<lparr>updated_at := now\<rparr>] else apps @ [a\<lparr>updated_at := now\<rparr>])"
    using assms(3) by (simp add: saveApplication_def Let_def)
  then show ?thesis using apps good_stamp [OF assms(2)] upd by (auto simp: slot_all_def Let_def)
qed

lemma commit_good: "hook_all good h \<Longrightarrow> good a \<Longrightarrow> hook_all good (snd (commit now a h))"
  by (auto simp: commit_def Let_def hook_all_def dest: save_good split: sum.split)

lemma update_good:
  assumes "hook_all good h" "hk_application h = Some a" "harmless u"
  shows "hook_all good (snd (updateApplication now (Some a) u h))"
proof -
  have "good a" using assms by (simp add: hook_all_def)
  with assms show ?thesis by (simp add: updateApplication_def commit_good good_apply)
qed

lemma with_update_good:
  assumes "hook_all good (fw_hook s)" "\<And>app u. good app \<Longrightarrow> f app = Some u \<Longrightarrow> harmless u"
  shows "hook_all good (fw_hook (with_update now f s))"
proof -
  have "harmless u" if "hk_application (fw_hook s) = Some app" "f app = Some u" for app u
    using that assms by (auto simp: hook_all_def)
  with assms(1) show ?thesis by (auto simp: with_update_def update_good split: option.split)
qed

lemma load_good: "slot_all good sl \<Longrightarrow> hook_all good (snd (loadEffect aid (hook_init sl)))"
proof -
  assume sl: "slot_all good sl"
  have "good a" if "getApplicationById sl i = Inr (Some a)" for a i
    using that sl by (auto simp: getApplicationById_def slot_all_def list_all_iff
        dest: find_by_SomeD split: option.splits)
  with sl show ?thesis
    by (auto simp: loadEffect_def hook_init_def hook_all_def split: option.splits sum.splits)
qed

lemma create_good:
  "slot_all good sl \<Longrightarrow> handleCreateApplication ms rnd now m sl = Inr (sl', p) \<Longrightarrow> slot_all good sl'"
  by (auto simp: handleCreateApplication_def Let_def
      dest: save_good [rotated 2] intro: good_new split: option.splits sum.splits)

lemma sync_good: "hook_all good h \<Longrightarrow> hook_all good (snd (syncStep now p h))"
  by (auto simp: syncStep_def setCurrentStep_def update_good harmless_step split: option.split)

lemma submit_good:
  assumes "slot_all good sl" "good app"
  shows "slot_all good (so_slot (handleSubmit verify srv now i app sl c sent))"
  using assms by (auto simp: handleSubmit_def Let_def dest: save_good [rotated 2]
      intro: good_submitted split: prod.split sum.split js_error.split)

lemma flow_step_good:
  assumes good: "hook_all good (fw_hook s)"
  shows "hook_all good (fw_hook (flow_step verify srv s e))"
proof (cases e)
  case (Create ms rnd now m)
  with good show ?thesis
    by (auto simp: hook_all_def dest: create_good split: sum.split)
next
  case (Open i p)
  with good show ?thesis by (simp add: hook_all_def [of _ "fw_hook s"] load_good)
next
  case (Sync now)
  with good show ?thesis by (simp add: sync_good)
next
  case (Submit now)
  then show ?thesis
  proof (cases "hk_application (fw_hook s)")
    case (Some app)
    with Submit good show ?thesis by (simp add: hook_all_def submit_good Let_def)
  qed (use Submit good in simp)
qed (use good in \<open>auto intro!: with_update_good harmless_mode harmless_profile harmless_accuracy
      harmless_authority harmless_process dest: harmless_sample\<close>)

lemma flow_run_good:
  assumes "hook_all good (fw_hook s)"
  shows "hook_all good (fw_hook (run (flow_step verify srv) s es))"
proof -
  have m: "machine (flow_step verify srv) (\<lambda>s. hook_all good (fw_hook s))"
    by unfold_locales (rule flow_step_good)
  show ?thesis by (rule machine.run_inv [OF m assms])
qed

end

section \<open>A session that starts on an empty browser\<close>

definition flow_init :: flow where
  "flow_init = \<lparr>fw_path = ''/start'', fw_id = [], fw_hook = hook_init NoItem,
     fw_conn = loadModule (\<lambda>k. \<lparr>res_error = None, res_data = None\<rparr>) None, fw_sent = []\<rparr>"

lemma flow_init_all [simp]: "hook_all good (fw_hook flow_init)"
  by (simp add: flow_init_def hook_all_def slot_all_def hook_init_def)

definition untouched :: "application \<Rightarrow> bool" where
  "untouched a = (completed_steps a = [])"

interpretation untouched: flow_invariant untouched "\<lambda>u. p_completed_steps u = None"
  by unfold_locales
    (auto simp: untouched_def createNewApplication_def apply_partial_sel submittedApp_def setMode_def
      updateProfile_def confirmAccuracy_def confirmAuthority_def handleUseSample_def sample_completed
      process_update_completed)

lemma untouched_disabled: "untouched a \<Longrightarrow> submit_disabled a b"
proof -
  assume "untouched a"
  then have "\<not> {1..9} \<subseteq> set (completed_steps a)" by (simp add: untouched_def)
  then show ?thesis by (simp add: submit_disabled_def incompleteSteps_Nil_iff)
qed

definition flow_untouched :: "flow \<Rightarrow> bool" where
  "flow_untouched s = (hook_all untouched (fw_hook s) \<and> fw_sent s = [])"

lemma flow_sent_step:
  assumes "hook_all untouched (fw_hook s)"
  shows "fw_sent (flow_step verify srv s e) = fw_sent s"
proof (cases e)
  case (Submit now)
  with assms show ?thesis by (auto simp: hook_all_def untouched_disabled split: option.splits)
qed (auto simp: with_update_def split: option.split sum.split)

interpretation flow: machine "flow_step verify srv" flow_untouched
  by unfold_locales (simp add: flow_untouched_def untouched.flow_step_good flow_sent_step)

section \<open>Properties\<close>

text \<open>No page ever completes a step (\<open>completeStep\<close> has no caller), so from an empty browser no
  sequence of user actions, whatever the backend and the parser answer, sends a single request of
  a submission: the submit button stays disabled.\<close>

theorem fresh_browser_never_submits:
  "fw_sent (run (flow_step verify srv) flow_init es) = [] \<and>
   (\<forall>app. hk_application (fw_hook (run (flow_step verify srv) flow_init es)) = Some app \<longrightarrow>
      submit_disabled app False)"
proof -
  have "flow_untouched (run (flow_step verify srv) flow_init es)"
    by (rule flow.run_inv) (simp add: flow_untouched_def, simp add: flow_init_def)
  then show ?thesis
    by (auto simp: flow_untouched_def hook_all_def untouched_disabled)
qed

lemma fresh_browser_never_submits_witness:
  "\<exists>app. hk_application (fw_hook (run (flow_step accepts_key accepting) flow_init
       [Create 0 ''0.abcd'' ''t'' (Some MANUAL), Open ''APP-0-ABCD'' ''documents'']))  = Some app \<and>
     submit_disabled app False"
proof -
  let ?s = "run (flow_step accepts_key accepting) flow_init
       [Create 0 ''0.abcd'' ''t'' (Some MANUAL), Open ''APP-0-ABCD'' ''documents'']"
  have "generateApplicationId 0 ''0.abcd'' = ''APP-0-ABCD''" by code_simp
  then have "\<exists>app. hk_application (fw_hook ?s) = Some app"
    by (simp add: flow_init_def handleCreateApplication_def createNewApplication_def
        saveApplication_def loadEffect_def hook_init_def getApplicationById_def goto_path_def)
  then obtain app where a: "hk_application (fw_hook ?s) = Some app" ..
  with fresh_browser_never_submits
    [of accepts_key accepting "[Create 0 ''0.abcd'' ''t'' (Some MANUAL), Open ''APP-0-ABCD'' ''documents'']"]
  show ?thesis by blast
qed

text \<open>C21. The gate of the submission: requests leave the browser only when the nine steps before the
  review are complete and both declarations are confirmed; a submission that navigates to the
  status page has stored the application as SUBMITTED with the identifiers the backend returned,
  and any other outcome leaves the storage as it was.\<close>

theorem submit_gate:
  assumes "out = handleSubmit verify srv now i app sl c sent"
  shows "(so_sent out \<noteq> sent \<longrightarrow>
            {1..9} \<subseteq> set (completed_steps app) \<and> confirm_accuracy (app_confirmations app) \<and>
            confirm_authority (app_confirmations app)) \<and>
         (so_navigate out = None \<longrightarrow> so_slot out = sl) \<and>
         (\<forall>p. so_navigate out = Some p \<longrightarrow>
            (\<exists>res c' s'. submitOnboarding verify srv app c sent = (Inr res, c', s') \<and>
               slot_load (so_slot out) (application_id app) = Some (submittedApp now res app)))"
proof -
  have load: "slot_load sl' (application_id app) = Some (submittedApp now res app)"
    if "saveApplication now (submittedApp now res app) sl = Inr sl'" for res sl'
  proof -
    have ok: "slot_ok sl"
      using that by (auto simp: saveApplication_def slot_ok_def split: option.splits)
    with that have "sl' = slot_save now (submittedApp now res app) sl"
      by (simp add: saveApplication_ok)
    with ok show ?thesis by (simp add: slot_load_save submittedApp_def)
  qed
  obtain r c' s' where r: "submitOnboarding verify srv app c sent = (r, c', s')"
    by (metis prod_cases3)
  show ?thesis
    using assms load
    by (auto simp: handleSubmit_def incompleteSteps_Nil_iff [symmetric] r split: if_splits sum.splits
        js_error.splits)
qed

lemma submit_gate_witness:
  "so_navigate (handleSubmit accepts_key accepting ''t'' ''A''
      (one_doc\<lparr>completed_steps := [1..9], app_confirmations := \<lparr>confirm_accuracy = True, confirm_authority = True\<rparr>\<rparr>)
      NoItem (loadModule accepts_key (Some ''k1'')) []) \<noteq> None \<and>
   {1..9} \<subseteq> set [1..9::int]"
proof -
  let ?app = "one_doc\<lparr>completed_steps := [1..9],
      app_confirmations := \<lparr>confirm_accuracy = True, confirm_authority = True\<rparr>\<rparr>"
  let ?out = "handleSubmit accepts_key accepting ''t'' ''A'' ?app NoItem (loadModule accepts_key (Some ''k1'')) []"
  have "incompleteSteps ?app = []" by (simp add: incompleteSteps_Nil_iff)
  then have "so_sent ?out \<noteq> []" "so_navigate ?out \<noteq> None"
    by (simp_all add: handleSubmit_def submitOnboarding_def resolveTenantId_def loadModule_def
        getStoredApiKey_def activate_def accepts_key_def verifySession_def has_error_def
        submit_requests_def accepting_def one_doc_def saveApplication_def Let_def)
  with submit_gate [OF refl, of accepts_key accepting "''t''" "''A''" ?app NoItem
      "loadModule accepts_key (Some ''k1'')" "[]"]
  show ?thesis by simp
qed

text \<open>Navigation is consistent with the step list: resuming an application whose current step is
  1 to 10 opens that step, \<open>Continue\<close> then \<open>Back\<close> returns to the step, and a click on a step
  opens it.\<close>

theorem navigation_roundtrip:
  assumes "1 \<le> current_step app" "current_step app \<le> 10"
  shows "currentStepId (handleResumeApplication app) = current_step app \<and>
         (\<forall>p q. handleContinue i p = Some q \<longrightarrow>
            map_option currentStepId (handleBack i q) = Some (currentStepId p)) \<and>
         map_option currentStepId (handleStepClick i (current_step app)) = Some (current_step app)"
proof -
  have path: "stepPaths ! nat (n - 1) = step_path s" if "find_step_id n = Some s" for n s
  proof -
    have "n \<in> set (map step_id ONBOARDING_STEPS)" using find_step_id_SomeD [OF that] by auto
    then have "n \<in> {1..10}" by (simp only: steps_ids set_upto)
    then have "n \<in> {1, 2, 3, 4, 5, 6, 7, 8, 9, 10}"
      unfolding atLeastAtMost_iff insert_iff empty_iff by presburger
    with that show ?thesis
      by (elim insertE emptyE) (auto simp: find_step_id_def ONBOARDING_STEPS_def mk_step_def stepPaths_def)
  qed
  obtain s where s: "find_step_id (current_step app) = Some s"
    using find_step_id_Some assms by blast
  have "currentStepId (handleResumeApplication app) = current_step app"
    using assms path [OF s] find_step_id_SomeD [OF s]
    by (simp add: handleResumeApplication_def Let_def stepPaths_def [THEN arg_cong [of _ _ length]]
        currentStepId_step)
  moreover have "map_option currentStepId (handleBack i q) = Some (currentStepId p)"
    if "handleContinue i p = Some q" for p q
  proof -
    have q: "currentStepId q = currentStepId p + 1"
      using that by (auto simp: handleContinue_def Let_def currentStepId_target split: if_splits)
    have "1 \<le> currentStepId p" "currentStepId p \<le> 10"
    proof -
      show "1 \<le> currentStepId p" "currentStepId p \<le> 10"
        using step_id_bounds
        by (auto simp: currentStepId_def find_step_path_def dest!: find_by_SomeD split: option.splits)
    qed
    then obtain r where "find_step_id (currentStepId p) = Some r" using find_step_id_Some by blast
    then obtain t where t: "step_target i (currentStepId p) = Some t" by (simp add: step_target_def)
    have "handleBack i q = Some t"
      using q t \<open>1 \<le> currentStepId p\<close> by (simp add: handleBack_def)
    with currentStepId_target [OF t] show ?thesis by simp
  qed
  moreover have "map_option currentStepId (handleStepClick i (current_step app)) = Some (current_step app)"
    using s find_step_id_SomeD [OF s] by (simp add: handleStepClick_def step_target_def currentStepId_step)
  ultimately show ?thesis by blast
qed

lemma navigation_roundtrip_witness:
  "currentStepId (handleResumeApplication ((sample_app ''A'')\<lparr>current_step := 4\<rparr>)) = 4"
  using navigation_roundtrip [of "(sample_app ''A'')\<lparr>current_step := 4\<rparr>"] by simp

end
