(* ===== verification/Step_Views.thy ===== *)
theory Step_Views
  imports Onboarding_Flow "HOL-Library.Multiset"
begin

text \<open>
  What the steps of the application form show (\<open>features/onboarding/components/steps\<close>), as the list of
  their controls with the values they start from, and the two tabs of the document step.

  Only \<open>StepIdentity\<close> has controlled inputs. The inputs of \<open>StepAddresses\<close>, \<open>StepContacts\<close>,
  \<open>StepActivity\<close>, \<open>StepTransfers\<close>, \<open>StepOwnership\<close>, \<open>StepDirectors\<close> and \<open>StepUBOs\<close> have a
  \<open>defaultValue\<close> or \<open>defaultChecked\<close> and no handler, and their buttons have no handler either: what is
  typed stays in the elements of the page and is gone with them. These steps are therefore functions of
  the application, and their operations on the session are none. Style, icons and the card that
  \<open>StepAddresses\<close> renders with the class \<open>hidden\<close> are left out.
\<close>

section \<open>Controls and cards\<close>

text \<open>\<open>Input label type value placeholder\<close>, \<open>Textarea label value placeholder\<close>,
  \<open>Select label items value placeholder\<close>, \<open>Switch label checked\<close> and \<open>Dropzone text hint\<close>. The items are
  pairs of value and text. An absent value is \<open>None\<close>.\<close>

datatype control =
  Input string string "json option" "string option"
| Textarea string "string option" string
| Select string "(string \<times> string) list" "string option" string
| Switch string "bool option"
| Dropzone string string

fun control_label :: "control \<Rightarrow> string" where
  "control_label (Input l ty v p) = l"
| "control_label (Textarea l v p) = l"
| "control_label (Select l xs v p) = l"
| "control_label (Switch l b) = l"
| "control_label (Dropzone l h) = l"

text \<open>The text of the item a select shows as chosen: that of the item with its value, if there is one.\<close>

fun chosen :: "control \<Rightarrow> string option" where
  "chosen (Select l xs v p) = (case v of None \<Rightarrow> None | Some x \<Rightarrow> map_of xs x)"
| "chosen c = None"

fun blank :: "control \<Rightarrow> bool" where
  "blank (Input l ty v p) = (v = None \<or> v = Some (JStr []))"
| "blank (Textarea l v p) = (\<not> truthy v)"
| "blank (Select l xs v p) = (chosen (Select l xs v p) = None)"
| "blank (Switch l b) = (b \<noteq> Some True)"
| "blank (Dropzone l h) = True"

definition text_input :: "string \<Rightarrow> string \<Rightarrow> string \<Rightarrow> control" where
  "text_input l v p = Input l ''text'' (Some (JStr v)) (Some p)"

record form_card =
  fc_title :: "string option"
  fc_badges :: "string list"
  fc_controls :: "control list"

text \<open>A step: heading and text, the card shown while its list is empty (title, text, button), the cards,
  and the button below them.\<close>

record step_page =
  sp_heading :: string
  sp_text :: string
  sp_empty :: "(string \<times> string \<times> string) option"
  sp_cards :: "form_card list"
  sp_more :: "string option"

definition page_controls :: "step_page \<Rightarrow> control list" where
  "page_controls p = concat (map fc_controls (sp_cards p))"

definition form_page :: "string \<Rightarrow> string \<Rightarrow> form_card list \<Rightarrow> step_page" where
  "form_page h t cards =
     \<lparr>sp_heading = h, sp_text = t, sp_empty = None, sp_cards = cards, sp_more = None\<rparr>"

definition list_page ::
  "string \<Rightarrow> string \<Rightarrow> string \<times> string \<times> string \<Rightarrow> string \<Rightarrow> form_card list \<Rightarrow> step_page" where
  "list_page h t empty_card add_more cards =
     \<lparr>sp_heading = h, sp_text = t, sp_empty = (if cards = [] then Some empty_card else None),
      sp_cards = cards, sp_more = (if cards \<noteq> [] then Some add_more else None)\<rparr>"

section \<open>The steps\<close>

definition StepIdentity :: "application \<Rightarrow> step_page" where
  "StepIdentity app =
     (let p = app_profile app;
          dflt = (\<lambda>x. Some (JStr (nullish x [])))
      in form_page ''Business identity'' ''Provide your business registration details.''
        [\<lparr>fc_title = Some ''Legal Information'', fc_badges = [],
          fc_controls =
           [Input ''Legal name'' ''text'' (dflt (bp_legal_name p)) (Some ''Enter legal business name''),
            Input ''Trade name'' ''text'' (dflt (bp_trade_name p)) (Some ''Enter trade name (if different)''),
            Input ''License number'' ''text'' (dflt (bp_license_number p)) (Some ''Enter license number''),
            Input ''License expiry date'' ''date'' (dflt (bp_license_expiry p)) None,
            Select ''Jurisdiction''
              [(''dubai_mainland'', ''Dubai Mainland''), (''difc'', ''DIFC''), (''adgm'', ''ADGM''),
               (''jafza'', ''JAFZA''), (''dmcc'', ''DMCC''), (''other'', ''Other Free Zone'')]
              (Some (nullish (bp_jurisdiction p) [])) ''Select jurisdiction'',
            Select ''Entity type''
              [(''llc'', ''Limited Liability Company (LLC)''), (''sole_prop'', ''Sole Proprietorship''),
               (''branch'', ''Branch Office''), (''fze'', ''Free Zone Establishment (FZE)''),
               (''fzco'', ''Free Zone Company (FZCO)'')]
              (Some (nullish (bp_entity_type p) [])) ''Select entity type'',
            Input ''Incorporation date'' ''date'' (dflt (bp_incorporation_date p)) None]\<rparr>])"

definition ADDRESS_TYPES :: "(address_type \<times> string) list" where
  "ADDRESS_TYPES =
     [(REGISTERED, ''Registered Address''), (OPERATING, ''Operating Address''),
      (CORRESPONDENCE, ''Correspondence Address'')]"

definition address_card :: "address \<Rightarrow> form_card" where
  "address_card a =
     \<lparr>fc_title = map_of ADDRESS_TYPES (addr_type a), fc_badges = [],
      fc_controls =
       [text_input ''Address line 1'' (addr_line1 a) ''Street address'',
        Input ''Address line 2'' ''text'' (map_option JStr (addr_line2 a)) (Some ''Suite, floor, etc.''),
        text_input ''City'' (addr_city a) ''City'',
        Input ''Emirate'' ''text'' (map_option JStr (addr_emirate a)) (Some ''Emirate''),
        text_input ''Country'' (addr_country a) ''Country'']\<rparr>"

definition StepAddresses :: "application \<Rightarrow> step_page" where
  "StepAddresses app =
     list_page ''Addresses'' ''Provide your business registered and operating addresses.''
       (''No addresses added'', ''Add your registered and operating addresses'', ''Add address'')
       ''Add another address'' (map address_card (addresses app))"

definition CONTACT_TYPES :: "(contact_type \<times> string) list" where
  "CONTACT_TYPES =
     [(PRIMARY, ''Primary Contact''), (COMPLIANCE, ''Compliance Contact''), (FINANCE, ''Finance Contact'')]"

definition contact_card :: "business_contact \<Rightarrow> form_card" where
  "contact_card c =
     \<lparr>fc_title = map_of CONTACT_TYPES (bc_type c), fc_badges = [],
      fc_controls =
       [text_input ''Full name'' (bc_full_name c) ''Full name'',
        text_input ''Role / Title'' (bc_role c) ''Job title'',
        Input ''Email'' ''email'' (Some (JStr (bc_email c))) (Some ''Email address''),
        Input ''Phone'' ''tel'' (Some (JStr (bc_phone c))) (Some ''Phone number'')]\<rparr>"

definition StepContacts :: "application \<Rightarrow> step_page" where
  "StepContacts app =
     list_page ''Business contacts'' ''Add key contact persons for your business.''
       (''No contacts added'', ''Add your primary, compliance, and finance contacts'', ''Add contact'')
       ''Add another contact'' (map contact_card (business_contacts app))"

definition StepActivity :: "application \<Rightarrow> step_page" where
  "StepActivity app =
     (let ba = app_activity app
      in form_page ''Business activity & purpose'' ''Describe your business operations and purpose of account.''
        [\<lparr>fc_title = Some ''Business Activities'', fc_badges = [],
          fc_controls =
           [Select ''Primary activity''
              [(''trading'', ''Trading / Import-Export''), (''consulting'', ''Consulting / Professional Services''),
               (''technology'', ''Technology / Software''), (''manufacturing'', ''Manufacturing''),
               (''real_estate'', ''Real Estate''), (''retail'', ''Retail / E-commerce''),
               (''hospitality'', ''Hospitality / Tourism''), (''other'', ''Other'')]
              (ba_primary_activity ba) ''Select primary activity'',
            Textarea ''Purpose of account'' (ba_purpose_of_account ba)
              ''Describe why you need a US business account...'',
            Select ''Source of funds''
              [(''business_revenue'', ''Business Revenue''), (''investment'', ''Investment Capital''),
               (''loan'', ''Business Loan''), (''personal_funds'', ''Personal Funds''), (''mixed'', ''Mixed Sources'')]
              (ba_source_of_funds ba) ''Select source of funds'']\<rparr>])"

definition TRANSFER_PURPOSES :: "(string \<times> string) list" where
  "TRANSFER_PURPOSES =
     [(''supplier_payments'', ''Supplier Payments''), (''payroll'', ''Payroll / Contractor Payments''),
      (''investment'', ''Investment / Capital Transfer''), (''services'', ''Service Fees''),
      (''licensing'', ''Licensing / Royalties''), (''other'', ''Other'')]"

definition StepTransfers :: "application \<Rightarrow> step_page" where
  "StepTransfers app =
     (let tb = app_transfer app
      in form_page ''Expected transfer behavior'' ''Tell us about your expected UAE to US transfer patterns.''
        [\<lparr>fc_title = Some ''Transfer Volume'', fc_badges = [],
          fc_controls =
           [Input ''Expected monthly volume (USD)'' ''number''
              (map_option JNum (tb_expected_monthly_volume_usd tb)) (Some ''e.g., 100000''),
            Input ''Expected monthly transactions'' ''number''
              (map_option JNum (tb_expected_monthly_transactions tb)) (Some ''e.g., 20''),
            Select ''Primary transfer purpose'' TRANSFER_PURPOSES (tb_primary_transfer_purpose tb) ''Select purpose'',
            Textarea ''Expected counterparties'' (map_option (join '', '') (tb_expected_counterparties tb))
              ''Describe your typical counterparties (suppliers, partners, etc.)'',
            Switch ''High-risk jurisdictions'' (tb_high_risk_jurisdictions tb)]\<rparr>])"

text \<open>The fields of the parent company are shown for the stored value; the switch does not change it.\<close>

definition StepOwnership :: "application \<Rightarrow> step_page" where
  "StepOwnership app =
     (let ow = app_ownership app
      in form_page ''Ownership structure'' ''Provide details about your company's ownership.''
        [\<lparr>fc_title = Some ''Corporate Structure'', fc_badges = [],
          fc_controls =
            Switch ''Subsidiary company'' (os_is_subsidiary ow) #
            (if os_is_subsidiary ow = Some True
             then [Input ''Parent company name'' ''text'' (map_option JStr (os_parent_company_name ow))
                     (Some ''Enter parent company name''),
                   Input ''Parent company jurisdiction'' ''text''
                     (map_option JStr (os_parent_company_jurisdiction ow)) (Some ''e.g., United States, Delaware'')]
             else [])\<rparr>,
         \<lparr>fc_title = Some ''Ownership Chart'', fc_badges = [],
          fc_controls = [Dropzone ''Drag & drop or click to upload'' ''PDF, JPG, PNG up to 10MB'']\<rparr>])"

definition director_card :: "director \<Rightarrow> form_card" where
  "director_card d =
     \<lparr>fc_title = Some (js_or_str (Some (dir_full_name d)) ''Director''),
      fc_badges = (if dir_is_signatory d then [''Signatory''] else []),
      fc_controls =
       [text_input ''Full name'' (dir_full_name d) ''Full name'',
        text_input ''Nationality'' (dir_nationality d) ''Nationality'',
        Input ''Date of birth'' ''date'' (Some (JStr (dir_date_of_birth d))) None,
        text_input ''Passport number'' (dir_passport_number d) ''Passport number'',
        Input ''Email'' ''email'' (Some (JStr (dir_email d))) (Some ''Email''),
        Input ''Phone'' ''tel'' (Some (JStr (dir_phone d))) (Some ''Phone''),
        Switch ''Authorized signatory'' (Some (dir_is_signatory d))]\<rparr>"

definition StepDirectors :: "application \<Rightarrow> step_page" where
  "StepDirectors app =
     list_page ''Directors & signatories'' ''Add all directors and authorized signatories.''
       (''No directors added'', ''Add your company directors and signatories'', ''Add director'')
       ''Add another director'' (map director_card (directors app))"

text \<open>\<open>num\<close> is the text of a number.\<close>

definition ubo_card :: "(rat \<Rightarrow> string) \<Rightarrow> ubo \<Rightarrow> form_card" where
  "ubo_card num u =
     \<lparr>fc_title = Some (js_or_str (Some (ubo_full_name u)) ''Beneficial Owner''),
      fc_badges = [num (ubo_ownership_percentage u) @ ''% ownership''],
      fc_controls =
       [text_input ''Full name'' (ubo_full_name u) ''Full name'',
        Input ''Ownership percentage'' ''number'' (Some (JNum (ubo_ownership_percentage u))) (Some ''e.g., 50''),
        text_input ''Nationality'' (ubo_nationality u) ''Nationality'',
        Input ''Date of birth'' ''date'' (Some (JStr (ubo_date_of_birth u))) None,
        text_input ''Passport number'' (ubo_passport_number u) ''Passport number'',
        text_input ''Residential address'' (ubo_residential_address u) ''Full address'']\<rparr>"

definition StepUBOs :: "(rat \<Rightarrow> string) \<Rightarrow> application \<Rightarrow> step_page" where
  "StepUBOs num app =
     list_page ''Ultimate Beneficial Owners'' ''Add all individuals who own 25% or more of the company.''
       (''No UBOs added'', ''Add individuals who directly or indirectly own 25% or more of the company'', ''Add UBO'')
       ''Add another UBO'' (map (ubo_card num) (ubos app))"

section \<open>The document step\<close>

text \<open>A listed document: its name, the text of its type (bulk tab only), badge, status and the preview its
  button opens.\<close>

record doc_row =
  dr_filename :: string
  dr_type :: "string option"
  dr_badge :: "(string \<times> string list) option"
  dr_status :: string
  dr_preview :: "document_type \<times> string option"

definition doc_row :: "string option \<Rightarrow> doc \<Rightarrow> doc_row" where
  "doc_row t d =
     \<lparr>dr_filename = doc_filename d, dr_type = t, dr_badge = DocumentVerificationBadge (doc_verification d),
      dr_status = STATUS_LABEL (doc_status d), dr_preview = (doc_doc_type d, Some (doc_filename d))\<rparr>"

definition bulk_rows :: "application \<Rightarrow> doc_row list" where
  "bulk_rows app = map (\<lambda>d. doc_row (Some (DOCUMENT_TYPE_LABELS (doc_doc_type d))) d) (documents app)"

text \<open>A category of the tab \<open>One by one\<close>: the badge with the number of files, the sample button, and the
  documents or the drop area.\<close>

record category =
  ct_title :: string
  ct_files :: "string option"
  ct_sample :: bool
  ct_rows :: "doc_row list"
  ct_dropzone :: bool

definition category_of :: "application \<Rightarrow> document_type \<Rightarrow> category" where
  "category_of app t =
     (let docs = getDocumentsForType app t in
      \<lparr>ct_title = DOCUMENT_TYPE_LABELS t,
       ct_files = (if length docs > 0
                   then Some (nat_to_string (length docs) @ '' file'' @ plural (length docs)) else None),
       ct_sample = (SAMPLE_DOCUMENTS t \<noteq> None),
       ct_rows = map (doc_row None) docs,
       ct_dropzone = (docs = [])\<rparr>)"

definition other_category :: category where
  "other_category =
     \<lparr>ct_title = DOCUMENT_TYPE_LABELS OTHER, ct_files = None, ct_sample = False, ct_rows = [],
      ct_dropzone = True\<rparr>"

definition individual_view :: "application \<Rightarrow> category list" where
  "individual_view app = map (category_of app) REQUIRED_DOCUMENTS @ [other_category]"

text \<open>The preview dialog, for \<open>previewDoc\<close>.\<close>

record preview_modal =
  md_open :: bool
  md_title :: string
  md_description :: "string option"
  md_image :: "string option"

definition DocumentPreviewModal :: "bool \<Rightarrow> document_type option \<Rightarrow> string option \<Rightarrow> preview_modal" where
  "DocumentPreviewModal opened docType filename =
     \<lparr>md_open = opened,
      md_title = (case docType of None \<Rightarrow> ''Document'' | Some t \<Rightarrow> DOCUMENT_TYPE_LABELS t),
      md_description = (if truthy filename then filename else None),
      md_image = (case docType of None \<Rightarrow> None | Some t \<Rightarrow> SAMPLE_IMAGES t)\<rparr>"

definition step_preview :: "(document_type \<times> string option) option \<Rightarrow> preview_modal" where
  "step_preview previewDoc =
     DocumentPreviewModal (previewDoc \<noteq> None) (map_option fst previewDoc)
       (case previewDoc of None \<Rightarrow> None | Some (t, n) \<Rightarrow> n)"

section \<open>Facts\<close>

lemma address_card_titled: "fc_title (address_card a) \<noteq> None"
  by (cases "addr_type a") (simp_all add: address_card_def ADDRESS_TYPES_def)

lemma contact_card_titled: "fc_title (contact_card c) \<noteq> None"
  by (cases "bc_type c") (simp_all add: contact_card_def CONTACT_TYPES_def)

lemma parent_fields_iff:
  "list_ex (\<lambda>c. control_label c = ''Parent company name'') (page_controls (StepOwnership app)) \<longleftrightarrow>
     os_is_subsidiary (app_ownership app) = Some True"
  by (simp add: StepOwnership_def form_page_def page_controls_def Let_def)

text \<open>The picture of the preview is the bundled sample of the type, whatever the document is.\<close>

lemma preview_ignores_the_document:
  "md_image (step_preview (Some (dr_preview (doc_row t d)))) = SAMPLE_IMAGES (doc_doc_type d)"
  by (simp add: step_preview_def DocumentPreviewModal_def doc_row_def)

lemma types_covered: "t \<in> set REQUIRED_DOCUMENTS \<longleftrightarrow> t \<noteq> OTHER"
  by (cases t) (simp_all add: REQUIRED_DOCUMENTS_def)

lemma required_distinct: "distinct REQUIRED_DOCUMENTS"
  by (simp add: REQUIRED_DOCUMENTS_def)

text \<open>Splitting a list by a distinct list of keys gives back the elements with these keys.\<close>

lemma mset_split_by_key:
  "distinct ks \<Longrightarrow>
   mset (concat (map (\<lambda>k. filter (\<lambda>x. f x = k) xs) ks)) = filter_mset (\<lambda>x. f x \<in> set ks) (mset xs)"
proof (induction ks)
  case (Cons k ks)
  then have "filter_mset (\<lambda>x. f x = k \<or> f x \<in> set ks) M =
      filter_mset (\<lambda>x. f x = k) M + filter_mset (\<lambda>x. f x \<in> set ks) M" for M
    by (induction M) auto
  with Cons show ?case by simp
qed simp

section \<open>What the applicant cannot enter\<close>

text \<open>No page writes the contacts, the signatories, the purpose of the account, the source of funds, the
  counterparties, the high-risk answer or the parent company; the only transfer purpose that is ever
  written is the text of the bank statement mapper and of its sample.\<close>

definition BANK_PURPOSE :: string where
  "BANK_PURPOSE = ''Operating expenses & vendor payments''"

definition inert_activity :: "business_activity \<Rightarrow> bool" where
  "inert_activity v = (ba_purpose_of_account v = None \<and> ba_source_of_funds v = None)"

definition inert_transfer :: "transfer_behavior \<Rightarrow> bool" where
  "inert_transfer v =
     (tb_expected_counterparties v = None \<and> tb_high_risk_jurisdictions v = None \<and>
      tb_primary_transfer_purpose v \<in> {None, Some BANK_PURPOSE})"

definition inert_ownership :: "ownership_structure \<Rightarrow> bool" where
  "inert_ownership v =
     (os_is_subsidiary v \<noteq> Some True \<and> os_parent_company_name v = None \<and>
      os_parent_company_jurisdiction v = None \<and> os_ownership_chart_uploaded v = None)"

definition inert :: "application \<Rightarrow> bool" where
  "inert a =
     (business_contacts a = [] \<and> signatories a = [] \<and> inert_activity (app_activity a) \<and>
      inert_transfer (app_transfer a) \<and> inert_ownership (app_ownership a))"

definition inert_update :: "partial_app \<Rightarrow> bool" where
  "inert_update u =
     (p_contacts u = None \<and> p_signatories u = None \<and> pred_option inert_activity (p_activity u) \<and>
      pred_option inert_transfer (p_transfer u) \<and> pred_option inert_ownership (p_ownership u))"

lemmas inert_parts = inert_activity_def inert_transfer_def inert_ownership_def

lemma inert_apply: "inert a \<Longrightarrow> inert_update u \<Longrightarrow> inert (apply_partial u a)"
  by (cases "p_activity u"; cases "p_transfer u"; cases "p_ownership u")
    (simp_all add: inert_def inert_update_def apply_partial_def)

lemma inert_no_updates [simp]: "inert_update no_updates"
  by (simp add: inert_update_def)

lemma inert_spread: "inert_update u \<Longrightarrow> inert_update w \<Longrightarrow> inert_update (spread_partial u w)"
  by (cases "p_activity w"; cases "p_transfer w"; cases "p_ownership w")
    (simp_all add: inert_update_def spread_partial_def)

lemma inert_key:
  "pred_option P x \<Longrightarrow> pred_option P y \<Longrightarrow> (\<And>v w. P v \<Longrightarrow> P w \<Longrightarrow> P (f v w)) \<Longrightarrow> pred_option P (merge_key f x y)"
  by (cases x; cases y) simp_all

lemma inert_spreads:
  "inert_activity v \<Longrightarrow> inert_activity w \<Longrightarrow> inert_activity (spread_activity v w)"
  "inert_transfer v' \<Longrightarrow> inert_transfer w' \<Longrightarrow> inert_transfer (spread_transfer v' w')"
  "inert_ownership v'' \<Longrightarrow> inert_ownership w'' \<Longrightarrow> inert_ownership (spread_ownership v'' w'')"
  by (auto simp: inert_parts spread_activity_def spread_transfer_def spread_ownership_def later_def
      split: option.split)

lemma inert_deepMerge: "inert_update u \<Longrightarrow> inert_update w \<Longrightarrow> inert_update (deepMerge u w)"
  by (simp add: inert_update_def deepMerge_def inert_key inert_spreads)

lemma inert_mapper: "inert a \<Longrightarrow> inert_update (MAPPERS dt rn data a)"
  by (cases dt)
    (auto simp: inert_def inert_update_def inert_parts mapMemorandum_def mapPassport_def mapNationalId_def
      mapBankStatement_def mapTradeLicense_def mapCoi_def mapProofOfAddress_def Let_def BANK_PURPOSE_def
      split: option.split list.split)

lemma inert_extraction_loop:
  "extraction_loop rn i rs dts a m = Some u \<Longrightarrow> inert a \<Longrightarrow> inert_update m \<Longrightarrow> inert_update u"
proof (induction rs arbitrary: i dts m)
  case (Cons r rs)
  have *: "inert_update (deepMerge m (MAPPERS dt rn' data (apply_partial m a)))" for dt rn' data
    using Cons.prems by (simp add: inert_deepMerge inert_mapper inert_apply)
  show ?case
    using Cons.prems Cons.IH * by (auto simp: Let_def split: option.splits list.splits if_splits)
qed simp

lemma inert_sample: "inert a \<Longrightarrow> SAMPLE_DOCUMENTS t = Some s \<Longrightarrow> inert_update (sd_applyPrefill s rn a)"
  by (cases t) (auto simp: sample_defs inert_def inert_update_def inert_parts BANK_PURPOSE_def)

lemma inert_process_samples:
  "inert a \<Longrightarrow> inert_update (sb_prefill b) \<Longrightarrow> inert_update (sb_prefill (process_samples v i es a b))"
  by (induction v i es a b rule: process_samples.induct)
    (auto simp: Let_def inert_spread inert_sample inert_apply split: option.split)

lemma inert_real:
  "inert a \<Longrightarrow> inert_update (snd (fst (extractRealFiles v n es a)))"
  by (auto simp: extractRealFiles_def processRealEntries_def mapExtractionToApplication_def Let_def
      dest: inert_extraction_loop split: sum.splits option.splits)

lemma inert_with_documents [simp]:
  "inert_update (u\<lparr>p_documents := d, p_provenance := p\<rparr>) = inert_update u"
  by (simp add: inert_update_def)

lemma inert_process: "inert a \<Longrightarrow> inert_update (fst (process_update v pending a))"
  by (simp add: process_update_def Let_def case_prod_beta processSampleEntries_def inert_spread
      inert_process_samples inert_real inert_apply)

interpretation inert: flow_invariant inert inert_update
proof unfold_locales
  show "inert (createNewApplication ms rnd now m)" for ms rnd now m
    by (simp add: inert_def inert_parts createNewApplication_def empty_activity_def empty_transfer_def
        empty_ownership_def)
  show "inert a \<Longrightarrow> inert_update u \<Longrightarrow> inert (apply_partial u a)" for a u
    by (rule inert_apply)
  show "inert a \<Longrightarrow> inert_update (fst (process_update env pending a))" for a env pending
    by (rule inert_process)
  show "inert a \<Longrightarrow> handleUseSample now r rn t a = Some u \<Longrightarrow> inert_update u" for a now r rn t u
    by (auto simp: handleUseSample_def inert_sample)
qed (simp_all add: inert_def submittedApp_def inert_update_def setMode_def updateProfile_def
      confirmAccuracy_def confirmAuthority_def)

section \<open>Properties\<close>


text \<open>A session in which the sample of the bank statement fills in the transfers.\<close>

definition bank_session :: "flow_event list" where
  "bank_session = [Create 0 ''0.abcd'' ''t'' (Some MANUAL), Open ''APP-0-ABCD'' ''documents'',
     UseSample ''t'' ''0.abcd'' (\<lambda>i. ''0.abcd'') BANK_STATEMENT]"

lemma bank_session_app:
  "\<exists>app. hk_application (fw_hook (run (flow_step accepts_key accepting) flow_init bank_session)) = Some app \<and>
     tb_primary_transfer_purpose (app_transfer app) = Some BANK_PURPOSE"
proof -
  have "generateApplicationId 0 ''0.abcd'' = ''APP-0-ABCD''" by code_simp
  then show ?thesis
    by (simp add: bank_session_def flow_init_def handleCreateApplication_def createNewApplication_def
        saveApplication_def loadEffect_def hook_init_def getApplicationById_def goto_path_def with_update_def
        handleUseSample_def sample_defs updateApplication_def commit_def apply_partial_def Let_def
        BANK_PURPOSE_def)
qed


text \<open>The tab \<open>One by one\<close> lists every document that is not of type OTHER exactly once, under its type; the
  documents of type OTHER are listed in no category, also not in the one with their title.\<close>

theorem individual_tab_partition:
  "mset (concat (map ct_rows (individual_view app))) =
     image_mset (doc_row None) (filter_mset (\<lambda>d. doc_doc_type d \<noteq> OTHER) (mset (documents app))) \<and>
   list_all (\<lambda>c. list_all (\<lambda>r. ct_title c = DOCUMENT_TYPE_LABELS (fst (dr_preview r))) (ct_rows c))
     (individual_view app)"
proof -
  have "concat (map ct_rows (individual_view app)) =
      map (doc_row None) (concat (map (\<lambda>t. filter (\<lambda>d. doc_doc_type d = t) (documents app)) REQUIRED_DOCUMENTS))"
    by (simp add: individual_view_def category_of_def other_category_def getDocumentsForType_def Let_def
        map_concat comp_def)
  then have "mset (concat (map ct_rows (individual_view app))) =
      image_mset (doc_row None) (filter_mset (\<lambda>d. doc_doc_type d \<in> set REQUIRED_DOCUMENTS) (mset (documents app)))"
    by (simp only: mset_map mset_split_by_key [OF required_distinct])
  then show ?thesis
    by (simp add: types_covered list_all_iff individual_view_def category_of_def other_category_def Let_def
        getDocumentsForType_def doc_row_def)
qed

end
