(* ===== verification/Url_Text.thy ===== *)
theory Url_Text
  imports Prelude
begin

text \<open>
  Paths and their escapes: \<open>encodeURIComponent\<close> and \<open>decodeURIComponent\<close> of the language, and the segments a
  router matches. A string is the list of the bytes of its UTF-8 form, so an escape stands for one byte;
  \<open>None\<close> is the \<open>URIError\<close> of a malformed text.
\<close>

section \<open>Segments\<close>

fun split_slash :: "string \<Rightarrow> string list" where
  "split_slash [] = [[]]"
| "split_slash (c # s) =
     (if c = CHR ''/'' then [] # split_slash s
      else (case split_slash s of [] \<Rightarrow> [[c]] | w # ws \<Rightarrow> (c # w) # ws))"

definition segments :: "string \<Rightarrow> string list" where
  "segments path = filter (\<lambda>w. w \<noteq> []) (split_slash path)"

lemma split_slash_word [simp]:
  "CHR ''/'' \<notin> set w \<Longrightarrow> split_slash (w @ CHR ''/'' # s) = w # split_slash s"
  by (induction w) auto

lemma split_slash_last [simp]: "CHR ''/'' \<notin> set w \<Longrightarrow> split_slash w = [w]"
  by (induction w) auto

text \<open>A segment of a path.\<close>

definition segment :: "string \<Rightarrow> bool" where
  "segment w = (w \<noteq> [] \<and> CHR ''/'' \<notin> set w)"

section \<open>Escapes\<close>

definition byte :: "char \<Rightarrow> nat" where
  "byte c = of_char c"

definition unreserved :: "char \<Rightarrow> bool" where
  "unreserved c =
     ((48 \<le> byte c \<and> byte c \<le> 57) \<or> (65 \<le> byte c \<and> byte c \<le> 90) \<or> (97 \<le> byte c \<and> byte c \<le> 122) \<or>
      c \<in> set ''-_.!~*()'' \<or> c = CHR 0x27)"

definition hex_digit :: "nat \<Rightarrow> char" where
  "hex_digit n = char_of (if n < 10 then 48 + n else 55 + n)"

definition hex_value :: "char \<Rightarrow> nat option" where
  "hex_value c =
     (if 48 \<le> byte c \<and> byte c \<le> 57 then Some (byte c - 48)
      else if 65 \<le> byte c \<and> byte c \<le> 70 then Some (byte c - 55)
      else if 97 \<le> byte c \<and> byte c \<le> 102 then Some (byte c - 87)
      else None)"

fun encodeURIComponent :: "string \<Rightarrow> string" where
  "encodeURIComponent [] = []"
| "encodeURIComponent (c # s) =
     (if unreserved c then [c] else [CHR ''%'', hex_digit (byte c div 16), hex_digit (byte c mod 16)]) @
     encodeURIComponent s"

fun unescape :: "string \<Rightarrow> string option" where
  "unescape [] = Some []"
| "unescape (c # s) =
     (if c \<noteq> CHR ''%'' then map_option (Cons c) (unescape s)
      else (case s of
        a # b # t \<Rightarrow>
          (case (hex_value a, hex_value b) of
             (Some m, Some n) \<Rightarrow> map_option (Cons (char_of (16 * m + n))) (unescape t)
           | _ \<Rightarrow> None)
      | _ \<Rightarrow> None))"

text \<open>The byte sequences that are UTF-8: no overlong forms, no surrogates, nothing above U+10FFFF.\<close>

definition cont :: "char \<Rightarrow> bool" where
  "cont c = (128 \<le> byte c \<and> byte c < 192)"

definition lead2 :: "char \<Rightarrow> bool" where
  "lead2 c = (194 \<le> byte c \<and> byte c < 224)"

definition lead3 :: "char \<Rightarrow> char \<Rightarrow> bool" where
  "lead3 c d = (224 \<le> byte c \<and> byte c < 240 \<and> cont d \<and> (byte c = 224 \<longrightarrow> 160 \<le> byte d) \<and> (byte c = 237 \<longrightarrow> byte d < 160))"

definition lead4 :: "char \<Rightarrow> char \<Rightarrow> bool" where
  "lead4 c d = (240 \<le> byte c \<and> byte c \<le> 244 \<and> cont d \<and> (byte c = 240 \<longrightarrow> 144 \<le> byte d) \<and> (byte c = 244 \<longrightarrow> byte d < 144))"

fun utf8 :: "string \<Rightarrow> bool" where
  "utf8 [] = True"
| "utf8 (c # s) =
     (if byte c < 128 then utf8 s
      else (case s of
        [] \<Rightarrow> False
      | d # s1 \<Rightarrow>
          if lead2 c then cont d \<and> utf8 s1
          else (case s1 of
            [] \<Rightarrow> False
          | e # s2 \<Rightarrow>
              if lead3 c d then cont e \<and> utf8 s2
              else (case s2 of [] \<Rightarrow> False | f # s3 \<Rightarrow> lead4 c d \<and> cont e \<and> cont f \<and> utf8 s3))))"

definition decodeURIComponent :: "string \<Rightarrow> string option" where
  "decodeURIComponent s = (case unescape s of Some t \<Rightarrow> if utf8 t then Some t else None | None \<Rightarrow> None)"

lemma hex_roundtrip: "n < 16 \<Longrightarrow> hex_value (hex_digit n) = Some n"
proof -
  assume n: "n < 16"
  then have "byte (hex_digit n) = (if n < 10 then 48 + n else 55 + n)"
    by (simp add: byte_def hex_digit_def)
  with n show ?thesis by (simp add: hex_value_def)
qed

lemma byte_less: "byte c < 256"
  by (simp add: byte_def)

lemma unescape_plain: "CHR ''%'' \<notin> set s \<Longrightarrow> unescape s = Some s"
  by (induction s) auto

lemma unescape_encoded: "unescape (encodeURIComponent s @ t) = map_option (append s) (unescape t)"
proof (induction s)
  case Nil
  then show ?case by (cases "unescape t") simp_all
next
  case (Cons c s)
  have "unreserved c \<Longrightarrow> c \<noteq> CHR ''%''"
    by (auto simp: unreserved_def byte_def)
  moreover have "byte c div 16 < 16" "16 * (byte c div 16) + byte c mod 16 = byte c"
    using byte_less [of c] by (simp_all add: less_mult_imp_div_less)
  moreover have "char_of (byte c) = c"
    by (simp add: byte_def)
  ultimately show ?case
    using Cons by (cases "unescape t") (auto simp: hex_roundtrip)
qed

lemma decode_encoded: "utf8 s \<Longrightarrow> decodeURIComponent (encodeURIComponent s) = Some s"
  using unescape_encoded [of s "[]"] by (simp add: decodeURIComponent_def)

lemma decode_plain: "utf8 s \<Longrightarrow> CHR ''%'' \<notin> set s \<Longrightarrow> decodeURIComponent s = Some s"
  by (simp add: decodeURIComponent_def unescape_plain)

lemma encoded_no_slash: "CHR ''/'' \<notin> set (encodeURIComponent s)"
proof -
  have "\<not> unreserved CHR ''/''" by code_simp
  moreover have "hex_digit n \<noteq> CHR ''/''" if "n < 16" for n
  proof
    assume "hex_digit n = CHR ''/''"
    then have "hex_value CHR ''/'' = Some n" using hex_roundtrip [OF that] by simp
    then show False by (simp add: hex_value_def byte_def)
  qed
  moreover have "byte c div 16 < 16" for c
    using byte_less [of c] by simp
  ultimately show ?thesis
    by (induction s) (auto dest: sym)
qed

lemma segment_encoded: "s \<noteq> [] \<Longrightarrow> segment (encodeURIComponent s)"
  using encoded_no_slash [of s] by (cases s) (simp_all add: segment_def)

lemma utf8_ascii: "\<forall>c \<in> set s. byte c < 128 \<Longrightarrow> utf8 s"
  by (induction s) simp_all

end
