(* ===== verification/App_Shell.thy ===== *)
theory App_Shell
  imports Onboarding_Flow Url_Text
begin

text \<open>
  The shell of the onboarding application: \<open>App.tsx\<close>, the routes of \<open>app/routes.tsx\<close>, the layout of the
  operations pages (\<open>components/layout\<close>: \<open>AppLayout\<close>, \<open>Sidebar\<close>, \<open>Topbar\<close>, \<open>BrandSwitcher\<close>,
  \<open>ThemeToggle\<close>), the hook \<open>useIsMobile\<close> and \<open>AutosaveIndicator\<close>.

  The router matches the segments of the path after the base name, ignoring case, empty segments and a
  slash at the end, as React Router documents it. Style and icons are left out.
\<close>

section \<open>Routes\<close>

datatype page =
  P_redirect string | P_start | P_step string string | P_status string | P_ops | P_ops_detail string | P_not_found

definition step_routes :: "string list" where
  "step_routes = [''documents'', ''identity'', ''addresses'', ''contacts'', ''activity'', ''transfers'',
                  ''ownership'', ''directors'', ''ubos'', ''review'']"

fun route_of :: "string list \<Rightarrow> page" where
  "route_of [] = P_redirect ''/start''"
| "route_of [a] =
     (if toLowerCase a = ''start'' then P_start else if toLowerCase a = ''ops'' then P_ops else P_not_found)"
| "route_of [a, i] =
     (if toLowerCase a = ''onboarding'' then P_redirect (onboarding_path i ''documents'')
      else if toLowerCase a = ''status'' then P_status i
      else if toLowerCase a = ''ops'' then P_ops_detail i else P_not_found)"
| "route_of [a, i, p] =
     (if toLowerCase a = ''onboarding'' \<and> toLowerCase p \<in> set step_routes then P_step i (toLowerCase p)
      else P_not_found)"
| "route_of (a # i # p # q # more_segments) = P_not_found"

definition AppRoutes :: "string \<Rightarrow> page" where
  "AppRoutes path = route_of (segments path)"

text \<open>The application shows its routes once a key is stored or was verified.\<close>

definition app_connected :: "conn \<Rightarrow> bool \<Rightarrow> bool" where
  "app_connected stored_at_start verified = (getStoredApiKey stored_at_start \<noteq> None \<or> verified)"

section \<open>The layout of the operations pages\<close>

definition MOBILE_BREAKPOINT :: nat where "MOBILE_BREAKPOINT = 768"

text \<open>The state of \<open>useIsMobile\<close> is undefined until its effect has run.\<close>

definition useIsMobile :: "bool option \<Rightarrow> bool" where
  "useIsMobile state = nullish state False"

record layout =
  ly_isMobile :: "bool option"
  ly_sidebarCollapsed :: bool
  ly_mobileMenuOpen :: bool

definition layout_init :: layout where
  "layout_init = \<lparr>ly_isMobile = None, ly_sidebarCollapsed = False, ly_mobileMenuOpen = False\<rparr>"

datatype layout_event = Resize nat | Toggle_sidebar | Menu_click | Sheet bool | Item_click

text \<open>The width of the window is read on mount and on every change of the media query; the effect of
  \<open>AppLayout\<close> runs after the render that follows.\<close>

definition menu_effect :: "layout \<Rightarrow> layout" where
  "menu_effect s = (if \<not> useIsMobile (ly_isMobile s) then s\<lparr>ly_mobileMenuOpen := False\<rparr> else s)"

fun layout_step :: "layout \<Rightarrow> layout_event \<Rightarrow> layout" where
  "layout_step s (Resize width) = menu_effect (s\<lparr>ly_isMobile := Some (width < MOBILE_BREAKPOINT)\<rparr>)"
| "layout_step s Toggle_sidebar =
     (if useIsMobile (ly_isMobile s) then s else s\<lparr>ly_sidebarCollapsed := \<not> ly_sidebarCollapsed s\<rparr>)"
| "layout_step s Menu_click =
     (if useIsMobile (ly_isMobile s) then s\<lparr>ly_mobileMenuOpen := \<not> ly_mobileMenuOpen s\<rparr> else s)"
| "layout_step s (Sheet b) = (if useIsMobile (ly_isMobile s) then s\<lparr>ly_mobileMenuOpen := b\<rparr> else s)"
| "layout_step s Item_click =
     (if useIsMobile (ly_isMobile s) then s\<lparr>ly_mobileMenuOpen := False\<rparr> else s)"

record menu_item =
  mi_title :: "string option"
  mi_path :: string
  mi_active :: bool

definition menuItems :: "(string \<times> string) list" where
  "menuItems = [(''Onboarding flow'', ''/start''), (''Ops Dashboard'', ''/ops'')]"

definition isActive :: "string \<Rightarrow> string \<Rightarrow> bool" where
  "isActive pathname path = (pathname = path \<or> path = ''/ops'' \<and> starts_with pathname ''/ops'')"

definition Sidebar :: "bool \<Rightarrow> string \<Rightarrow> menu_item list" where
  "Sidebar collapsed pathname =
     map (\<lambda>(t, p). \<lparr>mi_title = (if collapsed then None else Some t), mi_path = p, mi_active = isActive pathname p\<rparr>)
       menuItems"

record layout_page =
  lp_sidebar :: "menu_item list option"
  lp_drawer :: "menu_item list option"
  lp_menu_button :: bool

definition AppLayout :: "layout \<Rightarrow> string \<Rightarrow> layout_page" where
  "AppLayout s pathname =
     \<lparr>lp_sidebar = (if useIsMobile (ly_isMobile s) then None else Some (Sidebar (ly_sidebarCollapsed s) pathname)),
      lp_drawer = (if useIsMobile (ly_isMobile s) \<and> ly_mobileMenuOpen s then Some (Sidebar False pathname) else None),
      lp_menu_button = useIsMobile (ly_isMobile s)\<rparr>"

definition brands :: "(string \<times> string) list" where
  "brands = [(''1'', ''Prime Family Medicine''), (''2'', ''Prime Ortho''), (''3'', ''Sunrise Cardiology'')]"

text \<open>The name on the trigger and the items of the menu, the selected one marked; clicking an item selects it.\<close>

definition BrandSwitcher :: "string \<times> string \<Rightarrow> string \<times> (string \<times> bool) list" where
  "BrandSwitcher selected = (snd selected, map (\<lambda>b. (snd b, fst selected = fst b)) brands)"

definition ThemeToggle :: "string option \<Rightarrow> string" where
  "ThemeToggle theme = (if theme = Some ''dark'' then ''light'' else ''dark'')"

definition AutosaveIndicator :: "(string \<Rightarrow> string) \<Rightarrow> string option \<Rightarrow> string option" where
  "AutosaveIndicator formatTime lastSaved = map_option (\<lambda>t. ''Saved at '' @ formatTime t) lastSaved"

section \<open>Facts on paths\<close>

lemma step_paths_routed: "stepPaths = step_routes" "map step_path ONBOARDING_STEPS = step_routes"
  by (simp_all add: stepPaths_def step_routes_def ONBOARDING_STEPS_def mk_step_def)

lemma lower_step_routes: "p \<in> set step_routes \<Longrightarrow> toLowerCase p = p \<and> segment p"
proof -
  have "list_all (\<lambda>p. toLowerCase p = p \<and> segment p) step_routes" by code_simp
  then show "p \<in> set step_routes \<Longrightarrow> toLowerCase p = p \<and> segment p" by (auto simp: list_all_iff)
qed

lemma lower_names:
  "toLowerCase ''onboarding'' = ''onboarding''" "toLowerCase ''status'' = ''status''" "toLowerCase ''start'' = ''start''"
  by code_simp+

lemma route_step:
  assumes "segment i" "p \<in> set step_routes"
  shows "AppRoutes (onboarding_path i p) = P_step i p"
proof -
  have "segments (onboarding_path i p) = [''onboarding'', i, p]"
    using assms lower_step_routes [OF assms(2)]
    by (simp add: segments_def onboarding_path_def segment_def)
  with lower_step_routes [OF assms(2)] assms(2) show ?thesis by (simp add: AppRoutes_def lower_names)
qed

lemma route_status: "segment i \<Longrightarrow> AppRoutes (''/status/'' @ i) = P_status i"
  by (simp add: AppRoutes_def segments_def segment_def lower_names)

lemma route_start: "AppRoutes ''/start'' = P_start"
  by (simp add: AppRoutes_def segments_def lower_names)

lemma upper_no_slash: "CHR ''/'' \<notin> set s \<Longrightarrow> CHR ''/'' \<notin> set (toUpperCase s)"
proof -
  have "c = CHR ''/''" if up: "upper_char c = CHR ''/''" for c
  proof (cases "of_char c \<in> {97..122 :: nat}")
    case True
    then have "of_char c - 32 < (256 :: nat)" by auto
    then have "(of_char c - 32 :: nat) mod 256 = of_char c - 32" by (rule mod_less)
    then have "(of_char (upper_char c) :: nat) = of_char c - 32" using True by (simp add: upper_char_def of_char_of)
    with True up show ?thesis by auto
  qed (use up in \<open>auto simp: upper_char_def split: if_splits\<close>)
  then show "CHR ''/'' \<notin> set s \<Longrightarrow> CHR ''/'' \<notin> set (toUpperCase s)"
    unfolding toUpperCase_def by (metis image_iff list.set_map)
qed

lemma digit36_no_slash: "d < 36 \<Longrightarrow> digit36 d \<noteq> CHR ''/''"
proof
  assume d: "d < 36" "digit36 d = CHR ''/''"
  then have "(of_char (digit36 d) :: nat) = 47" by simp
  moreover have "(of_char (digit36 d) :: nat) = (if d < 10 then 48 + d else 87 + d)"
    using d(1) by (simp add: digit36_def of_char_of)
  ultimately show False by (auto split: if_splits)
qed

lemma base36_no_slash: "CHR ''/'' \<notin> set (base36 n)"
proof (induction n rule: base36.induct)
  case (1 n)
  show ?case
  proof (cases "n < 36")
    case True
    then show ?thesis by (subst base36.simps) (use digit36_no_slash [of n] in auto)
  next
    case False
    then show ?thesis by (subst base36.simps) (use 1 digit36_no_slash [of "n mod 36"] in auto)
  qed
qed

lemma generated_segment: "CHR ''/'' \<notin> set rnd \<Longrightarrow> segment (generateApplicationId now rnd)"
proof -
  assume "CHR ''/'' \<notin> set rnd"
  then have "CHR ''/'' \<notin> set (take 4 (drop 2 rnd))" by (meson in_set_dropD in_set_takeD)
  then show ?thesis
    by (simp add: generateApplicationId_def segment_def upper_no_slash base36_no_slash)
qed

section \<open>Where the pages of the applicant lead\<close>

definition leads_on :: "page \<Rightarrow> bool" where
  "leads_on pg = (case pg of P_start \<Rightarrow> True | P_step i p \<Rightarrow> True | P_status i \<Rightarrow> True | _ \<Rightarrow> False)"

text \<open>A link of the application is opened; the random number is the text of a number.\<close>

fun own_link :: "flow \<Rightarrow> flow_event \<Rightarrow> bool" where
  "own_link s (Open i p) = (segment i \<and> p \<in> set step_routes)"
| "own_link s (Create ms rnd now m) = (CHR ''/'' \<notin> set rnd)"
| "own_link s (Submit now) = segment (fw_id s)"
| "own_link s (Click n) = segment (fw_id s)"
| "own_link s Back = segment (fw_id s)"
| "own_link s Continue = segment (fw_id s)"
| "own_link s e = True"

definition flow_routed :: "flow \<Rightarrow> bool" where
  "flow_routed s = leads_on (AppRoutes (fw_path s))"

lemma routed_onboarding: "segment i \<Longrightarrow> p \<in> set step_routes \<Longrightarrow> leads_on (AppRoutes (onboarding_path i p))"
  by (simp add: route_step leads_on_def)

lemma step_target_routed: "segment i \<Longrightarrow> step_target i n = Some p \<Longrightarrow> leads_on (AppRoutes p)"
proof -
  assume i: "segment i" and "step_target i n = Some p"
  then obtain s where "s \<in> set ONBOARDING_STEPS" "p = onboarding_path i (step_path s)"
    by (auto simp: step_target_def dest: find_step_id_SomeD)
  with i show ?thesis
    using step_paths_routed(2) by (metis imageI list.set_map routed_onboarding)
qed

lemma goto_path_routed:
  "flow_routed s \<Longrightarrow> (\<And>q. p = Some q \<Longrightarrow> leads_on (AppRoutes q)) \<Longrightarrow> flow_routed (goto_path p s)"
  by (simp add: flow_routed_def goto_path_def split: option.split)

lemma flow_routed_step:
  assumes routed: "flow_routed s" and link: "own_link s e"
  shows "flow_routed (flow_step verify srv s e)"
proof (cases e)
  case (Create ms rnd now m)
  with link have i: "segment (generateApplicationId ms rnd)" by (simp add: generated_segment)
  have "leads_on (AppRoutes q)" if "handleCreateApplication ms rnd now m (hk_slot (fw_hook s)) = Inr (sl, Some q)" for sl q
    using that i by (auto simp: handleCreateApplication_def createNewApplication_def Let_def step_routes_def
        intro!: routed_onboarding split: option.splits sum.splits)
  with Create routed show ?thesis
    by (auto simp: flow_routed_def goto_path_def split: sum.split option.split)
next
  case (Open i p)
  with link show ?thesis by (simp add: flow_routed_def routed_onboarding)
next
  case (Submit now)
  then have "leads_on (AppRoutes (''/status/'' @ fw_id s))" using link by (simp only: own_link.simps route_status leads_on_def page.case)
  then show ?thesis
    using routed Submit by (auto simp: flow_routed_def goto_path_def handleSubmit_def Let_def
        split: option.split prod.split sum.split js_error.split)
qed (use routed link step_target_routed route_start in \<open>auto simp: flow_routed_def goto_path_def with_update_def
      handleStepClick_def handleBack_def handleContinue_def Let_def split: option.split if_splits\<close>)

interpretation routed: guarded_machine "flow_step verify srv" own_link flow_routed
  by unfold_locales (rule flow_routed_step)

section \<open>The layout as a machine\<close>

definition layout_ok :: "layout \<Rightarrow> bool" where
  "layout_ok s = (ly_mobileMenuOpen s \<longrightarrow> useIsMobile (ly_isMobile s))"

interpretation layout: machine layout_step layout_ok
proof
  show "layout_ok s \<Longrightarrow> layout_ok (layout_step s e)" for s e
    by (cases e) (auto simp: layout_ok_def menu_effect_def)
qed

lemma layout_shows_one_sidebar:
  "let p = AppLayout (run layout_step layout_init es) pathname in
   (lp_drawer p = None \<or> lp_sidebar p = None) \<and> (lp_sidebar p = None \<longleftrightarrow> lp_menu_button p)"
  by (simp add: AppLayout_def Let_def)

lemma drawer_closes_on_desktop:
  "\<not> useIsMobile (ly_isMobile (run layout_step layout_init es)) \<Longrightarrow> \<not> ly_mobileMenuOpen (run layout_step layout_init es)"
proof -
  have "layout_ok (run layout_step layout_init es)"
    by (rule layout.run_inv) (simp add: layout_ok_def layout_init_def)
  then show "\<not> useIsMobile (ly_isMobile (run layout_step layout_init es)) \<Longrightarrow> ?thesis"
    by (auto simp: layout_ok_def)
qed

text \<open>The router ignores the case of a path and the menu does not: the operations page is shown under
  \<open>/OPS\<close> with no active item.\<close>

lemma menu_is_case_sensitive:
  "AppRoutes ''/OPS'' = P_ops \<and> list_all (\<lambda>m. \<not> mi_active m) (Sidebar False ''/OPS'')"
  by code_simp

section \<open>Properties\<close>



end
