(* ===== verification/Ops_Pages.thy ===== *)
theory Ops_Pages
  imports Submission Regex
begin

text \<open>
  The pages of the operators and the status page: \<open>ops/pages/OpsList.tsx\<close>, \<open>OpsDetail.tsx\<close>,
  \<open>Status.tsx\<close>, and the gate \<open>features/connect/ConnectGate.tsx\<close>.

  Dates are shown by \<open>toLocaleDateString\<close>, an argument (\<open>date\<close>). Answers of the backend are JSON;
  a field of another type than the page expects is read as absent.
\<close>

section \<open>Labels\<close>

fun status_name :: "application_status \<Rightarrow> string" where
  "status_name DRAFT = ''DRAFT''"
| "status_name SUBMITTED = ''SUBMITTED''"
| "status_name UNDER_REVIEW = ''UNDER_REVIEW''"
| "status_name ACTION_REQUIRED = ''ACTION_REQUIRED''"
| "status_name APPROVED = ''APPROVED''"
| "status_name UNABLE_TO_PROCEED = ''UNABLE_TO_PROCEED''"

fun STATUS_STYLES :: "application_status \<Rightarrow> string" where
  "STATUS_STYLES DRAFT = ''Draft''"
| "STATUS_STYLES SUBMITTED = ''Submitted''"
| "STATUS_STYLES UNDER_REVIEW = ''Under Review''"
| "STATUS_STYLES ACTION_REQUIRED = ''Action Required''"
| "STATUS_STYLES APPROVED = ''Approved''"
| "STATUS_STYLES UNABLE_TO_PROCEED = ''Unable to Proceed''"

definition STATUS_OPTIONS :: "(application_status \<times> string) list" where
  "STATUS_OPTIONS =
     [(DRAFT, ''Draft''), (SUBMITTED, ''Submitted''), (UNDER_REVIEW, ''Under Review''),
      (ACTION_REQUIRED, ''Action Required''), (APPROVED, ''Approved''),
      (UNABLE_TO_PROCEED, ''Unable to Proceed'')]"

section \<open>OpsList.tsx\<close>

definition matches_search :: "string \<Rightarrow> application \<Rightarrow> bool" where
  "matches_search searchQuery app =
     (let searchLower = toLowerCase searchQuery in
      includes_str (toLowerCase (application_id app)) searchLower \<or>
      (case bp_legal_name (app_profile app) of None \<Rightarrow> False
       | Some n \<Rightarrow> includes_str (toLowerCase n) searchLower) \<or>
      includes_str (toLowerCase (status_name (app_status app))) searchLower)"

definition filteredApplications :: "string \<Rightarrow> application list \<Rightarrow> application list" where
  "filteredApplications searchQuery apps = filter (matches_search searchQuery) apps"

record ops_row =
  orow_id :: string
  orow_name :: string
  orow_status :: string
  orow_method :: string
  orow_created :: string
  orow_target :: string

definition ops_row :: "(string \<Rightarrow> string) \<Rightarrow> application \<Rightarrow> ops_row" where
  "ops_row date app =
     \<lparr>orow_id = application_id app,
      orow_name = js_or_str (bp_legal_name (app_profile app)) [CHR 0xE2, CHR 0x80, CHR 0x94],
      orow_status = STATUS_STYLES (app_status app),
      orow_method = (if app_method app = UPLOAD_PREFILL then ''Upload'' else ''Manual''),
      orow_created = date (created_at app),
      orow_target = ''/ops/'' @ application_id app\<rparr>"

datatype ops_list_view = OL_loading | OL_empty | OL_table "ops_row list" | OL_error

text \<open>\<open>OL_error\<close> is the TypeError of \<open>applications.filter\<close> when the storage holds no array.\<close>

definition ops_list_view :: "(string \<Rightarrow> string) \<Rightarrow> string \<Rightarrow> apps_list \<Rightarrow> ops_list_view" where
  "ops_list_view date searchQuery v =
     (case al_applications v of
        None \<Rightarrow> OL_error
      | Some apps \<Rightarrow>
          if al_loading v then OL_loading
          else if filteredApplications searchQuery apps = [] then OL_empty
          else OL_table (map (ops_row date) (filteredApplications searchQuery apps)))"

section \<open>OpsDetail.tsx\<close>

text \<open>\<open>s.replace("_", " ")\<close> with a string pattern: the first occurrence only.\<close>

fun replace_first :: "char \<Rightarrow> char \<Rightarrow> string \<Rightarrow> string" where
  "replace_first a b [] = []"
| "replace_first a b (c # s) = (if c = a then b # s else c # replace_first a b s)"

definition handleStatusChange ::
  "string \<Rightarrow> application_status \<Rightarrow> hook \<Rightarrow> hook_result \<times> string" where
  "handleStatusChange now newStatus h =
     (updateStatus now (hk_application h) newStatus h,
      ''Status updated to '' @ replace_first CHR ''_'' CHR '' '' (status_name newStatus))"

text \<open>\<open>handleAddNote\<close>: \<open>None\<close> when the guard ends it; otherwise the result, the emptied draft of
  the note and the toast.\<close>

definition handleAddNote ::
  "nat \<Rightarrow> string \<Rightarrow> string \<Rightarrow> application \<Rightarrow> hook \<Rightarrow> (hook_result \<times> string \<times> string) option" where
  "handleAddNote ms now newNote app h =
     (if trim newNote = [] then None
      else
        (let note = \<lparr>on_id = ''note-'' @ nat_to_string ms, on_author = ''Ops User'',
                     on_content = trim newNote, on_created_at = now\<rparr>
         in Some (updateApplication now (Some app)
                    (no_updates\<lparr>p_ops_notes := Some (ops_notes app @ [note])\<rparr>) h, [], ''Note added'')))"

record ops_section =
  sec_title :: string
  sec_complete :: bool
  sec_description :: string

record ops_detail =
  od_title :: string
  od_id :: string
  od_created :: string
  od_updated :: string
  od_method :: string
  od_progress :: string
  od_sections :: "ops_section list"
  od_documents :: "(string \<times> document_type \<times> document_status) list"
  od_documents_title :: string
  od_notes :: "(string \<times> string \<times> string) list"

definition ops_detail_view :: "(string \<Rightarrow> string) \<Rightarrow> application \<Rightarrow> ops_detail" where
  "ops_detail_view date app =
     \<lparr>od_title = js_or_str (bp_legal_name (app_profile app)) ''Untitled Application'',
      od_id = application_id app,
      od_created = date (created_at app),
      od_updated = date (updated_at app),
      od_method = (if app_method app = UPLOAD_PREFILL then ''Upload & Prefill'' else ''Manual Entry''),
      od_progress = nat_to_string (length (completed_steps app)) @ '' / '' @
                    nat_to_string (length ONBOARDING_STEPS - 1) @ '' steps'',
      od_sections = map (\<lambda>step. \<lparr>sec_title = step_title step,
          sec_complete = (step_id step \<in> set (completed_steps app)),
          sec_description = step_description step\<rparr>) (butlast ONBOARDING_STEPS),
      od_documents = map (\<lambda>d. (doc_filename d, doc_doc_type d, doc_status d)) (documents app),
      od_documents_title = nat_to_string (length (documents app)) @ '' document'' @
        (if length (documents app) \<noteq> 1 then ''s'' else []) @ '' uploaded'',
      od_notes = map (\<lambda>n. (on_author n, on_created_at n, on_content n)) (rev (ops_notes app))\<rparr>"

datatype detail_page = DP_loading | DP_not_found | DP_detail ops_detail

definition OpsDetailPage :: "(string \<Rightarrow> string) \<Rightarrow> hook \<Rightarrow> detail_page" where
  "OpsDetailPage date h =
     (if hk_loading h then DP_loading
      else (case hk_application h of None \<Rightarrow> DP_not_found
            | Some app \<Rightarrow> DP_detail (ops_detail_view date app)))"

section \<open>Status.tsx\<close>

record status_config =
  sc_label :: string
  sc_description :: string
  sc_badge :: string

fun STATUS_CONFIG :: "application_status \<Rightarrow> status_config" where
  "STATUS_CONFIG DRAFT = \<lparr>sc_label = ''Draft'',
     sc_description = ''Your application is not yet submitted.'', sc_badge = ''secondary''\<rparr>"
| "STATUS_CONFIG SUBMITTED = \<lparr>sc_label = ''Submitted'',
     sc_description = ''Your application has been submitted and is pending review.'',
     sc_badge = ''default''\<rparr>"
| "STATUS_CONFIG UNDER_REVIEW = \<lparr>sc_label = ''Under Review'',
     sc_description = ''Our team is reviewing your application. This typically takes 2-3 business days.'',
     sc_badge = ''default''\<rparr>"
| "STATUS_CONFIG ACTION_REQUIRED = \<lparr>sc_label = ''Action Required'',
     sc_description = ''Additional information or documents are needed to proceed.'',
     sc_badge = ''outline''\<rparr>"
| "STATUS_CONFIG APPROVED = \<lparr>sc_label = ''Approved'',
     sc_description = ''Congratulations! Your application has been approved.'', sc_badge = ''default''\<rparr>"
| "STATUS_CONFIG UNABLE_TO_PROCEED = \<lparr>sc_label = ''Unable to Proceed'',
     sc_description = ''Unfortunately, we are unable to proceed with your application at this time.'',
     sc_badge = ''destructive''\<rparr>"

text \<open>\<open>DetailRow\<close> and \<open>MonoRow\<close>: a row without a value is not shown.\<close>

definition DetailRow :: "string \<Rightarrow> string option \<Rightarrow> (string \<times> string) list" where
  "DetailRow label v = (if truthy v then [(label, the v)] else [])"

definition MonoRow :: "string \<Rightarrow> string option \<Rightarrow> (string \<times> string) list" where
  "MonoRow label v = (if truthy v then [(label, the v)] else [])"

text \<open>\<open>s.replace(/_/g, " ").replace(/\b\w/g, upper)\<close>: a word character after none is capitalised.\<close>

fun capitalize_words :: "bool \<Rightarrow> string \<Rightarrow> string" where
  "capitalize_words inword [] = []"
| "capitalize_words inword (c # s) =
     (if is_word c \<and> \<not> inword then upper_char c else c) # capitalize_words (is_word c) s"

definition formatStatus :: "string \<Rightarrow> string" where
  "formatStatus s = capitalize_words False (map (\<lambda>c. if c = CHR ''_'' then CHR '' '' else c) s)"

abbreviation field :: "json \<Rightarrow> string \<Rightarrow> string option" where
  "field j k \<equiv> as_string (jget (Some j) k)"

definition strings_of :: "json option \<Rightarrow> string list option" where
  "strings_of j = map_option (map (\<lambda>v. js_or_str (as_string (Some v)) [])) (as_array j)"

definition account_holder_rows :: "json \<Rightarrow> (string \<times> string) list" where
  "account_holder_rows ah =
     MonoRow ''ID'' (field ah ''id'') @
     DetailRow ''Type'' (map_option formatStatus (field ah ''holder_type'')) @
     DetailRow ''Status'' (Some (formatStatus (nullish (field ah ''status'') []))) @
     DetailRow ''KYC Status'' (Some (formatStatus (nullish (field ah ''kyc_status'') []))) @
     DetailRow ''Risk Level'' (Some (formatStatus (nullish (field ah ''risk_level'') []))) @
     DetailRow ''Currencies'' (map_option (join '', '') (strings_of (jget (Some ah) ''enabled_currencies''))) @
     DetailRow ''Created''
       (map_option (\<lambda>t. take 19 (replace_first CHR ''T'' CHR '' '' t)) (field ah ''inserted_at''))"

record address_view =
  av_line :: string
  av_place :: string
  av_primary :: bool
  av_types :: "string list"

definition address_view :: "json \<Rightarrow> address_view" where
  "address_view a =
     \<lparr>av_line = nullish (field a ''line1'') [] @
        (if truthy (field a ''line2'') then '', '' @ the (field a ''line2'') else []),
      av_place = join '', '' (map the (filter truthy
        [field a ''locality'', field a ''region'', field a ''postal_code'', field a ''country''])),
      av_primary = (case jget (Some a) ''primary'' of None \<Rightarrow> False | Some v \<Rightarrow> json_truthy v),
      av_types = nullish (strings_of (jget (Some a) ''address_types'')) []\<rparr>"

definition legal_entity_rows :: "json \<Rightarrow> (string \<times> string) list" where
  "legal_entity_rows le =
     MonoRow ''ID'' (field le ''id'') @
     DetailRow ''Type'' (map_option formatStatus (field le ''legal_entity_type'')) @
     DetailRow ''Business Name'' (field le ''business_name'') @
     (case strings_of (jget (Some le) ''doing_business_as_names'') of
        None \<Rightarrow> [] | Some ns \<Rightarrow> if ns \<noteq> [] then DetailRow ''DBA'' (Some (join '', '' ns)) else []) @
     DetailRow ''Legal Structure'' (Some (formatStatus (nullish (field le ''legal_structure'') []))) @
     DetailRow ''Date Formed'' (field le ''date_formed'') @
     DetailRow ''Citizenship'' (field le ''citizenship_country'')"

definition identification_rows :: "json \<Rightarrow> (string \<times> string) list" where
  "identification_rows ident =
     DetailRow ''Type'' (map_option formatStatus (field ident ''id_type'')) @
     DetailRow ''Number'' (field ident ''id_number'') @
     DetailRow ''Issuing Country'' (field ident ''issuing_country'')"

definition legal_entity_addresses :: "json \<Rightarrow> address_view list" where
  "legal_entity_addresses le = map address_view (nullish (as_array (jget (Some le) ''addresses'')) [])"

definition legal_entity_identifications :: "json \<Rightarrow> (string \<times> string) list list" where
  "legal_entity_identifications le =
     map identification_rows (nullish (as_array (jget (Some le) ''identifications'')) [])"

definition kyc_rows :: "json \<Rightarrow> (string \<times> string) list" where
  "kyc_rows kyc =
     MonoRow ''ID'' (field kyc ''id'') @
     DetailRow ''Scope'' (map_option formatStatus (field kyc ''scope'')) @
     DetailRow ''Requirement'' (map_option formatStatus (field kyc ''requirement_type'')) @
     DetailRow ''Status'' (Some (formatStatus (nullish (field kyc ''status'') []))) @
     MonoRow ''Document ID'' (field kyc ''document_id'')"

text \<open>
  The status page reads the application from the storage in every render, so \<open>api_result\<close> is a
  new object each time (\<open>JSON.parse\<close> builds it). React runs the effect after a render when its
  dependency is not the same object as after the previous one: the identity of the object is the
  number of the render that built it. Setting a state variable to another value asks for another
  render. \<open>in_flight\<close> counts the fetches that have not been answered.
\<close>

record status_state =
  ss_details :: "submission_details option"
  ss_loading :: bool
  ss_renders :: nat
  ss_dep :: "nat option"
  ss_dirty :: bool
  ss_fetches :: nat
  ss_in_flight :: nat

definition status_init :: status_state where
  "status_init = \<lparr>ss_details = None, ss_loading = False, ss_renders = 0, ss_dep = None,
     ss_dirty = True, ss_fetches = 0, ss_in_flight = 0\<rparr>"

definition status_application :: "slot \<Rightarrow> string option \<Rightarrow> js_error + application option" where
  "status_application sl applicationId =
     (case applicationId of None \<Rightarrow> Inr None
      | Some i \<Rightarrow> if i = [] then Inr None else getApplicationById sl i)"

text \<open>A render followed by its effect.\<close>

definition status_render :: "slot \<Rightarrow> string option \<Rightarrow> status_state \<Rightarrow> status_state" where
  "status_render sl aid s =
     (let n = ss_renders s + 1;
          s = s\<lparr>ss_renders := n, ss_dirty := False\<rparr>;
          dep = (case status_application sl aid of
                   Inr (Some app) \<Rightarrow> (if app_api_result app = None then None else Some n)
                 | _ \<Rightarrow> None)
      in if dep = ss_dep s then s
         else if dep = None then s\<lparr>ss_dep := dep\<rparr>
         else s\<lparr>ss_dep := dep, ss_dirty := (\<not> ss_loading s), ss_loading := True,
                ss_fetches := ss_fetches s + 1, ss_in_flight := ss_in_flight s + 1\<rparr>)"

text \<open>A fetch resolves: \<open>setDetails\<close>, then \<open>setLoading(false)\<close>.\<close>

definition status_resolved :: "submission_details option \<Rightarrow> status_state \<Rightarrow> status_state" where
  "status_resolved d s =
     s\<lparr>ss_details := d, ss_loading := False,
       ss_dirty := (ss_dirty s \<or> ss_loading s \<or> d \<noteq> None \<or> ss_details s \<noteq> None),
       ss_in_flight := ss_in_flight s - 1\<rparr>"

text \<open>The renders React owes: until no state variable has changed.\<close>

fun status_settle :: "nat \<Rightarrow> slot \<Rightarrow> string option \<Rightarrow> status_state \<Rightarrow> status_state" where
  "status_settle 0 sl aid s = s"
| "status_settle (Suc n) sl aid s =
     (if ss_dirty s then status_settle n sl aid (status_render sl aid s) else s)"

record status_page =
  sp_status :: status_config
  sp_title :: string
  sp_rows :: "(string \<times> string) list"
  sp_loading :: bool
  sp_details :: "submission_details option"
  sp_ids :: "(string \<times> string) list"
  sp_action :: bool
  sp_continue :: "string option"

definition StatusPage :: "(string \<Rightarrow> string) \<Rightarrow> application option \<Rightarrow> status_state \<Rightarrow> status_page option" where
  "StatusPage date application s =
     map_option (\<lambda>app.
       \<lparr>sp_status = STATUS_CONFIG (app_status app),
        sp_title = js_or_str (bp_legal_name (app_profile app)) ''Your Application'',
        sp_rows = MonoRow ''Application ID'' (Some (application_id app)) @
          DetailRow ''Submitted'' (Some (date (updated_at app))) @
          DetailRow ''Method'' (Some (if app_method app = UPLOAD_PREFILL then ''Upload & Prefill''
                                      else ''Manual Entry'')),
        sp_loading = ss_loading s,
        sp_details = ss_details s,
        sp_ids =
          (case app_api_result app of
             None \<Rightarrow> []
           | Some r \<Rightarrow>
               if ss_details s = None \<and> \<not> ss_loading s then
                 MonoRow ''Account Holder'' (Some (ar_accountHolderId r)) @
                 MonoRow ''Legal Entity'' (Some (ar_legalEntityId r)) @
                 MonoRow ''KYC Requirement'' (Some (ar_kycRequirementId r))
               else []),
        sp_action = (app_status app = ACTION_REQUIRED),
        sp_continue = (if app_status app = DRAFT
                       then Some (''/onboarding/'' @ application_id app @ ''/documents'') else None)\<rparr>)
       application"

section \<open>ConnectGate.tsx\<close>

record gate =
  g_apiKey :: string
  g_connecting :: bool
  g_error :: "string option"
  g_connected :: bool

definition gate_disabled :: "gate \<Rightarrow> bool" where
  "gate_disabled g = (g_connecting g \<or> trim (g_apiKey g) = [])"

fun exn_message :: "exn \<Rightarrow> string" where
  "exn_message (Exn s) = s"
| "exn_message (ExnJson s j) = s"

definition connectStart :: "gate \<Rightarrow> gate" where
  "connectStart g = g\<lparr>g_connecting := True, g_error := None\<rparr>"

definition connectEnd :: "exn option \<Rightarrow> gate \<Rightarrow> gate" where
  "connectEnd r g =
     (case r of
        None \<Rightarrow> g\<lparr>g_connected := True, g_connecting := False\<rparr>
      | Some e \<Rightarrow> g\<lparr>g_error := Some (exn_message e), g_connecting := False\<rparr>)"

definition handleConnect :: "(string \<Rightarrow> api_response) \<Rightarrow> gate \<Rightarrow> conn \<Rightarrow> gate \<times> conn" where
  "handleConnect verify g c =
     (let g1 = connectStart g;
          (r, c') = connectWithApiKey verify (g_apiKey g1) c
      in (connectEnd r g1, c'))"

section \<open>Facts\<close>

lemma status_dep:
  "getApplicationById sl i = Inr (Some app) \<Longrightarrow> i \<noteq> [] \<Longrightarrow> app_api_result app \<noteq> None \<Longrightarrow>
   (case status_application sl (Some i) of
      Inr (Some app) \<Rightarrow> (if app_api_result app = None then None else Some n) | _ \<Rightarrow> None) = Some n"
  by (simp add: status_application_def)

text \<open>With a stored result, every render starts a fetch, since the object is new.\<close>

definition dep_old :: "status_state \<Rightarrow> bool" where
  "dep_old s = (\<forall>n. ss_dep s = Some n \<longrightarrow> n \<le> ss_renders s)"

lemma status_render_fetches:
  assumes "getApplicationById sl i = Inr (Some app)" "i \<noteq> []" "app_api_result app \<noteq> None" "dep_old s"
  shows "status_render sl (Some i) s =
     s\<lparr>ss_renders := ss_renders s + 1, ss_dep := Some (ss_renders s + 1), ss_dirty := \<not> ss_loading s,
       ss_loading := True, ss_fetches := ss_fetches s + 1, ss_in_flight := ss_in_flight s + 1\<rparr>"
proof -
  have "ss_dep s \<noteq> Some (ss_renders s + 1)" using assms(4) by (auto simp: dep_old_def)
  with assms show ?thesis
    unfolding status_render_def status_dep [OF assms(1-3)] Let_def by auto
qed

definition status_answer ::
  "slot \<Rightarrow> string \<Rightarrow> status_state \<Rightarrow> submission_details option \<Rightarrow> status_state" where
  "status_answer sl i s d = status_settle 2 sl (Some i) (status_resolved d s)"

definition idle_loading :: "status_state \<Rightarrow> bool" where
  "idle_loading s = (ss_loading s \<and> \<not> ss_dirty s \<and> dep_old s)"

lemma settle_two:
  assumes "getApplicationById sl i = Inr (Some app)" "i \<noteq> []" "app_api_result app \<noteq> None"
    and "dep_old s" "ss_dirty s" "\<not> ss_loading s"
  shows "idle_loading (status_settle 2 sl (Some i) s) \<and>
         ss_fetches (status_settle 2 sl (Some i) s) = ss_fetches s + 2"
  using assms
  by (simp add: numeral_2_eq_2 status_render_fetches [OF assms(1-3)] dep_old_def idle_loading_def)

lemma answer_two:
  assumes "getApplicationById sl i = Inr (Some app)" "i \<noteq> []" "app_api_result app \<noteq> None"
    and "idle_loading s"
  shows "idle_loading (status_answer sl i s d) \<and>
         ss_fetches (status_answer sl i s d) = ss_fetches s + 2"
proof -
  let ?r = "status_resolved d s"
  have "dep_old ?r" "ss_dirty ?r" "\<not> ss_loading ?r" "ss_fetches ?r = ss_fetches s"
    using assms(4) by (simp_all add: status_resolved_def idle_loading_def dep_old_def)
  with settle_two [OF assms(1-3), of ?r] show ?thesis by (simp add: status_answer_def)
qed

section \<open>Properties\<close>

text \<open>The status page of a submitted application never stops fetching: two fetches are made on
  opening it, and every answer, whatever it is, causes two more, because the effect depends on an
  object that each render parses anew from the storage.\<close>

theorem status_page_refetches:
  assumes "getApplicationById sl i = Inr (Some app)" and "i \<noteq> []" and "app_api_result app \<noteq> None"
  shows "ss_fetches (foldl (status_answer sl i) (status_settle 2 sl (Some i) status_init) answers) =
         2 + 2 * length answers"
proof -
  let ?s0 = "status_settle 2 sl (Some i) status_init"
  have start: "idle_loading ?s0 \<and> ss_fetches ?s0 = 2"
    using settle_two [OF assms, of status_init] by (simp add: status_init_def dep_old_def)
  have "idle_loading s \<Longrightarrow>
      ss_fetches (foldl (status_answer sl i) s answers) = ss_fetches s + 2 * length answers" for s
  proof (induction answers arbitrary: s)
    case Nil
    then show ?case by simp
  next
    case (Cons d ds)
    with answer_two [OF assms Cons.prems, of d] show ?case by simp
  qed
  with start show ?thesis by simp
qed

lemma status_page_refetches_witness:
  "ss_fetches (foldl (status_answer (JsonApps [(sample_app ''A'')\<lparr>app_api_result :=
       Some \<lparr>ar_accountHolderId = ''1'', ar_legalEntityId = ''2'', ar_documentIds = [], ar_kycRequirementId = ''3''\<rparr>\<rparr>]) ''A'')
     (status_settle 2 (JsonApps [(sample_app ''A'')\<lparr>app_api_result :=
       Some \<lparr>ar_accountHolderId = ''1'', ar_legalEntityId = ''2'', ar_documentIds = [], ar_kycRequirementId = ''3''\<rparr>\<rparr>])
       (Some ''A'') status_init) [None, None, None]) = 8"
proof -
  let ?a = "(sample_app ''A'')\<lparr>app_api_result :=
       Some \<lparr>ar_accountHolderId = ''1'', ar_legalEntityId = ''2'', ar_documentIds = [], ar_kycRequirementId = ''3''\<rparr>\<rparr>"
  have "getApplicationById (JsonApps [?a]) ''A'' = Inr (Some ?a)"
    by (simp add: getApplicationById_def sample_app_def)
  from status_page_refetches [OF this, of "[None, None, None]"] show ?thesis by simp
qed

text \<open>The toast of a status change names the status with its first underscore only replaced:
  every status reads as intended but UNABLE_TO_PROCEED, which shows as "UNABLE TO_PROCEED".\<close>

theorem status_toast_text:
  "map (\<lambda>st. snd (handleStatusChange now st h))
     [DRAFT, SUBMITTED, UNDER_REVIEW, ACTION_REQUIRED, APPROVED, UNABLE_TO_PROCEED] =
   map (\<lambda>t. ''Status updated to '' @ t)
     [''DRAFT'', ''SUBMITTED'', ''UNDER REVIEW'', ''ACTION REQUIRED'', ''APPROVED'', ''UNABLE TO_PROCEED'']"
  by (simp add: handleStatusChange_def)

text \<open>The gate lets through only a key the backend accepted: after a click on "Connect" the gate
  is either connected, with the trimmed key stored and its tenant resolved, or shows an error and
  the stored key is the one from before; in both cases it is usable again.\<close>

theorem gate_connects_iff_verified:
  assumes "\<not> g_connected g" and "handleConnect verify g c = (g', c')"
  shows "\<not> g_connecting g' \<and>
         (g_connected g' \<longleftrightarrow> trim (g_apiKey g) \<noteq> [] \<and> (\<exists>t. verifySession verify (trim (g_apiKey g)) = Inr t)) \<and>
         (g_connected g' \<longrightarrow> g_error g' = None \<and> cn_stored c' = Some (trim (g_apiKey g))) \<and>
         (\<not> g_connected g' \<longrightarrow> g_error g' \<noteq> None \<and> cn_stored c' = cn_stored c)"
proof (cases "trim (g_apiKey g) = []")
  case True
  with assms show ?thesis
    by (auto simp: handleConnect_def connectStart_def connectWithApiKey_def connectEnd_def)
next
  case False
  with assms show ?thesis
    by (auto simp: handleConnect_def connectStart_def connectWithApiKey_def connectEnd_def Let_def
        activate_def split: sum.splits)
qed

lemma gate_connects_iff_verified_witness:
  "let g = \<lparr>g_apiKey = '' k1 '', g_connecting = False, g_error = None, g_connected = False\<rparr>;
       c = loadModule accepts_key None
   in g_connected (fst (handleConnect accepts_key g c)) \<and>
      cn_stored (snd (handleConnect accepts_key g c)) = Some ''k1''"
proof -
  let ?g = "\<lparr>g_apiKey = '' k1 '', g_connecting = False, g_error = None, g_connected = False\<rparr>"
  have "trim '' k1 '' = ''k1''" by (simp add: trim_def is_ws_def)
  moreover have "verifySession accepts_key ''k1'' = Inr ''T''"
    by (simp add: verifySession_def accepts_key_def has_error_def)
  ultimately show ?thesis
    using gate_connects_iff_verified [of ?g accepts_key "loadModule accepts_key None"
        "fst (handleConnect accepts_key ?g (loadModule accepts_key None))"
        "snd (handleConnect accepts_key ?g (loadModule accepts_key None))"]
    by simp
qed

end
