(* ===== verification/Onboarding_Views.thy ===== *)
theory Onboarding_Views
  imports Step_Views App_Shell Ops_Pages Bulk_Upload
begin

text \<open>
  What the pages of the onboarding application show around their forms
  (\<open>example-apps/onboarding-flow/src/features\<close>): the start page (\<open>onboarding/pages/Start.tsx\<close>), the layout with
  stepper and action bar (\<open>onboarding/components/OnboardingLayout.tsx\<close>, \<open>OnboardingStepper.tsx\<close>), the review
  step with a submission under way (\<open>steps/StepReview.tsx\<close>), the drop zone
  (\<open>documents/components/BulkUploadZone.tsx\<close>), the connect gate (\<open>connect/ConnectGate.tsx\<close>) and the header of the
  operator's pages (\<open>ops/pages/OpsDetail.tsx\<close>, \<open>OpsList.tsx\<close>), with the menus of \<open>components/layout\<close>.

  A view is a record of the texts and of what can be pressed; dates are formatted by the argument \<open>date\<close>.
\<close>

section \<open>The start page\<close>

record resume_card =
  rc_name :: string
  rc_updated :: string
  rc_target :: string

record start_view =
  st_resume :: "resume_card list"
  st_methods :: "(onboarding_method \<times> string \<times> string \<times> bool) list"
  st_enabled :: bool

definition resume_card :: "(string \<Rightarrow> string) \<Rightarrow> application \<Rightarrow> resume_card" where
  "resume_card date app =
     \<lparr>rc_name = js_or_str (bp_legal_name (app_profile app)) ''Untitled Application'',
      rc_updated = ''Last updated '' @ date (updated_at app),
      rc_target = handleResumeApplication app\<rparr>"

text \<open>\<open>None\<close> when reading the storage throws.\<close>

definition StartPage :: "(string \<Rightarrow> string) \<Rightarrow> onboarding_method option \<Rightarrow> slot \<Rightarrow> start_view option" where
  "StartPage date selectedMethod sl =
     map_option (\<lambda>existing.
       \<lparr>st_resume = map (resume_card date) existing,
        st_methods =
          [(UPLOAD_PREFILL, ''Upload & prefill'',
            ''Upload your documents and we'' @ [CHR 0x27] @ ''ll extract information automatically'',
            selectedMethod = Some UPLOAD_PREFILL),
           (MANUAL, ''Manual entry'', ''Fill in all information manually without document upload'',
            selectedMethod = Some MANUAL)],
        st_enabled = (selectedMethod \<noteq> None)\<rparr>) (existingApplications sl)"

section \<open>The layout\<close>

record stepper_view =
  sv_percent :: "string option"
  sv_bar :: rat
  sv_items :: "stepper_item list"

definition OnboardingStepper :: "int \<Rightarrow> int list \<Rightarrow> bool \<Rightarrow> stepper_view" where
  "OnboardingStepper currentStep completedSteps collapsed =
     \<lparr>sv_percent = (if collapsed then None
        else Some (nat_to_string (nat \<lfloor>step_progress completedSteps + 1 / 2\<rfloor>) @ ''%'')),
      sv_bar = step_progress completedSteps,
      sv_items = stepper_items currentStep completedSteps collapsed\<rparr>"

record onboarding_view =
  ov_width :: string
  ov_title :: "string option"
  ov_stepper :: stepper_view
  ov_saved :: "string option"
  ov_application :: application
  ov_bar :: action_bar

datatype onboarding_page = O_loading string | O_not_found string string | O_page onboarding_view

definition OnboardingLayout :: "(string \<Rightarrow> string) \<Rightarrow> string \<Rightarrow> bool \<Rightarrow> hook \<Rightarrow> onboarding_page" where
  "OnboardingLayout time pathname collapsed h =
     (if hk_loading h then O_loading ''Loading application...''
      else case hk_application h of
        None \<Rightarrow> O_not_found ''Application not found'' ''/start''
      | Some app \<Rightarrow> O_page
          \<lparr>ov_width = (if collapsed then ''w-16'' else ''w-64''),
           ov_title = (if collapsed then None else Some ''Onboarding''),
           ov_stepper = OnboardingStepper (currentStepId pathname) (completed_steps app) collapsed,
           ov_saved = AutosaveIndicator time (hk_lastSaved h),
           ov_application = app,
           ov_bar = OnboardingActionBar pathname\<rparr>)"

text \<open>The two descriptions of the layout agree.\<close>

fun layout_of :: "onboarding_page \<Rightarrow> layout_view" where
  "layout_of (O_loading m) = L_loading"
| "layout_of (O_not_found m p) = L_not_found"
| "layout_of (O_page v) = L_page (ov_application v) (ov_bar v) (sv_items (ov_stepper v))"

lemma layout_of_OnboardingLayout: "layout_of (OnboardingLayout time pathname collapsed h) = layout_view pathname collapsed h"
  by (simp add: OnboardingLayout_def layout_view_def OnboardingStepper_def split: option.split)

section \<open>A submission under way\<close>

text \<open>The review step. Its button is disabled while its state \<open>submitting\<close> is set. Each time the step is opened a
  new instance is mounted (\<open>rv_instance\<close> counts them), with a state of its own. A running handler keeps the
  application, the identifier and the instance of the render in which it was started, and ends when its
  requests have been answered (\<open>Arrive\<close>), whatever page is shown by then.\<close>

record submission =
  sm_app :: application
  sm_id :: string
  sm_instance :: nat

record review =
  rv_instance :: nat
  rv_submitting :: bool
  rv_handlers :: "submission list"
  rv_flow :: flow

datatype review_event = Press | Arrive nat string | Meanwhile flow_event

definition on_review :: "flow \<Rightarrow> bool" where
  "on_review f = (fw_path f = onboarding_path (fw_id f) ''review'')"

definition review_press :: "review \<Rightarrow> review" where
  "review_press s = (case hk_application (fw_hook (rv_flow s)) of
     None \<Rightarrow> s
   | Some app \<Rightarrow>
       if \<not> on_review (rv_flow s) \<or> submit_disabled app (rv_submitting s) then s
       else if \<not> confirm_accuracy (app_confirmations app) \<or> \<not> confirm_authority (app_confirmations app) then s
       else s\<lparr>rv_submitting := True,
              rv_handlers := rv_handlers s @ [\<lparr>sm_app = app, sm_id = fw_id (rv_flow s), sm_instance = rv_instance s\<rparr>]\<rparr>)"

definition review_arrive :: "(string \<Rightarrow> api_response) \<Rightarrow> server \<Rightarrow> nat \<Rightarrow> string \<Rightarrow> review \<Rightarrow> review" where
  "review_arrive verify srv k now s =
     (if k < length (rv_handlers s) then
        let h = rv_handlers s ! k; f = rv_flow s;
            out = handleSubmit verify srv now (sm_id h) (sm_app h) (hk_slot (fw_hook f)) (fw_conn f) (fw_sent f) in
        s\<lparr>rv_submitting := (if sm_instance h = rv_instance s then False else rv_submitting s),
          rv_handlers := take k (rv_handlers s) @ drop (Suc k) (rv_handlers s),
          rv_flow := goto_path (so_navigate out)
            (f\<lparr>fw_hook := (fw_hook f)\<lparr>hk_slot := so_slot out\<rparr>, fw_conn := so_conn out, fw_sent := so_sent out\<rparr>)\<rparr>
      else s)"

text \<open>A step that leaves the page, or opens an application anew, ends the instance.\<close>

definition remount :: "bool \<Rightarrow> review \<Rightarrow> review" where
  "remount gone s = (if gone then s\<lparr>rv_instance := Suc (rv_instance s), rv_submitting := False\<rparr> else s)"

fun is_submit :: "flow_event \<Rightarrow> bool" where
  "is_submit (Submit now) = True"
| "is_submit _ = False"

fun is_opening :: "flow_event \<Rightarrow> bool" where
  "is_opening (Open i p) = True"
| "is_opening _ = False"

fun review_step :: "(string \<Rightarrow> api_response) \<Rightarrow> server \<Rightarrow> review \<Rightarrow> review_event \<Rightarrow> review" where
  "review_step verify srv s Press = review_press s"
| "review_step verify srv s (Arrive k now) =
     (let s' = review_arrive verify srv k now s in remount (\<not> on_review (rv_flow s')) s')"
| "review_step verify srv s (Meanwhile e) =
     (if is_submit e then s
      else let f = flow_step verify srv (rv_flow s) e in remount (\<not> on_review f \<or> is_opening e) (s\<lparr>rv_flow := f\<rparr>))"

text \<open>What the step shows: the checklist, the two declarations with their state, the text and state of the button.\<close>

definition StepReview :: "application \<Rightarrow> bool \<Rightarrow> checklist_item list \<times> (string \<times> bool) list \<times> string \<times> bool" where
  "StepReview app submitting =
     (checklist app,
      [(''I confirm that all information provided in this application is true, accurate, and complete to '' @
        ''the best of my knowledge.'', confirm_accuracy (app_confirmations app)),
       (''I confirm that I am authorized to submit this application on behalf of the business entity and '' @
        ''bind it to the terms and conditions.'', confirm_authority (app_confirmations app))],
      if submitting then ''Submitting...'' else ''Submit Application'',
      \<not> submit_disabled app submitting)"

section \<open>The drop zone\<close>

text \<open>\<open>dz_dialogs\<close> counts how often the file dialog was opened, \<open>dz_chosen\<close> is the value of the hidden input.\<close>

record drop_zone =
  dz_dragOver :: bool
  dz_dialogs :: nat
  dz_chosen :: "string list"
  dz_zone :: zone

datatype drop_event =
  Drag_over | Drag_leave | Drop "(string \<times> upload_file) list" | Zone_click | Zone_key string
| Pick "(string \<times> upload_file) list option" | Samples_click nat | Samples_key string nat

definition handleDrop :: "(string \<times> upload_file) list \<Rightarrow> drop_zone \<Rightarrow> drop_zone" where
  "handleDrop fs s = s\<lparr>dz_dragOver := False, dz_zone := addFiles fs (dz_zone s)\<rparr>"

definition onPickFiles :: "(string \<times> upload_file) list option \<Rightarrow> drop_zone \<Rightarrow> drop_zone" where
  "onPickFiles fs s =
     s\<lparr>dz_zone := (case fs of None \<Rightarrow> dz_zone s | Some xs \<Rightarrow> addFiles xs (dz_zone s)), dz_chosen := []\<rparr>"

text \<open>The handler of keys; the second component is \<open>preventDefault\<close>.\<close>

definition zone_key :: "string \<Rightarrow> drop_zone \<Rightarrow> drop_zone \<times> bool" where
  "zone_key key s =
     (if key = ''Enter'' \<or> key = '' '' then (s\<lparr>dz_dialogs := Suc (dz_dialogs s)\<rparr>, True) else (s, False))"

definition samples_click :: "nat \<Rightarrow> drop_zone \<Rightarrow> drop_zone" where
  "samples_click ms s = s\<lparr>dz_zone := loadAllSamples ms (dz_zone s)\<rparr>"

text \<open>A key pressed on the button inside the zone reaches the handler of the zone; the browser clicks a button
  for \<open>Enter\<close> and the space bar unless the event was prevented.\<close>

fun drop_step :: "drop_zone \<Rightarrow> drop_event \<Rightarrow> drop_zone" where
  "drop_step s Drag_over = s\<lparr>dz_dragOver := True\<rparr>"
| "drop_step s Drag_leave = s\<lparr>dz_dragOver := False\<rparr>"
| "drop_step s (Drop fs) = handleDrop fs s"
| "drop_step s Zone_click = s\<lparr>dz_dialogs := Suc (dz_dialogs s)\<rparr>"
| "drop_step s (Zone_key key) = fst (zone_key key s)"
| "drop_step s (Pick fs) = onPickFiles fs s"
| "drop_step s (Samples_click ms) = samples_click ms s"
| "drop_step s (Samples_key key ms) =
     (let (s', prevented) = zone_key key s in
      if \<not> prevented \<and> (key = ''Enter'' \<or> key = '' '') then samples_click ms s' else s')"

text \<open>The names of the guide with the category it promises.\<close>

definition naming_guide :: "(string \<times> document_type) list" where
  "naming_guide =
     [(''trade-license_company.pdf'', TRADE_LICENSE), (''moa_company.pdf'', MEMORANDUM_OF_ASSOCIATION),
      (''coi_company.pdf'', CERTIFICATE_OF_INCORPORATION), (''passport_jane.pdf'', PASSPORT),
      (''emirates-id_jane.pdf'', EMIRATES_ID), (''proof-of-address_jane.pdf'', PROOF_OF_ADDRESS),
      (''bank-statement_2025-01.pdf'', BANK_STATEMENT)]"

definition accepted_extensions :: "string list" where
  "accepted_extensions = [''.pdf'', ''.png'', ''.jpg'', ''.jpeg'']"

section \<open>Gate, menus and headers\<close>

record gate_view =
  gv_input_disabled :: bool
  gv_error :: "string option"
  gv_label :: string
  gv_enabled :: bool

definition ConnectGate :: "gate \<Rightarrow> gate_view" where
  "ConnectGate g =
     \<lparr>gv_input_disabled = g_connecting g, gv_error = (if truthy (g_error g) then g_error g else None),
      gv_label = (if g_connecting g then ''Connecting'' @ [CHR 0xE2, CHR 0x80, CHR 0xA6] else ''Connect''),
      gv_enabled = (\<not> gate_disabled g)\<rparr>"

definition UserMenu :: "string list" where
  "UserMenu = [''Profile'', ''Account settings'', ''Support'', ''Sign out'']"

definition Topbar :: "bool \<Rightarrow> string list" where
  "Topbar showMenuButton = (if showMenuButton then [''Toggle menu''] else []) @ [''Search...'']"

record ops_header =
  oh_title :: string
  oh_id :: string
  oh_selected :: application_status
  oh_options :: "(application_status \<times> string) list"
  oh_tabs :: "string list"

datatype ops_page = OP_loading | OP_not_found string | OP_header ops_header

definition ops_detail_header :: "hook \<Rightarrow> ops_page" where
  "ops_detail_header h =
     (if hk_loading h then OP_loading
      else case hk_application h of
        None \<Rightarrow> OP_not_found ''/ops''
      | Some app \<Rightarrow> OP_header
          \<lparr>oh_title = js_or_str (bp_legal_name (app_profile app)) ''Untitled Application'',
           oh_id = application_id app, oh_selected = app_status app, oh_options = STATUS_OPTIONS,
           oh_tabs = [''Overview'', ''Documents'', ''Notes ('' @ nat_to_string (length (ops_notes app)) @ '')'']\<rparr>)"

section \<open>Facts\<close>

text \<open>The start page lists drafts only, each with the path of its current step, and its button works exactly when
  a method is chosen.\<close>

lemma resume_cards_are_drafts:
  assumes "StartPage date m sl = Some v"
  shows "\<exists>apps. getAllApplications sl = Some apps \<and>
    st_resume v = map (resume_card date) (filter (\<lambda>a. app_status a = DRAFT) apps)"
  using assms by (auto simp: StartPage_def existingApplications_def)

lemma start_button_creates:
  assumes "StartPage date m sl = Some v"
  shows "st_enabled v \<longleftrightarrow> (\<exists>sl' p. handleCreateApplication ms rnd now m sl = Inr (sl', Some p))"
proof -
  have "slot_ok sl"
    using assms by (auto simp: StartPage_def existingApplications_def slot_ok_def)
  then show ?thesis
    using assms by (cases m) (auto simp: StartPage_def handleCreateApplication_def Let_def saveApplication_ok)
qed

text \<open>The bar counts the review step, which is never completed: it stops at ninety percent.\<close>

lemma progress_stops_at_ninety:
  assumes "distinct completedSteps" and "set completedSteps \<subseteq> {1..9}"
  shows "sv_bar (OnboardingStepper cur completedSteps collapsed) \<le> 90"
proof -
  have "length completedSteps \<le> 9"
    using card_mono [OF _ assms(2)] assms(1) by (simp add: distinct_card)
  then have "rat_of_nat (length completedSteps) \<le> 9" by (metis of_nat_le_iff of_nat_numeral)
  moreover have "length ONBOARDING_STEPS = 10" by code_simp
  ultimately show ?thesis by (simp add: OnboardingStepper_def step_progress_def)
qed

text \<open>One instance of the review step runs one submission at a time.\<close>

definition one_per_instance :: "review \<Rightarrow> bool" where
  "one_per_instance s =
     (distinct (map sm_instance (rv_handlers s)) \<and> (\<forall>h \<in> set (rv_handlers s). sm_instance h \<le> rv_instance s) \<and>
      (rv_submitting s \<longleftrightarrow> rv_instance s \<in> sm_instance ` set (rv_handlers s)))"

lemma one_per_instance_remount: "one_per_instance s \<Longrightarrow> one_per_instance (remount b s)"
  by (auto simp: one_per_instance_def remount_def dest: le_SucI)

lemma one_per_instance_flow [simp]: "one_per_instance (s\<lparr>rv_flow := f\<rparr>) = one_per_instance s"
  by (simp add: one_per_instance_def)

lemma one_per_instance_press: "one_per_instance s \<Longrightarrow> one_per_instance (review_press s)"
  by (auto simp: one_per_instance_def review_press_def submit_disabled_def split: option.split)

lemma drop_one:
  assumes "k < length xs"
  shows "set xs = insert (xs ! k) (set (take k xs @ drop (Suc k) xs))"
    and "distinct (map f xs) \<Longrightarrow> f (xs ! k) \<notin> f ` set (take k xs @ drop (Suc k) xs)"
    and "distinct (map f xs) \<Longrightarrow> distinct (map f (take k xs @ drop (Suc k) xs))"
proof -
  have eq: "xs = take k xs @ xs ! k # drop (Suc k) xs"
    using assms by (simp add: id_take_nth_drop)
  show "set xs = insert (xs ! k) (set (take k xs @ drop (Suc k) xs))"
    by (subst eq) auto
  assume d: "distinct (map f xs)"
  then have "distinct (map f (take k xs @ xs ! k # drop (Suc k) xs))"
    using eq by simp
  then show "f (xs ! k) \<notin> f ` set (take k xs @ drop (Suc k) xs)"
    and "distinct (map f (take k xs @ drop (Suc k) xs))" by auto
qed

lemma one_per_instance_arrive:
  assumes "one_per_instance s"
  shows "one_per_instance (review_arrive verify srv k now s)"
proof (cases "k < length (rv_handlers s)")
  case True
  note one = drop_one [OF True]
  have d: "distinct (map sm_instance (rv_handlers s))" using assms by (simp add: one_per_instance_def)
  show ?thesis
    using assms one(1) one(2) [OF d] one(3) [OF d] True
    by (auto simp: one_per_instance_def review_arrive_def Let_def simp del: map_append set_append)
qed (use assms in \<open>simp add: review_arrive_def\<close>)

interpretation review: machine "review_step verify srv" one_per_instance for verify srv
proof
  fix s e
  assume "one_per_instance s"
  then show "one_per_instance (review_step verify srv s e)"
    by (cases e) (simp_all add: Let_def one_per_instance_press one_per_instance_arrive one_per_instance_remount)
qed

lemma one_submission_per_visit:
  assumes "rv_handlers s = []" and "\<not> rv_submitting s"
  shows "distinct (map sm_instance (rv_handlers (run (review_step verify srv) s es)))"
  using review.run_inv [of s verify srv es] assms by (simp add: one_per_instance_def)

text \<open>Leaving the step and coming back mounts a new instance: its button starts a second submission of the same
  application while the first one is running.\<close>

lemma submission_can_run_twice:
  assumes "hk_application (fw_hook (rv_flow s)) = Some app" and "incompleteSteps app = []"
    and "confirm_accuracy (app_confirmations app)" and "confirm_authority (app_confirmations app)"
    and "on_review (rv_flow s)" and "\<not> rv_submitting s" and "rv_handlers s = []"
    and "flow_step verify srv (rv_flow s) e = f" and "\<not> is_submit e" and "\<not> on_review f"
    and "flow_step verify srv f e' = rv_flow s" and "\<not> is_submit e'"
  shows "map sm_app (rv_handlers (run (review_step verify srv) s [Press, Meanwhile e, Meanwhile e', Press])) = [app, app]"
  using assms by (simp add: review_press_def submit_disabled_def remount_def Let_def)

text \<open>A submission stores the application it was started with: what was edited while it ran is lost.\<close>

lemma edits_during_submission_are_lost:
  assumes "k < length (rv_handlers s)" and "h = rv_handlers s ! k" and "slot_ok (hk_slot (fw_hook (rv_flow s)))"
    and "incompleteSteps (sm_app h) = []" and "confirm_accuracy (app_confirmations (sm_app h))"
    and "confirm_authority (app_confirmations (sm_app h))"
    and "submitOnboarding verify srv (sm_app h) (fw_conn (rv_flow s)) (fw_sent (rv_flow s)) = (Inr r, c, q)"
  shows "getApplicationById (hk_slot (fw_hook (rv_flow (review_arrive verify srv k now s)))) (application_id (sm_app h)) =
    Inr (Some (submittedApp now r (sm_app h)))"
proof -
  let ?sl = "hk_slot (fw_hook (rv_flow s))" and ?a = "submittedApp now r (sm_app h)"
  have "saveApplication now ?a ?sl = Inr (slot_save now ?a ?sl)"
    by (rule saveApplication_ok [OF assms(3)])
  moreover have "getApplicationById (slot_save now ?a ?sl) (application_id (sm_app h)) = Inr (Some (?a\<lparr>updated_at := now\<rparr>))"
    using assms(3) by (simp add: getApplicationById_ok slot_load_save submittedApp_def)
  moreover have "?a\<lparr>updated_at := now\<rparr> = ?a" by (simp add: submittedApp_def)
  ultimately show ?thesis
    using assms by (simp add: review_arrive_def handleSubmit_def Let_def goto_path_def)
qed

text \<open>Whatever happens at the drop zone reaches the list of files as events of \<open>zone_step\<close>.\<close>

fun zone_events :: "drop_event \<Rightarrow> zone_event list" where
  "zone_events (Drop fs) = [AddFiles fs]"
| "zone_events (Pick (Some fs)) = [AddFiles fs]"
| "zone_events (Samples_click ms) = [LoadSamples ms]"
| "zone_events (Samples_key key ms) = []"
| "zone_events e = []"

lemma drop_zone_refines: "dz_zone (drop_step s e) = run zone_step (dz_zone s) (zone_events e)"
proof (cases e)
  case (Pick fs)
  then show ?thesis by (cases fs) (simp_all add: onPickFiles_def)
qed (auto simp: handleDrop_def samples_click_def zone_key_def)

text \<open>The sample button cannot be pressed with the keyboard: the key opens the file dialog instead.\<close>

lemma samples_need_a_mouse:
  "dz_zone (drop_step s (Samples_key key ms)) = dz_zone s"
  "key = ''Enter'' \<Longrightarrow> dz_dialogs (drop_step s (Samples_key key ms)) = Suc (dz_dialogs s)"
  by (auto simp: zone_key_def)

text \<open>The same file can be chosen twice in a row, because the input is emptied.\<close>

lemma input_emptied: "dz_chosen (drop_step s (Pick fs)) = []"
  by (simp add: onPickFiles_def)

text \<open>Two names of the guide are not recognised.\<close>

lemma guide_and_classifier:
  "cl_docType (classifyFilename (fst (naming_guide ! 1))) \<noteq> snd (naming_guide ! 1)"
  "cl_docType (classifyFilename (fst (naming_guide ! 2))) \<noteq> snd (naming_guide ! 2)"
  using naming_guide_misses_moa_and_coi by (simp_all add: naming_guide_def)

lemma gate_busy: "g_connecting g \<Longrightarrow> gv_input_disabled (ConnectGate g) \<and> \<not> gv_enabled (ConnectGate g)"
  by (simp add: ConnectGate_def gate_disabled_def)

end
