(* ===== verification/Ui_Elements.thy ===== *)
theory Ui_Elements
  imports Js_Object
begin

text \<open>
  What a component returns: trees of elements. Properties are objects whose values are strings, numbers,
  booleans, objects, nodes, or an object or function of the caller, which is a \<open>Val\<close>. An element of the
  document or of a third-party package is an \<open>El\<close> with its name and properties; its children are the property
  \<open>children\<close>. A component of the kit is the function from its properties to what it returns.

  \<open>clsx\<close>, \<open>twMerge\<close> (\<open>lib/utils.ts\<close>) and \<open>cva\<close> are third-party, so they are the fields of \<open>kit\<close>.
\<close>

section \<open>Elements\<close>

datatype 'v pval =
  Val 'v | Str string | Num int | Flag bool | Obj "(string \<times> 'v pval) list" | Kids "'v node list"
and 'v node =
  El string "(string \<times> 'v pval) list" | Text string | Number int | Hole 'v

type_synonym 'v props = "'v pval obj"

text \<open>A value where a node is expected. Booleans and \<open>undefined\<close> show nothing.\<close>

fun nodes :: "'v pval option \<Rightarrow> 'v node list" where
  "nodes (Some (Kids ns)) = ns"
| "nodes (Some (Str s)) = [Text s]"
| "nodes (Some (Num n)) = [Number n]"
| "nodes (Some (Val v)) = [Hole v]"
| "nodes _ = []"

fun prop_truthy :: "'v pval option \<Rightarrow> bool" where
  "prop_truthy None = False"
| "prop_truthy (Some (Flag b)) = b"
| "prop_truthy (Some (Str s)) = (s \<noteq> [])"
| "prop_truthy (Some (Num n)) = (n \<noteq> 0)"
| "prop_truthy _ = True"

definition str :: "string \<Rightarrow> 'v pval option" where
  "str s = Some (Str s)"

text \<open>\<open>a && b\<close>, \<open>a ? b : c\<close>, \<open>a === b\<close>, \<open>a ?? b\<close>; a default in a parameter list acts as \<open>??\<close>.\<close>

definition v_and :: "'v pval option \<Rightarrow> 'v pval option \<Rightarrow> 'v pval option" where
  "v_and a b = (if prop_truthy a then b else a)"

definition v_or :: "'v pval option \<Rightarrow> 'v pval option \<Rightarrow> 'v pval option" where
  "v_or a b = (if prop_truthy a then a else b)"

definition v_if :: "'v pval option \<Rightarrow> 'v pval option \<Rightarrow> 'v pval option \<Rightarrow> 'v pval option" where
  "v_if a b c = (if prop_truthy a then b else c)"

definition v_eq :: "'v pval option \<Rightarrow> 'v pval option \<Rightarrow> 'v pval option" where
  "v_eq a b = Some (Flag (a = b))"

definition v_not :: "'v pval option \<Rightarrow> 'v pval option" where
  "v_not a = Some (Flag (\<not> prop_truthy a))"

definition v_default :: "'v pval option \<Rightarrow> 'v pval option \<Rightarrow> 'v pval option" where
  "v_default a b = (case a of None \<Rightarrow> b | Some v \<Rightarrow> a)"

text \<open>The properties in an element: one after the other, a later one replaces an earlier one; \<open>undefined\<close> is no
  property. Children between the tags come after all properties.\<close>

datatype 'v attr = At string "'v pval option" | Spread "'v props"

fun attributes :: "'v props \<Rightarrow> 'v attr list \<Rightarrow> 'v props" where
  "attributes ps [] = ps"
| "attributes ps (At k v # as) =
     attributes (case v of None \<Rightarrow> obj_delete k ps | Some x \<Rightarrow> obj_set k x ps) as"
| "attributes ps (Spread o' # as) = attributes (obj_spread ps o') as"

definition jsx :: "'v attr list \<Rightarrow> 'v node list option \<Rightarrow> 'v props" where
  "jsx as ks = attributes [] (as @ (case ks of None \<Rightarrow> [] | Some ns \<Rightarrow> [At ''children'' (Some (Kids ns))]))"

text \<open>The rest of a parameter list. \<open>ref\<close> is not a property of a component.\<close>

definition rest :: "string list \<Rightarrow> 'v props \<Rightarrow> 'v props" where
  "rest taken p = filter (\<lambda>(k, v). k \<notin> set taken \<and> k \<noteq> ''ref'') p"

section \<open>Class names\<close>

record cva_config =
  cva_base :: string
  cva_variants :: "(string \<times> (string \<times> string) list) list"
  cva_defaults :: "(string \<times> string) list"

record 'v kit =
  k_clsx :: "'v pval option list \<Rightarrow> string"
  k_twMerge :: "string \<Rightarrow> string"
  k_cva :: "cva_config \<Rightarrow> 'v props \<Rightarrow> string"

definition cn :: "'v kit \<Rightarrow> 'v pval option list \<Rightarrow> 'v pval option" where
  "cn k inputs = Some (Str (k_twMerge k (k_clsx k inputs)))"

definition variants :: "'v kit \<Rightarrow> cva_config \<Rightarrow> 'v attr list \<Rightarrow> 'v pval option" where
  "variants k config as = Some (Str (k_cva k config (attributes [] as)))"

section \<open>What reaches an element\<close>

text \<open>The property \<open>j\<close> of the element at a place of a tree.\<close>

fun prop_at :: "nat list \<Rightarrow> 'v node \<Rightarrow> string \<Rightarrow> 'v pval option" where
  "prop_at [] (El t ps) j = obj_get ps j"
| "prop_at (i # is') (El t ps) j =
     (case obj_get ps ''children'' of
        Some (Kids ns) \<Rightarrow> if i < length ns then prop_at is' (ns ! i) j else None
      | _ \<Rightarrow> None)"
| "prop_at _ _ j = None"

fun attr_get :: "'v attr \<Rightarrow> string \<Rightarrow> 'v pval option \<Rightarrow> 'v pval option" where
  "attr_get (At k v) j before = (if j = k then v else before)"
| "attr_get (Spread o') j before = (case obj_get o' j of None \<Rightarrow> before | Some v \<Rightarrow> Some v)"

fun wf_attr :: "'v attr \<Rightarrow> bool" where
  "wf_attr (At k v) = True"
| "wf_attr (Spread o') = wf_obj o'"

lemma same_option [simp]: "(case v of None \<Rightarrow> None | Some x \<Rightarrow> Some x) = v"
  by (cases v) simp_all

lemma get_attributes:
  "list_all wf_attr as \<Longrightarrow> obj_get (attributes ps as) j = fold (\<lambda>a. attr_get a j) as (obj_get ps j)"
  by (induction ps as rule: attributes.induct) (simp_all add: obj_get_spread split: option.split)

lemma wf_attributes: "list_all wf_attr as \<Longrightarrow> wf_obj ps \<Longrightarrow> wf_obj (attributes ps as)"
  by (induction ps as rule: attributes.induct) (simp_all split: option.split)

declare attributes.simps [simp del]

lemma get_jsx [simp]:
  "list_all wf_attr as \<Longrightarrow> obj_get (jsx as ks) j =
    (if j = ''children'' \<and> ks \<noteq> None then Some (Kids (the ks)) else fold (\<lambda>a. attr_get a j) as None)"
  by (simp add: jsx_def get_attributes list_all_iff split: option.split)

lemma wf_jsx [simp]: "list_all wf_attr as \<Longrightarrow> wf_obj (jsx as ks)"
  by (simp add: jsx_def wf_attributes split: option.split)

lemma get_rest [simp]: "obj_get (rest taken p) j = (if j \<in> set taken \<or> j = ''ref'' then None else obj_get p j)"
  by (induction p) (auto simp: rest_def)

lemma wf_rest [simp]: "wf_obj p \<Longrightarrow> wf_obj (rest taken p)"
  by (induction p) (auto simp: rest_def wf_obj_def keys_def)

text \<open>A component passes a property on when it is found, unchanged, at the place of the element it wraps.\<close>

type_synonym 'v component = "'v kit \<Rightarrow> 'v props \<Rightarrow> 'v node"

definition passes_on :: "string list \<times> nat list \<times> 'v component \<Rightarrow> bool" where
  "passes_on w = (case w of (taken, place, c) \<Rightarrow>
     (\<forall>k p j v. wf_obj p \<longrightarrow> j \<notin> set taken \<longrightarrow> j \<noteq> ''ref'' \<longrightarrow> obj_get p j = Some v \<longrightarrow> prop_at place (c k p) j = Some v))"

text \<open>The class names of the caller come last.\<close>

definition merges_last :: "string list \<times> nat list \<times> 'v component \<Rightarrow> bool" where
  "merges_last w = (case w of (taken, place, c) \<Rightarrow>
     (\<forall>k p. wf_obj p \<longrightarrow> (\<exists>cs. prop_at place (c k p) ''className'' = cn k (cs @ [obj_get p ''className'']))))"

lemma cn_ends [simp]:
  "\<exists>cs. cn k [x] = cn k (cs @ [x])"
  "\<exists>cs. cn k [a, x] = cn k (cs @ [x])"
  "\<exists>cs. cn k [a, b, x] = cn k (cs @ [x])"
  "\<exists>cs. cn k [a, b, c, x] = cn k (cs @ [x])"
  "\<exists>cs. cn k [a, b, c, d, x] = cn k (cs @ [x])"
  "\<exists>cs. cn k [a, b, c, d, e, x] = cn k (cs @ [x])"
  "\<exists>cs. cn k [a, b, c, d, e, f, x] = cn k (cs @ [x])"
  "\<exists>cs. cn k [a, b, c, d, e, f, g, x] = cn k (cs @ [x])"
  by (metis append_Cons append_Nil)+

end
