(* ===== verification/Ui_Surfaces.thy ===== *)
theory Ui_Surfaces
  imports Ui_Elements
begin

text \<open>
  The surfaces of the kit (\<open>example-apps/onboarding-flow/src/components/ui\<close>): \<open>aspect-ratio.tsx\<close>, \<open>collapsible.tsx\<close>, \<open>accordion.tsx\<close>, \<open>button.tsx\<close>, \<open>alert.tsx\<close>, \<open>avatar.tsx\<close>, \<open>badge.tsx\<close>, \<open>breadcrumb.tsx\<close>, \<open>card.tsx\<close>, \<open>separator.tsx\<close>, \<open>skeleton.tsx\<close>, \<open>scroll-area.tsx\<close>, \<open>resizable.tsx\<close>, \<open>table.tsx\<close>, \<open>tabs.tsx\<close>, \<open>pagination.tsx\<close>.
\<close>

definition AspectRatio :: "'v component" where
  "AspectRatio k p = El ''AspectRatioPrimitive.Root'' p"

definition Collapsible :: "'v component" where
  "Collapsible k p = El ''CollapsiblePrimitive.Root'' p"

definition CollapsibleTrigger :: "'v component" where
  "CollapsibleTrigger k p = El ''CollapsiblePrimitive.CollapsibleTrigger'' p"

definition CollapsibleContent :: "'v component" where
  "CollapsibleContent k p = El ''CollapsiblePrimitive.CollapsibleContent'' p"

definition Accordion :: "'v component" where
  "Accordion k p = El ''AccordionPrimitive.Root'' p"

definition AccordionItem :: "'v component" where
  "AccordionItem k p =
     (let ref = obj_get p ''ref'';
          className = obj_get p ''className'';
          props = rest [''className''] p
      in El ''AccordionPrimitive.Item''
           (jsx [At ''ref'' ref, At ''className'' (cn k [str ''border-b'', className]), Spread props] None))"

definition AccordionTrigger :: "'v component" where
  "AccordionTrigger k p =
     (let ref = obj_get p ''ref'';
          className = obj_get p ''className'';
          children = obj_get p ''children'';
          props = rest [''className'', ''children''] p
      in El ''AccordionPrimitive.Header''
           (jsx [At ''className'' (str ''flex'')]
              (Some
                 [El ''AccordionPrimitive.Trigger''
                    (jsx
                       [At ''ref'' ref,
                        At ''className''
                          (cn k
                             [str
                                ''flex flex-1 items-center justify-between py-4 font-medium transition-all hover:underline [&[data-state=open]>svg]:rotate-180'',
                              className]),
                        Spread props]
                       (Some
                          (nodes children @
                           [El ''ChevronDown''
                              (jsx [At ''className'' (str ''h-4 w-4 shrink-0 transition-transform duration-200'')] None)])))])))"

definition AccordionContent :: "'v component" where
  "AccordionContent k p =
     (let ref = obj_get p ''ref'';
          className = obj_get p ''className'';
          children = obj_get p ''children'';
          props = rest [''className'', ''children''] p
      in El ''AccordionPrimitive.Content''
           (jsx
              [At ''ref'' ref,
               At ''className''
                 (str
                    ''overflow-hidden text-sm transition-all data-[state=closed]:animate-accordion-up data-[state=open]:animate-accordion-down''),
               Spread props]
              (Some [El ''div'' (jsx [At ''className'' (cn k [str ''pb-4 pt-0'', className])] (Some (nodes children)))])))"

definition buttonVariants :: cva_config where
  "buttonVariants =
     \<lparr>cva_base =
       ''inline-flex items-center justify-center gap-2 whitespace-nowrap rounded-md text-sm font-medium ring-offset-background transition-colors focus-visible:outline-none focus-visible:ring-2 focus-visible:ring-ring focus-visible:ring-offset-2 disabled:pointer-events-none disabled:opacity-50 [&_svg]:pointer-events-none [&_svg]:size-4 [&_svg]:shrink-0''
       , cva_variants =
       [(''variant'' ,
           [(''default'', ''bg-primary text-primary-foreground hover:bg-primary/90''),
            (''destructive'', ''bg-destructive text-destructive-foreground hover:bg-destructive/90''),
            (''outline'', ''border border-input bg-background hover:bg-accent hover:text-accent-foreground''),
            (''secondary'', ''bg-secondary text-secondary-foreground hover:bg-secondary/80''),
            (''ghost'', ''hover:bg-accent hover:text-accent-foreground''),
            (''link'', ''text-primary underline-offset-4 hover:underline'')]),
        (''size'' ,
           [(''default'', ''h-10 px-4 py-2''),
            (''sm'', ''h-9 rounded-md px-3''),
            (''lg'', ''h-11 rounded-md px-8''),
            (''icon'', ''h-10 w-10'')])] , cva_defaults = [(''variant'', ''default''), (''size'', ''default'')] \<rparr>"

definition Button :: "'v component" where
  "Button k p =
     (let ref = obj_get p ''ref'';
          className = obj_get p ''className'';
          variant = obj_get p ''variant'';
          size = obj_get p ''size'';
          asChild = v_default (obj_get p ''asChild'') (Some (Flag False));
          props = rest [''className'', ''variant'', ''size'', ''asChild''] p;
          Comp = if prop_truthy asChild then ''Slot'' else ''button''
      in El Comp
           (jsx
              [At ''className''
                 (cn k [variants k buttonVariants [At ''variant'' variant, At ''size'' size, At ''className'' className]]),
               At ''ref'' ref,
               Spread props] None))"

definition alertVariants :: cva_config where
  "alertVariants =
     \<lparr>cva_base =
       ''relative w-full rounded-lg border p-4 [&>svg~*]:pl-7 [&>svg+div]:translate-y-[-3px] [&>svg]:absolute [&>svg]:left-4 [&>svg]:top-4 [&>svg]:text-foreground''
       , cva_variants =
       [(''variant'' ,
           [(''default'', ''bg-background text-foreground''),
            (''destructive'', ''border-destructive/50 text-destructive dark:border-destructive [&>svg]:text-destructive'')])]
       , cva_defaults = [(''variant'', ''default'')] \<rparr>"

definition Alert :: "'v component" where
  "Alert k p =
     (let ref = obj_get p ''ref'';
          className = obj_get p ''className'';
          variant = obj_get p ''variant'';
          props = rest [''className'', ''variant''] p
      in El ''div''
           (jsx
              [At ''ref'' ref,
               At ''role'' (str ''alert''),
               At ''className'' (cn k [variants k alertVariants [At ''variant'' variant], className]),
               Spread props] None))"

definition AlertTitle :: "'v component" where
  "AlertTitle k p =
     (let ref = obj_get p ''ref'';
          className = obj_get p ''className'';
          props = rest [''className''] p
      in El ''h5''
           (jsx
              [At ''ref'' ref,
               At ''className'' (cn k [str ''mb-1 font-medium leading-none tracking-tight'', className]),
               Spread props] None))"

definition AlertDescription :: "'v component" where
  "AlertDescription k p =
     (let ref = obj_get p ''ref'';
          className = obj_get p ''className'';
          props = rest [''className''] p
      in El ''div''
           (jsx [At ''ref'' ref, At ''className'' (cn k [str ''text-sm [&_p]:leading-relaxed'', className]), Spread props]
              None))"

definition Avatar :: "'v component" where
  "Avatar k p =
     (let ref = obj_get p ''ref'';
          className = obj_get p ''className'';
          props = rest [''className''] p
      in El ''AvatarPrimitive.Root''
           (jsx
              [At ''ref'' ref,
               At ''className'' (cn k [str ''relative flex h-10 w-10 shrink-0 overflow-hidden rounded-full'', className]),
               Spread props] None))"

definition AvatarImage :: "'v component" where
  "AvatarImage k p =
     (let ref = obj_get p ''ref'';
          className = obj_get p ''className'';
          props = rest [''className''] p
      in El ''AvatarPrimitive.Image''
           (jsx [At ''ref'' ref, At ''className'' (cn k [str ''aspect-square h-full w-full'', className]), Spread props]
              None))"

definition AvatarFallback :: "'v component" where
  "AvatarFallback k p =
     (let ref = obj_get p ''ref'';
          className = obj_get p ''className'';
          props = rest [''className''] p
      in El ''AvatarPrimitive.Fallback''
           (jsx
              [At ''ref'' ref,
               At ''className''
                 (cn k [str ''flex h-full w-full items-center justify-center rounded-full bg-muted'', className]),
               Spread props] None))"

definition badgeVariants :: cva_config where
  "badgeVariants =
     \<lparr>cva_base =
       ''inline-flex items-center rounded-full border px-2.5 py-0.5 text-xs font-semibold transition-colors focus:outline-none focus:ring-2 focus:ring-ring focus:ring-offset-2''
       , cva_variants =
       [(''variant'' ,
           [(''default'', ''border-transparent bg-primary text-primary-foreground hover:bg-primary/80''),
            (''secondary'', ''border-transparent bg-secondary text-secondary-foreground hover:bg-secondary/80''),
            (''destructive'', ''border-transparent bg-destructive text-destructive-foreground hover:bg-destructive/80''),
            (''outline'', ''text-foreground'')])] , cva_defaults = [(''variant'', ''default'')] \<rparr>"

definition Badge :: "'v component" where
  "Badge k p =
     (let className = obj_get p ''className'';
          variant = obj_get p ''variant'';
          props = rest [''className'', ''variant''] p
      in El ''div''
           (jsx [At ''className'' (cn k [variants k badgeVariants [At ''variant'' variant], className]), Spread props]
              None))"

definition Breadcrumb :: "'v component" where
  "Breadcrumb k p =
     (let ref = obj_get p ''ref'';
          props = rest [] p
      in El ''nav'' (jsx [At ''ref'' ref, At ''aria-label'' (str ''breadcrumb''), Spread props] None))"

definition BreadcrumbList :: "'v component" where
  "BreadcrumbList k p =
     (let ref = obj_get p ''ref'';
          className = obj_get p ''className'';
          props = rest [''className''] p
      in El ''ol''
           (jsx
              [At ''ref'' ref,
               At ''className''
                 (cn k
                    [str ''flex flex-wrap items-center gap-1.5 break-words text-sm text-muted-foreground sm:gap-2.5'',
                     className]),
               Spread props] None))"

definition BreadcrumbItem :: "'v component" where
  "BreadcrumbItem k p =
     (let ref = obj_get p ''ref'';
          className = obj_get p ''className'';
          props = rest [''className''] p
      in El ''li''
           (jsx
              [At ''ref'' ref,
               At ''className'' (cn k [str ''inline-flex items-center gap-1.5'', className]),
               Spread props] None))"

definition BreadcrumbLink :: "'v component" where
  "BreadcrumbLink k p =
     (let ref = obj_get p ''ref'';
          asChild = obj_get p ''asChild'';
          className = obj_get p ''className'';
          props = rest [''asChild'', ''className''] p;
          Comp = if prop_truthy asChild then ''Slot'' else ''a''
      in El Comp
           (jsx
              [At ''ref'' ref,
               At ''className'' (cn k [str ''transition-colors hover:text-foreground'', className]),
               Spread props] None))"

definition BreadcrumbPage :: "'v component" where
  "BreadcrumbPage k p =
     (let ref = obj_get p ''ref'';
          className = obj_get p ''className'';
          props = rest [''className''] p
      in El ''span''
           (jsx
              [At ''ref'' ref,
               At ''role'' (str ''link''),
               At ''aria-disabled'' (str ''true''),
               At ''aria-current'' (str ''page''),
               At ''className'' (cn k [str ''font-normal text-foreground'', className]),
               Spread props] None))"

definition BreadcrumbSeparator :: "'v component" where
  "BreadcrumbSeparator k p =
     (let children = obj_get p ''children'';
          className = obj_get p ''className'';
          props = rest [''children'', ''className''] p
      in El ''li''
           (jsx
              [At ''role'' (str ''presentation''),
               At ''aria-hidden'' (str ''true''),
               At ''className'' (cn k [str ''[&>svg]:size-3.5'', className]),
               Spread props] (Some (nodes (v_default children (Some (Kids [El ''ChevronRight'' (jsx [] None)])))))))"

definition BreadcrumbEllipsis :: "'v component" where
  "BreadcrumbEllipsis k p =
     (let className = obj_get p ''className'';
          props = rest [''className''] p
      in El ''span''
           (jsx
              [At ''role'' (str ''presentation''),
               At ''aria-hidden'' (str ''true''),
               At ''className'' (cn k [str ''flex h-9 w-9 items-center justify-center'', className]),
               Spread props]
              (Some
                 [El ''MoreHorizontal'' (jsx [At ''className'' (str ''h-4 w-4'')] None),
                  El ''span'' (jsx [At ''className'' (str ''sr-only'')] (Some [Text ''More'']))])))"

definition Card :: "'v component" where
  "Card k p =
     (let ref = obj_get p ''ref'';
          className = obj_get p ''className'';
          props = rest [''className''] p
      in El ''div''
           (jsx
              [At ''ref'' ref,
               At ''className'' (cn k [str ''rounded-lg border bg-card text-card-foreground shadow-sm'', className]),
               Spread props] None))"

definition CardHeader :: "'v component" where
  "CardHeader k p =
     (let ref = obj_get p ''ref'';
          className = obj_get p ''className'';
          props = rest [''className''] p
      in El ''div''
           (jsx [At ''ref'' ref, At ''className'' (cn k [str ''flex flex-col space-y-1.5 p-6'', className]), Spread props]
              None))"

definition CardTitle :: "'v component" where
  "CardTitle k p =
     (let ref = obj_get p ''ref'';
          className = obj_get p ''className'';
          props = rest [''className''] p
      in El ''h3''
           (jsx
              [At ''ref'' ref,
               At ''className'' (cn k [str ''text-2xl font-semibold leading-none tracking-tight'', className]),
               Spread props] None))"

definition CardDescription :: "'v component" where
  "CardDescription k p =
     (let ref = obj_get p ''ref'';
          className = obj_get p ''className'';
          props = rest [''className''] p
      in El ''p''
           (jsx [At ''ref'' ref, At ''className'' (cn k [str ''text-sm text-muted-foreground'', className]), Spread props]
              None))"

definition CardContent :: "'v component" where
  "CardContent k p =
     (let ref = obj_get p ''ref'';
          className = obj_get p ''className'';
          props = rest [''className''] p
      in El ''div'' (jsx [At ''ref'' ref, At ''className'' (cn k [str ''p-6 pt-0'', className]), Spread props] None))"

definition CardFooter :: "'v component" where
  "CardFooter k p =
     (let ref = obj_get p ''ref'';
          className = obj_get p ''className'';
          props = rest [''className''] p
      in El ''div''
           (jsx [At ''ref'' ref, At ''className'' (cn k [str ''flex items-center p-6 pt-0'', className]), Spread props]
              None))"

definition Separator :: "'v component" where
  "Separator k p =
     (let ref = obj_get p ''ref'';
          className = obj_get p ''className'';
          orientation = v_default (obj_get p ''orientation'') (str ''horizontal'');
          decorative = v_default (obj_get p ''decorative'') (Some (Flag True));
          props = rest [''className'', ''orientation'', ''decorative''] p
      in El ''SeparatorPrimitive.Root''
           (jsx
              [At ''ref'' ref,
               At ''decorative'' decorative,
               At ''orientation'' orientation,
               At ''className''
                 (cn k
                    [str ''shrink-0 bg-border'',
                     v_if (v_eq orientation (str ''horizontal'')) (str ''h-[1px] w-full'') (str ''h-full w-[1px]''),
                     className]),
               Spread props] None))"

definition Skeleton :: "'v component" where
  "Skeleton k p =
     (let className = obj_get p ''className'';
          props = rest [''className''] p
      in El ''div''
           (jsx [At ''className'' (cn k [str ''animate-pulse rounded-md bg-muted'', className]), Spread props] None))"

definition ScrollBar :: "'v component" where
  "ScrollBar k p =
     (let ref = obj_get p ''ref'';
          className = obj_get p ''className'';
          orientation = v_default (obj_get p ''orientation'') (str ''vertical'');
          props = rest [''className'', ''orientation''] p
      in El ''ScrollAreaPrimitive.ScrollAreaScrollbar''
           (jsx
              [At ''ref'' ref,
               At ''orientation'' orientation,
               At ''className''
                 (cn k
                    [str ''flex touch-none select-none transition-colors'',
                     v_and (v_eq orientation (str ''vertical''))
                       (str ''h-full w-2.5 border-l border-l-transparent p-[1px]''),
                     v_and (v_eq orientation (str ''horizontal''))
                       (str ''h-2.5 flex-col border-t border-t-transparent p-[1px]''),
                     className]),
               Spread props]
              (Some
                 [El ''ScrollAreaPrimitive.ScrollAreaThumb''
                    (jsx [At ''className'' (str ''relative flex-1 rounded-full bg-border'')] None)])))"

definition ScrollArea :: "'v component" where
  "ScrollArea k p =
     (let ref = obj_get p ''ref'';
          className = obj_get p ''className'';
          children = obj_get p ''children'';
          props = rest [''className'', ''children''] p
      in El ''ScrollAreaPrimitive.Root''
           (jsx [At ''ref'' ref, At ''className'' (cn k [str ''relative overflow-hidden'', className]), Spread props]
              (Some
                 [El ''ScrollAreaPrimitive.Viewport''
                    (jsx [At ''className'' (str ''h-full w-full rounded-[inherit]'')] (Some (nodes children))),
                  ScrollBar k (jsx [] None),
                  El ''ScrollAreaPrimitive.Corner'' (jsx [] None)])))"

definition ResizablePanelGroup :: "'v component" where
  "ResizablePanelGroup k p =
     (let className = obj_get p ''className'';
          props = rest [''className''] p
      in El ''ResizablePrimitive.PanelGroup''
           (jsx
              [At ''className''
                 (cn k [str ''flex h-full w-full data-[panel-group-direction=vertical]:flex-col'', className]),
               Spread props] None))"

definition ResizablePanel :: "'v component" where
  "ResizablePanel k p = El ''ResizablePrimitive.Panel'' p"

definition ResizableHandle :: "'v component" where
  "ResizableHandle k p =
     (let withHandle = obj_get p ''withHandle'';
          className = obj_get p ''className'';
          props = rest [''withHandle'', ''className''] p
      in El ''ResizablePrimitive.PanelResizeHandle''
           (jsx
              [At ''className''
                 (cn k
                    [str
                       ''relative flex w-px items-center justify-center bg-border after:absolute after:inset-y-0 after:left-1/2 after:w-1 after:-translate-x-1/2 data-[panel-group-direction=vertical]:h-px data-[panel-group-direction=vertical]:w-full data-[panel-group-direction=vertical]:after:left-0 data-[panel-group-direction=vertical]:after:h-1 data-[panel-group-direction=vertical]:after:w-full data-[panel-group-direction=vertical]:after:-translate-y-1/2 data-[panel-group-direction=vertical]:after:translate-x-0 focus-visible:outline-none focus-visible:ring-1 focus-visible:ring-ring focus-visible:ring-offset-1 [&[data-panel-group-direction=vertical]>div]:rotate-90'',
                     className]),
               Spread props]
              (Some
                 (nodes
                    (v_and withHandle
                       (Some
                          (Kids
                             [El ''div''
                                (jsx
                                   [At ''className''
                                      (str ''z-10 flex h-4 w-3 items-center justify-center rounded-sm border bg-border'')]
                                   (Some [El ''GripVertical'' (jsx [At ''className'' (str ''h-2.5 w-2.5'')] None)]))])))))))"

definition Table :: "'v component" where
  "Table k p =
     (let ref = obj_get p ''ref'';
          className = obj_get p ''className'';
          props = rest [''className''] p
      in El ''div''
           (jsx [At ''className'' (str ''relative w-full overflow-auto'')]
              (Some
                 [El ''table''
                    (jsx
                       [At ''ref'' ref,
                        At ''className'' (cn k [str ''w-full caption-bottom text-sm'', className]),
                        Spread props] None)])))"

definition TableHeader :: "'v component" where
  "TableHeader k p =
     (let ref = obj_get p ''ref'';
          className = obj_get p ''className'';
          props = rest [''className''] p
      in El ''thead''
           (jsx [At ''ref'' ref, At ''className'' (cn k [str ''[&_tr]:border-b'', className]), Spread props] None))"

definition TableBody :: "'v component" where
  "TableBody k p =
     (let ref = obj_get p ''ref'';
          className = obj_get p ''className'';
          props = rest [''className''] p
      in El ''tbody''
           (jsx [At ''ref'' ref, At ''className'' (cn k [str ''[&_tr:last-child]:border-0'', className]), Spread props]
              None))"

definition TableFooter :: "'v component" where
  "TableFooter k p =
     (let ref = obj_get p ''ref'';
          className = obj_get p ''className'';
          props = rest [''className''] p
      in El ''tfoot''
           (jsx
              [At ''ref'' ref,
               At ''className'' (cn k [str ''border-t bg-muted/50 font-medium [&>tr]:last:border-b-0'', className]),
               Spread props] None))"

definition TableRow :: "'v component" where
  "TableRow k p =
     (let ref = obj_get p ''ref'';
          className = obj_get p ''className'';
          props = rest [''className''] p
      in El ''tr''
           (jsx
              [At ''ref'' ref,
               At ''className''
                 (cn k [str ''border-b transition-colors data-[state=selected]:bg-muted hover:bg-muted/50'', className]),
               Spread props] None))"

definition TableHead :: "'v component" where
  "TableHead k p =
     (let ref = obj_get p ''ref'';
          className = obj_get p ''className'';
          props = rest [''className''] p
      in El ''th''
           (jsx
              [At ''ref'' ref,
               At ''className''
                 (cn k
                    [str
                       ''h-12 px-4 text-left align-middle font-medium text-muted-foreground [&:has([role=checkbox])]:pr-0'',
                     className]),
               Spread props] None))"

definition TableCell :: "'v component" where
  "TableCell k p =
     (let ref = obj_get p ''ref'';
          className = obj_get p ''className'';
          props = rest [''className''] p
      in El ''td''
           (jsx
              [At ''ref'' ref,
               At ''className'' (cn k [str ''p-4 align-middle [&:has([role=checkbox])]:pr-0'', className]),
               Spread props] None))"

definition TableCaption :: "'v component" where
  "TableCaption k p =
     (let ref = obj_get p ''ref'';
          className = obj_get p ''className'';
          props = rest [''className''] p
      in El ''caption''
           (jsx
              [At ''ref'' ref,
               At ''className'' (cn k [str ''mt-4 text-sm text-muted-foreground'', className]),
               Spread props] None))"

definition Tabs :: "'v component" where
  "Tabs k p = El ''TabsPrimitive.Root'' p"

definition TabsList :: "'v component" where
  "TabsList k p =
     (let ref = obj_get p ''ref'';
          className = obj_get p ''className'';
          props = rest [''className''] p
      in El ''TabsPrimitive.List''
           (jsx
              [At ''ref'' ref,
               At ''className''
                 (cn k
                    [str ''inline-flex h-10 items-center justify-center rounded-md bg-muted p-1 text-muted-foreground'',
                     className]),
               Spread props] None))"

definition TabsTrigger :: "'v component" where
  "TabsTrigger k p =
     (let ref = obj_get p ''ref'';
          className = obj_get p ''className'';
          props = rest [''className''] p
      in El ''TabsPrimitive.Trigger''
           (jsx
              [At ''ref'' ref,
               At ''className''
                 (cn k
                    [str
                       ''inline-flex items-center justify-center whitespace-nowrap rounded-sm px-3 py-1.5 text-sm font-medium ring-offset-background transition-all data-[state=active]:bg-background data-[state=active]:text-foreground data-[state=active]:shadow-sm focus-visible:outline-none focus-visible:ring-2 focus-visible:ring-ring focus-visible:ring-offset-2 disabled:pointer-events-none disabled:opacity-50'',
                     className]),
               Spread props] None))"

definition TabsContent :: "'v component" where
  "TabsContent k p =
     (let ref = obj_get p ''ref'';
          className = obj_get p ''className'';
          props = rest [''className''] p
      in El ''TabsPrimitive.Content''
           (jsx
              [At ''ref'' ref,
               At ''className''
                 (cn k
                    [str
                       ''mt-2 ring-offset-background focus-visible:outline-none focus-visible:ring-2 focus-visible:ring-ring focus-visible:ring-offset-2'',
                     className]),
               Spread props] None))"

definition Pagination :: "'v component" where
  "Pagination k p =
     (let className = obj_get p ''className'';
          props = rest [''className''] p
      in El ''nav''
           (jsx
              [At ''aria-label'' (str ''pagination''),
               At ''className'' (cn k [str ''mx-auto flex w-full justify-center'', className]),
               Spread props] None))"

definition PaginationContent :: "'v component" where
  "PaginationContent k p =
     (let ref = obj_get p ''ref'';
          className = obj_get p ''className'';
          props = rest [''className''] p
      in El ''ul''
           (jsx
              [At ''ref'' ref,
               At ''className'' (cn k [str ''flex flex-row items-center gap-1'', className]),
               Spread props] None))"

definition PaginationItem :: "'v component" where
  "PaginationItem k p =
     (let ref = obj_get p ''ref'';
          className = obj_get p ''className'';
          props = rest [''className''] p
      in El ''li'' (jsx [At ''ref'' ref, At ''className'' (cn k [str '''', className]), Spread props] None))"

definition PaginationLink_element :: "'v component" where
  "PaginationLink_element k p =
     (let className = obj_get p ''className'';
          isActive = obj_get p ''isActive'';
          size = v_default (obj_get p ''size'') (str ''icon'');
          props = rest [''className'', ''isActive'', ''size''] p
      in El ''a''
           (jsx
              [At ''aria-current'' (v_if isActive (str ''page'') None),
               At ''className''
                 (cn k
                    [variants k buttonVariants
                       [At ''variant'' (v_if isActive (str ''outline'') (str ''ghost'')), At ''size'' size],
                     className]),
               Spread props] None))"

definition PaginationPrevious :: "'v component" where
  "PaginationPrevious k p =
     (let className = obj_get p ''className'';
          props = rest [''className''] p
      in PaginationLink_element k
           (jsx
              [At ''aria-label'' (str ''Go to previous page''),
               At ''size'' (str ''default''),
               At ''className'' (cn k [str ''gap-1 pl-2.5'', className]),
               Spread props]
              (Some
                 [El ''ChevronLeft'' (jsx [At ''className'' (str ''h-4 w-4'')] None),
                  El ''span'' (jsx [] (Some [Text ''Previous'']))])))"

definition PaginationNext :: "'v component" where
  "PaginationNext k p =
     (let className = obj_get p ''className'';
          props = rest [''className''] p
      in PaginationLink_element k
           (jsx
              [At ''aria-label'' (str ''Go to next page''),
               At ''size'' (str ''default''),
               At ''className'' (cn k [str ''gap-1 pr-2.5'', className]),
               Spread props]
              (Some
                 [El ''span'' (jsx [] (Some [Text ''Next''])),
                  El ''ChevronRight'' (jsx [At ''className'' (str ''h-4 w-4'')] None)])))"

definition PaginationEllipsis :: "'v component" where
  "PaginationEllipsis k p =
     (let className = obj_get p ''className'';
          props = rest [''className''] p
      in El ''span''
           (jsx
              [At ''aria-hidden'' (Some (Flag True)),
               At ''className'' (cn k [str ''flex h-9 w-9 items-center justify-center'', className]),
               Spread props]
              (Some
                 [El ''MoreHorizontal'' (jsx [At ''className'' (str ''h-4 w-4'')] None),
                  El ''span'' (jsx [At ''className'' (str ''sr-only'')] (Some [Text ''More pages'']))])))"

section \<open>What the components pass on\<close>

definition surfaces_kit :: "(string list \<times> nat list \<times> 'v component) list" where
  "surfaces_kit =
     [([''className''], [], AccordionItem),
      ([''className'', ''children''], [0], AccordionTrigger),
      ([''className'', ''children''], [], AccordionContent),
      ([''className'', ''variant'', ''size'', ''asChild''], [], Button),
      ([''className'', ''variant''], [], Alert),
      ([''className''], [], AlertTitle),
      ([''className''], [], AlertDescription),
      ([''className''], [], Avatar),
      ([''className''], [], AvatarImage),
      ([''className''], [], AvatarFallback),
      ([''className'', ''variant''], [], Badge),
      ([], [], Breadcrumb),
      ([''className''], [], BreadcrumbList),
      ([''className''], [], BreadcrumbItem),
      ([''asChild'', ''className''], [], BreadcrumbLink),
      ([''className''], [], BreadcrumbPage),
      ([''children'', ''className''], [], BreadcrumbSeparator),
      ([''className'', ''children''], [], BreadcrumbEllipsis),
      ([''className''], [], Card),
      ([''className''], [], CardHeader),
      ([''className''], [], CardTitle),
      ([''className''], [], CardDescription),
      ([''className''], [], CardContent),
      ([''className''], [], CardFooter),
      ([''className'', ''orientation'', ''decorative''], [], Separator),
      ([''className''], [], Skeleton),
      ([''className'', ''orientation'', ''children''], [], ScrollBar),
      ([''className'', ''children''], [], ScrollArea),
      ([''className''], [], ResizablePanelGroup),
      ([''withHandle'', ''className'', ''children''], [], ResizableHandle),
      ([''className''], [0], Table),
      ([''className''], [], TableHeader),
      ([''className''], [], TableBody),
      ([''className''], [], TableFooter),
      ([''className''], [], TableRow),
      ([''className''], [], TableHead),
      ([''className''], [], TableCell),
      ([''className''], [], TableCaption),
      ([''className''], [], TabsList),
      ([''className''], [], TabsTrigger),
      ([''className''], [], TabsContent),
      ([''className''], [], Pagination),
      ([''className''], [], PaginationContent),
      ([''className''], [], PaginationItem),
      ([''className'', ''isActive'', ''size''], [], PaginationLink_element),
      ([''className'', ''children'', ''isActive'', ''size''], [], PaginationPrevious),
      ([''className'', ''children'', ''isActive'', ''size''], [], PaginationNext),
      ([''className'', ''children''], [], PaginationEllipsis)]"

definition surfaces_styled :: "(string list \<times> nat list \<times> 'v component) list" where
  "surfaces_styled =
     [([''className''], [], AccordionItem),
      ([''className'', ''children''], [0], AccordionTrigger),
      ([''className'', ''variant''], [], Alert),
      ([''className''], [], AlertTitle),
      ([''className''], [], AlertDescription),
      ([''className''], [], Avatar),
      ([''className''], [], AvatarImage),
      ([''className''], [], AvatarFallback),
      ([''className'', ''variant''], [], Badge),
      ([''className''], [], BreadcrumbList),
      ([''className''], [], BreadcrumbItem),
      ([''asChild'', ''className''], [], BreadcrumbLink),
      ([''className''], [], BreadcrumbPage),
      ([''children'', ''className''], [], BreadcrumbSeparator),
      ([''className'', ''children''], [], BreadcrumbEllipsis),
      ([''className''], [], Card),
      ([''className''], [], CardHeader),
      ([''className''], [], CardTitle),
      ([''className''], [], CardDescription),
      ([''className''], [], CardContent),
      ([''className''], [], CardFooter),
      ([''className'', ''orientation'', ''decorative''], [], Separator),
      ([''className''], [], Skeleton),
      ([''className'', ''orientation'', ''children''], [], ScrollBar),
      ([''className'', ''children''], [], ScrollArea),
      ([''className''], [], ResizablePanelGroup),
      ([''withHandle'', ''className'', ''children''], [], ResizableHandle),
      ([''className''], [0], Table),
      ([''className''], [], TableHeader),
      ([''className''], [], TableBody),
      ([''className''], [], TableFooter),
      ([''className''], [], TableRow),
      ([''className''], [], TableHead),
      ([''className''], [], TableCell),
      ([''className''], [], TableCaption),
      ([''className''], [], TabsList),
      ([''className''], [], TabsTrigger),
      ([''className''], [], TabsContent),
      ([''className''], [], Pagination),
      ([''className''], [], PaginationContent),
      ([''className''], [], PaginationItem),
      ([''className'', ''isActive'', ''size''], [], PaginationLink_element),
      ([''className'', ''children''], [], PaginationEllipsis)]"

lemmas surfaces_defs = AspectRatio_def Collapsible_def CollapsibleTrigger_def CollapsibleContent_def Accordion_def
  AccordionItem_def AccordionTrigger_def AccordionContent_def Button_def Alert_def
  AlertTitle_def AlertDescription_def Avatar_def AvatarImage_def AvatarFallback_def
  Badge_def Breadcrumb_def BreadcrumbList_def BreadcrumbItem_def BreadcrumbLink_def
  BreadcrumbPage_def BreadcrumbSeparator_def BreadcrumbEllipsis_def Card_def CardHeader_def
  CardTitle_def CardDescription_def CardContent_def CardFooter_def Separator_def
  Skeleton_def ScrollBar_def ScrollArea_def ResizablePanelGroup_def ResizablePanel_def
  ResizableHandle_def Table_def TableHeader_def TableBody_def TableFooter_def
  TableRow_def TableHead_def TableCell_def TableCaption_def Tabs_def
  TabsList_def TabsTrigger_def TabsContent_def Pagination_def PaginationContent_def
  PaginationItem_def PaginationLink_element_def PaginationPrevious_def PaginationNext_def PaginationEllipsis_def

lemma surfaces_pass_on: "list_all passes_on (surfaces_kit)"
  by (simp add: surfaces_kit_def surfaces_defs passes_on_def Let_def)

lemma surfaces_merge_last: "list_all merges_last (surfaces_styled)"
  by (simp add: surfaces_styled_def surfaces_defs merges_last_def Let_def)

end
