(* ===== verification/Ui_Inputs.thy ===== *)
theory Ui_Inputs
  imports Ui_Surfaces
begin

text \<open>
  The inputs of the kit (\<open>example-apps/onboarding-flow/src/components/ui\<close>): \<open>label.tsx\<close>, \<open>input.tsx\<close>, \<open>textarea.tsx\<close>, \<open>checkbox.tsx\<close>, \<open>radio-group.tsx\<close>, \<open>switch.tsx\<close>, \<open>slider.tsx\<close>, \<open>toggle.tsx\<close>, \<open>select.tsx\<close>, \<open>input-otp.tsx\<close>, \<open>toggle-group.tsx\<close>, \<open>form.tsx\<close>.
\<close>

definition labelVariants :: cva_config where
  "labelVariants =
     \<lparr>cva_base = ''text-sm font-medium leading-none peer-disabled:cursor-not-allowed peer-disabled:opacity-70'' ,
       cva_variants = [] , cva_defaults = [] \<rparr>"

definition Label :: "'v component" where
  "Label k p =
     (let ref = obj_get p ''ref'';
          className = obj_get p ''className'';
          props = rest [''className''] p
      in El ''LabelPrimitive.Root''
           (jsx [At ''ref'' ref, At ''className'' (cn k [variants k labelVariants [], className]), Spread props] None))"

definition Input :: "'v component" where
  "Input k p =
     (let ref = obj_get p ''ref'';
          className = obj_get p ''className'';
          type = obj_get p ''type'';
          props = rest [''className'', ''type''] p
      in El ''input''
           (jsx
              [At ''type'' type,
               At ''className''
                 (cn k
                    [str
                       ''flex h-10 w-full rounded-md border border-input bg-background px-3 py-2 text-base ring-offset-background file:border-0 file:bg-transparent file:text-sm file:font-medium file:text-foreground placeholder:text-muted-foreground focus-visible:outline-none focus-visible:ring-2 focus-visible:ring-ring focus-visible:ring-offset-2 disabled:cursor-not-allowed disabled:opacity-50 md:text-sm'',
                     className]),
               At ''ref'' ref,
               Spread props] None))"

definition Textarea :: "'v component" where
  "Textarea k p =
     (let ref = obj_get p ''ref'';
          className = obj_get p ''className'';
          props = rest [''className''] p
      in El ''textarea''
           (jsx
              [At ''className''
                 (cn k
                    [str
                       ''flex min-h-[80px] w-full rounded-md border border-input bg-background px-3 py-2 text-sm ring-offset-background placeholder:text-muted-foreground focus-visible:outline-none focus-visible:ring-2 focus-visible:ring-ring focus-visible:ring-offset-2 disabled:cursor-not-allowed disabled:opacity-50'',
                     className]),
               At ''ref'' ref,
               Spread props] None))"

definition Checkbox :: "'v component" where
  "Checkbox k p =
     (let ref = obj_get p ''ref'';
          className = obj_get p ''className'';
          props = rest [''className''] p
      in El ''CheckboxPrimitive.Root''
           (jsx
              [At ''ref'' ref,
               At ''className''
                 (cn k
                    [str
                       ''peer h-4 w-4 shrink-0 rounded-sm border border-primary ring-offset-background data-[state=checked]:bg-primary data-[state=checked]:text-primary-foreground focus-visible:outline-none focus-visible:ring-2 focus-visible:ring-ring focus-visible:ring-offset-2 disabled:cursor-not-allowed disabled:opacity-50'',
                     className]),
               Spread props]
              (Some
                 [El ''CheckboxPrimitive.Indicator''
                    (jsx [At ''className'' (cn k [str ''flex items-center justify-center text-current''])]
                       (Some [El ''Check'' (jsx [At ''className'' (str ''h-4 w-4'')] None)]))])))"

definition RadioGroup :: "'v component" where
  "RadioGroup k p =
     (let ref = obj_get p ''ref'';
          className = obj_get p ''className'';
          props = rest [''className''] p
      in El ''RadioGroupPrimitive.Root''
           (jsx [At ''className'' (cn k [str ''grid gap-2'', className]), Spread props, At ''ref'' ref] None))"

definition RadioGroupItem :: "'v component" where
  "RadioGroupItem k p =
     (let ref = obj_get p ''ref'';
          className = obj_get p ''className'';
          props = rest [''className''] p
      in El ''RadioGroupPrimitive.Item''
           (jsx
              [At ''ref'' ref,
               At ''className''
                 (cn k
                    [str
                       ''aspect-square h-4 w-4 rounded-full border border-primary text-primary ring-offset-background focus:outline-none focus-visible:ring-2 focus-visible:ring-ring focus-visible:ring-offset-2 disabled:cursor-not-allowed disabled:opacity-50'',
                     className]),
               Spread props]
              (Some
                 [El ''RadioGroupPrimitive.Indicator''
                    (jsx [At ''className'' (str ''flex items-center justify-center'')]
                       (Some [El ''Circle'' (jsx [At ''className'' (str ''h-2.5 w-2.5 fill-current text-current'')] None)]))])))"

definition Switch :: "'v component" where
  "Switch k p =
     (let ref = obj_get p ''ref'';
          className = obj_get p ''className'';
          props = rest [''className''] p
      in El ''SwitchPrimitives.Root''
           (jsx
              [At ''className''
                 (cn k
                    [str
                       ''peer inline-flex h-6 w-11 shrink-0 cursor-pointer items-center rounded-full border-2 border-transparent transition-colors data-[state=checked]:bg-primary data-[state=unchecked]:bg-input focus-visible:outline-none focus-visible:ring-2 focus-visible:ring-ring focus-visible:ring-offset-2 focus-visible:ring-offset-background disabled:cursor-not-allowed disabled:opacity-50'',
                     className]),
               Spread props,
               At ''ref'' ref]
              (Some
                 [El ''SwitchPrimitives.Thumb''
                    (jsx
                       [At ''className''
                          (cn k
                             [str
                                ''pointer-events-none block h-5 w-5 rounded-full bg-background shadow-lg ring-0 transition-transform data-[state=checked]:translate-x-5 data-[state=unchecked]:translate-x-0''])]
                       None)])))"

definition Slider :: "'v component" where
  "Slider k p =
     (let ref = obj_get p ''ref'';
          className = obj_get p ''className'';
          props = rest [''className''] p
      in El ''SliderPrimitive.Root''
           (jsx
              [At ''ref'' ref,
               At ''className'' (cn k [str ''relative flex w-full touch-none select-none items-center'', className]),
               Spread props]
              (Some
                 [El ''SliderPrimitive.Track''
                    (jsx [At ''className'' (str ''relative h-2 w-full grow overflow-hidden rounded-full bg-secondary'')]
                       (Some
                          [El ''SliderPrimitive.Range'' (jsx [At ''className'' (str ''absolute h-full bg-primary'')] None)])),
                  El ''SliderPrimitive.Thumb''
                    (jsx
                       [At ''className''
                          (str
                             ''block h-5 w-5 rounded-full border-2 border-primary bg-background ring-offset-background transition-colors focus-visible:outline-none focus-visible:ring-2 focus-visible:ring-ring focus-visible:ring-offset-2 disabled:pointer-events-none disabled:opacity-50'')]
                       None)])))"

definition toggleVariants :: cva_config where
  "toggleVariants =
     \<lparr>cva_base =
       ''inline-flex items-center justify-center rounded-md text-sm font-medium ring-offset-background transition-colors hover:bg-muted hover:text-muted-foreground focus-visible:outline-none focus-visible:ring-2 focus-visible:ring-ring focus-visible:ring-offset-2 disabled:pointer-events-none disabled:opacity-50 data-[state=on]:bg-accent data-[state=on]:text-accent-foreground''
       , cva_variants =
       [(''variant'' ,
           [(''default'', ''bg-transparent''),
            (''outline'', ''border border-input bg-transparent hover:bg-accent hover:text-accent-foreground'')]),
        (''size'', [(''default'', ''h-10 px-3''), (''sm'', ''h-9 px-2.5''), (''lg'', ''h-11 px-5'')])] , cva_defaults =
       [(''variant'', ''default''), (''size'', ''default'')] \<rparr>"

definition Toggle :: "'v component" where
  "Toggle k p =
     (let ref = obj_get p ''ref'';
          className = obj_get p ''className'';
          variant = obj_get p ''variant'';
          size = obj_get p ''size'';
          props = rest [''className'', ''variant'', ''size''] p
      in El ''TogglePrimitive.Root''
           (jsx
              [At ''ref'' ref,
               At ''className''
                 (cn k [variants k toggleVariants [At ''variant'' variant, At ''size'' size, At ''className'' className]]),
               Spread props] None))"

definition Select :: "'v component" where
  "Select k p = El ''SelectPrimitive.Root'' p"

definition SelectGroup :: "'v component" where
  "SelectGroup k p = El ''SelectPrimitive.Group'' p"

definition SelectValue :: "'v component" where
  "SelectValue k p = El ''SelectPrimitive.Value'' p"

definition SelectTrigger :: "'v component" where
  "SelectTrigger k p =
     (let ref = obj_get p ''ref'';
          className = obj_get p ''className'';
          children = obj_get p ''children'';
          props = rest [''className'', ''children''] p
      in El ''SelectPrimitive.Trigger''
           (jsx
              [At ''ref'' ref,
               At ''className''
                 (cn k
                    [str
                       ''flex h-10 w-full items-center justify-between rounded-md border border-input bg-background px-3 py-2 text-sm ring-offset-background placeholder:text-muted-foreground focus:outline-none focus:ring-2 focus:ring-ring focus:ring-offset-2 disabled:cursor-not-allowed disabled:opacity-50 [&>span]:line-clamp-1'',
                     className]),
               Spread props]
              (Some
                 (nodes children @
                  [El ''SelectPrimitive.Icon''
                     (jsx [At ''asChild'' (Some (Flag True))]
                        (Some [El ''ChevronDown'' (jsx [At ''className'' (str ''h-4 w-4 opacity-50'')] None)]))]))))"

definition SelectScrollUpButton :: "'v component" where
  "SelectScrollUpButton k p =
     (let ref = obj_get p ''ref'';
          className = obj_get p ''className'';
          props = rest [''className''] p
      in El ''SelectPrimitive.ScrollUpButton''
           (jsx
              [At ''ref'' ref,
               At ''className'' (cn k [str ''flex cursor-default items-center justify-center py-1'', className]),
               Spread props] (Some [El ''ChevronUp'' (jsx [At ''className'' (str ''h-4 w-4'')] None)])))"

definition SelectScrollDownButton :: "'v component" where
  "SelectScrollDownButton k p =
     (let ref = obj_get p ''ref'';
          className = obj_get p ''className'';
          props = rest [''className''] p
      in El ''SelectPrimitive.ScrollDownButton''
           (jsx
              [At ''ref'' ref,
               At ''className'' (cn k [str ''flex cursor-default items-center justify-center py-1'', className]),
               Spread props] (Some [El ''ChevronDown'' (jsx [At ''className'' (str ''h-4 w-4'')] None)])))"

definition SelectContent :: "'v component" where
  "SelectContent k p =
     (let ref = obj_get p ''ref'';
          className = obj_get p ''className'';
          children = obj_get p ''children'';
          position = v_default (obj_get p ''position'') (str ''popper'');
          props = rest [''className'', ''children'', ''position''] p
      in El ''SelectPrimitive.Portal''
           (jsx []
              (Some
                 [El ''SelectPrimitive.Content''
                    (jsx
                       [At ''ref'' ref,
                        At ''className''
                          (cn k
                             [str
                                ''relative z-50 max-h-96 min-w-[8rem] overflow-hidden rounded-md border bg-popover text-popover-foreground shadow-md data-[state=open]:animate-in data-[state=closed]:animate-out data-[state=closed]:fade-out-0 data-[state=open]:fade-in-0 data-[state=closed]:zoom-out-95 data-[state=open]:zoom-in-95 data-[side=bottom]:slide-in-from-top-2 data-[side=left]:slide-in-from-right-2 data-[side=right]:slide-in-from-left-2 data-[side=top]:slide-in-from-bottom-2'',
                              v_and (v_eq position (str ''popper''))
                                (str
                                   ''data-[side=bottom]:translate-y-1 data-[side=left]:-translate-x-1 data-[side=right]:translate-x-1 data-[side=top]:-translate-y-1''),
                              className]),
                        At ''position'' position,
                        Spread props]
                       (Some
                          [SelectScrollUpButton k (jsx [] None),
                           El ''SelectPrimitive.Viewport''
                             (jsx
                                [At ''className''
                                   (cn k
                                      [str ''p-1'',
                                       v_and (v_eq position (str ''popper''))
                                         (str
                                            ''h-[var(--radix-select-trigger-height)] w-full min-w-[var(--radix-select-trigger-width)]'')])]
                                (Some (nodes children))),
                           SelectScrollDownButton k (jsx [] None)]))])))"

definition SelectLabel :: "'v component" where
  "SelectLabel k p =
     (let ref = obj_get p ''ref'';
          className = obj_get p ''className'';
          props = rest [''className''] p
      in El ''SelectPrimitive.Label''
           (jsx
              [At ''ref'' ref,
               At ''className'' (cn k [str ''py-1.5 pl-8 pr-2 text-sm font-semibold'', className]),
               Spread props] None))"

definition SelectItem :: "'v component" where
  "SelectItem k p =
     (let ref = obj_get p ''ref'';
          className = obj_get p ''className'';
          children = obj_get p ''children'';
          props = rest [''className'', ''children''] p
      in El ''SelectPrimitive.Item''
           (jsx
              [At ''ref'' ref,
               At ''className''
                 (cn k
                    [str
                       ''relative flex w-full cursor-default select-none items-center rounded-sm py-1.5 pl-8 pr-2 text-sm outline-none data-[disabled]:pointer-events-none data-[disabled]:opacity-50 focus:bg-accent focus:text-accent-foreground'',
                     className]),
               Spread props]
              (Some
                 [El ''span''
                    (jsx [At ''className'' (str ''absolute left-2 flex h-3.5 w-3.5 items-center justify-center'')]
                       (Some
                          [El ''SelectPrimitive.ItemIndicator''
                             (jsx [] (Some [El ''Check'' (jsx [At ''className'' (str ''h-4 w-4'')] None)]))])),
                  El ''SelectPrimitive.ItemText'' (jsx [] (Some (nodes children)))])))"

definition SelectSeparator :: "'v component" where
  "SelectSeparator k p =
     (let ref = obj_get p ''ref'';
          className = obj_get p ''className'';
          props = rest [''className''] p
      in El ''SelectPrimitive.Separator''
           (jsx [At ''ref'' ref, At ''className'' (cn k [str ''-mx-1 my-1 h-px bg-muted'', className]), Spread props] None))"

definition InputOTP :: "'v component" where
  "InputOTP k p =
     (let ref = obj_get p ''ref'';
          className = obj_get p ''className'';
          containerClassName = obj_get p ''containerClassName'';
          props = rest [''className'', ''containerClassName''] p
      in El ''OTPInput''
           (jsx
              [At ''ref'' ref,
               At ''containerClassName''
                 (cn k [str ''flex items-center gap-2 has-[:disabled]:opacity-50'', containerClassName]),
               At ''className'' (cn k [str ''disabled:cursor-not-allowed'', className]),
               Spread props] None))"

definition InputOTPGroup :: "'v component" where
  "InputOTPGroup k p =
     (let ref = obj_get p ''ref'';
          className = obj_get p ''className'';
          props = rest [''className''] p
      in El ''div''
           (jsx [At ''ref'' ref, At ''className'' (cn k [str ''flex items-center'', className]), Spread props] None))"

definition InputOTPSeparator :: "'v component" where
  "InputOTPSeparator k p =
     (let ref = obj_get p ''ref'';
          props = rest [] p
      in El ''div''
           (jsx [At ''ref'' ref, At ''role'' (str ''separator''), Spread props] (Some [El ''Dot'' (jsx [] None)])))"

definition ToggleGroup :: "'v component" where
  "ToggleGroup k p =
     (let ref = obj_get p ''ref'';
          className = obj_get p ''className'';
          variant = obj_get p ''variant'';
          size = obj_get p ''size'';
          children = obj_get p ''children'';
          props = rest [''className'', ''variant'', ''size'', ''children''] p
      in El ''ToggleGroupPrimitive.Root''
           (jsx
              [At ''ref'' ref,
               At ''className'' (cn k [str ''flex items-center justify-center gap-1'', className]),
               Spread props]
              (Some
                 [El ''ToggleGroupContext.Provider''
                    (jsx [At ''value'' (Some (Obj (attributes [] [At ''variant'' variant, At ''size'' size])))]
                       (Some (nodes children)))])))"

definition ToggleGroupItem :: "'v props \<Rightarrow> 'v component" where
  "ToggleGroupItem ctx k p =
     (let ref = obj_get p ''ref'';
          className = obj_get p ''className'';
          children = obj_get p ''children'';
          variant = obj_get p ''variant'';
          size = obj_get p ''size'';
          props = rest [''className'', ''children'', ''variant'', ''size''] p
      in El ''ToggleGroupPrimitive.Item''
           (jsx
              [At ''ref'' ref,
               At ''className''
                 (cn k
                    [variants k toggleVariants
                       [At ''variant'' (v_or (obj_get ctx ''variant'') variant),
                        At ''size'' (v_or (obj_get ctx ''size'') size)],
                     className]),
               Spread props] (Some (nodes children))))"

definition Form :: "'v component" where
  "Form k p = El ''FormProvider'' p"

definition FormItem :: "'v props \<Rightarrow> 'v component" where
  "FormItem ctx k p =
     (let ref = obj_get p ''ref'';
          className = obj_get p ''className'';
          props = rest [''className''] p;
          id = obj_get ctx ''id''
      in El ''FormItemContext.Provider''
           (jsx [At ''value'' (Some (Obj (attributes [] [At ''id'' id])))]
              (Some
                 [El ''div''
                    (jsx [At ''ref'' ref, At ''className'' (cn k [str ''space-y-2'', className]), Spread props] None)])))"

definition FormLabel_element :: "'v props \<Rightarrow> 'v component" where
  "FormLabel_element ctx k p =
     (let ref = obj_get p ''ref'';
          className = obj_get p ''className'';
          props = rest [''className''] p;
          error = obj_get ctx ''error'';
          formItemId = obj_get ctx ''formItemId''
      in Label k
           (jsx
              [At ''ref'' ref,
               At ''className'' (cn k [v_and error (str ''text-destructive''), className]),
               At ''htmlFor'' formItemId,
               Spread props] None))"

definition FormDescription :: "'v props \<Rightarrow> 'v component" where
  "FormDescription ctx k p =
     (let ref = obj_get p ''ref'';
          className = obj_get p ''className'';
          props = rest [''className''] p;
          formDescriptionId = obj_get ctx ''formDescriptionId''
      in El ''p''
           (jsx
              [At ''ref'' ref,
               At ''id'' formDescriptionId,
               At ''className'' (cn k [str ''text-sm text-muted-foreground'', className]),
               Spread props] None))"

section \<open>What the components pass on\<close>

definition inputs_kit :: "'v props \<Rightarrow> (string list \<times> nat list \<times> 'v component) list" where
  "inputs_kit ctx =
     [([''className''], [], Label),
      ([''className'', ''type''], [], Input),
      ([''className''], [], Textarea),
      ([''className'', ''children''], [], Checkbox),
      ([''className''], [], RadioGroup),
      ([''className'', ''children''], [], RadioGroupItem),
      ([''className'', ''children''], [], Switch),
      ([''className'', ''children''], [], Slider),
      ([''className'', ''variant'', ''size''], [], Toggle),
      ([''className'', ''children''], [], SelectTrigger),
      ([''className'', ''children''], [], SelectScrollUpButton),
      ([''className'', ''children''], [], SelectScrollDownButton),
      ([''className'', ''children'', ''position''], [0], SelectContent),
      ([''className''], [], SelectLabel),
      ([''className'', ''children''], [], SelectItem),
      ([''className''], [], SelectSeparator),
      ([''className'', ''containerClassName''], [], InputOTP),
      ([''className''], [], InputOTPGroup),
      ([''children''], [], InputOTPSeparator),
      ([''className'', ''variant'', ''size'', ''children''], [], ToggleGroup),
      ([''className'', ''children'', ''variant'', ''size''], [], (ToggleGroupItem ctx)),
      ([''className''], [0], (FormItem ctx)),
      ([''className''], [], (FormLabel_element ctx)),
      ([''className''], [], (FormDescription ctx))]"

definition inputs_styled :: "'v props \<Rightarrow> (string list \<times> nat list \<times> 'v component) list" where
  "inputs_styled ctx =
     [([''className''], [], Label),
      ([''className'', ''type''], [], Input),
      ([''className''], [], Textarea),
      ([''className'', ''children''], [], Checkbox),
      ([''className''], [], RadioGroup),
      ([''className'', ''children''], [], RadioGroupItem),
      ([''className'', ''children''], [], Switch),
      ([''className'', ''children''], [], Slider),
      ([''className'', ''children''], [], SelectTrigger),
      ([''className'', ''children''], [], SelectScrollUpButton),
      ([''className'', ''children''], [], SelectScrollDownButton),
      ([''className'', ''children'', ''position''], [0], SelectContent),
      ([''className''], [], SelectLabel),
      ([''className'', ''children''], [], SelectItem),
      ([''className''], [], SelectSeparator),
      ([''className'', ''containerClassName''], [], InputOTP),
      ([''className''], [], InputOTPGroup),
      ([''className'', ''variant'', ''size'', ''children''], [], ToggleGroup),
      ([''className'', ''children'', ''variant'', ''size''], [], (ToggleGroupItem ctx)),
      ([''className''], [0], (FormItem ctx)),
      ([''className''], [], (FormDescription ctx))]"

lemmas inputs_defs = Label_def Input_def Textarea_def Checkbox_def RadioGroup_def
  RadioGroupItem_def Switch_def Slider_def Toggle_def Select_def
  SelectGroup_def SelectValue_def SelectTrigger_def SelectScrollUpButton_def SelectScrollDownButton_def
  SelectContent_def SelectLabel_def SelectItem_def SelectSeparator_def InputOTP_def
  InputOTPGroup_def InputOTPSeparator_def ToggleGroup_def ToggleGroupItem_def Form_def
  FormItem_def FormLabel_element_def FormDescription_def

lemma inputs_pass_on: "list_all passes_on (inputs_kit ctx)"
  by (simp add: inputs_kit_def inputs_defs passes_on_def Let_def)

lemma inputs_merge_last: "list_all merges_last (inputs_styled ctx)"
  by (simp add: inputs_styled_def inputs_defs merges_last_def Let_def)

end
