(* ===== verification/Ui_Menus.thy ===== *)
theory Ui_Menus
  imports Ui_Inputs
begin

text \<open>
  The menus of the kit (\<open>example-apps/onboarding-flow/src/components/ui\<close>): \<open>menubar.tsx\<close>, \<open>context-menu.tsx\<close>, \<open>dropdown-menu.tsx\<close>, \<open>navigation-menu.tsx\<close>.
\<close>

definition MenubarMenu :: "'v component" where
  "MenubarMenu k p = El ''MenubarPrimitive.Menu'' p"

definition MenubarGroup :: "'v component" where
  "MenubarGroup k p = El ''MenubarPrimitive.Group'' p"

definition MenubarPortal :: "'v component" where
  "MenubarPortal k p = El ''MenubarPrimitive.Portal'' p"

definition MenubarSub :: "'v component" where
  "MenubarSub k p = El ''MenubarPrimitive.Sub'' p"

definition MenubarRadioGroup :: "'v component" where
  "MenubarRadioGroup k p = El ''MenubarPrimitive.RadioGroup'' p"

definition Menubar :: "'v component" where
  "Menubar k p =
     (let ref = obj_get p ''ref'';
          className = obj_get p ''className'';
          props = rest [''className''] p
      in El ''MenubarPrimitive.Root''
           (jsx
              [At ''ref'' ref,
               At ''className''
                 (cn k [str ''flex h-10 items-center space-x-1 rounded-md border bg-background p-1'', className]),
               Spread props] None))"

definition MenubarTrigger :: "'v component" where
  "MenubarTrigger k p =
     (let ref = obj_get p ''ref'';
          className = obj_get p ''className'';
          props = rest [''className''] p
      in El ''MenubarPrimitive.Trigger''
           (jsx
              [At ''ref'' ref,
               At ''className''
                 (cn k
                    [str
                       ''flex cursor-default select-none items-center rounded-sm px-3 py-1.5 text-sm font-medium outline-none data-[state=open]:bg-accent data-[state=open]:text-accent-foreground focus:bg-accent focus:text-accent-foreground'',
                     className]),
               Spread props] None))"

definition MenubarSubTrigger :: "'v component" where
  "MenubarSubTrigger k p =
     (let ref = obj_get p ''ref'';
          className = obj_get p ''className'';
          inset = obj_get p ''inset'';
          children = obj_get p ''children'';
          props = rest [''className'', ''inset'', ''children''] p
      in El ''MenubarPrimitive.SubTrigger''
           (jsx
              [At ''ref'' ref,
               At ''className''
                 (cn k
                    [str
                       ''flex cursor-default select-none items-center rounded-sm px-2 py-1.5 text-sm outline-none data-[state=open]:bg-accent data-[state=open]:text-accent-foreground focus:bg-accent focus:text-accent-foreground'',
                     v_and inset (str ''pl-8''),
                     className]),
               Spread props]
              (Some (nodes children @ [El ''ChevronRight'' (jsx [At ''className'' (str ''ml-auto h-4 w-4'')] None)]))))"

definition MenubarSubContent :: "'v component" where
  "MenubarSubContent k p =
     (let ref = obj_get p ''ref'';
          className = obj_get p ''className'';
          props = rest [''className''] p
      in El ''MenubarPrimitive.SubContent''
           (jsx
              [At ''ref'' ref,
               At ''className''
                 (cn k
                    [str
                       ''z-50 min-w-[8rem] overflow-hidden rounded-md border bg-popover p-1 text-popover-foreground data-[state=open]:animate-in data-[state=closed]:animate-out data-[state=closed]:fade-out-0 data-[state=open]:fade-in-0 data-[state=closed]:zoom-out-95 data-[state=open]:zoom-in-95 data-[side=bottom]:slide-in-from-top-2 data-[side=left]:slide-in-from-right-2 data-[side=right]:slide-in-from-left-2 data-[side=top]:slide-in-from-bottom-2'',
                     className]),
               Spread props] None))"

definition MenubarContent :: "'v component" where
  "MenubarContent k p =
     (let ref = obj_get p ''ref'';
          className = obj_get p ''className'';
          align = v_default (obj_get p ''align'') (str ''start'');
          alignOffset = v_default (obj_get p ''alignOffset'') (Some (Num (- 4)));
          sideOffset = v_default (obj_get p ''sideOffset'') (Some (Num 8));
          props = rest [''className'', ''align'', ''alignOffset'', ''sideOffset''] p
      in El ''MenubarPrimitive.Portal''
           (jsx []
              (Some
                 [El ''MenubarPrimitive.Content''
                    (jsx
                       [At ''ref'' ref,
                        At ''align'' align,
                        At ''alignOffset'' alignOffset,
                        At ''sideOffset'' sideOffset,
                        At ''className''
                          (cn k
                             [str
                                ''z-50 min-w-[12rem] overflow-hidden rounded-md border bg-popover p-1 text-popover-foreground shadow-md data-[state=open]:animate-in data-[state=closed]:fade-out-0 data-[state=open]:fade-in-0 data-[state=closed]:zoom-out-95 data-[state=open]:zoom-in-95 data-[side=bottom]:slide-in-from-top-2 data-[side=left]:slide-in-from-right-2 data-[side=right]:slide-in-from-left-2 data-[side=top]:slide-in-from-bottom-2'',
                              className]),
                        Spread props] None)])))"

definition MenubarItem :: "'v component" where
  "MenubarItem k p =
     (let ref = obj_get p ''ref'';
          className = obj_get p ''className'';
          inset = obj_get p ''inset'';
          props = rest [''className'', ''inset''] p
      in El ''MenubarPrimitive.Item''
           (jsx
              [At ''ref'' ref,
               At ''className''
                 (cn k
                    [str
                       ''relative flex cursor-default select-none items-center rounded-sm px-2 py-1.5 text-sm outline-none data-[disabled]:pointer-events-none data-[disabled]:opacity-50 focus:bg-accent focus:text-accent-foreground'',
                     v_and inset (str ''pl-8''),
                     className]),
               Spread props] None))"

definition MenubarCheckboxItem :: "'v component" where
  "MenubarCheckboxItem k p =
     (let ref = obj_get p ''ref'';
          className = obj_get p ''className'';
          children = obj_get p ''children'';
          checked = obj_get p ''checked'';
          props = rest [''className'', ''children'', ''checked''] p
      in El ''MenubarPrimitive.CheckboxItem''
           (jsx
              [At ''ref'' ref,
               At ''className''
                 (cn k
                    [str
                       ''relative flex cursor-default select-none items-center rounded-sm py-1.5 pl-8 pr-2 text-sm outline-none data-[disabled]:pointer-events-none data-[disabled]:opacity-50 focus:bg-accent focus:text-accent-foreground'',
                     className]),
               At ''checked'' checked,
               Spread props]
              (Some
                 ([El ''span''
                     (jsx [At ''className'' (str ''absolute left-2 flex h-3.5 w-3.5 items-center justify-center'')]
                        (Some
                           [El ''MenubarPrimitive.ItemIndicator''
                              (jsx [] (Some [El ''Check'' (jsx [At ''className'' (str ''h-4 w-4'')] None)]))]))] @
                  nodes children))))"

definition MenubarRadioItem :: "'v component" where
  "MenubarRadioItem k p =
     (let ref = obj_get p ''ref'';
          className = obj_get p ''className'';
          children = obj_get p ''children'';
          props = rest [''className'', ''children''] p
      in El ''MenubarPrimitive.RadioItem''
           (jsx
              [At ''ref'' ref,
               At ''className''
                 (cn k
                    [str
                       ''relative flex cursor-default select-none items-center rounded-sm py-1.5 pl-8 pr-2 text-sm outline-none data-[disabled]:pointer-events-none data-[disabled]:opacity-50 focus:bg-accent focus:text-accent-foreground'',
                     className]),
               Spread props]
              (Some
                 ([El ''span''
                     (jsx [At ''className'' (str ''absolute left-2 flex h-3.5 w-3.5 items-center justify-center'')]
                        (Some
                           [El ''MenubarPrimitive.ItemIndicator''
                              (jsx [] (Some [El ''Circle'' (jsx [At ''className'' (str ''h-2 w-2 fill-current'')] None)]))]))] @
                  nodes children))))"

definition MenubarLabel :: "'v component" where
  "MenubarLabel k p =
     (let ref = obj_get p ''ref'';
          className = obj_get p ''className'';
          inset = obj_get p ''inset'';
          props = rest [''className'', ''inset''] p
      in El ''MenubarPrimitive.Label''
           (jsx
              [At ''ref'' ref,
               At ''className'' (cn k [str ''px-2 py-1.5 text-sm font-semibold'', v_and inset (str ''pl-8''), className]),
               Spread props] None))"

definition MenubarSeparator :: "'v component" where
  "MenubarSeparator k p =
     (let ref = obj_get p ''ref'';
          className = obj_get p ''className'';
          props = rest [''className''] p
      in El ''MenubarPrimitive.Separator''
           (jsx [At ''ref'' ref, At ''className'' (cn k [str ''-mx-1 my-1 h-px bg-muted'', className]), Spread props] None))"

definition MenubarShortcut :: "'v component" where
  "MenubarShortcut k p =
     (let className = obj_get p ''className'';
          props = rest [''className''] p
      in El ''span''
           (jsx
              [At ''className'' (cn k [str ''ml-auto text-xs tracking-widest text-muted-foreground'', className]),
               Spread props] None))"

definition ContextMenu :: "'v component" where
  "ContextMenu k p = El ''ContextMenuPrimitive.Root'' p"

definition ContextMenuTrigger :: "'v component" where
  "ContextMenuTrigger k p = El ''ContextMenuPrimitive.Trigger'' p"

definition ContextMenuGroup :: "'v component" where
  "ContextMenuGroup k p = El ''ContextMenuPrimitive.Group'' p"

definition ContextMenuPortal :: "'v component" where
  "ContextMenuPortal k p = El ''ContextMenuPrimitive.Portal'' p"

definition ContextMenuSub :: "'v component" where
  "ContextMenuSub k p = El ''ContextMenuPrimitive.Sub'' p"

definition ContextMenuRadioGroup :: "'v component" where
  "ContextMenuRadioGroup k p = El ''ContextMenuPrimitive.RadioGroup'' p"

definition ContextMenuSubTrigger :: "'v component" where
  "ContextMenuSubTrigger k p =
     (let ref = obj_get p ''ref'';
          className = obj_get p ''className'';
          inset = obj_get p ''inset'';
          children = obj_get p ''children'';
          props = rest [''className'', ''inset'', ''children''] p
      in El ''ContextMenuPrimitive.SubTrigger''
           (jsx
              [At ''ref'' ref,
               At ''className''
                 (cn k
                    [str
                       ''flex cursor-default select-none items-center rounded-sm px-2 py-1.5 text-sm outline-none data-[state=open]:bg-accent data-[state=open]:text-accent-foreground focus:bg-accent focus:text-accent-foreground'',
                     v_and inset (str ''pl-8''),
                     className]),
               Spread props]
              (Some (nodes children @ [El ''ChevronRight'' (jsx [At ''className'' (str ''ml-auto h-4 w-4'')] None)]))))"

definition ContextMenuSubContent :: "'v component" where
  "ContextMenuSubContent k p =
     (let ref = obj_get p ''ref'';
          className = obj_get p ''className'';
          props = rest [''className''] p
      in El ''ContextMenuPrimitive.SubContent''
           (jsx
              [At ''ref'' ref,
               At ''className''
                 (cn k
                    [str
                       ''z-50 min-w-[8rem] overflow-hidden rounded-md border bg-popover p-1 text-popover-foreground shadow-md data-[state=open]:animate-in data-[state=closed]:animate-out data-[state=closed]:fade-out-0 data-[state=open]:fade-in-0 data-[state=closed]:zoom-out-95 data-[state=open]:zoom-in-95 data-[side=bottom]:slide-in-from-top-2 data-[side=left]:slide-in-from-right-2 data-[side=right]:slide-in-from-left-2 data-[side=top]:slide-in-from-bottom-2'',
                     className]),
               Spread props] None))"

definition ContextMenuContent :: "'v component" where
  "ContextMenuContent k p =
     (let ref = obj_get p ''ref'';
          className = obj_get p ''className'';
          props = rest [''className''] p
      in El ''ContextMenuPrimitive.Portal''
           (jsx []
              (Some
                 [El ''ContextMenuPrimitive.Content''
                    (jsx
                       [At ''ref'' ref,
                        At ''className''
                          (cn k
                             [str
                                ''z-50 min-w-[8rem] overflow-hidden rounded-md border bg-popover p-1 text-popover-foreground shadow-md animate-in fade-in-80 data-[state=open]:animate-in data-[state=closed]:animate-out data-[state=closed]:fade-out-0 data-[state=open]:fade-in-0 data-[state=closed]:zoom-out-95 data-[state=open]:zoom-in-95 data-[side=bottom]:slide-in-from-top-2 data-[side=left]:slide-in-from-right-2 data-[side=right]:slide-in-from-left-2 data-[side=top]:slide-in-from-bottom-2'',
                              className]),
                        Spread props] None)])))"

definition ContextMenuItem :: "'v component" where
  "ContextMenuItem k p =
     (let ref = obj_get p ''ref'';
          className = obj_get p ''className'';
          inset = obj_get p ''inset'';
          props = rest [''className'', ''inset''] p
      in El ''ContextMenuPrimitive.Item''
           (jsx
              [At ''ref'' ref,
               At ''className''
                 (cn k
                    [str
                       ''relative flex cursor-default select-none items-center rounded-sm px-2 py-1.5 text-sm outline-none data-[disabled]:pointer-events-none data-[disabled]:opacity-50 focus:bg-accent focus:text-accent-foreground'',
                     v_and inset (str ''pl-8''),
                     className]),
               Spread props] None))"

definition ContextMenuCheckboxItem :: "'v component" where
  "ContextMenuCheckboxItem k p =
     (let ref = obj_get p ''ref'';
          className = obj_get p ''className'';
          children = obj_get p ''children'';
          checked = obj_get p ''checked'';
          props = rest [''className'', ''children'', ''checked''] p
      in El ''ContextMenuPrimitive.CheckboxItem''
           (jsx
              [At ''ref'' ref,
               At ''className''
                 (cn k
                    [str
                       ''relative flex cursor-default select-none items-center rounded-sm py-1.5 pl-8 pr-2 text-sm outline-none data-[disabled]:pointer-events-none data-[disabled]:opacity-50 focus:bg-accent focus:text-accent-foreground'',
                     className]),
               At ''checked'' checked,
               Spread props]
              (Some
                 ([El ''span''
                     (jsx [At ''className'' (str ''absolute left-2 flex h-3.5 w-3.5 items-center justify-center'')]
                        (Some
                           [El ''ContextMenuPrimitive.ItemIndicator''
                              (jsx [] (Some [El ''Check'' (jsx [At ''className'' (str ''h-4 w-4'')] None)]))]))] @
                  nodes children))))"

definition ContextMenuRadioItem :: "'v component" where
  "ContextMenuRadioItem k p =
     (let ref = obj_get p ''ref'';
          className = obj_get p ''className'';
          children = obj_get p ''children'';
          props = rest [''className'', ''children''] p
      in El ''ContextMenuPrimitive.RadioItem''
           (jsx
              [At ''ref'' ref,
               At ''className''
                 (cn k
                    [str
                       ''relative flex cursor-default select-none items-center rounded-sm py-1.5 pl-8 pr-2 text-sm outline-none data-[disabled]:pointer-events-none data-[disabled]:opacity-50 focus:bg-accent focus:text-accent-foreground'',
                     className]),
               Spread props]
              (Some
                 ([El ''span''
                     (jsx [At ''className'' (str ''absolute left-2 flex h-3.5 w-3.5 items-center justify-center'')]
                        (Some
                           [El ''ContextMenuPrimitive.ItemIndicator''
                              (jsx [] (Some [El ''Circle'' (jsx [At ''className'' (str ''h-2 w-2 fill-current'')] None)]))]))] @
                  nodes children))))"

definition ContextMenuLabel :: "'v component" where
  "ContextMenuLabel k p =
     (let ref = obj_get p ''ref'';
          className = obj_get p ''className'';
          inset = obj_get p ''inset'';
          props = rest [''className'', ''inset''] p
      in El ''ContextMenuPrimitive.Label''
           (jsx
              [At ''ref'' ref,
               At ''className''
                 (cn k [str ''px-2 py-1.5 text-sm font-semibold text-foreground'', v_and inset (str ''pl-8''), className]),
               Spread props] None))"

definition ContextMenuSeparator :: "'v component" where
  "ContextMenuSeparator k p =
     (let ref = obj_get p ''ref'';
          className = obj_get p ''className'';
          props = rest [''className''] p
      in El ''ContextMenuPrimitive.Separator''
           (jsx [At ''ref'' ref, At ''className'' (cn k [str ''-mx-1 my-1 h-px bg-border'', className]), Spread props]
              None))"

definition ContextMenuShortcut :: "'v component" where
  "ContextMenuShortcut k p =
     (let className = obj_get p ''className'';
          props = rest [''className''] p
      in El ''span''
           (jsx
              [At ''className'' (cn k [str ''ml-auto text-xs tracking-widest text-muted-foreground'', className]),
               Spread props] None))"

definition DropdownMenu :: "'v component" where
  "DropdownMenu k p = El ''DropdownMenuPrimitive.Root'' p"

definition DropdownMenuTrigger :: "'v component" where
  "DropdownMenuTrigger k p = El ''DropdownMenuPrimitive.Trigger'' p"

definition DropdownMenuGroup :: "'v component" where
  "DropdownMenuGroup k p = El ''DropdownMenuPrimitive.Group'' p"

definition DropdownMenuPortal :: "'v component" where
  "DropdownMenuPortal k p = El ''DropdownMenuPrimitive.Portal'' p"

definition DropdownMenuSub :: "'v component" where
  "DropdownMenuSub k p = El ''DropdownMenuPrimitive.Sub'' p"

definition DropdownMenuRadioGroup :: "'v component" where
  "DropdownMenuRadioGroup k p = El ''DropdownMenuPrimitive.RadioGroup'' p"

definition DropdownMenuSubTrigger :: "'v component" where
  "DropdownMenuSubTrigger k p =
     (let ref = obj_get p ''ref'';
          className = obj_get p ''className'';
          inset = obj_get p ''inset'';
          children = obj_get p ''children'';
          props = rest [''className'', ''inset'', ''children''] p
      in El ''DropdownMenuPrimitive.SubTrigger''
           (jsx
              [At ''ref'' ref,
               At ''className''
                 (cn k
                    [str
                       ''flex cursor-default select-none items-center rounded-sm px-2 py-1.5 text-sm outline-none data-[state=open]:bg-accent focus:bg-accent'',
                     v_and inset (str ''pl-8''),
                     className]),
               Spread props]
              (Some (nodes children @ [El ''ChevronRight'' (jsx [At ''className'' (str ''ml-auto h-4 w-4'')] None)]))))"

definition DropdownMenuSubContent :: "'v component" where
  "DropdownMenuSubContent k p =
     (let ref = obj_get p ''ref'';
          className = obj_get p ''className'';
          props = rest [''className''] p
      in El ''DropdownMenuPrimitive.SubContent''
           (jsx
              [At ''ref'' ref,
               At ''className''
                 (cn k
                    [str
                       ''z-50 min-w-[8rem] overflow-hidden rounded-md border bg-popover p-1 text-popover-foreground shadow-lg data-[state=open]:animate-in data-[state=closed]:animate-out data-[state=closed]:fade-out-0 data-[state=open]:fade-in-0 data-[state=closed]:zoom-out-95 data-[state=open]:zoom-in-95 data-[side=bottom]:slide-in-from-top-2 data-[side=left]:slide-in-from-right-2 data-[side=right]:slide-in-from-left-2 data-[side=top]:slide-in-from-bottom-2'',
                     className]),
               Spread props] None))"

definition DropdownMenuContent :: "'v component" where
  "DropdownMenuContent k p =
     (let ref = obj_get p ''ref'';
          className = obj_get p ''className'';
          sideOffset = v_default (obj_get p ''sideOffset'') (Some (Num 4));
          props = rest [''className'', ''sideOffset''] p
      in El ''DropdownMenuPrimitive.Portal''
           (jsx []
              (Some
                 [El ''DropdownMenuPrimitive.Content''
                    (jsx
                       [At ''ref'' ref,
                        At ''sideOffset'' sideOffset,
                        At ''className''
                          (cn k
                             [str
                                ''z-50 min-w-[8rem] overflow-hidden rounded-md border bg-popover p-1 text-popover-foreground shadow-md data-[state=open]:animate-in data-[state=closed]:animate-out data-[state=closed]:fade-out-0 data-[state=open]:fade-in-0 data-[state=closed]:zoom-out-95 data-[state=open]:zoom-in-95 data-[side=bottom]:slide-in-from-top-2 data-[side=left]:slide-in-from-right-2 data-[side=right]:slide-in-from-left-2 data-[side=top]:slide-in-from-bottom-2'',
                              className]),
                        Spread props] None)])))"

definition DropdownMenuItem :: "'v component" where
  "DropdownMenuItem k p =
     (let ref = obj_get p ''ref'';
          className = obj_get p ''className'';
          inset = obj_get p ''inset'';
          props = rest [''className'', ''inset''] p
      in El ''DropdownMenuPrimitive.Item''
           (jsx
              [At ''ref'' ref,
               At ''className''
                 (cn k
                    [str
                       ''relative flex cursor-default select-none items-center rounded-sm px-2 py-1.5 text-sm outline-none transition-colors data-[disabled]:pointer-events-none data-[disabled]:opacity-50 focus:bg-accent focus:text-accent-foreground'',
                     v_and inset (str ''pl-8''),
                     className]),
               Spread props] None))"

definition DropdownMenuCheckboxItem :: "'v component" where
  "DropdownMenuCheckboxItem k p =
     (let ref = obj_get p ''ref'';
          className = obj_get p ''className'';
          children = obj_get p ''children'';
          checked = obj_get p ''checked'';
          props = rest [''className'', ''children'', ''checked''] p
      in El ''DropdownMenuPrimitive.CheckboxItem''
           (jsx
              [At ''ref'' ref,
               At ''className''
                 (cn k
                    [str
                       ''relative flex cursor-default select-none items-center rounded-sm py-1.5 pl-8 pr-2 text-sm outline-none transition-colors data-[disabled]:pointer-events-none data-[disabled]:opacity-50 focus:bg-accent focus:text-accent-foreground'',
                     className]),
               At ''checked'' checked,
               Spread props]
              (Some
                 ([El ''span''
                     (jsx [At ''className'' (str ''absolute left-2 flex h-3.5 w-3.5 items-center justify-center'')]
                        (Some
                           [El ''DropdownMenuPrimitive.ItemIndicator''
                              (jsx [] (Some [El ''Check'' (jsx [At ''className'' (str ''h-4 w-4'')] None)]))]))] @
                  nodes children))))"

definition DropdownMenuRadioItem :: "'v component" where
  "DropdownMenuRadioItem k p =
     (let ref = obj_get p ''ref'';
          className = obj_get p ''className'';
          children = obj_get p ''children'';
          props = rest [''className'', ''children''] p
      in El ''DropdownMenuPrimitive.RadioItem''
           (jsx
              [At ''ref'' ref,
               At ''className''
                 (cn k
                    [str
                       ''relative flex cursor-default select-none items-center rounded-sm py-1.5 pl-8 pr-2 text-sm outline-none transition-colors data-[disabled]:pointer-events-none data-[disabled]:opacity-50 focus:bg-accent focus:text-accent-foreground'',
                     className]),
               Spread props]
              (Some
                 ([El ''span''
                     (jsx [At ''className'' (str ''absolute left-2 flex h-3.5 w-3.5 items-center justify-center'')]
                        (Some
                           [El ''DropdownMenuPrimitive.ItemIndicator''
                              (jsx [] (Some [El ''Circle'' (jsx [At ''className'' (str ''h-2 w-2 fill-current'')] None)]))]))] @
                  nodes children))))"

definition DropdownMenuLabel :: "'v component" where
  "DropdownMenuLabel k p =
     (let ref = obj_get p ''ref'';
          className = obj_get p ''className'';
          inset = obj_get p ''inset'';
          props = rest [''className'', ''inset''] p
      in El ''DropdownMenuPrimitive.Label''
           (jsx
              [At ''ref'' ref,
               At ''className'' (cn k [str ''px-2 py-1.5 text-sm font-semibold'', v_and inset (str ''pl-8''), className]),
               Spread props] None))"

definition DropdownMenuSeparator :: "'v component" where
  "DropdownMenuSeparator k p =
     (let ref = obj_get p ''ref'';
          className = obj_get p ''className'';
          props = rest [''className''] p
      in El ''DropdownMenuPrimitive.Separator''
           (jsx [At ''ref'' ref, At ''className'' (cn k [str ''-mx-1 my-1 h-px bg-muted'', className]), Spread props] None))"

definition DropdownMenuShortcut :: "'v component" where
  "DropdownMenuShortcut k p =
     (let className = obj_get p ''className'';
          props = rest [''className''] p
      in El ''span''
           (jsx [At ''className'' (cn k [str ''ml-auto text-xs tracking-widest opacity-60'', className]), Spread props]
              None))"

definition NavigationMenuList :: "'v component" where
  "NavigationMenuList k p =
     (let ref = obj_get p ''ref'';
          className = obj_get p ''className'';
          props = rest [''className''] p
      in El ''NavigationMenuPrimitive.List''
           (jsx
              [At ''ref'' ref,
               At ''className''
                 (cn k [str ''group flex flex-1 list-none items-center justify-center space-x-1'', className]),
               Spread props] None))"

definition NavigationMenuItem :: "'v component" where
  "NavigationMenuItem k p = El ''NavigationMenuPrimitive.Item'' p"

definition navigationMenuTriggerStyle :: cva_config where
  "navigationMenuTriggerStyle =
     \<lparr>cva_base =
       ''group inline-flex h-10 w-max items-center justify-center rounded-md bg-background px-4 py-2 text-sm font-medium transition-colors hover:bg-accent hover:text-accent-foreground focus:bg-accent focus:text-accent-foreground focus:outline-none disabled:pointer-events-none disabled:opacity-50 data-[active]:bg-accent/50 data-[state=open]:bg-accent/50''
       , cva_variants = [] , cva_defaults = [] \<rparr>"

definition NavigationMenuTrigger :: "'v component" where
  "NavigationMenuTrigger k p =
     (let ref = obj_get p ''ref'';
          className = obj_get p ''className'';
          children = obj_get p ''children'';
          props = rest [''className'', ''children''] p
      in El ''NavigationMenuPrimitive.Trigger''
           (jsx
              [At ''ref'' ref,
               At ''className'' (cn k [variants k navigationMenuTriggerStyle [], str ''group'', className]),
               Spread props]
              (Some
                 (nodes children @
                  [Text '' '',
                   El ''ChevronDown''
                     (jsx
                        [At ''className''
                           (str
                              ''relative top-[1px] ml-1 h-3 w-3 transition duration-200 group-data-[state=open]:rotate-180''),
                         At ''aria-hidden'' (str ''true'')] None)]))))"

definition NavigationMenuContent :: "'v component" where
  "NavigationMenuContent k p =
     (let ref = obj_get p ''ref'';
          className = obj_get p ''className'';
          props = rest [''className''] p
      in El ''NavigationMenuPrimitive.Content''
           (jsx
              [At ''ref'' ref,
               At ''className''
                 (cn k
                    [str
                       ''left-0 top-0 w-full data-[motion^=from-]:animate-in data-[motion^=to-]:animate-out data-[motion^=from-]:fade-in data-[motion^=to-]:fade-out data-[motion=from-end]:slide-in-from-right-52 data-[motion=from-start]:slide-in-from-left-52 data-[motion=to-end]:slide-out-to-right-52 data-[motion=to-start]:slide-out-to-left-52 md:absolute md:w-auto'',
                     className]),
               Spread props] None))"

definition NavigationMenuLink :: "'v component" where
  "NavigationMenuLink k p = El ''NavigationMenuPrimitive.Link'' p"

definition NavigationMenuViewport :: "'v component" where
  "NavigationMenuViewport k p =
     (let ref = obj_get p ''ref'';
          className = obj_get p ''className'';
          props = rest [''className''] p
      in El ''div''
           (jsx [At ''className'' (cn k [str ''absolute left-0 top-full flex justify-center''])]
              (Some
                 [El ''NavigationMenuPrimitive.Viewport''
                    (jsx
                       [At ''className''
                          (cn k
                             [str
                                ''origin-top-center relative mt-1.5 h-[var(--radix-navigation-menu-viewport-height)] w-full overflow-hidden rounded-md border bg-popover text-popover-foreground shadow-lg data-[state=open]:animate-in data-[state=closed]:animate-out data-[state=closed]:zoom-out-95 data-[state=open]:zoom-in-90 md:w-[var(--radix-navigation-menu-viewport-width)]'',
                              className]),
                        At ''ref'' ref,
                        Spread props] None)])))"

definition NavigationMenu :: "'v component" where
  "NavigationMenu k p =
     (let ref = obj_get p ''ref'';
          className = obj_get p ''className'';
          children = obj_get p ''children'';
          props = rest [''className'', ''children''] p
      in El ''NavigationMenuPrimitive.Root''
           (jsx
              [At ''ref'' ref,
               At ''className''
                 (cn k [str ''relative z-10 flex max-w-max flex-1 items-center justify-center'', className]),
               Spread props] (Some (nodes children @ [NavigationMenuViewport k (jsx [] None)]))))"

definition NavigationMenuIndicator :: "'v component" where
  "NavigationMenuIndicator k p =
     (let ref = obj_get p ''ref'';
          className = obj_get p ''className'';
          props = rest [''className''] p
      in El ''NavigationMenuPrimitive.Indicator''
           (jsx
              [At ''ref'' ref,
               At ''className''
                 (cn k
                    [str
                       ''top-full z-[1] flex h-1.5 items-end justify-center overflow-hidden data-[state=visible]:animate-in data-[state=hidden]:animate-out data-[state=hidden]:fade-out data-[state=visible]:fade-in'',
                     className]),
               Spread props]
              (Some
                 [El ''div''
                    (jsx
                       [At ''className'' (str ''relative top-[60%] h-2 w-2 rotate-45 rounded-tl-sm bg-border shadow-md'')]
                       None)])))"

section \<open>What the components pass on\<close>

definition menus_kit :: "(string list \<times> nat list \<times> 'v component) list" where
  "menus_kit =
     [([''className''], [], Menubar),
      ([''className''], [], MenubarTrigger),
      ([''className'', ''inset'', ''children''], [], MenubarSubTrigger),
      ([''className''], [], MenubarSubContent),
      ([''className'', ''align'', ''alignOffset'', ''sideOffset''], [0], MenubarContent),
      ([''className'', ''inset''], [], MenubarItem),
      ([''className'', ''children'', ''checked''], [], MenubarCheckboxItem),
      ([''className'', ''children''], [], MenubarRadioItem),
      ([''className'', ''inset''], [], MenubarLabel),
      ([''className''], [], MenubarSeparator),
      ([''className''], [], MenubarShortcut),
      ([''className'', ''inset'', ''children''], [], ContextMenuSubTrigger),
      ([''className''], [], ContextMenuSubContent),
      ([''className''], [0], ContextMenuContent),
      ([''className'', ''inset''], [], ContextMenuItem),
      ([''className'', ''children'', ''checked''], [], ContextMenuCheckboxItem),
      ([''className'', ''children''], [], ContextMenuRadioItem),
      ([''className'', ''inset''], [], ContextMenuLabel),
      ([''className''], [], ContextMenuSeparator),
      ([''className''], [], ContextMenuShortcut),
      ([''className'', ''inset'', ''children''], [], DropdownMenuSubTrigger),
      ([''className''], [], DropdownMenuSubContent),
      ([''className'', ''sideOffset''], [0], DropdownMenuContent),
      ([''className'', ''inset''], [], DropdownMenuItem),
      ([''className'', ''children'', ''checked''], [], DropdownMenuCheckboxItem),
      ([''className'', ''children''], [], DropdownMenuRadioItem),
      ([''className'', ''inset''], [], DropdownMenuLabel),
      ([''className''], [], DropdownMenuSeparator),
      ([''className''], [], DropdownMenuShortcut),
      ([''className''], [], NavigationMenuList),
      ([''className'', ''children''], [], NavigationMenuTrigger),
      ([''className''], [], NavigationMenuContent),
      ([''className''], [0], NavigationMenuViewport),
      ([''className'', ''children''], [], NavigationMenu),
      ([''className'', ''children''], [], NavigationMenuIndicator)]"

definition menus_styled :: "(string list \<times> nat list \<times> 'v component) list" where
  "menus_styled =
     [([''className''], [], Menubar),
      ([''className''], [], MenubarTrigger),
      ([''className'', ''inset'', ''children''], [], MenubarSubTrigger),
      ([''className''], [], MenubarSubContent),
      ([''className'', ''align'', ''alignOffset'', ''sideOffset''], [0], MenubarContent),
      ([''className'', ''inset''], [], MenubarItem),
      ([''className'', ''children'', ''checked''], [], MenubarCheckboxItem),
      ([''className'', ''children''], [], MenubarRadioItem),
      ([''className'', ''inset''], [], MenubarLabel),
      ([''className''], [], MenubarSeparator),
      ([''className''], [], MenubarShortcut),
      ([''className'', ''inset'', ''children''], [], ContextMenuSubTrigger),
      ([''className''], [], ContextMenuSubContent),
      ([''className''], [0], ContextMenuContent),
      ([''className'', ''inset''], [], ContextMenuItem),
      ([''className'', ''children'', ''checked''], [], ContextMenuCheckboxItem),
      ([''className'', ''children''], [], ContextMenuRadioItem),
      ([''className'', ''inset''], [], ContextMenuLabel),
      ([''className''], [], ContextMenuSeparator),
      ([''className''], [], ContextMenuShortcut),
      ([''className'', ''inset'', ''children''], [], DropdownMenuSubTrigger),
      ([''className''], [], DropdownMenuSubContent),
      ([''className'', ''sideOffset''], [0], DropdownMenuContent),
      ([''className'', ''inset''], [], DropdownMenuItem),
      ([''className'', ''children'', ''checked''], [], DropdownMenuCheckboxItem),
      ([''className'', ''children''], [], DropdownMenuRadioItem),
      ([''className'', ''inset''], [], DropdownMenuLabel),
      ([''className''], [], DropdownMenuSeparator),
      ([''className''], [], DropdownMenuShortcut),
      ([''className''], [], NavigationMenuList),
      ([''className'', ''children''], [], NavigationMenuTrigger),
      ([''className''], [], NavigationMenuContent),
      ([''className''], [0], NavigationMenuViewport),
      ([''className'', ''children''], [], NavigationMenu),
      ([''className'', ''children''], [], NavigationMenuIndicator)]"

lemmas menus_defs = MenubarMenu_def MenubarGroup_def MenubarPortal_def MenubarSub_def MenubarRadioGroup_def
  Menubar_def MenubarTrigger_def MenubarSubTrigger_def MenubarSubContent_def MenubarContent_def
  MenubarItem_def MenubarCheckboxItem_def MenubarRadioItem_def MenubarLabel_def MenubarSeparator_def
  MenubarShortcut_def ContextMenu_def ContextMenuTrigger_def ContextMenuGroup_def ContextMenuPortal_def
  ContextMenuSub_def ContextMenuRadioGroup_def ContextMenuSubTrigger_def ContextMenuSubContent_def ContextMenuContent_def
  ContextMenuItem_def ContextMenuCheckboxItem_def ContextMenuRadioItem_def ContextMenuLabel_def ContextMenuSeparator_def
  ContextMenuShortcut_def DropdownMenu_def DropdownMenuTrigger_def DropdownMenuGroup_def DropdownMenuPortal_def
  DropdownMenuSub_def DropdownMenuRadioGroup_def DropdownMenuSubTrigger_def DropdownMenuSubContent_def DropdownMenuContent_def
  DropdownMenuItem_def DropdownMenuCheckboxItem_def DropdownMenuRadioItem_def DropdownMenuLabel_def DropdownMenuSeparator_def
  DropdownMenuShortcut_def NavigationMenuList_def NavigationMenuItem_def NavigationMenuTrigger_def NavigationMenuContent_def
  NavigationMenuLink_def NavigationMenuViewport_def NavigationMenu_def NavigationMenuIndicator_def

lemma menus_pass_on: "list_all passes_on (menus_kit)"
  by (simp add: menus_kit_def menus_defs passes_on_def Let_def)

lemma menus_merge_last: "list_all merges_last (menus_styled)"
  by (simp add: menus_styled_def menus_defs merges_last_def Let_def)

end
