(* ===== verification/Ui_Overlays.thy ===== *)
theory Ui_Overlays
  imports Ui_Menus
begin

text \<open>
  The overlays of the kit (\<open>example-apps/onboarding-flow/src/components/ui\<close>): \<open>tooltip.tsx\<close>, \<open>popover.tsx\<close>, \<open>hover-card.tsx\<close>, \<open>dialog.tsx\<close>, \<open>alert-dialog.tsx\<close>, \<open>sheet.tsx\<close>, \<open>drawer.tsx\<close>, \<open>toast.tsx\<close>, \<open>command.tsx\<close>, \<open>sonner.tsx\<close>, \<open>carousel.tsx\<close>.
\<close>

definition TooltipProvider :: "'v component" where
  "TooltipProvider k p = El ''TooltipPrimitive.Provider'' p"

definition Tooltip :: "'v component" where
  "Tooltip k p = El ''TooltipPrimitive.Root'' p"

definition TooltipTrigger :: "'v component" where
  "TooltipTrigger k p = El ''TooltipPrimitive.Trigger'' p"

definition TooltipContent :: "'v component" where
  "TooltipContent k p =
     (let ref = obj_get p ''ref'';
          className = obj_get p ''className'';
          sideOffset = v_default (obj_get p ''sideOffset'') (Some (Num 4));
          props = rest [''className'', ''sideOffset''] p
      in El ''TooltipPrimitive.Content''
           (jsx
              [At ''ref'' ref,
               At ''sideOffset'' sideOffset,
               At ''className''
                 (cn k
                    [str
                       ''z-50 overflow-hidden rounded-md border bg-popover px-3 py-1.5 text-sm text-popover-foreground shadow-md animate-in fade-in-0 zoom-in-95 data-[state=closed]:animate-out data-[state=closed]:fade-out-0 data-[state=closed]:zoom-out-95 data-[side=bottom]:slide-in-from-top-2 data-[side=left]:slide-in-from-right-2 data-[side=right]:slide-in-from-left-2 data-[side=top]:slide-in-from-bottom-2'',
                     className]),
               Spread props] None))"

definition Popover :: "'v component" where
  "Popover k p = El ''PopoverPrimitive.Root'' p"

definition PopoverTrigger :: "'v component" where
  "PopoverTrigger k p = El ''PopoverPrimitive.Trigger'' p"

definition PopoverContent :: "'v component" where
  "PopoverContent k p =
     (let ref = obj_get p ''ref'';
          className = obj_get p ''className'';
          align = v_default (obj_get p ''align'') (str ''center'');
          sideOffset = v_default (obj_get p ''sideOffset'') (Some (Num 4));
          props = rest [''className'', ''align'', ''sideOffset''] p
      in El ''PopoverPrimitive.Portal''
           (jsx []
              (Some
                 [El ''PopoverPrimitive.Content''
                    (jsx
                       [At ''ref'' ref,
                        At ''align'' align,
                        At ''sideOffset'' sideOffset,
                        At ''className''
                          (cn k
                             [str
                                ''z-50 w-72 rounded-md border bg-popover p-4 text-popover-foreground shadow-md outline-none data-[state=open]:animate-in data-[state=closed]:animate-out data-[state=closed]:fade-out-0 data-[state=open]:fade-in-0 data-[state=closed]:zoom-out-95 data-[state=open]:zoom-in-95 data-[side=bottom]:slide-in-from-top-2 data-[side=left]:slide-in-from-right-2 data-[side=right]:slide-in-from-left-2 data-[side=top]:slide-in-from-bottom-2'',
                              className]),
                        Spread props] None)])))"

definition HoverCard :: "'v component" where
  "HoverCard k p = El ''HoverCardPrimitive.Root'' p"

definition HoverCardTrigger :: "'v component" where
  "HoverCardTrigger k p = El ''HoverCardPrimitive.Trigger'' p"

definition HoverCardContent :: "'v component" where
  "HoverCardContent k p =
     (let ref = obj_get p ''ref'';
          className = obj_get p ''className'';
          align = v_default (obj_get p ''align'') (str ''center'');
          sideOffset = v_default (obj_get p ''sideOffset'') (Some (Num 4));
          props = rest [''className'', ''align'', ''sideOffset''] p
      in El ''HoverCardPrimitive.Content''
           (jsx
              [At ''ref'' ref,
               At ''align'' align,
               At ''sideOffset'' sideOffset,
               At ''className''
                 (cn k
                    [str
                       ''z-50 w-64 rounded-md border bg-popover p-4 text-popover-foreground shadow-md outline-none data-[state=open]:animate-in data-[state=closed]:animate-out data-[state=closed]:fade-out-0 data-[state=open]:fade-in-0 data-[state=closed]:zoom-out-95 data-[state=open]:zoom-in-95 data-[side=bottom]:slide-in-from-top-2 data-[side=left]:slide-in-from-right-2 data-[side=right]:slide-in-from-left-2 data-[side=top]:slide-in-from-bottom-2'',
                     className]),
               Spread props] None))"

definition Dialog :: "'v component" where
  "Dialog k p = El ''DialogPrimitive.Root'' p"

definition DialogTrigger :: "'v component" where
  "DialogTrigger k p = El ''DialogPrimitive.Trigger'' p"

definition DialogPortal :: "'v component" where
  "DialogPortal k p = El ''DialogPrimitive.Portal'' p"

definition DialogClose :: "'v component" where
  "DialogClose k p = El ''DialogPrimitive.Close'' p"

definition DialogOverlay :: "'v component" where
  "DialogOverlay k p =
     (let ref = obj_get p ''ref'';
          className = obj_get p ''className'';
          props = rest [''className''] p
      in El ''DialogPrimitive.Overlay''
           (jsx
              [At ''ref'' ref,
               At ''className''
                 (cn k
                    [str
                       ''fixed inset-0 z-50 bg-black/80 data-[state=open]:animate-in data-[state=closed]:animate-out data-[state=closed]:fade-out-0 data-[state=open]:fade-in-0'',
                     className]),
               Spread props] None))"

definition DialogContent :: "'v component" where
  "DialogContent k p =
     (let ref = obj_get p ''ref'';
          className = obj_get p ''className'';
          children = obj_get p ''children'';
          props = rest [''className'', ''children''] p
      in DialogPortal k
           (jsx []
              (Some
                 [DialogOverlay k (jsx [] None),
                  El ''DialogPrimitive.Content''
                    (jsx
                       [At ''ref'' ref,
                        At ''className''
                          (cn k
                             [str
                                ''fixed left-[50%] top-[50%] z-50 grid w-full max-w-lg translate-x-[-50%] translate-y-[-50%] gap-4 border bg-background p-6 shadow-lg duration-200 data-[state=open]:animate-in data-[state=closed]:animate-out data-[state=closed]:fade-out-0 data-[state=open]:fade-in-0 data-[state=closed]:zoom-out-95 data-[state=open]:zoom-in-95 data-[state=closed]:slide-out-to-left-1/2 data-[state=closed]:slide-out-to-top-[48%] data-[state=open]:slide-in-from-left-1/2 data-[state=open]:slide-in-from-top-[48%] sm:rounded-lg'',
                              className]),
                        Spread props]
                       (Some
                          (nodes children @
                           [El ''DialogPrimitive.Close''
                              (jsx
                                 [At ''className''
                                    (str
                                       ''absolute right-4 top-4 rounded-sm opacity-70 ring-offset-background transition-opacity data-[state=open]:bg-accent data-[state=open]:text-muted-foreground hover:opacity-100 focus:outline-none focus:ring-2 focus:ring-ring focus:ring-offset-2 disabled:pointer-events-none'')]
                                 (Some
                                    [El ''X'' (jsx [At ''className'' (str ''h-4 w-4'')] None),
                                     El ''span'' (jsx [At ''className'' (str ''sr-only'')] (Some [Text ''Close'']))]))])))])))"

definition DialogHeader :: "'v component" where
  "DialogHeader k p =
     (let className = obj_get p ''className'';
          props = rest [''className''] p
      in El ''div''
           (jsx
              [At ''className'' (cn k [str ''flex flex-col space-y-1.5 text-center sm:text-left'', className]),
               Spread props] None))"

definition DialogFooter :: "'v component" where
  "DialogFooter k p =
     (let className = obj_get p ''className'';
          props = rest [''className''] p
      in El ''div''
           (jsx
              [At ''className'' (cn k [str ''flex flex-col-reverse sm:flex-row sm:justify-end sm:space-x-2'', className]),
               Spread props] None))"

definition DialogTitle :: "'v component" where
  "DialogTitle k p =
     (let ref = obj_get p ''ref'';
          className = obj_get p ''className'';
          props = rest [''className''] p
      in El ''DialogPrimitive.Title''
           (jsx
              [At ''ref'' ref,
               At ''className'' (cn k [str ''text-lg font-semibold leading-none tracking-tight'', className]),
               Spread props] None))"

definition DialogDescription :: "'v component" where
  "DialogDescription k p =
     (let ref = obj_get p ''ref'';
          className = obj_get p ''className'';
          props = rest [''className''] p
      in El ''DialogPrimitive.Description''
           (jsx [At ''ref'' ref, At ''className'' (cn k [str ''text-sm text-muted-foreground'', className]), Spread props]
              None))"

definition AlertDialog :: "'v component" where
  "AlertDialog k p = El ''AlertDialogPrimitive.Root'' p"

definition AlertDialogTrigger :: "'v component" where
  "AlertDialogTrigger k p = El ''AlertDialogPrimitive.Trigger'' p"

definition AlertDialogPortal :: "'v component" where
  "AlertDialogPortal k p = El ''AlertDialogPrimitive.Portal'' p"

definition AlertDialogOverlay :: "'v component" where
  "AlertDialogOverlay k p =
     (let ref = obj_get p ''ref'';
          className = obj_get p ''className'';
          props = rest [''className''] p
      in El ''AlertDialogPrimitive.Overlay''
           (jsx
              [At ''className''
                 (cn k
                    [str
                       ''fixed inset-0 z-50 bg-black/80 data-[state=open]:animate-in data-[state=closed]:animate-out data-[state=closed]:fade-out-0 data-[state=open]:fade-in-0'',
                     className]),
               Spread props,
               At ''ref'' ref] None))"

definition AlertDialogContent :: "'v component" where
  "AlertDialogContent k p =
     (let ref = obj_get p ''ref'';
          className = obj_get p ''className'';
          props = rest [''className''] p
      in AlertDialogPortal k
           (jsx []
              (Some
                 [AlertDialogOverlay k (jsx [] None),
                  El ''AlertDialogPrimitive.Content''
                    (jsx
                       [At ''ref'' ref,
                        At ''className''
                          (cn k
                             [str
                                ''fixed left-[50%] top-[50%] z-50 grid w-full max-w-lg translate-x-[-50%] translate-y-[-50%] gap-4 border bg-background p-6 shadow-lg duration-200 data-[state=open]:animate-in data-[state=closed]:animate-out data-[state=closed]:fade-out-0 data-[state=open]:fade-in-0 data-[state=closed]:zoom-out-95 data-[state=open]:zoom-in-95 data-[state=closed]:slide-out-to-left-1/2 data-[state=closed]:slide-out-to-top-[48%] data-[state=open]:slide-in-from-left-1/2 data-[state=open]:slide-in-from-top-[48%] sm:rounded-lg'',
                              className]),
                        Spread props] None)])))"

definition AlertDialogHeader :: "'v component" where
  "AlertDialogHeader k p =
     (let className = obj_get p ''className'';
          props = rest [''className''] p
      in El ''div''
           (jsx
              [At ''className'' (cn k [str ''flex flex-col space-y-2 text-center sm:text-left'', className]),
               Spread props] None))"

definition AlertDialogFooter :: "'v component" where
  "AlertDialogFooter k p =
     (let className = obj_get p ''className'';
          props = rest [''className''] p
      in El ''div''
           (jsx
              [At ''className'' (cn k [str ''flex flex-col-reverse sm:flex-row sm:justify-end sm:space-x-2'', className]),
               Spread props] None))"

definition AlertDialogTitle :: "'v component" where
  "AlertDialogTitle k p =
     (let ref = obj_get p ''ref'';
          className = obj_get p ''className'';
          props = rest [''className''] p
      in El ''AlertDialogPrimitive.Title''
           (jsx [At ''ref'' ref, At ''className'' (cn k [str ''text-lg font-semibold'', className]), Spread props] None))"

definition AlertDialogDescription :: "'v component" where
  "AlertDialogDescription k p =
     (let ref = obj_get p ''ref'';
          className = obj_get p ''className'';
          props = rest [''className''] p
      in El ''AlertDialogPrimitive.Description''
           (jsx [At ''ref'' ref, At ''className'' (cn k [str ''text-sm text-muted-foreground'', className]), Spread props]
              None))"

definition AlertDialogAction :: "'v component" where
  "AlertDialogAction k p =
     (let ref = obj_get p ''ref'';
          className = obj_get p ''className'';
          props = rest [''className''] p
      in El ''AlertDialogPrimitive.Action''
           (jsx [At ''ref'' ref, At ''className'' (cn k [variants k buttonVariants [], className]), Spread props] None))"

definition AlertDialogCancel :: "'v component" where
  "AlertDialogCancel k p =
     (let ref = obj_get p ''ref'';
          className = obj_get p ''className'';
          props = rest [''className''] p
      in El ''AlertDialogPrimitive.Cancel''
           (jsx
              [At ''ref'' ref,
               At ''className''
                 (cn k [variants k buttonVariants [At ''variant'' (str ''outline'')], str ''mt-2 sm:mt-0'', className]),
               Spread props] None))"

definition Sheet :: "'v component" where
  "Sheet k p = El ''SheetPrimitive.Root'' p"

definition SheetTrigger :: "'v component" where
  "SheetTrigger k p = El ''SheetPrimitive.Trigger'' p"

definition SheetClose :: "'v component" where
  "SheetClose k p = El ''SheetPrimitive.Close'' p"

definition SheetPortal :: "'v component" where
  "SheetPortal k p = El ''SheetPrimitive.Portal'' p"

definition SheetOverlay :: "'v component" where
  "SheetOverlay k p =
     (let ref = obj_get p ''ref'';
          className = obj_get p ''className'';
          props = rest [''className''] p
      in El ''SheetPrimitive.Overlay''
           (jsx
              [At ''className''
                 (cn k
                    [str
                       ''fixed inset-0 z-50 bg-black/80 data-[state=open]:animate-in data-[state=closed]:animate-out data-[state=closed]:fade-out-0 data-[state=open]:fade-in-0'',
                     className]),
               Spread props,
               At ''ref'' ref] None))"

definition sheetVariants :: cva_config where
  "sheetVariants =
     \<lparr>cva_base =
       ''fixed z-50 gap-4 bg-background p-6 shadow-lg transition ease-in-out data-[state=open]:animate-in data-[state=closed]:animate-out data-[state=closed]:duration-300 data-[state=open]:duration-500''
       , cva_variants =
       [(''side'' ,
           [(''top'' ,
               ''inset-x-0 top-0 border-b data-[state=closed]:slide-out-to-top data-[state=open]:slide-in-from-top''),
            (''bottom'' ,
               ''inset-x-0 bottom-0 border-t data-[state=closed]:slide-out-to-bottom data-[state=open]:slide-in-from-bottom''),
            (''left'' ,
               ''inset-y-0 left-0 h-full w-3/4 border-r data-[state=closed]:slide-out-to-left data-[state=open]:slide-in-from-left sm:max-w-sm''),
            (''right'' ,
               ''inset-y-0 right-0 h-full w-3/4  border-l data-[state=closed]:slide-out-to-right data-[state=open]:slide-in-from-right sm:max-w-sm'')])]
       , cva_defaults = [(''side'', ''right'')] \<rparr>"

definition SheetContent :: "'v component" where
  "SheetContent k p =
     (let ref = obj_get p ''ref'';
          side = v_default (obj_get p ''side'') (str ''right'');
          className = obj_get p ''className'';
          children = obj_get p ''children'';
          props = rest [''side'', ''className'', ''children''] p
      in SheetPortal k
           (jsx []
              (Some
                 [SheetOverlay k (jsx [] None),
                  El ''SheetPrimitive.Content''
                    (jsx
                       [At ''ref'' ref,
                        At ''className'' (cn k [variants k sheetVariants [At ''side'' side], className]),
                        Spread props]
                       (Some
                          (nodes children @
                           [El ''SheetPrimitive.Close''
                              (jsx
                                 [At ''className''
                                    (str
                                       ''absolute right-4 top-4 rounded-sm opacity-70 ring-offset-background transition-opacity data-[state=open]:bg-secondary hover:opacity-100 focus:outline-none focus:ring-2 focus:ring-ring focus:ring-offset-2 disabled:pointer-events-none'')]
                                 (Some
                                    [El ''X'' (jsx [At ''className'' (str ''h-4 w-4'')] None),
                                     El ''span'' (jsx [At ''className'' (str ''sr-only'')] (Some [Text ''Close'']))]))])))])))"

definition SheetHeader :: "'v component" where
  "SheetHeader k p =
     (let className = obj_get p ''className'';
          props = rest [''className''] p
      in El ''div''
           (jsx
              [At ''className'' (cn k [str ''flex flex-col space-y-2 text-center sm:text-left'', className]),
               Spread props] None))"

definition SheetFooter :: "'v component" where
  "SheetFooter k p =
     (let className = obj_get p ''className'';
          props = rest [''className''] p
      in El ''div''
           (jsx
              [At ''className'' (cn k [str ''flex flex-col-reverse sm:flex-row sm:justify-end sm:space-x-2'', className]),
               Spread props] None))"

definition SheetTitle :: "'v component" where
  "SheetTitle k p =
     (let ref = obj_get p ''ref'';
          className = obj_get p ''className'';
          props = rest [''className''] p
      in El ''SheetPrimitive.Title''
           (jsx
              [At ''ref'' ref,
               At ''className'' (cn k [str ''text-lg font-semibold text-foreground'', className]),
               Spread props] None))"

definition SheetDescription :: "'v component" where
  "SheetDescription k p =
     (let ref = obj_get p ''ref'';
          className = obj_get p ''className'';
          props = rest [''className''] p
      in El ''SheetPrimitive.Description''
           (jsx [At ''ref'' ref, At ''className'' (cn k [str ''text-sm text-muted-foreground'', className]), Spread props]
              None))"

definition Drawer :: "'v component" where
  "Drawer k p =
     (let shouldScaleBackground = v_default (obj_get p ''shouldScaleBackground'') (Some (Flag True));
          props = rest [''shouldScaleBackground''] p
      in El ''DrawerPrimitive.Root'' (jsx [At ''shouldScaleBackground'' shouldScaleBackground, Spread props] None))"

definition DrawerTrigger :: "'v component" where
  "DrawerTrigger k p = El ''DrawerPrimitive.Trigger'' p"

definition DrawerPortal :: "'v component" where
  "DrawerPortal k p = El ''DrawerPrimitive.Portal'' p"

definition DrawerClose :: "'v component" where
  "DrawerClose k p = El ''DrawerPrimitive.Close'' p"

definition DrawerOverlay :: "'v component" where
  "DrawerOverlay k p =
     (let ref = obj_get p ''ref'';
          className = obj_get p ''className'';
          props = rest [''className''] p
      in El ''DrawerPrimitive.Overlay''
           (jsx
              [At ''ref'' ref, At ''className'' (cn k [str ''fixed inset-0 z-50 bg-black/80'', className]), Spread props]
              None))"

definition DrawerContent :: "'v component" where
  "DrawerContent k p =
     (let ref = obj_get p ''ref'';
          className = obj_get p ''className'';
          children = obj_get p ''children'';
          props = rest [''className'', ''children''] p
      in DrawerPortal k
           (jsx []
              (Some
                 [DrawerOverlay k (jsx [] None),
                  El ''DrawerPrimitive.Content''
                    (jsx
                       [At ''ref'' ref,
                        At ''className''
                          (cn k
                             [str
                                ''fixed inset-x-0 bottom-0 z-50 mt-24 flex h-auto flex-col rounded-t-[10px] border bg-background'',
                              className]),
                        Spread props]
                       (Some
                          ([El ''div''
                              (jsx [At ''className'' (str ''mx-auto mt-4 h-2 w-[100px] rounded-full bg-muted'')] None)] @
                           nodes children)))])))"

definition DrawerHeader :: "'v component" where
  "DrawerHeader k p =
     (let className = obj_get p ''className'';
          props = rest [''className''] p
      in El ''div''
           (jsx [At ''className'' (cn k [str ''grid gap-1.5 p-4 text-center sm:text-left'', className]), Spread props]
              None))"

definition DrawerFooter :: "'v component" where
  "DrawerFooter k p =
     (let className = obj_get p ''className'';
          props = rest [''className''] p
      in El ''div''
           (jsx [At ''className'' (cn k [str ''mt-auto flex flex-col gap-2 p-4'', className]), Spread props] None))"

definition DrawerTitle :: "'v component" where
  "DrawerTitle k p =
     (let ref = obj_get p ''ref'';
          className = obj_get p ''className'';
          props = rest [''className''] p
      in El ''DrawerPrimitive.Title''
           (jsx
              [At ''ref'' ref,
               At ''className'' (cn k [str ''text-lg font-semibold leading-none tracking-tight'', className]),
               Spread props] None))"

definition DrawerDescription :: "'v component" where
  "DrawerDescription k p =
     (let ref = obj_get p ''ref'';
          className = obj_get p ''className'';
          props = rest [''className''] p
      in El ''DrawerPrimitive.Description''
           (jsx [At ''ref'' ref, At ''className'' (cn k [str ''text-sm text-muted-foreground'', className]), Spread props]
              None))"

definition ToastProvider :: "'v component" where
  "ToastProvider k p = El ''ToastPrimitives.Provider'' p"

definition ToastViewport :: "'v component" where
  "ToastViewport k p =
     (let ref = obj_get p ''ref'';
          className = obj_get p ''className'';
          props = rest [''className''] p
      in El ''ToastPrimitives.Viewport''
           (jsx
              [At ''ref'' ref,
               At ''className''
                 (cn k
                    [str
                       ''fixed top-0 z-[100] flex max-h-screen w-full flex-col-reverse p-4 sm:bottom-0 sm:right-0 sm:top-auto sm:flex-col md:max-w-[420px]'',
                     className]),
               Spread props] None))"

definition toastVariants :: cva_config where
  "toastVariants =
     \<lparr>cva_base =
       ''group pointer-events-auto relative flex w-full items-center justify-between space-x-4 overflow-hidden rounded-md border p-6 pr-8 shadow-lg transition-all data-[swipe=cancel]:translate-x-0 data-[swipe=end]:translate-x-[var(--radix-toast-swipe-end-x)] data-[swipe=move]:translate-x-[var(--radix-toast-swipe-move-x)] data-[swipe=move]:transition-none data-[state=open]:animate-in data-[state=closed]:animate-out data-[swipe=end]:animate-out data-[state=closed]:fade-out-80 data-[state=closed]:slide-out-to-right-full data-[state=open]:slide-in-from-top-full data-[state=open]:sm:slide-in-from-bottom-full''
       , cva_variants =
       [(''variant'' ,
           [(''default'', ''border bg-background text-foreground''),
            (''destructive'', ''destructive group border-destructive bg-destructive text-destructive-foreground'')])] ,
       cva_defaults = [(''variant'', ''default'')] \<rparr>"

definition Toast :: "'v component" where
  "Toast k p =
     (let ref = obj_get p ''ref'';
          className = obj_get p ''className'';
          variant = obj_get p ''variant'';
          props = rest [''className'', ''variant''] p
      in El ''ToastPrimitives.Root''
           (jsx
              [At ''ref'' ref,
               At ''className'' (cn k [variants k toastVariants [At ''variant'' variant], className]),
               Spread props] None))"

definition ToastAction :: "'v component" where
  "ToastAction k p =
     (let ref = obj_get p ''ref'';
          className = obj_get p ''className'';
          props = rest [''className''] p
      in El ''ToastPrimitives.Action''
           (jsx
              [At ''ref'' ref,
               At ''className''
                 (cn k
                    [str
                       ''inline-flex h-8 shrink-0 items-center justify-center rounded-md border bg-transparent px-3 text-sm font-medium ring-offset-background transition-colors group-[.destructive]:border-muted/40 hover:bg-secondary group-[.destructive]:hover:border-destructive/30 group-[.destructive]:hover:bg-destructive group-[.destructive]:hover:text-destructive-foreground focus:outline-none focus:ring-2 focus:ring-ring focus:ring-offset-2 group-[.destructive]:focus:ring-destructive disabled:pointer-events-none disabled:opacity-50'',
                     className]),
               Spread props] None))"

definition ToastClose :: "'v component" where
  "ToastClose k p =
     (let ref = obj_get p ''ref'';
          className = obj_get p ''className'';
          props = rest [''className''] p
      in El ''ToastPrimitives.Close''
           (jsx
              [At ''ref'' ref,
               At ''className''
                 (cn k
                    [str
                       ''absolute right-2 top-2 rounded-md p-1 text-foreground/50 opacity-0 transition-opacity group-hover:opacity-100 group-[.destructive]:text-red-300 hover:text-foreground group-[.destructive]:hover:text-red-50 focus:opacity-100 focus:outline-none focus:ring-2 group-[.destructive]:focus:ring-red-400 group-[.destructive]:focus:ring-offset-red-600'',
                     className]),
               At ''toast-close'' (str ''''),
               Spread props] (Some [El ''X'' (jsx [At ''className'' (str ''h-4 w-4'')] None)])))"

definition ToastTitle :: "'v component" where
  "ToastTitle k p =
     (let ref = obj_get p ''ref'';
          className = obj_get p ''className'';
          props = rest [''className''] p
      in El ''ToastPrimitives.Title''
           (jsx [At ''ref'' ref, At ''className'' (cn k [str ''text-sm font-semibold'', className]), Spread props] None))"

definition ToastDescription :: "'v component" where
  "ToastDescription k p =
     (let ref = obj_get p ''ref'';
          className = obj_get p ''className'';
          props = rest [''className''] p
      in El ''ToastPrimitives.Description''
           (jsx [At ''ref'' ref, At ''className'' (cn k [str ''text-sm opacity-90'', className]), Spread props] None))"

definition Command :: "'v component" where
  "Command k p =
     (let ref = obj_get p ''ref'';
          className = obj_get p ''className'';
          props = rest [''className''] p
      in El ''CommandPrimitive''
           (jsx
              [At ''ref'' ref,
               At ''className''
                 (cn k
                    [str ''flex h-full w-full flex-col overflow-hidden rounded-md bg-popover text-popover-foreground'',
                     className]),
               Spread props] None))"

definition CommandDialog :: "'v component" where
  "CommandDialog k p =
     (let children = obj_get p ''children'';
          props = rest [''children''] p
      in Dialog k
           (jsx [Spread props]
              (Some
                 [DialogContent k
                    (jsx [At ''className'' (str ''overflow-hidden p-0 shadow-lg'')]
                       (Some
                          [Command k
                             (jsx
                                [At ''className''
                                   (str
                                      ''[&_[cmdk-group-heading]]:px-2 [&_[cmdk-group-heading]]:font-medium [&_[cmdk-group-heading]]:text-muted-foreground [&_[cmdk-group]:not([hidden])_~[cmdk-group]]:pt-0 [&_[cmdk-group]]:px-2 [&_[cmdk-input-wrapper]_svg]:h-5 [&_[cmdk-input-wrapper]_svg]:w-5 [&_[cmdk-input]]:h-12 [&_[cmdk-item]]:px-2 [&_[cmdk-item]]:py-3 [&_[cmdk-item]_svg]:h-5 [&_[cmdk-item]_svg]:w-5'')]
                                (Some (nodes children)))]))])))"

definition CommandInput :: "'v component" where
  "CommandInput k p =
     (let ref = obj_get p ''ref'';
          className = obj_get p ''className'';
          props = rest [''className''] p
      in El ''div''
           (jsx [At ''className'' (str ''flex items-center border-b px-3''), At ''cmdk-input-wrapper'' (str '''')]
              (Some
                 [El ''Search'' (jsx [At ''className'' (str ''mr-2 h-4 w-4 shrink-0 opacity-50'')] None),
                  El ''CommandPrimitive.Input''
                    (jsx
                       [At ''ref'' ref,
                        At ''className''
                          (cn k
                             [str
                                ''flex h-11 w-full rounded-md bg-transparent py-3 text-sm outline-none placeholder:text-muted-foreground disabled:cursor-not-allowed disabled:opacity-50'',
                              className]),
                        Spread props] None)])))"

definition CommandList :: "'v component" where
  "CommandList k p =
     (let ref = obj_get p ''ref'';
          className = obj_get p ''className'';
          props = rest [''className''] p
      in El ''CommandPrimitive.List''
           (jsx
              [At ''ref'' ref,
               At ''className'' (cn k [str ''max-h-[300px] overflow-y-auto overflow-x-hidden'', className]),
               Spread props] None))"

definition CommandEmpty :: "'v component" where
  "CommandEmpty k p =
     (let ref = obj_get p ''ref'';
          props = rest [] p
      in El ''CommandPrimitive.Empty''
           (jsx [At ''ref'' ref, At ''className'' (str ''py-6 text-center text-sm''), Spread props] None))"

definition CommandGroup :: "'v component" where
  "CommandGroup k p =
     (let ref = obj_get p ''ref'';
          className = obj_get p ''className'';
          props = rest [''className''] p
      in El ''CommandPrimitive.Group''
           (jsx
              [At ''ref'' ref,
               At ''className''
                 (cn k
                    [str
                       ''overflow-hidden p-1 text-foreground [&_[cmdk-group-heading]]:px-2 [&_[cmdk-group-heading]]:py-1.5 [&_[cmdk-group-heading]]:text-xs [&_[cmdk-group-heading]]:font-medium [&_[cmdk-group-heading]]:text-muted-foreground'',
                     className]),
               Spread props] None))"

definition CommandSeparator :: "'v component" where
  "CommandSeparator k p =
     (let ref = obj_get p ''ref'';
          className = obj_get p ''className'';
          props = rest [''className''] p
      in El ''CommandPrimitive.Separator''
           (jsx [At ''ref'' ref, At ''className'' (cn k [str ''-mx-1 h-px bg-border'', className]), Spread props] None))"

definition CommandItem :: "'v component" where
  "CommandItem k p =
     (let ref = obj_get p ''ref'';
          className = obj_get p ''className'';
          props = rest [''className''] p
      in El ''CommandPrimitive.Item''
           (jsx
              [At ''ref'' ref,
               At ''className''
                 (cn k
                    [str
                       ''relative flex cursor-default select-none items-center rounded-sm px-2 py-1.5 text-sm outline-none data-[disabled=true]:pointer-events-none data-[selected='true']:bg-accent data-[selected=true]:text-accent-foreground data-[disabled=true]:opacity-50'',
                     className]),
               Spread props] None))"

definition CommandShortcut :: "'v component" where
  "CommandShortcut k p =
     (let className = obj_get p ''className'';
          props = rest [''className''] p
      in El ''span''
           (jsx
              [At ''className'' (cn k [str ''ml-auto text-xs tracking-widest text-muted-foreground'', className]),
               Spread props] None))"

definition Toaster_element :: "'v props \<Rightarrow> 'v component" where
  "Toaster_element ctx k p =
     (let props = rest [] p;
          theme = v_default (obj_get ctx ''theme'') (str ''system'')
      in El ''Sonner''
           (jsx
              [At ''theme'' theme,
               At ''className'' (str ''toaster group''),
               At ''toastOptions''
                 (Some
                    (Obj
                       (attributes []
                          [At ''classNames''
                             (Some
                                (Obj
                                   (attributes []
                                      [At ''toast''
                                         (str
                                            ''group toast group-[.toaster]:bg-background group-[.toaster]:text-foreground group-[.toaster]:border-border group-[.toaster]:shadow-lg''),
                                       At ''description'' (str ''group-[.toast]:text-muted-foreground''),
                                       At ''actionButton''
                                         (str ''group-[.toast]:bg-primary group-[.toast]:text-primary-foreground''),
                                       At ''cancelButton''
                                         (str ''group-[.toast]:bg-muted group-[.toast]:text-muted-foreground'')])))]))),
               Spread props] None))"

definition CarouselContent :: "'v props \<Rightarrow> 'v component" where
  "CarouselContent ctx k p =
     (let ref = obj_get p ''ref'';
          className = obj_get p ''className'';
          props = rest [''className''] p;
          carouselRef = obj_get ctx ''carouselRef'';
          orientation = obj_get ctx ''orientation''
      in El ''div''
           (jsx [At ''ref'' carouselRef, At ''className'' (str ''overflow-hidden'')]
              (Some
                 [El ''div''
                    (jsx
                       [At ''ref'' ref,
                        At ''className''
                          (cn k
                             [str ''flex'',
                              v_if (v_eq orientation (str ''horizontal'')) (str ''-ml-4'') (str ''-mt-4 flex-col''),
                              className]),
                        Spread props] None)])))"

definition CarouselItem :: "'v props \<Rightarrow> 'v component" where
  "CarouselItem ctx k p =
     (let ref = obj_get p ''ref'';
          className = obj_get p ''className'';
          props = rest [''className''] p;
          orientation = obj_get ctx ''orientation''
      in El ''div''
           (jsx
              [At ''ref'' ref,
               At ''role'' (str ''group''),
               At ''aria-roledescription'' (str ''slide''),
               At ''className''
                 (cn k
                    [str ''min-w-0 shrink-0 grow-0 basis-full'',
                     v_if (v_eq orientation (str ''horizontal'')) (str ''pl-4'') (str ''pt-4''),
                     className]),
               Spread props] None))"

definition CarouselPrevious_element :: "'v props \<Rightarrow> 'v component" where
  "CarouselPrevious_element ctx k p =
     (let ref = obj_get p ''ref'';
          className = obj_get p ''className'';
          variant = v_default (obj_get p ''variant'') (str ''outline'');
          size = v_default (obj_get p ''size'') (str ''icon'');
          props = rest [''className'', ''variant'', ''size''] p;
          orientation = obj_get ctx ''orientation'';
          scrollPrev = obj_get ctx ''scrollPrev'';
          canScrollPrev = obj_get ctx ''canScrollPrev''
      in Button k
           (jsx
              [At ''ref'' ref,
               At ''variant'' variant,
               At ''size'' size,
               At ''className''
                 (cn k
                    [str ''absolute h-8 w-8 rounded-full'',
                     v_if (v_eq orientation (str ''horizontal'')) (str ''-left-12 top-1/2 -translate-y-1/2'')
                       (str ''-top-12 left-1/2 -translate-x-1/2 rotate-90''),
                     className]),
               At ''disabled'' (v_not canScrollPrev),
               At ''onClick'' scrollPrev,
               Spread props]
              (Some
                 [El ''ArrowLeft'' (jsx [At ''className'' (str ''h-4 w-4'')] None),
                  El ''span'' (jsx [At ''className'' (str ''sr-only'')] (Some [Text ''Previous slide'']))])))"

definition CarouselNext_element :: "'v props \<Rightarrow> 'v component" where
  "CarouselNext_element ctx k p =
     (let ref = obj_get p ''ref'';
          className = obj_get p ''className'';
          variant = v_default (obj_get p ''variant'') (str ''outline'');
          size = v_default (obj_get p ''size'') (str ''icon'');
          props = rest [''className'', ''variant'', ''size''] p;
          orientation = obj_get ctx ''orientation'';
          scrollNext = obj_get ctx ''scrollNext'';
          canScrollNext = obj_get ctx ''canScrollNext''
      in Button k
           (jsx
              [At ''ref'' ref,
               At ''variant'' variant,
               At ''size'' size,
               At ''className''
                 (cn k
                    [str ''absolute h-8 w-8 rounded-full'',
                     v_if (v_eq orientation (str ''horizontal'')) (str ''-right-12 top-1/2 -translate-y-1/2'')
                       (str ''-bottom-12 left-1/2 -translate-x-1/2 rotate-90''),
                     className]),
               At ''disabled'' (v_not canScrollNext),
               At ''onClick'' scrollNext,
               Spread props]
              (Some
                 [El ''ArrowRight'' (jsx [At ''className'' (str ''h-4 w-4'')] None),
                  El ''span'' (jsx [At ''className'' (str ''sr-only'')] (Some [Text ''Next slide'']))])))"

section \<open>What the components pass on\<close>

definition overlays_kit :: "'v props \<Rightarrow> (string list \<times> nat list \<times> 'v component) list" where
  "overlays_kit ctx =
     [([''className'', ''sideOffset''], [], TooltipContent),
      ([''className'', ''align'', ''sideOffset''], [0], PopoverContent),
      ([''className'', ''align'', ''sideOffset''], [], HoverCardContent),
      ([''className''], [], DialogOverlay),
      ([''className'', ''children''], [1], DialogContent),
      ([''className''], [], DialogHeader),
      ([''className''], [], DialogFooter),
      ([''className''], [], DialogTitle),
      ([''className''], [], DialogDescription),
      ([''className''], [], AlertDialogOverlay),
      ([''className''], [1], AlertDialogContent),
      ([''className''], [], AlertDialogHeader),
      ([''className''], [], AlertDialogFooter),
      ([''className''], [], AlertDialogTitle),
      ([''className''], [], AlertDialogDescription),
      ([''className''], [], AlertDialogAction),
      ([''className''], [], AlertDialogCancel),
      ([''className''], [], SheetOverlay),
      ([''side'', ''className'', ''children''], [1], SheetContent),
      ([''className''], [], SheetHeader),
      ([''className''], [], SheetFooter),
      ([''className''], [], SheetTitle),
      ([''className''], [], SheetDescription),
      ([''shouldScaleBackground''], [], Drawer),
      ([''className''], [], DrawerOverlay),
      ([''className'', ''children''], [1], DrawerContent),
      ([''className''], [], DrawerHeader),
      ([''className''], [], DrawerFooter),
      ([''className''], [], DrawerTitle),
      ([''className''], [], DrawerDescription),
      ([''className''], [], ToastViewport),
      ([''className'', ''variant''], [], Toast),
      ([''className''], [], ToastAction),
      ([''className'', ''children''], [], ToastClose),
      ([''className''], [], ToastTitle),
      ([''className''], [], ToastDescription),
      ([''className''], [], Command),
      ([''children''], [], CommandDialog),
      ([''className''], [1], CommandInput),
      ([''className''], [], CommandList),
      ([], [], CommandEmpty),
      ([''className''], [], CommandGroup),
      ([''className''], [], CommandSeparator),
      ([''className''], [], CommandItem),
      ([''className''], [], CommandShortcut),
      ([], [], (Toaster_element ctx)),
      ([''className''], [0], (CarouselContent ctx)),
      ([''className''], [], (CarouselItem ctx)),
      ([''className'', ''variant'', ''size'', ''children'', ''asChild''], [], (CarouselPrevious_element ctx)),
      ([''className'', ''variant'', ''size'', ''children'', ''asChild''], [], (CarouselNext_element ctx))]"

definition overlays_styled :: "'v props \<Rightarrow> (string list \<times> nat list \<times> 'v component) list" where
  "overlays_styled ctx =
     [([''className'', ''sideOffset''], [], TooltipContent),
      ([''className'', ''align'', ''sideOffset''], [0], PopoverContent),
      ([''className'', ''align'', ''sideOffset''], [], HoverCardContent),
      ([''className''], [], DialogOverlay),
      ([''className'', ''children''], [1], DialogContent),
      ([''className''], [], DialogHeader),
      ([''className''], [], DialogFooter),
      ([''className''], [], DialogTitle),
      ([''className''], [], DialogDescription),
      ([''className''], [], AlertDialogOverlay),
      ([''className''], [1], AlertDialogContent),
      ([''className''], [], AlertDialogHeader),
      ([''className''], [], AlertDialogFooter),
      ([''className''], [], AlertDialogTitle),
      ([''className''], [], AlertDialogDescription),
      ([''className''], [], AlertDialogAction),
      ([''className''], [], AlertDialogCancel),
      ([''className''], [], SheetOverlay),
      ([''side'', ''className'', ''children''], [1], SheetContent),
      ([''className''], [], SheetHeader),
      ([''className''], [], SheetFooter),
      ([''className''], [], SheetTitle),
      ([''className''], [], SheetDescription),
      ([''className''], [], DrawerOverlay),
      ([''className'', ''children''], [1], DrawerContent),
      ([''className''], [], DrawerHeader),
      ([''className''], [], DrawerFooter),
      ([''className''], [], DrawerTitle),
      ([''className''], [], DrawerDescription),
      ([''className''], [], ToastViewport),
      ([''className'', ''variant''], [], Toast),
      ([''className''], [], ToastAction),
      ([''className'', ''children''], [], ToastClose),
      ([''className''], [], ToastTitle),
      ([''className''], [], ToastDescription),
      ([''className''], [], Command),
      ([''className''], [1], CommandInput),
      ([''className''], [], CommandList),
      ([''className''], [], CommandGroup),
      ([''className''], [], CommandSeparator),
      ([''className''], [], CommandItem),
      ([''className''], [], CommandShortcut),
      ([''className''], [0], (CarouselContent ctx)),
      ([''className''], [], (CarouselItem ctx))]"

lemmas overlays_defs = TooltipProvider_def Tooltip_def TooltipTrigger_def TooltipContent_def Popover_def
  PopoverTrigger_def PopoverContent_def HoverCard_def HoverCardTrigger_def HoverCardContent_def
  Dialog_def DialogTrigger_def DialogPortal_def DialogClose_def DialogOverlay_def
  DialogContent_def DialogHeader_def DialogFooter_def DialogTitle_def DialogDescription_def
  AlertDialog_def AlertDialogTrigger_def AlertDialogPortal_def AlertDialogOverlay_def AlertDialogContent_def
  AlertDialogHeader_def AlertDialogFooter_def AlertDialogTitle_def AlertDialogDescription_def AlertDialogAction_def
  AlertDialogCancel_def Sheet_def SheetTrigger_def SheetClose_def SheetPortal_def
  SheetOverlay_def SheetContent_def SheetHeader_def SheetFooter_def SheetTitle_def
  SheetDescription_def Drawer_def DrawerTrigger_def DrawerPortal_def DrawerClose_def
  DrawerOverlay_def DrawerContent_def DrawerHeader_def DrawerFooter_def DrawerTitle_def
  DrawerDescription_def ToastProvider_def ToastViewport_def Toast_def ToastAction_def
  ToastClose_def ToastTitle_def ToastDescription_def Command_def CommandDialog_def
  CommandInput_def CommandList_def CommandEmpty_def CommandGroup_def CommandSeparator_def
  CommandItem_def CommandShortcut_def Toaster_element_def CarouselContent_def CarouselItem_def
  CarouselPrevious_element_def CarouselNext_element_def

lemma overlays_pass_on: "list_all passes_on (overlays_kit ctx)"
  by (simp add: overlays_kit_def overlays_defs Button_def passes_on_def Let_def)

lemma overlays_merge_last: "list_all merges_last (overlays_styled ctx)"
  by (simp add: overlays_styled_def overlays_defs merges_last_def Let_def)

end
