(* ===== verification/Ui_Sidebar_Parts.thy ===== *)
theory Ui_Sidebar_Parts
  imports Ui_Overlays
begin

text \<open>
  The parts of a sidebar (\<open>example-apps/onboarding-flow/src/components/ui\<close>): \<open>sidebar.tsx\<close>.
\<close>

definition SidebarRail :: "'v props \<Rightarrow> 'v component" where
  "SidebarRail ctx k p =
     (let ref = obj_get p ''ref'';
          className = obj_get p ''className'';
          props = rest [''className''] p;
          toggleSidebar = obj_get ctx ''toggleSidebar''
      in El ''button''
           (jsx
              [At ''ref'' ref,
               At ''data-sidebar'' (str ''rail''),
               At ''aria-label'' (str ''Toggle Sidebar''),
               At ''tabIndex'' (Some (Num (- 1))),
               At ''onClick'' toggleSidebar,
               At ''title'' (str ''Toggle Sidebar''),
               At ''className''
                 (cn k
                    [str
                       ''absolute inset-y-0 z-20 hidden w-4 -translate-x-1/2 transition-all ease-linear after:absolute after:inset-y-0 after:left-1/2 after:w-[2px] group-data-[side=left]:-right-4 group-data-[side=right]:left-0 hover:after:bg-sidebar-border sm:flex'',
                     str ''[[data-side=left]_&]:cursor-w-resize [[data-side=right]_&]:cursor-e-resize'',
                     str
                       ''[[data-side=left][data-state=collapsed]_&]:cursor-e-resize [[data-side=right][data-state=collapsed]_&]:cursor-w-resize'',
                     str
                       ''group-data-[collapsible=offcanvas]:translate-x-0 group-data-[collapsible=offcanvas]:after:left-full group-data-[collapsible=offcanvas]:hover:bg-sidebar'',
                     str ''[[data-side=left][data-collapsible=offcanvas]_&]:-right-2'',
                     str ''[[data-side=right][data-collapsible=offcanvas]_&]:-left-2'',
                     className]),
               Spread props] None))"

definition SidebarInset :: "'v component" where
  "SidebarInset k p =
     (let ref = obj_get p ''ref'';
          className = obj_get p ''className'';
          props = rest [''className''] p
      in El ''main''
           (jsx
              [At ''ref'' ref,
               At ''className''
                 (cn k
                    [str ''relative flex min-h-svh flex-1 flex-col bg-background'',
                     str
                       ''peer-data-[variant=inset]:min-h-[calc(100svh-theme(spacing.4))] md:peer-data-[variant=inset]:m-2 md:peer-data-[state=collapsed]:peer-data-[variant=inset]:ml-2 md:peer-data-[variant=inset]:ml-0 md:peer-data-[variant=inset]:rounded-xl md:peer-data-[variant=inset]:shadow'',
                     className]),
               Spread props] None))"

definition SidebarInput :: "'v component" where
  "SidebarInput k p =
     (let ref = obj_get p ''ref'';
          className = obj_get p ''className'';
          props = rest [''className''] p
      in Input k
           (jsx
              [At ''ref'' ref,
               At ''data-sidebar'' (str ''input''),
               At ''className''
                 (cn k
                    [str ''h-8 w-full bg-background shadow-none focus-visible:ring-2 focus-visible:ring-sidebar-ring'',
                     className]),
               Spread props] None))"

definition SidebarHeader :: "'v component" where
  "SidebarHeader k p =
     (let ref = obj_get p ''ref'';
          className = obj_get p ''className'';
          props = rest [''className''] p
      in El ''div''
           (jsx
              [At ''ref'' ref,
               At ''data-sidebar'' (str ''header''),
               At ''className'' (cn k [str ''flex flex-col gap-2 p-2'', className]),
               Spread props] None))"

definition SidebarFooter :: "'v component" where
  "SidebarFooter k p =
     (let ref = obj_get p ''ref'';
          className = obj_get p ''className'';
          props = rest [''className''] p
      in El ''div''
           (jsx
              [At ''ref'' ref,
               At ''data-sidebar'' (str ''footer''),
               At ''className'' (cn k [str ''flex flex-col gap-2 p-2'', className]),
               Spread props] None))"

definition SidebarSeparator :: "'v component" where
  "SidebarSeparator k p =
     (let ref = obj_get p ''ref'';
          className = obj_get p ''className'';
          props = rest [''className''] p
      in Separator k
           (jsx
              [At ''ref'' ref,
               At ''data-sidebar'' (str ''separator''),
               At ''className'' (cn k [str ''mx-2 w-auto bg-sidebar-border'', className]),
               Spread props] None))"

definition SidebarContent :: "'v component" where
  "SidebarContent k p =
     (let ref = obj_get p ''ref'';
          className = obj_get p ''className'';
          props = rest [''className''] p
      in El ''div''
           (jsx
              [At ''ref'' ref,
               At ''data-sidebar'' (str ''content''),
               At ''className''
                 (cn k
                    [str
                       ''flex min-h-0 flex-1 flex-col gap-2 overflow-auto group-data-[collapsible=icon]:overflow-hidden'',
                     className]),
               Spread props] None))"

definition SidebarGroup :: "'v component" where
  "SidebarGroup k p =
     (let ref = obj_get p ''ref'';
          className = obj_get p ''className'';
          props = rest [''className''] p
      in El ''div''
           (jsx
              [At ''ref'' ref,
               At ''data-sidebar'' (str ''group''),
               At ''className'' (cn k [str ''relative flex w-full min-w-0 flex-col p-2'', className]),
               Spread props] None))"

definition SidebarGroupLabel :: "'v component" where
  "SidebarGroupLabel k p =
     (let ref = obj_get p ''ref'';
          className = obj_get p ''className'';
          asChild = v_default (obj_get p ''asChild'') (Some (Flag False));
          props = rest [''className'', ''asChild''] p;
          Comp = if prop_truthy asChild then ''Slot'' else ''div''
      in El Comp
           (jsx
              [At ''ref'' ref,
               At ''data-sidebar'' (str ''group-label''),
               At ''className''
                 (cn k
                    [str
                       ''flex h-8 shrink-0 items-center rounded-md px-2 text-xs font-medium text-sidebar-foreground/70 outline-none ring-sidebar-ring transition-[margin,opa] duration-200 ease-linear focus-visible:ring-2 [&>svg]:size-4 [&>svg]:shrink-0'',
                     str ''group-data-[collapsible=icon]:-mt-8 group-data-[collapsible=icon]:opacity-0'',
                     className]),
               Spread props] None))"

definition SidebarGroupAction :: "'v component" where
  "SidebarGroupAction k p =
     (let ref = obj_get p ''ref'';
          className = obj_get p ''className'';
          asChild = v_default (obj_get p ''asChild'') (Some (Flag False));
          props = rest [''className'', ''asChild''] p;
          Comp = if prop_truthy asChild then ''Slot'' else ''button''
      in El Comp
           (jsx
              [At ''ref'' ref,
               At ''data-sidebar'' (str ''group-action''),
               At ''className''
                 (cn k
                    [str
                       ''absolute right-3 top-3.5 flex aspect-square w-5 items-center justify-center rounded-md p-0 text-sidebar-foreground outline-none ring-sidebar-ring transition-transform hover:bg-sidebar-accent hover:text-sidebar-accent-foreground focus-visible:ring-2 [&>svg]:size-4 [&>svg]:shrink-0'',
                     str ''after:absolute after:-inset-2 after:md:hidden'',
                     str ''group-data-[collapsible=icon]:hidden'',
                     className]),
               Spread props] None))"

definition SidebarGroupContent :: "'v component" where
  "SidebarGroupContent k p =
     (let ref = obj_get p ''ref'';
          className = obj_get p ''className'';
          props = rest [''className''] p
      in El ''div''
           (jsx
              [At ''ref'' ref,
               At ''data-sidebar'' (str ''group-content''),
               At ''className'' (cn k [str ''w-full text-sm'', className]),
               Spread props] None))"

definition SidebarMenu :: "'v component" where
  "SidebarMenu k p =
     (let ref = obj_get p ''ref'';
          className = obj_get p ''className'';
          props = rest [''className''] p
      in El ''ul''
           (jsx
              [At ''ref'' ref,
               At ''data-sidebar'' (str ''menu''),
               At ''className'' (cn k [str ''flex w-full min-w-0 flex-col gap-1'', className]),
               Spread props] None))"

definition SidebarMenuItem :: "'v component" where
  "SidebarMenuItem k p =
     (let ref = obj_get p ''ref'';
          className = obj_get p ''className'';
          props = rest [''className''] p
      in El ''li''
           (jsx
              [At ''ref'' ref,
               At ''data-sidebar'' (str ''menu-item''),
               At ''className'' (cn k [str ''group/menu-item relative'', className]),
               Spread props] None))"

definition sidebarMenuButtonVariants :: cva_config where
  "sidebarMenuButtonVariants =
     \<lparr>cva_base =
       ''peer/menu-button flex w-full items-center gap-2 overflow-hidden rounded-md p-2 text-left text-sm outline-none ring-sidebar-ring transition-[width,height,padding] hover:bg-sidebar-accent hover:text-sidebar-accent-foreground focus-visible:ring-2 active:bg-sidebar-accent active:text-sidebar-accent-foreground disabled:pointer-events-none disabled:opacity-50 group-has-[[data-sidebar=menu-action]]/menu-item:pr-8 aria-disabled:pointer-events-none aria-disabled:opacity-50 data-[active=true]:bg-sidebar-accent data-[active=true]:font-medium data-[active=true]:text-sidebar-accent-foreground data-[state=open]:hover:bg-sidebar-accent data-[state=open]:hover:text-sidebar-accent-foreground group-data-[collapsible=icon]:!size-8 group-data-[collapsible=icon]:!p-2 [&>span:last-child]:truncate [&>svg]:size-4 [&>svg]:shrink-0''
       , cva_variants =
       [(''variant'' ,
           [(''default'', ''hover:bg-sidebar-accent hover:text-sidebar-accent-foreground''),
            (''outline'' ,
               ''bg-background shadow-[0_0_0_1px_hsl(var(--sidebar-border))] hover:bg-sidebar-accent hover:text-sidebar-accent-foreground hover:shadow-[0_0_0_1px_hsl(var(--sidebar-accent))]'')]),
        (''size'' ,
           [(''default'', ''h-8 text-sm''),
            (''sm'', ''h-7 text-xs''),
            (''lg'', ''h-12 text-sm group-data-[collapsible=icon]:!p-0'')])] , cva_defaults =
       [(''variant'', ''default''), (''size'', ''default'')] \<rparr>"

definition SidebarMenuAction_element :: "'v component" where
  "SidebarMenuAction_element k p =
     (let ref = obj_get p ''ref'';
          className = obj_get p ''className'';
          asChild = v_default (obj_get p ''asChild'') (Some (Flag False));
          showOnHover = v_default (obj_get p ''showOnHover'') (Some (Flag False));
          props = rest [''className'', ''asChild'', ''showOnHover''] p;
          Comp = if prop_truthy asChild then ''Slot'' else ''button''
      in El Comp
           (jsx
              [At ''ref'' ref,
               At ''data-sidebar'' (str ''menu-action''),
               At ''className''
                 (cn k
                    [str
                       ''absolute right-1 top-1.5 flex aspect-square w-5 items-center justify-center rounded-md p-0 text-sidebar-foreground outline-none ring-sidebar-ring transition-transform peer-hover/menu-button:text-sidebar-accent-foreground hover:bg-sidebar-accent hover:text-sidebar-accent-foreground focus-visible:ring-2 [&>svg]:size-4 [&>svg]:shrink-0'',
                     str ''after:absolute after:-inset-2 after:md:hidden'',
                     str ''peer-data-[size=sm]/menu-button:top-1'',
                     str ''peer-data-[size=default]/menu-button:top-1.5'',
                     str ''peer-data-[size=lg]/menu-button:top-2.5'',
                     str ''group-data-[collapsible=icon]:hidden'',
                     v_and showOnHover
                       (str
                          ''group-focus-within/menu-item:opacity-100 group-hover/menu-item:opacity-100 data-[state=open]:opacity-100 peer-data-[active=true]/menu-button:text-sidebar-accent-foreground md:opacity-0''),
                     className]),
               Spread props] None))"

definition SidebarMenuBadge :: "'v component" where
  "SidebarMenuBadge k p =
     (let ref = obj_get p ''ref'';
          className = obj_get p ''className'';
          props = rest [''className''] p
      in El ''div''
           (jsx
              [At ''ref'' ref,
               At ''data-sidebar'' (str ''menu-badge''),
               At ''className''
                 (cn k
                    [str
                       ''pointer-events-none absolute right-1 flex h-5 min-w-5 select-none items-center justify-center rounded-md px-1 text-xs font-medium tabular-nums text-sidebar-foreground'',
                     str
                       ''peer-hover/menu-button:text-sidebar-accent-foreground peer-data-[active=true]/menu-button:text-sidebar-accent-foreground'',
                     str ''peer-data-[size=sm]/menu-button:top-1'',
                     str ''peer-data-[size=default]/menu-button:top-1.5'',
                     str ''peer-data-[size=lg]/menu-button:top-2.5'',
                     str ''group-data-[collapsible=icon]:hidden'',
                     className]),
               Spread props] None))"

definition SidebarMenuSub :: "'v component" where
  "SidebarMenuSub k p =
     (let ref = obj_get p ''ref'';
          className = obj_get p ''className'';
          props = rest [''className''] p
      in El ''ul''
           (jsx
              [At ''ref'' ref,
               At ''data-sidebar'' (str ''menu-sub''),
               At ''className''
                 (cn k
                    [str
                       ''mx-3.5 flex min-w-0 translate-x-px flex-col gap-1 border-l border-sidebar-border px-2.5 py-0.5'',
                     str ''group-data-[collapsible=icon]:hidden'',
                     className]),
               Spread props] None))"

definition SidebarMenuSubItem :: "'v component" where
  "SidebarMenuSubItem k p =
     (let ref = obj_get p ''ref''; props = rest [] p in El ''li'' (jsx [At ''ref'' ref, Spread props] None))"

definition SidebarMenuSubButton_element :: "'v component" where
  "SidebarMenuSubButton_element k p =
     (let ref = obj_get p ''ref'';
          asChild = v_default (obj_get p ''asChild'') (Some (Flag False));
          size = v_default (obj_get p ''size'') (str ''md'');
          isActive = obj_get p ''isActive'';
          className = obj_get p ''className'';
          props = rest [''asChild'', ''size'', ''isActive'', ''className''] p;
          Comp = if prop_truthy asChild then ''Slot'' else ''a''
      in El Comp
           (jsx
              [At ''ref'' ref,
               At ''data-sidebar'' (str ''menu-sub-button''),
               At ''data-size'' size,
               At ''data-active'' isActive,
               At ''className''
                 (cn k
                    [str
                       ''flex h-7 min-w-0 -translate-x-px items-center gap-2 overflow-hidden rounded-md px-2 text-sidebar-foreground outline-none ring-sidebar-ring aria-disabled:pointer-events-none aria-disabled:opacity-50 hover:bg-sidebar-accent hover:text-sidebar-accent-foreground focus-visible:ring-2 active:bg-sidebar-accent active:text-sidebar-accent-foreground disabled:pointer-events-none disabled:opacity-50 [&>span:last-child]:truncate [&>svg]:size-4 [&>svg]:shrink-0 [&>svg]:text-sidebar-accent-foreground'',
                     str ''data-[active=true]:bg-sidebar-accent data-[active=true]:text-sidebar-accent-foreground'',
                     v_and (v_eq size (str ''sm'')) (str ''text-xs''),
                     v_and (v_eq size (str ''md'')) (str ''text-sm''),
                     str ''group-data-[collapsible=icon]:hidden'',
                     className]),
               Spread props] None))"

section \<open>What the components pass on\<close>

definition sidebar_kit :: "'v props \<Rightarrow> (string list \<times> nat list \<times> 'v component) list" where
  "sidebar_kit ctx =
     [([''className''], [], (SidebarRail ctx)),
      ([''className''], [], SidebarInset),
      ([''className'', ''type''], [], SidebarInput),
      ([''className''], [], SidebarHeader),
      ([''className''], [], SidebarFooter),
      ([''className'', ''orientation'', ''decorative''], [], SidebarSeparator),
      ([''className''], [], SidebarContent),
      ([''className''], [], SidebarGroup),
      ([''className'', ''asChild''], [], SidebarGroupLabel),
      ([''className'', ''asChild''], [], SidebarGroupAction),
      ([''className''], [], SidebarGroupContent),
      ([''className''], [], SidebarMenu),
      ([''className''], [], SidebarMenuItem),
      ([''className'', ''asChild'', ''showOnHover''], [], SidebarMenuAction_element),
      ([''className''], [], SidebarMenuBadge),
      ([''className''], [], SidebarMenuSub),
      ([], [], SidebarMenuSubItem),
      ([''asChild'', ''size'', ''isActive'', ''className''], [], SidebarMenuSubButton_element)]"

definition sidebar_styled :: "'v props \<Rightarrow> (string list \<times> nat list \<times> 'v component) list" where
  "sidebar_styled ctx =
     [([''className''], [], (SidebarRail ctx)),
      ([''className''], [], SidebarInset),
      ([''className''], [], SidebarHeader),
      ([''className''], [], SidebarFooter),
      ([''className''], [], SidebarContent),
      ([''className''], [], SidebarGroup),
      ([''className'', ''asChild''], [], SidebarGroupLabel),
      ([''className'', ''asChild''], [], SidebarGroupAction),
      ([''className''], [], SidebarGroupContent),
      ([''className''], [], SidebarMenu),
      ([''className''], [], SidebarMenuItem),
      ([''className'', ''asChild'', ''showOnHover''], [], SidebarMenuAction_element),
      ([''className''], [], SidebarMenuBadge),
      ([''className''], [], SidebarMenuSub),
      ([''asChild'', ''size'', ''isActive'', ''className''], [], SidebarMenuSubButton_element)]"

lemmas sidebar_defs = SidebarRail_def SidebarInset_def SidebarInput_def SidebarHeader_def SidebarFooter_def
  SidebarSeparator_def SidebarContent_def SidebarGroup_def SidebarGroupLabel_def SidebarGroupAction_def
  SidebarGroupContent_def SidebarMenu_def SidebarMenuItem_def SidebarMenuAction_element_def SidebarMenuBadge_def
  SidebarMenuSub_def SidebarMenuSubItem_def SidebarMenuSubButton_element_def

lemma sidebar_pass_on: "list_all passes_on (sidebar_kit ctx)"
  by (simp add: sidebar_kit_def sidebar_defs Input_def Separator_def passes_on_def Let_def)

lemma sidebar_merge_last: "list_all merges_last (sidebar_styled ctx)"
  by (simp add: sidebar_styled_def sidebar_defs merges_last_def Let_def)

end
