(* ===== verification/Ui_Sidebar.thy ===== *)
theory Ui_Sidebar
  imports App_Shell
begin

text \<open>
  The collapsible sidebar of the component library
  (\<open>example-apps/onboarding-flow/src/components/ui/sidebar.tsx\<close>): the provider with its callbacks, keyboard
  shortcut and cookie, and what the parts of the sidebar show. Classes that are always there are left out,
  those chosen by state or properties are kept. No page of the application uses this sidebar yet; the one
  of \<open>App_Shell\<close> is another component.

  A callback belongs to the render it was made in: \<open>closure\<close> holds the values it has captured.
\<close>

section \<open>The provider\<close>

definition SIDEBAR_COOKIE_NAME :: string where "SIDEBAR_COOKIE_NAME = ''sidebar:state''"

definition SIDEBAR_COOKIE_MAX_AGE :: nat where "SIDEBAR_COOKIE_MAX_AGE = 60 * 60 * 24 * 7"

definition SIDEBAR_WIDTH :: string where "SIDEBAR_WIDTH = ''16rem''"

definition SIDEBAR_WIDTH_MOBILE :: string where "SIDEBAR_WIDTH_MOBILE = ''18rem''"

definition SIDEBAR_WIDTH_ICON :: string where "SIDEBAR_WIDTH_ICON = ''3rem''"

definition SIDEBAR_KEYBOARD_SHORTCUT :: string where "SIDEBAR_KEYBOARD_SHORTCUT = ''b''"

text \<open>The properties \<open>open\<close> and whether \<open>onOpenChange\<close> is given.\<close>

record sidebar_props =
  sp_open :: "bool option"
  sp_onOpenChange :: bool

text \<open>The state, the text last assigned to \<open>document.cookie\<close> and the values given to \<open>onOpenChange\<close>.\<close>

record sidebar =
  sb_isMobile :: "bool option"
  sb_openMobile :: bool
  sb_open :: bool
  sb_cookie :: "string option"
  sb_reported :: "bool list"

definition sidebar_init :: "bool option \<Rightarrow> sidebar" where
  "sidebar_init defaultOpen =
     \<lparr>sb_isMobile = None, sb_openMobile = False, sb_open = nullish defaultOpen True, sb_cookie = None, sb_reported = []\<rparr>"

definition is_open :: "sidebar_props \<Rightarrow> sidebar \<Rightarrow> bool" where
  "is_open p s = nullish (sp_open p) (sb_open s)"

record sidebar_closure =
  cl_isMobile :: bool
  cl_open :: bool

definition closure :: "sidebar_props \<Rightarrow> sidebar \<Rightarrow> sidebar_closure" where
  "closure p s = \<lparr>cl_isMobile = useIsMobile (sb_isMobile s), cl_open = is_open p s\<rparr>"

datatype open_value = Open_value bool | Open_update "bool \<Rightarrow> bool"

fun open_state :: "open_value \<Rightarrow> bool \<Rightarrow> bool" where
  "open_state (Open_value b) was = b"
| "open_state (Open_update f) was = f was"

definition cookie_text :: "bool \<Rightarrow> string" where
  "cookie_text b =
     SIDEBAR_COOKIE_NAME @ ''='' @ (if b then ''true'' else ''false'') @
     ''; path=/; max-age='' @ nat_to_string SIDEBAR_COOKIE_MAX_AGE"

definition setOpen :: "sidebar_props \<Rightarrow> sidebar_closure \<Rightarrow> open_value \<Rightarrow> sidebar \<Rightarrow> sidebar" where
  "setOpen p cl v s =
     (let b = open_state v (cl_open cl) in
      (if sp_onOpenChange p then s\<lparr>sb_reported := sb_reported s @ [b]\<rparr> else s\<lparr>sb_open := b\<rparr>)
        \<lparr>sb_cookie := Some (cookie_text b)\<rparr>)"

definition toggleSidebar :: "sidebar_props \<Rightarrow> sidebar_closure \<Rightarrow> sidebar \<Rightarrow> sidebar" where
  "toggleSidebar p cl s =
     (if cl_isMobile cl then s\<lparr>sb_openMobile := \<not> sb_openMobile s\<rparr> else setOpen p cl (Open_update Not) s)"

text \<open>The listener on the window; the second component is \<open>preventDefault\<close>.\<close>

definition sidebar_key :: "sidebar_props \<Rightarrow> string \<Rightarrow> bool \<Rightarrow> bool \<Rightarrow> sidebar \<Rightarrow> sidebar \<times> bool" where
  "sidebar_key p key metaKey ctrlKey s =
     (if key = SIDEBAR_KEYBOARD_SHORTCUT \<and> (metaKey \<or> ctrlKey) then (toggleSidebar p (closure p s) s, True)
      else (s, False))"

text \<open>Events of the provider: the width of the window, a key, a click on the trigger or the rail, \<open>setOpen\<close> and
  \<open>setOpenMobile\<close> of the context, and a render with other properties.\<close>

datatype sidebar_event =
  Width nat | Key string bool bool | Toggle_click | Set_open bool | Set_open_mobile bool | Render sidebar_props

fun sidebar_step :: "sidebar_props \<times> sidebar \<Rightarrow> sidebar_event \<Rightarrow> sidebar_props \<times> sidebar" where
  "sidebar_step (p, s) (Width w) = (p, s\<lparr>sb_isMobile := Some (w < MOBILE_BREAKPOINT)\<rparr>)"
| "sidebar_step (p, s) (Key k m c) = (p, fst (sidebar_key p k m c s))"
| "sidebar_step (p, s) Toggle_click = (p, toggleSidebar p (closure p s) s)"
| "sidebar_step (p, s) (Set_open b) = (p, setOpen p (closure p s) (Open_value b) s)"
| "sidebar_step (p, s) (Set_open_mobile b) = (p, s\<lparr>sb_openMobile := b\<rparr>)"
| "sidebar_step (p, s) (Render p') = (p', s)"

section \<open>What the parts show\<close>

text \<open>\<open>useSidebar\<close> outside a provider throws.\<close>

definition useSidebar :: "'c option \<Rightarrow> string + 'c" where
  "useSidebar ctx = (case ctx of None \<Rightarrow> Inl ''useSidebar must be used within a SidebarProvider.'' | Some c \<Rightarrow> Inr c)"

definition sidebar_state :: "sidebar_props \<Rightarrow> sidebar \<Rightarrow> string" where
  "sidebar_state p s = (if is_open p s then ''expanded'' else ''collapsed'')"

record docked_sidebar =
  dk_state :: string
  dk_collapsible :: string
  dk_variant :: string
  dk_side :: string
  dk_gap :: string
  dk_position :: string
  dk_padding :: string

datatype sidebar_view = Fixed_sidebar | Sheet_sidebar bool string string | Docked_sidebar docked_sidebar

definition raised_variant :: "string \<Rightarrow> bool" where
  "raised_variant variant = (variant = ''floating'' \<or> variant = ''inset'')"

definition UiSidebar :: "string option \<Rightarrow> string option \<Rightarrow> string option \<Rightarrow> sidebar_props \<Rightarrow> sidebar \<Rightarrow> sidebar_view" where
  "UiSidebar sideProp variantProp collapsibleProp p s =
     (let side = nullish sideProp ''left''; variant = nullish variantProp ''sidebar'';
          collapsible = nullish collapsibleProp ''offcanvas'' in
      if collapsible = ''none'' then Fixed_sidebar
      else if useIsMobile (sb_isMobile s) then Sheet_sidebar (sb_openMobile s) SIDEBAR_WIDTH_MOBILE side
      else Docked_sidebar
        \<lparr>dk_state = sidebar_state p s,
         dk_collapsible = (if sidebar_state p s = ''collapsed'' then collapsible else []),
         dk_variant = variant, dk_side = side,
         dk_gap = (if raised_variant variant
            then ''group-data-[collapsible=icon]:w-[calc(var(--sidebar-width-icon)_+_theme(spacing.4))]''
            else ''group-data-[collapsible=icon]:w-[--sidebar-width-icon]''),
         dk_position = (if side = ''left''
            then ''left-0 group-data-[collapsible=offcanvas]:left-[calc(var(--sidebar-width)*-1)]''
            else ''right-0 group-data-[collapsible=offcanvas]:right-[calc(var(--sidebar-width)*-1)]''),
         dk_padding = (if raised_variant variant
            then ''p-2 group-data-[collapsible=icon]:w-[calc(var(--sidebar-width-icon)_+_theme(spacing.4)_+2px)]''
            else ''group-data-[collapsible=icon]:w-[--sidebar-width-icon] '' @
                 ''group-data-[side=left]:border-r group-data-[side=right]:border-l'')\<rparr>)"

text \<open>The button that toggles: the handler of the caller runs first.\<close>

definition SidebarTrigger :: "(sidebar \<Rightarrow> sidebar) option \<Rightarrow> sidebar_props \<Rightarrow> sidebar \<Rightarrow> sidebar" where
  "SidebarTrigger onClick p s = toggleSidebar p (closure p s) (case onClick of None \<Rightarrow> s | Some f \<Rightarrow> f s)"

datatype tip = Tip_text string | Tip_props "json obj"

fun tip_props :: "tip option \<Rightarrow> json obj option" where
  "tip_props None = None"
| "tip_props (Some (Tip_text t)) = (if t = [] then None else Some [(''children'', JStr t)])"
| "tip_props (Some (Tip_props ps)) = Some ps"

record menu_button =
  mb_size :: string
  mb_active :: bool
  mb_tooltip :: "json obj option"

definition SidebarMenuButton :: "bool option \<Rightarrow> string option \<Rightarrow> tip option \<Rightarrow> sidebar_props \<Rightarrow> sidebar \<Rightarrow> menu_button" where
  "SidebarMenuButton active sizeProp tooltip p s =
     \<lparr>mb_size = nullish sizeProp ''default'', mb_active = nullish active False,
      mb_tooltip = map_option (obj_spread
        [(''side'', JStr ''right''), (''align'', JStr ''center''),
         (''hidden'', JBool (sidebar_state p s \<noteq> ''collapsed'' \<or> useIsMobile (sb_isMobile s)))]) (tip_props tooltip)\<rparr>"

definition skeleton_width :: "rat \<Rightarrow> int" where
  "skeleton_width random = \<lfloor>random * 40\<rfloor> + 50"

definition SidebarMenuAction :: "bool option \<Rightarrow> string list" where
  "SidebarMenuAction showOnHover =
     (if nullish showOnHover False
      then [''group-focus-within/menu-item:opacity-100 group-hover/menu-item:opacity-100 data-[state=open]:opacity-100 '' @
            ''peer-data-[active=true]/menu-button:text-sidebar-accent-foreground md:opacity-0'']
      else [])"

definition SidebarMenuSubButton :: "string option \<Rightarrow> string \<times> string list" where
  "SidebarMenuSubButton sizeProp =
     (let size = nullish sizeProp ''md'' in
      (size, (if size = ''sm'' then [''text-xs''] else []) @ (if size = ''md'' then [''text-sm''] else [])))"

section \<open>Facts\<close>

lemmas toggle_defs = toggleSidebar_def setOpen_def closure_def is_open_def nullish_def Let_def

lemma setOpen_other [simp]:
  "sb_isMobile (setOpen p cl v s) = sb_isMobile s" "sb_openMobile (setOpen p cl v s) = sb_openMobile s"
  by (simp_all add: setOpen_def Let_def)

lemma setOpen_open: "sb_open (setOpen p cl v s) = (if sp_onOpenChange p then sb_open s else open_state v (cl_open cl))"
  by (simp add: setOpen_def Let_def)

text \<open>Left to itself, the sidebar and its cookie say the same.\<close>

fun uncontrolled :: "sidebar_event \<Rightarrow> bool" where
  "uncontrolled (Render p) = (sp_open p = None \<and> \<not> sp_onOpenChange p)"
| "uncontrolled e = True"

fun cookie_inv :: "sidebar_props \<times> sidebar \<Rightarrow> bool" where
  "cookie_inv (p, s) =
     (sp_open p = None \<and> \<not> sp_onOpenChange p \<and>
      (sb_cookie s = None \<or> sb_cookie s = Some (cookie_text (is_open p s))))"

lemma toggle_cookie:
  assumes "cookie_inv (p, s)" shows "cookie_inv (p, toggleSidebar p cl s)" "cookie_inv (p, setOpen p cl v s)"
  using assms by (auto simp: toggleSidebar_def setOpen_def is_open_def Let_def)

interpretation cookie: guarded_machine sidebar_step "\<lambda>s e. uncontrolled e" cookie_inv
proof
  fix c e
  assume "cookie_inv c" and "uncontrolled e"
  then show "cookie_inv (sidebar_step c e)"
    by (cases c; cases e)
      (auto simp: sidebar_key_def toggle_cookie is_open_def simp del: cookie_inv.simps elim: cookie_inv.elims,
       auto simp: is_open_def)
qed

lemma cookie_says_the_state:
  assumes "list_all uncontrolled es"
    and "run sidebar_step (\<lparr>sp_open = None, sp_onOpenChange = False\<rparr>, sidebar_init d) es = (p, s)"
  shows "sb_cookie s = None \<or> sb_cookie s = Some (cookie_text (is_open p s))"
proof -
  have "admissible sidebar_step (\<lambda>s e. uncontrolled e) c es" for c
    using assms(1) by (induction es arbitrary: c) simp_all
  then have "cookie_inv (p, s)"
    using cookie.run_inv [of "(\<lparr>sp_open = None, sp_onOpenChange = False\<rparr>, sidebar_init d)" es] assms(2)
    by (simp add: sidebar_init_def)
  then show ?thesis by simp
qed

text \<open>Under \<open>open\<close> without \<open>onOpenChange\<close> the sidebar cannot be moved, and the cookie records the wish.\<close>

lemma open_alone_is_stuck:
  assumes "sp_open p = Some b" and "\<not> sp_onOpenChange p" and "\<not> useIsMobile (sb_isMobile s)"
  shows "is_open p (toggleSidebar p (closure p s) s) = b \<and>
    sb_cookie (toggleSidebar p (closure p s) s) = Some (cookie_text (\<not> b))"
  using assms by (simp add: toggle_defs)

text \<open>With both, the parent is asked for the opposite of what is shown, and decides.\<close>

lemma parent_decides:
  assumes "sp_onOpenChange p" and "\<not> useIsMobile (sb_isMobile s)"
  shows "sb_reported (toggleSidebar p (closure p s) s) = sb_reported s @ [\<not> is_open p s] \<and>
    sb_open (toggleSidebar p (closure p s) s) = sb_open s"
  using assms by (simp add: toggle_defs)

text \<open>Two toggles by the callback of one render count once on a desktop, because the callback has captured
  \<open>open\<close>; on a phone both count.\<close>

lemma toggles_of_one_render:
  assumes "sp_open p = None" and "\<not> sp_onOpenChange p"
  shows "is_open p (toggleSidebar p (closure p s) (toggleSidebar p (closure p s) s)) =
      (if useIsMobile (sb_isMobile s) then is_open p s else \<not> is_open p s)"
    and "sb_openMobile (toggleSidebar p (closure p s) (toggleSidebar p (closure p s) s)) = sb_openMobile s"
  using assms by (simp_all add: toggle_defs)

lemma toggles_of_two_renders:
  assumes "sp_open p = None" and "\<not> sp_onOpenChange p"
  shows "let s' = toggleSidebar p (closure p s) s in is_open p (toggleSidebar p (closure p s') s') = is_open p s"
  using assms by (simp add: toggle_defs)

text \<open>The sheet of a phone is not closed when the window grows: it is open again when it shrinks.\<close>

lemma sheet_is_remembered:
  assumes "w < MOBILE_BREAKPOINT" and "\<not> w' < MOBILE_BREAKPOINT" and "nullish c ''offcanvas'' \<noteq> ''none''"
  shows "UiSidebar side v c p (snd (run sidebar_step (p, s) [Width w, Set_open_mobile True, Width w', Width w])) =
    Sheet_sidebar True SIDEBAR_WIDTH_MOBILE (nullish side ''left'')"
  using assms by (simp add: UiSidebar_def Let_def useIsMobile_def nullish_def)

text \<open>The shortcut and the buttons do the same.\<close>

lemma shortcut_toggles: "sidebar_step (p, s) (Key ''b'' True c) = sidebar_step (p, s) Toggle_click"
  by (simp add: sidebar_key_def SIDEBAR_KEYBOARD_SHORTCUT_def)

text \<open>A tooltip shows only beside icons, unless the caller sets \<open>hidden\<close> itself.\<close>

lemma tooltip_beside_icons:
  assumes "mb_tooltip (SidebarMenuButton a z (Some (Tip_text t)) p s) = Some ps"
  shows "obj_get ps ''hidden'' = Some (JBool (is_open p s \<or> useIsMobile (sb_isMobile s)))"
  using assms by (auto simp: SidebarMenuButton_def sidebar_state_def split: if_splits)

lemma skeleton_width_bounds:
  assumes "0 \<le> r" and "r < 1"
  shows "50 \<le> skeleton_width r" and "skeleton_width r \<le> 89"
proof -
  have "0 \<le> \<lfloor>r * 40\<rfloor>" "\<lfloor>r * 40\<rfloor> < 40"
    using assms by (simp_all add: floor_less_iff)
  then show "50 \<le> skeleton_width r" "skeleton_width r \<le> 89"
    by (simp_all add: skeleton_width_def)
qed

end
