(* ===== verification/Toasts.thy ===== *)
theory Toasts
  imports Prelude
begin

text \<open>
  \<open>lib/hooks/use-toast.ts\<close>: the store of the toasts, its reducer and its removal timers.

  The module's variables (\<open>count\<close>, \<open>memoryState\<close>, \<open>toastTimeouts\<close>) are the record \<open>toaster\<close>;
  a pending timer is the identifier in \<open>tr_timeouts\<close>, and \<open>timerFires\<close> is its callback. The
  subscribed components are the list of the states they were last given.
\<close>

definition TOAST_LIMIT :: nat where "TOAST_LIMIT = 1"

definition TOAST_REMOVE_DELAY :: nat where "TOAST_REMOVE_DELAY = 1000000"

definition MAX_SAFE_INTEGER :: nat where "MAX_SAFE_INTEGER = 2 ^ 53 - 1"

record toast_item =
  to_id :: string
  to_title :: "string option"
  to_description :: "string option"
  to_open :: bool

text \<open>\<open>Partial<ToasterToast>\<close>: the keys that are present; the identifier selects the toast.\<close>

record toast_patch =
  tp_id :: "string option"
  tp_title :: "string option option"
  tp_description :: "string option option"
  tp_open :: "bool option"

datatype toast_action =
  ADD_TOAST toast_item | UPDATE_TOAST toast_patch | DISMISS_TOAST "string option"
| REMOVE_TOAST "string option"

record toaster =
  tr_count :: nat
  tr_toasts :: "toast_item list"
  tr_timeouts :: "string list"
  tr_listeners :: "(nat \<times> toast_item list) list"

definition genId :: "toaster \<Rightarrow> string \<times> toaster" where
  "genId s = (let c = (tr_count s + 1) mod MAX_SAFE_INTEGER in (nat_to_string c, s\<lparr>tr_count := c\<rparr>))"

definition addToRemoveQueue :: "string \<Rightarrow> string list \<Rightarrow> string list" where
  "addToRemoveQueue toastId timeouts = (if toastId \<in> set timeouts then timeouts else timeouts @ [toastId])"

definition patch_toast :: "toast_patch \<Rightarrow> toast_item \<Rightarrow> toast_item" where
  "patch_toast p t = t\<lparr>to_title := nullish (tp_title p) (to_title t),
     to_description := nullish (tp_description p) (to_description t),
     to_open := nullish (tp_open p) (to_open t)\<rparr>"

text \<open>The reducer, with the timers it starts.\<close>

fun reducer :: "toast_item list \<times> string list \<Rightarrow> toast_action \<Rightarrow> toast_item list \<times> string list" where
  "reducer (toasts, timeouts) (ADD_TOAST t) = (take TOAST_LIMIT (t # toasts), timeouts)"
| "reducer (toasts, timeouts) (UPDATE_TOAST p) =
     (map (\<lambda>t. if tp_id p = Some (to_id t) then patch_toast p t else t) toasts, timeouts)"
| "reducer (toasts, timeouts) (DISMISS_TOAST toastId) =
     (map (\<lambda>t. if toastId = Some (to_id t) \<or> toastId = None then t\<lparr>to_open := False\<rparr> else t) toasts,
      (if truthy toastId then addToRemoveQueue (the toastId) timeouts
       else foldl (\<lambda>q t. addToRemoveQueue (to_id t) q) timeouts toasts))"
| "reducer (toasts, timeouts) (REMOVE_TOAST toastId) =
     (case toastId of None \<Rightarrow> [] | Some i \<Rightarrow> remove_by to_id i toasts, timeouts)"

definition dispatch :: "toast_action \<Rightarrow> toaster \<Rightarrow> toaster" where
  "dispatch a s =
     (let (toasts, timeouts) = reducer (tr_toasts s, tr_timeouts s) a
      in s\<lparr>tr_toasts := toasts, tr_timeouts := timeouts,
           tr_listeners := map (\<lambda>(l, _). (l, toasts)) (tr_listeners s)\<rparr>)"

text \<open>\<open>toast(props)\<close>: the new identifier and the state.\<close>

definition toast_call :: "string option \<Rightarrow> string option \<Rightarrow> toaster \<Rightarrow> string \<times> toaster" where
  "toast_call title description s =
     (let (i, s1) = genId s
      in (i, dispatch (ADD_TOAST \<lparr>to_id = i, to_title = title, to_description = description,
                                  to_open = True\<rparr>) s1))"

definition dismiss :: "string option \<Rightarrow> toaster \<Rightarrow> toaster" where
  "dismiss toastId s = dispatch (DISMISS_TOAST toastId) s"

definition update_toast :: "string \<Rightarrow> toast_patch \<Rightarrow> toaster \<Rightarrow> toaster" where
  "update_toast i p s = dispatch (UPDATE_TOAST (p\<lparr>tp_id := Some i\<rparr>)) s"

text \<open>The callback of a timer; only a pending timer fires.\<close>

definition timerFires :: "string \<Rightarrow> toaster \<Rightarrow> toaster" where
  "timerFires i s =
     (if i \<in> set (tr_timeouts s)
      then dispatch (REMOVE_TOAST (Some i)) (s\<lparr>tr_timeouts := filter (\<lambda>j. j \<noteq> i) (tr_timeouts s)\<rparr>)
      else s)"

definition subscribe :: "nat \<Rightarrow> toaster \<Rightarrow> toaster" where
  "subscribe l s = s\<lparr>tr_listeners := tr_listeners s @ [(l, tr_toasts s)]\<rparr>"

text \<open>The clean-up of the effect removes the first occurrence.\<close>

fun remove_listener :: "nat \<Rightarrow> (nat \<times> 'a) list \<Rightarrow> (nat \<times> 'a) list" where
  "remove_listener l [] = []"
| "remove_listener l ((k, v) # ls) = (if k = l then ls else (k, v) # remove_listener l ls)"

definition unsubscribe :: "nat \<Rightarrow> toaster \<Rightarrow> toaster" where
  "unsubscribe l s = s\<lparr>tr_listeners := remove_listener l (tr_listeners s)\<rparr>"

datatype toast_event =
  Toast "string option" "string option" | Dismiss "string option" | UpdateT string toast_patch
| Timer string | Subscribe nat | Unsubscribe nat

fun toast_step :: "toaster \<Rightarrow> toast_event \<Rightarrow> toaster" where
  "toast_step s (Toast t d) = snd (toast_call t d s)"
| "toast_step s (Dismiss i) = dismiss i s"
| "toast_step s (UpdateT i p) = update_toast i p s"
| "toast_step s (Timer i) = timerFires i s"
| "toast_step s (Subscribe l) = subscribe l s"
| "toast_step s (Unsubscribe l) = unsubscribe l s"

definition toaster_init :: toaster where
  "toaster_init = \<lparr>tr_count = 0, tr_toasts = [], tr_timeouts = [], tr_listeners = []\<rparr>"

section \<open>Invariant\<close>

text \<open>At most one toast is kept; a closed toast has a pending timer, which removes it; every
  subscribed component holds the current toasts; no timer is started twice.\<close>

definition toaster_inv :: "toaster \<Rightarrow> bool" where
  "toaster_inv s =
     (length (tr_toasts s) \<le> TOAST_LIMIT \<and> distinct (tr_timeouts s) \<and>
      (\<forall>t\<in>set (tr_toasts s). \<not> to_open t \<longrightarrow> to_id t \<in> set (tr_timeouts s)) \<and>
      (\<forall>v\<in>snd ` set (tr_listeners s). v = tr_toasts s))"

text \<open>What the code's callers do: they never close a toast by an update, and dismiss a toast by an
  identifier that \<open>toast\<close> returned, which is not empty.\<close>

fun toast_ok :: "toaster \<Rightarrow> toast_event \<Rightarrow> bool" where
  "toast_ok s (UpdateT i p) = (tp_open p \<noteq> Some False)"
| "toast_ok s (Dismiss i) = (i \<noteq> Some [])"
| "toast_ok s _ = True"

lemma set_addToRemoveQueue [simp]: "set (addToRemoveQueue i q) = insert i (set q)"
  by (auto simp: addToRemoveQueue_def)

lemma distinct_addToRemoveQueue [simp]: "distinct q \<Longrightarrow> distinct (addToRemoveQueue i q)"
  by (simp add: addToRemoveQueue_def)

lemma queue_all:
  "set (foldl (\<lambda>q t. addToRemoveQueue (to_id t) q) q ts) = set q \<union> to_id ` set ts"
  by (induction ts arbitrary: q) auto

lemma distinct_queue_all:
  "distinct q \<Longrightarrow> distinct (foldl (\<lambda>q t. addToRemoveQueue (to_id t) q) q ts)"
  by (induction ts arbitrary: q) auto

lemma dispatch_listeners:
  "\<forall>v\<in>snd ` set (tr_listeners (dispatch a s)). v = tr_toasts (dispatch a s)"
  by (auto simp: dispatch_def Let_def split: prod.splits)

lemma dispatch_sel:
  "tr_toasts (dispatch a s) = fst (reducer (tr_toasts s, tr_timeouts s) a)"
  "tr_timeouts (dispatch a s) = snd (reducer (tr_toasts s, tr_timeouts s) a)"
  by (simp_all add: dispatch_def case_prod_beta Let_def)

lemma set_remove_listener: "snd ` set (remove_listener l ls) \<subseteq> snd ` set ls"
  by (induction l ls rule: remove_listener.induct) auto

lemma toaster_inv_step: "toaster_inv s \<Longrightarrow> toast_ok s e \<Longrightarrow> toaster_inv (toast_step s e)"
proof (cases e)
  case (Toast t d)
  moreover assume "toaster_inv s"
  ultimately show ?thesis
    by (simp add: toast_call_def genId_def Let_def toaster_inv_def dispatch_listeners [simplified]
        dispatch_sel TOAST_LIMIT_def)
next
  case (Dismiss i)
  moreover assume "toaster_inv s" "toast_ok s e"
  ultimately show ?thesis
    by (cases i) (auto simp: dismiss_def toaster_inv_def dispatch_listeners [simplified] dispatch_sel
        queue_all distinct_queue_all split: if_splits)
next
  case (UpdateT i p)
  moreover assume "toaster_inv s" "toast_ok s e"
  ultimately show ?thesis
    by (cases "tp_open p") (auto simp: update_toast_def toaster_inv_def
        dispatch_listeners [simplified] dispatch_sel patch_toast_def)
next
  case (Timer i)
  moreover assume "toaster_inv s"
  moreover have "length (remove_by to_id i ts) \<le> length ts" for ts
    by (induction ts) simp_all
  ultimately show ?thesis
    by (auto simp: timerFires_def toaster_inv_def dispatch_listeners [simplified] dispatch_sel
        set_remove_by intro: order_trans)
next
  case (Subscribe l)
  moreover assume "toaster_inv s"
  ultimately show ?thesis by (auto simp: subscribe_def toaster_inv_def)
next
  case (Unsubscribe l)
  moreover assume "toaster_inv s"
  ultimately show ?thesis
    using set_remove_listener [of l "tr_listeners s"] by (auto simp: unsubscribe_def toaster_inv_def)
qed

interpretation toaster: guarded_machine toast_step toast_ok toaster_inv
  by unfold_locales (rule toaster_inv_step)

lemma count_distinct: "distinct xs \<Longrightarrow> x \<in> set xs \<Longrightarrow> count_list xs x = 1"
  by (induction xs) auto

section \<open>Property\<close>

text \<open>However toasts are shown, updated, dismissed and timed out, at most one is kept, a
  dismissed one has exactly one pending timer, whose firing removes it, and every mounted
  component sees the current toasts.\<close>

theorem dismissed_toast_is_removed:
  assumes "admissible toast_step toast_ok toaster_init es" and "s = run toast_step toaster_init es"
  shows "length (tr_toasts s) \<le> 1 \<and>
         (\<forall>t\<in>set (tr_toasts s). \<not> to_open t \<longrightarrow>
            count_list (tr_timeouts s) (to_id t) = 1 \<and>
            to_id t \<notin> to_id ` set (tr_toasts (toast_step s (Timer (to_id t))))) \<and>
         (\<forall>v\<in>snd ` set (tr_listeners s). v = tr_toasts s)"
proof -
  have "toaster_inv toaster_init" by (simp add: toaster_inv_def toaster_init_def)
  with assms have inv: "toaster_inv s" by (simp add: toaster.run_inv)
  have "to_id t \<notin> to_id ` set (tr_toasts (timerFires (to_id t) s))"
    if "to_id t \<in> set (tr_timeouts s)" for t :: toast_item
    using that by (auto simp: timerFires_def dispatch_sel set_remove_by)
  moreover have "count_list (tr_timeouts s) i = 1" if "i \<in> set (tr_timeouts s)" for i
    using inv that by (simp add: toaster_inv_def count_distinct)
  ultimately show ?thesis using inv by (auto simp: toaster_inv_def TOAST_LIMIT_def)
qed

lemma dismissed_toast_is_removed_witness:
  "let s = run toast_step toaster_init [Toast (Some ''a'') None, Toast (Some ''b'') None, Dismiss None]
   in length (tr_toasts s) \<le> 1 \<and> (\<exists>t\<in>set (tr_toasts s). \<not> to_open t)"
proof -
  let ?es = "[Toast (Some ''a'') None, Toast (Some ''b'') None, Dismiss None]"
  have "admissible toast_step toast_ok toaster_init ?es" by simp
  from dismissed_toast_is_removed [OF this refl] have "length (tr_toasts (run toast_step toaster_init ?es)) \<le> 1" ..
  moreover have "\<exists>t\<in>set (tr_toasts (run toast_step toaster_init ?es)). \<not> to_open t"
    by (simp add: toast_call_def genId_def dismiss_def dispatch_sel TOAST_LIMIT_def Let_def)
  ultimately show ?thesis by (simp only: Let_def)
qed

end
