(* ===== verification/Ui_Kit.thy ===== *)
theory Ui_Kit
  imports Js_Object Toasts
begin

text \<open>
  The components of the two component libraries that compute something
  (\<open>example-apps/onboarding-flow/src/components/ui\<close>: \<open>chart.tsx\<close>, \<open>carousel.tsx\<close>, \<open>form.tsx\<close>, \<open>toaster.tsx\<close>,
  \<open>progress.tsx\<close>, \<open>toggle-group.tsx\<close>, \<open>pagination.tsx\<close>, \<open>input-otp.tsx\<close>;
  \<open>example-apps/atomic-fi-jdm-editor/src/components\<close>: \<open>stack.tsx\<close>, \<open>page-header.tsx\<close>). The sidebar is in
  \<open>Ui_Sidebar\<close>. The other files of the library wrap a third-party component and add classes.

  The items Recharts hands to the tooltip and the legend are JSON objects; the language's texts of numbers
  are the arguments \<open>show\<close> (template strings) and \<open>locale\<close> (\<open>toLocaleString\<close>). A React node is a JSON value,
  an icon its name. Embla, the carousel library, is the record \<open>embla\<close> of the four operations used.
\<close>

section \<open>Charts\<close>

record chart_item =
  cx_label :: "json option"
  cx_icon :: "string option"
  cx_color :: "string option"
  cx_theme :: "string obj option"

definition THEMES :: "string obj" where
  "THEMES = [(''light'', []), (''dark'', ''.dark'')]"

definition chartId :: "string option \<Rightarrow> string \<Rightarrow> string" where
  "chartId idProp uniqueId = ''chart-'' @ js_or_str idProp (filter (\<lambda>c. c \<noteq> CHR '':'') uniqueId)"

definition colorConfig :: "chart_item obj \<Rightarrow> chart_item obj" where
  "colorConfig config = filter (\<lambda>(k, c). cx_theme c \<noteq> None \<or> truthy (cx_color c)) config"

definition item_color :: "string \<Rightarrow> chart_item \<Rightarrow> string option" where
  "item_color theme c = js_or (Option.bind (cx_theme c) (\<lambda>t. obj_get t theme)) (cx_color c)"

definition color_line :: "string \<Rightarrow> string \<times> chart_item \<Rightarrow> string" where
  "color_line theme kc =
     (let color = item_color theme (snd kc) in
      if truthy color then ''  --color-'' @ fst kc @ '': '' @ the color @ '';'' else [])"

definition line_feed :: string where
  "line_feed = [CHR 0x0A]"

definition theme_block :: "string \<Rightarrow> chart_item obj \<Rightarrow> string \<times> string \<Rightarrow> string" where
  "theme_block chart colored tp =
     line_feed @ snd tp @ '' [data-chart='' @ chart @ ''] {'' @ line_feed @
     join line_feed (map (color_line (fst tp)) colored) @ line_feed @ ''}'' @ line_feed"

definition ChartStyle :: "string \<Rightarrow> chart_item obj \<Rightarrow> string option" where
  "ChartStyle chart config =
     (let colored = colorConfig config in
      if colored = [] then None else Some (join line_feed (map (theme_block chart colored) THEMES)))"

text \<open>The configuration is a plain object, so \<open>in\<close> and the access also find what it inherits: functions,
  which have neither a label nor an icon.\<close>

definition object_prototype :: "string list" where
  "object_prototype =
     [''constructor'', ''__defineGetter__'', ''__defineSetter__'', ''hasOwnProperty'', ''__lookupGetter__'',
      ''__lookupSetter__'', ''isPrototypeOf'', ''propertyIsEnumerable'', ''toString'', ''valueOf'', ''__proto__'',
      ''toLocaleString'']"

definition config_get :: "chart_item obj \<Rightarrow> string \<Rightarrow> chart_item option" where
  "config_get config k = (case obj_get config k of
     Some c \<Rightarrow> Some c
   | None \<Rightarrow> if k \<in> set object_prototype
       then Some \<lparr>cx_label = None, cx_icon = None, cx_color = None, cx_theme = None\<rparr> else None)"

definition getPayloadConfigFromPayload :: "chart_item obj \<Rightarrow> json \<Rightarrow> string \<Rightarrow> chart_item option" where
  "getPayloadConfigFromPayload config payload key =
     (if as_object (Some payload) = None then None
      else let configLabelKey =
          (case as_string (jget (Some payload) key) of
             Some s \<Rightarrow> s
           | None \<Rightarrow> (case as_string (jget (jget (Some payload) ''payload'') key) of Some s \<Rightarrow> s | None \<Rightarrow> key)) in
        case config_get config configLabelKey of Some c \<Rightarrow> Some c | None \<Rightarrow> config_get config key)"

text \<open>\<open>a || b || "value"\<close> in a template string.\<close>

fun first_key :: "(json \<Rightarrow> string) \<Rightarrow> json option list \<Rightarrow> string" where
  "first_key show [] = ''value''"
| "first_key show (v # vs) = (case v of
     Some j \<Rightarrow> if json_truthy j then (case j of JStr s \<Rightarrow> s | _ \<Rightarrow> show j) else first_key show vs
   | None \<Rightarrow> first_key show vs)"

definition json_or :: "json option \<Rightarrow> json option \<Rightarrow> json option" where
  "json_or a b = (case a of Some j \<Rightarrow> if json_truthy j then a else b | None \<Rightarrow> b)"

record chart_options =
  co_hideLabel :: bool
  co_hideIndicator :: bool
  co_indicator :: string
  co_color :: "string option"
  co_label :: "json option"
  co_labelKey :: "string option"
  co_nameKey :: "string option"
  co_labelFormatter :: "(json option \<Rightarrow> json list \<Rightarrow> json) option"
  co_formatter :: "(json \<Rightarrow> json \<Rightarrow> json \<Rightarrow> nat \<Rightarrow> json) option"

definition tooltipLabel :: "(json \<Rightarrow> string) \<Rightarrow> chart_item obj \<Rightarrow> chart_options \<Rightarrow> json list \<Rightarrow> json option" where
  "tooltipLabel show config opts payload =
     (if co_hideLabel opts \<or> payload = [] then None
      else let item = Some (hd payload);
             key = first_key show [map_option JStr (co_labelKey opts), jget item ''dataKey'', jget item ''name''];
             itemConfig = getPayloadConfigFromPayload config (hd payload) key;
             value = (case as_string (co_label opts) of
                 Some l \<Rightarrow> if truthy (co_labelKey opts) then Option.bind itemConfig cx_label
                   else json_or (Option.bind (config_get config l) cx_label) (Some (JStr l))
               | None \<Rightarrow> Option.bind itemConfig cx_label) in
           case co_labelFormatter opts of
             Some f \<Rightarrow> Some (f value payload)
           | None \<Rightarrow> json_or value None)"

datatype chart_mark = Icon_mark string | Color_mark "json option" | No_mark

text \<open>\<open>{item.value && ...}\<close>: a value that is zero is shown as it is.\<close>

datatype shown_value = Shown string | Bare_value json | No_value

record tooltip_row =
  tw_mark :: chart_mark
  tw_nested :: "json option"
  tw_name :: "json option"
  tw_value :: shown_value

datatype tooltip_line = Formatted_line json | Row_line tooltip_row

text \<open>\<open>item.payload.fill\<close> of an item without a payload throws; \<open>None\<close> is the exception.\<close>

definition indicatorColor :: "string option \<Rightarrow> json \<Rightarrow> json option option" where
  "indicatorColor color item =
     (if truthy color then Some (map_option JStr color)
      else case jget (Some item) ''payload'' of
        None \<Rightarrow> None
      | Some JNull \<Rightarrow> None
      | p \<Rightarrow> Some (json_or (jget p ''fill'') (jget (Some item) ''color'')))"

definition value_view :: "(json \<Rightarrow> string) \<Rightarrow> json option \<Rightarrow> shown_value" where
  "value_view locale v = (case v of
     None \<Rightarrow> No_value
   | Some j \<Rightarrow> if json_truthy j then Shown (locale j) else (case j of JNum n \<Rightarrow> Bare_value j | _ \<Rightarrow> No_value))"

definition row_line ::
  "(json \<Rightarrow> string) \<Rightarrow> chart_options \<Rightarrow> chart_item option \<Rightarrow> json option \<Rightarrow> json option \<Rightarrow> json option \<Rightarrow> tooltip_row" where
  "row_line locale opts itemConfig color nested item =
     \<lparr>tw_mark = (case Option.bind itemConfig cx_icon of
         Some i \<Rightarrow> Icon_mark i
       | None \<Rightarrow> if co_hideIndicator opts then No_mark else Color_mark color),
      tw_nested = nested,
      tw_name = json_or (Option.bind itemConfig cx_label) (jget item ''name''),
      tw_value = value_view locale (jget item ''value'')\<rparr>"

definition tooltip_line ::
  "(json \<Rightarrow> string) \<Rightarrow> (json \<Rightarrow> string) \<Rightarrow> chart_item obj \<Rightarrow> chart_options \<Rightarrow> json option \<Rightarrow> nat \<times> json \<Rightarrow> tooltip_line option" where
  "tooltip_line show locale config opts nested ix =
     (let item = Some (snd ix);
          key = first_key show [map_option JStr (co_nameKey opts), jget item ''name'', jget item ''dataKey''];
          itemConfig = getPayloadConfigFromPayload config (snd ix) key in
      map_option (\<lambda>color.
        case (co_formatter opts, jget item ''value'', json_or (jget item ''name'') None) of
          (Some f, Some v, Some n) \<Rightarrow> Formatted_line (f v n (snd ix) (fst ix))
        | _ \<Rightarrow> Row_line (row_line locale opts itemConfig color nested item))
        (indicatorColor (co_color opts) (snd ix)))"

definition ChartTooltipContent ::
  "(json \<Rightarrow> string) \<Rightarrow> (json \<Rightarrow> string) \<Rightarrow> chart_item obj \<Rightarrow> chart_options \<Rightarrow> bool \<Rightarrow> json list \<Rightarrow>
   (json option \<times> tooltip_line list) option option" where
  "ChartTooltipContent show locale config opts active payload =
     (if \<not> active \<or> payload = [] then Some None
      else let lbl = tooltipLabel show config opts payload;
             nestLabel = (length payload = 1 \<and> co_indicator opts \<noteq> ''dot'') in
        map_option (\<lambda>ls. Some (if nestLabel then None else lbl, ls))
          (those (map (tooltip_line show locale config opts (if nestLabel then lbl else None)) (enumerate 0 payload))))"

definition ChartLegendContent ::
  "(json \<Rightarrow> string) \<Rightarrow> chart_item obj \<Rightarrow> bool \<Rightarrow> string option \<Rightarrow> json list \<Rightarrow> (chart_mark \<times> json option) list option" where
  "ChartLegendContent show config hideIcon nameKey payload =
     (if payload = [] then None
      else Some (map (\<lambda>item.
        let key = first_key show [map_option JStr nameKey, jget (Some item) ''dataKey''];
            itemConfig = getPayloadConfigFromPayload config item key in
        (case (Option.bind itemConfig cx_icon, hideIcon) of
           (Some i, False) \<Rightarrow> Icon_mark i
         | _ \<Rightarrow> Color_mark (jget (Some item) ''color''),
         Option.bind itemConfig cx_label)) payload))"

section \<open>The carousel\<close>

record 'e embla =
  em_canScrollPrev :: "'e \<Rightarrow> bool"
  em_canScrollNext :: "'e \<Rightarrow> bool"
  em_scrollPrev :: "'e \<Rightarrow> 'e"
  em_scrollNext :: "'e \<Rightarrow> 'e"

text \<open>The state of the component, the state of the library, and the events \<open>onSelect\<close> listens to.\<close>

record 'e carousel =
  ca_api :: "'e option"
  ca_canScrollPrev :: bool
  ca_canScrollNext :: bool
  ca_listens :: "string list"

definition carousel_init :: "'e carousel" where
  "carousel_init = \<lparr>ca_api = None, ca_canScrollPrev = False, ca_canScrollNext = False, ca_listens = []\<rparr>"

definition carousel_axis :: "string option \<Rightarrow> string" where
  "carousel_axis orientationProp = (if nullish orientationProp ''horizontal'' = ''horizontal'' then ''x'' else ''y'')"

definition carousel_orientation :: "string option \<Rightarrow> string option \<Rightarrow> string" where
  "carousel_orientation orientationProp axis =
     js_or_str (Some (nullish orientationProp ''horizontal'')) (if axis = Some ''y'' then ''vertical'' else ''horizontal'')"

definition onSelect :: "'e embla \<Rightarrow> 'e carousel \<Rightarrow> 'e carousel" where
  "onSelect em s = (case ca_api s of
     None \<Rightarrow> s
   | Some e \<Rightarrow> s\<lparr>ca_canScrollPrev := em_canScrollPrev em e, ca_canScrollNext := em_canScrollNext em e\<rparr>)"

definition carousel_ready :: "'e embla \<Rightarrow> 'e \<Rightarrow> 'e carousel \<Rightarrow> 'e carousel" where
  "carousel_ready em e s =
     (let s' = onSelect em (s\<lparr>ca_api := Some e\<rparr>) in s'\<lparr>ca_listens := ca_listens s' @ [''reInit'', ''select'']\<rparr>)"

definition carousel_cleanup :: "'e carousel \<Rightarrow> 'e carousel" where
  "carousel_cleanup s = s\<lparr>ca_listens := remove1 ''select'' (ca_listens s)\<rparr>"

definition scrollPrev :: "'e embla \<Rightarrow> 'e carousel \<Rightarrow> 'e carousel" where
  "scrollPrev em s = s\<lparr>ca_api := map_option (em_scrollPrev em) (ca_api s)\<rparr>"

definition scrollNext :: "'e embla \<Rightarrow> 'e carousel \<Rightarrow> 'e carousel" where
  "scrollNext em s = s\<lparr>ca_api := map_option (em_scrollNext em) (ca_api s)\<rparr>"

definition carousel_key :: "'e embla \<Rightarrow> string \<Rightarrow> 'e carousel \<Rightarrow> 'e carousel \<times> bool" where
  "carousel_key em key s =
     (if key = ''ArrowLeft'' then (scrollPrev em s, True)
      else if key = ''ArrowRight'' then (scrollNext em s, True) else (s, False))"

text \<open>Events: the library is ready, it reports an event (with its state), a key, a click on one of the buttons.\<close>

datatype 'e carousel_event = Ready 'e | Reports string 'e | Carousel_key string | Prev_click | Next_click

fun carousel_step :: "'e embla \<Rightarrow> 'e carousel \<Rightarrow> 'e carousel_event \<Rightarrow> 'e carousel" where
  "carousel_step em s (Ready e) = carousel_ready em e s"
| "carousel_step em s (Reports ev e) =
     (if ca_api s = None then s
      else let s' = s\<lparr>ca_api := Some e\<rparr> in if ev \<in> set (ca_listens s) then onSelect em s' else s')"
| "carousel_step em s (Carousel_key k) = fst (carousel_key em k s)"
| "carousel_step em s Prev_click = (if ca_canScrollPrev s then scrollPrev em s else s)"
| "carousel_step em s Next_click = (if ca_canScrollNext s then scrollNext em s else s)"

definition CarouselPrevious :: "string \<Rightarrow> 'e carousel \<Rightarrow> bool \<times> string" where
  "CarouselPrevious orientation s =
     (ca_canScrollPrev s,
      if orientation = ''horizontal'' then ''-left-12 top-1/2 -translate-y-1/2''
      else ''-top-12 left-1/2 -translate-x-1/2 rotate-90'')"

definition CarouselNext :: "string \<Rightarrow> 'e carousel \<Rightarrow> bool \<times> string" where
  "CarouselNext orientation s =
     (ca_canScrollNext s,
      if orientation = ''horizontal'' then ''-right-12 top-1/2 -translate-y-1/2''
      else ''-bottom-12 left-1/2 -translate-x-1/2 rotate-90'')"

section \<open>Form fields\<close>

text \<open>Without a surrounding item the default context is the empty object, whose \<open>id\<close> is undefined.\<close>

record form_ids =
  fi_item :: string
  fi_description :: string
  fi_message :: string

definition useFormField :: "string option \<Rightarrow> form_ids" where
  "useFormField idOfItem =
     (let i = nullish idOfItem ''undefined'' in
      \<lparr>fi_item = i @ ''-form-item'', fi_description = i @ ''-form-item-description'', fi_message = i @ ''-form-item-message''\<rparr>)"

text \<open>The error of a field, with its message if it has one.\<close>

type_synonym field_error = "string option option"

record form_control =
  fc_id :: string
  fc_describedby :: "string list"
  fc_invalid :: bool

definition FormControl :: "string option \<Rightarrow> field_error \<Rightarrow> form_control" where
  "FormControl i error =
     (let ids = useFormField i in
      \<lparr>fc_id = fi_item ids,
       fc_describedby = (if error = None then [fi_description ids] else [fi_description ids, fi_message ids]),
       fc_invalid = (error \<noteq> None)\<rparr>)"

definition FormLabel :: "string option \<Rightarrow> field_error \<Rightarrow> string \<times> bool" where
  "FormLabel i error = (fi_item (useFormField i), error \<noteq> None)"

text \<open>The identifier and the text of the message, when it is shown.\<close>

definition FormMessage :: "string option \<Rightarrow> field_error \<Rightarrow> string option \<Rightarrow> (string \<times> string) option" where
  "FormMessage i error children =
     (let body = (case error of Some m \<Rightarrow> Some (nullish m ''undefined'') | None \<Rightarrow> children) in
      if truthy body then Some (fi_message (useFormField i), the body) else None)"

section \<open>Small components\<close>

record toast_view =
  tv_id :: string
  tv_title :: "string option"
  tv_description :: "string option"
  tv_open :: bool

definition Toaster :: "toaster \<Rightarrow> toast_view list" where
  "Toaster s = map (\<lambda>t.
     \<lparr>tv_id = to_id t, tv_title = (if truthy (to_title t) then to_title t else None),
      tv_description = (if truthy (to_description t) then to_description t else None), tv_open = to_open t\<rparr>) (tr_toasts s)"

text \<open>How far the bar of \<open>Progress\<close> is shifted to the left, in percent.\<close>

definition Progress :: "rat option \<Rightarrow> rat" where
  "Progress v = 100 - nullish v 0"

text \<open>Variant and size of an item: those of its group, \<open>None\<close> outside a group.\<close>

definition toggle_variants ::
  "(string option \<times> string option) option \<Rightarrow> string option \<Rightarrow> string option \<Rightarrow> string option \<times> string option" where
  "toggle_variants grp variant sizeProp =
     (let ctx = nullish grp (Some ''default'', Some ''default'') in (js_or (fst ctx) variant, js_or (snd ctx) sizeProp))"

definition PaginationLink :: "bool \<Rightarrow> string option \<Rightarrow> string option \<times> string \<times> string" where
  "PaginationLink active sizeProp =
     (if active then Some ''page'' else None, if active then ''outline'' else ''ghost'', nullish sizeProp ''icon'')"

record otp_slot =
  os_char :: "string option"
  os_hasFakeCaret :: bool
  os_isActive :: bool

text \<open>Taking apart a slot that does not exist throws: \<open>None\<close>.\<close>

definition InputOTPSlot :: "otp_slot list \<Rightarrow> nat \<Rightarrow> (string option \<times> bool \<times> bool) option" where
  "InputOTPSlot slots i =
     (if i < length slots then Some (os_char (slots ! i), os_hasFakeCaret (slots ! i), os_isActive (slots ! i)) else None)"

record stack_props =
  sk_horizontal :: bool
  sk_reversed :: bool
  sk_verticalAlign :: "string option"
  sk_horizontalAlign :: "string option"
  sk_gap :: "string option"
  sk_height :: "string option"
  sk_width :: "string option"
  sk_grow :: bool
  sk_style :: "string obj"

definition flexDirection :: "bool \<Rightarrow> bool \<Rightarrow> string" where
  "flexDirection horizontal reversed =
     (if horizontal then (if \<not> reversed then ''row'' else ''row-reverse'')
      else (if \<not> reversed then ''column'' else ''column-reverse''))"

definition Stack :: "stack_props \<Rightarrow> string obj" where
  "Stack p =
     (let v = nullish (sk_verticalAlign p) ''start''; h = nullish (sk_horizontalAlign p) ''start'' in
      obj_spread
        ([(''display'', ''flex''), (''flexDirection'', flexDirection (sk_horizontal p) (sk_reversed p)),
          (''justifyContent'', if \<not> sk_horizontal p then v else h),
          (''alignItems'', if \<not> sk_horizontal p then h else v),
          (''height'', nullish (sk_height p) ''auto''), (''width'', nullish (sk_width p) ''100%''),
          (''gap'', nullish (sk_gap p) ''8'')] @ (if sk_grow p then [(''flexGrow'', ''1'')] else []))
        (sk_style p))"

text \<open>The parts of a page header, in their order.\<close>

definition PageHeader :: "string option \<Rightarrow> string option \<Rightarrow> string option \<Rightarrow> bool \<Rightarrow> string option \<Rightarrow> (string \<times> string) list" where
  "PageHeader title subTitle extra onBack children =
     (if onBack then [(''back'', [])] else []) @
     (case title of None \<Rightarrow> [] | Some t \<Rightarrow> [(''title'', t)]) @
     (if truthy subTitle then [(''subTitle'', the subTitle)] else []) @
     (if truthy extra then [(''extra'', the extra)] else []) @
     (case children of None \<Rightarrow> [] | Some c \<Rightarrow> [(''children'', c)])"

section \<open>Facts on charts\<close>

lemma color_line_eq_Nil: "color_line theme (k, c) = [] \<longleftrightarrow> \<not> truthy (item_color theme c)"
  by (simp add: color_line_def Let_def)

lemma color_without_theme: "cx_theme c = None \<Longrightarrow> color_line t (k, c) = color_line t' (k, c)"
  by (simp add: color_line_def item_color_def)

text \<open>A chart without colours has no style; otherwise every theme has a block.\<close>

lemma ChartStyle_None: "ChartStyle i config = None \<longleftrightarrow> (\<forall>kc \<in> set config. cx_theme (snd kc) = None \<and> \<not> truthy (cx_color (snd kc)))"
  by (simp add: ChartStyle_def colorConfig_def Let_def filter_empty_conv case_prod_beta)

text \<open>What is found for an item is an entry of the configuration, or an inherited function that hides one.\<close>

abbreviation inherited :: chart_item where
  "inherited \<equiv> \<lparr>cx_label = None, cx_icon = None, cx_color = None, cx_theme = None\<rparr>"

lemma config_get_cases: "config_get config k = Some c \<Longrightarrow> obj_get config k = Some c \<or> c = inherited"
  by (auto simp: config_get_def split: option.splits if_splits)

lemma payload_config_cases:
  "getPayloadConfigFromPayload config item key = Some c \<Longrightarrow> (\<exists>k. obj_get config k = Some c) \<or> c = inherited"
  by (auto simp: getPayloadConfigFromPayload_def Let_def split: if_splits option.splits dest!: config_get_cases)

lemma inherited_name_hides_the_label:
  assumes "obj_get fs key = Some (JStr s)" and "s \<in> set object_prototype" and "obj_get config s = None"
  shows "getPayloadConfigFromPayload config (JObj fs) key = Some inherited"
  using assms by (simp add: getPayloadConfigFromPayload_def config_get_def)

text \<open>An item names its configuration by the value at the key, if that value is configured.\<close>

lemma value_names_the_configuration:
  assumes "obj_get fs key = Some (JStr s)" and "obj_get config s = Some c"
  shows "getPayloadConfigFromPayload config (JObj fs) key = Some c"
  using assms by (simp add: getPayloadConfigFromPayload_def config_get_def)

lemma those_Some: "those xs = Some ys \<Longrightarrow> xs = map Some ys"
  by (induction xs arbitrary: ys) (auto split: option.splits)

lemma unformatted_line:
  assumes "(case (a, b, c) of (Some f, Some v, Some n) \<Rightarrow> Formatted_line (g f v n) | _ \<Rightarrow> Row_line q) = Row_line r"
  shows "q = r"
  using assms by (cases a; cases b; cases c) simp_all

lemma tooltip_line_nested:
  assumes "tooltip_line show locale config opts nested ix = Some (Row_line r)"
  shows "tw_nested r = nested"
proof -
  obtain itemConfig color item where "row_line locale opts itemConfig color nested item = r"
    using assms unfolding tooltip_line_def Let_def map_option_eq_Some
    by (elim exE conjE) (drule unformatted_line, blast)
  then show ?thesis by (auto simp: row_line_def)
qed

text \<open>A tooltip has one line per item, and the label stands on top or beside the only item.\<close>

lemma tooltip_lines:
  assumes "ChartTooltipContent show locale config opts active payload = Some (Some (caption, ls))"
  shows "length ls = length payload"
    and "Row_line r \<in> set ls \<Longrightarrow> caption = None \<or> tw_nested r = None"
proof -
  let ?lbl = "tooltipLabel show config opts payload" and ?nest = "length payload = 1 \<and> co_indicator opts \<noteq> ''dot''"
  have caption: "caption = (if ?nest then None else ?lbl)"
    and ls: "map (tooltip_line show locale config opts (if ?nest then ?lbl else None)) (enumerate 0 payload) = map Some ls"
    using assms by (auto simp: ChartTooltipContent_def Let_def split: if_splits dest!: those_Some)
  show "length ls = length payload"
    using arg_cong [OF ls, of length] by simp
  assume "Row_line r \<in> set ls"
  then have "Some (Row_line r) \<in> set (map (tooltip_line show locale config opts (if ?nest then ?lbl else None)) (enumerate 0 payload))"
    unfolding ls by simp
  then obtain ix where "tooltip_line show locale config opts (if ?nest then ?lbl else None) ix = Some (Row_line r)" by auto
  from tooltip_line_nested [OF this] caption show "caption = None \<or> tw_nested r = None" by (simp split: if_splits)
qed

text \<open>A zero is shown bare, not in the format of the other values; an item without data makes the tooltip throw.\<close>

lemma zero_is_bare: "value_view locale (Some (JNum 0)) = Bare_value (JNum 0)"
  by (simp add: value_view_def)

lemma item_without_data_throws:
  assumes "\<not> truthy (co_color opts)" and "jget (Some (hd payload)) ''payload'' = None" and "payload \<noteq> []"
  shows "ChartTooltipContent show locale config opts True payload = None"
  using assms by (cases payload) (simp_all add: ChartTooltipContent_def Let_def tooltip_line_def indicatorColor_def)

section \<open>Facts on the other components\<close>

lemma scroll_buttons [simp]:
  "ca_canScrollPrev (scrollPrev em s) = ca_canScrollPrev s" "ca_canScrollNext (scrollPrev em s) = ca_canScrollNext s"
  "ca_canScrollPrev (scrollNext em s) = ca_canScrollPrev s" "ca_canScrollNext (scrollNext em s) = ca_canScrollNext s"
  by (simp_all add: scrollPrev_def scrollNext_def)

text \<open>Once the library is ready, the buttons follow it from the first report of a selection on.\<close>

lemma buttons_follow_the_library:
  assumes "''select'' \<in> set (ca_listens s)" and "ca_api s \<noteq> None"
  shows "let s' = carousel_step em s (Reports ''select'' e) in
    ca_canScrollPrev s' = em_canScrollPrev em e \<and> ca_canScrollNext s' = em_canScrollNext em e"
  using assms by (auto simp: onSelect_def Let_def)

lemma ready_buttons:
  "let s' = carousel_step em s (Ready e) in
    ca_canScrollPrev s' = em_canScrollPrev em e \<and> ca_canScrollNext s' = em_canScrollNext em e \<and> ''select'' \<in> set (ca_listens s')"
  by (simp add: carousel_ready_def onSelect_def Let_def)

text \<open>The arrow keys do not ask whether scrolling is possible, and ignore the orientation.\<close>

lemma keys_ignore_the_buttons:
  "carousel_step em s (Carousel_key ''ArrowLeft'') = scrollPrev em s"
  "\<not> ca_canScrollPrev s \<Longrightarrow> carousel_step em s Prev_click = s"
  by (simp_all add: carousel_key_def)

text \<open>The cleanup of the effect takes back one of the two subscriptions.\<close>

lemma reInit_stays_subscribed:
  "''reInit'' \<in> set (ca_listens (carousel_cleanup (carousel_ready em e s)))"
  by (simp add: carousel_cleanup_def carousel_ready_def Let_def)

lemma subscriptions_grow:
  "ca_listens (carousel_ready em e (carousel_cleanup (carousel_ready em e carousel_init))) = [''reInit'', ''reInit'', ''select'']"
  by (simp add: carousel_cleanup_def carousel_ready_def carousel_init_def onSelect_def Let_def)

lemma orientation_ignores_the_axis: "carousel_orientation None axis = ''horizontal''"
  by (simp add: carousel_orientation_def nullish_def js_or_str_def truthy_def)

text \<open>The label names the control; an invalid control is described by its message, which is shown unless its text
  is empty.\<close>

lemma label_names_the_control: "fst (FormLabel i e) = fc_id (FormControl i e)"
  by (simp add: FormLabel_def FormControl_def Let_def)

lemma message_describes_the_control:
  assumes "error \<noteq> None" and "error \<noteq> Some (Some [])"
  shows "\<exists>m. FormMessage i error children = Some (m, nullish (the error) ''undefined'') \<and> m \<in> set (fc_describedby (FormControl i error))"
  using assms by (auto simp: FormMessage_def FormControl_def Let_def truthy_def nullish_def split: option.splits)

lemma empty_message_dangles:
  "FormMessage i (Some (Some [])) children = None"
  "fi_message (useFormField i) \<in> set (fc_describedby (FormControl i (Some (Some []))))"
  by (simp_all add: FormMessage_def FormControl_def Let_def truthy_def nullish_def)

lemma toast_shown_once: "map tv_id (Toaster s) = map to_id (tr_toasts s)"
  by (simp add: Toaster_def)

text \<open>Outside a group the variant of an item is ignored.\<close>

lemma variant_outside_a_group: "toggle_variants None v z = (Some ''default'', Some ''default'')"
  by (simp add: toggle_variants_def nullish_def js_or_def truthy_def)

lemma style_wins:
  assumes "wf_obj (sk_style p)" and "obj_get (sk_style p) k = Some v"
  shows "obj_get (Stack p) k = Some v"
  using assms by (simp add: Stack_def Let_def obj_get_spread)

lemma alignment_follows_the_direction:
  assumes "sk_style p = []"
  shows "obj_get (Stack p) ''justifyContent'' =
    Some (nullish (if sk_horizontal p then sk_horizontalAlign p else sk_verticalAlign p) ''start'')"
  using assms by (simp add: Stack_def Let_def)

end
