(* ===== verification/Ui_Views.thy ===== *)
theory Ui_Views
  imports Ui_Sidebar_Parts Ui_Sidebar Ui_Kit
begin

text \<open>
  The elements of the components of the kit that have logic of their own (their logic is in \<open>Ui_Sidebar\<close> and
  \<open>Ui_Kit\<close>), and what holds of all components of the kit: a caller's properties reach the element a component
  wraps, and the caller's class names are merged last.

  \<open>ctx\<close> holds what a component reads from hooks and contexts, by the names the code gives it.
\<close>

section \<open>Elements of components with logic\<close>

fun obj_of :: "'v pval option \<Rightarrow> 'v props" where
  "obj_of (Some (Obj ps)) = ps"
| "obj_of _ = []"

definition SidebarProvider_element :: "'v props \<Rightarrow> 'v component" where
  "SidebarProvider_element ctx k p =
     (let ref = obj_get p ''ref'';
          className = obj_get p ''className'';
          style = obj_get p ''style'';
          children = obj_get p ''children'';
          props = rest [''defaultOpen'', ''open'', ''onOpenChange'', ''className'', ''style'', ''children''] p
      in El ''SidebarContext.Provider'' (jsx [At ''value'' (obj_get ctx ''contextValue'')]
           (Some [TooltipProvider k (jsx [At ''delayDuration'' (Some (Num 0))]
              (Some [El ''div''
                 (jsx
                    [At ''style'' (Some (Obj (attributes []
                       [At ''--sidebar-width'' (str SIDEBAR_WIDTH),
                        At ''--sidebar-width-icon'' (str SIDEBAR_WIDTH_ICON),
                        Spread (obj_of style)]))),
                     At ''className'' (cn k
                       [str ''group/sidebar-wrapper flex min-h-svh w-full has-[[data-variant=inset]]:bg-sidebar'', className]),
                     At ''ref'' ref,
                     Spread props]
                    (Some (nodes children)))]))])))"

text \<open>\<open>click\<close> is the handler that calls the caller's \<open>onClick\<close> and toggles (\<open>SidebarTrigger\<close>).\<close>

definition SidebarTrigger_element :: "'v props \<Rightarrow> 'v component" where
  "SidebarTrigger_element ctx k p =
     (let ref = obj_get p ''ref'';
          className = obj_get p ''className'';
          props = rest [''className'', ''onClick''] p
      in Button k
           (jsx
              [At ''ref'' ref,
               At ''data-sidebar'' (str ''trigger''),
               At ''variant'' (str ''ghost''),
               At ''size'' (str ''icon''),
               At ''className'' (cn k [str ''h-7 w-7'', className]),
               At ''onClick'' (obj_get ctx ''click''),
               Spread props]
              (Some
                 [El ''PanelLeft'' (jsx [] None),
                  El ''span'' (jsx [At ''className'' (str ''sr-only'')] (Some [Text ''Toggle Sidebar'']))])))"

definition SidebarMenuSkeleton_element :: "'v props \<Rightarrow> 'v component" where
  "SidebarMenuSkeleton_element ctx k p =
     (let ref = obj_get p ''ref'';
          className = obj_get p ''className'';
          showIcon = v_default (obj_get p ''showIcon'') (Some (Flag False));
          props = rest [''className'', ''showIcon''] p
      in El ''div''
           (jsx
              [At ''ref'' ref,
               At ''data-sidebar'' (str ''menu-skeleton''),
               At ''className'' (cn k [str ''flex h-8 items-center gap-2 rounded-md px-2'', className]),
               Spread props]
              (Some
                 (nodes (v_and showIcon (Some (Kids
                    [Skeleton k (jsx
                       [At ''className'' (str ''size-4 rounded-md''), At ''data-sidebar'' (str ''menu-skeleton-icon'')] None)]))) @
                  [Skeleton k (jsx
                     [At ''className'' (str ''h-4 max-w-[--skeleton-width] flex-1''),
                      At ''data-sidebar'' (str ''menu-skeleton-text''),
                      At ''style'' (Some (Obj (attributes [] [At ''--skeleton-width'' (obj_get ctx ''width'')])))] None)]))))"

definition Carousel_element :: "'v props \<Rightarrow> 'v component" where
  "Carousel_element ctx k p =
     (let ref = obj_get p ''ref'';
          className = obj_get p ''className'';
          children = obj_get p ''children'';
          props = rest [''orientation'', ''opts'', ''setApi'', ''plugins'', ''className'', ''children''] p
      in El ''CarouselContext.Provider''
           (jsx [At ''value'' (obj_get ctx ''value'')]
              (Some [El ''div''
                 (jsx
                    [At ''ref'' ref,
                     At ''onKeyDownCapture'' (obj_get ctx ''handleKeyDown''),
                     At ''className'' (cn k [str ''relative'', className]),
                     At ''role'' (str ''region''),
                     At ''aria-roledescription'' (str ''carousel''),
                     Spread props]
                    (Some (nodes children)))])))"

text \<open>The style sheet of a chart is the text \<open>ChartStyle\<close> computes.\<close>

definition ChartContainer :: "string \<Rightarrow> chart_item obj \<Rightarrow> string option \<Rightarrow> 'v props \<Rightarrow> 'v component" where
  "ChartContainer uniqueId config idProp ctx k p =
     (let ref = obj_get p ''ref'';
          className = obj_get p ''className'';
          children = obj_get p ''children'';
          props = rest [''id'', ''className'', ''children'', ''config''] p;
          chart = chartId idProp uniqueId
      in El ''ChartContext.Provider''
           (jsx [At ''value'' (obj_get ctx ''value'')]
              (Some [El ''div''
                 (jsx
                    [At ''data-chart'' (str chart),
                     At ''ref'' ref,
                     At ''className'' (cn k
                       [str ''flex aspect-video justify-center text-xs [&_.recharts-cartesian-axis-tick_text]:fill-muted-foreground [&_.recharts-cartesian-grid_line[stroke='#ccc']]:stroke-border/50 [&_.recharts-curve.recharts-tooltip-cursor]:stroke-border [&_.recharts-dot[stroke='#fff']]:stroke-transparent [&_.recharts-layer]:outline-none [&_.recharts-polar-grid_[stroke='#ccc']]:stroke-border [&_.recharts-radial-bar-background-sector]:fill-muted [&_.recharts-rectangle.recharts-tooltip-cursor]:fill-muted [&_.recharts-reference-line_[stroke='#ccc']]:stroke-border [&_.recharts-sector[stroke='#fff']]:stroke-transparent [&_.recharts-sector]:outline-none [&_.recharts-surface]:outline-none'',
                        className]),
                     Spread props]
                    (Some
                       ((case ChartStyle chart config of
                           None \<Rightarrow> []
                         | Some css \<Rightarrow> [El ''style'' (jsx [At ''dangerouslySetInnerHTML'' (Some (Obj [(''__html'', Str css)]))] None)]) @
                        [El ''RechartsPrimitive.ResponsiveContainer'' (jsx [] (Some (nodes children)))])))])))"

text \<open>\<open>show\<close> writes a number in a template string.\<close>

definition Progress_element :: "(rat \<Rightarrow> string) \<Rightarrow> rat option \<Rightarrow> 'v component" where
  "Progress_element show v k p =
     (let ref = obj_get p ''ref'';
          className = obj_get p ''className'';
          props = rest [''className'', ''value''] p
      in El ''ProgressPrimitive.Root''
           (jsx
              [At ''ref'' ref,
               At ''className'' (cn k [str ''relative h-4 w-full overflow-hidden rounded-full bg-secondary'', className]),
               Spread props]
              (Some [El ''ProgressPrimitive.Indicator''
                 (jsx
                    [At ''className'' (str ''h-full w-full flex-1 bg-primary transition-all''),
                     At ''style'' (Some (Obj
                       [(''transform'', Str (''translateX(-'' @ show (Progress v) @ ''%)''))]))] None)])))"

definition FormField :: "'v component" where
  "FormField k p =
     (let props = rest [] p
      in El ''FormFieldContext.Provider''
           (jsx [At ''value'' (Some (Obj (attributes [] [At ''name'' (obj_get props ''name'')])))]
              (Some [El ''Controller'' (jsx [Spread props] None)])))"

definition FormControl_element :: "string option \<Rightarrow> field_error \<Rightarrow> 'v component" where
  "FormControl_element i error k p =
     (let ref = obj_get p ''ref'';
          c = FormControl i error;
          props = rest [] p
      in El ''Slot''
           (jsx
              [At ''ref'' ref,
               At ''id'' (str (fc_id c)),
               At ''aria-describedby'' (str (join '' '' (fc_describedby c))),
               At ''aria-invalid'' (Some (Flag (fc_invalid c))),
               Spread props]
              None))"

text \<open>\<open>null\<close> when there is no message; the text of an error is a string, the children are any nodes.\<close>

definition FormMessage_element :: "string option \<Rightarrow> field_error \<Rightarrow> 'v kit \<Rightarrow> 'v props \<Rightarrow> 'v node option" where
  "FormMessage_element i error k p =
     (let ref = obj_get p ''ref'';
          className = obj_get p ''className'';
          children = obj_get p ''children'';
          props = rest [''className'', ''children''] p;
          body = (case error of Some m \<Rightarrow> str (nullish m ''undefined'') | None \<Rightarrow> children)
      in if \<not> prop_truthy body then None
         else Some (El ''p''
           (jsx
              [At ''ref'' ref,
               At ''id'' (str (fi_message (useFormField i))),
               At ''className'' (cn k [str ''text-sm font-medium text-destructive'', className]),
               Spread props]
              (Some (nodes body)))))"

definition InputOTPSlot_element :: "otp_slot \<Rightarrow> 'v component" where
  "InputOTPSlot_element slot k p =
     (let ref = obj_get p ''ref'';
          className = obj_get p ''className'';
          props = rest [''index'', ''className''] p
      in El ''div''
           (jsx
              [At ''ref'' ref,
               At ''className'' (cn k
                 [str ''relative flex h-10 w-10 items-center justify-center border-y border-r border-input text-sm transition-all first:rounded-l-md first:border-l last:rounded-r-md'',
                  v_and (Some (Flag (os_isActive slot))) (str ''z-10 ring-2 ring-ring ring-offset-background''),
                  className]),
               Spread props]
              (Some
                 ((case os_char slot of None \<Rightarrow> [] | Some c \<Rightarrow> [Text c]) @
                  (if os_hasFakeCaret slot then
                     [El ''div'' (jsx [At ''className'' (str ''pointer-events-none absolute inset-0 flex items-center justify-center'')]
                        (Some [El ''div'' (jsx [At ''className'' (str ''animate-caret-blink h-4 w-px bg-foreground duration-1000'')] None)]))]
                   else [])))))"

text \<open>The icons of a calendar are functions from properties to elements.\<close>

definition Calendar :: "'v props \<Rightarrow> 'v component" where
  "Calendar ctx k p =
     (let className = obj_get p ''className'';
          classNames = obj_get p ''classNames'';
          showOutsideDays = v_default (obj_get p ''showOutsideDays'') (Some (Flag True));
          props = rest [''className'', ''classNames'', ''showOutsideDays''] p;
          icons = obj_get ctx ''icons''
      in El ''DayPicker''
           (jsx
              [At ''showOutsideDays'' showOutsideDays,
               At ''className'' (cn k [str ''p-3'', className]),
               At ''classNames''
                 (Some
                    (Obj
                       (attributes []
                          [At ''months'' (str ''flex flex-col sm:flex-row space-y-4 sm:space-x-4 sm:space-y-0''),
                           At ''month'' (str ''space-y-4''),
                           At ''caption'' (str ''flex justify-center pt-1 relative items-center''),
                           At ''caption_label'' (str ''text-sm font-medium''),
                           At ''nav'' (str ''space-x-1 flex items-center''),
                           At ''nav_button''
                             (cn k
                                [variants k buttonVariants [At ''variant'' (str ''outline'')],
                                 str ''h-7 w-7 bg-transparent p-0 opacity-50 hover:opacity-100'']),
                           At ''nav_button_previous'' (str ''absolute left-1''),
                           At ''nav_button_next'' (str ''absolute right-1''),
                           At ''table'' (str ''w-full border-collapse space-y-1''),
                           At ''head_row'' (str ''flex''),
                           At ''head_cell'' (str ''text-muted-foreground rounded-md w-9 font-normal text-[0.8rem]''),
                           At ''row'' (str ''flex w-full mt-2''),
                           At ''cell''
                             (str
                                ''h-9 w-9 text-center text-sm p-0 relative [&:has([aria-selected].day-range-end)]:rounded-r-md [&:has([aria-selected].day-outside)]:bg-accent/50 [&:has([aria-selected])]:bg-accent first:[&:has([aria-selected])]:rounded-l-md last:[&:has([aria-selected])]:rounded-r-md focus-within:relative focus-within:z-20''),
                           At ''day''
                             (cn k
                                [variants k buttonVariants [At ''variant'' (str ''ghost'')],
                                 str ''h-9 w-9 p-0 font-normal aria-selected:opacity-100'']),
                           At ''day_range_end'' (str ''day-range-end''),
                           At ''day_selected''
                             (str
                                ''bg-primary text-primary-foreground hover:bg-primary hover:text-primary-foreground focus:bg-primary focus:text-primary-foreground''),
                           At ''day_today'' (str ''bg-accent text-accent-foreground''),
                           At ''day_outside''
                             (str
                                ''day-outside text-muted-foreground opacity-50 aria-selected:bg-accent/50 aria-selected:text-muted-foreground aria-selected:opacity-30''),
                           At ''day_disabled'' (str ''text-muted-foreground opacity-50''),
                           At ''day_range_middle'' (str ''aria-selected:bg-accent aria-selected:text-accent-foreground''),
                           At ''day_hidden'' (str ''invisible''),
                           Spread (obj_of classNames)]))),
               At ''components'' icons,
               Spread props] None))"

section \<open>Where a component differs\<close>

text \<open>The empty text of a command list loses its classes to the caller's.\<close>

lemma empty_text_loses_its_classes:
  "wf_obj p \<Longrightarrow> prop_at [] (CommandEmpty k p) ''className'' = v_default (obj_get p ''className'') (str ''py-6 text-center text-sm'')"
  by (simp add: CommandEmpty_def Let_def v_default_def split: option.split)

text \<open>The classes of an accordion's content go to the element inside.\<close>

lemma accordion_classes_go_inside:
  "wf_obj p \<Longrightarrow> prop_at [0] (AccordionContent k p) ''className'' = cn k [str ''pb-4 pt-0'', obj_get p ''className'']"
  by (simp add: AccordionContent_def Let_def)

text \<open>The classes of a button are merged by \<open>cva\<close>.\<close>

lemma button_classes:
  "wf_obj p \<Longrightarrow> prop_at [] (Button k p) ''className'' =
    cn k [variants k buttonVariants
      [At ''variant'' (obj_get p ''variant''), At ''size'' (obj_get p ''size''), At ''className'' (obj_get p ''className'')]]"
  by (simp add: Button_def Let_def)

text \<open>A caller's click handler replaces the one of the rail and of the carousel's buttons; the trigger runs both.\<close>

lemma click_replaces_the_action:
  assumes "wf_obj p" and "obj_get p ''onClick'' = Some v"
  shows "prop_at [] (SidebarRail ctx k p) ''onClick'' = Some v"
    and "prop_at [] (CarouselNext_element ctx k p) ''onClick'' = Some v"
    and "prop_at [] (CarouselPrevious_element ctx k p) ''onClick'' = Some v"
    and "prop_at [] (SidebarTrigger_element ctx k p) ''onClick'' = obj_get ctx ''click''"
  using assms
  by (simp_all add: SidebarRail_def CarouselNext_element_def CarouselPrevious_element_def SidebarTrigger_element_def
      Button_def Let_def)

text \<open>A control with an id of its own is no longer the one its label and its messages name.\<close>

lemma own_id_unlinks_the_label:
  assumes "wf_obj p" and "wf_obj q" and "obj_get p ''id'' = Some v" and "obj_get q ''htmlFor'' = None"
  shows "prop_at [] (FormControl_element i e k p) ''id'' = Some v"
    and "prop_at [] (FormLabel_element ctx k q) ''htmlFor'' = obj_get ctx ''formItemId''"
  using assms by (simp_all add: FormControl_element_def FormLabel_element_def Label_def Let_def)

text \<open>The value of a progress bar moves the bar and is not passed to the root, which announces it.\<close>

lemma progress_is_not_announced: "wf_obj p \<Longrightarrow> prop_at [] (Progress_element show v k p) ''value'' = None"
  by (simp add: Progress_element_def Let_def)

text \<open>Components that are plain functions lose a ref.\<close>

lemma plain_functions_lose_refs:
  assumes "wf_obj p"
  shows "prop_at [] (Badge k p) ''ref'' = None" "prop_at [] (Skeleton k p) ''ref'' = None"
    "prop_at [] (DialogHeader k p) ''ref'' = None" "prop_at [] (MenubarShortcut k p) ''ref'' = None"
    "prop_at [] (Card k p) ''ref'' = obj_get p ''ref''" "prop_at [] (Button k p) ''ref'' = obj_get p ''ref''"
  using assms
  by (simp_all add: Badge_def Skeleton_def DialogHeader_def MenubarShortcut_def Card_def Button_def Let_def)

text \<open>The links to the neighbouring pages show their own words, whatever their children are.\<close>

lemma pagination_ignores_children:
  "wf_obj p \<Longrightarrow> wf_obj q \<Longrightarrow> prop_at [] (PaginationNext k p) ''children'' = prop_at [] (PaginationNext k q) ''children''"
  by (simp add: PaginationNext_def PaginationLink_element_def Let_def)

section \<open>The whole kit\<close>

definition views_kit :: "'v props \<Rightarrow> (string list \<times> nat list \<times> 'v component) list" where
  "views_kit ctx =
     [([''defaultOpen'', ''open'', ''onOpenChange'', ''className'', ''style'', ''children''], [0, 0], SidebarProvider_element ctx),
      ([''className'', ''onClick'', ''variant'', ''size'', ''asChild'', ''children''], [], SidebarTrigger_element ctx),
      ([''className'', ''showIcon'', ''children''], [], SidebarMenuSkeleton_element ctx),
      ([''orientation'', ''opts'', ''setApi'', ''plugins'', ''className'', ''children''], [0], Carousel_element ctx),
      ([''className'', ''classNames'', ''showOutsideDays''], [], Calendar ctx),
      ([], [0], FormField)]"

definition views_styled :: "'v props \<Rightarrow> (string list \<times> nat list \<times> 'v component) list" where
  "views_styled ctx = map (\<lambda>i. views_kit ctx ! i) [0, 2, 3, 4]"

lemmas views_defs = SidebarProvider_element_def SidebarTrigger_element_def SidebarMenuSkeleton_element_def
  Carousel_element_def Calendar_def FormField_def TooltipProvider_def Button_def

lemma views_pass_on: "list_all passes_on (views_kit ctx)"
  by (simp add: views_kit_def views_defs passes_on_def Let_def)

lemma views_merge_last: "list_all merges_last (views_styled ctx)"
  by (simp add: views_styled_def views_kit_def views_defs merges_last_def Let_def)

definition KIT :: "'v props \<Rightarrow> (string list \<times> nat list \<times> 'v component) list" where
  "KIT ctx = concat [surfaces_kit, inputs_kit ctx, menus_kit, overlays_kit ctx, sidebar_kit ctx, views_kit ctx]"

definition STYLED :: "'v props \<Rightarrow> (string list \<times> nat list \<times> 'v component) list" where
  "STYLED ctx =
     concat [surfaces_styled, inputs_styled ctx, menus_styled, overlays_styled ctx, sidebar_styled ctx, views_styled ctx]"

lemma kit_passes_on: "list_all passes_on (KIT ctx)"
  by (simp add: KIT_def surfaces_pass_on inputs_pass_on menus_pass_on overlays_pass_on sidebar_pass_on views_pass_on)

lemma kit_merges_last: "list_all merges_last (STYLED ctx)"
  by (simp add: STYLED_def surfaces_merge_last inputs_merge_last menus_merge_last overlays_merge_last sidebar_merge_last
      views_merge_last)


text \<open>An item of a menu with a test id and classes of its own, and a dialog in its portal.\<close>

definition demo_kit :: "nat kit" where
  "demo_kit = \<lparr>k_clsx = (\<lambda>xs. join '' '' (somes (\<lambda>x. case x of Some (Str s) \<Rightarrow> Some s | _ \<Rightarrow> None) xs)), k_twMerge = id,
     k_cva = (\<lambda>c v. cva_base c)\<rparr>"

definition demo_props :: "nat props" where
  "demo_props = [(''className'', Str ''w-40''), (''data-testid'', Str ''item''), (''onSelect'', Val 7), (''inset'', Flag True)]"


end
