(* ===== verification/Decision_Table.thy ===== *)
theory Decision_Table
  imports Js_Object
begin

text \<open>
  The decision-table editor of the workflow UI
  (\<open>atomic-fi-web/src/workflow/inspector/DecisionTableEditor.tsx\<close>).

  The content of a decision-table node is a JSON value that the editor spreads over
  \<open>EMPTY\<close>; the model works on that JSON value, as the code does: every operation computes the
  value it passes to \<open>onChange\<close>. The casts of the code are taken at their word: a list that
  is not an array reads as empty (the code would throw while it renders). The clock and the
  random number of \<open>newId\<close> are arguments.
\<close>

section \<open>Content\<close>

definition EMPTY :: "json obj" where
  "EMPTY = [(''hitPolicy'', JStr ''first''), (''inputs'', JArr []), (''outputs'', JArr []),
            (''rules'', JArr [])]"

text \<open>\<open>...v\<close> inside an object literal.\<close>

definition indexed :: "json list \<Rightarrow> json obj" where
  "indexed xs = zip (map nat_to_string [0..<length xs]) xs"

fun spread_entries :: "json option \<Rightarrow> json obj" where
  "spread_entries (Some (JObj xs)) = xs"
| "spread_entries (Some (JArr xs)) = indexed xs"
| "spread_entries (Some (JStr s)) = indexed (map (\<lambda>c. JStr [c]) s)"
| "spread_entries _ = []"

definition content :: "json option \<Rightarrow> json obj" where
  "content data = obj_spread EMPTY (spread_entries data)"

definition patch_content :: "json obj \<Rightarrow> json option \<Rightarrow> json option" where
  "patch_content next data = Some (JObj (obj_spread (content data) next))"

definition items :: "string \<Rightarrow> json option \<Rightarrow> json list" where
  "items k data = nullish (as_array (obj_get (content data) k)) []"

datatype column_kind = Inputs | Outputs

fun kind_key :: "column_kind \<Rightarrow> string" where
  "kind_key Inputs = ''inputs''"
| "kind_key Outputs = ''outputs''"

definition newId :: "string \<Rightarrow> nat \<Rightarrow> nat \<Rightarrow> string" where
  "newId prefix now rnd = prefix @ ''_'' @ base36 now @ ''_'' @ nat_to_string rnd"

definition stripKey :: "string \<Rightarrow> json \<Rightarrow> json" where
  "stripKey key r = JObj (obj_delete key (spread_entries (Some r)))"

section \<open>Operations\<close>

definition column_json :: "column_kind \<Rightarrow> string \<Rightarrow> json" where
  "column_json kind cid =
     JObj [(''id'', JStr cid), (''type'', JStr ''expression''),
           (''name'', JStr (case kind of Inputs \<Rightarrow> ''Input'' | Outputs \<Rightarrow> ''Output'')),
           (''field'', JStr [])]"

definition addColumn :: "column_kind \<Rightarrow> nat \<Rightarrow> nat \<Rightarrow> json option \<Rightarrow> json option" where
  "addColumn kind now rnd data =
     (let cid = newId (case kind of Inputs \<Rightarrow> ''in'' | Outputs \<Rightarrow> ''out'') now rnd in
      patch_content [(kind_key kind, JArr (items (kind_key kind) data @ [column_json kind cid]))] data)"

text \<open>\<open>{ ...x, ...partial }\<close> on the elements whose \<open>key\<close> is the string \<open>i\<close>.\<close>

definition has_key :: "string \<Rightarrow> string \<Rightarrow> json \<Rightarrow> bool" where
  "has_key key i x = (jget (Some x) key = Some (JStr i))"

definition spread_json :: "json obj \<Rightarrow> json \<Rightarrow> json" where
  "spread_json partial x = JObj (obj_spread (spread_entries (Some x)) partial)"

definition updateColumn :: "column_kind \<Rightarrow> string \<Rightarrow> json obj \<Rightarrow> json option \<Rightarrow> json option" where
  "updateColumn kind cid partial data =
     patch_content [(kind_key kind,
        JArr (map (\<lambda>c. if has_key ''id'' cid c then spread_json partial c else c)
               (items (kind_key kind) data)))] data"

definition removeColumn :: "column_kind \<Rightarrow> string \<Rightarrow> json option \<Rightarrow> json option" where
  "removeColumn kind cid data =
     patch_content [(kind_key kind, JArr (filter (\<lambda>c. \<not> has_key ''id'' cid c) (items (kind_key kind) data))),
                    (''rules'', JArr (map (stripKey cid) (items ''rules'' data)))] data"

definition addRule :: "nat \<Rightarrow> nat \<Rightarrow> json option \<Rightarrow> json option" where
  "addRule now rnd data =
     patch_content [(''rules'', JArr (items ''rules'' data @
        [JObj [(''_id'', JStr (newId ''rule'' now rnd)), (''_description'', JStr [])]]))] data"

definition updateRule :: "string \<Rightarrow> json obj \<Rightarrow> json option \<Rightarrow> json option" where
  "updateRule rid partial data =
     patch_content [(''rules'',
        JArr (map (\<lambda>r. if has_key ''_id'' rid r then spread_json partial r else r)
               (items ''rules'' data)))] data"

definition removeRule :: "string \<Rightarrow> json option \<Rightarrow> json option" where
  "removeRule rid data =
     patch_content [(''rules'', JArr (filter (\<lambda>r. \<not> has_key ''_id'' rid r) (items ''rules'' data)))] data"

definition setHitPolicy :: "string \<Rightarrow> json option \<Rightarrow> json option" where
  "setHitPolicy p data = patch_content [(''hitPolicy'', JStr p)] data"

section \<open>The editor as a machine over the node's content\<close>

text \<open>
  The events are the callbacks the editor passes to its inputs: a column's name or field, the
  description or a cell of a rule, the buttons and the selector.
\<close>

datatype table_event =
  AddColumn column_kind nat nat
| SetName column_kind string string
| SetField column_kind string string
| RemoveColumn column_kind string
| AddRule nat nat
| SetDescription string string
| SetCell string string string
| RemoveRule string
| SetHitPolicy string

fun table_step :: "json option \<Rightarrow> table_event \<Rightarrow> json option" where
  "table_step data (AddColumn kind now rnd) = addColumn kind now rnd data"
| "table_step data (SetName kind cid v) = updateColumn kind cid [(''name'', JStr v)] data"
| "table_step data (SetField kind cid v) = updateColumn kind cid [(''field'', JStr v)] data"
| "table_step data (RemoveColumn kind cid) = removeColumn kind cid data"
| "table_step data (AddRule now rnd) = addRule now rnd data"
| "table_step data (SetDescription rid v) = updateRule rid [(''_description'', JStr v)] data"
| "table_step data (SetCell rid cid v) = updateRule rid [(cid, JStr v)] data"
| "table_step data (RemoveRule rid) = removeRule rid data"
| "table_step data (SetHitPolicy p) = setHitPolicy p data"

section \<open>What the editor shows\<close>

text \<open>\<open>rule[c.id]\<close>: an absent id is the property name \<open>"undefined"\<close>.\<close>

definition str_at :: "string \<Rightarrow> json \<Rightarrow> string" where
  "str_at key x = nullish (as_string (jget (Some x) key)) []"

definition col_key :: "json \<Rightarrow> string" where
  "col_key c = nullish (as_string (jget (Some c) ''id'')) ''undefined''"

definition columns :: "json option \<Rightarrow> json list" where
  "columns data = items ''inputs'' data @ items ''outputs'' data"

record column_row =
  cr_id :: string
  cr_name :: string
  cr_field :: string

definition ColumnList :: "column_kind \<Rightarrow> json option \<Rightarrow> column_row list" where
  "ColumnList kind data =
     map (\<lambda>c. \<lparr>cr_id = col_key c, cr_name = str_at ''name'' c, cr_field = str_at ''field'' c\<rparr>)
       (items (kind_key kind) data)"

record rule_row =
  rr_id :: string
  rr_description :: string
  rr_cells :: "string list"

definition rule_row :: "json list \<Rightarrow> json \<Rightarrow> rule_row" where
  "rule_row cs r =
     \<lparr>rr_id = str_at ''_id'' r, rr_description = str_at ''_description'' r,
      rr_cells = map (\<lambda>c. str_at (col_key c) r) cs\<rparr>"

record table_view =
  tv_hit_policy :: string
  tv_inputs :: "column_row list"
  tv_outputs :: "column_row list"
  tv_count :: nat
  tv_headers :: "string list"
  tv_rows :: "rule_row list"

definition DecisionTableEditor :: "json option \<Rightarrow> table_view" where
  "DecisionTableEditor data =
     \<lparr>tv_hit_policy = nullish (as_string (obj_get (content data) ''hitPolicy'')) [],
      tv_inputs = ColumnList Inputs data, tv_outputs = ColumnList Outputs data,
      tv_count = length (items ''rules'' data),
      tv_headers = (if items ''rules'' data = [] then []
                    else ''Reason'' # map (str_at ''name'') (columns data)),
      tv_rows = map (rule_row (columns data)) (items ''rules'' data)\<rparr>"


section \<open>Reading back what the editor writes\<close>

lemma wf_EMPTY [simp]: "wf_obj EMPTY"
  by (simp add: EMPTY_def wf_obj_def keys_def)

lemma wf_content [simp]: "wf_obj (content data)"
  by (simp add: content_def)

lemma obj_get_spread_None:
  "obj_get (obj_spread a b) k = None \<longleftrightarrow> obj_get a k = None \<and> obj_get b k = None"
  by (induction a b rule: obj_spread.induct) auto

lemma content_patch:
  assumes "wf_obj next"
  shows "obj_get (content (patch_content next data)) k =
           (case obj_get next k of None \<Rightarrow> obj_get (content data) k | Some x \<Rightarrow> Some x)"
proof -
  have full: "obj_get (content data) k = None \<Longrightarrow> obj_get EMPTY k = None"
    by (simp add: content_def obj_get_spread_None)
  have "obj_get (content (patch_content next data)) k =
      (case obj_get (obj_spread (content data) next) k of
         None \<Rightarrow> obj_get EMPTY k | Some x \<Rightarrow> Some x)"
    by (simp add: content_def patch_content_def obj_get_spread)
  then show ?thesis
    by (simp add: obj_get_spread [OF assms] full split: option.splits)
qed

lemma wf_patch1 [simp]: "wf_obj [(k, x)]"
  by (simp add: wf_obj_def keys_def)

lemma items_patch [simp]:
  "items k (patch_content [(j, JArr xs)] data) = (if k = j then xs else items k data)"
  "items k (patch_content [(j, JStr s)] data) = (if k = j then [] else items k data)"
  by (simp_all add: items_def content_patch)

lemma items_patch2 [simp]:
  "i \<noteq> j \<Longrightarrow> items k (patch_content [(i, JArr xs), (j, JArr ys)] data) =
     (if k = i then xs else if k = j then ys else items k data)"
  by (simp add: items_def content_patch wf_obj_def keys_def)

lemma kind_key_neq [simp]:
  "kind_key kind \<noteq> ''rules''" "''rules'' \<noteq> kind_key kind"
  "kind_key kind \<noteq> ''hitPolicy''" "''hitPolicy'' \<noteq> kind_key kind"
  "kind_key kind = kind_key kind' \<longleftrightarrow> kind = kind'"
  by (cases kind; cases kind'; simp)+

lemmas table_ops = addColumn_def updateColumn_def removeColumn_def addRule_def updateRule_def
  removeRule_def setHitPolicy_def Let_def

section \<open>Well-formed tables\<close>

definition is_record :: "string \<Rightarrow> json \<Rightarrow> bool" where
  "is_record key x = (\<exists>xs i. x = JObj xs \<and> wf_obj xs \<and> obj_get xs key = Some (JStr i))"

definition prop_names :: "json \<Rightarrow> string set" where
  "prop_names x = set (keys (spread_entries (Some x)))"

definition reserved :: "string set" where
  "reserved = {''_id'', ''_description''}"

abbreviation column_ids :: "json option \<Rightarrow> string list" where
  "column_ids data \<equiv> map (str_at ''id'') (columns data)"

abbreviation rule_ids :: "json option \<Rightarrow> string list" where
  "rule_ids data \<equiv> map (str_at ''_id'') (items ''rules'' data)"

text \<open>
  Ids are distinct, no column has the name of a built-in property of a rule, and no rule has a
  cell for a column that does not exist.
\<close>

definition table_inv :: "json option \<Rightarrow> bool" where
  "table_inv data =
     ((\<forall>c \<in> set (columns data). is_record ''id'' c) \<and> distinct (column_ids data) \<and>
      set (column_ids data) \<inter> reserved = {} \<and>
      (\<forall>r \<in> set (items ''rules'' data).
         is_record ''_id'' r \<and> prop_names r \<subseteq> reserved \<union> set (column_ids data)) \<and>
      distinct (rule_ids data))"

text \<open>
  What the page can send: a cell is edited in a column that is shown, a column that is shown is
  removed, and the id a new column or
  rule gets is not in use (\<open>newId\<close> draws one of 1000 numbers within a millisecond).
\<close>

definition kind_prefix :: "column_kind \<Rightarrow> string" where
  "kind_prefix kind = (case kind of Inputs \<Rightarrow> ''in'' | Outputs \<Rightarrow> ''out'')"

fun table_ok :: "json option \<Rightarrow> table_event \<Rightarrow> bool" where
  "table_ok data (AddColumn kind now rnd) = (newId (kind_prefix kind) now rnd \<notin> set (column_ids data))"
| "table_ok data (RemoveColumn kind cid) = (cid \<in> str_at ''id'' ` set (items (kind_key kind) data))"
| "table_ok data (AddRule now rnd) = (newId ''rule'' now rnd \<notin> set (rule_ids data))"
| "table_ok data (SetCell rid cid v) = (cid \<in> set (column_ids data))"
| "table_ok data _ = True"

lemma str_at_spread [simp]:
  "is_record key x \<Longrightarrow> str_at k (spread_json [(j, JStr v)] x) = (if k = j then v else str_at k x)"
  by (auto simp: is_record_def str_at_def spread_json_def)

lemma str_at_strip [simp]:
  "is_record key x \<Longrightarrow> str_at k (stripKey j x) = (if k = j then [] else str_at k x)"
  by (auto simp: is_record_def str_at_def stripKey_def)

lemma has_key_iff [simp]: "is_record key x \<Longrightarrow> has_key key i x \<longleftrightarrow> str_at key x = i"
  by (auto simp: is_record_def has_key_def str_at_def)

lemma is_record_spread [simp]:
  "is_record key x \<Longrightarrow> is_record key (spread_json [(j, JStr v)] x)"
  by (auto simp: is_record_def spread_json_def)

lemma is_record_strip [simp]:
  "is_record key x \<Longrightarrow> j \<noteq> key \<Longrightarrow> is_record key (stripKey j x)"
  by (auto simp: is_record_def stripKey_def)

lemma prop_names_spread [simp]:
  "is_record key x \<Longrightarrow> prop_names (spread_json [(j, JStr v)] x) = insert j (prop_names x)"
  by (auto simp: is_record_def spread_json_def prop_names_def)

lemma keys_obj_delete: "set (keys (obj_delete k xs)) = set (keys xs) - {k}"
  by (auto simp: keys_def obj_delete_def)

lemma prop_names_strip [simp]:
  "is_record key x \<Longrightarrow> prop_names (stripKey j x) = prop_names x - {j}"
  by (auto simp: is_record_def stripKey_def prop_names_def keys_obj_delete)

lemma column_json_facts [simp]:
  "is_record ''id'' (column_json kind cid)" "str_at ''id'' (column_json kind cid) = cid"
  by (auto simp: is_record_def column_json_def str_at_def wf_obj_def keys_def)

lemma newId_not_reserved [simp]:
  "newId (kind_prefix kind) now rnd \<notin> reserved"
  by (cases kind) (auto simp: newId_def reserved_def kind_prefix_def)

lemma columns_kind: "set (items (kind_key kind) data) \<subseteq> set (columns data)"
  by (cases kind) (auto simp: columns_def)


section \<open>The operations on lists of columns and rules\<close>

lemma map_str_spread:
  assumes "\<forall>x \<in> set xs. is_record key x" and "j \<noteq> k"
  shows "map (str_at k) (map (\<lambda>x. if has_key key i x then spread_json [(j, JStr v)] x else x) xs) =
           map (str_at k) xs"
  using assms by (induction xs) auto

lemma records_spread:
  "\<forall>x \<in> set xs. is_record key x \<Longrightarrow>
   \<forall>x \<in> set (map (\<lambda>x. if has_key key i x then spread_json [(j, JStr v)] x else x) xs). is_record key x"
  by auto

lemma columns_simps:
  "columns (patch_content [(kind_key kind, JArr xs)] data) =
     (case kind of Inputs \<Rightarrow> xs @ items ''outputs'' data | Outputs \<Rightarrow> items ''inputs'' data @ xs)"
  "columns (patch_content [(kind_key kind, JArr xs), (''rules'', JArr ys)] data) =
     (case kind of Inputs \<Rightarrow> xs @ items ''outputs'' data | Outputs \<Rightarrow> items ''inputs'' data @ xs)"
  "columns (patch_content [(''rules'', JArr ys)] data) = columns data"
  "columns (patch_content [(''hitPolicy'', JStr s)] data) = columns data"
  by (cases kind; simp add: columns_def)+

lemma table_invD:
  assumes "table_inv data"
  shows "c \<in> set (columns data) \<Longrightarrow> is_record ''id'' c"
    and "distinct (column_ids data)"
    and "set (column_ids data) \<inter> reserved = {}"
    and "r \<in> set (items ''rules'' data) \<Longrightarrow> is_record ''_id'' r"
    and "r \<in> set (items ''rules'' data) \<Longrightarrow> prop_names r \<subseteq> reserved \<union> set (column_ids data)"
    and "distinct (rule_ids data)"
    and "c \<in> set (items ''inputs'' data) \<union> set (items ''outputs'' data) \<Longrightarrow> is_record ''id'' c"
  using assms by (auto simp: table_inv_def columns_def)

lemma inv_addColumn:
  assumes I: "table_inv data" and fresh: "newId (kind_prefix kind) now rnd \<notin> set (column_ids data)"
  shows "table_inv (addColumn kind now rnd data)"
  using I fresh newId_not_reserved [of kind now rnd]
  by (cases kind) (auto simp: table_inv_def table_ops columns_simps kind_prefix_def columns_def)

lemma inv_updateColumn:
  assumes "table_inv data" and "j \<noteq> ''id''"
  shows "table_inv (updateColumn kind cid [(j, JStr v)] data)"
proof -
  let ?f = "\<lambda>c. if has_key ''id'' cid c then spread_json [(j, JStr v)] c else c"
  have ids: "map (str_at ''id'') (map ?f (items (kind_key kind) data)) = map (str_at ''id'') (items (kind_key kind) data)"
    using assms columns_kind [of kind data] by (intro map_str_spread) (auto dest: table_invD)
  have "column_ids (updateColumn kind cid [(j, JStr v)] data) = column_ids data"
    using ids by (cases kind) (auto simp: table_ops columns_simps columns_def)
  moreover have "\<forall>c \<in> set (columns (updateColumn kind cid [(j, JStr v)] data)). is_record ''id'' c"
    using assms(1) by (cases kind) (auto simp: table_ops columns_simps table_inv_def columns_def)
  ultimately show ?thesis
    using assms(1) by (simp add: table_inv_def) (simp add: table_ops)
qed

lemma inv_removeColumn:
  assumes I: "table_inv data" and cid: "cid \<in> str_at ''id'' ` set (items (kind_key kind) data)"
  shows "table_inv (removeColumn kind cid data)"
proof -
  have in_cols: "cid \<in> set (column_ids data)"
    using cid columns_kind [of kind data] by auto
  have ne: "cid \<noteq> ''_id''"
    using table_invD(3) [OF I] in_cols unfolding reserved_def by blast
  have cols: "set (columns data) \<subseteq> {c. str_at ''id'' c = cid} \<union> set (columns (removeColumn kind cid data))"
    using I by (cases kind) (auto simp: table_ops columns_simps columns_def table_inv_def)
  have sub: "set (columns (removeColumn kind cid data)) \<subseteq> set (columns data)"
    by (cases kind) (auto simp: table_ops columns_simps columns_def)
  have "distinct (column_ids (removeColumn kind cid data))"
    using I by (cases kind) (auto simp: table_ops columns_simps columns_def table_inv_def distinct_map_filter)
  moreover have "is_record ''_id'' r \<and> prop_names r \<subseteq> reserved \<union> set (column_ids (removeColumn kind cid data))"
    if r: "r \<in> set (items ''rules'' (removeColumn kind cid data))" for r
  proof -
    obtain r0 where r0: "r0 \<in> set (items ''rules'' data)" "r = stripKey cid r0"
      using r by (auto simp: table_ops)
    have rec: "is_record ''_id'' r0" using table_invD(4) [OF I r0(1)] .
    have "prop_names r \<subseteq> reserved \<union> (set (column_ids data) - {cid})"
      using table_invD(5) [OF I r0(1)] r0(2) rec by auto
    moreover have "set (column_ids data) - {cid} \<subseteq> set (column_ids (removeColumn kind cid data))"
      using cols by auto
    ultimately show ?thesis using rec r0(2) ne by auto
  qed
  moreover have "distinct (rule_ids (removeColumn kind cid data))"
  proof -
    have "rule_ids (removeColumn kind cid data) = rule_ids data"
      using table_invD(4) [OF I] ne
      by (simp add: table_ops comp_def str_at_strip [of "''_id''"] cong: map_cong)
    then show ?thesis using table_invD(6) [OF I] by simp
  qed
  moreover have "set (column_ids (removeColumn kind cid data)) \<subseteq> set (column_ids data)"
    using sub by auto
  ultimately show ?thesis
    using sub table_invD(1,3) [OF I] unfolding table_inv_def by blast
qed

lemma inv_updateRule:
  assumes I: "table_inv data" and j: "j = ''_description'' \<or> j \<in> set (column_ids data)"
  shows "table_inv (updateRule rid [(j, JStr v)] data)"
proof -
  let ?f = "\<lambda>r. if has_key ''_id'' rid r then spread_json [(j, JStr v)] r else r"
  have ne: "j \<noteq> ''_id''"
    using table_invD(3) [OF I] j unfolding reserved_def by blast
  have "rule_ids (updateRule rid [(j, JStr v)] data) = rule_ids data"
    using table_invD(4) [OF I] ne unfolding table_ops items_patch if_P [OF refl]
    by (intro map_str_spread) auto
  moreover have "columns (updateRule rid [(j, JStr v)] data) = columns data"
    by (simp add: table_ops columns_simps)
  moreover have "is_record ''_id'' r \<and> prop_names r \<subseteq> reserved \<union> set (column_ids data)"
    if r: "r \<in> set (items ''rules'' (updateRule rid [(j, JStr v)] data))" for r
  proof -
    obtain r0 where r0: "r0 \<in> set (items ''rules'' data)" "r = ?f r0"
      using r by (auto simp: table_ops)
    have "j \<in> reserved \<union> set (column_ids data)"
      using j by (auto simp: reserved_def)
    then show ?thesis
      using table_invD(4) [OF I r0(1)] table_invD(5) [OF I r0(1)] r0(2) by auto
  qed
  ultimately show ?thesis
    using I unfolding table_inv_def by auto
qed

lemma inv_addRule:
  assumes I: "table_inv data" and fresh: "newId ''rule'' now rnd \<notin> set (rule_ids data)"
  shows "table_inv (addRule now rnd data)"
proof -
  let ?r = "JObj [(''_id'', JStr (newId ''rule'' now rnd)), (''_description'', JStr [])]"
  have "is_record ''_id'' ?r" "prop_names ?r \<subseteq> reserved" "str_at ''_id'' ?r = newId ''rule'' now rnd"
    by (auto simp: is_record_def wf_obj_def keys_def prop_names_def reserved_def str_at_def)
  then show ?thesis
    using I fresh by (auto simp: table_inv_def table_ops columns_simps)
qed

lemma inv_removeRule: "table_inv data \<Longrightarrow> table_inv (removeRule rid data)"
  by (auto simp: table_inv_def table_ops columns_simps distinct_map_filter)

lemma inv_setHitPolicy: "table_inv data \<Longrightarrow> table_inv (setHitPolicy p data)"
  by (auto simp: table_inv_def table_ops columns_simps)

lemma table_step_inv: "table_inv data \<Longrightarrow> table_ok data e \<Longrightarrow> table_inv (table_step data e)"
  by (cases e) (auto intro: inv_addColumn inv_updateColumn inv_removeColumn inv_updateRule
      inv_addRule inv_removeRule inv_setHitPolicy)

interpretation table: guarded_machine table_step table_ok table_inv
  by unfold_locales (rule table_step_inv)

text \<open>A content of \<open>undefined\<close> is an empty table.\<close>

lemma table_inv_None [simp]: "table_inv None"
  by (simp add: table_inv_def columns_def items_def content_def EMPTY_def)


definition demo_edits :: "table_event list" where
  "demo_edits = [AddColumn Inputs 0 1, AddColumn Outputs 0 2, AddRule 0 3,
     SetCell ''rule_0_3'' ''in_0_1'' ''x'', SetCell ''rule_0_3'' ''out_0_2'' ''y'', RemoveColumn Inputs ''in_0_1'']"

lemma demo_admissible: "admissible table_step table_ok None demo_edits"
  by code_simp



section \<open>The table the user means\<close>

text \<open>
  An abstract table: columns are rows of the two lists, a rule is its id, its description and a
  cell for every column name. The operations are those of a spreadsheet; the refinement below
  shows that the JSON of the editor implements them.
\<close>

record sheet_rule =
  ar_id :: string
  ar_descr :: string
  ar_cell :: "string \<Rightarrow> string"

record sheet =
  at_hit :: string
  at_in :: "column_row list"
  at_out :: "column_row list"
  at_rules :: "sheet_rule list"

definition on_columns :: "column_kind \<Rightarrow> (column_row list \<Rightarrow> column_row list) \<Rightarrow> sheet \<Rightarrow> sheet" where
  "on_columns kind f t =
     (case kind of Inputs \<Rightarrow> t\<lparr>at_in := f (at_in t)\<rparr> | Outputs \<Rightarrow> t\<lparr>at_out := f (at_out t)\<rparr>)"

definition on_rules :: "(sheet_rule list \<Rightarrow> sheet_rule list) \<Rightarrow> sheet \<Rightarrow> sheet" where
  "on_rules f t = t\<lparr>at_rules := f (at_rules t)\<rparr>"

definition set_name :: "string \<Rightarrow> column_row \<Rightarrow> column_row" where
  "set_name v c = c\<lparr>cr_name := v\<rparr>"

definition set_field :: "string \<Rightarrow> column_row \<Rightarrow> column_row" where
  "set_field v c = c\<lparr>cr_field := v\<rparr>"

definition set_descr :: "string \<Rightarrow> sheet_rule \<Rightarrow> sheet_rule" where
  "set_descr v r = r\<lparr>ar_descr := v\<rparr>"

definition set_cell :: "string \<times> string \<Rightarrow> sheet_rule \<Rightarrow> sheet_rule" where
  "set_cell p r = r\<lparr>ar_cell := (ar_cell r)(fst p := snd p)\<rparr>"

fun spec_step :: "sheet \<Rightarrow> table_event \<Rightarrow> sheet" where
  "spec_step t (AddColumn kind now rnd) =
     on_columns kind (\<lambda>cs. cs @ [\<lparr>cr_id = newId (kind_prefix kind) now rnd,
       cr_name = (case kind of Inputs \<Rightarrow> ''Input'' | Outputs \<Rightarrow> ''Output''), cr_field = []\<rparr>]) t"
| "spec_step t (SetName kind cid v) = on_columns kind (update_by cr_id cid (set_name v)) t"
| "spec_step t (SetField kind cid v) = on_columns kind (update_by cr_id cid (set_field v)) t"
| "spec_step t (RemoveColumn kind cid) =
     on_rules (map (set_cell (cid, []))) (on_columns kind (remove_by cr_id cid) t)"
| "spec_step t (AddRule now rnd) =
     on_rules (\<lambda>rs. rs @ [\<lparr>ar_id = newId ''rule'' now rnd, ar_descr = [], ar_cell = \<lambda>_. []\<rparr>]) t"
| "spec_step t (SetDescription rid v) = on_rules (update_by ar_id rid (set_descr v)) t"
| "spec_step t (SetCell rid cid v) = on_rules (update_by ar_id rid (set_cell (cid, v))) t"
| "spec_step t (RemoveRule rid) = on_rules (remove_by ar_id rid) t"
| "spec_step t (SetHitPolicy p) = t\<lparr>at_hit := p\<rparr>"

definition abs_column :: "json \<Rightarrow> column_row" where
  "abs_column c = \<lparr>cr_id = str_at ''id'' c, cr_name = str_at ''name'' c, cr_field = str_at ''field'' c\<rparr>"

definition abs_rule :: "json \<Rightarrow> sheet_rule" where
  "abs_rule r = \<lparr>ar_id = str_at ''_id'' r, ar_descr = str_at ''_description'' r,
     ar_cell = (\<lambda>k. if k \<in> reserved then [] else str_at k r)\<rparr>"

definition abs_table :: "json option \<Rightarrow> sheet" where
  "abs_table data =
     \<lparr>at_hit = nullish (as_string (obj_get (content data) ''hitPolicy'')) [],
      at_in = map abs_column (items ''inputs'' data), at_out = map abs_column (items ''outputs'' data),
      at_rules = map abs_rule (items ''rules'' data)\<rparr>"

interpretation col_name: keyed cr_id set_name
  by unfold_locales (simp add: set_name_def)

interpretation col_field: keyed cr_id set_field
  by unfold_locales (simp add: set_field_def)

interpretation rule_descr: keyed ar_id set_descr
  by unfold_locales (simp add: set_descr_def)

interpretation rule_cell: keyed ar_id set_cell
  by unfold_locales (simp add: set_cell_def)

lemma abs_column_spread:
  assumes "\<forall>c \<in> set cs. is_record ''id'' c"
  shows "map abs_column (map (\<lambda>c. if has_key ''id'' cid c then spread_json [(''name'', JStr v)] c else c) cs)
           = update_by cr_id cid (set_name v) (map abs_column cs)"
    and "map abs_column (map (\<lambda>c. if has_key ''id'' cid c then spread_json [(''field'', JStr v)] c else c) cs)
           = update_by cr_id cid (set_field v) (map abs_column cs)"
    and "map abs_column (filter (\<lambda>c. \<not> has_key ''id'' cid c) cs) = remove_by cr_id cid (map abs_column cs)"
  using assms by (induction cs) (simp_all add: abs_column_def set_name_def set_field_def str_at_spread [of "''id''"])

lemma abs_rule_spread:
  assumes "\<forall>r \<in> set rs. is_record ''_id'' r"
  shows "map abs_rule (map (\<lambda>r. if has_key ''_id'' rid r then spread_json [(''_description'', JStr v)] r else r) rs)
           = update_by ar_id rid (set_descr v) (map abs_rule rs)"
    and "cid \<notin> reserved \<Longrightarrow>
         map abs_rule (map (\<lambda>r. if has_key ''_id'' rid r then spread_json [(cid, JStr v)] r else r) rs)
           = update_by ar_id rid (set_cell (cid, v)) (map abs_rule rs)"
    and "map abs_rule (filter (\<lambda>r. \<not> has_key ''_id'' rid r) rs) = remove_by ar_id rid (map abs_rule rs)"
    and "cid \<notin> reserved \<Longrightarrow> map abs_rule (map (stripKey cid) rs) = map (set_cell (cid, [])) (map abs_rule rs)"
  using assms
  by (induction rs) (auto simp: abs_rule_def set_descr_def set_cell_def reserved_def fun_eq_iff
      str_at_strip [of "''_id''"] str_at_spread [of "''_id''"])

lemma abs_table_patch:
  "abs_table (patch_content [(kind_key kind, JArr xs)] data) = on_columns kind (\<lambda>_. map abs_column xs) (abs_table data)"
  "abs_table (patch_content [(''rules'', JArr ys)] data) = on_rules (\<lambda>_. map abs_rule ys) (abs_table data)"
  "abs_table (patch_content [(kind_key kind, JArr xs), (''rules'', JArr ys)] data) =
     on_rules (\<lambda>_. map abs_rule ys) (on_columns kind (\<lambda>_. map abs_column xs) (abs_table data))"
  "abs_table (patch_content [(''hitPolicy'', JStr p)] data) = (abs_table data)\<lparr>at_hit := p\<rparr>"
  by (cases kind; simp add: abs_table_def on_columns_def on_rules_def content_patch wf_obj_def keys_def)+

lemma not_reserved:
  "table_inv data \<Longrightarrow> cid \<in> set (column_ids data) \<Longrightarrow> cid \<notin> reserved"
  using table_invD(3) by blast


lemma step_refines:
  assumes I: "table_inv data" and ok: "table_ok data e"
  shows "abs_table (table_step data e) = spec_step (abs_table data) e"
proof -
  have cs: "\<forall>c \<in> set (items (kind_key kind) data). is_record ''id'' c" for kind
    using table_invD(1) [OF I] columns_kind by blast
  have rs: "\<forall>r \<in> set (items ''rules'' data). is_record ''_id'' r"
    using table_invD(4) [OF I] by blast
  note spread = abs_column_spread [OF cs] abs_rule_spread [OF rs]
  have lists: "map abs_column (items (kind_key kind) data) = (case kind of Inputs \<Rightarrow> at_in (abs_table data) | Outputs \<Rightarrow> at_out (abs_table data))"
    "map abs_rule (items ''rules'' data) = at_rules (abs_table data)" for kind
    by (cases kind; simp add: abs_table_def)+
  have fresh: "cid \<notin> reserved" if "cid \<in> str_at ''id'' ` set (items (kind_key kind) data)" for cid kind
    using not_reserved [OF I, of cid] that columns_kind [of kind data] by auto
  show ?thesis
  proof (cases e)
    case (RemoveColumn kind cid)
    then have "cid \<notin> reserved" using ok fresh by auto
    with RemoveColumn show ?thesis
      by (cases kind) (simp_all add: table_ops abs_table_patch spread lists on_columns_def on_rules_def del: map_map kind_key.simps)
  next
    case (SetCell rid cid v)
    then have "cid \<notin> reserved" using ok not_reserved [OF I] by auto
    with SetCell show ?thesis
      by (simp add: table_ops abs_table_patch spread lists on_rules_def del: map_map)
  next
    case (AddColumn kind now rnd)
    then show ?thesis
      by (cases kind) (simp_all add: table_ops abs_table_patch lists on_columns_def kind_prefix_def
          abs_column_def column_json_def str_at_def del: kind_key.simps)
  next
    case (AddRule now rnd)
    then show ?thesis
      by (simp add: table_ops abs_table_patch lists on_rules_def abs_rule_def str_at_def reserved_def fun_eq_iff)
  next
    case (SetName kind cid v)
    then show ?thesis
      by (cases kind) (simp_all add: table_ops abs_table_patch spread lists on_columns_def del: map_map kind_key.simps)
  next
    case (SetField kind cid v)
    then show ?thesis
      by (cases kind) (simp_all add: table_ops abs_table_patch spread lists on_columns_def del: map_map kind_key.simps)
  next
    case (SetDescription rid v)
    then show ?thesis
      by (simp add: table_ops abs_table_patch spread lists on_rules_def del: map_map)
  next
    case (RemoveRule rid)
    then show ?thesis
      by (simp add: table_ops abs_table_patch spread lists on_rules_def del: map_map)
  next
    case (SetHitPolicy p)
    then show ?thesis
      by (simp add: table_ops abs_table_patch)
  qed
qed


lemma run_refines:
  assumes "table_inv data" and "admissible table_step table_ok data es"
  shows "abs_table (run table_step data es) = run spec_step (abs_table data) es"
  using assms
  by (induction es arbitrary: data) (simp_all add: step_refines table_step_inv)

definition show_table :: "sheet \<Rightarrow> table_view" where
  "show_table t =
     \<lparr>tv_hit_policy = at_hit t, tv_inputs = at_in t, tv_outputs = at_out t,
      tv_count = length (at_rules t),
      tv_headers = (if at_rules t = [] then [] else ''Reason'' # map cr_name (at_in t @ at_out t)),
      tv_rows = map (\<lambda>r. \<lparr>rr_id = ar_id r, rr_description = ar_descr r,
                         rr_cells = map (\<lambda>c. ar_cell r (cr_id c)) (at_in t @ at_out t)\<rparr>) (at_rules t)\<rparr>"

lemma col_key_record: "is_record ''id'' c \<Longrightarrow> col_key c = str_at ''id'' c"
  by (auto simp: is_record_def col_key_def str_at_def)

lemma view_of_abs:
  assumes "table_inv data"
  shows "DecisionTableEditor data = show_table (abs_table data)"
proof -
  have key: "col_key c = str_at ''id'' c \<and> str_at ''id'' c \<notin> reserved" if "c \<in> set (columns data)" for c
    using table_invD(1,3) [OF assms] that col_key_record by fastforce
  then have "ColumnList kind data = map abs_column (items (kind_key kind) data)" for kind
    using columns_kind [of kind data] by (auto simp: ColumnList_def abs_column_def)
  moreover have "map cr_name (at_in (abs_table data) @ at_out (abs_table data)) = map (str_at ''name'') (columns data)"
    by (simp add: abs_table_def columns_def abs_column_def)
  moreover have "map (\<lambda>c. ar_cell (abs_rule r) (cr_id c)) (at_in (abs_table data) @ at_out (abs_table data))
      = map (\<lambda>c. str_at (col_key c) r) (columns data)" for r
    using key by (simp add: abs_table_def abs_column_def abs_rule_def columns_def)
  ultimately show ?thesis
    by (simp add: DecisionTableEditor_def show_table_def abs_rule_def)
       (simp add: abs_table_def abs_rule_def rule_row_def)
qed

text \<open>C13. What the decision-table editor shows after any sequence of edits is the table on which
  the user's edits were carried out as spreadsheet operations: adding and removing columns and
  rules, renaming a column, and writing one cell; a removed column takes its cells with it, and a
  new column starts empty.\<close>

theorem editor_shows_the_edited_table:
  assumes "table_inv data" and "admissible table_step table_ok data es"
  shows "DecisionTableEditor (run table_step data es) = show_table (run spec_step (abs_table data) es)"
  using view_of_abs [OF table.run_inv [OF assms]] run_refines [OF assms] by simp

lemma editor_shows_the_edited_table_witness:
  "map rr_cells (tv_rows (show_table (run spec_step (abs_table None) demo_edits))) = [[''y'']] \<and>
   DecisionTableEditor (run table_step None demo_edits) = show_table (run spec_step (abs_table None) demo_edits)"
  using editor_shows_the_edited_table [OF table_inv_None demo_admissible]
  by (intro conjI) (code_simp, assumption)

text \<open>\<open>newId\<close> draws one of 1000 numbers within a millisecond and is not checked against the
  ids in use. Two columns that get the same id are one column to the editor: removing either
  removes both.\<close>

theorem colliding_columns_removed_together:
  assumes "table_inv data" and "newId (kind_prefix kind) now rnd \<notin> set (column_ids data)"
  shows "items (kind_key kind)
           (removeColumn kind (newId (kind_prefix kind) now rnd)
             (addColumn kind now rnd (addColumn kind now rnd data))) = items (kind_key kind) data"
proof -
  let ?i = "newId (kind_prefix kind) now rnd"
  have "\<not> has_key ''id'' ?i c" if "c \<in> set (items (kind_key kind) data)" for c
  proof -
    have "c \<in> set (columns data)" using that columns_kind by blast
    then have "is_record ''id'' c" and "str_at ''id'' c \<in> set (column_ids data)"
      using table_invD(1) [OF assms(1)] by simp_all
    then show ?thesis using assms(2) by (metis has_key_iff)
  qed
  then have "filter (\<lambda>c. \<not> has_key ''id'' ?i c) (items (kind_key kind) data) = items (kind_key kind) data"
    by (rule filter_True [OF ballI])
  moreover have "has_key ''id'' ?i (column_json kind ?i)"
    by (simp add: has_key_def column_json_def)
  ultimately show ?thesis
    by (simp add: table_ops kind_prefix_def [symmetric])
qed

lemma colliding_columns_removed_together_witness:
  "items ''inputs'' (removeColumn Inputs ''in_0_1'' (addColumn Inputs 0 1 (addColumn Inputs 0 1 None))) = []"
proof -
  have "newId (kind_prefix Inputs) 0 1 = ''in_0_1''" and "items (kind_key Inputs) None = []"
    and "newId (kind_prefix Inputs) 0 1 \<notin> set (column_ids None)"
    by code_simp+
  then show ?thesis
    using colliding_columns_removed_together [of None Inputs 0 1] by simp
qed


end
