(* ===== verification/Workflow_Editor.thy ===== *)
theory Workflow_Editor
  imports Decision_Table
begin

text \<open>
  The workflow editor of \<open>atomic-fi-web/src\<close>: the file format (\<open>workflow/serialize.ts\<close>,
  \<open>workflow/types.ts\<close>), the canvas and its nodes (\<open>workflow/Canvas.tsx\<close>,
  \<open>workflow/nodes\<close>), the inspector with its schema editor (\<open>workflow/inspector\<close>), and
  the application that holds their state (\<open>App.tsx\<close>).

  A file is its name and the JSON value its text parses to (\<open>None\<close>: \<open>JSON.parse\<close> throws);
  writing a value drops the properties that are \<open>undefined\<close>. \<open>value as RulesFile\<close> is not
  checked at run time, so what was loaded keeps its JSON types. React Flow's
  \<open>applyNodeChanges\<close>, \<open>applyEdgeChanges\<close> and \<open>addEdge\<close>, the clock and the texts of the engine's
  exceptions are arguments.
\<close>

section \<open>Graphs and files\<close>

record wf_node =
  n_id :: "json option"
  n_type :: "json option"
  n_position :: "json option"
  n_name :: "json option"
  n_content :: "json option"
  n_ui :: "json obj"

record wf_edge =
  e_id :: "json option"
  e_source :: "json option"
  e_target :: "json option"
  e_ui :: "json obj"

record json_file =
  f_name :: string
  f_json :: "json option"

datatype parse_result = Parsed json | Rejected string

definition parseWorkflow :: "json \<Rightarrow> parse_result" where
  "parseWorkflow v =
     (if \<not> json_truthy v \<or> js_typeof (Some v) \<noteq> ''object''
      then Rejected ''Expected a JSON object at the top level.'' else Parsed v)"

definition entry :: "string \<Rightarrow> json option \<Rightarrow> json obj" where
  "entry k v = (case v of None \<Rightarrow> [] | Some x \<Rightarrow> [(k, x)])"

text \<open>\<open>v ?? d\<close> on JSON values.\<close>

definition nullish_json :: "json option \<Rightarrow> json \<Rightarrow> json" where
  "nullish_json v d = (case v of None \<Rightarrow> d | Some x \<Rightarrow> if x = JNull then d else x)"

definition node_json :: "wf_node \<Rightarrow> json" where
  "node_json n = JObj (entry ''id'' (n_id n) @
     entry ''type'' (Some (nullish_json (n_type n) (JStr ''functionNode''))) @
     entry ''name'' (n_name n) @ entry ''position'' (n_position n) @ entry ''content'' (n_content n))"

definition edge_json :: "wf_edge \<Rightarrow> json" where
  "edge_json e = JObj (entry ''id'' (e_id e) @ entry ''type'' (Some (JStr ''edge'')) @
     entry ''sourceId'' (e_source e) @ entry ''targetId'' (e_target e))"

definition workflowToRulesFile :: "wf_node list \<Rightarrow> wf_edge list \<Rightarrow> json" where
  "workflowToRulesFile nodes edges =
     JObj [(''contentType'', JStr ''application/vnd.gorules.decision''),
           (''nodes'', JArr (map node_json nodes)), (''edges'', JArr (map edge_json edges))]"

text \<open>Reading a property of \<open>null\<close> throws a TypeError (\<open>None\<close>); of any other value it does not.\<close>

definition node_of_json :: "json \<Rightarrow> wf_node option" where
  "node_of_json n = (if n = JNull then None else Some
     \<lparr>n_id = jget (Some n) ''id'', n_type = jget (Some n) ''type'',
      n_position = jget (Some n) ''position'', n_name = jget (Some n) ''name'',
      n_content = jget (Some n) ''content'', n_ui = []\<rparr>)"

definition edge_of_json :: "json \<Rightarrow> wf_edge option" where
  "edge_of_json e = (if e = JNull then None else Some
     \<lparr>e_id = jget (Some e) ''id'', e_source = jget (Some e) ''sourceId'',
      e_target = jget (Some e) ''targetId'', e_ui = []\<rparr>)"

definition map_array :: "(json \<Rightarrow> 'a option) \<Rightarrow> json option \<Rightarrow> 'a list option" where
  "map_array f v = (case as_array v of None \<Rightarrow> None | Some xs \<Rightarrow> those (map f xs))"

definition rulesFileToGraph :: "json \<Rightarrow> (wf_node list \<times> wf_edge list) option" where
  "rulesFileToGraph file =
     (case map_array node_of_json (jget (Some file) ''nodes'') of
        None \<Rightarrow> None
      | Some nodes \<Rightarrow>
          (case map_array edge_of_json (jget (Some file) ''edges'') of
             None \<Rightarrow> None
           | Some edges \<Rightarrow> Some (nodes, edges)))"

definition downloadJson :: "string \<Rightarrow> json \<Rightarrow> json_file" where
  "downloadJson filename payload =
     \<lparr>f_name = (if ends_with filename ''.json'' then filename else filename @ ''.json''),
      f_json = Some payload\<rparr>"

text \<open>\<open>name.replace(/\.json$/i, '')\<close>\<close>

definition strip_json :: "string \<Rightarrow> string" where
  "strip_json s = (if ends_with (toLowerCase s) ''.json'' then take (length s - 5) s else s)"

section \<open>The canvas\<close>

definition NODE_KINDS :: "(string \<times> string) list" where
  "NODE_KINDS = [(''inputNode'', ''Input''), (''decisionTableNode'', ''Decision Table''),
     (''functionNode'', ''Function''), (''outputNode'', ''Output'')]"

definition nextId :: "nat \<Rightarrow> nat \<Rightarrow> string" where
  "nextId now counter = ''n_'' @ base36 now @ ''_'' @ nat_to_string counter"

definition defaultName :: "string \<Rightarrow> string option" where
  "defaultName kind =
     (if kind = ''inputNode'' then Some ''Input''
      else if kind = ''outputNode'' then Some ''Output''
      else if kind = ''decisionTableNode'' then Some ''Decision Table''
      else if kind = ''functionNode'' then Some ''Function''
      else None)"

definition defaultContent :: "string \<Rightarrow> json option" where
  "defaultContent kind =
     (if kind = ''decisionTableNode'' then Some (JObj
        [(''hitPolicy'', JStr ''first''),
         (''inputs'', JArr [JObj [(''id'', JStr ''in_1''), (''type'', JStr ''expression''),
            (''name'', JStr ''Input''), (''field'', JStr ''input.value'')]]),
         (''outputs'', JArr [JObj [(''id'', JStr ''out_1''), (''type'', JStr ''expression''),
            (''name'', JStr ''Output''), (''field'', JStr ''output.value'')]]),
         (''rules'', JArr [])])
      else if kind = ''functionNode'' then Some (JObj [(''expression'', JStr [])])
      else None)"

definition newNode :: "string \<Rightarrow> json \<Rightarrow> string \<Rightarrow> wf_node" where
  "newNode kind position nid =
     \<lparr>n_id = Some (JStr nid), n_type = Some (JStr kind), n_position = Some position,
      n_name = map_option JStr (defaultName kind), n_content = defaultContent kind, n_ui = []\<rparr>"

record ('c, 'd) react_flow =
  applyNodeChanges :: "'c \<Rightarrow> wf_node list \<Rightarrow> wf_node list"
  applyEdgeChanges :: "'d \<Rightarrow> wf_edge list \<Rightarrow> wf_edge list"
  addEdge :: "wf_edge \<Rightarrow> wf_edge list \<Rightarrow> wf_edge list"

section \<open>How a node is drawn\<close>

record node_view =
  nv_kind :: string
  nv_title :: string
  nv_target :: bool
  nv_source :: bool
  nv_meta :: "string option"
  nv_body :: "string option"
  nv_edit :: "string option"

definition BaseNode ::
  "bool \<Rightarrow> string \<Rightarrow> string option \<Rightarrow> bool \<Rightarrow> bool \<Rightarrow> string option \<Rightarrow> string option \<Rightarrow> node_view" where
  "BaseNode can_open kind name hasInput hasOutput meta body =
     \<lparr>nv_kind = kind, nv_title = js_or_str name ''Untitled'', nv_target = hasInput, nv_source = hasOutput,
      nv_meta = (if truthy meta then meta else None), nv_body = (if truthy body then body else None),
      nv_edit = (if can_open then Some (''Edit '' @ js_or_str name kind) else None)\<rparr>"

definition count_at :: "string \<Rightarrow> json option \<Rightarrow> nat" where
  "count_at k c = (case as_array (jget c k) of None \<Rightarrow> 0 | Some xs \<Rightarrow> length xs)"

text \<open>A space, a middle dot (two bytes in UTF-8) and a space.\<close>

definition mid_dot :: string where
  "mid_dot = [CHR 0x20, CHR 0xC2, CHR 0xB7, CHR 0x20]"

definition DecisionTableNode :: "bool \<Rightarrow> wf_node \<Rightarrow> node_view" where
  "DecisionTableNode can_open n =
     (let c = n_content n;
          rules = count_at ''rules'' c;
          policy = as_string (jget c ''hitPolicy'') in
      BaseNode can_open ''Decision Table'' (as_string (n_name n)) True True
        (Some (nat_to_string rules @ '' '' @ (if rules = 1 then ''rule'' else ''rules'') @ mid_dot @
               nat_to_string (count_at ''inputs'' c) @ '' in'' @ mid_dot @
               nat_to_string (count_at ''outputs'' c) @ '' out''))
        (if truthy policy then Some (''hit policy '' @ the policy) else None))"

definition FunctionNode :: "bool \<Rightarrow> wf_node \<Rightarrow> node_view" where
  "FunctionNode can_open n =
     (let expr = nullish (as_string (jget (n_content n) ''expression'')) [] in
      BaseNode can_open ''Function'' (as_string (n_name n)) True True None
        (Some (if trim expr = [] then ''// empty'' else trim expr)))"

definition schema_meta :: "wf_node \<Rightarrow> string option" where
  "schema_meta n =
     Some (case n_content n of
             None \<Rightarrow> ''No schema''
           | Some c \<Rightarrow> if json_truthy c then ''Schema attached'' else ''No schema'')"

definition InputNode :: "bool \<Rightarrow> wf_node \<Rightarrow> node_view" where
  "InputNode can_open n = BaseNode can_open ''Input'' (as_string (n_name n)) False True (schema_meta n) None"

definition OutputNode :: "bool \<Rightarrow> wf_node \<Rightarrow> node_view" where
  "OutputNode can_open n = BaseNode can_open ''Output'' (as_string (n_name n)) True False (schema_meta n) None"

text \<open>The components by node type; React Flow draws its default node for any other type.\<close>

definition nodeTypes :: "(bool \<Rightarrow> wf_node \<Rightarrow> node_view) obj" where
  "nodeTypes = [(''inputNode'', InputNode), (''outputNode'', OutputNode),
     (''decisionTableNode'', DecisionTableNode), (''functionNode'', FunctionNode)]"


section \<open>The inspector\<close>

definition TYPE_LABEL :: "string obj" where
  "TYPE_LABEL = [(''inputNode'', ''Input''), (''outputNode'', ''Output''),
     (''decisionTableNode'', ''Decision Table''), (''functionNode'', ''Function'')]"

datatype node_editor = Table_Editor table_view | Function_Editor string | Schema_Editor | Unknown_Editor

text \<open>\<open>FunctionEditor\<close>: the expression it shows and the content it passes to \<open>onChange\<close>.\<close>

definition function_expression :: "json option \<Rightarrow> string" where
  "function_expression c = nullish (as_string (jget c ''expression'')) []"

definition setExpression :: "string \<Rightarrow> json option \<Rightarrow> json option" where
  "setExpression next c = Some (JObj (obj_spread (obj_spread [] (spread_entries c)) [(''expression'', JStr next)]))"

definition renderEditor :: "wf_node \<Rightarrow> node_editor" where
  "renderEditor n =
     (if n_type n = Some (JStr ''decisionTableNode'') then Table_Editor (DecisionTableEditor (n_content n))
      else if n_type n = Some (JStr ''functionNode'') then Function_Editor (function_expression (n_content n))
      else if n_type n = Some (JStr ''inputNode'') \<or> n_type n = Some (JStr ''outputNode'') then Schema_Editor
      else Unknown_Editor)"

record inspector =
  in_label :: string
  in_title :: string
  in_wide :: bool
  in_editor :: node_editor

definition Inspector :: "wf_node option \<Rightarrow> inspector option" where
  "Inspector node = (case node of None \<Rightarrow> None | Some n \<Rightarrow>
     (let type = nullish (as_string (n_type n)) [] in
      Some \<lparr>in_label = nullish (obj_get TYPE_LABEL type) ''Node'',
            in_title = js_or_str (as_string (n_name n)) ''Untitled'',
            in_wide = (type = ''decisionTableNode''),
            in_editor = renderEditor n\<rparr>))"

section \<open>The schema editor\<close>

text \<open>
  A text in the editor is either \<open>JSON.stringify\<close> of a value or something the user typed,
  together with what \<open>JSON.parse\<close> makes of it.
\<close>

datatype code_text = Pretty json | Typed string "json option"

fun text_blank :: "code_text \<Rightarrow> bool" where
  "text_blank (Pretty v) = False"
| "text_blank (Typed s p) = (trim s = [])"

fun text_json :: "code_text \<Rightarrow> json option" where
  "text_json (Pretty v) = Some v"
| "text_json (Typed s p) = p"

record schema_editor =
  sc_text :: code_text
  sc_error :: "string option"

definition schema_text :: "json option \<Rightarrow> code_text" where
  "schema_text c = (case c of None \<Rightarrow> Typed [] None | Some v \<Rightarrow> Pretty v)"

definition schema_init :: "json option \<Rightarrow> schema_editor" where
  "schema_init c = \<lparr>sc_text = schema_text c, sc_error = None\<rparr>"

text \<open>\<open>commit\<close>: the content passed to \<open>onChange\<close>, if any, and the editor's own state.\<close>

definition commit_schema :: "string \<Rightarrow> schema_editor \<Rightarrow> json option option \<times> schema_editor" where
  "commit_schema syntax_msg sc =
     (if text_blank (sc_text sc) then (Some None, sc\<lparr>sc_error := None\<rparr>)
      else (case text_json (sc_text sc) of
              Some v \<Rightarrow> (Some (Some v), sc\<lparr>sc_error := None\<rparr>)
            | None \<Rightarrow> (None, sc\<lparr>sc_error := Some syntax_msg\<rparr>)))"

text \<open>
  \<open>Object.is\<close> between the content of the last render and of this one. Objects and arrays are
  compared by reference: a content that comes from another node, a file or \<open>JSON.parse\<close> is
  a new object (\<open>fresh\<close>).
\<close>

fun is_reference :: "json option \<Rightarrow> bool" where
  "is_reference (Some (JArr xs)) = True"
| "is_reference (Some (JObj xs)) = True"
| "is_reference _ = False"

definition same_content :: "bool \<Rightarrow> json option \<Rightarrow> json option \<Rightarrow> bool" where
  "same_content fresh old new = (old = new \<and> \<not> (fresh \<and> is_reference new))"

text \<open>The effect on \<open>[data.content]\<close>.\<close>

definition schema_effect :: "bool \<Rightarrow> json option \<Rightarrow> json option \<Rightarrow> schema_editor \<Rightarrow> schema_editor" where
  "schema_effect fresh old new sc = (if same_content fresh old new then sc else schema_init new)"

section \<open>The application\<close>

datatype load_exn = SyntaxExn | TypeExn

record app =
  a_name :: string
  a_nodes :: "wf_node list"
  a_edges :: "wf_edge list"
  a_editing :: "string option"
  a_error :: "string option"
  a_sample :: bool
  a_reading :: "json_file list"
  a_counter :: nat
  a_schema :: "schema_editor option"
  a_downloads :: "json_file list"

definition app_init :: app where
  "app_init = \<lparr>a_name = ''de_minimis'', a_nodes = [], a_edges = [], a_editing = None, a_error = None,
     a_sample = True, a_reading = [], a_counter = 1, a_schema = None, a_downloads = []\<rparr>"

definition set_graph :: "wf_node list \<times> wf_edge list \<Rightarrow> app \<Rightarrow> app" where
  "set_graph g s = s\<lparr>a_nodes := fst g, a_edges := snd g\<rparr>"

text \<open>The answer to the fetch of the sample: \<open>r.ok\<close> and what the body parses to. Every
  exception is caught and dropped.\<close>

definition sampleArrives :: "bool \<Rightarrow> json option \<Rightarrow> app \<Rightarrow> app" where
  "sampleArrives r_ok body s =
     (let s = s\<lparr>a_sample := False\<rparr> in
      case (if r_ok then body else None) of
        None \<Rightarrow> s
      | Some data \<Rightarrow>
          if \<not> json_truthy data then s
          else (case parseWorkflow data of
                  Rejected e \<Rightarrow> s
                | Parsed v \<Rightarrow> (case rulesFileToGraph v of None \<Rightarrow> s | Some g \<Rightarrow> set_graph g s)))"

text \<open>\<open>handleLoad\<close> before and after the file is read.\<close>

definition loadStart :: "json_file \<Rightarrow> app \<Rightarrow> app" where
  "loadStart f s = s\<lparr>a_error := None, a_reading := a_reading s @ [f]\<rparr>"

definition loadEnd :: "(load_exn \<Rightarrow> string) \<Rightarrow> json_file \<Rightarrow> app \<Rightarrow> app" where
  "loadEnd msg f s =
     (case f_json f of
        None \<Rightarrow> s\<lparr>a_error := Some (msg SyntaxExn)\<rparr>
      | Some raw \<Rightarrow>
          (case parseWorkflow raw of
             Rejected e \<Rightarrow> s\<lparr>a_error := Some e\<rparr>
           | Parsed v \<Rightarrow>
               (case rulesFileToGraph v of
                  None \<Rightarrow> s\<lparr>a_error := Some (msg TypeExn)\<rparr>
                | Some g \<Rightarrow> (set_graph g (s\<lparr>a_name := strip_json (f_name f)\<rparr>))\<lparr>a_editing := None\<rparr>)))"

definition handleSave :: "app \<Rightarrow> app" where
  "handleSave s = s\<lparr>a_downloads := a_downloads s @
     [downloadJson (if a_name s = [] then ''untitled-workflow'' else a_name s)
        (workflowToRulesFile (a_nodes s) (a_edges s))]\<rparr>"

definition handleReset :: "app \<Rightarrow> app" where
  "handleReset s = s\<lparr>a_name := ''untitled-workflow'', a_nodes := [], a_edges := [], a_editing := None,
     a_error := None\<rparr>"

datatype node_patch = Patch_name string | Patch_content "json option"

fun patch_data :: "node_patch \<Rightarrow> wf_node \<Rightarrow> wf_node" where
  "patch_data (Patch_name v) n = n\<lparr>n_name := Some (JStr v)\<rparr>"
| "patch_data (Patch_content c) n = n\<lparr>n_content := c\<rparr>"

definition patchNode :: "json option \<Rightarrow> node_patch \<Rightarrow> app \<Rightarrow> app" where
  "patchNode nid p s = s\<lparr>a_nodes := update_by n_id nid (patch_data p) (a_nodes s)\<rparr>"

definition editingNode :: "app \<Rightarrow> wf_node option" where
  "editingNode s = (case a_editing s of None \<Rightarrow> None | Some i \<Rightarrow> find_by n_id (Some (JStr i)) (a_nodes s))"

definition inspectorChange :: "node_patch \<Rightarrow> app \<Rightarrow> app" where
  "inspectorChange p s = (case editingNode s of None \<Rightarrow> s | Some n \<Rightarrow> patchNode (n_id n) p s)"

text \<open>The listener exists only while an id that is not empty is being edited.\<close>

definition onEscape :: "app \<Rightarrow> app" where
  "onEscape s = (if truthy (a_editing s) then s\<lparr>a_editing := None\<rparr> else s)"

definition onConnect :: "('c, 'd) react_flow \<Rightarrow> nat \<Rightarrow> json option \<Rightarrow> json option \<Rightarrow> json obj \<Rightarrow> app \<Rightarrow> app" where
  "onConnect rf now src tgt handles s =
     s\<lparr>a_edges := addEdge rf \<lparr>e_id = Some (JStr (nextId now (a_counter s))), e_source = src, e_target = tgt,
                             e_ui = handles\<rparr> (a_edges s),
       a_counter := a_counter s + 1\<rparr>"

definition onDrop :: "string \<Rightarrow> nat \<Rightarrow> json \<Rightarrow> app \<Rightarrow> app" where
  "onDrop kind now position s =
     (if kind = [] then s
      else s\<lparr>a_nodes := a_nodes s @ [newNode kind position (nextId now (a_counter s))],
             a_counter := a_counter s + 1\<rparr>)"


section \<open>The application as a machine\<close>

datatype ('c, 'd) app_event =
  SampleArrives bool "json option"
| LoadStart json_file
| LoadEnd nat
| Save
| Reset
| SetAppName string
| NodesChange 'c
| EdgesChange 'd
| Connect nat "json option" "json option" "json obj"
| Drop string nat json
| OpenNode string
| CloseInspector
| Escape
| RenameNode string
| EditTable table_event
| EditExpression string
| TypeSchema string "json option"
| BlurSchema

definition edit_content :: "(wf_node \<Rightarrow> bool) \<Rightarrow> (json option \<Rightarrow> json option) \<Rightarrow> app \<Rightarrow> app" where
  "edit_content shown f s =
     (case editingNode s of
        None \<Rightarrow> s
      | Some n \<Rightarrow> if shown n then patchNode (n_id n) (Patch_content (f (n_content n))) s else s)"

definition blurSchema :: "(load_exn \<Rightarrow> string) \<Rightarrow> app \<Rightarrow> app" where
  "blurSchema msg s =
     (case a_schema s of
        None \<Rightarrow> s
      | Some sc \<Rightarrow>
          (let (c, sc') = commit_schema (msg SyntaxExn) sc;
               s' = s\<lparr>a_schema := Some sc'\<rparr> in
           case c of None \<Rightarrow> s' | Some v \<Rightarrow> inspectorChange (Patch_content v) s'))"

fun app_act :: "('c, 'd) react_flow \<Rightarrow> (load_exn \<Rightarrow> string) \<Rightarrow> app \<Rightarrow> ('c, 'd) app_event \<Rightarrow> app" where
  "app_act rf msg s (SampleArrives r_ok body) = (if a_sample s then sampleArrives r_ok body s else s)"
| "app_act rf msg s (LoadStart f) = loadStart f s"
| "app_act rf msg s (LoadEnd k) =
     (if k < length (a_reading s)
      then loadEnd msg (a_reading s ! k) (s\<lparr>a_reading := take k (a_reading s) @ drop (Suc k) (a_reading s)\<rparr>)
      else s)"
| "app_act rf msg s Save = handleSave s"
| "app_act rf msg s Reset = handleReset s"
| "app_act rf msg s (SetAppName v) = s\<lparr>a_name := v\<rparr>"
| "app_act rf msg s (NodesChange c) = s\<lparr>a_nodes := applyNodeChanges rf c (a_nodes s)\<rparr>"
| "app_act rf msg s (EdgesChange d) = s\<lparr>a_edges := applyEdgeChanges rf d (a_edges s)\<rparr>"
| "app_act rf msg s (Connect now src tgt handles) = onConnect rf now src tgt handles s"
| "app_act rf msg s (Drop kind now position) = onDrop kind now position s"
| "app_act rf msg s (OpenNode i) = s\<lparr>a_editing := Some i\<rparr>"
| "app_act rf msg s CloseInspector = s\<lparr>a_editing := None\<rparr>"
| "app_act rf msg s Escape = onEscape s"
| "app_act rf msg s (RenameNode v) = inspectorChange (Patch_name v) s"
| "app_act rf msg s (EditTable e) =
     edit_content (\<lambda>n. n_type n = Some (JStr ''decisionTableNode'')) (\<lambda>c. table_step c e) s"
| "app_act rf msg s (EditExpression v) =
     edit_content (\<lambda>n. n_type n = Some (JStr ''functionNode'')) (setExpression v) s"
| "app_act rf msg s (TypeSchema v p) =
     s\<lparr>a_schema := map_option (\<lambda>sc. sc\<lparr>sc_text := Typed v p\<rparr>) (a_schema s)\<rparr>"
| "app_act rf msg s BlurSchema = blurSchema msg s"

text \<open>
  After every event the inspector is rendered again. The schema editor is the same component
  instance for input and output nodes, so its state survives a change of the node; it is lost
  when another editor or none is shown.
\<close>

definition schema_content :: "app \<Rightarrow> json option option" where
  "schema_content s = (case editingNode s of None \<Rightarrow> None
     | Some n \<Rightarrow> if renderEditor n = Schema_Editor then Some (n_content n) else None)"

definition app_effect :: "bool \<Rightarrow> app \<Rightarrow> app \<Rightarrow> app" where
  "app_effect fresh before after =
     after\<lparr>a_schema := (case schema_content after of
         None \<Rightarrow> None
       | Some c' \<Rightarrow> Some (case (schema_content before, a_schema after) of
             (Some c, Some sc) \<Rightarrow> schema_effect fresh c c' sc
           | _ \<Rightarrow> schema_init c'))\<rparr>"

text \<open>
  Whether the event gives the open node a new content object: the sample replaced the graph,
  another node was opened, or the schema editor committed a parsed text. (A file that loads
  closes the inspector.)
\<close>

fun fresh_content :: "app \<Rightarrow> ('c, 'd) app_event \<Rightarrow> bool" where
  "fresh_content s (SampleArrives r_ok body) =
     (a_sample s \<and> r_ok \<and> (case body of None \<Rightarrow> False | Some data \<Rightarrow> rulesFileToGraph data \<noteq> None))"
| "fresh_content s (OpenNode i) = (a_editing s \<noteq> Some i)"
| "fresh_content s BlurSchema =
     (case a_schema s of None \<Rightarrow> False | Some sc \<Rightarrow> \<not> text_blank (sc_text sc) \<and> text_json (sc_text sc) \<noteq> None)"
| "fresh_content s _ = False"

definition app_step :: "('c, 'd) react_flow \<Rightarrow> (load_exn \<Rightarrow> string) \<Rightarrow> app \<Rightarrow> ('c, 'd) app_event \<Rightarrow> app" where
  "app_step rf msg s e = app_effect (fresh_content s e) s (app_act rf msg s e)"



section \<open>Saving and loading\<close>

definition saved_node :: "wf_node \<Rightarrow> wf_node" where
  "saved_node n = n\<lparr>n_type := Some (nullish_json (n_type n) (JStr ''functionNode'')), n_ui := []\<rparr>"

definition saved_edge :: "wf_edge \<Rightarrow> wf_edge" where
  "saved_edge e = e\<lparr>e_ui := []\<rparr>"

lemma obj_get_append: "obj_get (xs @ ys) k = (case obj_get xs k of None \<Rightarrow> obj_get ys k | Some v \<Rightarrow> Some v)"
  by (induction xs) auto

lemma obj_get_entry [simp]: "obj_get (entry k v) j = (if j = k then v else None)"
  by (simp add: entry_def split: option.splits)

lemma node_roundtrip [simp]: "node_of_json (node_json n) = Some (saved_node n)"
  by (simp add: node_of_json_def node_json_def saved_node_def obj_get_append split: option.splits)

lemma edge_roundtrip [simp]: "edge_of_json (edge_json e) = Some (saved_edge e)"
  by (simp add: edge_of_json_def edge_json_def saved_edge_def obj_get_append split: option.splits)

lemma those_map_Some: "(\<And>x. x \<in> set xs \<Longrightarrow> f x = Some (g x)) \<Longrightarrow> those (map f xs) = Some (map g xs)"
  by (induction xs) auto

lemma graph_roundtrip:
  "rulesFileToGraph (workflowToRulesFile nodes edges) = Some (map saved_node nodes, map saved_edge edges)"
  by (simp add: rulesFileToGraph_def workflowToRulesFile_def map_array_def comp_def
      those_map_Some [where g = saved_node] those_map_Some [where g = saved_edge])

lemma saved_node_idem [simp]: "node_json (saved_node n) = node_json n"
  by (simp add: node_json_def saved_node_def nullish_json_def split: option.splits)

lemma saved_edge_idem [simp]: "edge_json (saved_edge e) = edge_json e"
  by (simp add: edge_json_def saved_edge_def)

lemma saved_file_again:
  "workflowToRulesFile (map saved_node nodes) (map saved_edge edges) = workflowToRulesFile nodes edges"
  by (simp add: workflowToRulesFile_def comp_def)

lemma parse_saved: "parseWorkflow (workflowToRulesFile nodes edges) = Parsed (workflowToRulesFile nodes edges)"
  by (simp add: parseWorkflow_def workflowToRulesFile_def)

lemma strip_json_suffix [simp]: "strip_json (s @ ''.json'') = s"
proof -
  have "toLowerCase (s @ ''.json'') = toLowerCase s @ ''.json''"
    by (simp add: toLowerCase_def lower_char_def)
  then show ?thesis
    by (simp add: strip_json_def)
qed

definition saved_file :: "app \<Rightarrow> json_file" where
  "saved_file s = last (a_downloads (handleSave s))"

lemma saved_file_eq:
  "saved_file s = downloadJson (if a_name s = [] then ''untitled-workflow'' else a_name s)
     (workflowToRulesFile (a_nodes s) (a_edges s))"
  by (simp add: saved_file_def handleSave_def)



section \<open>What a file must be to load\<close>

definition loadable :: "json_file \<Rightarrow> bool" where
  "loadable f = (case f_json f of None \<Rightarrow> False | Some v \<Rightarrow>
     (\<exists>ns es. jget (Some v) ''nodes'' = Some (JArr ns) \<and> jget (Some v) ''edges'' = Some (JArr es) \<and>
        JNull \<notin> set ns \<and> JNull \<notin> set es))"

definition file_list :: "string \<Rightarrow> json_file \<Rightarrow> json list" where
  "file_list k f = nullish (as_array (jget (f_json f) k)) []"

definition loaded_node :: "json \<Rightarrow> wf_node" where
  "loaded_node v =
     \<lparr>n_id = jget (Some v) ''id'', n_type = jget (Some v) ''type'',
      n_position = jget (Some v) ''position'', n_name = jget (Some v) ''name'',
      n_content = jget (Some v) ''content'', n_ui = []\<rparr>"

definition loaded_edge :: "json \<Rightarrow> wf_edge" where
  "loaded_edge v =
     \<lparr>e_id = jget (Some v) ''id'', e_source = jget (Some v) ''sourceId'',
      e_target = jget (Some v) ''targetId'', e_ui = []\<rparr>"

lemma those_nodes:
  "those (map node_of_json xs) = (if JNull \<in> set xs then None else Some (map loaded_node xs))"
  by (induction xs) (auto simp: node_of_json_def loaded_node_def)

lemma those_edges:
  "those (map edge_of_json xs) = (if JNull \<in> set xs then None else Some (map loaded_edge xs))"
  by (induction xs) (auto simp: edge_of_json_def loaded_edge_def)

lemma parse_with_property: "jget (Some v) k = Some x \<Longrightarrow> parseWorkflow v = Parsed v"
  by (cases v) (simp_all add: parseWorkflow_def)

lemma rules_graph_iff:
  "rulesFileToGraph v =
     (case (as_array (jget (Some v) ''nodes''), as_array (jget (Some v) ''edges'')) of
        (Some ns, Some es) \<Rightarrow> if JNull \<in> set ns \<or> JNull \<in> set es then None
                            else Some (map loaded_node ns, map loaded_edge es)
      | _ \<Rightarrow> None)"
  by (auto simp: rulesFileToGraph_def map_array_def those_nodes those_edges split: option.splits)

lemma loadable_graph:
  assumes "loadable f"
  obtains v where "f_json f = Some v" "parseWorkflow v = Parsed v" "json_truthy v"
    "rulesFileToGraph v = Some (map loaded_node (file_list ''nodes'' f), map loaded_edge (file_list ''edges'' f))"
proof -
  obtain v ns es where v: "f_json f = Some v" "jget (Some v) ''nodes'' = Some (JArr ns)"
    "jget (Some v) ''edges'' = Some (JArr es)" "JNull \<notin> set ns" "JNull \<notin> set es"
    using assms by (auto simp: loadable_def split: option.splits)
  then have "json_truthy v" by (cases v) simp_all
  with v show thesis
    by (intro that [of v]) (simp_all add: rules_graph_iff file_list_def parse_with_property)
qed

lemma not_loadable_graph:
  assumes "\<not> loadable f" and "f_json f = Some v"
  shows "rulesFileToGraph v = None"
  using assms by (auto simp: rules_graph_iff loadable_def split: option.splits elim!: as_array.elims)

lemma load_all:
  "if loadable f
   then loadEnd msg f s =
          s\<lparr>a_name := strip_json (f_name f), a_nodes := map loaded_node (file_list ''nodes'' f),
            a_edges := map loaded_edge (file_list ''edges'' f), a_editing := None\<rparr>
   else \<exists>e. loadEnd msg f s = s\<lparr>a_error := Some e\<rparr>"
proof (cases "loadable f")
  case True
  then obtain v where "f_json f = Some v" "parseWorkflow v = Parsed v"
    "rulesFileToGraph v = Some (map loaded_node (file_list ''nodes'' f), map loaded_edge (file_list ''edges'' f))"
    by (rule loadable_graph)
  with True show ?thesis
    by (simp add: loadEnd_def set_graph_def)
next
  case False
  show ?thesis
  proof (cases "f_json f")
    case None
    with False show ?thesis by (auto simp: loadEnd_def)
  next
    case (Some v)
    then show ?thesis
      using False not_loadable_graph [OF False Some]
      by (cases "parseWorkflow v") (auto simp: loadEnd_def parseWorkflow_def split: if_splits)
  qed
qed




section \<open>The validation the file format documents\<close>

text \<open>The four checks the comment on \<open>parseWorkflow\<close> asks for.\<close>

fun is_str :: "json option \<Rightarrow> bool" where
  "is_str (Some (JStr s)) = True"
| "is_str _ = False"

fun is_num :: "json option \<Rightarrow> bool" where
  "is_num (Some (JNum n)) = True"
| "is_num _ = False"

definition documented_node :: "json \<Rightarrow> bool" where
  "documented_node n =
     (is_str (jget (Some n) ''id'') \<and> is_str (jget (Some n) ''name'') \<and>
      (case as_string (jget (Some n) ''type'') of None \<Rightarrow> False | Some k \<Rightarrow> k \<in> set (map fst NODE_KINDS)) \<and>
      is_num (jget (jget (Some n) ''position'') ''x'') \<and> is_num (jget (jget (Some n) ''position'') ''y''))"

definition documented_edge :: "json \<Rightarrow> bool" where
  "documented_edge e =
     (is_str (jget (Some e) ''id'') \<and> is_str (jget (Some e) ''sourceId'') \<and> is_str (jget (Some e) ''targetId''))"

definition documented_file :: "json \<Rightarrow> bool" where
  "documented_file v =
     (as_string (jget (Some v) ''contentType'') = Some ''application/vnd.gorules.decision'' \<and>
      (case as_array (jget (Some v) ''nodes'') of None \<Rightarrow> False | Some ns \<Rightarrow> \<forall>n \<in> set ns. documented_node n) \<and>
      (case as_array (jget (Some v) ''edges'') of None \<Rightarrow> False | Some es \<Rightarrow> \<forall>e \<in> set es. documented_edge e))"

text \<open>Every file that passes the documented checks loads, and its nodes have what React Flow needs.\<close>

lemma documented_loads:
  assumes "documented_file v"
  shows "\<exists>g. rulesFileToGraph v = Some g \<and> (\<forall>n \<in> set (fst g). is_str (n_id n) \<and> is_str (n_type n))"
proof -
  obtain ns es where *: "as_array (jget (Some v) ''nodes'') = Some ns" "as_array (jget (Some v) ''edges'') = Some es"
    "\<forall>n \<in> set ns. documented_node n" "\<forall>e \<in> set es. documented_edge e"
    using assms by (auto simp: documented_file_def split: option.splits)
  moreover from *(3,4) have "JNull \<notin> set ns" "JNull \<notin> set es"
    by (auto simp: documented_node_def documented_edge_def)
  moreover have "is_str (jget (Some n) ''type'')" if "documented_node n" for n
    using that by (auto simp: documented_node_def elim!: as_string.elims split: option.splits)
  ultimately show ?thesis
    by (auto simp: rules_graph_iff loaded_node_def documented_node_def)
qed

definition untyped_file :: json where
  "untyped_file = JObj [(''nodes'', JArr [JObj []]), (''edges'', JArr [])]"

text \<open>The parser accepts every object and every array and nothing else. So it accepts, against
  its own documentation, a value without \<open>nodes\<close>, on which the conversion then throws, and a file
  with a node that has neither id nor type, which reaches the canvas.\<close>

theorem parse_skips_validation:
  "(parseWorkflow v = Parsed v \<longleftrightarrow> is_reference (Some v)) \<and>
   parseWorkflow (JObj []) = Parsed (JObj []) \<and> rulesFileToGraph (JObj []) = None \<and>
   parseWorkflow untyped_file = Parsed untyped_file \<and> \<not> documented_file untyped_file \<and>
   (\<exists>n. rulesFileToGraph untyped_file = Some ([n], []) \<and> n_id n = None \<and> n_type n = None)"
proof (intro conjI)
  show "parseWorkflow v = Parsed v \<longleftrightarrow> is_reference (Some v)"
    by (cases v) (simp_all add: parseWorkflow_def)
  show "\<exists>n. rulesFileToGraph untyped_file = Some ([n], []) \<and> n_id n = None \<and> n_type n = None"
    by (simp add: rules_graph_iff untyped_file_def loaded_node_def)
qed (simp_all add: parseWorkflow_def rules_graph_iff untyped_file_def documented_file_def)

section \<open>The sample and the user's file\<close>

lemma app_effect_simps [simp]:
  "a_name (app_effect b s s') = a_name s'" "a_nodes (app_effect b s s') = a_nodes s'"
  "a_edges (app_effect b s s') = a_edges s'" "a_editing (app_effect b s s') = a_editing s'"
  "a_error (app_effect b s s') = a_error s'" "a_sample (app_effect b s s') = a_sample s'"
  "a_reading (app_effect b s s') = a_reading s'" "a_counter (app_effect b s s') = a_counter s'"
  "a_downloads (app_effect b s s') = a_downloads s'"
  by (simp_all add: app_effect_def)

lemma set_graph_simps [simp]:
  "a_name (set_graph g s) = a_name s" "a_nodes (set_graph g s) = fst g" "a_edges (set_graph g s) = snd g"
  "a_editing (set_graph g s) = a_editing s" "a_error (set_graph g s) = a_error s"
  "a_sample (set_graph g s) = a_sample s" "a_reading (set_graph g s) = a_reading s"
  "a_counter (set_graph g s) = a_counter s" "a_downloads (set_graph g s) = a_downloads s"
  "a_schema (set_graph g s) = a_schema s"
  by (simp_all add: set_graph_def)

lemma sample_graph:
  assumes "loadable f"
  shows "sampleArrives True (f_json f) s =
           s\<lparr>a_sample := False, a_nodes := map loaded_node (file_list ''nodes'' f),
             a_edges := map loaded_edge (file_list ''edges'' f)\<rparr>"
  using assms by (rule loadable_graph) (simp add: sampleArrives_def set_graph_def)

text \<open>The fetch of the sample that starts with the page replaces the graph whenever it answers.
  When the user has loaded a file before the answer arrives, the file's graph is overwritten
  while its name stays, and Save writes the sample under the name of the user's file.\<close>

theorem late_sample_overwrites_loaded_file:
  assumes "loadable f" and "loadable sample" and "a_sample s" and "a_reading s = []"
    and "strip_json (f_name f) \<noteq> []"
  shows "let s' = run (app_step rf msg) s [LoadStart f, LoadEnd 0, SampleArrives True (f_json sample)] in
    a_nodes s' = map loaded_node (file_list ''nodes'' sample) \<and> a_name s' = strip_json (f_name f) \<and>
    saved_file s' = downloadJson (strip_json (f_name f))
      (workflowToRulesFile (map loaded_node (file_list ''nodes'' sample)) (map loaded_edge (file_list ''edges'' sample)))"
proof -
  have L: "loadEnd msg f t = t\<lparr>a_name := strip_json (f_name f), a_nodes := map loaded_node (file_list ''nodes'' f),
            a_edges := map loaded_edge (file_list ''edges'' f), a_editing := None\<rparr>" for t
    using load_all [of f msg t] assms(1) by simp
  show ?thesis
    using assms by (simp add: app_step_def loadStart_def L sample_graph saved_file_eq Let_def)
qed


definition demo_file :: "string \<Rightarrow> json list \<Rightarrow> json_file" where
  "demo_file name ns = \<lparr>f_name = name, f_json = Some (JObj [(''nodes'', JArr ns), (''edges'', JArr [])])\<rparr>"

definition plain_flow :: "(nat, nat) react_flow" where
  "plain_flow = \<lparr>applyNodeChanges = (\<lambda>_ ns. ns), applyEdgeChanges = (\<lambda>_ es. es), addEdge = (\<lambda>e es. es @ [e])\<rparr>"

lemma demo_file_facts [simp]:
  "loadable (demo_file name ns) \<longleftrightarrow> JNull \<notin> set ns"
  "file_list ''nodes'' (demo_file name ns) = ns" "f_name (demo_file name ns) = name"
  by (simp_all add: loadable_def demo_file_def file_list_def)

lemma app_init_facts [simp]: "a_sample app_init" "a_reading app_init = []" "a_nodes app_init = []"
  by (simp_all add: app_init_def)

lemma late_sample_overwrites_loaded_file_witness:
  "a_nodes (run (app_step plain_flow (\<lambda>_. [])) app_init
     [LoadStart (demo_file ''mine.json'' []), LoadEnd 0, SampleArrives True (f_json (demo_file ''s'' [JObj []]))])
     = [loaded_node (JObj [])]"
proof -
  have *: "strip_json ''mine.json'' \<noteq> []"
    by code_simp
  show ?thesis
    by (rule late_sample_overwrites_loaded_file [of "demo_file ''mine.json'' []" "demo_file ''s'' [JObj []]"
          app_init plain_flow "\<lambda>_. []", unfolded Let_def demo_file_facts list.map,
          THEN conjunct1]) (simp_all add: *)
qed

section \<open>Ids\<close>

lemma base36_not_sep: "CHR ''_'' \<notin> set (nat_to_string n)"
  using nat_to_string_digits [of "CHR ''_''" n] by auto

text \<open>The counter an id carries: the digits after its last underscore.\<close>

definition id_counter :: "string \<Rightarrow> nat" where
  "id_counter i = digits_value (rev (takeWhile (\<lambda>x. x \<noteq> CHR ''_'') (rev i)))"

lemma id_counter_nextId [simp]: "id_counter (nextId t c) = c"
  using base36_not_sep [of c] by (simp add: id_counter_def nextId_def takeWhile_append)

text \<open>Ids are distinct, and those the counter can still produce are not in use.\<close>

definition used_below :: "nat \<Rightarrow> wf_node list \<Rightarrow> bool" where
  "used_below k ns = (\<forall>n \<in> set ns. case as_string (n_id n) of None \<Rightarrow> True
     | Some i \<Rightarrow> starts_with i ''n_'' \<longrightarrow> id_counter i < k)"

lemma used_below_append [simp]: "used_below k (xs @ ys) \<longleftrightarrow> used_below k xs \<and> used_below k ys"
  by (auto simp: used_below_def)

lemma used_below_new [simp]: "used_below k [newNode kind position (nextId t c)] \<longleftrightarrow> c < k"
  by (simp add: used_below_def newNode_def) (simp add: nextId_def starts_with_iff)

definition ids_inv :: "app \<Rightarrow> bool" where
  "ids_inv s = (distinct (map n_id (a_nodes s)) \<and> used_below (a_counter s) (a_nodes s))"

text \<open>
  What is asked of the environment: React Flow's changes move, resize, select and remove nodes,
  so they keep the order-independent property that ids come from the nodes given and stay
  distinct; a file has distinct ids, none of which this page would still generate.
\<close>

definition good_file :: "nat \<Rightarrow> json option \<Rightarrow> bool" where
  "good_file k body = (case body of None \<Rightarrow> True | Some v \<Rightarrow>
     (case rulesFileToGraph v of None \<Rightarrow> True | Some g \<Rightarrow>
        distinct (map n_id (fst g)) \<and> used_below k (fst g)))"

fun ids_ok :: "('c, 'd) react_flow \<Rightarrow> app \<Rightarrow> ('c, 'd) app_event \<Rightarrow> bool" where
  "ids_ok rf s (SampleArrives r_ok body) = good_file (a_counter s) body"
| "ids_ok rf s (LoadEnd k) = (k < length (a_reading s) \<longrightarrow> good_file (a_counter s) (f_json (a_reading s ! k)))"
| "ids_ok rf s (NodesChange c) =
     (distinct (map n_id (applyNodeChanges rf c (a_nodes s))) \<and>
      n_id ` set (applyNodeChanges rf c (a_nodes s)) \<subseteq> n_id ` set (a_nodes s))"
| "ids_ok rf s e = True"

interpretation node_patches: keyed n_id patch_data
proof
  show "n_id (patch_data p x) = n_id x" for p x by (cases p) simp_all
qed

lemma used_below_ids: "n_id ` set ns \<subseteq> n_id ` set ms \<Longrightarrow> used_below k ms \<Longrightarrow> used_below k ns"
  unfolding used_below_def by (fastforce dest: subsetD [OF _ imageI])

lemma used_below_mono: "used_below k ns \<Longrightarrow> k \<le> m \<Longrightarrow> used_below m ns"
  unfolding used_below_def by (fastforce split: option.splits)

lemma ids_inv_frame:
  assumes "map n_id (a_nodes t) = map n_id (a_nodes s)" and "a_counter t = a_counter s" and "ids_inv s"
  shows "ids_inv t"
proof -
  have "n_id ` set (a_nodes t) \<subseteq> n_id ` set (a_nodes s)"
    using arg_cong [OF assms(1), of set] by simp
  then show ?thesis
    using assms used_below_ids [of "a_nodes t" "a_nodes s"] by (simp add: ids_inv_def)
qed

lemma ids_inv_patch [simp]: "ids_inv s \<Longrightarrow> ids_inv (patchNode nid p s)"
  by (rule ids_inv_frame [of _ s]) (simp_all add: patchNode_def)

lemma ids_inv_change [simp]: "ids_inv s \<Longrightarrow> ids_inv (inspectorChange p s)"
  by (simp add: inspectorChange_def split: option.split)

lemma ids_inv_edit [simp]: "ids_inv s \<Longrightarrow> ids_inv (edit_content shown f s)"
  by (simp add: edit_content_def split: option.split)

lemma ids_inv_drop:
  assumes "ids_inv s"
  shows "ids_inv (onDrop kind now position s)"
proof -
  let ?i = "Some (JStr (nextId now (a_counter s)))"
  have pre: "starts_with (nextId now c) ''n_''" for c
    by (simp add: nextId_def starts_with_iff)
  have "n_id n \<noteq> ?i" if "n \<in> set (a_nodes s)" for n
  proof
    assume "n_id n = ?i"
    with that assms have "starts_with (nextId now (a_counter s)) ''n_'' \<longrightarrow> a_counter s < a_counter s"
      by (fastforce simp: ids_inv_def used_below_def)
    with pre show False by simp
  qed
  then have "?i \<notin> n_id ` set (a_nodes s)" by force
  moreover have "used_below (a_counter s + 1) (a_nodes s)"
    using assms used_below_mono unfolding ids_inv_def by (metis le_add1)
  ultimately show ?thesis
    using assms by (auto simp: ids_inv_def onDrop_def) (auto simp: newNode_def)
qed

lemma ids_inv_graph:
  "good_file (a_counter s) (Some v) \<Longrightarrow> rulesFileToGraph v = Some g \<Longrightarrow> ids_inv (set_graph g s)"
  by (simp add: good_file_def ids_inv_def)


lemma ids_inv_sample:
  "good_file (a_counter s) body \<Longrightarrow> ids_inv s \<Longrightarrow> ids_inv (sampleArrives r_ok body s)"
proof (cases "\<exists>v g. body = Some v \<and> rulesFileToGraph v = Some g \<and>
    sampleArrives r_ok body s = set_graph g (s\<lparr>a_sample := False\<rparr>)")
  case True
  moreover assume "good_file (a_counter s) body"
  ultimately show ?thesis
    using ids_inv_graph by fastforce
next
  case False
  then have "sampleArrives r_ok body s = s\<lparr>a_sample := False\<rparr>"
    by (auto simp: sampleArrives_def parseWorkflow_def Let_def split: option.splits if_splits)
  moreover assume "ids_inv s"
  ultimately show ?thesis
    by (simp add: ids_inv_def)
qed

lemma ids_inv_load:
  assumes "good_file (a_counter s) (f_json f)" and "ids_inv s"
  shows "ids_inv (loadEnd msg f s)"
proof (cases "loadable f")
  case True
  then obtain v where v: "f_json f = Some v" "rulesFileToGraph v = Some (map loaded_node (file_list ''nodes'' f), map loaded_edge (file_list ''edges'' f))"
    by (rule loadable_graph)
  show ?thesis
    using load_all [of f msg s] True assms(1) v by (simp add: ids_inv_def good_file_def)
next
  case False
  then obtain e where "loadEnd msg f s = s\<lparr>a_error := Some e\<rparr>"
    using load_all [of f msg s] by auto
  with assms(2) show ?thesis by (simp add: ids_inv_def)
qed

lemma ids_inv_blur: "ids_inv s \<Longrightarrow> ids_inv (blurSchema msg s)"
  by (auto simp: blurSchema_def Let_def ids_inv_def intro!: ids_inv_change [unfolded ids_inv_def]
      split: option.split prod.split)

lemma ids_inv_act:
  assumes "ids_inv s" and "ids_ok rf s e"
  shows "ids_inv (app_act rf msg s e)"
proof (cases e)
  case (LoadEnd k)
  let ?t = "s\<lparr>a_reading := take k (a_reading s) @ drop (Suc k) (a_reading s)\<rparr>"
  have "ids_inv ?t" by (rule ids_inv_frame [OF _ _ assms(1)]) simp_all
  with LoadEnd assms show ?thesis
    using ids_inv_load [of ?t "a_reading s ! k" msg] by simp
next
  case (NodesChange c)
  with assms show ?thesis
    using used_below_ids [of "applyNodeChanges rf c (a_nodes s)" "a_nodes s"] by (simp add: ids_inv_def)
next
  case (SampleArrives r_ok body)
  with assms show ?thesis by (simp add: ids_inv_sample)
next
  case (Drop kind now position)
  with assms show ?thesis by (simp add: ids_inv_drop)
next
  case BlurSchema
  with assms show ?thesis by (simp add: ids_inv_blur)
next
  case (Connect now src tgt handles)
  with assms show ?thesis
    using used_below_mono [of "a_counter s" "a_nodes s"] by (simp add: ids_inv_def onConnect_def)
next
  case (RenameNode v)
  with assms show ?thesis by simp
next
  case (EditTable te)
  with assms show ?thesis by simp
next
  case (EditExpression v)
  with assms show ?thesis by simp
next
  case Escape
  show ?thesis unfolding Escape
    by (rule ids_inv_frame [OF _ _ assms(1)]) (simp_all add: onEscape_def)
qed (use assms in \<open>simp_all add: ids_inv_def loadStart_def handleSave_def handleReset_def onEscape_def
      used_below_def\<close>)

lemma ids_inv_step:
  "ids_inv s \<Longrightarrow> ids_ok rf s e \<Longrightarrow> ids_inv (app_step rf msg s e)"
  unfolding app_step_def
  by (rule ids_inv_frame [of _ "app_act rf msg s e"]) (simp_all add: ids_inv_act)

interpretation editor_ids: guarded_machine "app_step rf msg" "ids_ok rf" ids_inv for rf msg
  by unfold_locales (rule ids_inv_step)

text \<open>The ids of the nodes on the canvas stay distinct, however nodes are dropped, connected,
  edited, loaded and reset within a page: an id carries the page's counter, which never goes
  back. (Asked of the environment: a file has distinct ids that this page will not generate, and
  React Flow's changes invent no ids.)\<close>

theorem node_ids_distinct:
  assumes "ids_inv s" and "admissible (app_step rf msg) (ids_ok rf) s es"
  shows "distinct (map n_id (a_nodes (run (app_step rf msg) s es)))"
  using editor_ids.run_inv [OF assms] by (simp add: ids_inv_def)

lemma node_ids_distinct_witness:
  "distinct (map n_id (a_nodes (run (app_step plain_flow (\<lambda>_. [])) app_init
     [Drop ''inputNode'' 5 JNull, Drop ''outputNode'' 5 JNull, NodesChange 0, OpenNode ''n_5_1'', RenameNode ''x''])))"
proof (rule node_ids_distinct)
  show "ids_inv app_init"
    by (simp add: ids_inv_def used_below_def)
  show "admissible (app_step plain_flow (\<lambda>_. [])) (ids_ok plain_flow) app_init
     [Drop ''inputNode'' 5 JNull, Drop ''outputNode'' 5 JNull, NodesChange 0, OpenNode ''n_5_1'', RenameNode ''x'']"
    by code_simp
qed


section \<open>The inspector edits one node\<close>

fun is_edit :: "('c, 'd) app_event \<Rightarrow> bool" where
  "is_edit (RenameNode v) = True"
| "is_edit (EditTable e) = True"
| "is_edit (EditExpression v) = True"
| "is_edit BlurSchema = True"
| "is_edit _ = False"

abbreviation node_ref :: "string \<Rightarrow> json option" where
  "node_ref i \<equiv> Some (JStr i)"

lemma editingNodeD:
  "editingNode s = Some n \<Longrightarrow> \<exists>i. a_editing s = Some i \<and> n_id n = node_ref i"
  by (auto simp: editingNode_def dest: find_by_SomeD split: option.splits)

text \<open>What every edit does to the graph: nothing, or one patch of the node being edited.\<close>

definition patches_edited :: "app \<Rightarrow> app \<Rightarrow> bool" where
  "patches_edited s t =
     (a_edges t = a_edges s \<and> a_name t = a_name s \<and> a_editing t = a_editing s \<and>
      (a_nodes t = a_nodes s \<or>
       (\<exists>i p. a_editing s = Some i \<and> a_nodes t = update_by n_id (node_ref i) (patch_data p) (a_nodes s))))"

lemma patches_change:
  "a_nodes s = a_nodes s0 \<and> a_edges s = a_edges s0 \<and> a_name s = a_name s0 \<and> a_editing s = a_editing s0 \<Longrightarrow>
   patches_edited s0 (inspectorChange p s)"
  using editingNodeD [of s]
  by (cases "editingNode s") (auto simp: patches_edited_def inspectorChange_def patchNode_def)

lemma patches_edit: "patches_edited s (edit_content shown f s)"
  using editingNodeD [of s]
  by (cases "editingNode s") (auto simp: patches_edited_def edit_content_def patchNode_def)

lemma patches_blur: "patches_edited s (blurSchema msg s)"
proof (cases "a_schema s")
  case None
  then show ?thesis by (simp add: blurSchema_def patches_edited_def)
next
  case (Some sc)
  obtain c sc' where c: "commit_schema (msg SyntaxExn) sc = (c, sc')" by fastforce
  show ?thesis
    using patches_change [of "s\<lparr>a_schema := Some sc'\<rparr>" s]
    by (cases c) (simp_all add: blurSchema_def Some c patches_edited_def)
qed

lemma edit_patches:
  assumes "is_edit e"
  shows "patches_edited s (app_step rf msg s e)"
proof -
  have "patches_edited s (app_act rf msg s e)"
    using assms patches_change [of s s] patches_edit [of s] patches_blur [of s msg] by (cases e) simp_all
  then show ?thesis by (simp add: patches_edited_def app_step_def)
qed

text \<open>Whatever the user edits in the inspector (a name, a decision table, an expression, a schema),
  only the node that is open changes: the order and the ids of the nodes, all other nodes, the
  edges and the open node's id stay as they are, and without an open node nothing changes.\<close>

theorem inspector_edits_one_node:
  assumes "is_edit e"
  shows "map n_id (a_nodes (app_step rf msg s e)) = map n_id (a_nodes s) \<and>
    a_edges (app_step rf msg s e) = a_edges s \<and> a_editing (app_step rf msg s e) = a_editing s \<and>
    (a_editing s = None \<longrightarrow> a_nodes (app_step rf msg s e) = a_nodes s) \<and>
    (\<forall>j. a_editing s \<noteq> Some j \<longrightarrow>
       find_by n_id (node_ref j) (a_nodes (app_step rf msg s e)) = find_by n_id (node_ref j) (a_nodes s))"
  using edit_patches [OF assms, of s rf msg] unfolding patches_edited_def
  by (auto simp: node_patches.find_update)

definition two_nodes :: app where
  "two_nodes = app_init\<lparr>a_nodes := [newNode ''inputNode'' JNull ''a'', newNode ''decisionTableNode'' JNull ''b''],
     a_editing := Some ''b''\<rparr>"

lemma inspector_edits_one_node_witness:
  "find_by n_id (node_ref ''a'') (a_nodes (app_step plain_flow (\<lambda>_. []) two_nodes (RenameNode ''x'')))
     = Some (newNode ''inputNode'' JNull ''a'')"
  using inspector_edits_one_node [of "RenameNode ''x''" plain_flow "\<lambda>_. []" two_nodes]
  by (simp add: two_nodes_def newNode_def)

section \<open>Editing a decision table, saving and loading it\<close>

lemma edit_table:
  assumes "a_editing s = Some i" and "find_by n_id (node_ref i) (a_nodes s) = Some n"
    and "n_type n = Some (JStr ''decisionTableNode'')"
  shows "find_by n_id (node_ref i) (a_nodes (app_step rf msg s (EditTable e))) =
           Some (n\<lparr>n_content := table_step (n_content n) e\<rparr>) \<and>
         a_editing (app_step rf msg s (EditTable e)) = Some i \<and> a_name (app_step rf msg s (EditTable e)) = a_name s"
proof -
  have "n_id n = node_ref i" using find_by_SomeD [OF assms(2)] by simp
  moreover have "editingNode s = Some n" using assms by (simp add: editingNode_def)
  ultimately show ?thesis
    using assms by (simp add: app_step_def edit_content_def patchNode_def node_patches.find_update)
qed

lemma edit_table_run:
  assumes "a_editing s = Some i" and "find_by n_id (node_ref i) (a_nodes s) = Some n"
    and "n_type n = Some (JStr ''decisionTableNode'')"
  shows "find_by n_id (node_ref i) (a_nodes (run (app_step rf msg) s (map EditTable es))) =
           Some (n\<lparr>n_content := run table_step (n_content n) es\<rparr>) \<and>
         a_name (run (app_step rf msg) s (map EditTable es)) = a_name s"
  using assms
proof (induction es arbitrary: s n)
  case Nil
  then show ?case by simp
next
  case (Cons e es)
  show ?case
    using Cons.IH [of "app_step rf msg s (EditTable e)" "n\<lparr>n_content := table_step (n_content n) e\<rparr>"]
      edit_table [OF Cons.prems, of rf msg e] Cons.prems(3)
    by simp
qed

lemma find_saved: "find_by n_id j (map saved_node ns) = map_option saved_node (find_by n_id j ns)"
  by (induction ns) (auto simp: saved_node_def)

text \<open>C6. End to end: the edits a user makes in the inspector to a decision table reach the canvas, the
  file that Save writes and the page that loads this file. There the node's editor shows the
  table with the same edits carried out as spreadsheet operations.\<close>

theorem table_edits_survive_save_and_load:
  fixes rf :: "('c, 'd) react_flow"
  assumes "a_editing s = Some i" and "find_by n_id (node_ref i) (a_nodes s) = Some n"
    and "n_type n = Some (JStr ''decisionTableNode'')"
    and "table_inv (n_content n)" and "admissible table_step table_ok (n_content n) es"
  shows "\<exists>m. find_by n_id (node_ref i)
              (a_nodes (loadEnd msg (saved_file (run (app_step rf msg) s (map EditTable es))) t)) = Some m \<and>
           renderEditor m = Table_Editor (show_table (run spec_step (abs_table (n_content n)) es))"
proof -
  let ?s = "run (app_step rf msg) s (map EditTable es)"
  let ?n = "n\<lparr>n_content := run table_step (n_content n) es\<rparr>"
  have "find_by n_id (node_ref i) (a_nodes ?s) = Some ?n"
    using edit_table_run [OF assms(1-3), of rf msg es] by blast
  then have "find_by n_id (node_ref i) (a_nodes (loadEnd msg (saved_file ?s) t)) = Some (saved_node ?n)"
    by (simp add: saved_file_eq downloadJson_def loadEnd_def parse_saved graph_roundtrip find_saved)
  moreover have "renderEditor (saved_node ?n) = Table_Editor (show_table (run spec_step (abs_table (n_content n)) es))"
    using assms(3) view_of_abs [OF table.run_inv [OF assms(4,5)]] run_refines [OF assms(4,5)]
    by (simp add: renderEditor_def saved_node_def nullish_json_def)
  ultimately show ?thesis by blast
qed


definition table_page :: app where
  "table_page = app_init\<lparr>a_nodes := [(newNode ''decisionTableNode'' JNull ''b'')\<lparr>n_content := None\<rparr>],
     a_editing := Some ''b''\<rparr>"

lemma table_edits_survive_save_and_load_witness:
  "\<exists>m. find_by n_id (node_ref ''b'')
         (a_nodes (loadEnd (\<lambda>_. []) (saved_file (run (app_step plain_flow (\<lambda>_. [])) table_page
            (map EditTable demo_edits))) app_init)) = Some m \<and>
       renderEditor m = Table_Editor (show_table (run spec_step (abs_table None) demo_edits))"
proof -
  let ?n = "(newNode ''decisionTableNode'' JNull ''b'')\<lparr>n_content := None\<rparr>"
  have "a_editing table_page = Some ''b''" "find_by n_id (node_ref ''b'') (a_nodes table_page) = Some ?n"
    "n_type ?n = Some (JStr ''decisionTableNode'')" "n_content ?n = None"
    by (simp_all add: table_page_def newNode_def)
  then show ?thesis
    using table_edits_survive_save_and_load [of table_page "''b''" ?n demo_edits "\<lambda>_. []" plain_flow app_init]
      demo_admissible by simp
qed

section \<open>The schema editor inside the application\<close>

lemma renderEditor_content:
  "renderEditor n = Schema_Editor \<longleftrightarrow> n_type n \<in> {Some (JStr ''inputNode''), Some (JStr ''outputNode'')}"
  by (simp add: renderEditor_def)

lemma schema_content_eq:
  "a_editing s = Some i \<Longrightarrow> find_by n_id (node_ref i) (a_nodes s) = Some n \<Longrightarrow> renderEditor n = Schema_Editor \<Longrightarrow>
   schema_content s = Some (n_content n)"
  by (simp add: schema_content_def editingNode_def)

text \<open>A page whose inspector shows a schema editor for node \<open>i\<close>.\<close>

definition schema_page :: "app \<Rightarrow> string \<Rightarrow> wf_node \<Rightarrow> schema_editor \<Rightarrow> bool" where
  "schema_page s i n sc =
     (a_editing s = Some i \<and> find_by n_id (node_ref i) (a_nodes s) = Some n \<and>
      renderEditor n = Schema_Editor \<and> a_schema s = Some sc)"

lemma schema_pageD:
  assumes "schema_page s i n sc"
  shows "a_editing s = Some i" "find_by n_id (node_ref i) (a_nodes s) = Some n" "renderEditor n = Schema_Editor"
    "a_schema s = Some sc" "schema_content s = Some (n_content n)" "editingNode s = Some n" "n_id n = node_ref i"
  using assms find_by_SomeD [of n_id "node_ref i" "a_nodes s" n]
  by (auto simp: schema_page_def schema_content_def editingNode_def)

lemma type_schema:
  assumes "schema_page s i n sc"
  shows "schema_page (app_step rf msg s (TypeSchema v p)) i n (sc\<lparr>sc_text := Typed v p\<rparr>) \<and>
         a_nodes (app_step rf msg s (TypeSchema v p)) = a_nodes s"
proof -
  let ?t = "app_act rf msg s (TypeSchema v p)"
  have "schema_content ?t = Some (n_content n)" "a_schema ?t = Some (sc\<lparr>sc_text := Typed v p\<rparr>)"
    using schema_pageD [OF assms] by (simp_all add: schema_content_def editingNode_def)
  then have "a_schema (app_step rf msg s (TypeSchema v p)) = Some (sc\<lparr>sc_text := Typed v p\<rparr>)"
    using schema_pageD(4,5) [OF assms]
    by (simp add: app_step_def app_effect_def schema_effect_def same_content_def)
  then show ?thesis
    using schema_pageD [OF assms] by (simp add: schema_page_def) (simp add: app_step_def)
qed

lemma blur_schema_bad:
  assumes P: "schema_page s i n sc" and bad: "\<not> text_blank (sc_text sc)" "text_json (sc_text sc) = None"
  shows "schema_page (app_step rf msg s BlurSchema) i n (sc\<lparr>sc_error := Some (msg SyntaxExn)\<rparr>) \<and>
         a_nodes (app_step rf msg s BlurSchema) = a_nodes s"
proof -
  have t: "app_act rf msg s BlurSchema = s\<lparr>a_schema := Some (sc\<lparr>sc_error := Some (msg SyntaxExn)\<rparr>)\<rparr>"
    using schema_pageD(4) [OF P] bad by (simp add: blurSchema_def commit_schema_def)
  have "schema_content (app_act rf msg s BlurSchema) = Some (n_content n)"
    unfolding t using schema_pageD [OF P] by (simp add: schema_content_def editingNode_def)
  moreover have "\<not> fresh_content s BlurSchema"
    using schema_pageD(4) [OF P] bad by simp
  ultimately have sch: "a_schema (app_step rf msg s BlurSchema) = Some (sc\<lparr>sc_error := Some (msg SyntaxExn)\<rparr>)"
    using schema_pageD(5) [OF P]
    unfolding app_step_def app_effect_def t by (simp add: schema_effect_def same_content_def)
  have "a_nodes (app_step rf msg s BlurSchema) = a_nodes s" "a_editing (app_step rf msg s BlurSchema) = a_editing s"
    unfolding app_step_def t by simp_all
  with sch show ?thesis
    using schema_pageD [OF P] by (simp add: schema_page_def)
qed

lemma open_schema:
  assumes P: "schema_page s i n sc" and m: "find_by n_id (node_ref j) (a_nodes s) = Some m" "renderEditor m = Schema_Editor"
    and c: "n_content n = None" "n_content m = None"
  shows "schema_page (app_step rf msg s (OpenNode j)) j m sc \<and>
         a_nodes (app_step rf msg s (OpenNode j)) = a_nodes s"
proof -
  have "schema_content (app_act rf msg s (OpenNode j)) = Some None"
    using m c by (simp add: schema_content_def editingNode_def)
  then have "a_schema (app_step rf msg s (OpenNode j)) = Some sc"
    using schema_pageD(4,5) [OF P] c
    by (simp add: app_step_def app_effect_def schema_effect_def same_content_def)
  then show ?thesis
    using m by (simp add: schema_page_def) (simp add: app_step_def)
qed

lemma blur_schema_good:
  assumes P: "schema_page s i n sc" and good: "commit_schema (msg SyntaxExn) sc = (Some c, sc')"
  shows "a_nodes (app_step rf msg s BlurSchema) = update_by n_id (node_ref i) (patch_data (Patch_content c)) (a_nodes s) \<and>
         map_option sc_error (a_schema (app_step rf msg s BlurSchema)) = Some None"
proof -
  let ?s = "s\<lparr>a_schema := Some sc'\<rparr>"
  have "editingNode ?s = Some n"
    using schema_pageD(1,2) [OF P] by (simp add: editingNode_def)
  then have t: "app_act rf msg s BlurSchema = patchNode (node_ref i) (Patch_content c) ?s"
    using schema_pageD [OF P] good by (simp add: blurSchema_def inspectorChange_def)
  have "find_by n_id (node_ref i) (a_nodes (patchNode (node_ref i) (Patch_content c) ?s)) = Some (n\<lparr>n_content := c\<rparr>)"
    using schema_pageD(2) [OF P] by (simp add: patchNode_def node_patches.find_update)
  then have "schema_content (patchNode (node_ref i) (Patch_content c) ?s) = Some c"
    using schema_pageD(1,3) [OF P]
    by (simp add: schema_content_def editingNode_def patchNode_def renderEditor_content)
  moreover have "sc_error sc' = None"
    using good by (auto simp: commit_schema_def split: if_splits option.splits)
  ultimately show ?thesis
    using schema_pageD(5) [OF P] unfolding app_step_def t
    by (simp add: app_effect_def patchNode_def schema_effect_def schema_init_def)
qed

text \<open>When the schema editor loses the focus, an empty text removes the node's schema and a text
  that parses becomes it, with no error left on the page; a text that does not parse changes no
  node and shows the parser's message.\<close>

theorem schema_commits_on_blur:
  assumes "schema_page s i n sc"
  shows "find_by n_id (node_ref i) (a_nodes (app_step rf msg s BlurSchema)) =
           Some (if text_blank (sc_text sc) then n\<lparr>n_content := None\<rparr>
                 else case text_json (sc_text sc) of Some v \<Rightarrow> n\<lparr>n_content := Some v\<rparr> | None \<Rightarrow> n) \<and>
         map_option sc_error (a_schema (app_step rf msg s BlurSchema)) =
           Some (if text_blank (sc_text sc) \<or> text_json (sc_text sc) \<noteq> None then None else Some (msg SyntaxExn))"
proof (cases "fst (commit_schema (msg SyntaxExn) sc)")
  case None
  then have "\<not> text_blank (sc_text sc)" "text_json (sc_text sc) = None"
    by (auto simp: commit_schema_def split: if_splits option.splits)
  with blur_schema_bad [OF assms, of rf msg] schema_pageD(2) [OF assms] show ?thesis
    by (simp add: schema_page_def)
next
  case (Some c)
  then have "commit_schema (msg SyntaxExn) sc = (Some c, snd (commit_schema (msg SyntaxExn) sc))"
    by (simp add: prod_eq_iff)
  note good = blur_schema_good [where msg = msg and rf = rf, OF assms this]
  have "if text_blank (sc_text sc) then c = None else text_json (sc_text sc) = c \<and> c \<noteq> None"
    using Some by (cases "text_json (sc_text sc)") (auto simp: commit_schema_def)
  with good schema_pageD(2) [OF assms] show ?thesis
    by (auto simp: node_patches.find_update split: if_splits)
qed

text \<open>The schema editor keeps its text when the inspector moves between two nodes without a
  schema: a text that was rejected for one node is shown, with its error, as the other node's
  schema, and once it is corrected it becomes the schema of that other node, while the node it was
  written for still has none.\<close>

theorem rejected_schema_moves_to_next_node:
  assumes "schema_page s i n sc" and "find_by n_id (node_ref j) (a_nodes s) = Some m"
    and "renderEditor m = Schema_Editor" and "n_content n = None" and "n_content m = None" and "i \<noteq> j"
    and "trim bad \<noteq> []" and "trim good \<noteq> []"
  shows "let s1 = run (app_step rf msg) s [TypeSchema bad None, BlurSchema, OpenNode j];
             s2 = run (app_step rf msg) s1 [TypeSchema good (Some v), BlurSchema] in
    map_option sc_text (a_schema s1) = Some (Typed bad None) \<and>
    map_option sc_error (a_schema s1) = Some (Some (msg SyntaxExn)) \<and>
    find_by n_id (node_ref j) (a_nodes s2) = Some (m\<lparr>n_content := Some v\<rparr>) \<and>
    find_by n_id (node_ref i) (a_nodes s2) = Some n"
proof -
  let ?sc1 = "sc\<lparr>sc_text := Typed bad None\<rparr>"
  let ?a = "app_step rf msg s (TypeSchema bad None)"
  have a: "schema_page ?a i n ?sc1" "a_nodes ?a = a_nodes s"
    using type_schema [OF assms(1)] by blast+
  let ?b = "app_step rf msg ?a BlurSchema" and ?sc2 = "?sc1\<lparr>sc_error := Some (msg SyntaxExn)\<rparr>"
  have b: "schema_page ?b i n ?sc2" "a_nodes ?b = a_nodes s"
    using blur_schema_bad [OF a(1), of rf msg] a(2) assms(7) by simp_all
  let ?c = "app_step rf msg ?b (OpenNode j)"
  have c: "schema_page ?c j m ?sc2" "a_nodes ?c = a_nodes s"
    using open_schema [OF b(1) _ assms(3-5), of j rf msg] b(2) assms(2) by simp_all
  let ?d = "app_step rf msg ?c (TypeSchema good (Some v))"
  have d: "schema_page ?d j m (?sc2\<lparr>sc_text := Typed good (Some v)\<rparr>)" "a_nodes ?d = a_nodes s"
    using type_schema [OF c(1), of rf msg good "Some v"] c(2) by simp_all
  have e: "a_nodes (app_step rf msg ?d BlurSchema) =
      update_by n_id (node_ref j) (patch_data (Patch_content (Some v))) (a_nodes s)"
    using blur_schema_good [OF d(1), of msg "Some v" _ rf] d(2) assms(8) by (simp add: commit_schema_def)
  show ?thesis
    using assms(1,2,6) schema_pageD(4) [OF c(1)]
    by (simp add: Let_def e node_patches.find_update schema_page_def)
qed


definition schema_demo :: app where
  "schema_demo = app_init\<lparr>a_nodes := [newNode ''inputNode'' JNull ''a'', newNode ''outputNode'' JNull ''b''],
     a_editing := Some ''a'', a_schema := Some (schema_init None)\<rparr>"

lemma schema_demo_page: "schema_page schema_demo ''a'' (newNode ''inputNode'' JNull ''a'') (schema_init None)"
  by (simp add: schema_page_def schema_demo_def newNode_def renderEditor_def)

lemma schema_commits_on_blur_witness:
  "find_by n_id (node_ref ''a'') (a_nodes (app_step plain_flow (\<lambda>_. ''bad'') schema_demo BlurSchema))
     = Some (newNode ''inputNode'' JNull ''a'')"
  using schema_commits_on_blur [OF schema_demo_page, of plain_flow "\<lambda>_. ''bad''"]
  by (simp add: schema_init_def schema_text_def newNode_def defaultContent_def)

lemma rejected_schema_moves_to_next_node_witness:
  "map_option sc_text (a_schema (run (app_step plain_flow (\<lambda>_. ''bad'')) schema_demo
     [TypeSchema ''{'' None, BlurSchema, OpenNode ''b''])) = Some (Typed ''{'' None)"
proof -
  have m: "find_by n_id (node_ref ''b'') (a_nodes schema_demo) = Some (newNode ''outputNode'' JNull ''b'')"
    "renderEditor (newNode ''outputNode'' JNull ''b'') = Schema_Editor"
    "n_content (newNode ''inputNode'' JNull ''a'') = None" "n_content (newNode ''outputNode'' JNull ''b'') = None"
    by (simp_all add: schema_demo_def newNode_def renderEditor_def defaultContent_def)
  have t: "trim ''{'' \<noteq> []" "trim ''{}'' \<noteq> []"
    by code_simp+
  show ?thesis
    by (rule rejected_schema_moves_to_next_node [OF schema_demo_page m _ t, of plain_flow "\<lambda>_. ''bad''" "JObj []",
          unfolded Let_def, THEN conjunct1]) simp
qed


end
