(* ===== verification/Workflow_Views.thy ===== *)
theory Workflow_Views
  imports Workflow_Editor
begin

text \<open>
  The parts of the workflow editor around its canvas (\<open>atomic-fi-web/src/workflow\<close>): the toolbar
  (\<open>Toolbar.tsx\<close>), the palette and its drag-and-drop to the canvas (\<open>NodePalette.tsx\<close>, \<open>Canvas.tsx\<close>), and how the
  inspector's editors configure the code editor (\<open>inspector/CodeEditor.tsx\<close>). CodeMirror itself and the colours
  of its themes are left out.
\<close>

section \<open>Toolbar\<close>

text \<open>The hidden file input: its handler loads the first file, if there is one, and empties the input. The
  events of the toolbar are events of the application.\<close>

datatype toolbar_event = File_chosen "json_file list" | Name_typed string | Reset_click | Save_click

definition handleFile :: "json_file list \<Rightarrow> json_file option \<times> json_file list" where
  "handleFile files = ((case files of [] \<Rightarrow> None | f # fs \<Rightarrow> Some f), [])"

fun Toolbar :: "toolbar_event \<Rightarrow> ('c, 'd) app_event list" where
  "Toolbar (File_chosen files) = (case fst (handleFile files) of None \<Rightarrow> [] | Some f \<Rightarrow> [LoadStart f])"
| "Toolbar (Name_typed v) = [SetAppName v]"
| "Toolbar Reset_click = [Reset]"
| "Toolbar Save_click = [Save]"

section \<open>Palette\<close>

record palette_item =
  pl_kind :: string
  pl_label :: string
  pl_description :: string
  pl_dot :: string

definition kind_description :: "string obj" where
  "kind_description =
     [(''inputNode'', ''Entry point of the decision graph''), (''decisionTableNode'', ''Evaluate rules in tabular form''),
      (''functionNode'', ''Run a JS expression''), (''outputNode'', ''Terminal result of the graph'')]"

definition dotByKind :: "string obj" where
  "dotByKind =
     [(''inputNode'', ''bg-sage''), (''outputNode'', ''bg-terracotta''), (''decisionTableNode'', ''bg-violet''),
      (''functionNode'', ''bg-amber'')]"

definition NodePalette :: "palette_item list" where
  "NodePalette = map (\<lambda>(k, l). \<lparr>pl_kind = k, pl_label = l,
     pl_description = nullish (obj_get kind_description k) [], pl_dot = nullish (obj_get dotByKind k) ''undefined''\<rparr>) NODE_KINDS"

section \<open>Drag and drop\<close>

text \<open>What a drag carries: the texts by format, the effects allowed and the effect shown.\<close>

record drag =
  dr_data :: "string obj"
  dr_effectAllowed :: string
  dr_dropEffect :: string

definition plain_drag :: drag where
  "plain_drag = \<lparr>dr_data = [], dr_effectAllowed = ''uninitialized'', dr_dropEffect = ''none''\<rparr>"

definition onDragStart :: "string \<Rightarrow> drag \<Rightarrow> drag" where
  "onDragStart kind d = d\<lparr>dr_data := obj_set ''application/x-rule-node'' kind (dr_data d), dr_effectAllowed := ''move''\<rparr>"

definition onDragOver :: "drag \<Rightarrow> drag" where
  "onDragOver d = d\<lparr>dr_dropEffect := ''move''\<rparr>"

definition getData :: "string \<Rightarrow> drag \<Rightarrow> string" where
  "getData fmt d = nullish (obj_get (dr_data d) fmt) []"

text \<open>The event the canvas makes of a drop; before React Flow is ready there is no position to drop at.\<close>

definition drop_of :: "bool \<Rightarrow> nat \<Rightarrow> json \<Rightarrow> drag \<Rightarrow> ('c, 'd) app_event list" where
  "drop_of ready now position d =
     (let kind = getData ''application/x-rule-node'' d in
      if kind = [] \<or> \<not> ready then [] else [Drop kind now position])"

section \<open>Code editors\<close>

record code_editor =
  ce_language :: string
  ce_placeholder :: "string option"
  ce_dark :: bool
  ce_foldGutter :: bool
  ce_minHeight :: string

definition CodeEditor :: "string \<Rightarrow> string option \<Rightarrow> string option \<Rightarrow> nat option \<Rightarrow> code_editor" where
  "CodeEditor language placeholder variant minHeight =
     \<lparr>ce_language = language, ce_placeholder = placeholder, ce_dark = (nullish variant ''paper'' = ''ink''),
      ce_foldGutter = (language = ''json''), ce_minHeight = nat_to_string (nullish minHeight 240) @ ''px''\<rparr>"

definition FunctionEditor :: code_editor where
  "FunctionEditor = CodeEditor ''javascript'' (Some ''input.score >= 720 ? 5.5 : 8.9'') (Some ''ink'') (Some 280)"

definition SchemaEditor :: code_editor where
  "SchemaEditor =
     (let nl = [CHR 0x0A]; q = [CHR 0x22] in
      CodeEditor ''json''
        (Some (''{'' @ nl @ ''  '' @ q @ ''type'' @ q @ '': '' @ q @ ''object'' @ q @ '','' @ nl @
               ''  '' @ q @ ''properties'' @ q @ '': {}'' @ nl @ ''}''))
        None (Some 280))"

section \<open>Facts\<close>

lemma getData_start [simp]: "getData ''application/x-rule-node'' (onDragOver (onDragStart k d)) = k"
  by (simp add: getData_def onDragStart_def onDragOver_def nullish_def)

text \<open>Dragging an item of the palette onto the canvas adds one node of its kind, named as the item is labelled,
  which is drawn by its own component and can be edited.\<close>

lemma palette_kind: "(k, l) \<in> set NODE_KINDS \<Longrightarrow> k \<noteq> [] \<and> defaultName k = Some l \<and> obj_get nodeTypes k \<noteq> None"
  by (auto simp: NODE_KINDS_def defaultName_def nodeTypes_def)

lemma palette_drop:
  assumes "(k, l) \<in> set NODE_KINDS"
  shows "\<exists>n. a_nodes (run (app_act rf msg) s (drop_of True now position (onDragOver (onDragStart k plain_drag)))) = a_nodes s @ [n] \<and>
    n_name n = Some (JStr l) \<and> n_type n = Some (JStr k) \<and> renderEditor n \<noteq> Unknown_Editor"
  using assms palette_kind [OF assms]
  by (auto simp: drop_of_def onDrop_def newNode_def NODE_KINDS_def renderEditor_def)

text \<open>A drag from elsewhere changes nothing.\<close>

lemma foreign_drop: "drop_of ready now position plain_drag = []"
  by (simp add: drop_of_def plain_drag_def getData_def nullish_def)

lemma palette_complete: "map pl_kind NodePalette = map fst NODE_KINDS" "list_all (\<lambda>i. pl_description i \<noteq> [] \<and> pl_dot i \<noteq> ''undefined'') NodePalette"
  by code_simp+

text \<open>Choosing no file does nothing; the input is always emptied, so the same file can be loaded again.\<close>

lemma no_file: "Toolbar (File_chosen []) = []" "snd (handleFile files) = []"
  by (simp_all add: handleFile_def)

end
