(* ===== verification/Rule_Graph.thy ===== *)
theory Rule_Graph
  imports Js_Object
begin

text \<open>
  The graph tools of the rule copilot
  (\<open>example-apps/atomic-fi-jdm-editor/src/copilot/actions/use-graph-actions.tsx\<close>,
  \<open>copilot/node-types.ts\<close>): the agent proposes a change, a card shows it, and the user's
  decision changes the graph and is the tool's result.

  A tool call carries the result of \<open>safeParse\<close> (the message of the failure, or the validated
  arguments); the schemas that give it are in \<open>Tool_Args\<close>, which uses the preprocessing and the
  transforms written out here. \<open>JSON.parse\<close> is the argument \<open>parse\<close> (the message of the \<open>SyntaxError\<close>, or the
  value), ids are arguments of the applications. A card keeps its title, the label of its button
  and what its two buttons do; the summaries only show what the arguments say.
\<close>

section \<open>Graphs\<close>

record jdm_node =
  j_id :: string
  j_name :: "string option"
  j_type :: "string option"
  j_content :: "json option"
  j_position :: "(rat \<times> rat) option"

record jdm_edge =
  je_id :: string
  je_source :: string
  je_target :: string
  je_sourceHandle :: "string option"
  je_targetHandle :: "string option"

record graph =
  g_nodes :: "jdm_node list"
  g_edges :: "jdm_edge list"

section \<open>Tool arguments\<close>

type_synonym json_parser = "string \<Rightarrow> string + json"

definition parseIfJsonString :: "json_parser \<Rightarrow> json option \<Rightarrow> json option" where
  "parseIfJsonString parse v =
     (case as_string v of None \<Rightarrow> v
      | Some s \<Rightarrow> (case parse s of Inl e \<Rightarrow> v | Inr x \<Rightarrow> Some x))"

definition NODE_TYPES :: "string list" where
  "NODE_TYPES = [''inputNode'', ''outputNode'', ''decisionTableNode'', ''expressionNode'', ''functionNode'',
     ''switchNode'', ''customNode'', ''decisionNode'']"

text \<open>A position that is not an object with two numbers counts as no position.\<close>

definition TolerantPosition :: "json_parser \<Rightarrow> json option \<Rightarrow> (rat \<times> rat) option" where
  "TolerantPosition parse v =
     (let parsed = parseIfJsonString parse v in
      if js_typeof parsed \<noteq> ''object'' \<or> parsed = Some JNull then None
      else (case (as_number (jget parsed ''x''), as_number (jget parsed ''y'')) of
              (Some x, Some y) \<Rightarrow> Some (x, y)
            | _ \<Rightarrow> None))"

record add_args =
  aa_type :: string
  aa_name :: string
  aa_content :: "json option"
  aa_position :: "(rat \<times> rat) option"

record update_patch =
  np_name :: "string option"
  np_content :: "json option"
  np_position :: "(rat \<times> rat) option"

record update_args =
  ua_node_id :: string
  ua_patch :: update_patch

text \<open>The transform and the refinement of \<open>UpdateNodeArgsSchema\<close>: the nested patch wins over the
  shorthand fields, and one field at least must be given.\<close>

definition UpdateNodeArgs :: "string \<Rightarrow> update_patch option \<Rightarrow> update_patch \<Rightarrow> update_args option" where
  "UpdateNodeArgs node_id nested shorthand =
     (let patch = nullish nested shorthand in
      if np_name patch \<noteq> None \<or> np_content patch \<noteq> None \<or> np_position patch \<noteq> None
      then Some \<lparr>ua_node_id = node_id, ua_patch = patch\<rparr> else None)"

record edge_args =
  ea_source_id :: string
  ea_target_id :: string
  ea_source_handle :: "string option"
  ea_target_handle :: "string option"

fun isNonEmptyObject :: "json option \<Rightarrow> bool" where
  "isNonEmptyObject (Some (JObj xs)) = (xs \<noteq> [])"
| "isNonEmptyObject _ = False"

text \<open>The transform of \<open>SimulateRuleArgsSchema\<close>: the context, or the message of the issue.\<close>

definition dash :: string where
  "dash = [CHR '' '', CHR 0xE2, CHR 0x80, CHR 0x94, CHR '' '']"

definition quoted :: "string \<Rightarrow> string" where
  "quoted s = [CHR 0x22] @ s @ [CHR 0x22]"

definition context_required :: string where
  "context_required = ''context_json (a JSON-encoded string of a non-empty object) is required. Example: '' @
     [CHR 0x27] @ ''{'' @ quoted ''account_holder'' @ '': {'' @ quoted ''kyc_status'' @ '': '' @ quoted ''approved'' @
     ''}}'' @ [CHR 0x27]"

definition simulate_context ::
  "json_parser \<Rightarrow> json option \<Rightarrow> string option \<Rightarrow> string + json" where
  "simulate_context parse ctx context_json =
     (let c = parseIfJsonString parse ctx in
      if isNonEmptyObject c then Inr (the c)
      else (case context_json of
              Some s \<Rightarrow>
                if trim s = [] then Inl context_required
                else (case parse s of
                        Inl e \<Rightarrow> Inl (''context_json is not valid JSON: '' @ e)
                      | Inr v \<Rightarrow>
                          if isNonEmptyObject (Some v) then Inr v
                          else Inl (''context_json parsed but produced '' @
                                    (if as_array (Some v) \<noteq> None then ''an array'' else js_typeof (Some v)) @
                                    dash @ ''expected a non-empty JSON object.''))
            | None \<Rightarrow> Inl context_required))"

section \<open>Placing a node\<close>

definition HORIZONTAL_GAP :: rat where "HORIZONTAL_GAP = 280"
definition Y_CENTER :: rat where "Y_CENTER = 160"
definition X_INPUT :: rat where "X_INPUT = 100"

definition autoPosition :: "jdm_node list \<Rightarrow> string \<Rightarrow> rat \<times> rat" where
  "autoPosition existingNodes type =
     (if type = ''inputNode'' then (X_INPUT, Y_CENTER)
      else if type = ''outputNode'' then
        (foldl (\<lambda>m n. max m (case j_position n of None \<Rightarrow> 0 | Some (x, y) \<Rightarrow> x)) X_INPUT
           (filter (\<lambda>n. j_type n \<noteq> Some ''outputNode'') existingNodes) + HORIZONTAL_GAP, Y_CENTER)
      else (X_INPUT + HORIZONTAL_GAP + HORIZONTAL_GAP *
              of_nat (length (filter (\<lambda>n. j_type n \<noteq> Some ''inputNode'' \<and> j_type n \<noteq> Some ''outputNode'')
                                existingNodes)), Y_CENTER))"

section \<open>Resolving a reference\<close>

definition find_ref :: "graph \<Rightarrow> string \<Rightarrow> jdm_node option" where
  "find_ref g r = (case find_by j_id r (g_nodes g) of
     Some n \<Rightarrow> Some n | None \<Rightarrow> find_by j_name (Some r) (g_nodes g))"

text \<open>An empty id would count as unresolved (\<open>!resolvedId\<close>).\<close>

definition resolveNodeId :: "graph \<Rightarrow> string \<Rightarrow> string option" where
  "resolveNodeId g r = map_option j_id (find_ref g r)"

definition lookupNodeName :: "graph \<Rightarrow> string \<Rightarrow> string" where
  "lookupNodeName g r =
     (case find_ref g r of
        Some n \<Rightarrow> if truthy (j_name n) then the (j_name n) else ''(unresolved: '' @ r @ '')''
      | None \<Rightarrow> ''(unresolved: '' @ r @ '')'')"

section \<open>Cards\<close>

text \<open>What Apply does: answer only, or change the graph and answer.\<close>

datatype proposal =
  Answer json
| Add_Node add_args
| Update_Node string update_patch
| Remove_Node string
| Add_Edge string string edge_args
| Remove_Edge string

record card =
  cd_title :: string
  cd_label :: string
  cd_apply :: proposal
  cd_reject :: json

definition rejected :: "string \<Rightarrow> json" where
  "rejected reason = JObj [(''accepted'', JBool False), (''reason'', JStr reason)]"

definition rejected_by_user :: json where
  "rejected_by_user = rejected ''Rejected by user''"

definition problem_card :: "string \<Rightarrow> json \<Rightarrow> card" where
  "problem_card title answer =
     \<lparr>cd_title = title, cd_label = ''Acknowledge'', cd_apply = Answer answer, cd_reject = rejected_by_user\<rparr>"

definition action_card :: "string \<Rightarrow> proposal \<Rightarrow> card" where
  "action_card title p =
     \<lparr>cd_title = title, cd_label = ''Apply'', cd_apply = p, cd_reject = rejected_by_user\<rparr>"

definition existing_nodes :: "graph \<Rightarrow> json" where
  "existing_nodes g = JArr (map (\<lambda>n. JObj ((''id'', JStr (j_id n)) #
     (case j_name n of None \<Rightarrow> [] | Some x \<Rightarrow> [(''name'', JStr x)]))) (g_nodes g))"

definition add_node_card :: "string + add_args \<Rightarrow> graph \<Rightarrow> card" where
  "add_node_card parsed g =
     (case parsed of
        Inl e \<Rightarrow> problem_card (''add_node'' @ dash @ ''invalid args'') (rejected e)
      | Inr a \<Rightarrow>
          (case find_by j_name (Some (aa_name a)) (g_nodes g) of
             Some n \<Rightarrow> (problem_card (''add_node'' @ dash @ ''duplicate name'')
               (JObj [(''accepted'', JBool False),
                      (''reason'', JStr (''Duplicate node name '' @ quoted (aa_name a) @ ''. Use update_node({ node_id: '' @
                         quoted (j_id n) @ '', patch: { ... } }) to modify the existing node.'')),
                      (''existing_node_id'', JStr (j_id n))]))
               \<lparr>cd_reject := rejected (''Duplicate node name '' @ quoted (aa_name a) @ ''; user rejected.'')\<rparr>
           | None \<Rightarrow> action_card ''add_node'' (Add_Node a)))"

definition update_node_card :: "string + update_args \<Rightarrow> graph \<Rightarrow> card" where
  "update_node_card parsed g =
     (case parsed of
        Inl e \<Rightarrow> problem_card (''update_node'' @ dash @ ''invalid args'') (rejected e)
      | Inr a \<Rightarrow>
          (if truthy (resolveNodeId g (ua_node_id a))
           then action_card ''update_node'' (Update_Node (the (resolveNodeId g (ua_node_id a))) (ua_patch a))
           else problem_card (''update_node'' @ dash @ ''node not found'')
             (JObj [(''accepted'', JBool False),
                    (''reason'', JStr (''update_node target '' @ quoted (ua_node_id a) @
                       '' matches no node. Pass either the id (from add_node's response) or the node's exact name.'')),
                    (''existing_nodes'', existing_nodes g)])))"

definition remove_node_card :: "string + string \<Rightarrow> graph \<Rightarrow> card" where
  "remove_node_card parsed g =
     (case parsed of
        Inl e \<Rightarrow> problem_card (''remove_node'' @ dash @ ''invalid args'') (rejected e)
      | Inr r \<Rightarrow>
          (if truthy (resolveNodeId g r)
           then action_card ''remove_node'' (Remove_Node (the (resolveNodeId g r)))
           else problem_card (''remove_node'' @ dash @ ''node not found'')
             (rejected (''remove_node target '' @ quoted r @ '' matches no node.''))))"

definition unresolved_reasons :: "edge_args \<Rightarrow> graph \<Rightarrow> string list" where
  "unresolved_reasons a g =
     (if truthy (resolveNodeId g (ea_source_id a)) then []
      else [''source '' @ quoted (ea_source_id a) @ '' matches no node id or name'']) @
     (if truthy (resolveNodeId g (ea_target_id a)) then []
      else [''target '' @ quoted (ea_target_id a) @ '' matches no node id or name''])"

definition add_edge_card :: "string + edge_args \<Rightarrow> graph \<Rightarrow> card" where
  "add_edge_card parsed g =
     (case parsed of
        Inl e \<Rightarrow> problem_card (''add_edge'' @ dash @ ''invalid args'') (rejected e)
      | Inr a \<Rightarrow>
          (if unresolved_reasons a g \<noteq> []
           then problem_card (''add_edge'' @ dash @ ''endpoint not found'')
             (JObj [(''accepted'', JBool False),
                    (''reason'', JStr (''Edge endpoints don't resolve. '' @ join ''; '' (unresolved_reasons a g) @
                       ''. Call add_edge with either real node ids (returned from add_node) or the exact node names (case-sensitive).'')),
                    (''existing_nodes'', existing_nodes g)])
           else action_card ''add_edge''
             (Add_Edge (the (resolveNodeId g (ea_source_id a))) (the (resolveNodeId g (ea_target_id a))) a)))"

definition remove_edge_card :: "string + string \<Rightarrow> card" where
  "remove_edge_card parsed =
     (case parsed of
        Inl e \<Rightarrow> problem_card (''remove_edge'' @ dash @ ''invalid args'') (rejected e)
      | Inr i \<Rightarrow> action_card ''remove_edge'' (Remove_Edge i))"

datatype tool_call =
  T_add_node "string + add_args"
| T_update_node "string + update_args"
| T_remove_node "string + string"
| T_add_edge "string + edge_args"
| T_remove_edge "string + string"

text \<open>\<open>render\<close> reads the graph through \<open>graphRef\<close> at the time the card is drawn.\<close>

fun render_tool :: "tool_call \<Rightarrow> graph \<Rightarrow> card" where
  "render_tool (T_add_node p) g = add_node_card p g"
| "render_tool (T_update_node p) g = update_node_card p g"
| "render_tool (T_remove_node p) g = remove_node_card p g"
| "render_tool (T_add_edge p) g = add_edge_card p g"
| "render_tool (T_remove_edge p) g = remove_edge_card p"

section \<open>Applying a proposal\<close>

definition add_node :: "string \<Rightarrow> add_args \<Rightarrow> graph \<Rightarrow> graph" where
  "add_node nid a g =
     g\<lparr>g_nodes := g_nodes g @
        [\<lparr>j_id = nid, j_name = Some (aa_name a), j_type = Some (aa_type a),
          j_content = (if aa_type a = ''inputNode'' \<or> aa_type a = ''outputNode'' then None
                       else Some (nullish (aa_content a) (JObj []))),
          j_position = Some (nullish (aa_position a) (autoPosition (g_nodes g) (aa_type a)))\<rparr>]\<rparr>"

definition patch_node :: "update_patch \<Rightarrow> jdm_node \<Rightarrow> jdm_node" where
  "patch_node p n =
     n\<lparr>j_name := (if np_name p \<noteq> None then np_name p else j_name n),
       j_content := (if np_content p \<noteq> None then np_content p else j_content n),
       j_position := (if np_position p \<noteq> None then np_position p else j_position n)\<rparr>"

definition update_node :: "string \<Rightarrow> update_patch \<Rightarrow> graph \<Rightarrow> graph" where
  "update_node nid p g = g\<lparr>g_nodes := update_by j_id nid (patch_node p) (g_nodes g)\<rparr>"

definition remove_node :: "string \<Rightarrow> graph \<Rightarrow> graph" where
  "remove_node nid g =
     g\<lparr>g_nodes := remove_by j_id nid (g_nodes g),
       g_edges := filter (\<lambda>e. je_source e \<noteq> nid \<and> je_target e \<noteq> nid) (g_edges g)\<rparr>"

definition add_edge :: "string \<Rightarrow> string \<Rightarrow> string \<Rightarrow> edge_args \<Rightarrow> graph \<Rightarrow> graph" where
  "add_edge eid src tgt a g =
     g\<lparr>g_edges := g_edges g @ [\<lparr>je_id = eid, je_source = src, je_target = tgt,
        je_sourceHandle = ea_source_handle a, je_targetHandle = ea_target_handle a\<rparr>]\<rparr>"

definition remove_edge :: "string \<Rightarrow> graph \<Rightarrow> graph" where
  "remove_edge eid g = g\<lparr>g_edges := remove_by je_id eid (g_edges g)\<rparr>"

definition accepted_with :: "json obj \<Rightarrow> json" where
  "accepted_with extra = JObj ((''accepted'', JBool True) # extra)"

fun apply_proposal :: "string \<Rightarrow> proposal \<Rightarrow> graph \<Rightarrow> graph \<times> json" where
  "apply_proposal i (Answer r) g = (g, r)"
| "apply_proposal i (Add_Node a) g = (add_node i a g, accepted_with [(''node_id'', JStr i)])"
| "apply_proposal i (Update_Node n p) g = (update_node n p g, accepted_with [])"
| "apply_proposal i (Remove_Node n) g = (remove_node n g, accepted_with [])"
| "apply_proposal i (Add_Edge s t a) g = (add_edge i s t a g, accepted_with [(''edge_id'', JStr i)])"
| "apply_proposal i (Remove_Edge e) g = (remove_edge e g, accepted_with [])"

fun mutates :: "proposal \<Rightarrow> bool" where
  "mutates (Answer r) = False"
| "mutates _ = True"


section \<open>Well-formed graphs\<close>

abbreviation node_ids :: "graph \<Rightarrow> string list" where
  "node_ids g \<equiv> map j_id (g_nodes g)"

definition node_names :: "graph \<Rightarrow> string list" where
  "node_names g = somes j_name (g_nodes g)"

text \<open>Ids are distinct and not empty, names are distinct, and every edge ends at nodes of the graph.\<close>

definition edges_attached :: "graph \<Rightarrow> bool" where
  "edges_attached g = (\<forall>e \<in> set (g_edges g). je_source e \<in> set (node_ids g) \<and> je_target e \<in> set (node_ids g))"

definition graph_inv :: "graph \<Rightarrow> bool" where
  "graph_inv g = (distinct (node_ids g) \<and> [] \<notin> set (node_ids g) \<and> distinct (node_names g) \<and>
     distinct (map je_id (g_edges g)) \<and> edges_attached g)"

text \<open>One tool call whose card is applied to the graph it was drawn from.\<close>

definition fresh_step :: "graph \<Rightarrow> string \<times> tool_call \<Rightarrow> graph" where
  "fresh_step g c = fst (apply_proposal (fst c) (cd_apply (render_tool (snd c) g)) g)"

text \<open>The id \<open>crypto.randomUUID\<close> draws is new, and an update does not give a node the name of
  another one.\<close>

fun renames_to :: "proposal \<Rightarrow> (string \<times> string) option" where
  "renames_to (Update_Node n p) = (case np_name p of None \<Rightarrow> None | Some x \<Rightarrow> Some (n, x))"
| "renames_to _ = None"

definition name_free :: "graph \<Rightarrow> string \<times> string \<Rightarrow> bool" where
  "name_free g r = (\<forall>n \<in> set (g_nodes g). j_name n = Some (snd r) \<longrightarrow> j_id n = fst r)"

definition fresh_ok :: "graph \<Rightarrow> string \<times> tool_call \<Rightarrow> bool" where
  "fresh_ok g c =
     (fst c \<noteq> [] \<and> fst c \<notin> set (node_ids g) \<and> fst c \<notin> je_id ` set (g_edges g) \<and>
      (case renames_to (cd_apply (render_tool (snd c) g)) of None \<Rightarrow> True | Some r \<Rightarrow> name_free g r))"

interpretation jdm_patch: keyed j_id patch_node
  by unfold_locales (simp add: patch_node_def)

lemma set_node_names: "set (node_names g) = {x. \<exists>n \<in> set (g_nodes g). j_name n = Some x}"
  by (auto simp: node_names_def set_somes)

lemma find_name_None: "find_by j_name (Some x) (g_nodes g) = None \<longleftrightarrow> x \<notin> set (node_names g)"
  by (auto simp: find_by_None_iff set_node_names image_iff)

lemma resolve_in: "resolveNodeId g r = Some i \<Longrightarrow> i \<in> set (node_ids g)"
  by (auto simp: resolveNodeId_def find_ref_def dest!: find_by_SomeD split: option.splits)

lemma inv_add_node:
  assumes "graph_inv g" and "aa_name a \<notin> set (node_names g)" and "i \<noteq> []" and "i \<notin> set (node_ids g)"
  shows "graph_inv (add_node i a g)"
proof -
  have "set (node_ids g) \<subseteq> set (node_ids (add_node i a g))"
    by (auto simp: add_node_def)
  then have "edges_attached (add_node i a g)"
    using assms(1) by (auto simp: graph_inv_def edges_attached_def add_node_def)
  moreover have "node_names (add_node i a g) = node_names g @ [aa_name a]"
    by (simp add: add_node_def node_names_def )
  ultimately show ?thesis
    using assms by (auto simp: graph_inv_def add_node_def)
qed

lemma inv_remove_node:
  assumes "graph_inv g"
  shows "graph_inv (remove_node i g)"
proof -
  have "edges_attached (remove_node i g)"
    using assms by (auto simp: graph_inv_def edges_attached_def remove_node_def set_remove_by image_iff)
  moreover have "distinct (node_names (remove_node i g))"
    using assms by (simp add: graph_inv_def remove_node_def node_names_def remove_by_def distinct_somes_filter)
  ultimately show ?thesis
    using assms by (auto simp: graph_inv_def remove_node_def set_remove_by distinct_remove_by distinct_map_filter)
qed

lemma inv_add_edge:
  assumes "graph_inv g" and "s \<in> set (node_ids g)" and "t \<in> set (node_ids g)" and "i \<notin> je_id ` set (g_edges g)"
  shows "graph_inv (add_edge i s t a g)"
  using assms by (auto simp: graph_inv_def add_edge_def edges_attached_def node_names_def)

lemma inv_remove_edge: "graph_inv g \<Longrightarrow> graph_inv (remove_edge i g)"
  by (auto simp: graph_inv_def remove_edge_def edges_attached_def node_names_def set_remove_by distinct_remove_by)

text \<open>Renaming one node to a name no other node has.\<close>

lemma distinct_names_rename:
  assumes "distinct (somes j_name xs)" and "distinct (map j_id xs)"
    and "\<forall>n \<in> set xs. j_name n = Some x \<longrightarrow> j_id n = i" and "np_name p = Some x"
  shows "distinct (somes j_name (update_by j_id i (patch_node p) xs))"
  using assms
proof (induction xs)
  case Nil
  then show ?case by simp
next
  case (Cons n xs)
  have name_patched: "j_name (patch_node p m) = Some x" for m
    using Cons.prems(4) by (simp add: patch_node_def)
  have names: "y \<in> set (somes j_name (update_by j_id i (patch_node p) xs)) \<Longrightarrow>
      y \<in> set (somes j_name xs) \<or> (y = x \<and> i \<in> j_id ` set xs)" for y
    by (auto simp: set_somes update_by_def name_patched split: if_splits)
  show ?case
  proof (cases "j_id n = i")
    case True
    then have "update_by j_id i (patch_node p) xs = xs"
      using Cons.prems(2) by (intro update_by_absent) auto
    moreover have "x \<notin> set (somes j_name xs)"
    proof
      assume "x \<in> set (somes j_name xs)"
      then obtain m where m: "m \<in> set xs" "j_name m = Some x" by (auto simp: set_somes)
      with Cons.prems(3) have "j_id m = j_id n" using True by simp
      with m(1) Cons.prems(2) show False by (metis distinct.simps(2) image_eqI list.set_map list.simps(9))
    qed
    ultimately show ?thesis
      using Cons.prems True by (auto simp: name_patched split: option.splits)
  next
    case False
    then have "j_name n \<noteq> Some x" using Cons.prems(3) by auto
    then show ?thesis
      using Cons False names by (auto split: option.splits)
  qed
qed

lemma inv_update_node:
  assumes I: "graph_inv g" and free: "case np_name p of None \<Rightarrow> True | Some x \<Rightarrow> name_free g (i, x)"
  shows "graph_inv (update_node i p g)"
proof -
  have ids: "node_ids (update_node i p g) = node_ids g"
    by (simp add: update_node_def)
  have "distinct (node_names (update_node i p g))"
  proof (cases "np_name p")
    case None
    then have "j_name (patch_node p n) = j_name n" for n
      by (simp add: patch_node_def)
    then have "somes j_name (update_by j_id i (patch_node p) xs) = somes j_name xs" for xs
      unfolding update_by_def by (intro somes_cong) simp
    then show ?thesis using I by (simp add: graph_inv_def node_names_def update_node_def)
  next
    case (Some x)
    then show ?thesis
      using I free distinct_names_rename [of "g_nodes g" x i p]
      by (simp add: graph_inv_def node_names_def update_node_def name_free_def)
  qed
  moreover have "edges_attached (update_node i p g)"
    using I ids by (simp add: graph_inv_def edges_attached_def) (simp add: update_node_def)
  ultimately show ?thesis
    using I ids by (simp add: graph_inv_def) (simp add: update_node_def)
qed

section \<open>What a card proposes\<close>

text \<open>The proposals that fit the graph \<open>g\<close>: every card drawn from \<open>g\<close> makes one of them.\<close>

inductive proposes :: "graph \<Rightarrow> proposal \<Rightarrow> bool" for g where
  answer: "proposes g (Answer r)"
| add_node: "aa_name a \<notin> set (node_names g) \<Longrightarrow> proposes g (Add_Node a)"
| update_node: "i \<in> set (node_ids g) \<Longrightarrow> proposes g (Update_Node i p)"
| remove_node: "i \<in> set (node_ids g) \<Longrightarrow> proposes g (Remove_Node i)"
| add_edge: "s \<in> set (node_ids g) \<Longrightarrow> t \<in> set (node_ids g) \<Longrightarrow> proposes g (Add_Edge s t a)"
| remove_edge: "proposes g (Remove_Edge e)"

inductive_simps proposes_simps:
  "proposes g (Add_Node a)" "proposes g (Update_Node i p)" "proposes g (Remove_Node i)" "proposes g (Add_Edge s t a)"

lemma proposes_problem [simp]: "proposes g (cd_apply (problem_card t r))"
  by (simp add: problem_card_def proposes.answer)

lemma proposes_problem_reject [simp]: "proposes g (cd_apply (problem_card t r\<lparr>cd_reject := x\<rparr>))"
  by (simp add: problem_card_def proposes.answer)

lemma proposes_action [simp]: "proposes g (cd_apply (action_card t p)) = proposes g p"
  by (simp add: action_card_def)

lemma resolved_in: "truthy (resolveNodeId g r) \<Longrightarrow> the (resolveNodeId g r) \<in> j_id ` set (g_nodes g)"
  by (cases "resolveNodeId g r") (auto dest: resolve_in)

lemma unresolved_reasons_Nil:
  "unresolved_reasons a g = [] \<longleftrightarrow>
     truthy (resolveNodeId g (ea_source_id a)) \<and> truthy (resolveNodeId g (ea_target_id a))"
  by (simp add: unresolved_reasons_def)

lemma render_proposes: "proposes g (cd_apply (render_tool c g))"
proof (cases c)
  case (T_add_node p)
  then show ?thesis
    by (cases p) (simp_all add: add_node_card_def proposes_simps find_name_None split: option.split)
next
  case (T_update_node p)
  then show ?thesis
    by (cases p) (simp_all add: update_node_card_def proposes_simps resolved_in)
next
  case (T_remove_node p)
  then show ?thesis
    by (cases p) (simp_all add: remove_node_card_def proposes_simps resolved_in)
next
  case (T_add_edge p)
  then show ?thesis
    by (cases p) (simp_all add: add_edge_card_def proposes_simps resolved_in unresolved_reasons_Nil)
next
  case (T_remove_edge p)
  then show ?thesis
    by (cases p) (simp_all add: remove_edge_card_def proposes.remove_edge)
qed

text \<open>A proposal that fits the graph keeps it well formed when the id is new and a new name is free.\<close>

lemma apply_inv:
  assumes "proposes g p" and "graph_inv g" and "i \<noteq> []" and "i \<notin> set (node_ids g)" and "i \<notin> je_id ` set (g_edges g)"
    and "case renames_to p of None \<Rightarrow> True | Some r \<Rightarrow> name_free g r"
  shows "graph_inv (fst (apply_proposal i p g))"
  using assms
  by (induction rule: proposes.induct)
    (auto intro!: inv_add_node inv_remove_node inv_add_edge inv_remove_edge inv_update_node split: option.splits)

interpretation agent: guarded_machine fresh_step fresh_ok graph_inv
proof
  fix g :: graph and c :: "string \<times> tool_call"
  assume "graph_inv g" and "fresh_ok g c"
  then show "graph_inv (fresh_step g c)"
    using apply_inv [OF render_proposes [of g "snd c"]] by (simp add: fresh_ok_def fresh_step_def)
qed


section \<open>Placement\<close>

definition middle_nodes :: "graph \<Rightarrow> jdm_node list" where
  "middle_nodes g = filter (\<lambda>n. j_type n \<noteq> Some ''inputNode'' \<and> j_type n \<noteq> Some ''outputNode'') (g_nodes g)"

definition place :: "nat \<Rightarrow> rat \<times> rat" where
  "place k = (380 + 280 * of_nat k, 160)"

text \<open>The middle nodes stand in the slots in the order they were added.\<close>

definition cascade :: "graph \<Rightarrow> bool" where
  "cascade g = (map j_position (middle_nodes g) = map (\<lambda>k. Some (place k)) [0..<length (middle_nodes g)])"

definition add_placed :: "graph \<Rightarrow> string \<times> string \<times> string \<Rightarrow> graph" where
  "add_placed g c = (case c of (i, type, name) \<Rightarrow>
     add_node i \<lparr>aa_type = type, aa_name = name, aa_content = None, aa_position = None\<rparr> g)"

lemma place_inj: "place j = place k \<longleftrightarrow> j = k"
  by (simp add: place_def)

lemma cascade_distinct: "cascade g \<Longrightarrow> distinct (map j_position (middle_nodes g))"
  by (simp add: cascade_def distinct_map inj_on_def place_inj)

lemma autoPosition_middle:
  assumes "t \<noteq> ''inputNode''" and "t \<noteq> ''outputNode''"
  shows "autoPosition (g_nodes g) t = place (length (middle_nodes g))"
  using assms by (simp add: autoPosition_def middle_nodes_def place_def X_INPUT_def HORIZONTAL_GAP_def Y_CENTER_def)

lemma middle_nodes_add:
  "middle_nodes (add_placed g (i, t, x)) = middle_nodes g @
     (if t = ''inputNode'' \<or> t = ''outputNode'' then []
      else [\<lparr>j_id = i, j_name = Some x, j_type = Some t, j_content = Some (JObj []),
             j_position = Some (autoPosition (g_nodes g) t)\<rparr>])"
  by (simp add: middle_nodes_def add_placed_def add_node_def)

lemma cascade_add: "cascade g \<Longrightarrow> cascade (add_placed g c)"
  by (cases c) (auto simp: cascade_def middle_nodes_add autoPosition_middle)

interpretation placing: machine add_placed cascade
  by unfold_locales (rule cascade_add)

lemma foldl_max_ge: "m \<le> foldl (\<lambda>m n. max m (f n)) m xs"
  for m :: "'b::linorder"
proof (induction xs arbitrary: m)
  case (Cons x xs)
  then show ?case by (metis foldl_Cons max.bounded_iff)
qed simp

lemma foldl_max_member: "x \<in> set xs \<Longrightarrow> f x \<le> foldl (\<lambda>m n. max m (f n)) m xs"
  for m :: "'b::linorder"
proof (induction xs arbitrary: m)
  case (Cons y xs)
  have "f y \<le> foldl (\<lambda>m n. max m (f n)) (max m (f y)) xs"
    using foldl_max_ge [of "max m (f y)" f xs] by simp
  with Cons show ?case by auto
qed simp

text \<open>Nodes the agent adds without a position never cover each other as long as no middle node was
  moved or removed: however many are added, the k-th middle node stands at x = 380 + 280 k, y = 160.\<close>

theorem auto_placed_nodes_never_overlap:
  "cascade g \<Longrightarrow> cascade (run add_placed g cs) \<and> distinct (map j_position (middle_nodes (run add_placed g cs)))"
  by (simp add: placing.run_inv cascade_distinct)

text \<open>An output node placed automatically stands at least one gap to the right of the first column
  and of every node that is not an output, at the height of all placed nodes; every automatic position
  has x at least 100.\<close>

theorem auto_position_bounds:
  "100 \<le> fst (autoPosition ns t) \<and> snd (autoPosition ns t) = 160 \<and>
   (t = ''outputNode'' \<longrightarrow> 380 \<le> fst (autoPosition ns t) \<and>
     (\<forall>n \<in> set ns. j_type n \<noteq> Some ''outputNode'' \<longrightarrow>
        (case j_position n of None \<Rightarrow> 0 | Some p \<Rightarrow> fst p) + 280 \<le> fst (autoPosition ns t)))"
proof -
  let ?f = "\<lambda>n. case j_position n of None \<Rightarrow> 0 | Some (x, y) \<Rightarrow> x"
  let ?xs = "filter (\<lambda>n. j_type n \<noteq> Some ''outputNode'') ns"
  have "100 \<le> foldl (\<lambda>m n. max m (?f n)) 100 ?xs"
    by (rule foldl_max_ge)
  moreover have "n \<in> set ns \<Longrightarrow> j_type n \<noteq> Some ''outputNode'' \<Longrightarrow>
      (case j_position n of None \<Rightarrow> 0 | Some p \<Rightarrow> fst p) \<le> foldl (\<lambda>m n. max m (?f n)) 100 ?xs" for n
    using foldl_max_member [of n ?xs ?f 100] by (auto split: option.splits)
  ultimately show ?thesis
    by (auto simp: autoPosition_def X_INPUT_def HORIZONTAL_GAP_def Y_CENTER_def)
qed


section \<open>Cards that outlive the graph they were drawn from\<close>

text \<open>An \<open>add_edge\<close> card that stays on screen while the user deletes its target still adds the edge.\<close>

lemma stale_edge_card_dangles:
  assumes "cd_apply (render_tool c g) = Add_Edge s t a"
  shows "edges_attached (fst (apply_proposal i (cd_apply (render_tool c g)) g)) = edges_attached g"
    and "\<not> edges_attached (fst (apply_proposal i (cd_apply (render_tool c g)) (remove_node t g)))"
proof -
  have "s \<in> set (node_ids g)" "t \<in> set (node_ids g)"
    using render_proposes [of g c] assms by (simp_all add: proposes_simps)
  then show "edges_attached (fst (apply_proposal i (cd_apply (render_tool c g)) g)) = edges_attached g"
    using assms by (auto simp: edges_attached_def add_edge_def)
  show "\<not> edges_attached (fst (apply_proposal i (cd_apply (render_tool c g)) (remove_node t g)))"
    using assms by (auto simp: edges_attached_def add_edge_def remove_node_def set_remove_by image_iff)
qed

text \<open>The duplicate names \<open>add_node\<close> refuses can be made with \<open>update_node\<close>.\<close>

lemma update_card_ignores_names:
  assumes "n \<in> set (g_nodes g)" and "j_id n \<noteq> []" and "np_name p = Some x"
  shows "cd_apply (render_tool (T_update_node (Inr \<lparr>ua_node_id = j_id n, ua_patch = p\<rparr>)) g) = Update_Node (j_id n) p"
proof -
  have "find_by j_id (j_id n) (g_nodes g) \<noteq> None"
    using assms(1) by (auto simp: find_by_None_iff)
  then obtain m where "find_by j_id (j_id n) (g_nodes g) = Some m" and "j_id m = j_id n"
    using find_by_SomeD by fastforce
  then have "resolveNodeId g (j_id n) = Some (j_id n)"
    by (simp add: resolveNodeId_def find_ref_def)
  then show ?thesis
    using assms by (simp add: update_node_card_def action_card_def)
qed

section \<open>The tools on a concrete graph\<close>

definition a_graph :: graph where
  "a_graph = \<lparr>g_nodes = [\<lparr>j_id = ''1'', j_name = Some ''Request'', j_type = Some ''inputNode'', j_content = None,
     j_position = Some (100, 160)\<rparr>], g_edges = []\<rparr>"

definition add_call :: "string \<Rightarrow> string \<Rightarrow> tool_call" where
  "add_call type name = T_add_node (Inr \<lparr>aa_type = type, aa_name = name, aa_content = None, aa_position = None\<rparr>)"

definition edge_call :: "string \<Rightarrow> string \<Rightarrow> tool_call" where
  "edge_call s t = T_add_edge (Inr \<lparr>ea_source_id = s, ea_target_id = t, ea_source_handle = None, ea_target_handle = None\<rparr>)"

definition a_turn :: "(string \<times> tool_call) list" where
  "a_turn = [(''2'', add_call ''decisionTableNode'' ''Limits''), (''3'', add_call ''outputNode'' ''Response''),
     (''4'', edge_call ''Request'' ''Limits''), (''5'', edge_call ''2'' ''Response''),
     (''6'', add_call ''switchNode'' ''Limits''),
     (''7'', T_update_node (Inr \<lparr>ua_node_id = ''Limits'', ua_patch = \<lparr>np_name = Some ''Caps'', np_content = None,
        np_position = None\<rparr>\<rparr>)),
     (''8'', T_remove_node (Inr ''Response''))]"

text \<open>A removed middle node frees a place that the count does not know about.\<close>

lemma slot_taken_after_removal:
  "j_position (last (middle_nodes (add_placed (remove_node ''a'' (run add_placed \<lparr>g_nodes = [], g_edges = []\<rparr>
       [(''a'', ''switchNode'', ''A''), (''b'', ''switchNode'', ''B'')])) (''c'', ''switchNode'', ''C'')))) = Some (660, 160) \<and>
   j_position (hd (middle_nodes (remove_node ''a'' (run add_placed \<lparr>g_nodes = [], g_edges = []\<rparr>
       [(''a'', ''switchNode'', ''A''), (''b'', ''switchNode'', ''B'')])))) = Some (660, 160)"
  by code_simp


lemma a_turn_admissible: "admissible fresh_step fresh_ok a_graph a_turn"
  by code_simp


theorem auto_placed_nodes_never_overlap_witness:
  "cascade (run add_placed a_graph [(''2'', ''switchNode'', ''A''), (''3'', ''outputNode'', ''B'')]) \<and>
   distinct (map j_position (middle_nodes (run add_placed a_graph [(''2'', ''switchNode'', ''A''), (''3'', ''outputNode'', ''B'')])))"
proof (rule auto_placed_nodes_never_overlap)
  show "cascade a_graph" by code_simp
qed

theorem auto_position_bounds_witness:
  "380 \<le> fst (autoPosition (g_nodes a_graph) ''outputNode'')"
  using auto_position_bounds [of "g_nodes a_graph" "''outputNode''"] by simp

end
