(* ===== verification/Rule_Session.thy ===== *)
theory Rule_Session
  imports Rule_Graph "HOL-Library.Multiset"
begin

text \<open>
  The rule editor page (\<open>example-apps/atomic-fi-jdm-editor/src/pages/decision-simple.tsx\<close>), the
  persistence tools of the copilot (\<open>copilot/actions/use-persist-actions.tsx\<close>) and the rule files
  they read and write (\<open>helpers/rules-api.ts\<close>).

  A handler that awaits the server is split at its awaits: what is awaited is an \<open>op\<close> of the session,
  and \<open>Reply k r\<close> answers the k-th one. A reply says whether the request succeeded and, when it did
  not, whether the server had carried it out all the same (a lost answer). The rule files are a map from
  rule type and name to graphs, and \<open>JSON.stringify(graph)\<close> is represented by the graph. The cycle test
  of the graph library is the argument \<open>cyclic\<close> over the edges that have both ends.
\<close>

section \<open>Rule files\<close>

definition RULE_TYPES :: "string list" where
  "RULE_TYPES = [''onboarding'', ''transaction-screening'']"

definition RULE_TYPE_LABELS :: "string \<Rightarrow> string" where
  "RULE_TYPE_LABELS t = (if t = ''onboarding'' then ''Onboarding'' else ''Transaction screening'')"

definition isRuleType :: "string option \<Rightarrow> bool" where
  "isRuleType s = (s \<noteq> None \<and> the s \<in> set RULE_TYPES)"

definition route_ruleType :: "string option \<Rightarrow> string" where
  "route_ruleType p = (if isRuleType p then the p else ''onboarding'')"

type_synonym files = "string \<times> string \<Rightarrow> graph option"

definition saveRule :: "string \<Rightarrow> string \<Rightarrow> graph \<Rightarrow> files \<Rightarrow> files" where
  "saveRule t n g fs = fs((t, n) \<mapsto> g)"

definition deleteRule :: "string \<Rightarrow> string \<Rightarrow> files \<Rightarrow> files" where
  "deleteRule t n fs = fs((t, n) := None)"

definition emptyGraph :: graph where
  "emptyGraph = \<lparr>g_nodes = [], g_edges = []\<rparr>"

definition checkCyclic :: "((string \<times> string) list \<Rightarrow> bool) \<Rightarrow> graph \<Rightarrow> bool" where
  "checkCyclic cyclic g =
     cyclic (map (\<lambda>e. (je_source e, je_target e))
               (filter (\<lambda>e. je_source e \<noteq> [] \<and> je_target e \<noteq> []) (g_edges g)))"

text \<open>The persistence tools have a copy of the test of their own.\<close>

definition isCyclic :: "((string \<times> string) list \<Rightarrow> bool) \<Rightarrow> jdm_edge list option \<Rightarrow> bool" where
  "isCyclic cyclic edges =
     cyclic (map (\<lambda>e. (je_source e, je_target e))
               (filter (\<lambda>e. je_source e \<noteq> [] \<and> je_target e \<noteq> []) (nullish edges [])))"

lemma isCyclic_is_checkCyclic: "isCyclic cyclic (Some (g_edges g)) = checkCyclic cyclic g"
  by (simp add: isCyclic_def checkCyclic_def)

section \<open>The state of the page\<close>

text \<open>What a handler waits for. A tool's handler carries the id of its tool call.\<close>

datatype op =
  Manual_save string string graph nat
| Agent_save string string string graph
| Rename_save string string string string graph
| Rename_delete string string string string
| Rename_refresh string string string
| Delete_file string string string
| Delete_refresh string
| Mount_refresh

type_synonym listing = "string list \<times> string list"

record session =
  s_ruleType :: string
  s_name :: string
  s_isNew :: bool
  s_graph :: graph
  s_revision :: nat
  s_savedRevision :: nat
  s_persisted :: graph
  s_loading :: bool
  s_loadError :: "string option"
  s_load :: nat
  s_saving :: bool
  s_existing :: "listing option"
  s_ops :: "op list"
  s_files :: files
  s_answers :: "(string \<times> json) list"
  s_messages :: "string list"

definition dirty :: "session \<Rightarrow> bool" where
  "dirty s = (s_revision s \<noteq> s_savedRevision s)"

definition say :: "string \<Rightarrow> session \<Rightarrow> session" where
  "say m s = s\<lparr>s_messages := s_messages s @ [m]\<rparr>"

definition await :: "op \<Rightarrow> session \<Rightarrow> session" where
  "await p s = s\<lparr>s_ops := s_ops s @ [p]\<rparr>"

definition respond :: "string \<Rightarrow> json \<Rightarrow> session \<Rightarrow> session" where
  "respond c r s = s\<lparr>s_answers := s_answers s @ [(c, r)]\<rparr>"

text \<open>The effect that loads the rule of the route. Its cleanup cancels the load before it.\<close>

definition load_effect :: "session \<Rightarrow> session" where
  "load_effect s =
     (if s_isNew s \<or> s_name s = [] then s\<lparr>s_load := s_load s + 1, s_loading := False\<rparr>
      else s\<lparr>s_load := s_load s + 1, s_loading := True, s_loadError := None\<rparr>)"

definition load_done :: "nat \<Rightarrow> string option \<Rightarrow> session \<Rightarrow> session" where
  "load_done k err s =
     (if k \<noteq> s_load s \<or> \<not> s_loading s then s
      else case (err, s_files s (s_ruleType s, s_name s)) of
        (None, Some g) \<Rightarrow> s\<lparr>s_graph := g, s_persisted := g, s_revision := 0, s_savedRevision := 0, s_loading := False\<rparr>
      | (Some e, _) \<Rightarrow> s\<lparr>s_loadError := Some e, s_loading := False\<rparr>
      | (None, None) \<Rightarrow> s\<lparr>s_loadError := Some ''Request failed with status code 422'', s_loading := False\<rparr>)"

text \<open>A navigation to another rule keeps the mounted page and its state; only the route changes. The
  blocker asks first when there are unsaved changes.\<close>

definition navigate :: "string \<Rightarrow> string \<Rightarrow> bool \<Rightarrow> bool \<Rightarrow> session \<Rightarrow> session" where
  "navigate t n new proceed s =
     (if dirty s \<and> \<not> proceed then s
      else if (t, n, new) = (s_ruleType s, s_name s, s_isNew s) then s
      else load_effect (s\<lparr>s_ruleType := t, s_name := n, s_isNew := new\<rparr>))"

section \<open>Edits\<close>

definition handleChange :: "graph \<Rightarrow> session \<Rightarrow> session" where
  "handleChange v s =
     (let s' = s\<lparr>s_graph := v\<rparr> in
      if v \<noteq> s_persisted s then s'\<lparr>s_revision := s_revision s + 1\<rparr> else s')"

definition markAgentMutation :: "session \<Rightarrow> session" where
  "markAgentMutation s = s\<lparr>s_revision := s_revision s + 1\<rparr>"

definition apply_graph_card :: "string \<Rightarrow> string \<Rightarrow> proposal \<Rightarrow> session \<Rightarrow> session" where
  "apply_graph_card c i p s =
     (case apply_proposal i p (s_graph s) of (g, r) \<Rightarrow>
        respond c r ((if mutates p then markAgentMutation else id) (s\<lparr>s_graph := g\<rparr>)))"

section \<open>Saving by hand\<close>

definition save_enabled :: "session \<Rightarrow> bool" where
  "save_enabled s = (\<not> s_saving s \<and> \<not> (s_name s = [] \<or> (\<not> dirty s \<and> \<not> s_isNew s)))"

definition handleSaveRule :: "((string \<times> string) list \<Rightarrow> bool) \<Rightarrow> session \<Rightarrow> session" where
  "handleSaveRule cyclic s =
     (if s_name s = [] then say ''Missing rule name.'' s
      else if checkCyclic cyclic (s_graph s) then say ''Circular dependencies detected'' s
      else await (Manual_save (s_ruleType s) (s_name s) (s_graph s) (s_revision s)) (s\<lparr>s_saving := True\<rparr>))"

datatype outcome = Done | Failed string bool

fun carried_out :: "outcome \<Rightarrow> bool" where
  "carried_out Done = True"
| "carried_out (Failed e b) = b"

definition request :: "outcome \<Rightarrow> (files \<Rightarrow> files) \<Rightarrow> session \<Rightarrow> session" where
  "request out eff s = (if carried_out out then s\<lparr>s_files := eff (s_files s)\<rparr> else s)"

definition saved_by_hand :: "string \<Rightarrow> string \<Rightarrow> graph \<Rightarrow> nat \<Rightarrow> outcome \<Rightarrow> session \<Rightarrow> session" where
  "saved_by_hand t n g r out s =
     (let s' = request out (saveRule t n g) s in
      (case out of
         Done \<Rightarrow> say (''Saved '' @ n) (s'\<lparr>s_savedRevision := r, s_persisted := g\<rparr>)
       | Failed e b \<Rightarrow> say e s')\<lparr>s_saving := False\<rparr>)"

section \<open>Saving, renaming and deleting by the copilot\<close>

definition accept :: json where "accept = JObj [(''accepted'', JBool True)]"

text \<open>\<open>onSaved\<close> marks what the page shows when the save returns.\<close>

definition onSaved :: "session \<Rightarrow> session" where
  "onSaved s = s\<lparr>s_savedRevision := s_revision s, s_persisted := s_graph s\<rparr>"

definition apply_save :: "((string \<times> string) list \<Rightarrow> bool) \<Rightarrow> string \<Rightarrow> session \<Rightarrow> session" where
  "apply_save cyclic c s =
     (if checkCyclic cyclic (s_graph s) then respond c (rejected ''Graph has a cycle; refuse to save.'') s
      else await (Agent_save c (s_ruleType s) (s_name s) (s_graph s)) s)"

definition agent_saved :: "string \<Rightarrow> string \<Rightarrow> string \<Rightarrow> graph \<Rightarrow> outcome \<Rightarrow> session \<Rightarrow> session" where
  "agent_saved c t n g out s =
     (let s' = request out (saveRule t n g) s in
      case out of Done \<Rightarrow> respond c accept (onSaved s') | Failed e b \<Rightarrow> respond c (rejected e) s')"

definition apply_rename :: "((string \<times> string) list \<Rightarrow> bool) \<Rightarrow> string \<Rightarrow> string \<Rightarrow> session \<Rightarrow> session" where
  "apply_rename cyclic c new s =
     (if new = s_name s then respond c (rejected ''New filename equals the current one.'') s
      else if checkCyclic cyclic (s_graph s) then respond c (rejected ''Graph has a cycle; refuse to rename.'') s
      else if s_name s = [] then
        respond c (rejected (''No current filename'' @ dash @ ''use save_rule instead.'')) s
      else await (Rename_save c (s_ruleType s) (s_name s) new (s_graph s)) s)"

definition rename_saved :: "string \<Rightarrow> string \<Rightarrow> string \<Rightarrow> string \<Rightarrow> graph \<Rightarrow> outcome \<Rightarrow> session \<Rightarrow> session" where
  "rename_saved c t old new g out s =
     (let s' = request out (saveRule t new g) s in
      case out of Done \<Rightarrow> await (Rename_delete c t old new) s' | Failed e b \<Rightarrow> respond c (rejected e) s')"

definition rename_deleted :: "string \<Rightarrow> string \<Rightarrow> string \<Rightarrow> string \<Rightarrow> outcome \<Rightarrow> session \<Rightarrow> session" where
  "rename_deleted c t old new out s =
     (let s' = request out (deleteRule t old) s in
      case out of
        Done \<Rightarrow> await (Rename_refresh c t new) (onSaved s')
      | Failed e b \<Rightarrow>
          respond c (rejected (''Saved under '' @ new @ '' but failed to delete '' @ old @ '': '' @ e)) s')"

definition refreshExistingRules :: "outcome \<Rightarrow> listing \<Rightarrow> session \<Rightarrow> session" where
  "refreshExistingRules out l s = (case out of Done \<Rightarrow> s\<lparr>s_existing := Some l\<rparr> | Failed e b \<Rightarrow> s)"

definition rename_refreshed :: "string \<Rightarrow> string \<Rightarrow> string \<Rightarrow> outcome \<Rightarrow> listing \<Rightarrow> bool \<Rightarrow> session \<Rightarrow> session" where
  "rename_refreshed c t new out l proceed s =
     (case out of
        Done \<Rightarrow> respond c accept (navigate t new False proceed (refreshExistingRules out l s))
      | Failed e b \<Rightarrow> respond c (rejected e) s)"

definition apply_delete :: "string \<Rightarrow> string \<Rightarrow> string \<Rightarrow> session \<Rightarrow> session" where
  "apply_delete c t n s = await (Delete_file c t n) s"

definition file_deleted :: "string \<Rightarrow> string \<Rightarrow> string \<Rightarrow> outcome \<Rightarrow> session \<Rightarrow> session" where
  "file_deleted c t n out s =
     (let s' = request out (deleteRule t n) s in
      case out of Done \<Rightarrow> await (Delete_refresh c) s' | Failed e b \<Rightarrow> respond c (rejected e) s')"

definition delete_refreshed :: "string \<Rightarrow> outcome \<Rightarrow> listing \<Rightarrow> session \<Rightarrow> session" where
  "delete_refreshed c out l s =
     (case out of Done \<Rightarrow> respond c accept (refreshExistingRules out l s) | Failed e b \<Rightarrow> respond c (rejected e) s)"

definition apply_create :: "string \<Rightarrow> string \<Rightarrow> string \<Rightarrow> bool \<Rightarrow> session \<Rightarrow> session" where
  "apply_create c t n proceed s = respond c accept (navigate t n True proceed s)"

definition apply_open :: "string \<Rightarrow> string \<Rightarrow> string \<Rightarrow> bool \<Rightarrow> session \<Rightarrow> session" where
  "apply_open c t n proceed s = respond c accept (navigate t n False proceed s)"


section \<open>The page as a machine\<close>

record reply =
  rp_outcome :: outcome
  rp_listing :: listing
  rp_proceed :: bool

fun reply_to :: "op \<Rightarrow> reply \<Rightarrow> session \<Rightarrow> session" where
  "reply_to (Manual_save t n g r) rp = saved_by_hand t n g r (rp_outcome rp)"
| "reply_to (Agent_save c t n g) rp = agent_saved c t n g (rp_outcome rp)"
| "reply_to (Rename_save c t old new g) rp = rename_saved c t old new g (rp_outcome rp)"
| "reply_to (Rename_delete c t old new) rp = rename_deleted c t old new (rp_outcome rp)"
| "reply_to (Rename_refresh c t new) rp = rename_refreshed c t new (rp_outcome rp) (rp_listing rp) (rp_proceed rp)"
| "reply_to (Delete_file c t n) rp = file_deleted c t n (rp_outcome rp)"
| "reply_to (Delete_refresh c) rp = delete_refreshed c (rp_outcome rp) (rp_listing rp)"
| "reply_to Mount_refresh rp = refreshExistingRules (rp_outcome rp) (rp_listing rp)"

definition take_op :: "nat \<Rightarrow> session \<Rightarrow> session" where
  "take_op k s = s\<lparr>s_ops := take k (s_ops s) @ drop (Suc k) (s_ops s)\<rparr>"

text \<open>What the user, the cards, the router and the server do. \<open>Apply_graph c i p\<close> applies a card of the
  graph tools for the tool call \<open>c\<close>; the flags are the user's answer to the blocker.\<close>

datatype session_event =
  Canvas graph
| Apply_graph string string proposal
| Click_save
| Apply_save string
| Apply_rename string string
| Apply_delete string string string
| Apply_create string string string bool
| Apply_open string string string bool
| Reject_card string json
| Visit string string bool bool
| Loaded nat "string option"
| Reply nat reply

fun session_step :: "((string \<times> string) list \<Rightarrow> bool) \<Rightarrow> session \<Rightarrow> session_event \<Rightarrow> session" where
  "session_step cyclic s (Canvas v) = handleChange v s"
| "session_step cyclic s (Apply_graph c i p) = apply_graph_card c i p s"
| "session_step cyclic s Click_save = (if save_enabled s then handleSaveRule cyclic s else s)"
| "session_step cyclic s (Apply_save c) = apply_save cyclic c s"
| "session_step cyclic s (Apply_rename c new) = apply_rename cyclic c new s"
| "session_step cyclic s (Apply_delete c t n) = apply_delete c t n s"
| "session_step cyclic s (Apply_create c t n pr) = apply_create c t n pr s"
| "session_step cyclic s (Apply_open c t n pr) = apply_open c t n pr s"
| "session_step cyclic s (Reject_card c r) = respond c r s"
| "session_step cyclic s (Visit t n new pr) = navigate t n new pr s"
| "session_step cyclic s (Loaded k err) = load_done k err s"
| "session_step cyclic s (Reply k rp) =
     (if k < length (s_ops s) then reply_to (s_ops s ! k) rp (take_op k s) else s)"

definition open_page :: "string option \<Rightarrow> string \<Rightarrow> bool \<Rightarrow> files \<Rightarrow> session" where
  "open_page ruleTypeParam name new fs =
     load_effect
       \<lparr>s_ruleType = route_ruleType ruleTypeParam, s_name = name, s_isNew = new, s_graph = emptyGraph,
        s_revision = 0, s_savedRevision = 0, s_persisted = emptyGraph, s_loading = \<not> new, s_loadError = None,
        s_load = 0, s_saving = False, s_existing = None, s_ops = [Mount_refresh], s_files = fs,
        s_answers = [], s_messages = []\<rparr>"

lemmas session_defs = handleChange_def apply_graph_card_def markAgentMutation_def handleSaveRule_def apply_save_def
  apply_rename_def apply_delete_def apply_create_def apply_open_def navigate_def load_effect_def load_done_def
  saved_by_hand_def agent_saved_def rename_saved_def rename_deleted_def rename_refreshed_def file_deleted_def
  delete_refreshed_def refreshExistingRules_def onSaved_def request_def respond_def await_def say_def take_op_def

section \<open>Files are never cyclic\<close>

text \<open>The graphs the session may still write.\<close>

fun op_graph :: "op \<Rightarrow> graph option" where
  "op_graph (Manual_save t n g r) = Some g"
| "op_graph (Agent_save c t n g) = Some g"
| "op_graph (Rename_save c t old new g) = Some g"
| "op_graph _ = None"

definition files_ok :: "(graph \<Rightarrow> bool) \<Rightarrow> files \<Rightarrow> bool" where
  "files_ok P fs = (\<forall>f g. fs f = Some g \<longrightarrow> P g)"

definition writes_ok :: "(graph \<Rightarrow> bool) \<Rightarrow> session \<Rightarrow> bool" where
  "writes_ok P s = (files_ok P (s_files s) \<and> (\<forall>p \<in> set (s_ops s). \<forall>g. op_graph p = Some g \<longrightarrow> P g))"

lemma files_ok_save [intro]: "files_ok P fs \<Longrightarrow> P g \<Longrightarrow> files_ok P (saveRule t n g fs)"
  by (simp add: files_ok_def saveRule_def)

lemma files_ok_delete [intro]: "files_ok P fs \<Longrightarrow> files_ok P (deleteRule t n fs)"
  by (simp add: files_ok_def deleteRule_def)

lemma writes_ok_await [simp]:
  "writes_ok P (await p s) \<longleftrightarrow> writes_ok P s \<and> (\<forall>g. op_graph p = Some g \<longrightarrow> P g)"
  by (auto simp: writes_ok_def await_def)

lemma writes_ok_respond [simp]: "writes_ok P (respond c r s) = writes_ok P s"
  by (simp add: writes_ok_def respond_def)

lemma writes_ok_say [simp]: "writes_ok P (say m s) = writes_ok P s"
  by (simp add: writes_ok_def say_def)

lemma writes_ok_onSaved [simp]: "writes_ok P (onSaved s) = writes_ok P s"
  by (simp add: writes_ok_def onSaved_def)

lemma writes_ok_navigate [simp]: "writes_ok P (navigate t n new pr s) = writes_ok P s"
  by (simp add: writes_ok_def navigate_def load_effect_def)

lemma writes_ok_refresh [simp]: "writes_ok P (refreshExistingRules out l s) = writes_ok P s"
  by (simp add: writes_ok_def refreshExistingRules_def split: outcome.split)

lemma writes_ok_update [simp]:
  "writes_ok P (s\<lparr>s_saving := b\<rparr>) = writes_ok P s"
  "writes_ok P (s\<lparr>s_graph := g\<rparr>) = writes_ok P s"
  "writes_ok P (s\<lparr>s_revision := m\<rparr>) = writes_ok P s"
  "writes_ok P (s\<lparr>s_savedRevision := m\<rparr>) = writes_ok P s"
  "writes_ok P (s\<lparr>s_persisted := g\<rparr>) = writes_ok P s"
  by (simp_all add: writes_ok_def)

lemma writes_ok_request:
  "writes_ok P s \<Longrightarrow> (\<And>fs. files_ok P fs \<Longrightarrow> files_ok P (eff fs)) \<Longrightarrow> writes_ok P (request out eff s)"
  by (simp add: writes_ok_def request_def)

lemma writes_ok_reply:
  assumes "writes_ok P s" and "\<forall>g. op_graph p = Some g \<longrightarrow> P g"
  shows "writes_ok P (reply_to p rp s)"
  using assms
  by (cases p; cases "rp_outcome rp")
    (auto simp: saved_by_hand_def agent_saved_def rename_saved_def rename_deleted_def rename_refreshed_def
      file_deleted_def delete_refreshed_def Let_def intro!: writes_ok_request)

lemma writes_ok_take: "writes_ok P s \<Longrightarrow> writes_ok P (take_op k s)"
  by (auto simp: writes_ok_def take_op_def dest: in_set_takeD in_set_dropD)

lemma writes_ok_step:
  assumes "writes_ok (\<lambda>g. \<not> checkCyclic cyclic g) s"
  shows "writes_ok (\<lambda>g. \<not> checkCyclic cyclic g) (session_step cyclic s e)"
proof (cases e)
  case (Reply k rp)
  have "k < length (s_ops s) \<Longrightarrow> \<forall>g. op_graph (s_ops s ! k) = Some g \<longrightarrow> \<not> checkCyclic cyclic g"
    using assms nth_mem [of k "s_ops s"] by (auto simp: writes_ok_def)
  then show ?thesis
    using assms Reply by (simp add: writes_ok_reply writes_ok_take)
next
  case (Loaded k err)
  then show ?thesis
    using assms by (simp add: load_done_def writes_ok_def split: option.split)
qed (use assms in \<open>auto simp: handleChange_def apply_graph_card_def markAgentMutation_def handleSaveRule_def apply_save_def
      apply_rename_def apply_delete_def apply_create_def apply_open_def Let_def split: prod.split\<close>)

interpretation writes: machine "session_step cyclic" "writes_ok (\<lambda>g. \<not> checkCyclic cyclic g)" for cyclic
  by unfold_locales (rule writes_ok_step)


section \<open>Every decision is answered\<close>

fun op_call :: "op \<Rightarrow> string option" where
  "op_call (Manual_save t n g r) = None"
| "op_call (Agent_save c t n g) = Some c"
| "op_call (Rename_save c t old new g) = Some c"
| "op_call (Rename_delete c t old new) = Some c"
| "op_call (Rename_refresh c t new) = Some c"
| "op_call (Delete_file c t n) = Some c"
| "op_call (Delete_refresh c) = Some c"
| "op_call Mount_refresh = None"

fun event_call :: "session_event \<Rightarrow> string option" where
  "event_call (Apply_graph c i p) = Some c"
| "event_call (Apply_save c) = Some c"
| "event_call (Apply_rename c new) = Some c"
| "event_call (Apply_delete c t n) = Some c"
| "event_call (Apply_create c t n pr) = Some c"
| "event_call (Apply_open c t n pr) = Some c"
| "event_call (Reject_card c r) = Some c"
| "event_call _ = None"

text \<open>The tool calls that were decided: answered already, or waiting for the server.\<close>

definition decided :: "session \<Rightarrow> string multiset" where
  "decided s = mset (map fst (s_answers s)) + mset (somes op_call (s_ops s))"

definition call_mset :: "string option \<Rightarrow> string multiset" where
  "call_mset c = (case c of None \<Rightarrow> {#} | Some x \<Rightarrow> {#x#})"

lemma decided_simps [simp]:
  "decided (respond c r s) = decided s + {#c#}"
  "decided (await p s) = decided s + call_mset (op_call p)"
  "decided (say msg s) = decided s"
  "decided (onSaved s) = decided s"
  "decided (navigate t n new pr s) = decided s"
  "decided (request out eff s) = decided s"
  "decided (refreshExistingRules out l s) = decided s"
  "decided (load_done k err s) = decided s"
  "decided (s\<lparr>s_saving := b\<rparr>) = decided s"
  "decided (s\<lparr>s_graph := g\<rparr>) = decided s"
  "decided (s\<lparr>s_revision := m\<rparr>) = decided s"
  "decided (s\<lparr>s_savedRevision := m\<rparr>) = decided s"
  "decided (s\<lparr>s_persisted := g\<rparr>) = decided s"
  by (simp_all add: decided_def session_defs call_mset_def split: option.split outcome.split)

lemma somes_take_drop:
  "k < length xs \<Longrightarrow> mset (somes f xs) = mset (somes f (take k xs @ drop (Suc k) xs)) + (case f (xs ! k) of None \<Rightarrow> {#} | Some y \<Rightarrow> {#y#})"
proof -
  assume "k < length xs"
  then have "somes f xs = somes f (take k xs @ [xs ! k] @ drop (Suc k) xs)"
    by (simp add: id_take_nth_drop [symmetric])
  then show ?thesis by (simp split: option.split)
qed

lemma decided_take: "k < length (s_ops s) \<Longrightarrow> decided (take_op k s) + call_mset (op_call (s_ops s ! k)) = decided s"
  using somes_take_drop [of k "s_ops s" op_call] by (simp add: decided_def take_op_def call_mset_def)

lemma decided_reply: "decided (reply_to p rp s) = decided s + call_mset (op_call p)"
  by (cases p; cases "rp_outcome rp")
    (simp_all add: saved_by_hand_def agent_saved_def rename_saved_def rename_deleted_def rename_refreshed_def
      file_deleted_def delete_refreshed_def Let_def call_mset_def)

lemma decided_step: "decided (session_step cyclic s e) = decided s + call_mset (event_call e)"
proof (cases e)
  case (Reply k rp)
  then show ?thesis
    using decided_take [of k s] by (simp add: decided_reply call_mset_def)
qed (auto simp: handleChange_def apply_graph_card_def markAgentMutation_def handleSaveRule_def apply_save_def
      apply_rename_def apply_delete_def apply_create_def apply_open_def call_mset_def Let_def split: prod.split)

lemma decided_run: "decided (run (session_step cyclic) s es) = decided s + mset (somes event_call es)"
  by (induction es arbitrary: s) (simp_all add: decided_step call_mset_def split: option.split)

lemma decided_open: "decided (open_page p n new fs) = {#}"
  by (simp add: decided_def open_page_def load_effect_def)

text \<open>The answers still to come: at most three more replies for each operation.\<close>

fun op_weight :: "op \<Rightarrow> nat" where
  "op_weight (Rename_save c t old new g) = 3"
| "op_weight (Rename_delete c t old new) = 2"
| "op_weight (Delete_file c t n) = 2"
| "op_weight _ = 1"

definition to_come :: "session \<Rightarrow> nat" where
  "to_come s = sum_list (map op_weight (s_ops s))"

lemma op_weight_pos [simp]: "0 < op_weight p"
  by (cases p) simp_all

lemma to_come_simps [simp]:
  "to_come (respond c r s) = to_come s"
  "to_come (await p s) = to_come s + op_weight p"
  "to_come (say msg s) = to_come s"
  "to_come (onSaved s) = to_come s"
  "to_come (navigate t n new pr s) = to_come s"
  "to_come (request out eff s) = to_come s"
  "to_come (refreshExistingRules out l s) = to_come s"
  "to_come (s\<lparr>s_saving := b\<rparr>) = to_come s"
  "to_come (s\<lparr>s_savedRevision := m\<rparr>) = to_come s"
  "to_come (s\<lparr>s_persisted := g\<rparr>) = to_come s"
  by (simp_all add: to_come_def session_defs split: outcome.split)

lemma to_come_reply: "to_come (reply_to p rp s) < to_come s + op_weight p"
  by (cases p; cases "rp_outcome rp")
    (simp_all add: saved_by_hand_def agent_saved_def rename_saved_def rename_deleted_def rename_refreshed_def
      file_deleted_def delete_refreshed_def Let_def)

lemma to_come_step: "s_ops s \<noteq> [] \<Longrightarrow> to_come (session_step cyclic s (Reply 0 rp)) < to_come s"
proof (cases "s_ops s")
  case (Cons p ps)
  then have "to_come (take_op 0 s) + op_weight p = to_come s"
    by (simp add: to_come_def take_op_def)
  with Cons to_come_reply [of p rp "take_op 0 s"] show ?thesis by simp
qed simp

lemma to_come_0: "to_come s = 0 \<longleftrightarrow> s_ops s = []"
  by (cases "s_ops s") (auto simp: to_come_def)


section \<open>What "no unsaved changes" means\<close>

definition open_file :: "session \<Rightarrow> graph option" where
  "open_file s = s_files s (s_ruleType s, s_name s)"

fun is_rename_refresh :: "op \<Rightarrow> bool" where
  "is_rename_refresh (Rename_refresh c t new) = True"
| "is_rename_refresh _ = False"

text \<open>A loaded, named rule without a mark of unsaved changes, outside a rename.\<close>

definition settled :: "session \<Rightarrow> bool" where
  "settled s = (\<not> dirty s \<and> \<not> s_loading s \<and> s_loadError s = None \<and> \<not> s_isNew s \<and> s_name s \<noteq> [] \<and>
     \<not> list_ex is_rename_refresh (s_ops s))"

fun op_fits :: "session \<Rightarrow> op \<Rightarrow> bool" where
  "op_fits s (Manual_save t n g r) = (t = s_ruleType s \<and> n = s_name s \<and> g = s_graph s \<and> r = s_revision s)"
| "op_fits s (Agent_save c t n g) = (t = s_ruleType s \<and> n = s_name s \<and> g = s_graph s)"
| "op_fits s (Rename_save c t old new g) = (t = s_ruleType s \<and> old = s_name s \<and> new \<noteq> old)"
| "op_fits s (Rename_delete c t old new) = (t = s_ruleType s \<and> old = s_name s \<and> new \<noteq> old)"
| "op_fits s (Rename_refresh c t new) = (t = s_ruleType s \<and> new \<noteq> s_name s \<and> \<not> dirty s)"
| "op_fits s (Delete_file c t n) = ((t, n) \<noteq> (s_ruleType s, s_name s))"
| "op_fits s (Delete_refresh c) = True"
| "op_fits s Mount_refresh = True"

definition work :: "op list \<Rightarrow> op list" where
  "work ps = filter (\<lambda>p. p \<noteq> Mount_refresh) ps"

definition in_sync :: "session \<Rightarrow> bool" where
  "in_sync s =
     (s_savedRevision s \<le> s_revision s \<and> length (work (s_ops s)) \<le> 1 \<and> list_all (op_fits s) (s_ops s) \<and>
      (settled s \<longrightarrow> s_graph s = s_persisted s \<and> open_file s = Some (s_persisted s)))"

text \<open>The environment under which the mark can be trusted: while the server is busy with a save, a rename
  or a delete nothing but answers arrives, the open rule is not deleted, and the two last requests of a
  rename do not fail after the server carried them out.\<close>

fun calm :: "session \<Rightarrow> session_event \<Rightarrow> bool" where
  "calm s (Reply k rp) =
     (k < length (s_ops s) \<and>
      (case s_ops s ! k of
         Rename_delete c t old new \<Rightarrow> rp_outcome rp = Done \<or> \<not> carried_out (rp_outcome rp)
       | Rename_refresh c t new \<Rightarrow> rp_outcome rp = Done
       | _ \<Rightarrow> True))"
| "calm s (Apply_delete c t n) = (work (s_ops s) = [] \<and> (t, n) \<noteq> (s_ruleType s, s_name s))"
| "calm s e = (work (s_ops s) = [])"

lemma work_Nil: "work ps = [] \<Longrightarrow> set ps \<subseteq> {Mount_refresh}"
  by (auto simp: work_def filter_empty_conv)

lemma fits_idle: "work ps = [] \<Longrightarrow> list_all (op_fits s) ps"
  using work_Nil [of ps] by (auto simp: list_all_iff)

lemma no_rename_idle: "work ps = [] \<Longrightarrow> \<not> list_ex is_rename_refresh ps"
  using work_Nil [of ps] by (auto simp: list_ex_iff)

lemma work_append [simp]: "work (ps @ qs) = work ps @ work qs"
  by (simp add: work_def)

lemma work_single [simp]: "work [p] = (if p = Mount_refresh then [] else [p])"
  by (simp add: work_def)

lemma work_take_op:
  assumes "k < length ps" and "length (work ps) \<le> 1" and "ps ! k \<noteq> Mount_refresh"
  shows "work (take k ps @ drop (Suc k) ps) = []"
proof -
  have "ps = take k ps @ [ps ! k] @ drop (Suc k) ps"
    using assms(1) by (simp add: id_take_nth_drop)
  then have "work ps = work (take k ps) @ [ps ! k] @ work (drop (Suc k) ps)"
    using assms(3) by (metis work_append work_single)
  with assms(2) show ?thesis by simp
qed


lemma in_sync_idle:
  "work (s_ops s) = [] \<Longrightarrow>
   in_sync s \<longleftrightarrow> s_savedRevision s \<le> s_revision s \<and>
     (\<not> dirty s \<and> \<not> s_loading s \<and> s_loadError s = None \<and> \<not> s_isNew s \<and> s_name s \<noteq> [] \<longrightarrow>
        s_graph s = s_persisted s \<and> open_file s = Some (s_persisted s))"
  using fits_idle [of "s_ops s" s] no_rename_idle [of "s_ops s"] by (auto simp: in_sync_def settled_def)

lemma in_sync_await:
  "work (s_ops s) = [] \<Longrightarrow> in_sync s \<Longrightarrow> op_fits s p \<Longrightarrow> in_sync (await p s)"
proof -
  assume *: "work (s_ops s) = []" "in_sync s" "op_fits s p"
  have "op_fits (await p s) q = op_fits s q" for q
    by (cases q) (simp_all add: await_def dirty_def)
  with * show ?thesis
    using fits_idle [of "s_ops s" s] fits_idle [of "s_ops s" "await p s"]
    by (auto simp: in_sync_def settled_def dirty_def open_file_def await_def)
qed

lemma in_sync_cong:
  assumes "s_ruleType t = s_ruleType s" "s_name t = s_name s" "s_isNew t = s_isNew s" "s_graph t = s_graph s"
    "s_revision t = s_revision s" "s_savedRevision t = s_savedRevision s" "s_persisted t = s_persisted s"
    "s_loading t = s_loading s" "s_loadError t = s_loadError s" "s_ops t = s_ops s" "s_files t = s_files s"
  shows "in_sync t = in_sync s"
proof -
  have "op_fits t p = op_fits s p" for p
    using assms by (cases p) (simp_all add: dirty_def)
  then have "op_fits t = op_fits s" by blast
  then show ?thesis using assms by (simp add: in_sync_def settled_def dirty_def open_file_def)
qed

lemma in_sync_respond [simp]: "in_sync (respond c r s) = in_sync s"
  by (rule in_sync_cong) (simp_all add: respond_def)

lemma in_sync_say [simp]: "in_sync (say m s) = in_sync s"
  by (rule in_sync_cong) (simp_all add: say_def)

lemma in_sync_saving [simp]: "in_sync (s\<lparr>s_saving := b\<rparr>) = in_sync s"
  by (rule in_sync_cong) simp_all

lemma in_sync_refresh [simp]: "in_sync (refreshExistingRules out l s) = in_sync s"
  by (rule in_sync_cong) (simp_all add: refreshExistingRules_def split: outcome.split)

lemma idle_simps [simp]:
  "s_ops (respond c r s) = s_ops s" "s_ops (say m s) = s_ops s" "s_ops (onSaved s) = s_ops s"
  "s_ops (request out eff s) = s_ops s" "s_ops (refreshExistingRules out l s) = s_ops s"
  "s_ops (navigate t n new pr s) = s_ops s" "s_ops (await p s) = s_ops s @ [p]"
  by (simp_all add: respond_def say_def onSaved_def request_def refreshExistingRules_def navigate_def load_effect_def
      await_def split: outcome.split)

lemma in_sync_navigate:
  "work (s_ops s) = [] \<Longrightarrow> in_sync s \<Longrightarrow> in_sync (navigate t n new pr s)"
  by (simp add: in_sync_idle) (auto simp: navigate_def load_effect_def dirty_def open_file_def)

lemma in_sync_idle_step:
  assumes "work (s_ops s) = []" and "in_sync s" and "calm s e" and "\<And>k rp. e \<noteq> Reply k rp"
  shows "in_sync (session_step cyclic s e)"
proof (cases e)
  case (Canvas v)
  then show ?thesis
    using assms by (simp add: in_sync_idle handleChange_def Let_def) (auto simp: dirty_def open_file_def)
next
  case (Apply_graph c i p)
  obtain g r where "apply_proposal i p (s_graph s) = (g, r)" by fastforce
  moreover have "\<not> mutates p \<Longrightarrow> fst (apply_proposal i p (s_graph s)) = s_graph s" by (cases p) simp_all
  ultimately show ?thesis
    using assms Apply_graph
    by (auto simp: apply_graph_card_def in_sync_idle markAgentMutation_def dirty_def open_file_def)
next
  case (Loaded k err)
  then show ?thesis
    using assms by (simp add: in_sync_idle load_done_def open_file_def dirty_def split: option.split)
next
  case Click_save
  have "in_sync (s\<lparr>s_saving := True\<rparr>)" using assms(2) by simp
  with Click_save assms show ?thesis by (auto simp: handleSaveRule_def intro!: in_sync_await)
next
  case (Apply_delete c t n)
  with assms show ?thesis by (auto simp: apply_delete_def intro!: in_sync_await)
qed (use assms in \<open>auto simp: apply_save_def apply_rename_def apply_create_def apply_open_def
       intro!: in_sync_await in_sync_navigate\<close>)

lemma in_sync_reply:
  assumes "work (s_ops s) = []" and sync: "s_savedRevision s \<le> s_revision s"
    "\<not> is_rename_refresh p \<Longrightarrow> in_sync s"
    and fits: "op_fits s p"
    and ok: "case p of Rename_delete c t old new \<Rightarrow> rp_outcome rp = Done \<or> \<not> carried_out (rp_outcome rp)
       | Rename_refresh c t new \<Rightarrow> rp_outcome rp = Done | _ \<Rightarrow> True"
  shows "in_sync (reply_to p rp s)"
proof (cases p)
  case (Manual_save t n g r)
  with assms show ?thesis
    by (cases "rp_outcome rp")
      (auto simp: saved_by_hand_def request_def in_sync_idle saveRule_def dirty_def open_file_def Let_def)
next
  case (Agent_save c t n g)
  with assms show ?thesis
    by (cases "rp_outcome rp")
      (auto simp: agent_saved_def onSaved_def request_def in_sync_idle saveRule_def dirty_def open_file_def Let_def)
next
  case (Rename_save c t old new g)
  have "in_sync (request (rp_outcome rp) (saveRule t new g) s)"
    using assms Rename_save by (auto simp: request_def in_sync_idle saveRule_def dirty_def open_file_def)
  with assms Rename_save show ?thesis
    by (cases "rp_outcome rp") (auto simp: rename_saved_def Let_def request_def intro!: in_sync_await)
next
  case (Rename_delete c t old new)
  show ?thesis
  proof (cases "rp_outcome rp")
    case Done
    with assms Rename_delete show ?thesis
      by (auto simp: rename_deleted_def request_def in_sync_def settled_def await_def onSaved_def dirty_def fits_idle)
  next
    case (Failed e b)
    with assms Rename_delete show ?thesis by (simp add: rename_deleted_def request_def)
  qed
next
  case (Rename_refresh c t new)
  with assms show ?thesis
    by (auto simp: rename_refreshed_def in_sync_idle navigate_def load_effect_def dirty_def refreshExistingRules_def)
next
  case (Delete_file c t n)
  have "in_sync (request (rp_outcome rp) (deleteRule t n) s)"
    using assms Delete_file by (auto simp: request_def in_sync_idle deleteRule_def dirty_def open_file_def)
  with assms Delete_file show ?thesis
    by (cases "rp_outcome rp") (auto simp: file_deleted_def Let_def intro!: in_sync_await)
next
  case (Delete_refresh c)
  with assms show ?thesis
    by (cases "rp_outcome rp") (auto simp: delete_refreshed_def)
qed (use assms in simp)


lemma in_sync_take:
  assumes "in_sync s" and "k < length (s_ops s)" and "\<not> is_rename_refresh (s_ops s ! k)"
  shows "in_sync (take_op k s)"
proof -
  let ?ps = "take k (s_ops s) @ drop (Suc k) (s_ops s)"
  have sub: "set ?ps \<subseteq> set (s_ops s)"
    by (auto dest: in_set_takeD in_set_dropD)
  have split: "s_ops s = take k (s_ops s) @ [s_ops s ! k] @ drop (Suc k) (s_ops s)"
    using assms(2) by (simp add: id_take_nth_drop)
  then have "length (work ?ps) \<le> length (work (s_ops s))"
    by (metis work_append length_append add_le_mono le_add2 order_refl)
  moreover have "list_ex is_rename_refresh ?ps = list_ex is_rename_refresh (s_ops s)"
    using assms(3) by (subst (3) split) simp
  moreover have "op_fits (take_op k s) q = op_fits s q" for q
    by (cases q) (simp_all add: take_op_def dirty_def)
  moreover have "list_all (op_fits s) ?ps"
    using assms(1) sub by (auto simp: in_sync_def list_all_iff)
  ultimately show ?thesis
    using assms(1) by (simp add: in_sync_def settled_def dirty_def open_file_def take_op_def list_all_iff)
qed

lemma in_sync_step:
  assumes "in_sync s" and "calm s e"
  shows "in_sync (session_step cyclic s e)"
proof (cases "\<exists>k rp. e = Reply k rp")
  case True
  then obtain k rp where Reply: "e = Reply k rp" by blast
  then have k: "k < length (s_ops s)" using assms(2) by simp
  let ?p = "s_ops s ! k" and ?t = "take_op k s"
  have fits: "op_fits ?t ?p"
  proof -
    have "op_fits s ?p" using assms(1) k by (simp add: in_sync_def list_all_length)
    then show ?thesis by (cases ?p) (simp_all add: take_op_def dirty_def)
  qed
  show ?thesis
  proof (cases "?p = Mount_refresh")
    case True
    then show ?thesis using assms(1) Reply k by (simp add: in_sync_take)
  next
    case False
    have "in_sync (reply_to ?p rp ?t)"
    proof (rule in_sync_reply)
      show "work (s_ops ?t) = []"
        using work_take_op [OF k _ False] assms(1) by (simp add: take_op_def in_sync_def)
      show "s_savedRevision ?t \<le> s_revision ?t"
        using assms(1) by (simp add: take_op_def in_sync_def)
      show "\<not> is_rename_refresh ?p \<Longrightarrow> in_sync ?t"
        using in_sync_take [OF assms(1) k] .
      show "op_fits ?t ?p" by (rule fits)
      show "case ?p of Rename_delete c t old new \<Rightarrow> rp_outcome rp = Done \<or> \<not> carried_out (rp_outcome rp)
          | Rename_refresh c t new \<Rightarrow> rp_outcome rp = Done | _ \<Rightarrow> True"
        using assms(2) Reply by simp
    qed
    with Reply k show ?thesis by simp
  qed
next
  case False
  moreover from this have "work (s_ops s) = []"
    using assms(2) by (cases e) auto
  ultimately show ?thesis
    using assms by (intro in_sync_idle_step) auto
qed

interpretation sync: guarded_machine "session_step cyclic" calm in_sync for cyclic
  by unfold_locales (rule in_sync_step)

lemma in_sync_open: "in_sync (open_page p n new fs)"
  by (auto simp: open_page_def in_sync_def load_effect_def settled_def dirty_def work_def open_file_def)

section \<open>Properties of the page\<close>


text \<open>The editor never writes a cyclic graph: if no rule file is cyclic to begin with, none is after
  any history, whatever the order of the answers and whichever requests fail or are carried out although
  they seem to fail.\<close>

theorem saved_files_acyclic:
  assumes "\<And>f g. fs f = Some g \<Longrightarrow> \<not> checkCyclic cyclic g"
    and "s_files (run (session_step cyclic) (open_page p n new fs) es) f = Some g"
  shows "\<not> checkCyclic cyclic g"
proof -
  have "writes_ok (\<lambda>g. \<not> checkCyclic cyclic g) (open_page p n new fs)"
    using assms(1) by (simp add: writes_ok_def files_ok_def open_page_def load_effect_def)
  from writes.run_inv [OF this] have "files_ok (\<lambda>g. \<not> checkCyclic cyclic g)
      (s_files (run (session_step cyclic) (open_page p n new fs) es))"
    by (simp add: writes_ok_def)
  with assms(2) show ?thesis
    by (cases f) (auto simp: files_ok_def)
qed

text \<open>C17. Every decided tool call is answered exactly once, or the server still owes the reply its handler
  waits for: counted with multiplicity, the answers and the waiting handlers are the decisions made.\<close>

theorem every_decision_answered_once:
  "decided (run (session_step cyclic) (open_page p n new fs) es) = mset (somes event_call es)"
  by (simp add: decided_run decided_open)

lemma to_come_bound: "to_come s \<le> 3 * length (s_ops s)"
proof -
  have "op_weight p \<le> 3" for p by (cases p) simp_all
  then have "sum_list (map op_weight ps) \<le> 3 * length ps" for ps
    by (induction ps) (simp_all add: add_mono)
  then show ?thesis by (simp add: to_come_def)
qed

text \<open>C31. No handler waits for ever: once the server has answered three times for each waiting handler,
  whatever the answers are, nothing is waiting any more, and by then every decision is answered.\<close>

theorem handlers_terminate:
  assumes "3 * length (s_ops s) \<le> length rps"
  shows "s_ops (run (session_step cyclic) s (map (Reply 0) rps)) = [] \<and>
    mset (map fst (s_answers (run (session_step cyclic) s (map (Reply 0) rps)))) = decided s"
proof -
  have "to_come s \<le> length rps \<Longrightarrow> to_come (run (session_step cyclic) s (map (Reply 0) rps)) = 0 \<and>
      decided (run (session_step cyclic) s (map (Reply 0) rps)) = decided s"
  proof (induction rps arbitrary: s)
    case (Cons rp rps)
    have "to_come (session_step cyclic s (Reply 0 rp)) \<le> length rps"
    proof (cases "s_ops s = []")
      case True
      then show ?thesis by (simp add: to_come_def)
    next
      case False
      with to_come_step [of s cyclic rp] Cons.prems show ?thesis by simp
    qed
    moreover have "decided (session_step cyclic s (Reply 0 rp)) = decided s"
      by (simp only: decided_step event_call.simps call_mset_def option.simps add_0_right)
    ultimately show ?case using Cons.IH by simp
  qed simp
  with assms to_come_bound [of s] show ?thesis
    by (auto simp: to_come_0 decided_def)
qed


section \<open>Renames\<close>

definition rename_replies :: "outcome \<Rightarrow> outcome \<Rightarrow> outcome \<Rightarrow> listing \<Rightarrow> bool \<Rightarrow> session_event list" where
  "rename_replies o1 o2 o3 l pr = map (\<lambda>out. Reply 0 \<lparr>rp_outcome = out, rp_listing = l, rp_proceed = pr\<rparr>) [o1, o2, o3]"

text \<open>C27. A rename never loses the rule: whatever fails on the way, the old file is still what it was, or
  the new file holds the graph on screen; no third file changes; and when the tool reports success the
  graph is under the new name only.\<close>

theorem rename_never_loses:
  assumes "s_ops s = []" and "f \<noteq> (s_ruleType s, s_name s)" and "f \<noteq> (s_ruleType s, new)"
  shows "let s' = run (session_step cyclic) s (Apply_rename c new # rename_replies o1 o2 o3 l pr) in
    (s_files s' (s_ruleType s, s_name s) = open_file s \<or> s_files s' (s_ruleType s, new) = Some (s_graph s)) \<and>
    s_files s' f = s_files s f \<and>
    (last (s_answers s') = (c, accept) \<longrightarrow>
       s_files s' (s_ruleType s, s_name s) = None \<and> s_files s' (s_ruleType s, new) = Some (s_graph s))"
proof (cases "new = s_name s \<or> checkCyclic cyclic (s_graph s) \<or> s_name s = []")
  case True
  then obtain why where "apply_rename cyclic c new s = respond c (rejected why) s"
    unfolding apply_rename_def by metis
  then show ?thesis
    using assms by (simp add: rename_replies_def respond_def accept_def rejected_def open_file_def)
next
  case False
  then have "apply_rename cyclic c new s = await (Rename_save c (s_ruleType s) (s_name s) new (s_graph s)) s"
    by (simp add: apply_rename_def)
  with False assms show ?thesis
    by (cases o1; cases o2; cases o3)
      (auto simp: rename_replies_def Let_def take_op_def rename_saved_def rename_deleted_def
        rename_refreshed_def request_def await_def respond_def onSaved_def refreshExistingRules_def navigate_def
        load_effect_def dirty_def open_file_def saveRule_def deleteRule_def accept_def rejected_def)
qed

text \<open>The tool fails although the rename is done when only the list of rules cannot be read again; the page
  then stays on the deleted name without the mark of unsaved changes.\<close>

lemma rename_done_but_reported_failed:
  assumes "s_ops s = []" and "s_name s \<noteq> []" and "new \<noteq> s_name s" and "\<not> checkCyclic cyclic (s_graph s)"
  shows "let s' = run (session_step cyclic) s (Apply_rename c new # rename_replies Done Done (Failed e b) l pr) in
    last (s_answers s') = (c, rejected e) \<and> open_file s' = None \<and> s_name s' = s_name s \<and> \<not> dirty s' \<and>
    s_files s' (s_ruleType s, new) = Some (s_graph s)"
  using assms
  by (simp add: rename_replies_def session_defs Let_def open_file_def saveRule_def deleteRule_def dirty_def)

text \<open>A rename to the name of another rule replaces that rule without a word.\<close>

lemma rename_overwrites:
  assumes "s_ops s = []" and "s_name s \<noteq> []" and "new \<noteq> s_name s" and "\<not> checkCyclic cyclic (s_graph s)"
    and "s_files s (s_ruleType s, new) = Some other"
  shows "s_files (run (session_step cyclic) s (Apply_rename c new # rename_replies Done Done Done l pr))
    (s_ruleType s, new) = Some (s_graph s)"
  using assms
  by (simp add: rename_replies_def session_defs Let_def saveRule_def deleteRule_def)

section \<open>Where the page misleads\<close>

definition reply_done :: "nat \<Rightarrow> session_event" where
  "reply_done k = Reply k \<lparr>rp_outcome = Done, rp_listing = ([], []), rp_proceed = True\<rparr>"

text \<open>An edit made while a save is on its way can end up unsaved and unmarked: after a save by the
  copilot every edit does, after a save by hand an edit that goes back to the graph saved before does. The
  page then shows no mark although the file is another graph than the one on screen.\<close>

theorem edits_during_a_save_are_unmarked:
  assumes "s_ops s = []" and "v \<noteq> s_graph s" and "\<not> checkCyclic cyclic (s_graph s)"
  shows "(let s' = run (session_step cyclic) s [Apply_save c, Canvas v, reply_done 0] in
      \<not> dirty s' \<and> s_graph s' = v \<and> open_file s' = Some (s_graph s)) \<and>
    (save_enabled s \<and> v = s_persisted s \<longrightarrow>
      (let s' = run (session_step cyclic) s [Click_save, Canvas v, reply_done 0] in
        \<not> dirty s' \<and> s_graph s' = v \<and> open_file s' = Some (s_graph s)))"
  using assms
  by (simp_all add: reply_done_def session_defs Let_def dirty_def open_file_def saveRule_def save_enabled_def)

text \<open>A rule that could not be loaded is overwritten by the copilot's save with the graph of the rule
  that was open before, and \<open>create_rule\<close>, which announces a blank editor, keeps that graph too: the page
  stays mounted and only a successful load replaces its graph.\<close>

theorem failed_load_saves_the_old_graph:
  assumes "s_ops s = []" and "\<not> dirty s" and "n \<noteq> []" and "n \<noteq> s_name s" and "\<not> checkCyclic cyclic (s_graph s)"
  shows "open_file (run (session_step cyclic) s
      [Visit (s_ruleType s) n False True, Loaded (s_load s + 1) (Some e), Apply_save c, reply_done 0]) = Some (s_graph s) \<and>
    s_graph (run (session_step cyclic) s [Apply_create c (s_ruleType s) n True]) = s_graph s"
  using assms
  by (simp add: reply_done_def session_defs Let_def dirty_def open_file_def saveRule_def)

text \<open>The tools that leave the page report success even when the user chose to stay.\<close>

lemma refused_navigation_is_accepted:
  "dirty s \<Longrightarrow> session_step cyclic s (Apply_open c t n False) = respond c accept s"
  "dirty s \<Longrightarrow> session_step cyclic s (Apply_create c t n False) = respond c accept s"
  by (simp_all add: apply_open_def apply_create_def navigate_def)


section \<open>A session on concrete files\<close>

definition two_cycle :: "(string \<times> string) list \<Rightarrow> bool" where
  "two_cycle es = (\<exists>e \<in> set es. \<exists>f \<in> set es. snd e = fst f \<and> snd f = fst e)"

definition some_files :: files where
  "some_files = (\<lambda>f. if f = (''onboarding'', ''kyc.json'') then Some a_graph else None)"

definition a_session :: session where
  "a_session = run (session_step two_cycle) (open_page (Some ''onboarding'') ''kyc.json'' False some_files)
     [Loaded 1 None, reply_done 0]"

definition a_day :: "session_event list" where
  "a_day =
     [Loaded 1 None, reply_done 0, Canvas a_graph,
      Apply_graph ''call-1'' ''2'' (Add_Node \<lparr>aa_type = ''outputNode'', aa_name = ''Response'', aa_content = None, aa_position = None\<rparr>),
      Apply_graph ''call-2'' ''3'' (Add_Edge ''1'' ''2'' \<lparr>ea_source_id = ''1'', ea_target_id = ''2'', ea_source_handle = None,
        ea_target_handle = None\<rparr>),
      Click_save, reply_done 0, Canvas a_graph, Apply_save ''call-3'', reply_done 0,
      Apply_rename ''call-4'' ''kyc2.json'', reply_done 0, reply_done 0, reply_done 0, Loaded 2 None]"

lemma a_day_calm:
  "admissible (session_step two_cycle) calm (open_page (Some ''onboarding'') ''kyc.json'' False some_files) a_day"
  by code_simp


theorem saved_files_acyclic_witness:
  "\<not> checkCyclic two_cycle
     (the (s_files (run (session_step two_cycle)
        (open_page (Some ''onboarding'') ''kyc.json'' False some_files) a_day) (''onboarding'', ''kyc2.json'')))"
proof (rule saved_files_acyclic)
  show "\<And>f g. some_files f = Some g \<Longrightarrow> \<not> checkCyclic two_cycle g"
    by (auto simp: some_files_def a_graph_def checkCyclic_def two_cycle_def split: if_splits)
  show "s_files (run (session_step two_cycle)
        (open_page (Some ''onboarding'') ''kyc.json'' False some_files) a_day) (''onboarding'', ''kyc2.json'') =
      Some (the (s_files (run (session_step two_cycle)
        (open_page (Some ''onboarding'') ''kyc.json'' False some_files) a_day) (''onboarding'', ''kyc2.json'')))"
    by code_simp
qed

lemma a_session_state:
  "s_ops a_session = []" "s_name a_session = ''kyc.json''" "s_graph a_session = a_graph" "\<not> dirty a_session"
  "\<not> checkCyclic two_cycle a_graph" "s_ruleType a_session = ''onboarding''"
  by code_simp+

theorem handlers_terminate_witness:
  "s_ops (run (session_step two_cycle) (session_step two_cycle a_session (Apply_rename ''call-1'' ''kyc2.json''))
     (map (Reply 0) (replicate 3 \<lparr>rp_outcome = Failed ''Network Error'' True, rp_listing = ([], []), rp_proceed = True\<rparr>))) = []"
  by (rule handlers_terminate [THEN conjunct1]) code_simp

theorem rename_never_loses_witness:
  "let s' = run (session_step two_cycle) a_session
     (Apply_rename ''call-1'' ''kyc2.json'' # rename_replies Done (Failed ''Network Error'' True) Done ([], []) True) in
   s_files s' (''onboarding'', ''kyc.json'') = open_file a_session \<or> s_files s' (''onboarding'', ''kyc2.json'') = Some a_graph"
proof -
  note rename_never_loses [of a_session "(''onboarding'', ''other.json'')" "''kyc2.json''" two_cycle "''call-1''"
      Done "Failed ''Network Error'' True" Done "([], [])" True, unfolded a_session_state Let_def]
  from this [THEN conjunct1] show ?thesis
    by (simp only: Let_def list.inject prod.inject char.inject simp_thms not_True_eq_False)
qed

theorem edits_during_a_save_are_unmarked_witness:
  "let s' = run (session_step two_cycle) a_session [Apply_save ''call-1'', Canvas emptyGraph, reply_done 0] in
     \<not> dirty s' \<and> s_graph s' = emptyGraph \<and> open_file s' = Some a_graph"
proof -
  have "emptyGraph \<noteq> a_graph" by code_simp
  with a_session_state edits_during_a_save_are_unmarked [of a_session emptyGraph two_cycle "''call-1''"]
  show ?thesis by simp
qed

theorem failed_load_saves_the_old_graph_witness:
  "open_file (run (session_step two_cycle) a_session
      [Visit ''onboarding'' ''limits.json'' False True, Loaded (s_load a_session + 1) (Some ''Network Error''), Apply_save ''call-1'',
       reply_done 0]) = Some a_graph"
  using failed_load_saves_the_old_graph [of a_session "''limits.json''" two_cycle "''Network Error''" "''call-1''"]
    a_session_state
  by simp

end
