(* ===== verification/Tool_Args.thy ===== *)
theory Tool_Args
  imports Rule_Graph Regex
begin

text \<open>
  The arguments of the copilot's tools: the strict schemas every card checks them with
  (\<open>example-apps/atomic-fi-jdm-editor/src/copilot/node-types.ts\<close>) and the loose ones the tools are
  declared with (\<open>copilot/tool-params.ts\<close>).

  A schema is a function from a value to its issues or the parsed value. Of the zod library the
  constructs the schemas use are written out as documented: an object collects the issues of its
  fields in order and drops other keys, \<open>optional\<close> lets \<open>undefined\<close> through, all checks of a string
  run, and a transform or refinement runs only when there was no issue before it. The texts of zod's own
  messages are not modelled. \<open>JSON.parse\<close> is the argument \<open>parse\<close>.
\<close>

section \<open>Schemas\<close>

datatype problem =
  Invalid_type string
| Invalid_value "string list"
| Too_small
| Invalid_format string
| Custom string

type_synonym issue = "string list \<times> problem"
type_synonym 'a checked = "issue list + 'a"
type_synonym 'a schema = "json option \<Rightarrow> 'a checked"

named_theorems accepts "when a schema returns a value"

definition z_string :: "string schema" where
  "z_string v = (case as_string v of Some s \<Rightarrow> Inr s | None \<Rightarrow> Inl [([], Invalid_type ''string'')])"

definition z_number :: "rat schema" where
  "z_number v = (case as_number v of Some n \<Rightarrow> Inr n | None \<Rightarrow> Inl [([], Invalid_type ''number'')])"

definition z_enum :: "string list \<Rightarrow> string schema" where
  "z_enum vals v = (case as_string v of
     Some s \<Rightarrow> if s \<in> set vals then Inr s else Inl [([], Invalid_value vals)]
   | None \<Rightarrow> Inl [([], Invalid_value vals)])"

definition z_record :: "json schema" where
  "z_record v = (case as_object v of Some j \<Rightarrow> Inr j | None \<Rightarrow> Inl [([], Invalid_type ''record'')])"

text \<open>The checks of a string all run; each gives an issue or none.\<close>

definition z_checks :: "(string \<Rightarrow> problem option) list \<Rightarrow> string schema \<Rightarrow> string schema" where
  "z_checks qs c v =
     bind_sum (c v) (\<lambda>s. let ps = somes (\<lambda>q. q s) qs in if ps = [] then Inr s else Inl (map (Pair []) ps))"

definition z_min1 :: "string \<Rightarrow> problem option" where
  "z_min1 s = (if s = [] then Some Too_small else None)"

definition z_regex :: "(string \<Rightarrow> bool) \<Rightarrow> string \<Rightarrow> string \<Rightarrow> problem option" where
  "z_regex q msg s = (if q s then None else Some (Invalid_format msg))"

definition z_optional :: "'a schema \<Rightarrow> 'a option schema" where
  "z_optional c v = (if v = None then Inr None else map_sum id Some (c v))"

definition z_preprocess :: "(json option \<Rightarrow> json option) \<Rightarrow> 'a schema \<Rightarrow> 'a schema" where
  "z_preprocess f c v = c (f v)"

definition at_key :: "string \<Rightarrow> issue \<Rightarrow> issue" where
  "at_key k i = (k # fst i, snd i)"

definition z_field :: "string \<Rightarrow> 'a schema \<Rightarrow> json obj \<Rightarrow> 'a checked" where
  "z_field k c fs = map_sum (map (at_key k)) id (c (obj_get fs k))"

fun z_and :: "'a checked \<Rightarrow> 'b checked \<Rightarrow> ('a \<times> 'b) checked" where
  "z_and (Inr x) (Inr y) = Inr (x, y)"
| "z_and (Inr x) (Inl es) = Inl es"
| "z_and (Inl es) (Inr y) = Inl es"
| "z_and (Inl es) (Inl fs) = Inl (es @ fs)"

definition z_object :: "(json obj \<Rightarrow> 'a checked) \<Rightarrow> 'a schema" where
  "z_object f v = (case v of Some (JObj fs) \<Rightarrow> f fs | _ \<Rightarrow> Inl [([], Invalid_type ''object'')])"

text \<open>What each construct accepts.\<close>

lemma z_string_Inr [accepts]: "z_string v = Inr s \<longleftrightarrow> v = Some (JStr s)"
  by (cases v rule: as_string.cases) (simp_all add: z_string_def)

lemma z_number_Inr [accepts]: "z_number v = Inr n \<longleftrightarrow> v = Some (JNum n)"
  by (cases v rule: as_number.cases) (simp_all add: z_number_def)

lemma z_enum_Inr [accepts]: "z_enum vals v = Inr s \<longleftrightarrow> v = Some (JStr s) \<and> s \<in> set vals"
  by (cases v rule: as_string.cases) (auto simp add: z_enum_def)

lemma z_record_Inr [accepts]: "z_record v = Inr j \<longleftrightarrow> (\<exists>fs. v = Some (JObj fs) \<and> j = JObj fs)"
  by (cases v rule: as_object.cases) (auto simp: z_record_def)

lemma z_checks_Inr [accepts]: "z_checks qs c v = Inr s \<longleftrightarrow> c v = Inr s \<and> (\<forall>q \<in> set qs. q s = None)"
proof -
  have "somes (\<lambda>q. q s) qs = [] \<longleftrightarrow> (\<forall>q \<in> set qs. q s = None)" for s :: string
    by (induction qs) (auto split: option.split)
  then show ?thesis
    by (cases "c v") (auto simp: z_checks_def Let_def)
qed

lemma check_None [simp]: "z_min1 s = None \<longleftrightarrow> s \<noteq> []" "z_regex q msg s = None \<longleftrightarrow> q s"
  by (simp_all add: z_min1_def z_regex_def)

lemma z_optional_Inr [accepts]: "z_optional c v = Inr y \<longleftrightarrow> (if v = None then y = None else \<exists>x. y = Some x \<and> c v = Inr x)"
  by (cases "c v") (auto simp: z_optional_def)

lemma z_field_Inr [accepts]: "z_field k c fs = Inr x \<longleftrightarrow> c (obj_get fs k) = Inr x"
  by (cases "c (obj_get fs k)") (simp_all add: z_field_def)

lemma z_and_Inr [accepts]: "z_and a b = Inr p \<longleftrightarrow> a = Inr (fst p) \<and> b = Inr (snd p)"
  by (cases p, cases a; cases b) auto

lemma z_object_Inr [accepts]: "z_object f v = Inr x \<longleftrightarrow> (\<exists>fs. v = Some (JObj fs) \<and> f fs = Inr x)"
  by (auto simp: z_object_def split: option.splits json.splits)

lemma map_sum_Inr [accepts]: "map_sum f g x = Inr y \<longleftrightarrow> (\<exists>z. x = Inr z \<and> y = g z)"
  by (cases x) auto

lemmas [accepts] = bind_sum_Inr

section \<open>The arguments of the graph tools\<close>

definition TolerantPositionPreprocess :: "json_parser \<Rightarrow> json option \<Rightarrow> json option" where
  "TolerantPositionPreprocess parse v =
     (let parsed = parseIfJsonString parse v in
      if parsed = Some JNull \<or> parsed = None then None
      else if js_typeof parsed \<noteq> ''object'' then None
      else if js_typeof (jget parsed ''x'') \<noteq> ''number'' \<or> js_typeof (jget parsed ''y'') \<noteq> ''number'' then None
      else parsed)"

definition PositionSchema :: "(rat \<times> rat) schema" where
  "PositionSchema = z_object (\<lambda>o'. z_and (z_field ''x'' z_number o') (z_field ''y'' z_number o'))"

definition content_field :: "json_parser \<Rightarrow> json obj \<Rightarrow> json option checked" where
  "content_field parse = z_field ''content'' (z_preprocess (parseIfJsonString parse) (z_optional z_record))"

definition position_field :: "json_parser \<Rightarrow> json obj \<Rightarrow> (rat \<times> rat) option checked" where
  "position_field parse =
     z_field ''position'' (z_preprocess (TolerantPositionPreprocess parse) (z_optional PositionSchema))"

definition AddNodeArgsSchema :: "json_parser \<Rightarrow> add_args schema" where
  "AddNodeArgsSchema parse = z_object (\<lambda>o'.
     map_sum id (\<lambda>(t, n, c, p). \<lparr>aa_type = t, aa_name = n, aa_content = c, aa_position = p\<rparr>)
       (z_and (z_field ''type'' (z_enum NODE_TYPES) o')
         (z_and (z_field ''name'' (z_checks [z_min1] z_string) o')
           (z_and (content_field parse o') (position_field parse o')))))"

definition patch_fields :: "json_parser \<Rightarrow> json obj \<Rightarrow> update_patch checked" where
  "patch_fields parse o' =
     map_sum id (\<lambda>(n, c, p). \<lparr>np_name = n, np_content = c, np_position = p\<rparr>)
       (z_and (z_field ''name'' (z_optional z_string) o') (z_and (content_field parse o') (position_field parse o')))"

definition UpdateNodePatchSchema :: "json_parser \<Rightarrow> update_patch schema" where
  "UpdateNodePatchSchema parse = z_object (patch_fields parse)"

definition empty_update :: string where
  "empty_update =
     ''update_node requires at least one of: patch.name, patch.content, or patch.position (or the top-level shorthand)''"

definition UpdateNodeArgsSchema :: "json_parser \<Rightarrow> update_args schema" where
  "UpdateNodeArgsSchema parse v =
     bind_sum (z_object (\<lambda>o'.
        z_and (z_field ''node_id'' (z_checks [z_min1] z_string) o')
          (z_and (z_field ''patch'' (z_preprocess (parseIfJsonString parse) (z_optional (UpdateNodePatchSchema parse))) o')
            (patch_fields parse o'))) v)
      (\<lambda>(node_id, patch, shorthand).
         case UpdateNodeArgs node_id patch shorthand of Some a \<Rightarrow> Inr a | None \<Rightarrow> Inl [([], Custom empty_update)])"

definition id_schema :: "string \<Rightarrow> string schema" where
  "id_schema k = z_object (z_field k (z_checks [z_min1] z_string))"

definition RemoveNodeArgsSchema :: "string schema" where
  "RemoveNodeArgsSchema = id_schema ''node_id''"

definition AddEdgeArgsSchema :: "edge_args schema" where
  "AddEdgeArgsSchema = z_object (\<lambda>o'.
     map_sum id (\<lambda>(s, t, sh, th). \<lparr>ea_source_id = s, ea_target_id = t, ea_source_handle = sh, ea_target_handle = th\<rparr>)
       (z_and (z_field ''source_id'' (z_checks [z_min1] z_string) o')
         (z_and (z_field ''target_id'' (z_checks [z_min1] z_string) o')
           (z_and (z_field ''source_handle'' (z_optional z_string) o')
             (z_field ''target_handle'' (z_optional z_string) o')))))"

definition RemoveEdgeArgsSchema :: "string schema" where
  "RemoveEdgeArgsSchema = id_schema ''edge_id''"

section \<open>The arguments of the rule tools\<close>

definition filename_class :: "char \<Rightarrow> bool" where
  "filename_class c = (between CHR ''A'' CHR ''Z'' c \<or> between CHR ''a'' CHR ''z'' c \<or> is_digit c \<or> c = CHR ''_'' \<or> c = CHR ''-'')"

definition tool_filename :: "string \<Rightarrow> bool" where
  "tool_filename = rx_test (rx_seq [AtStart, Many1 filename_class, lit ''.json'', AtEnd])"

definition filename_message :: string where
  "filename_message = ''Filename must end in .json and contain no path separators.''"

definition filename_schema :: "string schema" where
  "filename_schema = z_checks [z_min1, z_regex tool_filename filename_message] z_string"

record rule_file =
  rf_type :: string
  rf_name :: string

definition CreateRuleArgsSchema :: "rule_file schema" where
  "CreateRuleArgsSchema = z_object (\<lambda>o'.
     map_sum id (\<lambda>(t, n). \<lparr>rf_type = t, rf_name = n\<rparr>)
       (z_and (z_field ''rule_type'' (z_enum [''onboarding'', ''transaction-screening'']) o')
         (z_field ''filename'' filename_schema o')))"

definition RenameRuleArgsSchema :: "string schema" where
  "RenameRuleArgsSchema = z_object (z_field ''new_filename'' filename_schema)"

definition SimulateRuleArgsSchema :: "json_parser \<Rightarrow> json schema" where
  "SimulateRuleArgsSchema parse v =
     bind_sum (z_object (\<lambda>o'. z_and (Inr (obj_get o' ''context'')) (z_field ''context_json'' (z_optional z_string) o')) v)
      (\<lambda>(ctx, context_json). case simulate_context parse ctx context_json of
         Inr c \<Rightarrow> Inr c | Inl e \<Rightarrow> Inl [([''context_json''], Custom e)])"

section \<open>What is accepted\<close>

text \<open>After the tolerant preprocessing the position never has an issue.\<close>

lemma position_field_eq: "position_field parse o' = Inr (TolerantPosition parse (obj_get o' ''position''))"
proof -
  let ?p = "parseIfJsonString parse (obj_get o' ''position'')"
  have num: "js_typeof v = ''number'' \<longleftrightarrow> as_number v \<noteq> None" for v
    by (cases v rule: js_typeof.cases) auto
  have "z_optional PositionSchema (TolerantPositionPreprocess parse (obj_get o' ''position'')) =
      Inr (TolerantPosition parse (obj_get o' ''position''))"
    by (cases ?p rule: js_typeof.cases)
      (auto simp: TolerantPositionPreprocess_def TolerantPosition_def Let_def num z_optional_def PositionSchema_def
        z_object_def z_field_def z_number_def split: option.split)
  then show ?thesis
    by (simp add: position_field_def z_field_def z_preprocess_def)
qed

lemma content_field_Inr [accepts]:
  "content_field parse o' = Inr c \<longleftrightarrow>
     (let v = parseIfJsonString parse (obj_get o' ''content'') in c = v \<and> (v = None \<or> (\<exists>fs. v = Some (JObj fs))))"
  by (auto simp: content_field_def z_preprocess_def accepts Let_def)

lemma tool_filename_iff:
  "tool_filename n \<longleftrightarrow> (\<exists>b. b \<noteq> [] \<and> list_all filename_class b \<and> n = b @ ''.json'')"
proof -
  let ?r = "Seq (Many1 filename_class) (Seq (lit ''.json'') (Seq AtEnd Empty))"
  have "ends ?r (None, n) \<noteq> [] \<longleftrightarrow> (\<exists>b. b \<noteq> [] \<and> list_all filename_class b \<and> n = b @ ''.json'')"
  proof
    assume "ends ?r (None, n) \<noteq> []"
    then obtain x y where "(x, y) \<in> set (ends ?r (None, n))" by (metis last_in_set surj_pair)
    then obtain c m c' where "(c, m) \<in> set (many1 filename_class n)" "(c', []) \<in> set (ends (lit ''.json'') (c, m))"
      by (auto simp del: lit.simps split: if_splits)
    then show "\<exists>b. b \<noteq> [] \<and> list_all filename_class b \<and> n = b @ ''.json''"
      by (auto simp del: lit.simps dest!: snd_many1 ends_lit_rest)
  next
    assume "\<exists>b. b \<noteq> [] \<and> list_all filename_class b \<and> n = b @ ''.json''"
    then obtain b where b: "b \<noteq> []" "list_all filename_class b" "n = b @ ''.json''" by blast
    obtain c where c: "(c, ''.json'') \<in> set (many1 filename_class n)"
      using many1_append [OF b(1,2)] b(3) by blast
    obtain d where "(d, []) \<in> set (ends (lit ''.json'') (c, ''.json''))"
      using ends_lit_append [of "[]" "''.json''" c] by auto
    with c have "(d, []) \<in> set (ends ?r (None, n))" by force
    then show "ends ?r (None, n) \<noteq> []" by force
  qed
  then show ?thesis
    by (simp add: tool_filename_def rx_test_anchored)
qed

lemma no_separators: "\<not> filename_class CHR ''/''" "\<not> filename_class CHR 0x5C"
  by code_simp+

lemma tool_filename_no_path: "tool_filename n \<Longrightarrow> CHR ''/'' \<notin> set n \<and> CHR 0x5C \<notin> set n \<and> n \<noteq> []"
  using no_separators by (auto simp: tool_filename_iff list_all_iff)

lemma filename_schema_Inr [accepts]: "filename_schema v = Inr n \<longleftrightarrow> v = Some (JStr n) \<and> tool_filename n"
  by (auto simp: filename_schema_def accepts dest: tool_filename_no_path)

lemma CreateRule_Inr [accepts]:
  "CreateRuleArgsSchema v = Inr f \<longleftrightarrow> (\<exists>fs. v = Some (JObj fs) \<and> obj_get fs ''rule_type'' = Some (JStr (rf_type f)) \<and>
     obj_get fs ''filename'' = Some (JStr (rf_name f)) \<and> rf_type f \<in> {''onboarding'', ''transaction-screening''} \<and>
     tool_filename (rf_name f))"
  by (cases f) (auto simp: CreateRuleArgsSchema_def accepts)

lemma AddNode_Inr [accepts]:
  "AddNodeArgsSchema parse v = Inr a \<longleftrightarrow> (\<exists>fs. v = Some (JObj fs) \<and> obj_get fs ''type'' = Some (JStr (aa_type a)) \<and>
     aa_type a \<in> set NODE_TYPES \<and> obj_get fs ''name'' = Some (JStr (aa_name a)) \<and> aa_name a \<noteq> [] \<and>
     content_field parse fs = Inr (aa_content a) \<and> aa_position a = TolerantPosition parse (obj_get fs ''position''))"
  by (cases a) (auto simp: AddNodeArgsSchema_def accepts position_field_eq)

section \<open>The schemas the tools are declared with\<close>

text \<open>A field is optional and freely typed except where the declaration names a type. Keys that are not
  declared are dropped.\<close>

type_synonym param = "string \<times> (json option \<Rightarrow> issue list)"

definition loose :: "'a schema \<Rightarrow> json option \<Rightarrow> issue list" where
  "loose c v = (case z_optional c v of Inl es \<Rightarrow> es | Inr x \<Rightarrow> [])"

definition unknown :: "json option \<Rightarrow> issue list" where
  "unknown v = []"

definition declared_keys :: "param list \<Rightarrow> json obj \<Rightarrow> json obj" where
  "declared_keys shape fs = somes (\<lambda>(k, c). map_option (Pair k) (obj_get fs k)) shape"

definition z_params :: "param list \<Rightarrow> json schema" where
  "z_params shape = z_object (\<lambda>fs.
     let es = concat (map (\<lambda>(k, c). map (at_key k) (c (obj_get fs k))) shape)
     in if es = [] then Inr (JObj (declared_keys shape fs)) else Inl es)"

definition AddNodeToolParams :: "param list" where
  "AddNodeToolParams =
     [(''type'', loose (z_enum NODE_TYPES)), (''name'', loose z_string), (''content'', unknown), (''position'', unknown)]"

definition UpdateNodeToolParams :: "param list" where
  "UpdateNodeToolParams =
     [(''node_id'', loose z_string), (''patch'', unknown), (''name'', loose z_string), (''content'', unknown),
      (''position'', unknown)]"

definition RemoveNodeToolParams :: "param list" where
  "RemoveNodeToolParams = [(''node_id'', loose z_string)]"

definition AddEdgeToolParams :: "param list" where
  "AddEdgeToolParams =
     [(''source_id'', loose z_string), (''target_id'', loose z_string), (''source_handle'', loose z_string),
      (''target_handle'', loose z_string)]"

definition RemoveEdgeToolParams :: "param list" where
  "RemoveEdgeToolParams = [(''edge_id'', loose z_string)]"

definition SaveRuleToolParams :: "param list" where
  "SaveRuleToolParams = []"

definition RenameRuleToolParams :: "param list" where
  "RenameRuleToolParams = [(''new_filename'', loose z_string)]"

definition RuleFileToolParams :: "param list" where
  "RuleFileToolParams =
     [(''rule_type'', loose (z_enum [''onboarding'', ''transaction-screening''])), (''filename'', loose z_string)]"

definition SimulateRuleToolParams :: "param list" where
  "SimulateRuleToolParams = [(''context_json'', loose z_string)]"

section \<open>The tools\<close>

datatype tool =
  Tool_add_node | Tool_update_node | Tool_remove_node | Tool_add_edge | Tool_remove_edge
| Tool_save_rule | Tool_rename_rule | Tool_create_rule | Tool_delete_rule | Tool_open_rule | Tool_simulate_rule

datatype tool_input =
  In_add_node add_args
| In_update_node update_args
| In_remove_node string
| In_add_edge edge_args
| In_remove_edge string
| In_save_rule
| In_rename_rule string
| In_create_rule rule_file
| In_delete_rule rule_file
| In_open_rule rule_file
| In_simulate_rule json

fun tool_params :: "tool \<Rightarrow> param list" where
  "tool_params Tool_add_node = AddNodeToolParams"
| "tool_params Tool_update_node = UpdateNodeToolParams"
| "tool_params Tool_remove_node = RemoveNodeToolParams"
| "tool_params Tool_add_edge = AddEdgeToolParams"
| "tool_params Tool_remove_edge = RemoveEdgeToolParams"
| "tool_params Tool_save_rule = SaveRuleToolParams"
| "tool_params Tool_rename_rule = RenameRuleToolParams"
| "tool_params Tool_create_rule = RuleFileToolParams"
| "tool_params Tool_delete_rule = RuleFileToolParams"
| "tool_params Tool_open_rule = RuleFileToolParams"
| "tool_params Tool_simulate_rule = SimulateRuleToolParams"

text \<open>What \<open>render\<close> does with the arguments first; \<open>save_rule\<close> does not look at them.\<close>

fun safeParse :: "json_parser \<Rightarrow> tool \<Rightarrow> tool_input schema" where
  "safeParse parse Tool_add_node v = map_sum id In_add_node (AddNodeArgsSchema parse v)"
| "safeParse parse Tool_update_node v = map_sum id In_update_node (UpdateNodeArgsSchema parse v)"
| "safeParse parse Tool_remove_node v = map_sum id In_remove_node (RemoveNodeArgsSchema v)"
| "safeParse parse Tool_add_edge v = map_sum id In_add_edge (AddEdgeArgsSchema v)"
| "safeParse parse Tool_remove_edge v = map_sum id In_remove_edge (RemoveEdgeArgsSchema v)"
| "safeParse parse Tool_save_rule v = Inr In_save_rule"
| "safeParse parse Tool_rename_rule v = map_sum id In_rename_rule (RenameRuleArgsSchema v)"
| "safeParse parse Tool_create_rule v = map_sum id In_create_rule (CreateRuleArgsSchema v)"
| "safeParse parse Tool_delete_rule v = map_sum id In_delete_rule (CreateRuleArgsSchema v)"
| "safeParse parse Tool_open_rule v = map_sum id In_open_rule (CreateRuleArgsSchema v)"
| "safeParse parse Tool_simulate_rule v = map_sum id In_simulate_rule (SimulateRuleArgsSchema parse v)"

section \<open>Declared and strict schemas\<close>

lemma z_params_Inr [accepts]:
  "z_params shape v = Inr w \<longleftrightarrow>
     (\<exists>fs. v = Some (JObj fs) \<and> (\<forall>(k, c) \<in> set shape. c (obj_get fs k) = []) \<and> w = JObj (declared_keys shape fs))"
  by (auto simp: z_params_def z_object_def Let_def split: prod.splits option.splits json.splits)

lemma loose_ok [simp]: "loose c None = []" "c v = Inr x \<Longrightarrow> loose c v = []"
  by (cases v; simp add: loose_def z_optional_def)+

lemma loose_enum [simp]: "s \<in> set vals \<Longrightarrow> loose (z_enum vals) (Some (JStr s)) = []"
  by (simp add: loose_def z_optional_def z_enum_def)

lemma unknown_ok [simp]: "unknown v = []"
  by (simp add: unknown_def)

lemma obj_get_declared:
  "distinct (map fst shape) \<Longrightarrow>
     obj_get (declared_keys shape fs) k = (if k \<in> fst ` set shape then obj_get fs k else None)"
  by (induction shape) (auto simp: declared_keys_def split: option.split)

lemmas tool_params_defs = AddNodeToolParams_def UpdateNodeToolParams_def RemoveNodeToolParams_def
  AddEdgeToolParams_def RemoveEdgeToolParams_def SaveRuleToolParams_def RenameRuleToolParams_def
  RuleFileToolParams_def SimulateRuleToolParams_def

lemmas strict_schema_defs = AddNodeArgsSchema_def UpdateNodeArgsSchema_def RemoveNodeArgsSchema_def
  AddEdgeArgsSchema_def RemoveEdgeArgsSchema_def RenameRuleArgsSchema_def CreateRuleArgsSchema_def
  SimulateRuleArgsSchema_def id_schema_def patch_fields_def UpdateNodePatchSchema_def


text \<open>A declared field with a type does fail: a node kind that does not exist never reaches the card, whose
  own schema would have answered with the list of kinds.\<close>

lemma declaration_rejects_unknown_kind:
  "k \<notin> set NODE_TYPES \<Longrightarrow> obj_get fs ''type'' = Some (JStr k) \<Longrightarrow> \<exists>es. z_params AddNodeToolParams (Some (JObj fs)) = Inl es \<and> es \<noteq> []"
  by (auto simp: z_params_def z_object_def AddNodeToolParams_def loose_def z_optional_def z_enum_def Let_def)

section \<open>The forms an argument may have\<close>

text \<open>The fields that may be objects or their JSON text.\<close>

definition encodable :: "tool \<Rightarrow> string list" where
  "encodable t = (case t of
     Tool_add_node \<Rightarrow> [''content'', ''position''] | Tool_update_node \<Rightarrow> [''patch'', ''content'', ''position'']
   | Tool_simulate_rule \<Rightarrow> [''context''] | _ \<Rightarrow> [])"

text \<open>C23. An object passed as its JSON text is read as the object itself, in every field that takes one.\<close>

theorem encoded_arguments_agree:
  assumes "k \<in> set (encodable t)" and "parse txt = Inr (JObj c)"
  shows "safeParse parse t (Some (JObj (obj_set k (JStr txt) fs))) = safeParse parse t (Some (JObj (obj_set k (JObj c) fs)))"
proof -
  have read: "parseIfJsonString parse (Some (JStr txt)) = parseIfJsonString parse (Some (JObj c))"
    using assms(2) by (simp add: parseIfJsonString_def)
  have position: "TolerantPosition parse (Some (JStr txt)) = TolerantPosition parse (Some (JObj c))"
    by (simp only: TolerantPosition_def read)
  have ctx: "simulate_context parse (Some (JStr txt)) cj = simulate_context parse (Some (JObj c)) cj" for cj
    by (simp only: simulate_context_def read)
  have sim: "SimulateRuleArgsSchema parse (Some (JObj (obj_set ''context'' (JStr txt) fs))) =
      SimulateRuleArgsSchema parse (Some (JObj (obj_set ''context'' (JObj c) fs)))"
    by (cases "z_optional z_string (obj_get fs ''context_json'')")
      (simp_all add: SimulateRuleArgsSchema_def z_object_def z_field_def ctx)
  show ?thesis
    using assms(1)
    by (cases t) (auto simp: encodable_def sim AddNodeArgsSchema_def UpdateNodeArgsSchema_def patch_fields_def
        z_object_def z_field_def content_field_def position_field_eq z_preprocess_def read position)
qed

lemma patch_fields_Cons:
  "k \<notin> {''name'', ''content'', ''position''} \<Longrightarrow> patch_fields parse ((k, v) # p) = patch_fields parse p"
  by (auto simp: patch_fields_def z_field_def content_field_def position_field_def)

lemma patch_fields_Nil:
  "patch_fields parse [] = Inr \<lparr>np_name = None, np_content = None, np_position = None\<rparr>"
  by (simp add: patch_fields_def z_field_def content_field_def position_field_eq TolerantPosition_def z_preprocess_def
      z_optional_def parseIfJsonString_def)

text \<open>The changes of \<open>update_node\<close> may be nested under \<open>patch\<close> or stand beside the id.\<close>

theorem update_forms_agree:
  assumes "obj_get p ''node_id'' = None" and "obj_get p ''patch'' = None"
  shows "UpdateNodeArgsSchema parse (Some (JObj [(''node_id'', JStr i), (''patch'', JObj p)])) = Inr a \<longleftrightarrow>
    UpdateNodeArgsSchema parse (Some (JObj ((''node_id'', JStr i) # p))) = Inr a"
proof -
  have nested: "patch_fields parse [(''node_id'', JStr i), (''patch'', JObj p)] =
      Inr \<lparr>np_name = None, np_content = None, np_position = None\<rparr>"
    and beside: "patch_fields parse ((''node_id'', JStr i) # p) = patch_fields parse p" for i
    by (simp_all add: patch_fields_Cons patch_fields_Nil)
  show ?thesis
    using assms
    by (cases "i = []"; cases "patch_fields parse p")
      (auto simp: UpdateNodeArgsSchema_def z_object_def nested beside z_field_def z_preprocess_def z_optional_def
        UpdateNodePatchSchema_def UpdateNodeArgs_def parseIfJsonString_def z_checks_def z_string_def Let_def
        z_min1_def split: option.splits if_splits)
qed

section \<open>Witnesses\<close>


theorem encoded_arguments_agree_witness:
  "safeParse (\<lambda>t. Inr (JObj [])) Tool_add_node (Some (JObj (obj_set ''content'' (JStr ''{}'') [(''name'', JStr ''Score'')]))) =
   safeParse (\<lambda>t. Inr (JObj [])) Tool_add_node (Some (JObj (obj_set ''content'' (JObj []) [(''name'', JStr ''Score'')])))"
  by (rule encoded_arguments_agree) (simp_all add: encodable_def)

theorem update_forms_agree_witness:
  "UpdateNodeArgsSchema (\<lambda>t. Inl []) (Some (JObj [(''node_id'', JStr ''1''), (''patch'', JObj [(''name'', JStr ''Score'')])])) =
     Inr \<lparr>ua_node_id = ''1'', ua_patch = \<lparr>np_name = Some ''Score'', np_content = None, np_position = None\<rparr>\<rparr> \<longleftrightarrow>
   UpdateNodeArgsSchema (\<lambda>t. Inl []) (Some (JObj [(''node_id'', JStr ''1''), (''name'', JStr ''Score'')])) =
     Inr \<lparr>ua_node_id = ''1'', ua_patch = \<lparr>np_name = Some ''Score'', np_content = None, np_position = None\<rparr>\<rparr>"
  by (rule update_forms_agree) simp_all

end
