(* ===== verification/Rule_App.thy ===== *)
theory Rule_App
  imports Rule_Session Tool_Args Url_Text
begin

text \<open>
  The pages around the rule editor: the list of rules
  (\<open>example-apps/atomic-fi-jdm-editor/src/pages/rules-index.tsx\<close>), the gate that asks for the API key
  (\<open>features/connect/\<close>, \<open>helpers/clients.ts\<close>, \<open>app.tsx\<close>), the theme (\<open>context/theme.provider.tsx\<close>) and the
  messages of errors (\<open>helpers/error-message.ts\<close>, \<open>components/app-error-boundary.tsx\<close>).

  The answers of the server are arguments of the replies. The route a new rule goes to is kept as its type
  and name; what the page makes of the escaped name is the matter of \<open>Rule_Page\<close>.
\<close>

section \<open>Messages of errors\<close>

text \<open>What is thrown: a value with a text \<open>message\<close>, another object (with its \<open>toString()\<close>), or neither.\<close>

datatype thrown = With_message string | An_object string | A_primitive

fun errorMessage :: "thrown \<Rightarrow> string" where
  "errorMessage (With_message m) = m"
| "errorMessage (An_object s) = s"
| "errorMessage A_primitive = ''Unknown error''"

record boundary =
  eb_hasError :: bool
  eb_message :: string

definition getDerivedStateFromError :: "thrown \<Rightarrow> boundary" where
  "getDerivedStateFromError e = \<lparr>eb_hasError = True, eb_message = errorMessage e\<rparr>"

section \<open>The list of rules\<close>

record index_page =
  ix_ruleType :: string
  ix_rules :: "listing option"
  ix_filter :: string
  ix_loading :: bool
  ix_error :: "string option"
  ix_messages :: "string list"
  ix_route :: "(string \<times> string \<times> bool) option"

definition refresh_start :: "index_page \<Rightarrow> index_page" where
  "refresh_start s = s\<lparr>ix_loading := True, ix_error := None\<rparr>"

definition refresh_end :: "thrown + listing \<Rightarrow> index_page \<Rightarrow> index_page" where
  "refresh_end r s =
     (case r of Inr l \<Rightarrow> s\<lparr>ix_rules := Some l\<rparr> | Inl e \<Rightarrow> s\<lparr>ix_error := Some (errorMessage e)\<rparr>)\<lparr>ix_loading := False\<rparr>"

definition rules_of :: "string \<Rightarrow> listing option \<Rightarrow> string list option" where
  "rules_of t l = map_option (\<lambda>(onboarding, screening). if t = ''onboarding'' then onboarding else screening) l"

definition visibleRules :: "index_page \<Rightarrow> string list" where
  "visibleRules s =
     (let all_rules = nullish (rules_of (ix_ruleType s) (ix_rules s)) [];
          q = toLowerCase (trim (ix_filter s)) in
      if q \<noteq> [] then filter (\<lambda>n. includes_str (toLowerCase n) q) all_rules else all_rules)"

definition setFilter :: "string \<Rightarrow> index_page \<Rightarrow> index_page" where
  "setFilter q s = s\<lparr>ix_filter := q\<rparr>"

definition selectTab :: "string \<Rightarrow> index_page \<Rightarrow> index_page" where
  "selectTab t s = s\<lparr>ix_ruleType := route_ruleType (Some t)\<rparr>"

definition good_filename :: "string \<Rightarrow> bool" where
  "good_filename n = (ends_with n ''.json'' \<and> CHR ''/'' \<notin> set n \<and> CHR 0x5C \<notin> set n)"

definition handleNewRule :: "string option \<Rightarrow> index_page \<Rightarrow> index_page" where
  "handleNewRule raw s =
     (if \<not> truthy raw then s
      else let name = trim (the raw) in
        if \<not> good_filename name
        then s\<lparr>ix_messages := ix_messages s @ [''Filename must end in .json and contain no path separators.'']\<rparr>
        else s\<lparr>ix_route := Some (ix_ruleType s, name, True)\<rparr>)"

definition delete_end :: "string \<Rightarrow> thrown option \<Rightarrow> index_page \<Rightarrow> index_page" where
  "delete_end name err s =
     (case err of
        None \<Rightarrow> refresh_start (s\<lparr>ix_messages := ix_messages s @ [''Deleted '' @ name]\<rparr>)
      | Some e \<Rightarrow> s\<lparr>ix_messages := ix_messages s @ [errorMessage e]\<rparr>)"

definition countLabel :: "index_page \<Rightarrow> string" where
  "countLabel s =
     (if ix_loading s then ''loading'' @ [CHR 0xE2, CHR 0x80, CHR 0xA6]
      else (case rules_of (ix_ruleType s) (ix_rules s) of
              Some rs \<Rightarrow> nat_to_string (length (visibleRules s)) @ '' of '' @ nat_to_string (length rs)
            | None \<Rightarrow> [CHR 0xE2, CHR 0x80, CHR 0x94]))"

definition tab_count :: "index_page \<Rightarrow> string \<Rightarrow> string" where
  "tab_count s t = (case rules_of t (ix_rules s) of
     Some rs \<Rightarrow> nat_to_string (length rs) | None \<Rightarrow> [CHR 0xC2, CHR 0xB7])"

definition empty_text :: "string \<Rightarrow> bool \<Rightarrow> string" where
  "empty_text t hasFilter =
     (if hasFilter then ''No rules match this filter.''
      else ''No '' @ toLowerCase (RULE_TYPE_LABELS t) @ '' rules yet.'')"

datatype index_view =
  Ix_error string
| Ix_empty string bool
| Ix_rows "(string \<times> string) list"

definition index_view :: "index_page \<Rightarrow> index_view" where
  "index_view s =
     (if truthy (ix_error s) then Ix_error (''Could not load rules. '' @ the (ix_error s))
      else if \<not> ix_loading s \<and> visibleRules s = []
      then Ix_empty (empty_text (ix_ruleType s) (trim (ix_filter s) \<noteq> [])) (trim (ix_filter s) = [])
      else Ix_rows (map (\<lambda>n. (n, ''/rules/'' @ ix_ruleType s @ ''/'' @ encodeURIComponent n)) (visibleRules s)))"

text \<open>The tabs: key, label, count and whether the tab is the selected one. A row: its name and target, and what the
  question before a deletion says.\<close>

definition index_tabs :: "index_page \<Rightarrow> (string \<times> string \<times> string \<times> bool) list" where
  "index_tabs s = map (\<lambda>t. (t, RULE_TYPE_LABELS t, tab_count s t, t = ix_ruleType s)) RULE_TYPES"

record list_row =
  rr_name :: string
  rr_href :: string
  rr_question :: string
  rr_warning :: string
  rr_buttons :: "string list"

definition RuleRow :: "string \<times> string \<Rightarrow> list_row" where
  "RuleRow nh = \<lparr>rr_name = fst nh, rr_href = snd nh, rr_question = ''Delete rule?'',
     rr_warning = ''This will remove '' @ fst nh @ '' from the rules directory.'', rr_buttons = [''Delete'', ''Cancel'']\<rparr>"

text \<open>The page as it is mounted, with the first reading of the lists under way.\<close>

definition index_open :: "string option \<Rightarrow> index_page" where
  "index_open ruleTypeParam = refresh_start
     \<lparr>ix_ruleType = route_ruleType ruleTypeParam, ix_rules = None, ix_filter = [], ix_loading = False, ix_error = None,
      ix_messages = [], ix_route = None\<rparr>"

lemma visible_are_rules: "set (visibleRules s) \<subseteq> set (nullish (rules_of (ix_ruleType s) (ix_rules s)) [])"
  by (auto simp: visibleRules_def Let_def)

lemma visible_all: "trim (ix_filter s) = [] \<Longrightarrow> visibleRules s = nullish (rules_of (ix_ruleType s) (ix_rules s)) []"
  by (simp add: visibleRules_def toLowerCase_def)

text \<open>The page accepts every name the tools accept, and names they refuse: such a rule can be made by hand
  and then not be opened, renamed to or deleted by the copilot.\<close>

lemma tool_names_are_good: "tool_filename n \<Longrightarrow> good_filename n"
proof -
  assume *: "tool_filename n"
  then obtain b where b: "n = b @ ''.json''"
    by (auto simp: tool_filename_iff)
  then show ?thesis
    using tool_filename_no_path [OF *]
    by (simp add: good_filename_def ends_with_append [of b "''.json''", simplified])
qed

lemma page_takes_names_the_tools_refuse:
  "good_filename ''my rule.json'' \<and> \<not> tool_filename ''my rule.json'' \<and> good_filename ''.json'' \<and> \<not> tool_filename ''.json''"
  by code_simp

section \<open>The gate\<close>

definition storedApiKey :: "string option \<Rightarrow> string option" where
  "storedApiKey held = held"

text \<open>\<open>verify\<close>: \<open>None\<close> when the server accepts the key, else the status (if any) and the message.\<close>

type_synonym rejection = "nat option \<times> thrown"

definition verifyApiKey :: "(string \<Rightarrow> rejection option) \<Rightarrow> string \<Rightarrow> string option \<Rightarrow> rejection option \<times> string option" where
  "verifyApiKey verify apiKey held =
     (let trimmed = trim apiKey in
      if trimmed = [] then (Some (None, With_message ''API key is required''), held)
      else (case verify trimmed of Some e \<Rightarrow> (Some e, held) | None \<Rightarrow> (None, Some trimmed)))"

record gate_page =
  gp_apiKey :: string
  gp_connecting :: bool
  gp_error :: "string option"

record editor_app =
  ea_slot :: "string option"
  ea_connected :: bool
  ea_gate :: gate_page

definition editor_open :: "string option \<Rightarrow> editor_app" where
  "editor_open held = \<lparr>ea_slot = held, ea_connected = (storedApiKey held \<noteq> None),
     ea_gate = \<lparr>gp_apiKey = [], gp_connecting = False, gp_error = None\<rparr>\<rparr>"

definition connect_start :: "editor_app \<Rightarrow> editor_app" where
  "connect_start s =
     (if gp_connecting (ea_gate s) \<or> trim (gp_apiKey (ea_gate s)) = [] then s
      else s\<lparr>ea_gate := (ea_gate s)\<lparr>gp_connecting := True, gp_error := None\<rparr>\<rparr>)"

definition gate_message :: "rejection \<Rightarrow> string" where
  "gate_message r =
     (if fst r = Some 401 then ''That API key was rejected. Check the key and try again.'' else errorMessage (snd r))"

definition connect_end :: "(string \<Rightarrow> rejection option) \<Rightarrow> editor_app \<Rightarrow> editor_app" where
  "connect_end verify s =
     (case verifyApiKey verify (gp_apiKey (ea_gate s)) (ea_slot s) of
        (None, held) \<Rightarrow> s\<lparr>ea_slot := held, ea_connected := True\<rparr>
      | (Some r, held) \<Rightarrow>
          s\<lparr>ea_slot := held, ea_gate := (ea_gate s)\<lparr>gp_error := Some (gate_message r), gp_connecting := False\<rparr>\<rparr>)"

datatype gate_event = Type_key string | Submit_key | Verified "string \<Rightarrow> rejection option"

fun gate_step :: "editor_app \<Rightarrow> gate_event \<Rightarrow> editor_app" where
  "gate_step s (Type_key k) =
     (if ea_connected s \<or> gp_connecting (ea_gate s) then s else s\<lparr>ea_gate := (ea_gate s)\<lparr>gp_apiKey := k\<rparr>\<rparr>)"
| "gate_step s Submit_key = (if ea_connected s then s else connect_start s)"
| "gate_step s (Verified v) = (if ea_connected s \<or> \<not> gp_connecting (ea_gate s) then s else connect_end v s)"

text \<open>The interceptor: the key a request carries.\<close>

definition request_key :: "string option \<Rightarrow> string option \<Rightarrow> string option" where
  "request_key own held =
     (case own of Some k \<Rightarrow> Some k
      | None \<Rightarrow> if truthy (storedApiKey held) then storedApiKey held else None)"

definition gate_inv :: "editor_app \<Rightarrow> bool" where
  "gate_inv s = ((ea_connected s \<longleftrightarrow> ea_slot s \<noteq> None) \<and> ea_slot s \<noteq> Some [] \<and>
     (gp_connecting (ea_gate s) \<longrightarrow> trim (gp_apiKey (ea_gate s)) \<noteq> []))"

interpretation gate: machine gate_step gate_inv
proof
  fix s e
  assume "gate_inv s"
  then show "gate_inv (gate_step s e)"
    by (cases e) (auto simp: gate_inv_def connect_start_def connect_end_def verifyApiKey_def Let_def
        split: option.splits)
qed

text \<open>Past the gate every request carries a key that is not empty.\<close>

lemma requests_carry_the_key:
  assumes "held \<noteq> Some []" and "ea_connected (run gate_step (editor_open held) es)"
  shows "truthy (request_key None (ea_slot (run gate_step (editor_open held) es)))"
proof -
  have "gate_inv (editor_open held)"
    using assms(1) by (auto simp: gate_inv_def editor_open_def storedApiKey_def)
  from gate.run_inv [OF this, of es] assms(2) show ?thesis
    by (auto simp: gate_inv_def request_key_def storedApiKey_def)
qed

text \<open>A key the server refuses changes nothing but the message.\<close>

lemma refused_key_is_not_kept:
  "trim (gp_apiKey (ea_gate s)) \<noteq> [] \<Longrightarrow> v (trim (gp_apiKey (ea_gate s))) = Some (Some 401, e) \<Longrightarrow>
   connect_end v s = s\<lparr>ea_gate := (ea_gate s)\<lparr>gp_error := Some ''That API key was rejected. Check the key and try again.'',
     gp_connecting := False\<rparr>\<rparr>"
  by (simp add: connect_end_def verifyApiKey_def gate_message_def Let_def)

section \<open>The theme\<close>

datatype theme_preference = Automatic | Dark | Light

fun theme_name :: "theme_preference \<Rightarrow> string" where
  "theme_name Automatic = ''automatic''"
| "theme_name Dark = ''dark''"
| "theme_name Light = ''light''"

record themes =
  th_preference :: theme_preference
  th_automaticDark :: bool
  th_storage :: "string option"

definition load_theme :: "string option \<Rightarrow> bool \<Rightarrow> themes" where
  "load_theme stored media =
     \<lparr>th_preference = (if stored = Some ''dark'' then Dark else if stored = Some ''light'' then Light else Automatic),
      th_automaticDark = media, th_storage = stored\<rparr>"

definition isDarkTheme :: "themes \<Rightarrow> bool" where
  "isDarkTheme s = (case th_preference s of Dark \<Rightarrow> True | Light \<Rightarrow> False | Automatic \<Rightarrow> th_automaticDark s)"

definition setThemePreference :: "theme_preference \<Rightarrow> themes \<Rightarrow> themes" where
  "setThemePreference p s = s\<lparr>th_preference := p, th_storage := Some (theme_name p)\<rparr>"

definition media_changed :: "bool \<Rightarrow> themes \<Rightarrow> themes" where
  "media_changed m s = s\<lparr>th_automaticDark := m\<rparr>"

lemma theme_survives_reload:
  "load_theme (th_storage (setThemePreference p s)) (th_automaticDark s) = setThemePreference p s"
  by (cases p) (simp_all add: load_theme_def setThemePreference_def)

lemma fixed_theme_ignores_media: "p \<noteq> Automatic \<Longrightarrow> isDarkTheme (media_changed m (setThemePreference p s)) = (p = Dark)"
  by (cases p) (simp_all add: isDarkTheme_def media_changed_def setThemePreference_def)

text \<open>What depends on the theme: the attribute of the body, the algorithm of the components and the mode of the
  graph editor.\<close>

definition theme_attributes :: "themes \<Rightarrow> string obj" where
  "theme_attributes s =
     [(''data-theme'', if isDarkTheme s then ''dark'' else ''light''),
      (''algorithm'', if isDarkTheme s then ''darkAlgorithm'' else ''defaultAlgorithm''),
      (''mode'', if isDarkTheme s then ''dark'' else ''light'')]"

text \<open>The gate: disabled input, the message, and the button with its state.\<close>

record gate_card =
  gc_input_disabled :: bool
  gc_error :: "string option"
  gc_loading :: bool
  gc_enabled :: bool

definition gate_card :: "gate_page \<Rightarrow> gate_card" where
  "gate_card g =
     \<lparr>gc_input_disabled = gp_connecting g, gc_error = (if truthy (gp_error g) then gp_error g else None),
      gc_loading = gp_connecting g, gc_enabled = (trim (gp_apiKey g) \<noteq> [])\<rparr>"

section \<open>Errors of the copilot\<close>

text \<open>\<open>handleCopilotError\<close>: a text, or the first field that holds one.\<close>

definition copilot_error :: "string option \<Rightarrow> string option \<Rightarrow> string option \<Rightarrow> string option \<Rightarrow> string" where
  "copilot_error event msg inner code =
     ''Copilot error: '' @ js_or_str (js_or event (js_or msg (js_or inner code))) ''unknown copilot error''"

end
