(* ===== verification/Rule_Simulator.thy ===== *)
theory Rule_Simulator
  imports Rule_Session
begin

text \<open>
  Running a rule: the client of the rule engine (\<open>example-apps/atomic-fi-jdm-editor/src/helpers/simulator.ts\<close>),
  the copilot's \<open>simulate_rule\<close> (\<open>copilot/actions/use-simulate-action.tsx\<close>), the simulator panel of the page
  (\<open>pages/decision-simple.tsx\<close>) and what the page tells the agent (\<open>copilot/use-editor-readables.ts\<close>).

  The engine is a program of its own: its answer is an argument. \<open>JSON.stringify(x, null, 2)\<close> is the
  argument \<open>pretty\<close>.
\<close>

section \<open>The engine's client\<close>

text \<open>An answer, an error of the HTTP client (the response it carries, if any, and its own message), or
  any other exception.\<close>

datatype zen_reply =
  Zen_data "json option"
| Zen_error "(nat \<times> json option) option" string
| Zen_throws string

record sim_error =
  se_message :: string
  se_nodeId :: "json option"

record simulation =
  sim_performance :: json
  sim_result :: "json option"
  sim_snapshot :: graph
  sim_trace :: json
  sim_error :: "sim_error option"

record sim_input =
  si_graph :: graph
  si_context :: json

definition message_parts :: "json option \<Rightarrow> string list" where
  "message_parts err =
     (case as_string (jget err ''type'') of None \<Rightarrow> [] | Some t \<Rightarrow> [t]) @
     (case as_string (jget err ''source'') of
        Some s \<Rightarrow> [s]
      | None \<Rightarrow> (case as_string (jget err ''message'') of
                  Some s \<Rightarrow> [s]
                | None \<Rightarrow> (case as_string (jget err ''detail'') of Some s \<Rightarrow> [s] | None \<Rightarrow> [])))"

definition http_tag :: "nat \<Rightarrow> string" where
  "http_tag status = ''[HTTP '' @ nat_to_string status @ ''] ''"

definition composedMessage :: "nat \<Rightarrow> json option \<Rightarrow> string \<Rightarrow> string" where
  "composedMessage status err fallback =
     http_tag status @ (if message_parts err \<noteq> [] then join '': '' (message_parts err) else fallback)"

definition error_body :: "nat \<Rightarrow> json option \<Rightarrow> json" where
  "error_body status err =
     JObj ((''status'', JNum (of_nat status)) # (case err of None \<Rightarrow> [] | Some b \<Rightarrow> [(''body'', b)]))"

definition richMessage :: "(json \<Rightarrow> string) \<Rightarrow> nat \<Rightarrow> json option \<Rightarrow> string \<Rightarrow> string" where
  "richMessage pretty status err fallback =
     (let nl = [CHR 0x0A] in
      composedMessage status err fallback @ nl @ nl @ ''ZenRule response:'' @ nl @ ''```json'' @ nl @
      pretty (error_body status err) @ nl @ ''```'')"

definition runSimulation :: "(json \<Rightarrow> string) \<Rightarrow> sim_input \<Rightarrow> zen_reply \<Rightarrow> string + simulation" where
  "runSimulation pretty inp reply =
     (case reply of
        Zen_data d \<Rightarrow>
          Inr \<lparr>sim_performance = nullish (jget d ''performance'') (JStr []), sim_result = jget d ''result'',
               sim_snapshot = si_graph inp, sim_trace = nullish (jget d ''trace'') (JObj []), sim_error = None\<rparr>
      | Zen_error resp msg \<Rightarrow>
          (let errData = Option.bind resp snd; status = (case resp of None \<Rightarrow> 0 | Some (st, b) \<Rightarrow> st) in
           Inr \<lparr>sim_performance = JStr [], sim_result = Some JNull, sim_snapshot = si_graph inp,
                sim_trace = nullish (jget errData ''trace'') (JObj []),
                sim_error = Some \<lparr>se_message = richMessage pretty status errData msg, se_nodeId = jget errData ''nodeId''\<rparr>\<rparr>)
      | Zen_throws msg \<Rightarrow> Inl msg)"

section \<open>The copilot's tool\<close>

definition issue_reason :: "(string list \<times> string) list \<Rightarrow> string" where
  "issue_reason issues =
     join ''; '' (map (\<lambda>(path, msg). (if join ''.'' path = [] then ''<root>'' else join ''.'' path) @ '': '' @ msg) issues)"

definition error_json :: "sim_error option \<Rightarrow> json" where
  "error_json e = (case e of None \<Rightarrow> JNull
     | Some x \<Rightarrow> JObj [(''message'', JStr (se_message x)),
                     (''data'', JObj (case se_nodeId x of None \<Rightarrow> [] | Some n \<Rightarrow> [(''nodeId'', n)]))])"

definition simulation_answer :: "simulation \<Rightarrow> json" where
  "simulation_answer sim =
     JObj [(''accepted'', JBool True), (''result'', nullish (sim_result sim) JNull),
           (''trace'', sim_trace sim), (''error'', error_json (sim_error sim))]"

text \<open>Apply on a valid call: the answer for the tool call, and the simulation the page keeps.\<close>

definition simulate_apply :: "(json \<Rightarrow> string) \<Rightarrow> json \<Rightarrow> zen_reply \<Rightarrow> session \<Rightarrow> json \<times> simulation option" where
  "simulate_apply pretty ctx reply s =
     (case runSimulation pretty \<lparr>si_graph = s_graph s, si_context = ctx\<rparr> reply of
        Inr sim \<Rightarrow> (simulation_answer sim, Some sim)
      | Inl e \<Rightarrow> (rejected e, None))"

text \<open>The card of a call: invalid arguments are only acknowledged.\<close>

definition simulate_call ::
  "json_parser \<Rightarrow> (json \<Rightarrow> string) \<Rightarrow> json option \<Rightarrow> string option \<Rightarrow> zen_reply \<Rightarrow> session \<Rightarrow> json \<times> simulation option" where
  "simulate_call parse pretty ctx context_json reply s =
     (case simulate_context parse ctx context_json of
        Inl e \<Rightarrow> (rejected (issue_reason [([''context_json''], e)]), None)
      | Inr c \<Rightarrow> simulate_apply pretty c reply s)"

section \<open>The simulator panel\<close>

record panel =
  pl_trace :: "simulation option"
  pl_last :: "simulation option"
  pl_messages :: "string list"

definition run_panel :: "(json \<Rightarrow> string) \<Rightarrow> session \<Rightarrow> sim_input \<Rightarrow> zen_reply \<Rightarrow> panel \<Rightarrow> panel" where
  "run_panel pretty s inp reply p =
     (if s_name s = [] then p\<lparr>pl_messages := pl_messages p @ [''Save the rule before simulating.'']\<rparr>
      else
        let p = (if dirty s then p\<lparr>pl_messages := pl_messages p @
               [''Simulator evaluates the last saved version. Save your changes first.'']\<rparr> else p) in
        case runSimulation pretty inp reply of
          Inl e \<Rightarrow> p\<lparr>pl_messages := pl_messages p @ [e]\<rparr>
        | Inr sim \<Rightarrow>
            p\<lparr>pl_trace := Some sim, pl_last := Some sim,
              pl_messages := pl_messages p @ (case sim_error sim of None \<Rightarrow> []
                | Some e \<Rightarrow> if se_message e = [] then [] else [se_message e])\<rparr>)"

definition clear_panel :: "panel \<Rightarrow> panel" where
  "clear_panel p = p\<lparr>pl_trace := None\<rparr>"

section \<open>What the agent is told\<close>

definition rule_meta :: "session \<Rightarrow> json" where
  "rule_meta s =
     JObj [(''rule_type'', JStr (s_ruleType s)), (''filename'', JStr (s_name s)), (''is_new'', JBool (s_isNew s)),
           (''dirty'', JBool (dirty s)), (''saved_revision'', JNum (of_nat (s_savedRevision s)))]"

section \<open>Properties\<close>

text \<open>The engine evaluates the saved file: \<open>engine\<close> is its answer for a graph and a context.\<close>

definition evaluate :: "(graph option \<Rightarrow> json \<Rightarrow> zen_reply) \<Rightarrow> session \<Rightarrow> json \<Rightarrow> zen_reply" where
  "evaluate engine s ctx = engine (open_file s) ctx"


text \<open>With unsaved changes the trace of the saved file is put on the graph on screen.\<close>

lemma unsaved_simulation_shows_another_graph:
  "simulate_apply pretty ctx (Zen_data d) s = (answer, Some sim) \<Longrightarrow> sim_snapshot sim = s_graph s"
  by (auto simp: simulate_apply_def runSimulation_def)

text \<open>An error of the engine is a simulation with an error and not an exception; its message carries the
  status. The tool accepts the call all the same.\<close>

lemma engine_error_is_reported:
  assumes "simulate_apply pretty ctx (Zen_error (Some (status, body)) msg) s = (answer, sim)"
  shows "jget (Some answer) ''accepted'' = Some (JBool True) \<and> sim \<noteq> None \<and>
    (\<exists>e. sim_error (the sim) = Some e \<and> starts_with (se_message e) (http_tag status))"
  using assms by (auto simp: simulate_apply_def runSimulation_def simulation_answer_def Let_def richMessage_def
      composedMessage_def starts_with_iff)

lemma message_without_body: "composedMessage status None msg = http_tag status @ msg"
  by (simp add: composedMessage_def message_parts_def)


end
