(* ===== verification/Rule_Page.thy ===== *)
theory Rule_Page
  imports Rule_App Rule_Simulator Url_Text
begin

text \<open>
  The rule editor around its session: the routes (\<open>example-apps/atomic-fi-jdm-editor/src/app.tsx\<close>) and the
  name a route carries, the requests of \<open>helpers/rules-api.ts\<close> and \<open>helpers/simulator.ts\<close>, what the page
  shows (\<open>pages/decision-simple.tsx\<close>), what it tells the agent (\<open>copilot/use-editor-readables.ts\<close>), and
  the handlers of errors nobody caught (\<open>main.tsx\<close>, \<open>components/app-error-boundary.tsx\<close>).

  React Router decodes the parameters of a route: its decoding is the argument \<open>decode\<close>. Text that is
  serialised for the agent is produced by the arguments \<open>render\<close> (\<open>JSON.stringify\<close> of a JSON value),
  \<open>render_graph\<close> and \<open>render_sim\<close>.
\<close>

section \<open>Routes\<close>

datatype editor_route = E_redirect string | E_rules string | E_rule string string | E_not_found

fun editor_route_of :: "string list \<Rightarrow> editor_route" where
  "editor_route_of [] = E_redirect ''/rules/onboarding''"
| "editor_route_of [a, t] = (if toLowerCase a = ''rules'' then E_rules t else E_not_found)"
| "editor_route_of [a, t, n] = (if toLowerCase a = ''rules'' then E_rule t n else E_not_found)"
| "editor_route_of ws = E_not_found"

definition editor_route :: "string \<Rightarrow> editor_route" where
  "editor_route path = editor_route_of (segments path)"

text \<open>The links of the list and the targets of the tools, without the query.\<close>

definition rule_link :: "string \<Rightarrow> string \<Rightarrow> string" where
  "rule_link t n = ''/rules/'' @ t @ ''/'' @ encodeURIComponent n"

text \<open>The name of the page; \<open>None\<close> is the exception of \<open>decodeURIComponent\<close> while rendering.\<close>

definition page_name :: "string option \<Rightarrow> string option" where
  "page_name nameParam = (if truthy nameParam then decodeURIComponent (the nameParam) else Some [])"

definition opens :: "(string \<Rightarrow> string) \<Rightarrow> string \<Rightarrow> (string \<times> string) option" where
  "opens decode path =
     (case editor_route path of
        E_rule t n \<Rightarrow> map_option (Pair (route_ruleType (Some (decode t)))) (page_name (Some (decode n)))
      | _ \<Rightarrow> None)"

section \<open>Requests\<close>

datatype http = Get string | Put string json | Delete string | Post string json

definition api_rules :: "string \<Rightarrow> string" where
  "api_rules t = ''/api/rules/'' @ t"

definition listRules_request :: "string \<Rightarrow> http" where
  "listRules_request t = Get (api_rules t)"

definition listRules_answer :: "json option \<Rightarrow> json list" where
  "listRules_answer data = nullish (as_array (jget data ''rules'')) []"

definition getRule_request :: "string \<Rightarrow> string \<Rightarrow> http" where
  "getRule_request t n = Get (api_rules t @ ''/'' @ encodeURIComponent n)"

definition saveRule_request :: "string \<Rightarrow> string \<Rightarrow> json \<Rightarrow> http" where
  "saveRule_request t n content = Put (api_rules t @ ''/'' @ encodeURIComponent n) content"

definition deleteRule_request :: "string \<Rightarrow> string \<Rightarrow> http" where
  "deleteRule_request t n = Delete (api_rules t @ ''/'' @ encodeURIComponent n)"

definition evaluate_url :: "string \<Rightarrow> string \<Rightarrow> string" where
  "evaluate_url t n = ''/api/projects/'' @ t @ ''/evaluate/'' @ encodeURIComponent n"

section \<open>The page\<close>

datatype page_body = Body_error string | Body_loading | Body_graph graph

record page_view =
  pv_crumbs :: "string list"
  pv_mark :: bool
  pv_save_primary :: bool
  pv_save_loading :: bool
  pv_save_disabled :: bool
  pv_body :: page_body

definition rule_page_body :: "session \<Rightarrow> page_body" where
  "rule_page_body s =
     (if truthy (s_loadError s) then Body_error (''Could not load rule. '' @ the (s_loadError s))
      else if s_loading s then Body_loading else Body_graph (s_graph s))"

definition breadcrumbs :: "session \<Rightarrow> string list" where
  "breadcrumbs s = [''Rules'', RULE_TYPE_LABELS (s_ruleType s), if s_name s = [] then ''untitled'' else s_name s]"

definition rule_page :: "session \<Rightarrow> page_view" where
  "rule_page s =
     \<lparr>pv_crumbs = breadcrumbs s, pv_mark = dirty s, pv_save_primary = dirty s, pv_save_loading = s_saving s,
      pv_save_disabled = (s_name s = [] \<or> (\<not> dirty s \<and> \<not> s_isNew s)), pv_body = rule_page_body s\<rparr>"

definition back_link :: "session \<Rightarrow> string" where
  "back_link s = ''/rules/'' @ s_ruleType s"

text \<open>Closing the tab asks first.\<close>

definition beforeunload_prevented :: "session \<Rightarrow> bool" where
  "beforeunload_prevented s = dirty s"

definition window_hook :: "session \<Rightarrow> json" where
  "window_hook s =
     JObj [(''nodeCount'', JNum (of_nat (length (g_nodes (s_graph s))))),
           (''nodeNames'', JArr (map (\<lambda>n. JStr (nullish (j_name n) [])) (g_nodes (s_graph s)))),
           (''edgeCount'', JNum (of_nat (length (g_edges (s_graph s))))),
           (''dirty'', JBool (dirty s))]"

text \<open>The panel of the copilot, with one thread for the life of the page, and the menu of themes.\<close>

record copilot_panel =
  cp_open :: bool
  cp_thread :: string

definition open_panel_state :: "string \<Rightarrow> copilot_panel" where
  "open_panel_state uuid = \<lparr>cp_open = False, cp_thread = uuid\<rparr>"

definition toggle_copilot :: "copilot_panel \<Rightarrow> copilot_panel" where
  "toggle_copilot p = p\<lparr>cp_open := \<not> cp_open p\<rparr>"

definition close_copilot :: "copilot_panel \<Rightarrow> copilot_panel" where
  "close_copilot p = p\<lparr>cp_open := False\<rparr>"

definition toggle_label :: "copilot_panel \<Rightarrow> string" where
  "toggle_label p = (if cp_open p then ''Close rule copilot'' else ''Open rule copilot'')"

definition theme_items :: "themes \<Rightarrow> (string \<times> string \<times> bool) list" where
  "theme_items s =
     [(''Automatic'', theme_name Automatic, th_preference s = Automatic),
      (''Dark'', theme_name Dark, th_preference s = Dark),
      (''Light'', theme_name Light, th_preference s = Light)]"

section \<open>What the agent is told\<close>

type_synonym agent_context = "string \<times> string"

text \<open>\<open>JSON.stringify\<close> leaves out the properties that are \<open>undefined\<close>.\<close>

definition existing_json :: "listing option \<Rightarrow> json" where
  "existing_json l =
     JObj (case l of None \<Rightarrow> [] | Some (onboarding, screening) \<Rightarrow>
       [(''onboarding'', JArr (map JStr onboarding)), (''transaction-screening'', JArr (map JStr screening))])"

definition authoring_context :: "string \<Rightarrow> agent_context" where
  "authoring_context system_prompt_md =
    (''JDM-rule authoring instructions'' @
     dash @
     ''your role, the tools you have, and the discipline you must follow. Read this every turn '' @
     ''before doing anything else.'',
     system_prompt_md)"

definition rule_meta_context :: "(json \<Rightarrow> string) \<Rightarrow> session \<Rightarrow> agent_context" where
  "rule_meta_context render s =
    (''Metadata about the rule the user is currently editing.'',
     render (rule_meta s))"

definition graph_context :: "(graph \<Rightarrow> string) \<Rightarrow> session \<Rightarrow> agent_context" where
  "graph_context render_graph s =
    (''The full JDM decision graph the user is currently editing'' @
     dash @
     ''{ nodes, edges }.'',
     render_graph (s_graph s))"

definition rule_types_context :: "(json \<Rightarrow> string) \<Rightarrow> agent_context" where
  "rule_types_context render =
    (''Valid rule_type values.'',
     render (JArr (map JStr RULE_TYPES)))"

definition schema_context :: "(json \<Rightarrow> string) \<Rightarrow> json \<Rightarrow> agent_context" where
  "schema_context render schema =
    (''Schema of the JSON context against which rules are evaluated. Use only these field paths '' @
     ''in inputs[].field.'',
     render schema)"

definition cheatsheet_context :: "string \<Rightarrow> agent_context" where
  "cheatsheet_context cheatsheet =
    (''JDM authoring cheatsheet. ALWAYS consult this before producing '' @
     ''decisionTableNode/expressionNode/functionNode content. Covers the exact shape of decision-'' @
     ''table content (hitPolicy/inputs/outputs/rules), ZEN cell expression syntax (string '' @
     ''literals need INNER quotes), and includes a canonical 3-node graph example.'',
     cheatsheet)"

definition simulation_context :: "(simulation \<Rightarrow> string) \<Rightarrow> panel \<Rightarrow> agent_context" where
  "simulation_context render_sim p =
    (''Result of the most recent simulate_rule call'' @
     dash @
     ''{ context, trace, error } or null if none yet.'',
     (case pl_last p of None \<Rightarrow> ''null'' | Some sim \<Rightarrow> render_sim sim))"

definition existing_context :: "(json \<Rightarrow> string) \<Rightarrow> session \<Rightarrow> agent_context" where
  "existing_context render s =
    (''Names of rule files already on disk, grouped by rule_type. Use to avoid name collisions.'',
     render (existing_json (s_existing s)))"

definition useEditorReadables ::
  "(json \<Rightarrow> string) \<Rightarrow> (graph \<Rightarrow> string) \<Rightarrow> (simulation \<Rightarrow> string) \<Rightarrow> string \<Rightarrow> json \<Rightarrow> string \<Rightarrow> session \<Rightarrow> panel \<Rightarrow>
     agent_context list" where
  "useEditorReadables render render_graph render_sim system_prompt_md schema cheatsheet s p =
     [authoring_context system_prompt_md, rule_meta_context render s, graph_context render_graph s,
      rule_types_context render, schema_context render schema, cheatsheet_context cheatsheet,
      simulation_context render_sim p, existing_context render s]"

section \<open>Errors nobody caught\<close>

text \<open>A value that was thrown may also be \<open>null\<close>, on which the test \<open>'toString' in d\<close> throws itself (\<open>None\<close>).\<close>

datatype raised = Raised_null | Raised thrown

definition displayed :: "raised \<Rightarrow> string option" where
  "displayed e = (case e of Raised_null \<Rightarrow> None | Raised t \<Rightarrow> Some (errorMessage t))"

text \<open>\<open>event.error\<close> may be absent; \<open>event.message\<close> is a text and not an object with one.\<close>

definition on_window_error :: "raised option \<Rightarrow> string \<Rightarrow> string option" where
  "on_window_error err msg =
     displayed (case err of None \<Rightarrow> Raised A_primitive | Some Raised_null \<Rightarrow> Raised A_primitive | Some (Raised t) \<Rightarrow> Raised t)"

definition on_unhandledrejection :: "raised \<Rightarrow> string option" where
  "on_unhandledrejection reason = displayed reason"

text \<open>The boundary: the state after an error, the notification, and what is rendered.\<close>

definition boundary_open :: boundary where
  "boundary_open = \<lparr>eb_hasError = False, eb_message = []\<rparr>"

definition componentDidCatch :: "thrown \<Rightarrow> string list \<Rightarrow> string list" where
  "componentDidCatch e toasts = toasts @ [errorMessage e]"

definition boundary_render :: "boundary \<Rightarrow> (string \<times> string \<times> string) option" where
  "boundary_render b = (if eb_hasError b then Some (''Something went wrong'', eb_message b, ''Reload'') else None)"

text \<open>Where the copilot's runtime is.\<close>

definition runtimeUrl :: "string option \<Rightarrow> string" where
  "runtimeUrl configured = nullish configured ''/api/copilotkit''"

section \<open>Links and names\<close>

lemma route_of_link:
  assumes "segment t" and "n \<noteq> []"
  shows "editor_route (rule_link t n) = E_rule t (encodeURIComponent n)"
proof -
  have "segments (rule_link t n) = [''rules'', t, encodeURIComponent n]"
    using assms segment_encoded [OF assms(2)] by (simp add: segments_def rule_link_def segment_def)
  moreover have "toLowerCase ''rules'' = ''rules''" by code_simp
  ultimately show ?thesis by (simp add: editor_route_def)
qed

lemma rule_types_plain:
  "t \<in> set RULE_TYPES \<Longrightarrow> segment t \<and> encodeURIComponent t = t \<and> utf8 t \<and> route_ruleType (Some t) = t"
proof -
  have "list_all (\<lambda>t. segment t \<and> encodeURIComponent t = t \<and> utf8 t \<and> route_ruleType (Some t) = t) RULE_TYPES"
    by code_simp
  then show "t \<in> set RULE_TYPES \<Longrightarrow> segment t \<and> encodeURIComponent t = t \<and> utf8 t \<and> route_ruleType (Some t) = t"
    by (auto simp: list_all_iff)
qed

lemma encoded_nonempty: "n \<noteq> [] \<Longrightarrow> encodeURIComponent n \<noteq> []"
  by (cases n) simp_all

lemma link_opens:
  assumes "\<And>w. utf8 w \<Longrightarrow> decode (encodeURIComponent w) = w"
    and "t \<in> set RULE_TYPES" and "utf8 n" and "n \<noteq> []"
  shows "opens decode (rule_link t n) = map_option (Pair t) (decodeURIComponent n)"
proof -
  have "decode t = t" "route_ruleType (Some t) = t" "segment t"
    using rule_types_plain [OF assms(2)] assms(1) [of t] by simp_all
  then show ?thesis
    using assms by (simp add: opens_def route_of_link page_name_def)
qed

text \<open>C24. A link to a rule opens the rule it names, when the name has no percent sign: the router decodes the
  parameter and the page decodes it again, so in general the page opens the rule whose name is the
  decoded one, or fails while rendering when there is none.\<close>

theorem rule_links_open_their_rule:
  assumes "\<And>w. utf8 w \<Longrightarrow> decode (encodeURIComponent w) = w"
    and "t \<in> set RULE_TYPES" and "utf8 n" and "n \<noteq> []"
  shows "opens decode (rule_link t n) = map_option (Pair t) (decodeURIComponent n) \<and>
    (CHR ''%'' \<notin> set n \<longrightarrow> opens decode (rule_link t n) = Some (t, n))"
  using link_opens [OF assms] decode_plain [OF assms(3)] by simp

lemma filename_class_plain: "filename_class c \<Longrightarrow> byte c < 128 \<and> c \<noteq> CHR ''%''"
  by (auto simp: filename_class_def between_def is_digit_def byte_def)

lemma tool_names_plain:
  assumes "tool_filename n"
  shows "utf8 n \<and> n \<noteq> [] \<and> CHR ''%'' \<notin> set n"
proof -
  obtain b where b: "list_all filename_class b" "n = b @ ''.json''"
    using assms by (auto simp: tool_filename_iff)
  have plain: "byte c < 128 \<and> c \<noteq> CHR ''%''" if "c \<in> set n" for c
  proof (cases "c \<in> set b")
    case True
    then show ?thesis using b(1) filename_class_plain by (simp add: list_all_iff)
  next
    case False
    then have "c \<in> set ''.json''" using that b(2) by simp
    then show ?thesis by (auto simp: byte_def)
  qed
  then have "utf8 n" by (intro utf8_ascii) blast
  moreover have "n \<noteq> []" using b(2) by simp
  ultimately show ?thesis using plain by blast
qed

text \<open>So the tools' navigations reach the rule they name.\<close>

lemma tool_links_open_their_rule:
  assumes "\<And>w. utf8 w \<Longrightarrow> decode (encodeURIComponent w) = w" and "CreateRuleArgsSchema v = Inr f"
  shows "opens decode (rule_link (rf_type f) (rf_name f)) = Some (rf_type f, rf_name f)"
proof -
  have "rf_type f \<in> set RULE_TYPES" "tool_filename (rf_name f)"
    using assms(2) by (auto simp: accepts RULE_TYPES_def)
  then show ?thesis
    using tool_names_plain [of "rf_name f"] link_opens [OF assms(1)] decode_plain by simp
qed

text \<open>The page accepts names with a percent sign: one of them opens another rule, the other cannot be opened.\<close>

lemma percent_names_are_misread:
  "good_filename ''a%41.json'' \<and> decodeURIComponent ''a%41.json'' = Some ''aA.json'' \<and>
   good_filename ''50%.json'' \<and> decodeURIComponent ''50%.json'' = None"
  by code_simp

text \<open>Requests for different names go to different paths.\<close>

lemma requests_name_their_file:
  assumes "utf8 m" "utf8 n" and "deleteRule_request t m = deleteRule_request t n"
  shows "m = n"
proof -
  have "encodeURIComponent m = encodeURIComponent n"
    using assms(3) by (simp only: deleteRule_request_def http.inject append_same_eq same_append_eq list.inject simp_thms)
  then show ?thesis
    using decode_encoded [OF assms(1)] decode_encoded [OF assms(2)] by (metis option.inject)
qed

section \<open>What the page says\<close>

text \<open>The mark, the question before leaving and what the agent is told agree.\<close>

lemma marks_agree:
  "pv_mark (rule_page s) = beforeunload_prevented s"
  "jget (Some (rule_meta s)) ''dirty'' = Some (JBool (pv_mark (rule_page s)))"
  "jget (Some (window_hook s)) ''dirty'' = Some (JBool (pv_mark (rule_page s)))"
  by (simp_all add: rule_page_def beforeunload_prevented_def rule_meta_def window_hook_def)

text \<open>A load error hides the graph, which can be edited by the copilot and saved all the same.\<close>

lemma hidden_graph_is_edited:
  "truthy (s_loadError s) \<Longrightarrow> mutates p \<Longrightarrow>
   rule_page_body (session_step cyclic s (Apply_graph c i p)) = rule_page_body s \<and>
   s_graph (session_step cyclic s (Apply_graph c i p)) = fst (apply_proposal i p (s_graph s))"
  by (auto simp: rule_page_body_def apply_graph_card_def markAgentMutation_def respond_def split: prod.split)

text \<open>After the copilot saved a new rule, the names it is told still lack it.\<close>

lemma listing_lacks_the_saved_rule:
  assumes "s_ops s = []" and "\<not> checkCyclic cyclic (s_graph s)"
  shows "existing_context render (run (session_step cyclic) s [Apply_save c, reply_done 0]) = existing_context render s \<and>
    open_file (run (session_step cyclic) s [Apply_save c, reply_done 0]) = Some (s_graph s)"
  using assms by (simp add: reply_done_def session_defs Let_def open_file_def saveRule_def existing_context_def)

text \<open>The message of an error without a thrown value is not the one shown.\<close>

lemma window_message_is_lost: "on_window_error None msg = Some ''Unknown error''"
  by (simp add: on_window_error_def displayed_def)

section \<open>Witness\<close>

theorem rule_links_open_their_rule_witness:
  "opens (\<lambda>s. nullish (decodeURIComponent s) s) (rule_link ''onboarding'' ''kyc v2.json'') = Some (''onboarding'', ''kyc v2.json'')"
proof -
  have law: "utf8 w \<Longrightarrow> nullish (decodeURIComponent (encodeURIComponent w)) (encodeURIComponent w) = w" for w
    by (simp add: decode_encoded)
  have "utf8 ''kyc v2.json''" by code_simp
  moreover have "''onboarding'' \<in> set RULE_TYPES" by (simp add: RULE_TYPES_def)
  moreover have "CHR ''%'' \<notin> set ''kyc v2.json''" by simp
  ultimately show ?thesis
    using rule_links_open_their_rule [of "\<lambda>s. nullish (decodeURIComponent s) s", OF law] by blast
qed

end
