(* ===== verification/Backend_Clients.thy ===== *)
theory Backend_Clients
  imports Js_Object
begin

text \<open>
  Two small clients of the backend: the helpers of the SDK
  (\<open>packages/sdk/src/auth.ts\<close>), which configure its client and provision a second tenant, and the
  embedding demo (\<open>example-apps/lotus-embed/src/App.tsx\<close>), which logs in, exchanges the bearer for an
  embed token and shows the dashboard.

  The server answers each request as a function of the requests sent before it; what is written to the
  console or shown as markup is left out.
\<close>

section \<open>Requests\<close>

record http_request =
  hr_method :: string
  hr_url :: string
  hr_headers :: "(string \<times> string) list"
  hr_body :: json

text \<open>A request fails on the network or is answered with a status, a text and a JSON body.\<close>

datatype fetch_result = Network string | Answered nat string json

type_synonym server = "http_request list \<Rightarrow> http_request \<Rightarrow> fetch_result"

definition res_ok :: "nat \<Rightarrow> bool" where
  "res_ok st = (200 \<le> st \<and> st \<le> 299)"

definition json_text :: "json \<Rightarrow> string \<Rightarrow> string" where
  "json_text body k = nullish (as_string (jget (Some body) k)) []"

section \<open>The SDK\<close>

record client_config =
  cc_baseUrl :: string
  cc_headers :: "(string \<times> string) list"

text \<open>The generated client is one object for the whole program; \<open>setConfig\<close> is its merge of the old
  configuration and the new one. Both constructors return that object.\<close>

definition withConfig ::
  "(client_config \<Rightarrow> client_config \<Rightarrow> client_config) \<Rightarrow> string \<Rightarrow> (string \<times> string) list \<Rightarrow> client_config \<Rightarrow> client_config" where
  "withConfig setConfig baseUrl headers c = setConfig c \<lparr>cc_baseUrl = baseUrl, cc_headers = headers\<rparr>"

definition buildBearerSdk ::
  "(client_config \<Rightarrow> client_config \<Rightarrow> client_config) \<Rightarrow> string \<Rightarrow> string \<Rightarrow> client_config \<Rightarrow> client_config" where
  "buildBearerSdk setConfig baseUrl bearer = withConfig setConfig baseUrl [(''authorization'', ''Bearer '' @ bearer)]"

definition buildApiKeySdk ::
  "(client_config \<Rightarrow> client_config \<Rightarrow> client_config) \<Rightarrow> string \<Rightarrow> string \<Rightarrow> client_config \<Rightarrow> client_config" where
  "buildApiKeySdk setConfig baseUrl apiKey = withConfig setConfig baseUrl [(''x-api-key'', apiKey)]"

record mint_args =
  ma_baseUrl :: string
  ma_key :: string
  ma_suffix :: "string option"
  ma_prefix :: "string option"

record secondary_tenant =
  st_tenantId :: string
  st_tenantSlug :: string
  st_roleId :: string
  st_apiKeyId :: string
  st_apiKey :: string

definition suffix_of :: "string \<Rightarrow> mint_args \<Rightarrow> string" where
  "suffix_of now a = nullish (ma_suffix a) now"

definition prefix_of :: "mint_args \<Rightarrow> string" where
  "prefix_of a = nullish (ma_prefix a) ''secondary''"

definition tenant_name :: "string \<Rightarrow> mint_args \<Rightarrow> string" where
  "tenant_name now a = prefix_of a @ ''-'' @ suffix_of now a"

definition mint_post :: "mint_args \<Rightarrow> string \<Rightarrow> json \<Rightarrow> http_request" where
  "mint_post a path body =
     \<lparr>hr_method = ''POST'', hr_url = ma_baseUrl a @ path,
      hr_headers = [(''x-api-key'', ma_key a), (''content-type'', ''application/json''), (''accept'', ''application/json'')],
      hr_body = body\<rparr>"

definition tenant_request :: "string \<Rightarrow> mint_args \<Rightarrow> http_request" where
  "tenant_request now a = mint_post a ''/api/tenants''
     (JObj [(''name'', JStr (tenant_name now a)), (''slug'', JStr (tenant_name now a)),
            (''tenant_type'', JStr ''standard''), (''status'', JStr ''active'')])"

definition role_request :: "string \<Rightarrow> mint_args \<Rightarrow> string \<Rightarrow> http_request" where
  "role_request now a tenant = mint_post a ''/api/roles''
     (JObj [(''name'', JStr (prefix_of a @ ''_role_'' @ suffix_of now a)),
            (''description'', JStr (''Role for '' @ tenant_name now a)), (''tenant_id'', JStr tenant)])"

definition key_request :: "string \<Rightarrow> mint_args \<Rightarrow> string \<Rightarrow> string \<Rightarrow> http_request" where
  "key_request now a tenant role = mint_post a ''/api/api-keys''
     (JObj [(''name'', JStr (prefix_of a @ ''-key-'' @ suffix_of now a)),
            (''tenant_id'', JStr tenant), (''role_id'', JStr role)])"

definition arrow :: string where "arrow = [CHR '' '', CHR 0xE2, CHR 0x86, CHR 0x92, CHR '' '']"

text \<open>One POST: it is sent after \<open>sent\<close>; a network error or a status that is not ok ends the call.\<close>

definition post_step ::
  "server \<Rightarrow> http_request list \<Rightarrow> http_request \<Rightarrow> string \<Rightarrow> (json \<Rightarrow> http_request list \<Rightarrow> (string + 'a) \<times> http_request list) \<Rightarrow>
   (string + 'a) \<times> http_request list" where
  "post_step server sent req path cont =
     (case server sent req of
        Network e \<Rightarrow> (Inl e, sent @ [req])
      | Answered st msg body \<Rightarrow>
          if res_ok st then cont body (sent @ [req])
          else (Inl (''mintSecondaryTenant: POST '' @ path @ arrow @ nat_to_string st @ '': '' @ msg), sent @ [req]))"

definition mintSecondaryTenant :: "server \<Rightarrow> string \<Rightarrow> mint_args \<Rightarrow> (string + secondary_tenant) \<times> http_request list" where
  "mintSecondaryTenant server now a =
     post_step server [] (tenant_request now a) ''/api/tenants'' (\<lambda>tenant sent.
     post_step server sent (role_request now a (json_text tenant ''id'')) ''/api/roles'' (\<lambda>role sent.
     post_step server sent (key_request now a (json_text tenant ''id'') (json_text role ''id'')) ''/api/api-keys'' (\<lambda>k sent.
       (Inr \<lparr>st_tenantId = json_text tenant ''id'', st_tenantSlug = json_text tenant ''slug'',
             st_roleId = json_text role ''id'', st_apiKeyId = json_text k ''id'', st_apiKey = json_text k ''raw_key''\<rparr>, sent))))"

text \<open>The requests of a complete call, for the ids the server gives.\<close>

definition mint_plan :: "string \<Rightarrow> mint_args \<Rightarrow> string \<Rightarrow> string \<Rightarrow> http_request list" where
  "mint_plan now a tenant role = [tenant_request now a, role_request now a tenant, key_request now a tenant role]"

text \<open>The requests, sent one after the other, are all answered with success.\<close>

fun all_ok :: "server \<Rightarrow> http_request list \<Rightarrow> http_request list \<Rightarrow> bool" where
  "all_ok server sent [] = True"
| "all_ok server sent (r # rs) =
     ((case server sent r of Network e \<Rightarrow> False | Answered st msg body \<Rightarrow> res_ok st) \<and> all_ok server (sent @ [r]) rs)"

text \<open>Provisioning creates the tenant, a role in it and a key for both, in this order and with the ids
  the server gave; it stops at the first request that fails and returns exactly when all succeeded. What was
  created before a failure stays: no other request is ever sent.\<close>

theorem minting_stops_at_first_failure:
  "case mintSecondaryTenant server now a of (r, sent) \<Rightarrow>
     map hr_url sent = take (length sent) (map (\<lambda>p. ma_baseUrl a @ p) [''/api/tenants'', ''/api/roles'', ''/api/api-keys'']) \<and>
     list_all (\<lambda>q. hr_method q = ''POST'' \<and> (''x-api-key'', ma_key a) \<in> set (hr_headers q)) sent \<and>
     sent \<noteq> [] \<and> all_ok server [] (butlast sent) \<and> (isl r \<longleftrightarrow> \<not> all_ok server [] sent) \<and>
     (isl r \<or> sent = mint_plan now a (st_tenantId (projr r)) (st_roleId (projr r)))"
  by (simp add: mintSecondaryTenant_def post_step_def mint_plan_def tenant_request_def role_request_def
      key_request_def mint_post_def split: fetch_result.split)

section \<open>The embedding demo\<close>

datatype auth_state = Login | Authenticated string | Embedded string string

record lotus =
  lo_state :: auth_state
  lo_email :: string
  lo_password :: string
  lo_tenantSlug :: string
  lo_error :: string
  lo_loading :: bool

definition lotus_open :: lotus where
  "lotus_open = \<lparr>lo_state = Login, lo_email = ''admin@atomic-fi.local'', lo_password = ''admin-password-dev'',
     lo_tenantSlug = ''atomic-fi-tenant'', lo_error = [], lo_loading = False\<rparr>"

definition BACKEND_ORIGIN :: string where "BACKEND_ORIGIN = ''http://localhost:4100''"

text \<open>A click only starts the request; the button is disabled while one is under way.\<close>

definition login_start :: "lotus \<Rightarrow> lotus" where
  "login_start s = (if lo_state s = Login \<and> \<not> lo_loading s then s\<lparr>lo_error := [], lo_loading := True\<rparr> else s)"

definition login_request :: "lotus \<Rightarrow> json" where
  "login_request s = JObj [(''email'', JStr (lo_email s)), (''password'', JStr (lo_password s)),
     (''tenant_slug'', JStr (lo_tenantSlug s)), (''expires_in'', JNum 3600)]"

definition login_end :: "fetch_result \<Rightarrow> lotus \<Rightarrow> lotus" where
  "login_end r s =
     (case r of
        Network e \<Rightarrow> s\<lparr>lo_error := e\<rparr>
      | Answered st msg body \<Rightarrow>
          if res_ok st then s\<lparr>lo_state := Authenticated (json_text body ''bearer'')\<rparr>
          else s\<lparr>lo_error := ''Login failed: '' @ nat_to_string st\<rparr>)\<lparr>lo_loading := False\<rparr>"

definition exchange_start :: "lotus \<Rightarrow> lotus" where
  "exchange_start s =
     (case lo_state s of Authenticated b \<Rightarrow> if lo_loading s then s else s\<lparr>lo_error := [], lo_loading := True\<rparr> | _ \<Rightarrow> s)"

definition embed_url :: "(string \<Rightarrow> string) \<Rightarrow> string \<Rightarrow> string" where
  "embed_url encode token = BACKEND_ORIGIN @ ''/lotus?token='' @ encode token"

definition exchange_end :: "(string \<Rightarrow> string) \<Rightarrow> string \<Rightarrow> fetch_result \<Rightarrow> lotus \<Rightarrow> lotus" where
  "exchange_end encode bearer r s =
     (case r of
        Network e \<Rightarrow> s\<lparr>lo_error := e\<rparr>
      | Answered st msg body \<Rightarrow>
          if res_ok st then s\<lparr>lo_state := Embedded bearer (embed_url encode (json_text body ''token''))\<rparr>
          else s\<lparr>lo_error := ''Token exchange failed: '' @ nat_to_string st\<rparr>)\<lparr>lo_loading := False\<rparr>"

definition refresh_token :: "lotus \<Rightarrow> lotus" where
  "refresh_token s = (case lo_state s of Embedded b u \<Rightarrow> s\<lparr>lo_state := Authenticated b\<rparr> | _ \<Rightarrow> s)"

text \<open>A reply belongs to the request that is under way: the login on the first step, the exchange (with the
  bearer the click saw) on the second.\<close>

datatype lotus_event =
  Type_email string | Type_password string | Type_tenant string
| Click_login | Click_exchange | Click_refresh | Fetched fetch_result

fun lotus_step :: "(string \<Rightarrow> string) \<Rightarrow> lotus \<Rightarrow> lotus_event \<Rightarrow> lotus" where
  "lotus_step encode s (Type_email x) = s\<lparr>lo_email := x\<rparr>"
| "lotus_step encode s (Type_password x) = s\<lparr>lo_password := x\<rparr>"
| "lotus_step encode s (Type_tenant x) = s\<lparr>lo_tenantSlug := x\<rparr>"
| "lotus_step encode s Click_login = login_start s"
| "lotus_step encode s Click_exchange = exchange_start s"
| "lotus_step encode s Click_refresh = refresh_token s"
| "lotus_step encode s (Fetched r) =
     (if \<not> lo_loading s then s
      else case lo_state s of
        Login \<Rightarrow> login_end r s
      | Authenticated b \<Rightarrow> exchange_end encode b r s
      | Embedded b u \<Rightarrow> s)"

text \<open>The bearers and tokens of the successful answers.\<close>

fun granted :: "string \<Rightarrow> lotus_event list \<Rightarrow> string set" where
  "granted k [] = {}"
| "granted k (Fetched (Answered st msg body) # es) = (if res_ok st then {json_text body k} else {}) \<union> granted k es"
| "granted k (e # es) = granted k es"

fun lotus_inv :: "(string \<Rightarrow> string) \<Rightarrow> string set \<Rightarrow> string set \<Rightarrow> auth_state \<Rightarrow> bool" where
  "lotus_inv encode bs ts Login = True"
| "lotus_inv encode bs ts (Authenticated b) = (b \<in> bs)"
| "lotus_inv encode bs ts (Embedded b u) = (b \<in> bs \<and> u \<in> embed_url encode ` ts)"

lemma lotus_inv_mono: "lotus_inv encode bs ts a \<Longrightarrow> bs \<subseteq> bs' \<Longrightarrow> ts \<subseteq> ts' \<Longrightarrow> lotus_inv encode bs' ts' a"
  by (cases a) auto

lemma lotus_inv_step:
  assumes "lotus_inv encode bs ts (lo_state s)"
  shows "lotus_inv encode (bs \<union> granted ''bearer'' [e]) (ts \<union> granted ''token'' [e]) (lo_state (lotus_step encode s e))"
proof (cases e)
  case (Fetched r)
  with assms show ?thesis
    by (cases r; cases "lo_state s") (auto simp: login_end_def exchange_end_def)
qed (use assms in \<open>auto simp: login_start_def exchange_start_def refresh_token_def split: auth_state.splits\<close>)

text \<open>The frame only ever shows the dashboard for a token of a successful exchange, made with a bearer of a
  successful login.\<close>

lemma embeds_only_after_login:
  "lotus_inv encode (granted ''bearer'' es) (granted ''token'' es) (lo_state (run (lotus_step encode) lotus_open es))"
proof -
  have split: "granted k (e # es) = granted k [e] \<union> granted k es" for k e es
  proof (cases e)
    case (Fetched r)
    then show ?thesis by (cases r) auto
  qed auto
  have "lotus_inv encode bs ts (lo_state s) \<Longrightarrow>
      lotus_inv encode (bs \<union> granted ''bearer'' es) (ts \<union> granted ''token'' es) (lo_state (run (lotus_step encode) s es))" for bs ts s
  proof (induction es arbitrary: bs ts s)
    case (Cons e es)
    from Cons.IH [OF lotus_inv_step [OF Cons.prems, of e]] show ?case
      by (simp add: split [of _ e es] Un_assoc)
  qed simp
  from this [of "{}" "{}" lotus_open] show ?thesis by (simp add: lotus_open_def)
qed

end
