(* ===== verification/Repo_Scripts.thy ===== *)
theory Repo_Scripts
  imports Js_Object "HOL-Library.AList"
begin

text \<open>
  The programs of the repository that keep their state in files: the state directory of the integration
  tests (\<open>integration-tests/src/state.ts\<close> with its command line \<open>scripts/state.ts\<close>), the choice of the
  environment the tests run against (\<open>integration-tests/src/env.ts\<close>) and the scripts of the SDK
  (\<open>packages/sdk/scripts/sync-version.ts\<close>, \<open>generate-spec.ts\<close>).

  The file system is the list of its entries with their paths, a path the list of its segments below the
  directory the program works in. The content of a file is a text, or the text \<open>JSON.stringify(v, null, 2)\<close>
  of a value followed by a newline, which \<open>JSON.parse\<close> reads as \<open>v\<close>; \<open>parse\<close> is \<open>JSON.parse\<close> on any other
  text (\<open>None\<close> when it throws) and \<open>render\<close> the text of a value. The errors of the operating system
  other than the ones below (permissions, a full disk) are not modelled.
\<close>

section \<open>Files\<close>

type_synonym path = "string list"

datatype content = Text string | Json json

datatype fs_node = Dir | File content

type_synonym fs = "(path \<times> fs_node) list"

definition is_dir :: "fs \<Rightarrow> path \<Rightarrow> bool" where
  "is_dir fs p = (p = [] \<or> map_of fs p = Some Dir)"

definition existsSync :: "fs \<Rightarrow> path \<Rightarrow> bool" where
  "existsSync fs p = (p = [] \<or> map_of fs p \<noteq> None)"

definition readFileSync :: "fs \<Rightarrow> path \<Rightarrow> string + content" where
  "readFileSync fs p =
     (case map_of fs p of
        Some (File c) \<Rightarrow> Inr c
      | Some Dir \<Rightarrow> Inl ''EISDIR''
      | None \<Rightarrow> Inl ''ENOENT'')"

definition writeFileSync :: "path \<Rightarrow> content \<Rightarrow> fs \<Rightarrow> string + fs" where
  "writeFileSync p c fs =
     (if map_of fs p = Some Dir then Inl ''EISDIR''
      else if \<not> is_dir fs (butlast p) then Inl ''ENOENT''
      else Inr (AList.update p (File c) fs))"

text \<open>\<open>mkdirSync(p, { recursive: true })\<close> makes the missing directories on the way to \<open>p\<close>; when it fails the
  ones it has made stay. A call that fails later returns the error with the files as they are then.\<close>

definition failing :: "fs \<Rightarrow> string + 'a \<Rightarrow> (string \<times> fs) + 'a" where
  "failing fs x = (case x of Inl e \<Rightarrow> Inl (e, fs) | Inr y \<Rightarrow> Inr y)"

fun make_dirs :: "path \<Rightarrow> path \<Rightarrow> fs \<Rightarrow> (string \<times> fs) + fs" where
  "make_dirs done [] fs = Inr fs"
| "make_dirs done (seg # rest) fs =
     (case map_of fs (done @ [seg]) of
        None \<Rightarrow> make_dirs (done @ [seg]) rest (AList.update (done @ [seg]) Dir fs)
      | Some Dir \<Rightarrow> make_dirs (done @ [seg]) rest fs
      | Some (File c) \<Rightarrow> Inl (''EEXIST'', fs))"

definition mkdirSync :: "path \<Rightarrow> fs \<Rightarrow> (string \<times> fs) + fs" where
  "mkdirSync p fs = make_dirs [] p fs"

definition below :: "path \<Rightarrow> path \<Rightarrow> bool" where
  "below p q = (take (length p) q = p)"

text \<open>\<open>rmSync(p, { recursive: true, force: true })\<close>\<close>

definition rmSync :: "path \<Rightarrow> fs \<Rightarrow> fs" where
  "rmSync p fs = filter (\<lambda>(q, _). \<not> below p q) fs"

definition readdirSync :: "fs \<Rightarrow> path \<Rightarrow> string + string list" where
  "readdirSync fs p =
     (if is_dir fs p
      then Inr (remdups (map (\<lambda>(q, _). last q)
                  (filter (\<lambda>(q, _). length q = Suc (length p) \<and> below p q) fs)))
      else Inl ''ENOTDIR'')"

section \<open>state.ts\<close>

definition stateDir :: path where "stateDir = [''vitest-state'']"

definition runIdFile :: path where "runIdFile = stateDir @ [''current-runid'']"

definition text_of :: "(json \<Rightarrow> string) \<Rightarrow> content \<Rightarrow> string" where
  "text_of render c = (case c of Text s \<Rightarrow> s | Json v \<Rightarrow> render v)"

definition parse_of :: "(string \<Rightarrow> json option) \<Rightarrow> content \<Rightarrow> string + json" where
  "parse_of parse c =
     (case c of
        Json v \<Rightarrow> Inr v
      | Text s \<Rightarrow> (case parse s of None \<Rightarrow> Inl ''SyntaxError'' | Some v \<Rightarrow> Inr v))"

definition getRunId :: "(json \<Rightarrow> string) \<Rightarrow> fs \<Rightarrow> string + string" where
  "getRunId render fs =
     (if \<not> existsSync fs runIdFile
      then Inl ''No runId found. Run \"pnpm state:create\" before invoking vitest.''
      else bind_sum (readFileSync fs runIdFile) (\<lambda>c. Inr (trim (text_of render c))))"

definition specPath :: "string \<Rightarrow> string \<Rightarrow> path" where
  "specPath runId spec = stateDir @ [runId, spec @ ''.state.json'']"

text \<open>\<open>Inr None\<close> is the result \<open>null\<close>.\<close>

definition loadSpec ::
  "(json \<Rightarrow> string) \<Rightarrow> (string \<Rightarrow> json option) \<Rightarrow> fs \<Rightarrow> string \<Rightarrow> string + json option" where
  "loadSpec render parse fs spec =
     bind_sum (getRunId render fs) (\<lambda>runId.
       if \<not> existsSync fs (specPath runId spec) then Inr None
       else bind_sum (readFileSync fs (specPath runId spec)) (\<lambda>c.
            bind_sum (parse_of parse c) (\<lambda>v. Inr (Some v))))"

definition saveSpec :: "(json \<Rightarrow> string) \<Rightarrow> string \<Rightarrow> json \<Rightarrow> fs \<Rightarrow> (string \<times> fs) + fs" where
  "saveSpec render spec state fs =
     bind_sum (failing fs (getRunId render fs)) (\<lambda>runId.
     bind_sum (mkdirSync (stateDir @ [runId]) fs) (\<lambda>fs1.
     failing fs1 (writeFileSync (specPath runId spec) (Json state) fs1)))"

definition requireBootstrap :: "(json \<Rightarrow> string) \<Rightarrow> (string \<Rightarrow> json option) \<Rightarrow> fs \<Rightarrow> string + json" where
  "requireBootstrap render parse fs =
     bind_sum (loadSpec render parse fs ''bootstrap'') (\<lambda>s.
       case s of
         Some v \<Rightarrow> if json_truthy v then Inr v
                   else Inl ''bootstrap state missing: run tests/bootstrap.test.ts first''
       | None \<Rightarrow> Inl ''bootstrap state missing: run tests/bootstrap.test.ts first'')"

text \<open>The loop over the entries of the directory.\<close>

definition clear_dir :: "path \<Rightarrow> string list \<Rightarrow> fs \<Rightarrow> fs" where
  "clear_dir dir entries fs = foldl (\<lambda>fs entry. rmSync (dir @ [entry]) fs) fs entries"

text \<open>\<open>now\<close> is \<open>Date.now()\<close>.\<close>

definition createRunId :: "nat \<Rightarrow> bool \<Rightarrow> fs \<Rightarrow> (string \<times> fs) + (string \<times> fs)" where
  "createRunId now clean fs =
     bind_sum (if clean \<and> existsSync fs stateDir
               then bind_sum (failing fs (readdirSync fs stateDir)) (\<lambda>entries. Inr (clear_dir stateDir entries fs))
               else Inr fs) (\<lambda>fs0.
     bind_sum (mkdirSync stateDir fs0) (\<lambda>fs1.
     let runId = nat_to_string now in
     bind_sum (mkdirSync (stateDir @ [runId]) fs1) (\<lambda>fs2.
     bind_sum (failing fs2 (writeFileSync runIdFile (Text runId) fs2)) (\<lambda>fs3. Inr (runId, fs3)))))"

definition cleanState :: "fs \<Rightarrow> fs" where
  "cleanState fs = (if existsSync fs stateDir then rmSync stateDir fs else fs)"

text \<open>The command line: exit code, what is printed, and the files. An exception ends the process with code 1.\<close>

definition state_cli :: "nat \<Rightarrow> string option \<Rightarrow> fs \<Rightarrow> nat \<times> string \<times> fs" where
  "state_cli now cmd fs =
     (if cmd = Some ''create'' then
        (case createRunId now False fs of
           Inl (e, fs') \<Rightarrow> (1, e, fs') | Inr (runId, fs') \<Rightarrow> (0, ''runId='' @ runId, fs'))
      else if cmd = Some ''create:clean'' then
        (case createRunId now True fs of
           Inl (e, fs') \<Rightarrow> (1, e, fs') | Inr (runId, fs') \<Rightarrow> (0, ''cleaned, runId='' @ runId, fs'))
      else if cmd = Some ''clean'' then (0, ''vitest-state/ cleaned'', cleanState fs)
      else (2, ''unknown command: '' @ nullish cmd ''(none)'', fs))"

section \<open>env.ts\<close>

text \<open>\<open>process.env\<close>\<close>

type_synonym process_env = "string \<Rightarrow> string option"

definition ENVS :: "(string \<times> string) list" where
  "ENVS =
     [(''local'', ''http://localhost:4100''), (''hh'', ''https://atomicfi-hh.alvera.ai''),
      (''prod'', ''https://atomicfi.alvera.ai'')]"

text \<open>\<open>x in ENVS\<close> also finds the properties every object inherits.\<close>

definition object_prototype :: "string list" where
  "object_prototype =
     [''constructor'', ''hasOwnProperty'', ''isPrototypeOf'', ''propertyIsEnumerable'', ''toLocaleString'',
      ''toString'', ''valueOf'', ''__proto__'', ''__defineGetter__'', ''__defineSetter__'',
      ''__lookupGetter__'', ''__lookupSetter__'']"

definition in_ENVS :: "string \<Rightarrow> bool" where
  "in_ENVS t = (t \<in> set (map fst ENVS) \<union> set object_prototype)"

definition targetEnv :: "process_env \<Rightarrow> string" where
  "targetEnv env = nullish (env ''TARGET_ENV'') ''local''"

record creds =
  cr_tenantSlug :: "string option"
  cr_adminEmail :: "string option"
  cr_adminPassword :: "string option"
  cr_rootApiKey :: "string option"
  cr_platformAdminApiKey :: "string option"

definition bootstrapCredsPath :: path where
  "bootstrapCredsPath = [''priv'', ''repo'', ''.bootstrap_creds.json'']"

text \<open>The parsed file is used as it is; its fields are read where they are used.\<close>

definition loadBootstrapCreds :: "(string \<Rightarrow> json option) \<Rightarrow> fs \<Rightarrow> string + creds" where
  "loadBootstrapCreds parse fs =
     (case bind_sum (readFileSync fs bootstrapCredsPath) (parse_of parse) of
        Inl e \<Rightarrow> Inl (''Could not read .bootstrap_creds.json. Underlying error: '' @ e)
      | Inr v \<Rightarrow>
          (let get = (\<lambda>k. as_string (jget (Some v) k)) in
           Inr \<lparr>cr_tenantSlug = get ''tenantSlug'', cr_adminEmail = get ''adminEmail'',
                cr_adminPassword = get ''adminPassword'', cr_rootApiKey = get ''rootApiKey'',
                cr_platformAdminApiKey = get ''platformAdminApiKey''\<rparr>))"

definition required_vars :: "string list" where
  "required_vars = [''ADMIN_EMAIL'', ''ADMIN_PASSWORD'', ''TENANT_SLUG'', ''ROOT_API_KEY'', ''PLATFORM_ADMIN_API_KEY'']"

definition envCreds :: "process_env \<Rightarrow> string + creds" where
  "envCreds env =
     (case List.find (\<lambda>k. \<not> truthy (env k)) required_vars of
        Some k \<Rightarrow> Inl (''TARGET_ENV='' @ targetEnv env @ '' requires env var '' @ k @
                     '' (set in .env.'' @ targetEnv env @ '')'')
      | None \<Rightarrow>
          Inr \<lparr>cr_tenantSlug = env ''TENANT_SLUG'', cr_adminEmail = env ''ADMIN_EMAIL'',
               cr_adminPassword = env ''ADMIN_PASSWORD'', cr_rootApiKey = env ''ROOT_API_KEY'',
               cr_platformAdminApiKey = env ''PLATFORM_ADMIN_API_KEY''\<rparr>)"

record test_config =
  tc_targetEnv :: string
  tc_baseUrl :: "string option"
  tc_creds :: creds

text \<open>What importing the module does: the error it throws, or its \<open>config\<close>.\<close>

definition test_config :: "process_env \<Rightarrow> (string \<Rightarrow> json option) \<Rightarrow> fs \<Rightarrow> string + test_config" where
  "test_config env parse fs =
     (let t = targetEnv env in
      if \<not> in_ENVS t
      then Inl (''Unknown TARGET_ENV='' @ t @ '' (expected: '' @ join '', '' (map fst ENVS) @ '')'')
      else bind_sum (if t = ''local'' then loadBootstrapCreds parse fs else envCreds env) (\<lambda>c.
           Inr \<lparr>tc_targetEnv = t, tc_baseUrl = map_of ENVS t, tc_creds = c\<rparr>))"

section \<open>sync-version.ts\<close>

text \<open>\<open>/^\s*version:\s*"([^"]+)"/m\<close> at a position, and the first position where a line starts and it
  matches.\<close>

definition quote_char :: char where "quote_char = CHR 0x22"

definition version_here :: "string \<Rightarrow> string option" where
  "version_here s =
     (let r = dropWhile is_ws s in
      if starts_with r ''version:''
      then (case dropWhile is_ws (drop 8 r) of
              [] \<Rightarrow> None
            | q # t \<Rightarrow>
                (let v = takeWhile (\<lambda>c. c \<noteq> quote_char) t in
                 if q = quote_char \<and> v \<noteq> [] \<and> v \<noteq> t then Some v else None))
      else None)"

fun mix_version :: "bool \<Rightarrow> string \<Rightarrow> string option" where
  "mix_version line_start [] = None"
| "mix_version line_start (c # s) =
     (case (if line_start then version_here (c # s) else None) of
        Some v \<Rightarrow> Some v
      | None \<Rightarrow> mix_version (c = CHR 0x0A \<or> c = CHR 0x0D) s)"

definition mixPath :: path where "mixPath = [''mix.exs'']"

definition pkgPath :: path where "pkgPath = [''packages'', ''sdk'', ''package.json'']"

text \<open>The exit code (1 for an exception) and the files. A \<open>package.json\<close> that is JSON but no object is not
  told apart from one that cannot be read.\<close>

definition sync_version ::
  "(json \<Rightarrow> string) \<Rightarrow> (string \<Rightarrow> json option) \<Rightarrow> bool \<Rightarrow> fs \<Rightarrow> nat \<times> fs" where
  "sync_version render parse check fs =
     (case readFileSync fs mixPath of
        Inl e \<Rightarrow> (1, fs)
      | Inr mix \<Rightarrow>
          (case mix_version True (text_of render mix) of
             None \<Rightarrow> (2, fs)
           | Some mixVersion \<Rightarrow>
               (case bind_sum (readFileSync fs pkgPath) (parse_of parse) of
                  Inr (JObj pkg) \<Rightarrow>
                    if obj_get pkg ''version'' = Some (JStr mixVersion) then (0, fs)
                    else if check then (1, fs)
                    else (case writeFileSync pkgPath (Json (JObj (obj_set ''version'' (JStr mixVersion) pkg))) fs of
                            Inl e \<Rightarrow> (1, fs) | Inr fs' \<Rightarrow> (0, fs'))
                | _ \<Rightarrow> (1, fs))))"

section \<open>Facts on files\<close>

lemma failing_simps [simp]:
  "failing fs (Inr y) = Inr y" "failing fs (Inl e) = Inl (e, fs)" "(failing fs x = Inr y) = (x = Inr y)"
  by (auto simp: failing_def split: sum.split)

lemma map_of_update [simp]: "map_of (AList.update k v fs) = (map_of fs)(k \<mapsto> v)"
  by (rule update_conv')

lemma map_of_rmSync [simp]: "map_of (rmSync p fs) q = (if below p q then None else map_of fs q)"
  by (induction fs) (auto simp: rmSync_def)

lemma below_append [simp]: "below p (p @ q)"
  by (simp add: below_def)

lemma below_iff: "below p q \<longleftrightarrow> (\<exists>r. q = p @ r)"
  by (auto simp: below_def) (metis append_take_drop_id)

text \<open>Every entry is in a directory.\<close>

definition wf_fs :: "fs \<Rightarrow> bool" where
  "wf_fs fs = list_all (\<lambda>(q, _). q \<noteq> [] \<and> is_dir fs (butlast q)) fs"

lemma wf_parent: "wf_fs fs \<Longrightarrow> map_of fs (q @ [x]) = Some n \<Longrightarrow> is_dir fs q"
  by (force simp: wf_fs_def list_all_iff dest: map_of_SomeD)

lemma wf_ancestor:
  "wf_fs fs \<Longrightarrow> map_of fs (p @ q) = Some n \<Longrightarrow> q \<noteq> [] \<Longrightarrow> is_dir fs p"
proof (induction q arbitrary: n rule: rev_induct)
  case (snoc x q)
  then have "is_dir fs (p @ q)" using wf_parent [of fs "p @ q" x] by simp
  with snoc show ?case by (cases "q = []") (auto simp: is_dir_def)
qed simp

lemma map_of_clear_dir:
  "map_of (clear_dir d es fs) q = (if list_ex (\<lambda>e. below (d @ [e]) q) es then None else map_of fs q)"
  unfolding clear_dir_def by (induction es arbitrary: fs) auto

lemma readdir_complete:
  assumes "wf_fs fs" "readdirSync fs d = Inr es" "map_of fs (d @ x # q) = Some n"
  shows "x \<in> set es"
proof -
  have "is_dir fs (d @ [x]) \<or> q = []"
    using wf_ancestor [OF assms(1), of "d @ [x]" q n] assms(3) by auto
  then obtain m where "map_of fs (d @ [x]) = Some m"
    using assms(3) by (auto simp: is_dir_def)
  then have "(d @ [x], m) \<in> set fs" by (rule map_of_SomeD)
  then have "(\<lambda>(q, _). last q) (d @ [x], m) \<in>
      (\<lambda>(q, _). last q) ` set (filter (\<lambda>(q, _). length q = Suc (length d) \<and> below d q) fs)"
    by (intro imageI) simp
  then show ?thesis
    using assms(2) by (auto simp: readdirSync_def simp del: set_filter split: if_splits)
qed

lemma clear_dir_empty:
  assumes "wf_fs fs" "readdirSync fs d = Inr es"
  shows "map_of (clear_dir d es fs) (d @ x # q) = None"
proof (cases "map_of fs (d @ x # q)")
  case (Some n)
  then have "x \<in> set es" using assms readdir_complete by blast
  moreover have "below (d @ [x]) (d @ x # q)" by (simp add: below_def)
  ultimately show ?thesis by (auto simp: map_of_clear_dir list_ex_iff)
qed (simp add: map_of_clear_dir)

section \<open>A run of the tests\<close>

lemma trim_numeral [simp]: "trim (nat_to_string n) = nat_to_string n"
proof -
  have ws: "\<not> is_ws c" if "c \<in> set (nat_to_string n)" for c
    using nat_to_string_digits [OF that] by (auto simp: is_ws_def)
  have "dropWhile is_ws xs = xs" if "set xs \<subseteq> set (nat_to_string n)" for xs
    using that ws by (cases xs) auto
  then show ?thesis by (simp add: trim_def)
qed

lemma numeral_is_no_name: "nat_to_string n \<noteq> ''current-runid''"
proof
  assume "nat_to_string n = ''current-runid''"
  then have "CHR ''c'' \<in> set (nat_to_string n)" by simp
  then show False using nat_to_string_digits [of "CHR ''c''" n] by simp
qed

text \<open>The files of a run: the pointer names \<open>r\<close>, whose directory exists and holds no directory where the state
  of a spec belongs.\<close>

definition run_ok :: "string \<Rightarrow> fs \<Rightarrow> bool" where
  "run_ok r fs =
     (map_of fs runIdFile = Some (File (Text r)) \<and> trim r = r \<and> map_of fs stateDir = Some Dir \<and>
      map_of fs (stateDir @ [r]) = Some Dir \<and> (\<forall>spec. map_of fs (specPath r spec) \<noteq> Some Dir))"

lemmas path_defs = stateDir_def runIdFile_def specPath_def

lemma run_ok_getRunId: "run_ok r fs \<Longrightarrow> getRunId render fs = Inr r"
  by (simp add: run_ok_def getRunId_def existsSync_def readFileSync_def text_of_def)

lemma run_ok_saveSpec:
  assumes "run_ok r fs"
  shows "saveSpec render spec v fs = Inr (AList.update (specPath r spec) (File (Json v)) fs)"
proof -
  have "mkdirSync (stateDir @ [r]) fs = Inr fs"
    using assms by (simp add: mkdirSync_def run_ok_def path_defs)
  moreover have "is_dir fs (butlast (specPath r spec))" "map_of fs (specPath r spec) \<noteq> Some Dir"
    using assms by (simp_all add: run_ok_def is_dir_def path_defs)
  ultimately show ?thesis
    using assms by (simp add: saveSpec_def run_ok_getRunId writeFileSync_def)
qed

text \<open>The states of a run as a keyed store.\<close>

definition spec_load ::
  "(json \<Rightarrow> string) \<Rightarrow> (string \<Rightarrow> json option) \<Rightarrow> fs \<Rightarrow> string \<Rightarrow> (string \<times> json) option" where
  "spec_load render parse fs spec =
     (case loadSpec render parse fs spec of Inr (Some v) \<Rightarrow> Some (spec, v) | _ \<Rightarrow> None)"

definition spec_save :: "(json \<Rightarrow> string) \<Rightarrow> string \<times> json \<Rightarrow> fs \<Rightarrow> fs" where
  "spec_save render e fs =
     (case saveSpec render (fst e) (snd e) fs of Inl (m, fs') \<Rightarrow> fs' | Inr fs' \<Rightarrow> fs')"

lemma run_ok_save: "run_ok r fs \<Longrightarrow> run_ok r (spec_save render e fs)"
  by (simp add: spec_save_def run_ok_saveSpec) (simp add: run_ok_def path_defs)

lemma spec_save_exists:
  "run_ok r fs \<Longrightarrow> spec_load render parse (spec_save render e fs) i =
     (if i = fst e then Some e else spec_load render parse fs i)"
proof -
  assume ok: "run_ok r fs"
  then have ok': "run_ok r (spec_save render e fs)" by (rule run_ok_save)
  have "map_of (spec_save render e fs) = (map_of fs)(specPath r (fst e) \<mapsto> File (Json (snd e)))"
    using ok by (simp add: spec_save_def run_ok_saveSpec)
  moreover have "specPath r i = specPath r (fst e) \<longleftrightarrow> i = fst e" "specPath r i \<noteq> []"
    by (simp_all add: path_defs)
  ultimately show ?thesis
    using ok ok' by (auto simp: spec_load_def loadSpec_def run_ok_getRunId existsSync_def readFileSync_def
        parse_of_def prod_eq_iff)
qed

interpretation specs: keyed_store fst "spec_load render parse" "spec_save render" "run_ok r"
  by unfold_locales (simp_all add: spec_save_exists run_ok_save)

lemma spec_save_map:
  "run_ok r fs \<Longrightarrow> map_of (spec_save render e fs) = (map_of fs)(specPath r (fst e) \<mapsto> File (Json (snd e)))"
  by (simp add: spec_save_def run_ok_saveSpec)

lemma saves_map:
  "run_ok r fs \<Longrightarrow> map_of (foldl (\<lambda>fs e. spec_save render e fs) fs saves) (specPath r spec) =
     (case find_by fst spec (rev saves) of
        None \<Rightarrow> map_of fs (specPath r spec) | Some e \<Rightarrow> Some (File (Json (snd e))))"
proof (induction saves rule: rev_induct)
  case (snoc e saves)
  then show ?case
    using spec_save_map [OF specs.ok_saves] by (auto simp: path_defs)
qed simp

text \<open>A new run: the directory of the run is empty.\<close>

lemma createRunId_run:
  assumes "wf_fs fs" "clean \<or> \<not> existsSync fs (stateDir @ [nat_to_string now])"
    and "createRunId now clean fs = Inr (r, fs')"
  shows "r = nat_to_string now \<and> run_ok r fs' \<and> map_of fs' (specPath r spec) = None"
proof -
  let ?r = "nat_to_string now"
  obtain fs0 fs1 fs2 where fs0: "(if clean \<and> existsSync fs stateDir
        then bind_sum (failing fs (readdirSync fs stateDir)) (\<lambda>entries. Inr (clear_dir stateDir entries fs))
        else Inr fs) = Inr fs0"
      and fs1: "mkdirSync stateDir fs0 = Inr fs1" and fs2: "mkdirSync (stateDir @ [?r]) fs1 = Inr fs2"
      and fs3: "writeFileSync runIdFile (Text ?r) fs2 = Inr fs'" and r: "r = ?r"
    using assms(3) by (auto simp: createRunId_def bind_sum_Inr Let_def)
  have none: "map_of fs0 (stateDir @ ?r # q) = None" for q
  proof (cases "clean \<and> existsSync fs stateDir")
    case True
    then show ?thesis using fs0 clear_dir_empty [OF assms(1)] by (auto simp: bind_sum_Inr)
  next
    case False
    have "map_of fs (stateDir @ ?r # q) = None"
    proof (rule ccontr)
      assume "map_of fs (stateDir @ ?r # q) \<noteq> None"
      then obtain n where n: "map_of fs (stateDir @ ?r # q) = Some n" by blast
      have "is_dir fs stateDir" by (rule wf_ancestor [OF assms(1) n]) simp
      moreover have "is_dir fs (stateDir @ [?r]) \<or> q = []"
        using wf_ancestor [OF assms(1), of "stateDir @ [?r]" q n] n by auto
      ultimately show False using False assms(2) n by (auto simp: is_dir_def existsSync_def path_defs)
    qed
    moreover have "fs0 = fs" using fs0 by (simp only: if_not_P [OF False] sum.inject)
    ultimately show ?thesis by simp
  qed
  have m1: "map_of fs1 = (map_of fs0)(stateDir \<mapsto> Dir)"
    using fs1 by (auto simp: mkdirSync_def path_defs fun_upd_idem split: option.splits fs_node.splits)
  have m2: "map_of fs2 = (map_of fs1)(stateDir @ [?r] \<mapsto> Dir)"
    using fs2 m1 none [of "[]"] by (auto simp: mkdirSync_def path_defs split: option.splits)
  have m3: "map_of fs' = (map_of fs2)(runIdFile \<mapsto> File (Text ?r))"
    using fs3 by (auto simp: writeFileSync_def split: if_splits)
  have "map_of fs' (specPath ?r sp) = None" for sp
    using m1 m2 m3 none [of "[sp @ ''.state.json'']"] by (simp add: path_defs)
  with m1 m2 m3 r numeral_is_no_name [of now] show ?thesis
    by (simp add: run_ok_def path_defs)
qed

section \<open>Facts on the environment and the version\<close>

lemma find_None_iff: "List.find P xs = None \<longleftrightarrow> list_all (\<lambda>x. \<not> P x) xs"
  by (induction xs) auto

lemma envCreds_Inr: "(\<exists>c. envCreds env = Inr c) \<longleftrightarrow> list_all (\<lambda>k. truthy (env k)) required_vars"
  by (cases "List.find (\<lambda>k. \<not> truthy (env k)) required_vars")
    (auto simp: envCreds_def find_None_iff [symmetric, of "\<lambda>k. \<not> truthy (env k)", simplified] list_all_iff)

text \<open>The names of the environments are the only ones that lead to a base URL, but not the only ones that are
  accepted: the operator \<open>in\<close> finds the inherited properties.\<close>

lemma inherited_names_are_accepted:
  "env ''TARGET_ENV'' = Some ''toString'' \<Longrightarrow> list_all (\<lambda>k. truthy (env k)) required_vars \<Longrightarrow>
   \<exists>c. test_config env parse fs = Inr c \<and> tc_baseUrl c = None"
  using envCreds_Inr [of env]
  by (auto simp: test_config_def targetEnv_def in_ENVS_def object_prototype_def ENVS_def Let_def)

lemma sync_check_is_silent: "snd (sync_version render parse True fs) = fs"
  by (auto simp: sync_version_def split: sum.split option.split json.split)

text \<open>\<open>generate-spec.ts\<close>: the arguments of \<open>mix\<close>, the lines printed and the exit status for the status of \<open>mix\<close>, which is
  \<open>null\<close> when it did not run or was killed.\<close>

definition mix_args :: "string \<Rightarrow> string list" where
  "mix_args out = [''openapi.spec.yaml'', ''--spec'', ''AtomicFiApi.ApiSpec'', ''--start-app=false'', out]"

definition generate_spec :: "string \<Rightarrow> nat option \<Rightarrow> string list \<times> nat" where
  "generate_spec out status =
     (let start = [CHR 0xE2, CHR 0x86, CHR 0x92] @ '' mix '' @ join '' '' (mix_args out) in
      if status \<noteq> Some 0 then
        ([start, [CHR 0xE2, CHR 0x9C, CHR 0x97] @ '' mix exited with '' @
            (case status of None \<Rightarrow> ''null'' | Some n \<Rightarrow> nat_to_string n)], nullish status 1)
      else ([start, [CHR 0xE2, CHR 0x9C, CHR 0x93] @ '' wrote '' @ out], 0))"

lemma generate_spec_reports_failure: "snd (generate_spec out status) = 0 \<longleftrightarrow> status = Some 0"
  by (cases status) (auto simp: generate_spec_def Let_def)

section \<open>Properties\<close>

text \<open>C29. The state directory as a store: after a run was started (in a well-formed directory, cleaning it or with
  a run id that was not in use) and any sequence of saves, no save has failed and loading the state of a
  spec gives the last state saved under its name, and \<open>null\<close> when there is none: a spec never sees the state
  of another spec or of an earlier run.\<close>

theorem run_state_roundtrip:
  assumes "wf_fs fs" and "clean \<or> \<not> existsSync fs (stateDir @ [nat_to_string now])"
    and "createRunId now clean fs = Inr (r, fs0)"
    and "fs' = foldl (\<lambda>fs e. spec_save render e fs) fs0 saves"
  shows "getRunId render fs' = Inr (nat_to_string now) \<and>
    loadSpec render parse fs' spec = Inr (map_option snd (find_by fst spec (rev saves))) \<and>
    saveSpec render spec v fs' = Inr (AList.update (specPath r spec) (File (Json v)) fs')"
proof -
  have r: "r = nat_to_string now" and ok: "run_ok r fs0" and new: "map_of fs0 (specPath r spec) = None"
    using createRunId_run [OF assms(1-3)] by auto
  have ok': "run_ok r fs'" using specs.ok_saves [OF ok] assms(4) by simp
  have files: "map_of fs' (specPath r spec) = map_option (File \<circ> Json \<circ> snd) (find_by fst spec (rev saves))"
    using saves_map [OF ok, of render saves spec] new assms(4) by (simp add: option.map_comp split: option.splits)
  have "loadSpec render parse fs' spec = Inr (map_option snd (find_by fst spec (rev saves)))"
    using files ok' by (cases "find_by fst spec (rev saves)")
      (simp_all add: loadSpec_def run_ok_getRunId existsSync_def readFileSync_def parse_of_def path_defs)
  with ok' r show ?thesis by (simp add: run_ok_getRunId run_ok_saveSpec)
qed

definition old_files :: fs where
  "old_files =
     [(stateDir, Dir), (runIdFile, File (Text ''7'')), (stateDir @ [''7''], Dir),
      (specPath ''7'' ''bootstrap'', File (Json (JStr ''old'')))]"

lemma numeral_8 [simp]: "nat_to_string 8 = ''8''"
  by code_simp

lemma old_files_run: "createRunId 8 True old_files =
  Inr (''8'', [(stateDir, Dir), (stateDir @ [''8''], Dir), (runIdFile, File (Text ''8''))])"
  by (simp add: createRunId_def old_files_def path_defs existsSync_def readdirSync_def is_dir_def below_def
      clear_dir_def rmSync_def mkdirSync_def writeFileSync_def Let_def)

lemma run_state_roundtrip_witness:
  "loadSpec (\<lambda>v. []) (\<lambda>s. None)
     (foldl (\<lambda>fs e. spec_save (\<lambda>v. []) e fs) [(stateDir, Dir), (stateDir @ [''8''], Dir), (runIdFile, File (Text ''8''))]
        [(''bootstrap'', JStr ''a''), (''roles'', JNull), (''bootstrap'', JStr ''b'')]) ''bootstrap'' = Inr (Some (JStr ''b''))"
proof -
  have "wf_fs old_files" by (simp add: wf_fs_def old_files_def is_dir_def path_defs)
  then show ?thesis
    using run_state_roundtrip [OF _ _ old_files_run refl, of "\<lambda>v. []"
        "[(''bootstrap'', JStr ''a''), (''roles'', JNull), (''bootstrap'', JStr ''b'')]" "\<lambda>s. None" "''bootstrap''"] by simp
qed

text \<open>A successful synchronisation leaves the check satisfied, writes no other file and keeps the other fields
  of \<open>package.json\<close>.\<close>

lemma sync_then_check:
  assumes "sync_version render parse False fs = (0, fs')"
  shows "sync_version render parse True fs' = (0, fs') \<and> (p \<noteq> pkgPath \<longrightarrow> map_of fs' p = map_of fs p)"
proof -
  obtain mix v pkg where mix: "readFileSync fs mixPath = Inr mix"
      and v: "mix_version True (text_of render mix) = Some v"
      and pkg: "bind_sum (readFileSync fs pkgPath) (parse_of parse) = Inr (JObj pkg)"
    using assms by (auto simp: sync_version_def split: sum.splits option.splits json.splits)
  show ?thesis
  proof (cases "obj_get pkg ''version'' = Some (JStr v)")
    case True
    with assms mix v pkg show ?thesis by (simp add: sync_version_def)
  next
    case False
    with assms mix v pkg have fs': "fs' = AList.update pkgPath (File (Json (JObj (obj_set ''version'' (JStr v) pkg)))) fs"
      by (auto simp: sync_version_def writeFileSync_def split: if_splits)
    have "pkgPath \<noteq> mixPath" by (simp add: pkgPath_def mixPath_def)
    then have "readFileSync fs' mixPath = Inr mix"
      and "bind_sum (readFileSync fs' pkgPath) (parse_of parse) = Inr (JObj (obj_set ''version'' (JStr v) pkg))"
      using mix by (simp_all add: fs' readFileSync_def parse_of_def)
    with v fs' show ?thesis by (simp add: sync_version_def)
  qed
qed

end
