(* ===== verification/Api_Helpers.thy ===== *)
theory Api_Helpers
  imports Backend_Clients Repo_Scripts
begin

text \<open>
  The helpers the integration tests share (\<open>integration-tests/src/test-helpers.ts\<close>) and the global setup
  of the browser tests (\<open>playwright.global-setup.ts\<close>).

  A helper sends its requests to the server and appends them to the requests \<open>sent\<close> before. The clock and
  the random numbers are arguments. The objects a caller passes as overrides hold no key with the value
  \<open>undefined\<close>.
\<close>

section \<open>Headers and calls\<close>

definition jsonHeaders :: "string obj \<Rightarrow> string obj" where
  "jsonHeaders extra =
     obj_spread [(''content-type'', ''application/json''), (''accept'', ''application/json'')] extra"

definition bearerHeaders :: "string \<Rightarrow> string obj" where
  "bearerHeaders bearer = jsonHeaders [(''authorization'', ''Bearer '' @ bearer)]"

definition apiKeyHeaders :: "string \<Rightarrow> string obj" where
  "apiKeyHeaders apiKey = jsonHeaders [(''x-api-key'', apiKey)]"

text \<open>An absent value in a template is the text \<open>undefined\<close>; an absent field is left out of the JSON text.\<close>

definition platformAdminHeaders :: "test_config \<Rightarrow> string obj" where
  "platformAdminHeaders config = apiKeyHeaders (nullish (cr_platformAdminApiKey (tc_creds config)) ''undefined'')"

definition api_url :: "test_config \<Rightarrow> string \<Rightarrow> string" where
  "api_url config path = nullish (tc_baseUrl config) ''undefined'' @ path"

definition field :: "string \<Rightarrow> string option \<Rightarrow> json obj" where
  "field k v = (case v of None \<Rightarrow> [] | Some s \<Rightarrow> [(k, JStr s)])"

definition session_request :: "test_config \<Rightarrow> http_request" where
  "session_request config =
     \<lparr>hr_method = ''POST'', hr_url = api_url config ''/api/sessions'', hr_headers = jsonHeaders [],
      hr_body = JObj (field ''email'' (cr_adminEmail (tc_creds config)) @
                      field ''password'' (cr_adminPassword (tc_creds config)) @
                      field ''tenant_slug'' (cr_tenantSlug (tc_creds config)) @
                      [(''expires_in'', JNum 3600)])\<rparr>"

text \<open>\<open>v.k.j\<close>, which throws when \<open>v\<close> or \<open>v.k\<close> is null or undefined.\<close>

definition nested :: "json \<Rightarrow> string \<Rightarrow> string \<Rightarrow> string + json option" where
  "nested v k j =
     (case jget (Some v) k of
        None \<Rightarrow> Inl ''TypeError''
      | Some JNull \<Rightarrow> Inl ''TypeError''
      | Some w \<Rightarrow> Inr (jget (Some w) j))"

definition postAdminSession ::
  "server \<Rightarrow> test_config \<Rightarrow> http_request list \<Rightarrow> (string + json option \<times> json option) \<times> http_request list" where
  "postAdminSession server config sent =
     (let req = session_request config in
      (case server sent req of
         Network e \<Rightarrow> Inl e
       | Answered st msg body \<Rightarrow>
           if \<not> starts_with (nat_to_string st) ''2''
           then Inl (''session POST'' @ arrow @ nat_to_string st @ '': '' @ msg)
           else bind_sum (nested body ''tenant'' ''id'') (\<lambda>tid. Inr (jget (Some body) ''bearer'', tid)),
       sent @ [req]))"

definition safeDelete :: "server \<Rightarrow> test_config \<Rightarrow> string \<Rightarrow> string obj \<Rightarrow> http_request list \<Rightarrow> http_request list" where
  "safeDelete server config path headers sent =
     (let req = \<lparr>hr_method = ''DELETE'', hr_url = api_url config path, hr_headers = headers, hr_body = JNull\<rparr> in
      case server sent req of Network e \<Rightarrow> sent @ [req] | Answered st msg body \<Rightarrow> sent @ [req])"

definition warmupBlocklistCache ::
  "server \<Rightarrow> test_config \<Rightarrow> string \<Rightarrow> http_request list \<Rightarrow> (string + unit) \<times> http_request list" where
  "warmupBlocklistCache server config bearer sent =
     (let req = \<lparr>hr_method = ''POST'', hr_url = api_url config ''/api/tenants/refresh-blocklist-cache'',
                 hr_headers = bearerHeaders bearer, hr_body = JNull\<rparr> in
      (case server sent req of
         Network e \<Rightarrow> Inl e
       | Answered st msg body \<Rightarrow>
           if res_ok st then Inr () else Inl (''refresh-blocklist-cache'' @ arrow @ nat_to_string st @ '': '' @ msg),
       sent @ [req]))"

definition getJson ::
  "server \<Rightarrow> test_config \<Rightarrow> string \<Rightarrow> string obj \<Rightarrow> http_request list \<Rightarrow> (string + nat \<times> json) \<times> http_request list" where
  "getJson server config path headers sent =
     (let req = \<lparr>hr_method = ''GET'', hr_url = api_url config path, hr_headers = headers, hr_body = JNull\<rparr> in
      (case server sent req of Network e \<Rightarrow> Inl e | Answered st msg body \<Rightarrow> Inr (st, body), sent @ [req]))"

definition postJsonRaw ::
  "server \<Rightarrow> test_config \<Rightarrow> string \<Rightarrow> string obj \<Rightarrow> json \<Rightarrow> http_request list \<Rightarrow> (string + json) \<times> http_request list" where
  "postJsonRaw server config path headers body sent =
     (let req = \<lparr>hr_method = ''POST'', hr_url = api_url config path, hr_headers = headers, hr_body = body\<rparr> in
      (case server sent req of
         Network e \<Rightarrow> Inl e
       | Answered st msg answer \<Rightarrow>
           if res_ok st then Inr answer else Inl (path @ arrow @ nat_to_string st @ '': '' @ msg),
       sent @ [req]))"

section \<open>Unique names and payloads\<close>

text \<open>The counter of the module, the clock and a random number below 1000000; the result is the name and the new
  counter.\<close>

definition uniq :: "nat \<Rightarrow> nat \<Rightarrow> nat \<Rightarrow> string \<times> nat" where
  "uniq now rnd counter =
     (nat_to_string now @ ''-'' @ nat_to_string (counter + 1) @ ''-'' @ nat_to_string rnd, counter + 1)"

definition defaultIndividualLegalEntity :: "string \<Rightarrow> string \<Rightarrow> string \<Rightarrow> json" where
  "defaultIndividualLegalEntity u tenantId label =
     JObj [(''legal_entity_type'', JStr ''individual''), (''first_name'', JStr (label @ ''First-'' @ u)),
           (''last_name'', JStr (label @ ''Last-'' @ u)), (''date_of_birth'', JStr ''1990-01-01''),
           (''citizenship_country'', JStr ''US''), (''politically_exposed_person'', JBool False),
           (''tenant_id'', JStr tenantId)]"

text \<open>\<open>leOverride ?? default\<close>: the default draws a name only when it is used.\<close>

definition legal_entity_or ::
  "nat \<Rightarrow> nat \<Rightarrow> string \<Rightarrow> string \<Rightarrow> json obj \<Rightarrow> nat \<Rightarrow> json \<times> nat" where
  "legal_entity_or now rnd tenantId label overrides counter =
     (case obj_get overrides ''legal_entity'' of
        Some v \<Rightarrow> if v = JNull
                  then (defaultIndividualLegalEntity (fst (uniq now rnd counter)) tenantId label, counter + 1)
                  else (v, counter)
      | None \<Rightarrow> (defaultIndividualLegalEntity (fst (uniq now rnd counter)) tenantId label, counter + 1))"

definition account_holder_payload :: "string \<Rightarrow> json \<Rightarrow> json obj \<Rightarrow> json obj" where
  "account_holder_payload tenantId le overrides =
     obj_spread
       [(''account_holder_type'', JStr ''individual''), (''status'', JStr ''pending''),
        (''kyc_status'', JStr ''not_started''), (''risk_level'', JStr ''low''),
        (''enabled_currencies'', JArr [JStr ''USD'']), (''chain_screening'', JBool False),
        (''tenant_id'', JStr tenantId), (''legal_entity'', le)]
       (obj_delete ''legal_entity'' overrides)"

definition counterparty_payload :: "string \<Rightarrow> string \<Rightarrow> json \<Rightarrow> json obj \<Rightarrow> json obj" where
  "counterparty_payload tenantId accountHolderId le overrides =
     obj_spread
       [(''status'', JStr ''active''), (''account_holder_id'', JStr accountHolderId), (''tenant_id'', JStr tenantId),
        (''chain_screening'', JBool False), (''legal_entity'', le)]
       (obj_delete ''legal_entity'' overrides)"

definition beneficial_owner_payload :: "string \<Rightarrow> string \<Rightarrow> json \<Rightarrow> json obj \<Rightarrow> json obj" where
  "beneficial_owner_payload tenantId accountHolderId le overrides =
     obj_spread
       [(''control_type'', JStr ''shareholder''), (''ownership_pct'', JNum 25),
        (''verification_status'', JStr ''pending''), (''account_holder_id'', JStr accountHolderId),
        (''tenant_id'', JStr tenantId), (''legal_entity'', le)]
       (obj_delete ''legal_entity'' overrides)"

text \<open>\<open>{ id, legalEntityId }\<close> of the answer.\<close>

definition party_ids :: "json \<Rightarrow> json option \<times> json" where
  "party_ids answer =
     (jget (Some answer) ''id'',
      (case jget (jget (Some answer) ''legal_entity'') ''id'' of
         None \<Rightarrow> JStr [] | Some JNull \<Rightarrow> JStr [] | Some v \<Rightarrow> v))"

definition createAccountHolder ::
  "server \<Rightarrow> test_config \<Rightarrow> nat \<Rightarrow> nat \<Rightarrow> string \<Rightarrow> string \<Rightarrow> json obj \<Rightarrow> nat \<Rightarrow> http_request list \<Rightarrow>
   (string + json option \<times> json) \<times> nat \<times> http_request list" where
  "createAccountHolder server config now rnd bearer tenantId overrides counter sent =
     (let (le, counter') = legal_entity_or now rnd tenantId ''AH'' overrides counter;
          (res, sent') = postJsonRaw server config ''/api/account-holders'' (bearerHeaders bearer)
            (JObj (account_holder_payload tenantId le overrides)) sent
      in (bind_sum res (\<lambda>ah. Inr (party_ids ah)), counter', sent'))"

definition createCounterparty ::
  "server \<Rightarrow> test_config \<Rightarrow> nat \<Rightarrow> nat \<Rightarrow> string \<Rightarrow> string \<Rightarrow> string \<Rightarrow> json obj \<Rightarrow> nat \<Rightarrow> http_request list \<Rightarrow>
   (string + json option \<times> json) \<times> nat \<times> http_request list" where
  "createCounterparty server config now rnd bearer tenantId accountHolderId overrides counter sent =
     (let (le, counter') = legal_entity_or now rnd tenantId ''CP'' overrides counter;
          (res, sent') = postJsonRaw server config ''/api/counterparties'' (bearerHeaders bearer)
            (JObj (counterparty_payload tenantId accountHolderId le overrides)) sent
      in (bind_sum res (\<lambda>cp. Inr (party_ids cp)), counter', sent'))"

definition createBeneficialOwner ::
  "server \<Rightarrow> test_config \<Rightarrow> nat \<Rightarrow> nat \<Rightarrow> string \<Rightarrow> string \<Rightarrow> string \<Rightarrow> json obj \<Rightarrow> nat \<Rightarrow> http_request list \<Rightarrow>
   (string + json option \<times> json) \<times> nat \<times> http_request list" where
  "createBeneficialOwner server config now rnd bearer tenantId accountHolderId overrides counter sent =
     (let (le, counter') = legal_entity_or now rnd tenantId ''BO'' overrides counter;
          (res, sent') = postJsonRaw server config ''/api/beneficial-owners'' (bearerHeaders bearer)
            (JObj (beneficial_owner_payload tenantId accountHolderId le overrides)) sent
      in (bind_sum res (\<lambda>bo. Inr (party_ids bo)), counter', sent'))"

section \<open>Warming up the model before the browser tests\<close>

text \<open>What the setup did: the requests it sent and how it ended. \<open>ping\<close> and \<open>gen\<close> are the two answers:
  \<open>None\<close> when \<open>fetch\<close> throws (also for a timeout), else whether the status is ok.\<close>

datatype warmup_end = Skipped | Unreachable | Warmup_failed | Warmed

definition ollama_url :: "process_env \<Rightarrow> string \<Rightarrow> string" where
  "ollama_url env path = nullish (env ''OLLAMA_BASE_URL'') ''http://localhost:11434'' @ path"

definition warm_request :: "process_env \<Rightarrow> http_request" where
  "warm_request env =
     \<lparr>hr_method = ''POST'', hr_url = ollama_url env ''/api/generate'',
      hr_headers = [(''content-type'', ''application/json'')],
      hr_body = JObj [(''model'', JStr (nullish (env ''LLM_MODEL'') ''qwen3.5:9b'')), (''prompt'', JStr ''ok''),
        (''stream'', JBool False), (''keep_alive'', JStr ''15m''), (''options'', JObj [(''num_predict'', JNum 1)])]\<rparr>"

definition ping_request :: "process_env \<Rightarrow> http_request" where
  "ping_request env =
     \<lparr>hr_method = ''GET'', hr_url = ollama_url env ''/api/tags'', hr_headers = [], hr_body = JNull\<rparr>"

definition warmOllama ::
  "process_env \<Rightarrow> (http_request \<Rightarrow> bool option) \<Rightarrow> warmup_end \<times> http_request list" where
  "warmOllama env answer =
     (if env ''SKIP_OLLAMA_WARMUP'' = Some ''1'' then (Skipped, [])
      else if nullish (answer (ping_request env)) False
      then ((case answer (warm_request env) of None \<Rightarrow> Warmup_failed | Some b \<Rightarrow> Warmed),
            [ping_request env, warm_request env])
      else (Unreachable, [ping_request env]))"

section \<open>Facts\<close>

text \<open>The two tests for success agree on every status of HTTP.\<close>

lemma status_test: "100 \<le> st \<Longrightarrow> st \<le> 999 \<Longrightarrow> starts_with (nat_to_string st) ''2'' \<longleftrightarrow> res_ok st"
proof -
  assume st: "100 \<le> st" "st \<le> 999"
  then have "10 \<le> st div 10" "st div 100 < 10" by arith+
  with st have "nat_to_string st = [char_of (48 + st div 100), char_of (48 + st div 10 mod 10), char_of (48 + st mod 10)]"
    by (simp add: nat_to_string.simps [of st] nat_to_string.simps [of "st div 10"] nat_to_string.simps [of "st div 100"]
        div_mult2_eq [symmetric])
  then have "starts_with (nat_to_string st) ''2'' \<longleftrightarrow> char_of (48 + st div 100) = CHR ''2''"
    by simp
  also have "\<dots> \<longleftrightarrow> st div 100 = 2"
  proof -
    have "(of_char (char_of (48 + st div 100) :: char) :: nat) = 48 + st div 100"
      using st by (simp add: of_char_of)
    moreover have "char_of (48 + st div 100) = CHR ''2'' \<longleftrightarrow>
        (of_char (char_of (48 + st div 100) :: char) :: nat) = of_char (CHR ''2'')"
      by (simp only: of_char_eq_iff)
    ultimately show ?thesis by simp
  qed
  also have "\<dots> \<longleftrightarrow> res_ok st" using st by (auto simp: res_ok_def)
  finally show ?thesis .
qed

text \<open>Names drawn with different counters differ, whatever the clock and the random numbers are.\<close>

lemma split_at_dash:
  assumes "CHR ''-'' \<notin> set a" "CHR ''-'' \<notin> set b" "a @ ''-'' @ x = b @ ''-'' @ y"
  shows "a = b \<and> x = y"
proof -
  have "takeWhile (\<lambda>c. c \<noteq> CHR ''-'') (a @ ''-'' @ x) = a" "takeWhile (\<lambda>c. c \<noteq> CHR ''-'') (b @ ''-'' @ y) = b"
    using assms(1,2) by (subst takeWhile_append2; auto)+
  with assms(3) have "a = b" by metis
  with assms(3) show ?thesis by simp
qed

lemma numeral_no_dash: "CHR ''-'' \<notin> set (nat_to_string n)"
  using nat_to_string_digits [of "CHR ''-''" n] by auto

lemma uniq_inj: "fst (uniq now rnd c) = fst (uniq now' rnd' c') \<Longrightarrow> now = now' \<and> c = c' \<and> rnd = rnd'"
proof -
  assume "fst (uniq now rnd c) = fst (uniq now' rnd' c')"
  then have "nat_to_string now @ ''-'' @ nat_to_string (c + 1) @ ''-'' @ nat_to_string rnd =
      nat_to_string now' @ ''-'' @ nat_to_string (c' + 1) @ ''-'' @ nat_to_string rnd'"
    by (simp only: uniq_def fst_conv)
  then have "nat_to_string now = nat_to_string now'"
    and "nat_to_string (c + 1) @ ''-'' @ nat_to_string rnd = nat_to_string (c' + 1) @ ''-'' @ nat_to_string rnd'"
    using split_at_dash [OF numeral_no_dash numeral_no_dash] by blast+
  then show ?thesis
    using split_at_dash [OF numeral_no_dash numeral_no_dash, of "c + 1" "nat_to_string rnd" "c' + 1" "nat_to_string rnd'"]
    by simp
qed

text \<open>An override replaces the default of its field and nothing else; the legal entity is the override's unless
  that is null.\<close>

lemma obj_delete_Nil: "obj_delete k [] = []"
  by (simp add: obj_delete_def)

lemma account_holder_overrides:
  "wf_obj overrides \<Longrightarrow> k \<noteq> ''legal_entity'' \<Longrightarrow>
   obj_get (account_holder_payload tenantId le overrides) k =
     (case obj_get overrides k of None \<Rightarrow> obj_get (account_holder_payload tenantId le []) k | Some v \<Rightarrow> Some v)"
  by (simp add: account_holder_payload_def obj_get_spread obj_delete_Nil split: option.split)

text \<open>With the base URL the sidecar documents, which ends in \<open>/api\<close>, the setup asks for a path that repeats it.\<close>

lemma documented_url_is_doubled:
  "env ''OLLAMA_BASE_URL'' = Some ''http://localhost:11434/api'' \<Longrightarrow>
   hr_url (ping_request env) = ''http://localhost:11434/api/api/tags''"
  by (simp add: ping_request_def ollama_url_def)

text \<open>A generate request that is answered with an error status counts as warmed up.\<close>

lemma failed_generate_counts_as_warm:
  "env ''SKIP_OLLAMA_WARMUP'' = None \<Longrightarrow> answer (ping_request env) = Some True \<Longrightarrow>
   answer (warm_request env) = Some False \<Longrightarrow> fst (warmOllama env answer) = Warmed"
  by (simp add: warmOllama_def)

end
