(* ===== verification/Backend_Router.thy ===== *)
theory Backend_Router
  imports Rule_Page Api_Helpers
begin

text \<open>
  The other end of the clients' requests: the routes of the backend (\<open>lib/atomic_fi_api/routes.ex\<close>,
  \<open>lib/atomic_fi_web/router.ex\<close>), the choice of one for a method and a path, and the credentials the
  authenticated pipeline asks for (\<open>lib/atomic_fi_api/plugs/api_authentication.ex\<close>). The clients that are
  compared with it are those of \<open>helpers/rules-api.ts\<close>, \<open>helpers/screening-api.ts\<close>,
  \<open>packages/sdk/src/auth.ts\<close>, \<open>example-apps/lotus-embed/src/App.tsx\<close> and
  \<open>integration-tests/src/test-helpers.ts\<close>.

  A route is written as the source writes it, with its parameters after a colon. The router works as its
  documentation says: the segments of a path are decoded one by one, a malformed one is a bad request,
  and the first route that fits is taken. The routes of the development tools and of the dashboard under
  \<open>/lotus\<close> are a library's and left out.
\<close>

section \<open>Routes\<close>

datatype pat = Lit string | Param | Rest

definition pattern :: "string \<Rightarrow> pat list" where
  "pattern path = map (\<lambda>w. if starts_with w '':'' then Param else if starts_with w ''*'' then Rest else Lit w) (segments path)"

record route =
  rt_method :: string
  rt_pattern :: "pat list"
  rt_action :: string
  rt_protected :: bool

definition route_at :: "bool \<Rightarrow> string \<Rightarrow> string \<times> string \<times> string \<Rightarrow> route" where
  "route_at protected prefix r =
     (case r of (m, p, a) \<Rightarrow> \<lparr>rt_method = m, rt_pattern = pattern (prefix @ p), rt_action = a, rt_protected = protected\<rparr>)"

definition index_show :: "string \<Rightarrow> string \<Rightarrow> (string \<times> string \<times> string) list" where
  "index_show p c = [(''GET'', p, c @ ''.index''), (''GET'', p @ ''/:id'', c @ ''.show'')]"

definition create_route :: "string \<Rightarrow> string \<Rightarrow> (string \<times> string \<times> string) list" where
  "create_route p c = [(''POST'', p, c @ ''.create'')]"

definition change_routes :: "string \<Rightarrow> string \<Rightarrow> (string \<times> string \<times> string) list" where
  "change_routes p c = [(''PUT'', p @ ''/:id'', c @ ''.update''), (''DELETE'', p @ ''/:id'', c @ ''.delete'')]"

definition crud :: "string \<Rightarrow> string \<Rightarrow> (string \<times> string \<times> string) list" where
  "crud p c = index_show p c @ create_route p c @ change_routes p c"

text \<open>\<open>resources\<close> with the listed actions; an update also answers \<open>PATCH\<close>.\<close>

definition resources :: "string \<Rightarrow> string \<Rightarrow> (string \<times> string \<times> string) list" where
  "resources p c = index_show p c @ create_route p c @ [(''PATCH'', p @ ''/:id'', c @ ''.update'')] @ change_routes p c"

definition public_routes :: "(string \<times> string \<times> string) list" where
  "public_routes =
     [(''GET'', ''/info'', ''ApiInfo.info''),
      (''GET'', ''/info/normalization-rules'', ''ApiInfo.normalization_rules''),
      (''GET'', ''/openapi'', ''OpenApiSpec.spec''),
      (''POST'', ''/sessions'', ''Session.create''),
      (''POST'', ''/parse'', ''Parse.create'')]"

definition screening_routes :: "(string \<times> string \<times> string) list" where
  "screening_routes =
     index_show ''/compliance-screenings'' ''ComplianceScreening'' @
     change_routes ''/compliance-screenings'' ''ComplianceScreening'' @
     [(''POST'', ''/compliance-screenings/screen-account-holder'', ''ComplianceScreening.screen_account_holder''),
      (''POST'', ''/compliance-screenings/screen-beneficial-owner'', ''ComplianceScreening.screen_beneficial_owner''),
      (''POST'', ''/compliance-screenings/screen-counterparty'', ''ComplianceScreening.screen_counterparty''),
      (''POST'', ''/compliance-screenings/screen-payment-account'', ''ComplianceScreening.screen_payment_account''),
      (''POST'', ''/compliance-screenings/account-holders/:id/screen'', ''ComplianceScreening.screen_account_holder_by_id''),
      (''POST'', ''/compliance-screenings/beneficial-owners/:id/screen'', ''ComplianceScreening.screen_beneficial_owner_by_id''),
      (''POST'', ''/compliance-screenings/counterparties/:id/screen'', ''ComplianceScreening.screen_counterparty_by_id'')]"

definition party_routes :: "(string \<times> string \<times> string) list list" where
  "party_routes =
     [crud ''/account-holders'' ''AccountHolder'' @
      [(''POST'', ''/account-holders/:id/refresh'', ''AccountHolder.refresh''),
       (''PUT'', ''/account-holders/:id/legal-entity'', ''AccountHolder.update_legal_entity'')],
      crud ''/beneficial-owners'' ''BeneficialOwner'' @
      [(''PUT'', ''/beneficial-owners/:id/legal-entity'', ''BeneficialOwner.update_legal_entity'')],
      crud ''/counterparties'' ''Counterparty'' @
      [(''POST'', ''/counterparties/:id/refresh'', ''Counterparty.refresh''),
       (''PUT'', ''/counterparties/:id/legal-entity'', ''Counterparty.update_legal_entity'')]]"

definition rule_routes :: "(string \<times> string \<times> string) list" where
  "rule_routes =
     [(''GET'', ''/rules/:rule_type'', ''Rule.index''),
      (''GET'', ''/rules/:rule_type/:name'', ''Rule.show''),
      (''PUT'', ''/rules/:rule_type/:name'', ''Rule.update''),
      (''DELETE'', ''/rules/:rule_type/:name'', ''Rule.delete'')]"

definition protected_routes :: "(string \<times> string \<times> string) list list" where
  "protected_routes =
     [crud ''/tenants'' ''Tenant'' @
      [(''POST'', ''/tenants/refresh-blocklist-cache'', ''Tenant.refresh_blocklist_cache'')],
      resources ''/users'' ''User'', resources ''/roles'' ''Role'',
      index_show ''/api-keys'' ''ApiKey'' @ create_route ''/api-keys'' ''ApiKey'' @
      [(''DELETE'', ''/api-keys/:id'', ''ApiKey.delete'')],
      [(''GET'', ''/sessions/verify'', ''Session.verify''), (''DELETE'', ''/sessions'', ''Session.delete'')],
      screening_routes] @ party_routes @
     [rule_routes,
      crud ''/kyc-requirements'' ''KycRequirement'', crud ''/ledgers'' ''Ledger'',
      crud ''/ledger-accounts'' ''LedgerAccount'', crud ''/ledger-entries'' ''LedgerEntry'',
      index_show ''/ledger-account-balances'' ''LedgerAccountBalance'',
      crud ''/documents'' ''Document'',
      crud ''/payment-accounts'' ''PaymentAccount'' @
      [(''POST'', ''/payment-accounts/:id/refresh'', ''PaymentAccount.refresh'')],
      crud ''/transactions'' ''Transaction'', crud ''/account-activity-snapshots'' ''AccountActivitySnapshot'',
      crud ''/blocklist-entries'' ''BlocklistEntry'', crud ''/risk-classifications'' ''RiskClassification'',
      crud ''/party-activity-snapshots'' ''PartyActivitySnapshot'',
      [(''POST'', ''/lotus/embed-token'', ''LotusEmbed.create'')],
      crud ''/legal-entity-change-events'' ''LegalEntityChangeEvent'']"

definition web_routes :: "(string \<times> string \<times> string) list" where
  "web_routes =
     [(''GET'', ''/health-check'', ''Page.health_check''), (''GET'', ''/'', ''Page.home''),
      (''GET'', ''/api/docs'', ''Scalar.index''), (''GET'', ''/demo/:app'', ''Page.demo_app''),
      (''GET'', ''/demo/:app/*path'', ''Page.demo_app'')]"

text \<open>The whole table, in the groups the comments of the source make; no two groups have a path in common.\<close>

definition ROUTES :: "route list list" where
  "ROUTES = map (route_at False []) web_routes # map (route_at False ''/api'') public_routes #
     map (map (route_at True ''/api'')) protected_routes"

section \<open>Choosing a route\<close>

fun fits :: "pat list \<Rightarrow> string list \<Rightarrow> bool" where
  "fits [] ws = (ws = [])"
| "fits (Rest # ps) ws = True"
| "fits (Lit l # ps) [] = False"
| "fits (Lit l # ps) (w # ws) = (w = l \<and> fits ps ws)"
| "fits (Param # ps) [] = False"
| "fits (Param # ps) (w # ws) = fits ps ws"

fun params_of :: "pat list \<Rightarrow> string list \<Rightarrow> string list" where
  "params_of (Lit l # ps) (w # ws) = params_of ps ws"
| "params_of (Param # ps) (w # ws) = w # params_of ps ws"
| "params_of ps ws = []"

datatype routing = Malformed | No_route | To route "string list"

text \<open>The first route that fits.\<close>

fun find_route :: "string \<Rightarrow> string list \<Rightarrow> route list list \<Rightarrow> route option" where
  "find_route m ws [] = None"
| "find_route m ws (g # gs) =
     (case find (\<lambda>r. rt_method r = m \<and> fits (rt_pattern r) ws) g of
        Some r \<Rightarrow> Some r
      | None \<Rightarrow> find_route m ws gs)"

lemma find_append: "find P (xs @ ys) = (case find P xs of Some x \<Rightarrow> Some x | None \<Rightarrow> find P ys)"
  by (induction xs) simp_all

lemma find_route_concat: "find_route m ws gs = find (\<lambda>r. rt_method r = m \<and> fits (rt_pattern r) ws) (concat gs)"
  by (induction gs) (simp_all add: find_append split: option.split)

definition first_fit :: "route list list \<Rightarrow> string \<Rightarrow> string list \<Rightarrow> routing" where
  "first_fit rs m ws =
     (case find_route m ws rs of None \<Rightarrow> No_route | Some r \<Rightarrow> To r (params_of (rt_pattern r) ws))"

definition route_segments :: "string \<Rightarrow> string list \<Rightarrow> routing" where
  "route_segments m ws = first_fit ROUTES m ws"

definition route_request :: "string \<Rightarrow> string \<Rightarrow> routing" where
  "route_request m path =
     (case those (map decodeURIComponent (segments path)) of None \<Rightarrow> Malformed | Some ws \<Rightarrow> route_segments m ws)"

section \<open>Credentials\<close>

text \<open>The values of a header, whose names the server has in lower case.\<close>

definition get_req_header :: "(string \<times> string) list \<Rightarrow> string \<Rightarrow> string list" where
  "get_req_header hs k = map snd (filter (\<lambda>h. fst h = k) hs)"

definition api_key_header :: "(string \<times> string) list \<Rightarrow> string option" where
  "api_key_header hs = (case get_req_header hs ''x-api-key'' of key # _ \<Rightarrow> if key \<noteq> [] then Some key else None | [] \<Rightarrow> None)"

definition bearer_token :: "(string \<times> string) list \<Rightarrow> string option" where
  "bearer_token hs =
     (case get_req_header hs ''authorization'' of
        h # _ \<Rightarrow>
          if (starts_with h ''Bearer '' \<or> starts_with h ''bearer '') \<and> drop 7 h \<noteq> [] then Some (drop 7 h) else None
      | [] \<Rightarrow> None)"

text \<open>Which keys and tokens are valid is the database's; the key is looked at first.\<close>

definition authenticated :: "(string \<Rightarrow> bool) \<Rightarrow> (string \<Rightarrow> bool) \<Rightarrow> (string \<times> string) list \<Rightarrow> bool" where
  "authenticated key_ok bearer_ok hs =
     (case api_key_header hs of
        Some key \<Rightarrow> key_ok key
      | None \<Rightarrow> (case bearer_token hs of Some t \<Rightarrow> bearer_ok t | None \<Rightarrow> False))"

definition presents_credential :: "(string \<times> string) list \<Rightarrow> bool" where
  "presents_credential hs = (api_key_header hs \<noteq> None \<or> bearer_token hs \<noteq> None)"

lemma authenticated_presents: "authenticated K B hs \<Longrightarrow> presents_credential hs"
  by (auto simp: authenticated_def presents_credential_def split: option.splits)

section \<open>Screening previews\<close>

definition SCREENING_ENTITY_TYPES :: "string list" where
  "SCREENING_ENTITY_TYPES = [''account-holder'', ''beneficial-owner'', ''counterparty'', ''payment-account'']"

definition SCREENING_ENTITY_LABELS :: "string obj" where
  "SCREENING_ENTITY_LABELS =
     [(''account-holder'', ''Account holder''), (''beneficial-owner'', ''Beneficial owner''),
      (''counterparty'', ''Counterparty''), (''payment-account'', ''Payment account'')]"

definition previewScreen_request :: "string \<Rightarrow> json \<Rightarrow> http" where
  "previewScreen_request entityType payload = Post (''/api/compliance-screenings/screen-'' @ entityType) payload"

fun http_method :: "http \<Rightarrow> string" where
  "http_method (Get p) = ''GET''"
| "http_method (Put p b) = ''PUT''"
| "http_method (Delete p) = ''DELETE''"
| "http_method (Post p b) = ''POST''"

fun http_path :: "http \<Rightarrow> string" where
  "http_path (Get p) = p"
| "http_path (Put p b) = p"
| "http_path (Delete p) = p"
| "http_path (Post p b) = p"

section \<open>The requests of the clients\<close>

text \<open>A request as the server sees it: method, path and headers. The editor's client adds the stored key; the
  other clients put the path after the address of the server.\<close>

type_synonym wire = "string \<times> string \<times> (string \<times> string) list"

definition key_header :: "string option \<Rightarrow> (string \<times> string) list" where
  "key_header k = (case k of None \<Rightarrow> [] | Some key \<Rightarrow> [(''x-api-key'', key)])"

definition atomicFiClient :: "string option \<Rightarrow> string option \<Rightarrow> http \<Rightarrow> wire" where
  "atomicFiClient own held r = (http_method r, http_path r, key_header (request_key own held))"

definition verify_wire :: "string \<Rightarrow> wire" where
  "verify_wire apiKey = (''GET'', ''/api/sessions/verify'', [(''x-api-key'', trim apiKey)])"

definition wire_of :: "string \<Rightarrow> http_request \<Rightarrow> wire" where
  "wire_of base r = (hr_method r, drop (length base) (hr_url r), hr_headers r)"

definition login_wire :: wire where
  "login_wire = (''POST'', ''/api/sessions'', [(''content-type'', ''application/json'')])"

definition embed_token_wire :: "string \<Rightarrow> wire" where
  "embed_token_wire bearer =
     (''POST'', ''/api/lotus/embed-token'', [(''content-type'', ''application/json''), (''authorization'', ''Bearer '' @ bearer)])"

definition parse_wire :: wire where
  "parse_wire = (''POST'', ''/api/parse'', [(''content-type'', ''application/json'')])"

text \<open>A request is served by an action when it is routed to it with these parameters and brings a credential
  if the route asks for one.\<close>

definition served :: "wire \<times> string \<times> string list \<Rightarrow> bool" where
  "served x =
     (case x of ((m, p, hs), a, ps) \<Rightarrow>
        (case route_request m p of
           To r qs \<Rightarrow> rt_action r = a \<and> qs = ps \<and> (rt_protected r \<longrightarrow> presents_credential hs)
         | _ \<Rightarrow> False))"

definition editor_calls :: "string option \<Rightarrow> string \<Rightarrow> string \<Rightarrow> json \<Rightarrow> string \<Rightarrow> (wire \<times> string \<times> string list) list" where
  "editor_calls held t n v e =
     [(atomicFiClient None held (listRules_request t), ''Rule.index'', [t]),
      (atomicFiClient None held (getRule_request t n), ''Rule.show'', [t, n]),
      (atomicFiClient None held (saveRule_request t n v), ''Rule.update'', [t, n]),
      (atomicFiClient None held (deleteRule_request t n), ''Rule.delete'', [t, n]),
      (atomicFiClient None held (previewScreen_request e v), ''ComplianceScreening.screen_'' @ map (\<lambda>c. if c = CHR ''-'' then CHR ''_'' else c) e, []),
      (verify_wire (nullish held []), ''Session.verify'', [])]"

definition sdk_calls :: "string \<Rightarrow> mint_args \<Rightarrow> string \<Rightarrow> string \<Rightarrow> (wire \<times> string \<times> string list) list" where
  "sdk_calls now a tenant role =
     [(wire_of (ma_baseUrl a) (tenant_request now a), ''Tenant.create'', []),
      (wire_of (ma_baseUrl a) (role_request now a tenant), ''Role.create'', []),
      (wire_of (ma_baseUrl a) (key_request now a tenant role), ''ApiKey.create'', [])]"

definition demo_calls :: "string \<Rightarrow> (wire \<times> string \<times> string list) list" where
  "demo_calls bearer =
     [(login_wire, ''Session.create'', []), (embed_token_wire bearer, ''LotusEmbed.create'', []),
      (parse_wire, ''Parse.create'', [])]"

definition helper_calls :: "test_config \<Rightarrow> string \<Rightarrow> (wire \<times> string \<times> string list) list" where
  "helper_calls config bearer =
     (let base = nullish (tc_baseUrl config) ''undefined'';
          post = (\<lambda>path. wire_of base \<lparr>hr_method = ''POST'', hr_url = api_url config path,
                                       hr_headers = bearerHeaders bearer, hr_body = JNull\<rparr>)
      in [(wire_of base (session_request config), ''Session.create'', []),
          (post ''/api/tenants/refresh-blocklist-cache'', ''Tenant.refresh_blocklist_cache'', []),
          (post ''/api/account-holders'', ''AccountHolder.create'', []),
          (post ''/api/counterparties'', ''Counterparty.create'', []),
          (post ''/api/beneficial-owners'', ''BeneficialOwner.create'', [])])"

section \<open>Every request finds its route\<close>

lemma segments_rule:
  assumes "segment t" "segment n"
  shows "segments (''/api/rules/'' @ t @ ''/'' @ n) = [''api'', ''rules'', t, n]"
    and "segments (''/api/rules/'' @ t) = [''api'', ''rules'', t]"
proof -
  have "split_slash (t @ CHR ''/'' # n) = [t, n]" "split_slash t = [t]"
    using assms by (simp_all add: segment_def)
  then show "segments (''/api/rules/'' @ t @ ''/'' @ n) = [''api'', ''rules'', t, n]"
    and "segments (''/api/rules/'' @ t) = [''api'', ''rules'', t]"
    using assms by (simp_all add: segments_def segment_def)
qed

text \<open>The choice of a route only looks at the segments the routes fix, so it can be evaluated with the others left open.\<close>

definition summary :: "routing \<Rightarrow> (string \<times> bool \<times> string list) option" where
  "summary r = (case r of To rt ps \<Rightarrow> Some (rt_action rt, rt_protected rt, ps) | _ \<Rightarrow> None)"

lemma served_summary:
  "served ((m, p, hs), a, ps) =
     (case summary (route_request m p) of
        None \<Rightarrow> False
      | Some (a', b, qs) \<Rightarrow> a' = a \<and> qs = ps \<and> (b \<longrightarrow> presents_credential hs))"
  by (simp add: served_def summary_def split: routing.splits)

text \<open>What the routes make of the segments of every request of the clients.\<close>

definition expected :: "string \<Rightarrow> string \<Rightarrow> (string \<times> string list \<times> (string \<times> bool \<times> string list)) list" where
  "expected t n =
     [(''GET'', [''api'', ''rules'', t], (''Rule.index'', True, [t])),
      (''GET'', [''api'', ''rules'', t, n], (''Rule.show'', True, [t, n])),
      (''PUT'', [''api'', ''rules'', t, n], (''Rule.update'', True, [t, n])),
      (''DELETE'', [''api'', ''rules'', t, n], (''Rule.delete'', True, [t, n])),
      (''GET'', [''api'', ''sessions'', ''verify''], (''Session.verify'', True, [])),
      (''POST'', [''api'', ''sessions''], (''Session.create'', False, [])),
      (''POST'', [''api'', ''parse''], (''Parse.create'', False, [])),
      (''POST'', [''api'', ''lotus'', ''embed-token''], (''LotusEmbed.create'', True, [])),
      (''POST'', [''api'', ''tenants''], (''Tenant.create'', True, [])),
      (''POST'', [''api'', ''roles''], (''Role.create'', True, [])),
      (''POST'', [''api'', ''api-keys''], (''ApiKey.create'', True, [])),
      (''POST'', [''api'', ''tenants'', ''refresh-blocklist-cache''], (''Tenant.refresh_blocklist_cache'', True, [])),
      (''POST'', [''api'', ''account-holders''], (''AccountHolder.create'', True, [])),
      (''POST'', [''api'', ''counterparties''], (''Counterparty.create'', True, [])),
      (''POST'', [''api'', ''beneficial-owners''], (''BeneficialOwner.create'', True, [])),
      (''POST'', [''api'', ''compliance-screenings'', ''screen-account-holder''], (''ComplianceScreening.screen_account_holder'', True, [])),
      (''POST'', [''api'', ''compliance-screenings'', ''screen-beneficial-owner''], (''ComplianceScreening.screen_beneficial_owner'', True, [])),
      (''POST'', [''api'', ''compliance-screenings'', ''screen-counterparty''], (''ComplianceScreening.screen_counterparty'', True, [])),
      (''POST'', [''api'', ''compliance-screenings'', ''screen-payment-account''], (''ComplianceScreening.screen_payment_account'', True, []))]"

lemma all_routed:
  "let rs = ROUTES in list_all (\<lambda>(m, ws, x). nullish (summary (first_fit rs m ws)) ([], False, []) = x) (expected t n)"
  by code_simp

lemma segments_routed:
  assumes "(m, ws, x) \<in> set (expected t n)" and "fst x \<noteq> []"
  shows "summary (route_segments m ws) = Some x"
proof -
  have "nullish (summary (route_segments m ws)) ([], False, []) = x"
    using all_routed [of t n] assms(1) by (auto simp: Let_def list_all_iff route_segments_def)
  then show ?thesis
    using assms(2) by (cases "summary (route_segments m ws)") (auto simp: nullish_def)
qed

lemma rule_segments_routed:
  "summary (route_segments ''GET'' [''api'', ''rules'', t]) = Some (''Rule.index'', True, [t])"
  "summary (route_segments ''GET'' [''api'', ''rules'', t, n]) = Some (''Rule.show'', True, [t, n])"
  "summary (route_segments ''PUT'' [''api'', ''rules'', t, n]) = Some (''Rule.update'', True, [t, n])"
  "summary (route_segments ''DELETE'' [''api'', ''rules'', t, n]) = Some (''Rule.delete'', True, [t, n])"
  by (rule segments_routed [of _ _ _ t n], simp add: expected_def, simp)+

text \<open>The paths without parameters are their own segments.\<close>

lemma fixed_segments:
  "list_all (\<lambda>ws. those (map decodeURIComponent (segments (concat (map (Cons CHR ''/'') ws)))) = Some ws)
     (map (fst \<circ> snd) (drop 4 (expected t n)))"
  by code_simp

lemma fixed_requested:
  assumes "(m, ws, x) \<in> set (drop 4 (expected t n))" and "path = concat (map (Cons CHR ''/'') ws)"
  shows "summary (route_request m path) = Some x"
proof -
  have "ws \<in> set (map (fst \<circ> snd) (drop 4 (expected t n)))"
    using assms(1) by force
  then have "those (map decodeURIComponent (segments path)) = Some ws"
    using fixed_segments [of t n] assms(2) unfolding list_all_iff by blast
  moreover have "(m, ws, x) \<in> set (expected t n)" "fst x \<noteq> []"
    using assms(1) by (auto simp: expected_def)
  ultimately show ?thesis
    using segments_routed by (simp add: route_request_def)
qed

lemma fixed_paths_routed:
  "summary (route_request ''GET'' ''/api/sessions/verify'') = Some (''Session.verify'', True, [])"
  "summary (route_request ''POST'' ''/api/sessions'') = Some (''Session.create'', False, [])"
  "summary (route_request ''POST'' ''/api/parse'') = Some (''Parse.create'', False, [])"
  "summary (route_request ''POST'' ''/api/lotus/embed-token'') = Some (''LotusEmbed.create'', True, [])"
  "summary (route_request ''POST'' ''/api/tenants'') = Some (''Tenant.create'', True, [])"
  "summary (route_request ''POST'' ''/api/roles'') = Some (''Role.create'', True, [])"
  "summary (route_request ''POST'' ''/api/api-keys'') = Some (''ApiKey.create'', True, [])"
  "summary (route_request ''POST'' ''/api/tenants/refresh-blocklist-cache'') = Some (''Tenant.refresh_blocklist_cache'', True, [])"
  "summary (route_request ''POST'' ''/api/account-holders'') = Some (''AccountHolder.create'', True, [])"
  "summary (route_request ''POST'' ''/api/counterparties'') = Some (''Counterparty.create'', True, [])"
  "summary (route_request ''POST'' ''/api/beneficial-owners'') = Some (''BeneficialOwner.create'', True, [])"
  by (rule fixed_requested, simp add: expected_def, simp)+

lemma screenings_routed:
  assumes "e \<in> set SCREENING_ENTITY_TYPES"
  shows "summary (route_request ''POST'' (''/api/compliance-screenings/screen-'' @ e)) =
    Some (''ComplianceScreening.screen_'' @ map (\<lambda>c. if c = CHR ''-'' then CHR ''_'' else c) e, True, [])"
proof -
  have "e = ''account-holder'' \<or> e = ''beneficial-owner'' \<or> e = ''counterparty'' \<or> e = ''payment-account''"
    using assms by (simp add: SCREENING_ENTITY_TYPES_def)
  then show ?thesis
    by (elim disjE; hypsubst) (rule fixed_requested, simp add: expected_def, simp)+
qed

lemma decode_rule_segments:
  assumes "t \<in> set RULE_TYPES" "utf8 n"
  shows "those (map decodeURIComponent [''api'', ''rules'', t]) = Some [''api'', ''rules'', t]"
    and "those (map decodeURIComponent [''api'', ''rules'', t, encodeURIComponent n]) = Some [''api'', ''rules'', t, n]"
proof -
  have "decodeURIComponent ''api'' = Some ''api''" "decodeURIComponent ''rules'' = Some ''rules''" by code_simp+
  moreover have "decodeURIComponent t = Some t"
    using rule_types_plain [OF assms(1)] decode_encoded [of t] by simp
  ultimately show "those (map decodeURIComponent [''api'', ''rules'', t]) = Some [''api'', ''rules'', t]"
    and "those (map decodeURIComponent [''api'', ''rules'', t, encodeURIComponent n]) = Some [''api'', ''rules'', t, n]"
    using decode_encoded [OF assms(2)] by simp_all
qed

lemma rules_requested:
  assumes "t \<in> set RULE_TYPES"
  shows "route_request m (''/api/rules/'' @ t) = route_segments m [''api'', ''rules'', t]"
    and "utf8 n \<Longrightarrow> n \<noteq> [] \<Longrightarrow>
      route_request m (''/api/rules/'' @ t @ ''/'' @ encodeURIComponent n) = route_segments m [''api'', ''rules'', t, n]"
proof -
  have t: "segment t" using rule_types_plain [OF assms] by simp
  show "route_request m (''/api/rules/'' @ t) = route_segments m [''api'', ''rules'', t]"
    using segments_rule(2) [OF t t] decode_rule_segments(1) [OF assms, of "[]"]
    by (simp only: route_request_def option.case utf8.simps simp_thms)
  assume n: "utf8 n" "n \<noteq> []"
  show "route_request m (''/api/rules/'' @ t @ ''/'' @ encodeURIComponent n) = route_segments m [''api'', ''rules'', t, n]"
    using segments_rule(1) [OF t segment_encoded [OF n(2)]] decode_rule_segments(2) [OF assms n(1)]
    by (simp only: route_request_def option.case)
qed

lemma rules_routed:
  assumes "t \<in> set RULE_TYPES"
  shows "summary (route_request ''GET'' (''/api/rules/'' @ t)) = Some (''Rule.index'', True, [t])"
    and "utf8 n \<Longrightarrow> n \<noteq> [] \<Longrightarrow>
      summary (route_request ''GET'' (''/api/rules/'' @ t @ ''/'' @ encodeURIComponent n)) = Some (''Rule.show'', True, [t, n])"
    and "utf8 n \<Longrightarrow> n \<noteq> [] \<Longrightarrow>
      summary (route_request ''PUT'' (''/api/rules/'' @ t @ ''/'' @ encodeURIComponent n)) = Some (''Rule.update'', True, [t, n])"
    and "utf8 n \<Longrightarrow> n \<noteq> [] \<Longrightarrow>
      summary (route_request ''DELETE'' (''/api/rules/'' @ t @ ''/'' @ encodeURIComponent n)) = Some (''Rule.delete'', True, [t, n])"
  by (simp_all only: rules_requested [OF assms] rule_segments_routed not_False_eq_True)

text \<open>The credentials of the clients: a key or a bearer that is not empty is presented.\<close>

lemma presents:
  "key \<noteq> [] \<Longrightarrow> presents_credential ((''x-api-key'', key) # hs)"
  "bearer \<noteq> [] \<Longrightarrow> presents_credential [(''content-type'', c), (''authorization'', ''Bearer '' @ bearer)]"
  "bearer \<noteq> [] \<Longrightarrow> presents_credential (bearerHeaders bearer)"
  by (simp_all add: presents_credential_def api_key_header_def bearer_token_def get_req_header_def bearerHeaders_def jsonHeaders_def)

lemma presents_request_key: "truthy held \<Longrightarrow> presents_credential (key_header (request_key None held))"
  by (cases held) (simp_all add: request_key_def storedApiKey_def key_header_def truthy_def presents)

lemma key_presented: "truthy held \<Longrightarrow> summary (route_request (http_method r) (http_path r)) = Some (a, True, ps) \<Longrightarrow>
    served (atomicFiClient None held r, a, ps)"
  using presents_request_key [of held] by (simp add: atomicFiClient_def served_summary)

lemma rule_calls_routed:
  assumes "t \<in> set RULE_TYPES"
  shows "summary (route_request (http_method (listRules_request t)) (http_path (listRules_request t))) = Some (''Rule.index'', True, [t])"
    and "utf8 n \<Longrightarrow> n \<noteq> [] \<Longrightarrow> summary (route_request (http_method (getRule_request t n)) (http_path (getRule_request t n))) =
      Some (''Rule.show'', True, [t, n])"
    and "utf8 n \<Longrightarrow> n \<noteq> [] \<Longrightarrow> summary (route_request (http_method (saveRule_request t n v)) (http_path (saveRule_request t n v))) =
      Some (''Rule.update'', True, [t, n])"
    and "utf8 n \<Longrightarrow> n \<noteq> [] \<Longrightarrow> summary (route_request (http_method (deleteRule_request t n)) (http_path (deleteRule_request t n))) =
      Some (''Rule.delete'', True, [t, n])"
  by (simp_all only: listRules_request_def getRule_request_def saveRule_request_def deleteRule_request_def api_rules_def
      http_method.simps http_path.simps append_assoc rules_routed [OF assms] not_False_eq_True)

lemma rule_calls_served:
  assumes "truthy held" "t \<in> set RULE_TYPES" "utf8 n" "n \<noteq> []"
  shows "served (atomicFiClient None held (listRules_request t), ''Rule.index'', [t])"
    and "served (atomicFiClient None held (getRule_request t n), ''Rule.show'', [t, n])"
    and "served (atomicFiClient None held (saveRule_request t n v), ''Rule.update'', [t, n])"
    and "served (atomicFiClient None held (deleteRule_request t n), ''Rule.delete'', [t, n])"
  using rule_calls_routed [OF assms(2)] assms(3,4) by (auto intro: key_presented [OF assms(1)])

lemma screening_served:
  assumes "truthy held" "e \<in> set SCREENING_ENTITY_TYPES"
  shows "served (atomicFiClient None held (previewScreen_request e v),
    ''ComplianceScreening.screen_'' @ map (\<lambda>c. if c = CHR ''-'' then CHR ''_'' else c) e, [])"
  by (rule key_presented [OF assms(1)])
    (simp only: previewScreen_request_def http_method.simps http_path.simps screenings_routed [OF assms(2)])

lemma verify_served: "trim key \<noteq> [] \<Longrightarrow> served (verify_wire key, ''Session.verify'', [])"
  by (simp add: verify_wire_def served_summary fixed_paths_routed presents)

lemma editor_calls_served:
  assumes "t \<in> set RULE_TYPES" "utf8 n" "n \<noteq> []" "e \<in> set SCREENING_ENTITY_TYPES"
    and "truthy held" "trim (the held) \<noteq> []"
  shows "list_all served (editor_calls held t n v e)"
proof -
  have "served (verify_wire (nullish held []), ''Session.verify'', [])"
    using assms(5,6) verify_served by (cases held) (simp_all add: nullish_def truthy_def)
  then show ?thesis
    using rule_calls_served [OF assms(5,1,2,3)] screening_served [OF assms(5,4)]
    unfolding editor_calls_def by (simp only: list.pred_inject simp_thms)
qed

lemma sdk_calls_served: "ma_key a \<noteq> [] \<Longrightarrow> list_all served (sdk_calls now a tenant role)"
  by (simp add: sdk_calls_def served_summary wire_of_def tenant_request_def role_request_def key_request_def mint_post_def
      fixed_paths_routed presents)

lemma demo_calls_served: "bearer \<noteq> [] \<Longrightarrow> list_all served (demo_calls bearer)"
  using presents(2) [of bearer "''application/json''"] fixed_paths_routed(2-4)
  unfolding demo_calls_def login_wire_def embed_token_wire_def parse_wire_def
  by (simp only: list.pred_inject served_summary option.case prod.case simp_thms)

lemma wire_of_url [simp]:
  "wire_of base \<lparr>hr_method = m, hr_url = base @ path, hr_headers = hs, hr_body = v\<rparr> = (m, path, hs)"
  by (simp add: wire_of_def)

lemma helper_calls_served: "bearer \<noteq> [] \<Longrightarrow> list_all served (helper_calls config bearer)"
  using presents(3) [of bearer] fixed_paths_routed
  unfolding helper_calls_def session_request_def api_url_def Let_def wire_of_url
  by (simp only: list.pred_inject served_summary option.case prod.case simp_thms)


definition hh_config :: test_config where
  "hh_config =
     \<lparr>tc_targetEnv = ''hh'', tc_baseUrl = Some ''https://atomicfi-hh.alvera.ai'',
      tc_creds = \<lparr>cr_tenantSlug = Some ''acme'', cr_adminEmail = Some ''admin@acme.test'', cr_adminPassword = Some ''pw'',
        cr_rootApiKey = Some ''root'', cr_platformAdminApiKey = Some ''admin''\<rparr>\<rparr>"


text \<open>Without a name, the request for a file is the request for the list.\<close>

lemma empty_name_lists:
  "summary (route_request ''GET'' (''/api/rules/onboarding/'' @ encodeURIComponent [])) = Some (''Rule.index'', True, [''onboarding''])"
proof -
  have "those (map decodeURIComponent (segments (''/api/rules/onboarding/'' @ encodeURIComponent []))) =
      Some [''api'', ''rules'', ''onboarding'']"
    by code_simp
  then show ?thesis by (simp add: route_request_def rule_segments_routed)
qed

end
