(* ===== verification/Rule_Server.thy ===== *)
theory Rule_Server
  imports Backend_Router "HOL-Library.List_Lexorder" "HOL-Library.Char_ord"
begin

text \<open>
  The server behind the rule files: the controller \<open>lib/atomic_fi_api/controllers/rule_controller.ex\<close>, the
  operations of \<open>lib/atomic_fi/rules_context.ex\<close> on the volume it shares with the rule engine, and the
  answers of \<open>controllers/fallback_controller.ex\<close>. A request goes through the routes and the credential
  check of \<open>Backend_Router\<close>.

  The volume is the list of its files with their paths; directories are what the paths imply, and an
  absent directory is an empty one, as the listing makes no difference. \<open>be_key\<close> and \<open>be_bearer\<close> decide
  which credentials are valid, \<open>be_root\<close> is the rules directory, \<open>be_encode\<close> writes a decoded body as
  JSON text, and \<open>os\<close> is the error the operating system gives on its own account while a request is
  handled (no space, no permission). Requests are handled one after the other.
\<close>

record 'b backend =
  be_key :: "string \<Rightarrow> bool"
  be_bearer :: "string \<Rightarrow> bool"
  be_root :: string
  be_encode :: "json \<Rightarrow> 'b"

section \<open>Files\<close>

definition dir_at :: "'b obj \<Rightarrow> string \<Rightarrow> bool" where
  "dir_at vol p = (ends_with p ''/.'' \<or> list_ex (\<lambda>q. starts_with q (p @ ''/'')) (keys vol))"

definition file_ls :: "string option \<Rightarrow> string \<Rightarrow> 'b obj \<Rightarrow> string + string list" where
  "file_ls os dir vol =
     (case os of
        Some e \<Rightarrow> Inl e
      | None \<Rightarrow> Inr (remdups (map (\<lambda>q. takeWhile (\<lambda>c. c \<noteq> CHR ''/'') (drop (length dir + 1) q))
                            (filter (\<lambda>q. starts_with q (dir @ ''/'')) (keys vol)))))"

definition file_read :: "string option \<Rightarrow> string \<Rightarrow> 'b obj \<Rightarrow> string + 'b" where
  "file_read os p vol =
     (case os of
        Some e \<Rightarrow> Inl e
      | None \<Rightarrow>
          if dir_at vol p then Inl ''eisdir''
          else (case obj_get vol p of None \<Rightarrow> Inl ''enoent'' | Some b \<Rightarrow> Inr b))"

definition file_write :: "string option \<Rightarrow> string \<Rightarrow> 'b \<Rightarrow> 'b obj \<Rightarrow> (string + unit) \<times> 'b obj" where
  "file_write os p b vol =
     (case os of
        Some e \<Rightarrow> (Inl e, vol)
      | None \<Rightarrow> if dir_at vol p then (Inl ''eisdir'', vol) else (Inr (), obj_set p b vol))"

definition file_rm :: "string option \<Rightarrow> string \<Rightarrow> 'b obj \<Rightarrow> (string + unit) \<times> 'b obj" where
  "file_rm os p vol =
     (case os of
        Some e \<Rightarrow> (Inl e, vol)
      | None \<Rightarrow>
          if dir_at vol p then (Inl ''eperm'', vol)
          else if obj_get vol p = None then (Inl ''enoent'', vol)
          else (Inr (), obj_delete p vol))"

section \<open>The rules directory\<close>

datatype rule_type = Onboarding | Transaction_screening

fun project_name :: "rule_type \<Rightarrow> string" where
  "project_name Onboarding = ''onboarding''"
| "project_name Transaction_screening = ''transaction-screening''"

definition type_dir :: "'b backend \<Rightarrow> rule_type \<Rightarrow> string" where
  "type_dir B t = be_root B @ ''/'' @ project_name t"

definition file_path :: "'b backend \<Rightarrow> rule_type \<Rightarrow> string \<Rightarrow> string" where
  "file_path B t n = type_dir B t @ ''/'' @ n"

definition validate_name :: "string \<Rightarrow> string + unit" where
  "validate_name n =
     (if includes_str n ''/'' \<or> includes_str n [CHR 0x5C] \<or> includes_str n ''..'' \<or> n = [] then Inl ''invalid_name''
      else Inr ())"

definition json_name :: "string \<Rightarrow> bool" where
  "json_name n = (\<not> starts_with n ''.'' \<and> ends_with n ''.json'')"

definition list_rules :: "'b backend \<Rightarrow> string option \<Rightarrow> rule_type \<Rightarrow> 'b obj \<Rightarrow> string + string list" where
  "list_rules B os t vol =
     (case file_ls os (type_dir B t) vol of
        Inr entries \<Rightarrow> Inr (sort (filter json_name entries))
      | Inl e \<Rightarrow> if e = ''enoent'' then Inr [] else Inl e)"

definition get_rule :: "'b backend \<Rightarrow> string option \<Rightarrow> rule_type \<Rightarrow> string \<Rightarrow> 'b obj \<Rightarrow> string + 'b" where
  "get_rule B os t n vol = bind_sum (validate_name n) (\<lambda>_. file_read os (file_path B t n) vol)"

definition upsert_rule ::
  "'b backend \<Rightarrow> string option \<Rightarrow> rule_type \<Rightarrow> string \<Rightarrow> 'b \<Rightarrow> 'b obj \<Rightarrow> (string + unit) \<times> 'b obj" where
  "upsert_rule B os t n bytes vol =
     (case validate_name n of Inl e \<Rightarrow> (Inl e, vol) | Inr _ \<Rightarrow> file_write os (file_path B t n) bytes vol)"

definition delete_rule ::
  "'b backend \<Rightarrow> string option \<Rightarrow> rule_type \<Rightarrow> string \<Rightarrow> 'b obj \<Rightarrow> (string + unit) \<times> 'b obj" where
  "delete_rule B os t n vol =
     (case validate_name n of
        Inl e \<Rightarrow> (Inl e, vol)
      | Inr _ \<Rightarrow>
          (case file_rm os (file_path B t n) vol of
             (Inr _, vol') \<Rightarrow> (Inr (), vol')
           | (Inl e, vol') \<Rightarrow> if e = ''enoent'' then (Inr (), vol') else (Inl e, vol')))"

section \<open>The controller\<close>

datatype 'b rule_answer = Names "string list" | Bytes 'b | No_content | Failure nat string | Other_action

definition parse_rule_type :: "string \<Rightarrow> string + rule_type" where
  "parse_rule_type s =
     (if s = ''onboarding'' then Inr Onboarding
      else if s = ''transaction-screening'' then Inr Transaction_screening
      else Inl ''invalid_rule_type'')"

text \<open>The statuses of the named errors, and of every other.\<close>

definition fallback :: "string \<Rightarrow> 'b rule_answer" where
  "fallback e =
     Failure (if e = ''unauthorized'' then 401 else if e = ''forbidden'' then 403
              else if e = ''not_found'' then 404 else 422) e"

definition answer_of :: "('a \<Rightarrow> 'b rule_answer) \<Rightarrow> string + 'a \<Rightarrow> 'b rule_answer" where
  "answer_of ok r = (case r of Inl e \<Rightarrow> fallback e | Inr x \<Rightarrow> ok x)"

definition rule_index :: "'b backend \<Rightarrow> string option \<Rightarrow> string \<Rightarrow> 'b obj \<Rightarrow> 'b rule_answer" where
  "rule_index B os t vol = answer_of Names (bind_sum (parse_rule_type t) (\<lambda>rt. list_rules B os rt vol))"

definition rule_show :: "'b backend \<Rightarrow> string option \<Rightarrow> string \<Rightarrow> string \<Rightarrow> 'b obj \<Rightarrow> 'b rule_answer" where
  "rule_show B os t n vol = answer_of Bytes (bind_sum (parse_rule_type t) (\<lambda>rt. get_rule B os rt n vol))"

definition rule_update ::
  "'b backend \<Rightarrow> string option \<Rightarrow> string \<Rightarrow> string \<Rightarrow> json \<Rightarrow> 'b obj \<Rightarrow> 'b rule_answer \<times> 'b obj" where
  "rule_update B os t n body vol =
     (case parse_rule_type t of
        Inl e \<Rightarrow> (fallback e, vol)
      | Inr rt \<Rightarrow>
          (case upsert_rule B os rt n (be_encode B body) vol of (r, vol') \<Rightarrow> (answer_of (\<lambda>_. No_content) r, vol')))"

definition rule_delete :: "'b backend \<Rightarrow> string option \<Rightarrow> string \<Rightarrow> string \<Rightarrow> 'b obj \<Rightarrow> 'b rule_answer \<times> 'b obj" where
  "rule_delete B os t n vol =
     (case parse_rule_type t of
        Inl e \<Rightarrow> (fallback e, vol)
      | Inr rt \<Rightarrow> (case delete_rule B os rt n vol of (r, vol') \<Rightarrow> (answer_of (\<lambda>_. No_content) r, vol')))"

definition rule_controller ::
  "'b backend \<Rightarrow> string option \<Rightarrow> string \<Rightarrow> string list \<Rightarrow> json \<Rightarrow> 'b obj \<Rightarrow> 'b rule_answer \<times> 'b obj" where
  "rule_controller B os action ps body vol =
     (case ps of
        [t] \<Rightarrow> if action = ''Rule.index'' then (rule_index B os t vol, vol) else (Other_action, vol)
      | [t, n] \<Rightarrow>
          if action = ''Rule.show'' then (rule_show B os t n vol, vol)
          else if action = ''Rule.update'' then rule_update B os t n body vol
          else if action = ''Rule.delete'' then rule_delete B os t n vol
          else (Other_action, vol)
      | _ \<Rightarrow> (Other_action, vol))"

section \<open>The server\<close>

text \<open>What the endpoint does first: the body as an object, the method named in the body of a \<open>POST\<close>, and
  \<open>HEAD\<close> as \<open>GET\<close>.\<close>

definition body_params :: "json option \<Rightarrow> json" where
  "body_params body =
     (case body of None \<Rightarrow> JObj [] | Some (JObj o') \<Rightarrow> JObj o' | Some v \<Rightarrow> JObj [(''_json'', v)])"

definition endpoint_method :: "string \<Rightarrow> json \<Rightarrow> string" where
  "endpoint_method m params =
     (if m = ''POST'' then
        (let over = toUpperCase (nullish (as_string (jget (Some params) ''_method'')) [])
         in if over \<in> {''PUT'', ''PATCH'', ''DELETE''} then over else m)
      else if m = ''HEAD'' then ''GET'' else m)"

definition serve ::
  "'b backend \<Rightarrow> string option \<Rightarrow> wire \<times> json option \<Rightarrow> 'b obj \<Rightarrow> 'b rule_answer \<times> 'b obj" where
  "serve B os req vol =
     (case req of ((m, path, hs), body) \<Rightarrow>
        (case route_request (endpoint_method m (body_params body)) path of
           Malformed \<Rightarrow> (Failure 400 ''bad request'', vol)
         | No_route \<Rightarrow> (Failure 404 ''not found'', vol)
         | To r ps \<Rightarrow>
             if rt_protected r \<and> \<not> authenticated (be_key B) (be_bearer B) hs then (Failure 401 ''unauthorized'', vol)
             else rule_controller B os (rt_action r) ps (body_params body) vol))"

section \<open>Only rule files change\<close>

text \<open>The words the name check looks for.\<close>

lemma includes_char: "includes_str s [c] \<longleftrightarrow> c \<in> set s"
  by (induction s) auto

definition storable :: "string \<Rightarrow> bool" where
  "storable n = (CHR ''/'' \<notin> set n \<and> CHR 0x5C \<notin> set n \<and> \<not> includes_str n ''..'' \<and> n \<noteq> [])"

lemma validate_storable: "validate_name n = (if storable n then Inr () else Inl ''invalid_name'')"
  by (auto simp: validate_name_def storable_def includes_char)

text \<open>The rule controller is behind the credential check.\<close>

lemma rule_actions_protected:
  "list_all (list_all (\<lambda>r. rt_action r \<in> {''Rule.update'', ''Rule.delete''} \<longrightarrow> rt_protected r)) ROUTES"
  by code_simp

lemma find_route_member: "find_route m ws gs = Some r \<Longrightarrow> \<exists>g \<in> set gs. r \<in> set g"
  by (induction gs) (auto simp: find_Some_iff split: option.splits)

lemma request_member: "route_request m p = To r ps \<Longrightarrow> \<exists>g \<in> set ROUTES. r \<in> set g"
  by (auto simp: route_request_def route_segments_def first_fit_def dest: find_route_member split: option.splits)

lemma protected_action:
  "route_request m p = To r ps \<Longrightarrow> rt_action r = ''Rule.update'' \<or> rt_action r = ''Rule.delete'' \<Longrightarrow> rt_protected r"
  using rule_actions_protected request_member [of m p r ps] unfolding list_all_iff by blast

text \<open>What an operation changes.\<close>

lemma upsert_changes:
  "upsert_rule B os t n b vol = (r, vol') \<Longrightarrow> obj_get vol' q \<noteq> obj_get vol q \<Longrightarrow> q = file_path B t n \<and> storable n"
  by (auto simp: upsert_rule_def validate_storable file_write_def split: option.splits if_splits)

lemma delete_changes:
  "delete_rule B os t n vol = (r, vol') \<Longrightarrow> obj_get vol' q \<noteq> obj_get vol q \<Longrightarrow> q = file_path B t n \<and> storable n"
  by (auto simp: delete_rule_def validate_storable file_rm_def split: option.splits if_splits sum.splits prod.splits)

lemma controller_changes:
  assumes "obj_get (snd (rule_controller B os a ps body vol)) q \<noteq> obj_get vol q"
  shows "(a = ''Rule.update'' \<or> a = ''Rule.delete'') \<and> (\<exists>t n. q = file_path B t n \<and> storable n)"
proof -
  obtain t n where ps: "ps = [t, n]" and a: "a = ''Rule.update'' \<or> a = ''Rule.delete''"
    using assms by (auto simp: rule_controller_def split: list.splits if_splits)
  then consider "obj_get (snd (rule_update B os t n body vol)) q \<noteq> obj_get vol q"
    | "obj_get (snd (rule_delete B os t n vol)) q \<noteq> obj_get vol q"
    using assms by (auto simp: rule_controller_def)
  then have "\<exists>rt. q = file_path B rt n \<and> storable n"
    by cases (auto simp: rule_update_def rule_delete_def split: sum.splits prod.splits intro!: exI
        dest: upsert_changes delete_changes)
  with a show ?thesis by blast
qed

text \<open>C11. Whatever a request is - any method, any path with any escapes, any headers and body - a file it changes is
  directly in one of the two rule folders, and then the request had valid credentials.\<close>

theorem requests_change_rule_files_only:
  assumes "obj_get (snd (serve B os ((m, path, hs), body) vol)) q \<noteq> obj_get vol q"
  shows "authenticated (be_key B) (be_bearer B) hs \<and>
    (\<exists>t n. q = be_root B @ ''/'' @ project_name t @ ''/'' @ n \<and> CHR ''/'' \<notin> set n \<and> n \<noteq> [] \<and> \<not> includes_str n ''..'')"
proof -
  obtain r ps where to: "route_request (endpoint_method m (body_params body)) path = To r ps"
    and auth: "\<not> (rt_protected r \<and> \<not> authenticated (be_key B) (be_bearer B) hs)"
    and "obj_get (snd (rule_controller B os (rt_action r) ps (body_params body) vol)) q \<noteq> obj_get vol q"
    using assms by (auto simp: serve_def split: routing.splits if_splits)
  with controller_changes obtain t n where
    "rt_action r = ''Rule.update'' \<or> rt_action r = ''Rule.delete''" and n: "q = file_path B t n" "storable n"
    by blast
  then have "authenticated (be_key B) (be_bearer B) hs"
    using auth protected_action [OF to] by blast
  with n show ?thesis
    by (auto simp: file_path_def type_dir_def storable_def)
qed

text \<open>A request that changes something, and one that tries to leave the folder.\<close>

definition demo_backend :: "json backend" where
  "demo_backend = \<lparr>be_key = (\<lambda>k. k = ''sk''), be_bearer = (\<lambda>_. False), be_root = ''zenrule'', be_encode = (\<lambda>v. v)\<rparr>"

theorem requests_change_rule_files_only_witness:
  "authenticated (be_key demo_backend) (be_bearer demo_backend) [(''x-api-key'', ''sk'')] \<and>
   (\<exists>t n. ''zenrule/onboarding/a b.json'' = be_root demo_backend @ ''/'' @ project_name t @ ''/'' @ n \<and>
     CHR ''/'' \<notin> set n \<and> n \<noteq> [] \<and> \<not> includes_str n ''..'')"
  by (rule requests_change_rule_files_only [of _ None "''PUT''" "''/api/rules/onboarding/a%20b.json''" _ None "[]"]) code_simp

lemma traversal_refused:
  "serve demo_backend None ((''PUT'', ''/api/rules/onboarding/..%2Fx.json'', [(''x-api-key'', ''sk'')]), None) [] =
     (Failure 422 ''invalid_name'', [])"
  by code_simp

section \<open>The rule files as a map\<close>

text \<open>The calls of \<open>rules-api.ts\<close>, what they mean on a map from rule type and name to contents, and what they do when
  they are sent to the server.\<close>

datatype rule_call = List_call string | Get_call string string | Save_call string string json | Delete_call string string

fun spec_call ::
  "(json \<Rightarrow> 'b) \<Rightarrow> rule_call \<Rightarrow> (string \<times> string \<Rightarrow> 'b option) \<Rightarrow> 'b rule_answer \<times> (string \<times> string \<Rightarrow> 'b option)" where
  "spec_call enc (List_call t) fs = (Names (sorted_list_of_set {n. fs (t, n) \<noteq> None \<and> json_name n}), fs)"
| "spec_call enc (Get_call t n) fs =
     (if \<not> storable n then Failure 422 ''invalid_name''
      else case fs (t, n) of None \<Rightarrow> Failure 422 ''enoent'' | Some b \<Rightarrow> Bytes b, fs)"
| "spec_call enc (Save_call t n v) fs =
     (if storable n then (No_content, fs((t, n) \<mapsto> enc (body_params (Some v)))) else (Failure 422 ''invalid_name'', fs))"
| "spec_call enc (Delete_call t n) fs =
     (if storable n then (No_content, fs((t, n) := None)) else (Failure 422 ''invalid_name'', fs))"

fun call_http :: "rule_call \<Rightarrow> http" where
  "call_http (List_call t) = listRules_request t"
| "call_http (Get_call t n) = getRule_request t n"
| "call_http (Save_call t n v) = saveRule_request t n v"
| "call_http (Delete_call t n) = deleteRule_request t n"

fun http_body :: "http \<Rightarrow> json option" where
  "http_body (Put p b) = Some b"
| "http_body (Post p b) = Some b"
| "http_body r = None"

definition rest_call :: "'b backend \<Rightarrow> string \<Rightarrow> rule_call \<Rightarrow> 'b obj \<Rightarrow> 'b rule_answer \<times> 'b obj" where
  "rest_call B key c vol =
     (let r = call_http c in serve B None (atomicFiClient None (Some key) r, http_body r) vol)"

fun run_calls :: "('c \<Rightarrow> 's \<Rightarrow> 'o \<times> 's) \<Rightarrow> 'c list \<Rightarrow> 's \<Rightarrow> 'o list \<times> 's" where
  "run_calls f [] s = ([], s)"
| "run_calls f (c # cs) s = (case f c s of (x, s') \<Rightarrow> (case run_calls f cs s' of (xs, s'') \<Rightarrow> (x # xs, s'')))"

text \<open>A server implements an abstract one when every call, in a good state, gives the abstract answer and leads to a
  good state that stands for the abstract one; then it does so over every history.\<close>

locale implements =
  fixes conc :: "'c \<Rightarrow> 's \<Rightarrow> 'o \<times> 's" and spec :: "'c \<Rightarrow> 'a \<Rightarrow> 'o \<times> 'a"
    and abs_of :: "'s \<Rightarrow> 'a" and good :: "'s \<Rightarrow> bool" and allowed :: "'c \<Rightarrow> bool"
  assumes call_abs: "good s \<Longrightarrow> allowed c \<Longrightarrow> spec c (abs_of s) = map_prod (\<lambda>x. x) abs_of (conc c s)"
    and call_good: "good s \<Longrightarrow> allowed c \<Longrightarrow> good (snd (conc c s))"
begin

lemma run_abs:
  "good s \<Longrightarrow> list_all allowed cs \<Longrightarrow> run_calls spec cs (abs_of s) = map_prod (\<lambda>x. x) abs_of (run_calls conc cs s)"
proof (induction cs arbitrary: s)
  case Nil
  then show ?case by simp
next
  case (Cons c cs)
  obtain x s' where c: "conc c s = (x, s')" by fastforce
  have "good s'" "spec c (abs_of s) = (x, abs_of s')"
    using call_good [of s c] call_abs [of s c] Cons.prems c by simp_all
  with Cons.IH [of s'] Cons.prems(2) c show ?case by (simp split: prod.split)
qed

end

definition rule_files :: "'b backend \<Rightarrow> 'b obj \<Rightarrow> string \<times> string \<Rightarrow> 'b option" where
  "rule_files B vol f =
     (case parse_rule_type (fst f) of
        Inl _ \<Rightarrow> None
      | Inr t \<Rightarrow> if storable (snd f) then obj_get vol (file_path B t (snd f)) else None)"

text \<open>A volume whose folders hold nothing but files with names the server takes.\<close>

definition tidy :: "'b backend \<Rightarrow> 'b obj \<Rightarrow> bool" where
  "tidy B vol = (wf_obj vol \<and> (\<forall>t n. file_path B t n \<in> set (keys vol) \<longrightarrow> storable n \<and> n \<noteq> ''.''))"

text \<open>Names that arrive as they were sent: clients resolve the segments \<open>.\<close> and \<open>..\<close> of a path themselves.\<close>

definition sendable_name :: "string \<Rightarrow> bool" where
  "sendable_name n = (utf8 n \<and> n \<noteq> [] \<and> n \<noteq> ''.'' \<and> n \<noteq> ''..'')"

fun sendable :: "rule_call \<Rightarrow> bool" where
  "sendable (List_call t) = (t \<in> set RULE_TYPES)"
| "sendable (Get_call t n) = (t \<in> set RULE_TYPES \<and> sendable_name n)"
| "sendable (Save_call t n v) = (t \<in> set RULE_TYPES \<and> sendable_name n)"
| "sendable (Delete_call t n) = (t \<in> set RULE_TYPES \<and> sendable_name n)"

subsection \<open>Paths and the folder\<close>

lemma file_path_inject [simp]: "file_path B t m = file_path B u n \<longleftrightarrow> t = u \<and> m = n"
  by (cases t; cases u) (auto simp: file_path_def type_dir_def)

lemma under_folder: "starts_with q (type_dir B t @ ''/'') \<longleftrightarrow> (\<exists>n. q = file_path B t n)"
  by (simp add: starts_with_iff file_path_def)

lemma not_a_directory:
  assumes "tidy B vol" "storable n" "n \<noteq> ''.''"
  shows "\<not> dir_at vol (file_path B t n)"
proof -
  have "\<not> starts_with q (file_path B t n @ ''/'')" if "q \<in> set (keys vol)" for q
  proof
    assume "starts_with q (file_path B t n @ ''/'')"
    then obtain x where "q = file_path B t (n @ ''/'' @ x)"
      by (auto simp: starts_with_iff file_path_def)
    then show False
      using assms(1) that by (fastforce simp: tidy_def storable_def)
  qed
  moreover have "\<not> ends_with (file_path B t n) ''/.''"
  proof
    assume "ends_with (file_path B t n) ''/.''"
    then obtain x where "file_path B t n = x @ ''/.''"
      by (auto simp: ends_with_iff)
    then have "type_dir B t @ ''/'' @ n = x @ ''/'' @ ''.''"
      by (simp add: file_path_def)
    moreover have "CHR ''/'' \<notin> set n" "CHR ''/'' \<notin> set ''.''"
      using assms(2) by (simp_all add: storable_def)
    ultimately have "n = ''.''"
      by (auto simp: append_eq_append_conv2 Cons_eq_append_conv append_eq_Cons_conv)
    then show False using assms(3) by simp
  qed
  ultimately show ?thesis by (auto simp: dir_at_def list_ex_iff)
qed

lemma tidy_set: "tidy B vol \<Longrightarrow> storable n \<Longrightarrow> n \<noteq> ''.'' \<Longrightarrow> tidy B (obj_set (file_path B t n) b vol)"
  by (auto simp: tidy_def)

lemma tidy_delete:
  assumes "tidy B vol"
  shows "tidy B (obj_delete p vol)"
proof -
  have "set (keys (obj_delete p vol)) \<subseteq> set (keys vol)"
    by (auto simp: keys_def obj_delete_def)
  with assms show ?thesis by (auto simp: tidy_def)
qed

text \<open>The entries of a folder are the names of its files, in order.\<close>

lemma rule_files_at [simp]:
  "parse_rule_type (project_name t) = Inr t"
  "rule_files B vol (project_name t, n) = (if storable n then obj_get vol (file_path B t n) else None)"
  by (cases t; simp add: parse_rule_type_def rule_files_def)+

lemma folder_entries:
  assumes "tidy B vol"
  shows "set (map (\<lambda>q. takeWhile (\<lambda>c. c \<noteq> CHR ''/'') (drop (length (type_dir B t) + 1) q))
           (filter (\<lambda>q. starts_with q (type_dir B t @ ''/'')) (keys vol))) =
         {n. rule_files B vol (project_name t, n) \<noteq> None}" (is "set (map ?entry (filter ?under _)) = _")
proof -
  have entry: "?entry (file_path B t n) = n" if "file_path B t n \<in> set (keys vol)" for n
  proof -
    have "CHR ''/'' \<notin> set n"
      using assms that by (simp add: tidy_def storable_def)
    then have "takeWhile (\<lambda>c. c \<noteq> CHR ''/'') n = n"
      by (induction n) auto
    then show ?thesis by (simp add: file_path_def)
  qed
  have some: "rule_files B vol (project_name t, n) \<noteq> None \<longleftrightarrow> file_path B t n \<in> set (keys vol)" for n
    using assms obj_get_None_iff [of vol "file_path B t n"] by (auto simp: tidy_def)
  have "set (map ?entry (filter ?under (keys vol))) = ?entry ` {q \<in> set (keys vol). \<exists>n. q = file_path B t n}"
    by (auto simp: under_folder)
  also have "\<dots> = {n. file_path B t n \<in> set (keys vol)}"
    using entry by force
  finally show ?thesis by (simp only: some)
qed

lemma sort_remdups: "sort (filter P (remdups xs)) = sorted_list_of_set {x \<in> set xs. P x}"
proof -
  have "sort (filter P (remdups xs)) = sort (remdups (filter P xs))"
    by (simp only: remdups_filter)
  then show ?thesis by (simp add: sorted_list_of_set_sort_remdups [symmetric])
qed

lemma list_rules_spec:
  assumes "tidy B vol"
  shows "list_rules B None t vol =
    Inr (sorted_list_of_set {n. rule_files B vol (project_name t, n) \<noteq> None \<and> json_name n})"
proof -
  have "list_rules B None t vol =
      Inr (sorted_list_of_set {n \<in> {n. rule_files B vol (project_name t, n) \<noteq> None}. json_name n})"
    by (simp only: list_rules_def file_ls_def option.case sum.case sort_remdups folder_entries [OF assms])
  then show ?thesis by simp
qed

lemma rule_type_names:
  "t \<in> set RULE_TYPES \<Longrightarrow> \<exists>rt. t = project_name rt"
  by (auto simp: RULE_TYPES_def) (metis project_name.simps)+

subsection \<open>The calls on a tidy volume\<close>

lemma index_spec:
  "tidy B vol \<Longrightarrow> rule_index B None (project_name rt) vol = fst (spec_call enc (List_call (project_name rt)) (rule_files B vol))"
  by (simp add: rule_index_def answer_of_def list_rules_spec)

lemma show_spec:
  "tidy B vol \<Longrightarrow> n \<noteq> ''.'' \<Longrightarrow>
   rule_show B None (project_name rt) n vol = fst (spec_call enc (Get_call (project_name rt) n) (rule_files B vol))"
  using not_a_directory [of B vol n rt]
  by (auto simp: rule_show_def answer_of_def get_rule_def validate_storable file_read_def fallback_def split: option.split)

lemma parse_rule_type_Inr: "parse_rule_type s = Inr t \<longleftrightarrow> s = project_name t"
  by (cases t) (auto simp: parse_rule_type_def)

lemma rule_files_write:
  assumes "storable n" and "\<And>t m. obj_get vol' (file_path B t m) = (if t = rt \<and> m = n then v else obj_get vol (file_path B t m))"
  shows "rule_files B vol' = (rule_files B vol)((project_name rt, n) := v)"
proof
  fix f :: "string \<times> string"
  obtain s m where f: "f = (s, m)" by fastforce
  show "rule_files B vol' f = ((rule_files B vol)((project_name rt, n) := v)) f"
  proof (cases "parse_rule_type s")
    case (Inl e)
    then have "s \<noteq> project_name rt" using parse_rule_type_Inr [of s rt] by auto
    with Inl f show ?thesis by (simp add: rule_files_def)
  next
    case (Inr t)
    then have "s = project_name t" by (simp add: parse_rule_type_Inr)
    moreover have "project_name t = project_name rt \<longleftrightarrow> t = rt" by (cases t; cases rt) simp_all
    ultimately show ?thesis using f assms by simp
  qed
qed

lemma update_spec:
  assumes "tidy B vol" "n \<noteq> ''.''"
  shows "spec_call (be_encode B) (Save_call (project_name rt) n v) (rule_files B vol) =
      map_prod (\<lambda>x. x) (rule_files B) (rule_update B None (project_name rt) n (body_params (Some v)) vol)"
    and "tidy B (snd (rule_update B None (project_name rt) n (body_params (Some v)) vol))"
  using not_a_directory [OF assms(1) _ assms(2), of rt] assms rule_files_write [of n _ B rt _ vol]
  by (auto simp: rule_update_def upsert_rule_def validate_storable file_write_def answer_of_def fallback_def tidy_set)

lemma delete_spec:
  assumes "tidy B vol" "n \<noteq> ''.''"
  shows "spec_call (be_encode B) (Delete_call (project_name rt) n) (rule_files B vol) =
      map_prod (\<lambda>x. x) (rule_files B) (rule_delete B None (project_name rt) n vol)"
    and "tidy B (snd (rule_delete B None (project_name rt) n vol))"
proof -
  have "storable n \<Longrightarrow> (rule_files B vol)((project_name rt, n) := None) = rule_files B (obj_delete (file_path B rt n) vol)"
    by (rule sym, rule rule_files_write) auto
  moreover have "storable n \<Longrightarrow> obj_get vol (file_path B rt n) = None \<Longrightarrow>
      (rule_files B vol)((project_name rt, n) := None) = rule_files B vol"
    by (rule sym, rule rule_files_write) auto
  ultimately show "spec_call (be_encode B) (Delete_call (project_name rt) n) (rule_files B vol) =
      map_prod (\<lambda>x. x) (rule_files B) (rule_delete B None (project_name rt) n vol)"
    and "tidy B (snd (rule_delete B None (project_name rt) n vol))"
    using not_a_directory [OF assms(1) _ assms(2), of rt] assms(1)
    by (auto simp: rule_delete_def delete_rule_def validate_storable file_rm_def answer_of_def fallback_def tidy_delete)
qed

subsection \<open>Over HTTP\<close>

text \<open>A route's method, action and parameters are all that the server uses of it.\<close>

lemma serve_routed:
  assumes "summary (route_request m p) = Some (a, b, ps)" and "b \<longrightarrow> authenticated (be_key B) (be_bearer B) hs"
    and "endpoint_method m (body_params body) = m"
  shows "serve B os ((m, p, hs), body) vol = rule_controller B os a ps (body_params body) vol"
  using assms by (auto simp: serve_def summary_def split: routing.splits)

lemma key_authenticates: "key \<noteq> [] \<Longrightarrow> be_key B key \<Longrightarrow>
    authenticated (be_key B) (be_bearer B) (key_header (request_key None (Some key)))"
  by (simp add: request_key_def storedApiKey_def truthy_def key_header_def authenticated_def api_key_header_def
      get_req_header_def)

lemma rest_routed:
  assumes "key \<noteq> []" "be_key B key" "call_http c = r" "summary (route_request (http_method r) (http_path r)) = Some (a, b, ps)"
    and "http_method r \<in> {''GET'', ''PUT'', ''DELETE''}"
  shows "rest_call B key c vol = rule_controller B None a ps (body_params (http_body r)) vol"
proof -
  have "endpoint_method (http_method r) v = http_method r" for v
    using assms(5) by (auto simp: endpoint_method_def)
  then show ?thesis
    using serve_routed [OF assms(4), of B "key_header (request_key None (Some key))"] key_authenticates [OF assms(1,2)]
    by (simp add: rest_call_def assms(3) atomicFiClient_def)
qed

lemma rest_calls:
  assumes "key \<noteq> []" "be_key B key" "t \<in> set RULE_TYPES"
  shows "rest_call B key (List_call t) vol = (rule_index B None t vol, vol)"
    and "sendable_name n \<Longrightarrow> rest_call B key (Get_call t n) vol = (rule_show B None t n vol, vol)"
    and "sendable_name n \<Longrightarrow> rest_call B key (Save_call t n v) vol = rule_update B None t n (body_params (Some v)) vol"
    and "sendable_name n \<Longrightarrow> rest_call B key (Delete_call t n) vol = rule_delete B None t n vol"
proof -
  note routed = rule_calls_routed [OF assms(3)] and rest = rest_routed [OF assms(1,2)]
  show "rest_call B key (List_call t) vol = (rule_index B None t vol, vol)"
    by (subst rest [OF _ routed(1)]) (simp_all add: rule_controller_def listRules_request_def)
  assume "sendable_name n"
  then have n: "utf8 n" "n \<noteq> []" by (simp_all add: sendable_name_def)
  show "rest_call B key (Get_call t n) vol = (rule_show B None t n vol, vol)"
    by (subst rest [OF _ routed(2) [OF n]]) (simp_all add: rule_controller_def getRule_request_def)
  show "rest_call B key (Save_call t n v) vol = rule_update B None t n (body_params (Some v)) vol"
    by (subst rest [OF _ routed(3) [OF n]]) (simp_all add: rule_controller_def saveRule_request_def)
  show "rest_call B key (Delete_call t n) vol = rule_delete B None t n vol"
    by (subst rest [OF _ routed(4) [OF n]]) (simp_all add: rule_controller_def deleteRule_request_def)
qed

lemma rest_call_spec:
  assumes "key \<noteq> []" "be_key B key" "tidy B vol" "sendable c"
  shows "spec_call (be_encode B) c (rule_files B vol) = map_prod (\<lambda>x. x) (rule_files B) (rest_call B key c vol)"
    and "tidy B (snd (rest_call B key c vol))"
proof -
  have "spec_call (be_encode B) c (rule_files B vol) = map_prod (\<lambda>x. x) (rule_files B) (rest_call B key c vol) \<and>
    tidy B (snd (rest_call B key c vol))"
  proof (cases c)
    case (List_call t)
    with assms obtain rt where "t \<in> set RULE_TYPES" "t = project_name rt" using rule_type_names by auto
    with List_call show ?thesis
      using rest_calls(1) [OF assms(1,2)] index_spec [OF assms(3), of rt "be_encode B"] assms(3) by simp
  next
    case (Get_call t n)
    with assms obtain rt where "t \<in> set RULE_TYPES" "t = project_name rt" "sendable_name n" using rule_type_names by auto
    with Get_call show ?thesis
      using rest_calls(2) [OF assms(1,2)] show_spec [OF assms(3), of n rt "be_encode B"] assms(3)
      by (simp add: sendable_name_def)
  next
    case (Save_call t n v)
    with assms obtain rt where "t \<in> set RULE_TYPES" "t = project_name rt" "sendable_name n" using rule_type_names by auto
    with Save_call show ?thesis
      using rest_calls(3) [OF assms(1,2)] update_spec [OF assms(3), of n rt v] by (simp add: sendable_name_def)
  next
    case (Delete_call t n)
    with assms obtain rt where "t \<in> set RULE_TYPES" "t = project_name rt" "sendable_name n" using rule_type_names by auto
    with Delete_call show ?thesis
      using rest_calls(4) [OF assms(1,2)] delete_spec [OF assms(3), of n rt] by (simp add: sendable_name_def)
  qed
  then show "spec_call (be_encode B) c (rule_files B vol) = map_prod (\<lambda>x. x) (rule_files B) (rest_call B key c vol)"
    and "tidy B (snd (rest_call B key c vol))" by simp_all
qed

interpretation rest: implements "rest_call B key" "spec_call (be_encode B)" "rule_files B"
  "\<lambda>vol. key \<noteq> [] \<and> be_key B key \<and> tidy B vol" sendable
  by unfold_locales (auto simp: rest_call_spec)

text \<open>C4. Over any history of calls of the editor's client with a valid key, the server behind the network is the map
  from rule type and name to contents that the editor takes it for: every answer and the files at the end are
  those of the map, for every name a path can carry, and names the server does not take are answered 422
  with nothing changed.\<close>

theorem rules_api_is_a_file_map:
  assumes "key \<noteq> []" and "be_key B key" and "tidy B vol" and "list_all sendable cs"
  shows "run_calls (spec_call (be_encode B)) cs (rule_files B vol) =
    map_prod (\<lambda>x. x) (rule_files B) (run_calls (rest_call B key) cs vol)"
  using rest.run_abs [of key B vol cs] assms by simp

definition demo_calls_of_rules :: "rule_call list" where
  "demo_calls_of_rules =
     [Save_call ''onboarding'' ''50% off.json'' (JObj [(''nodes'', JArr [])]), List_call ''onboarding'',
      Get_call ''transaction-screening'' ''de_minimis.json'', Save_call ''onboarding'' ''v1..2.json'' (JObj []),
      Delete_call ''onboarding'' ''50% off.json'', List_call ''transaction-screening'']"

theorem rules_api_is_a_file_map_witness:
  "run_calls (spec_call (be_encode demo_backend)) demo_calls_of_rules (rule_files demo_backend []) =
    map_prod (\<lambda>x. x) (rule_files demo_backend) (run_calls (rest_call demo_backend ''sk'') demo_calls_of_rules [])"
  by (rule rules_api_is_a_file_map)
    (simp_all add: demo_backend_def tidy_def keys_def demo_calls_of_rules_def RULE_TYPES_def sendable_name_def byte_def)

section \<open>What the clients can rely on\<close>

text \<open>Names of the copilot's tools are stored, listed and sent as they are.\<close>

lemma tool_names_are_stored:
  assumes "tool_filename n"
  shows "storable n" and "json_name n" and "sendable_name n"
proof -
  obtain b where b: "b \<noteq> []" "list_all filename_class b" "n = b @ ''.json''"
    using assms by (auto simp: tool_filename_iff)
  have dot: "\<not> filename_class CHR ''.''" by code_simp
  then have no_dot: "CHR ''.'' \<notin> set b" using b(2) by (auto simp: list_all_iff)
  then have "\<not> includes_str (b @ ''.json'') ''..''"
    by (induction b) auto
  then show "storable n"
    using tool_filename_no_path [OF assms] b(3) by (simp add: storable_def)
  have "ends_with n ''.json''" unfolding b(3) by (rule ends_with_append)
  then show "json_name n"
    using b(1,3) no_dot by (cases b) (auto simp: json_name_def)
  show "sendable_name n"
    using tool_names_plain [OF assms] b(1,3) by (cases b) (simp_all add: sendable_name_def)
qed

text \<open>The prompt for a new rule takes names that cannot be saved, and names that are saved and never listed.\<close>

lemma page_names_the_server_refuses:
  "good_filename ''v1..2.json'' \<and> \<not> storable ''v1..2.json'' \<and>
   good_filename ''.draft.json'' \<and> storable ''.draft.json'' \<and> \<not> json_name ''.draft.json''"
  by code_simp

text \<open>On graphs, a save and a delete of the server are those of the editor's model, when reading a stored graph gives
  it back.\<close>

lemma session_files_step:
  assumes "storable n" and "decode (enc (body_params (Some v))) = g"
  shows "map_option decode \<circ> snd (spec_call enc (Save_call t n v) fs) = saveRule t n g (map_option decode \<circ> fs)"
    and "map_option decode \<circ> snd (spec_call enc (Delete_call t n) fs) = deleteRule t n (map_option decode \<circ> fs)"
  using assms by (auto simp: saveRule_def deleteRule_def)

text \<open>A file that is not there is the answer 422, not 404.\<close>

lemma missing_rule_is_422:
  "fst (spec_call enc (Get_call t n) Map.empty) = Failure 422 (if storable n then ''enoent'' else ''invalid_name'')"
  by simp

end
