(* ===== verification/Rule_Network.thy ===== *)
theory Rule_Network
  imports Rule_Server
begin

text \<open>
  The rule page and the server together: the graph in the body of a save and as it is read back
  (\<open>pages/decision-simple.tsx\<close>), the requests of each handler of the page, and the page with the server's
  volume as one machine. \<open>parse\<close> reads a stored file as JSON.

  A request is delivered and answered, or carried out with its answer lost, or never sent.
\<close>

section \<open>Graphs in bodies\<close>

definition DECISION_CONTENT_TYPE :: string where
  "DECISION_CONTENT_TYPE = ''application/vnd.gorules.decision''"

text \<open>Fields that are \<open>undefined\<close> are left out of the text.\<close>

definition defined_field :: "string \<Rightarrow> json option \<Rightarrow> json obj" where
  "defined_field k v = (case v of None \<Rightarrow> [] | Some x \<Rightarrow> [(k, x)])"

definition position_json :: "rat \<times> rat \<Rightarrow> json" where
  "position_json p = JObj [(''x'', JNum (fst p)), (''y'', JNum (snd p))]"

definition jdm_node_json :: "jdm_node \<Rightarrow> json" where
  "jdm_node_json n = JObj
     ([(''id'', JStr (j_id n))] @ defined_field ''name'' (map_option JStr (j_name n)) @
      defined_field ''type'' (map_option JStr (j_type n)) @ defined_field ''content'' (j_content n) @
      defined_field ''position'' (map_option position_json (j_position n)))"

definition jdm_edge_json :: "jdm_edge \<Rightarrow> json" where
  "jdm_edge_json e = JObj
     ([(''id'', JStr (je_id e)), (''sourceId'', JStr (je_source e)), (''targetId'', JStr (je_target e))] @
      defined_field ''sourceHandle'' (map_option JStr (je_sourceHandle e)) @
      defined_field ''targetHandle'' (map_option JStr (je_targetHandle e)))"

definition saved_body :: "graph \<Rightarrow> json" where
  "saved_body g = JObj
     [(''contentType'', JStr DECISION_CONTENT_TYPE), (''nodes'', JArr (map jdm_node_json (g_nodes g))),
      (''edges'', JArr (map jdm_edge_json (g_edges g)))]"

definition jdm_node_of :: "json \<Rightarrow> jdm_node" where
  "jdm_node_of j =
     (let v = Some j; p = jget v ''position'' in
      \<lparr>j_id = json_text j ''id'', j_name = as_string (jget v ''name''), j_type = as_string (jget v ''type''),
       j_content = jget v ''content'',
       j_position = (case (as_number (jget p ''x''), as_number (jget p ''y'')) of
                       (Some x, Some y) \<Rightarrow> Some (x, y) | _ \<Rightarrow> None)\<rparr>)"

definition jdm_edge_of :: "json \<Rightarrow> jdm_edge" where
  "jdm_edge_of j =
     \<lparr>je_id = json_text j ''id'', je_source = json_text j ''sourceId'', je_target = json_text j ''targetId'',
      je_sourceHandle = as_string (jget (Some j) ''sourceHandle''),
      je_targetHandle = as_string (jget (Some j) ''targetHandle'')\<rparr>"

definition loaded_graph :: "json \<Rightarrow> graph" where
  "loaded_graph data =
     \<lparr>g_nodes = map jdm_node_of (nullish (as_array (jget (Some data) ''nodes'')) []),
      g_edges = map jdm_edge_of (nullish (as_array (jget (Some data) ''edges'')) [])\<rparr>"

lemma jdm_node_roundtrip: "jdm_node_of (jdm_node_json n) = n"
  by (cases n) (auto simp: jdm_node_of_def jdm_node_json_def defined_field_def position_json_def json_text_def nullish_def
      Let_def split: option.split)

lemma jdm_edge_roundtrip: "jdm_edge_of (jdm_edge_json e) = e"
  by (cases e) (auto simp: jdm_edge_of_def jdm_edge_json_def defined_field_def json_text_def nullish_def split: option.split)

text \<open>What is saved is what is loaded.\<close>

lemma loaded_saved: "loaded_graph (saved_body g) = g"
  by (cases g) (simp add: loaded_graph_def saved_body_def nullish_def comp_def jdm_node_roundtrip jdm_edge_roundtrip map_idI)

section \<open>The requests of the page\<close>

fun op_calls :: "op \<Rightarrow> rule_call list" where
  "op_calls (Manual_save t n g r) = [Save_call t n (saved_body g)]"
| "op_calls (Agent_save c t n g) = [Save_call t n (saved_body g)]"
| "op_calls (Rename_save c t old new g) = [Save_call t new (saved_body g)]"
| "op_calls (Rename_delete c t old new) = [Delete_call t old]"
| "op_calls (Delete_file c t n) = [Delete_call t n]"
| "op_calls (Rename_refresh c t new) = map List_call RULE_TYPES"
| "op_calls (Delete_refresh c) = map List_call RULE_TYPES"
| "op_calls Mount_refresh = map List_call RULE_TYPES"

text \<open>The error a client makes of a status.\<close>

fun failure :: "'b rule_answer \<Rightarrow> string option" where
  "failure (Failure st e) = Some (''Request failed with status code '' @ nat_to_string st)"
| "failure _ = None"

definition outcome_of :: "'b rule_answer list \<Rightarrow> outcome" where
  "outcome_of as' = (case somes failure as' of [] \<Rightarrow> Done | e # es \<Rightarrow> Failed e False)"

fun listing_of :: "'b rule_answer list \<Rightarrow> listing" where
  "listing_of [Names a, Names b] = (a, b)"
| "listing_of _ = ([], [])"

datatype fate = Delivered bool | Answer_lost string | Never_sent string

datatype net_event = Page session_event | Wire nat fate | Fetch nat | Fetch_failed nat string

text \<open>What an event is for the page, and the volume after it.\<close>

definition deliver :: "'b backend \<Rightarrow> string \<Rightarrow> op \<Rightarrow> fate \<Rightarrow> 'b obj \<Rightarrow> reply \<times> 'b obj" where
  "deliver B key p f vol =
     (let r = run_calls (rest_call B key) (op_calls p) vol in
      case f of
        Delivered pr \<Rightarrow> (\<lparr>rp_outcome = outcome_of (fst r), rp_listing = listing_of (fst r), rp_proceed = pr\<rparr>, snd r)
      | Answer_lost e \<Rightarrow> (\<lparr>rp_outcome = Failed e (outcome_of (fst r) = Done), rp_listing = ([], []), rp_proceed = True\<rparr>, snd r)
      | Never_sent e \<Rightarrow> (\<lparr>rp_outcome = Failed e False, rp_listing = ([], []), rp_proceed = True\<rparr>, vol))"

fun page_event :: "'b backend \<Rightarrow> string \<Rightarrow> session \<times> 'b obj \<Rightarrow> net_event \<Rightarrow> session_event \<times> 'b obj" where
  "page_event B key (s, vol) (Page e) = (e, vol)"
| "page_event B key (s, vol) (Wire k f) =
     (case deliver B key (s_ops s ! k) f vol of (rp, vol') \<Rightarrow> (Reply k rp, vol'))"
| "page_event B key (s, vol) (Fetch k) =
     (Loaded k (failure (fst (rest_call B key (Get_call (s_ruleType s) (s_name s)) vol))), vol)"
| "page_event B key (s, vol) (Fetch_failed k e) = (Loaded k (Some e), vol)"

definition net_step ::
  "((string \<times> string) list \<Rightarrow> bool) \<Rightarrow> 'b backend \<Rightarrow> string \<Rightarrow> session \<times> 'b obj \<Rightarrow> net_event \<Rightarrow> session \<times> 'b obj" where
  "net_step cyclic B key sv e = (case page_event B key sv e of (e', vol') \<Rightarrow> (session_step cyclic (fst sv) e', vol'))"

text \<open>The events that can happen: answers come from the server, names fit into a path, and the history is calm.\<close>

fun from_server :: "session_event \<Rightarrow> bool" where
  "from_server (Reply k rp) = True"
| "from_server (Loaded k err) = True"
| "from_server e = False"

fun possible :: "session \<Rightarrow> net_event \<Rightarrow> bool" where
  "possible s (Page e) = (\<not> from_server e)"
| "possible s (Wire k f) = (k < length (s_ops s) \<and> list_all sendable (op_calls (s_ops s ! k)))"
| "possible s (Fetch k) = sendable (Get_call (s_ruleType s) (s_name s))"
| "possible s (Fetch_failed k e) = True"

definition net_ok :: "'b backend \<Rightarrow> string \<Rightarrow> session \<times> 'b obj \<Rightarrow> net_event \<Rightarrow> bool" where
  "net_ok B key sv e = (possible (fst sv) e \<and> calm (fst sv) (fst (page_event B key sv e)))"

section \<open>The files of the page are those on the volume\<close>

definition stored_files :: "('b \<Rightarrow> json) \<Rightarrow> 'b backend \<Rightarrow> 'b obj \<Rightarrow> files" where
  "stored_files parse B vol = (\<lambda>f. map_option (\<lambda>b. loaded_graph (parse b)) (rule_files B vol f))"

text \<open>What a request that is carried out does to the files.\<close>

fun op_effect :: "op \<Rightarrow> files \<Rightarrow> files" where
  "op_effect (Manual_save t n g r) = saveRule t n g"
| "op_effect (Agent_save c t n g) = saveRule t n g"
| "op_effect (Rename_save c t old new g) = saveRule t new g"
| "op_effect (Rename_delete c t old new) = deleteRule t old"
| "op_effect (Delete_file c t n) = deleteRule t n"
| "op_effect _ = id"

lemma files_take [simp]: "s_files (take_op k s) = s_files s"
  by (simp add: take_op_def)

lemma reply_files:
  "s_files (reply_to p rp s) = (if carried_out (rp_outcome rp) then op_effect p (s_files s) else s_files s)"
  by (cases p; cases "rp_outcome rp") (simp_all add: session_defs Let_def split: if_splits)

lemma page_files: "(\<And>k rp. e \<noteq> Reply k rp) \<Longrightarrow> s_files (session_step cyclic s e) = s_files s"
  by (cases e) (auto simp: session_defs Let_def split: prod.splits option.splits)

text \<open>A backend the page can work with: the key is valid, and the JSON text of a body is read back as the body, as far
  as the loader looks.\<close>

definition works_with :: "('b \<Rightarrow> json) \<Rightarrow> 'b backend \<Rightarrow> string \<Rightarrow> bool" where
  "works_with parse B key =
     (key \<noteq> [] \<and> be_key B key \<and> (\<forall>g. loaded_graph (parse (be_encode B (saved_body g))) = loaded_graph (saved_body g)))"

text \<open>The server's side: the calls of an operation, on a tidy volume.\<close>

lemma call_spec:
  assumes "works_with parse B key" "tidy B vol" "sendable c"
  shows "fst (rest_call B key c vol) = fst (spec_call (be_encode B) c (rule_files B vol))"
    and "rule_files B (snd (rest_call B key c vol)) = snd (spec_call (be_encode B) c (rule_files B vol))"
    and "tidy B (snd (rest_call B key c vol))"
  using assms rest_call_spec [OF _ _ assms(2,3), of key] by (simp_all add: works_with_def)

lemma outcome_simps [simp]:
  "outcome_of [] = Done"
  "outcome_of [Names ns] = Done"
  "outcome_of [Bytes b] = Done"
  "outcome_of [No_content] = Done"
  "outcome_of [Failure st e] = Failed (''Request failed with status code '' @ nat_to_string st) False"
  by (simp_all add: outcome_of_def)

lemma outcome_carried [simp]: "carried_out (outcome_of xs) \<longleftrightarrow> outcome_of xs = Done"
  by (simp add: outcome_of_def split: list.split)

lemma stored_save:
  assumes "works_with parse B key" "tidy B vol" "sendable (Save_call t n (saved_body g))"
  defines "r \<equiv> rest_call B key (Save_call t n (saved_body g)) vol"
  shows "stored_files parse B (snd r) =
    (if outcome_of [fst r] = Done then saveRule t n g (stored_files parse B vol) else stored_files parse B vol)"
proof -
  have "loaded_graph (parse (be_encode B (saved_body g))) = g"
    using assms(1) by (simp add: works_with_def loaded_saved)
  then show ?thesis
    using call_spec [OF assms(1-3)]
    by (auto simp: r_def stored_files_def saveRule_def body_params_def saved_body_def fun_eq_iff)
qed

lemma stored_delete:
  assumes "works_with parse B key" "tidy B vol" "sendable (Delete_call t n)"
  defines "r \<equiv> rest_call B key (Delete_call t n) vol"
  shows "stored_files parse B (snd r) =
    (if outcome_of [fst r] = Done then deleteRule t n (stored_files parse B vol) else stored_files parse B vol)"
  using call_spec [OF assms(1-3)]
  by (auto simp: r_def stored_files_def deleteRule_def fun_eq_iff)

lemma lists_keep:
  assumes "works_with parse B key"
  shows "tidy B vol \<Longrightarrow> list_all sendable (map List_call ts) \<Longrightarrow>
    tidy B (snd (run_calls (rest_call B key) (map List_call ts) vol)) \<and>
    rule_files B (snd (run_calls (rest_call B key) (map List_call ts) vol)) = rule_files B vol"
proof (induction ts arbitrary: vol)
  case Nil
  then show ?case by simp
next
  case (Cons t ts)
  obtain x vol' where r: "rest_call B key (List_call t) vol = (x, vol')" by fastforce
  then have "tidy B vol'" "rule_files B vol' = rule_files B vol"
    using call_spec [OF assms, of vol "List_call t"] Cons.prems by simp_all
  with Cons.IH [of vol'] Cons.prems r show ?case by (auto split: prod.split)
qed

text \<open>So an operation leaves the volume tidy, and changes the files exactly when its answer is a success.\<close>

lemma single_call: "run_calls f [c] vol = ([fst (f c vol)], snd (f c vol))"
  by (simp split: prod.split)

lemma op_stored:
  assumes "works_with parse B key" "tidy B vol" "list_all sendable (op_calls p)"
  defines "r \<equiv> run_calls (rest_call B key) (op_calls p) vol"
  shows "tidy B (snd r) \<and> stored_files parse B (snd r) =
      (if outcome_of (fst r) = Done then op_effect p (stored_files parse B vol) else stored_files parse B vol)"
proof (cases "\<exists>c. op_calls p = [c]")
  case True
  then obtain c where c: "op_calls p = [c]" by blast
  then have "tidy B (snd r)"
    using assms call_spec(3) [OF assms(1,2)] by (simp add: r_def single_call del: run_calls.simps)
  with c show ?thesis
    using assms stored_save [OF assms(1,2)] stored_delete [OF assms(1,2)]
    by (cases p) (auto simp: r_def single_call RULE_TYPES_def simp del: run_calls.simps)
next
  case False
  then have "op_calls p = map List_call RULE_TYPES" "op_effect p = id"
    by (cases p; simp)+
  then show ?thesis
    using lists_keep [OF assms(1,2), of RULE_TYPES] assms(3) by (simp add: r_def stored_files_def)
qed

section \<open>The page with its server\<close>

fun net_inv :: "('b \<Rightarrow> json) \<Rightarrow> 'b backend \<Rightarrow> string \<Rightarrow> session \<times> 'b obj \<Rightarrow> bool" where
  "net_inv parse B key (s, vol) =
     (works_with parse B key \<and> in_sync s \<and> tidy B vol \<and> s_files s = stored_files parse B vol)"

lemma net_files:
  assumes "works_with parse B key" "tidy B vol" "s_files s = stored_files parse B vol" "possible s e"
    and "page_event B key (s, vol) e = (e', vol')"
  shows "tidy B vol' \<and> s_files (session_step cyclic s e') = stored_files parse B vol'"
proof (cases e)
  case (Page pe)
  then show ?thesis
    using assms page_files [of e' cyclic s] by (cases pe) auto
next
  case (Wire k f)
  let ?p = "s_ops s ! k"
  have k: "k < length (s_ops s)" and "list_all sendable (op_calls ?p)"
    using assms(4) Wire by simp_all
  note stored = op_stored [OF assms(1,2) this(2)]
  show ?thesis
    using assms stored k Wire
    by (cases f) (auto simp: deliver_def Let_def reply_files split: outcome.splits)
next
  case (Fetch k)
  then show ?thesis using assms page_files [of e' cyclic s] by auto
next
  case (Fetch_failed k err)
  then show ?thesis using assms page_files [of e' cyclic s] by auto
qed

interpretation net: guarded_machine "net_step cyclic B key" "net_ok B key" "net_inv parse B key" for cyclic parse B key
proof unfold_locales
  fix sv e
  assume inv: "net_inv parse B key sv" and ok: "net_ok B key sv e"
  obtain s vol where sv: "sv = (s, vol)" by fastforce
  obtain e' vol' where pe: "page_event B key (s, vol) e = (e', vol')" by fastforce
  have "in_sync (session_step cyclic s e')"
    using inv ok sv pe by (intro in_sync_step) (simp_all add: net_ok_def)
  with inv ok sv pe net_files [of parse B key vol s e e' vol' cyclic]
  show "net_inv parse B key (net_step cyclic B key sv e)"
    by (simp add: net_ok_def net_step_def)
qed

lemma net_open:
  "works_with parse B key \<Longrightarrow> tidy B vol \<Longrightarrow> net_inv parse B key (open_page p n new (stored_files parse B vol), vol)"
  by (simp add: in_sync_open) (simp add: open_page_def load_effect_def)

text \<open>The file of a rule, by its path.\<close>

lemma stored_at:
  assumes "stored_files parse B vol (t, n) = Some g"
  shows "\<exists>b. obj_get vol (be_root B @ ''/'' @ t @ ''/'' @ n) = Some b \<and> loaded_graph (parse b) = g"
  using assms
  by (auto simp: stored_files_def rule_files_def file_path_def type_dir_def parse_rule_type_Inr split: sum.splits if_splits)


section \<open>No cyclic rule is ever stored\<close>

text \<open>Without any assumption on the order of edits and answers.\<close>

fun stored_inv :: "('b \<Rightarrow> json) \<Rightarrow> 'b backend \<Rightarrow> string \<Rightarrow> (graph \<Rightarrow> bool) \<Rightarrow> session \<times> 'b obj \<Rightarrow> bool" where
  "stored_inv parse B key P (s, vol) =
     (works_with parse B key \<and> writes_ok P s \<and> tidy B vol \<and> s_files s = stored_files parse B vol)"

interpretation any_order: guarded_machine "net_step cyclic B key" "\<lambda>sv. possible (fst sv)"
  "stored_inv parse B key (\<lambda>g. \<not> checkCyclic cyclic g)" for cyclic parse B key
proof unfold_locales
  fix sv e
  assume inv: "stored_inv parse B key (\<lambda>g. \<not> checkCyclic cyclic g) sv" and ok: "possible (fst sv) e"
  obtain s vol where sv: "sv = (s, vol)" by fastforce
  obtain e' vol' where pe: "page_event B key (s, vol) e = (e', vol')" by fastforce
  from inv ok sv pe net_files [of parse B key vol s e e' vol' cyclic] writes_ok_step [of cyclic s e']
  show "stored_inv parse B key (\<lambda>g. \<not> checkCyclic cyclic g) (net_step cyclic B key sv e)"
    by (simp add: net_step_def)
qed

lemma stored_file:
  assumes "tidy B vol" "obj_get vol (file_path B t n) = Some b"
  shows "stored_files parse B vol (project_name t, n) = Some (loaded_graph (parse b))"
proof -
  have "file_path B t n \<in> set (keys vol)"
    using assms(2) obj_get_None_iff [of vol "file_path B t n"] by auto
  with assms show ?thesis by (simp add: tidy_def stored_files_def)
qed

text \<open>C16. Through the page no cyclic graph ever reaches the volume: if none of the rule files is cyclic at first, none is after
  any history, whatever the order of edits and answers and whichever requests or answers are lost.\<close>

theorem stored_graphs_acyclic:
  assumes "key \<noteq> []" and "be_key B key"
    and "\<And>g. loaded_graph (parse (be_encode B (saved_body g))) = loaded_graph (saved_body g)"
    and "tidy B vol" and "\<And>f g. stored_files parse B vol f = Some g \<Longrightarrow> \<not> checkCyclic cyclic g"
    and "admissible (net_step cyclic B key) (\<lambda>sv. possible (fst sv)) (open_page p n new (stored_files parse B vol), vol) es"
    and "run (net_step cyclic B key) (open_page p n new (stored_files parse B vol), vol) es = (s, vol')"
    and "obj_get vol' (be_root B @ ''/'' @ project_name t @ ''/'' @ m) = Some b"
  shows "\<not> checkCyclic cyclic (loaded_graph (parse b))"
proof -
  have "stored_inv parse B key (\<lambda>g. \<not> checkCyclic cyclic g) (open_page p n new (stored_files parse B vol), vol)"
    using assms(1-5) by (simp add: works_with_def writes_ok_def files_ok_def open_page_def load_effect_def)
  from any_order.run_inv [OF this assms(6)] assms(7)
  have "tidy B vol'" "files_ok (\<lambda>g. \<not> checkCyclic cyclic g) (stored_files parse B vol')"
    by (auto simp: writes_ok_def)
  with stored_file [of B vol' t m b parse] assms(8) show ?thesis
    by (simp add: files_ok_def file_path_def type_dir_def)
qed

section \<open>A rule edited and saved\<close>

definition stored_day :: "net_event list" where
  "stored_day =
     [Fetch 1, Page (Canvas emptyGraph), Page Click_save, Wire 1 (Answer_lost ''Network Error''), Page Click_save,
      Wire 1 (Delivered True)]"

definition kyc_volume :: "json obj" where
  "kyc_volume = obj_set (file_path demo_backend Onboarding ''kyc.json'') (saved_body a_graph) []"

definition stored_end :: "session \<times> json obj" where
  "stored_end = run (net_step two_cycle demo_backend ''sk'')
     (open_page (Some ''onboarding'') ''kyc.json'' False (stored_files id demo_backend kyc_volume), kyc_volume) stored_day"

lemma stored_day_ok:
  "admissible (net_step two_cycle demo_backend ''sk'') (net_ok demo_backend ''sk'')
     (open_page (Some ''onboarding'') ''kyc.json'' False (stored_files id demo_backend kyc_volume), kyc_volume) stored_day"
  by code_simp

lemma stored_end_settled: "settled (fst stored_end)"
  by code_simp

lemma kyc_volume_ok:
  shows "tidy demo_backend kyc_volume"
    and "stored_files id demo_backend kyc_volume f = Some g \<Longrightarrow> \<not> checkCyclic two_cycle g"
proof -
  have "tidy demo_backend []" by (simp add: tidy_def keys_def)
  then show "tidy demo_backend kyc_volume"
    unfolding kyc_volume_def by (rule tidy_set) (simp_all add: storable_def)
  have "\<not> checkCyclic two_cycle a_graph" by code_simp
  then show "stored_files id demo_backend kyc_volume f = Some g \<Longrightarrow> \<not> checkCyclic two_cycle g"
    by (cases f) (auto simp: stored_files_def rule_files_def kyc_volume_def loaded_saved split: sum.splits if_splits)
qed


text \<open>Edits while a save is on its way, and a lost answer.\<close>

definition hasty_day :: "net_event list" where
  "hasty_day =
     [Fetch 1, Page (Apply_save ''call-1''), Page (Canvas emptyGraph), Wire 1 (Answer_lost ''Network Error''), Page Click_save]"

definition hasty_end :: "session \<times> json obj" where
  "hasty_end = run (net_step two_cycle demo_backend ''sk'')
     (open_page (Some ''onboarding'') ''kyc.json'' False (stored_files id demo_backend kyc_volume), kyc_volume) hasty_day"

lemma hasty_day_ok:
  "admissible (net_step two_cycle demo_backend ''sk'') (\<lambda>sv. possible (fst sv))
     (open_page (Some ''onboarding'') ''kyc.json'' False (stored_files id demo_backend kyc_volume), kyc_volume) hasty_day"
  by code_simp

theorem stored_graphs_acyclic_witness:
  "\<not> checkCyclic two_cycle (loaded_graph (id (the (obj_get (snd hasty_end) ''zenrule/onboarding/kyc.json''))))"
proof (rule stored_graphs_acyclic [where parse = id and B = demo_backend])
  show "(''sk'' :: string) \<noteq> []" by simp
  show "be_key demo_backend ''sk''" by (simp add: demo_backend_def)
  show "loaded_graph (id (be_encode demo_backend (saved_body g))) = loaded_graph (saved_body g)" for g
    by (simp add: demo_backend_def)
  show "tidy demo_backend kyc_volume" by (rule kyc_volume_ok)
  show "\<not> checkCyclic two_cycle g" if "stored_files id demo_backend kyc_volume f = Some g" for f g
    using that by (rule kyc_volume_ok)
  show "run (net_step two_cycle demo_backend ''sk'')
      (open_page (Some ''onboarding'') ''kyc.json'' False (stored_files id demo_backend kyc_volume), kyc_volume) hasty_day =
      (fst hasty_end, snd hasty_end)"
    by (simp add: hasty_end_def)
  show "obj_get (snd hasty_end) (be_root demo_backend @ ''/'' @ project_name Onboarding @ ''/'' @ ''kyc.json'') =
      Some (the (obj_get (snd hasty_end) ''zenrule/onboarding/kyc.json''))"
    by code_simp
qed (fact hasty_day_ok)

end
