(* ===== verification/Hitl_Cards.thy ===== *)
theory Hitl_Cards
  imports Prelude
begin

text \<open>
  The cards of the copilot's tool calls and the Apply-all footer
  (\<open>example-apps/atomic-fi-jdm-editor/src/copilot/cards/\<close>): every card decides its tool call at most
  once, whoever presses the button, and the footer presses the buttons of all executing cards.

  A card is an instance of a component, numbered in the order of mounting; the module state of
  \<open>apply-all-footer.tsx\<close> (the set of handles, the flag, the microtasks) is shared by all of them. The
  copilot library moves the status of a card, React runs its effects after a change. A step is one of
  these, a click, a microtask, or one call of the footer's loop; steps interleave in any order.
\<close>

section \<open>Ordinals\<close>

record ordinals =
  toolCallOrdinals :: "string \<Rightarrow> nat option"
  nextOrdinal :: nat

definition ordinalFor :: "string \<Rightarrow> ordinals \<Rightarrow> nat \<times> ordinals" where
  "ordinalFor c s =
     (case toolCallOrdinals s c of
        Some n \<Rightarrow> (n, s)
      | None \<Rightarrow> (nextOrdinal s,
          \<lparr>toolCallOrdinals = (toolCallOrdinals s)(c \<mapsto> nextOrdinal s), nextOrdinal = nextOrdinal s + 1\<rparr>))"

definition no_ordinals :: ordinals where
  "no_ordinals = \<lparr>toolCallOrdinals = (\<lambda>_. None), nextOrdinal = 0\<rparr>"

definition ordinal_step :: "ordinals \<Rightarrow> string \<Rightarrow> ordinals" where
  "ordinal_step s c = snd (ordinalFor c s)"

text \<open>The ordinals are the numbers below the next one, each of one tool call.\<close>

definition ordinals_inv :: "ordinals \<Rightarrow> bool" where
  "ordinals_inv s = ((\<forall>c n. toolCallOrdinals s c = Some n \<longrightarrow> n < nextOrdinal s) \<and>
     (\<forall>c d n. toolCallOrdinals s c = Some n \<longrightarrow> toolCallOrdinals s d = Some n \<longrightarrow> c = d))"

interpretation ordinal: machine ordinal_step ordinals_inv
proof
  fix s c
  assume "ordinals_inv s"
  then show "ordinals_inv (ordinal_step s c)"
    by (auto simp: ordinals_inv_def ordinal_step_def ordinalFor_def less_Suc_eq split: option.split)
qed

lemma ordinal_kept: "toolCallOrdinals s c = Some n \<Longrightarrow> toolCallOrdinals (run ordinal_step s cs) c = Some n"
proof (induction cs arbitrary: s)
  case (Cons d cs)
  have "toolCallOrdinals (ordinal_step s d) c = Some n"
    using Cons.prems by (auto simp: ordinal_step_def ordinalFor_def split: option.split)
  then show ?case by (simp add: Cons.IH)
qed simp

section \<open>Cards and their registry\<close>

datatype tool_status = InProgress | Executing | Complete

datatype card_kind = Preview | Destructive string

record card_instance =
  ci_toolCallId :: string
  ci_kind :: card_kind
  ci_status :: "tool_status option"
  ci_applied :: bool
  ci_confirm :: string

text \<open>A decision is the instance, what was pressed, and the confirmation text it had at that time.\<close>

type_synonym decision = "nat \<times> bool \<times> string"

record hitl =
  h_cards :: "card_instance list"
  h_pending :: "nat list"
  h_auto :: bool
  h_micro :: "nat list"
  h_kick :: "nat list"
  h_busy :: bool
  h_log :: "decision list"

abbreviation the_card :: "hitl \<Rightarrow> nat \<Rightarrow> card_instance" where
  "the_card s i \<equiv> h_cards s ! i"

definition unregister :: "nat \<Rightarrow> hitl \<Rightarrow> hitl" where
  "unregister i s = s\<lparr>h_pending := filter (\<lambda>j. j \<noteq> i) (h_pending s)\<rparr>"

definition registerPending :: "nat \<Rightarrow> hitl \<Rightarrow> hitl" where
  "registerPending i s =
     s\<lparr>h_pending := (if i \<in> set (h_pending s) then h_pending s else h_pending s @ [i]),
       h_micro := (if h_auto s then h_micro s @ [i] else h_micro s)\<rparr>"

definition decide :: "nat \<Rightarrow> bool \<Rightarrow> hitl \<Rightarrow> hitl" where
  "decide i b s =
     (if ci_applied (the_card s i) then s
      else unregister i (s\<lparr>h_cards := (h_cards s)[i := (the_card s i)\<lparr>ci_applied := True\<rparr>],
                           h_log := h_log s @ [(i, b, ci_confirm (the_card s i))]\<rparr>))"

definition pendingApply :: "nat \<Rightarrow> hitl \<Rightarrow> hitl" where
  "pendingApply i = decide i True"

definition guardedReject :: "nat \<Rightarrow> hitl \<Rightarrow> hitl" where
  "guardedReject i = decide i False"

text \<open>The effect of a preview card: the cleanup of the last run, then the registration.\<close>

definition registration_effect :: "nat \<Rightarrow> hitl \<Rightarrow> hitl" where
  "registration_effect i s =
     (let s' = unregister i s; c = the_card s i in
      if ci_status c \<noteq> Some Executing \<or> ci_applied c then s' else registerPending i s')"

definition set_status :: "nat \<Rightarrow> tool_status option \<Rightarrow> hitl \<Rightarrow> hitl" where
  "set_status i st s =
     (let s' = s\<lparr>h_cards := (h_cards s)[i := (the_card s i)\<lparr>ci_status := st\<rparr>]\<rparr> in
      if ci_kind (the_card s i) = Preview then registration_effect i s' else s')"

definition mount :: "string \<Rightarrow> card_kind \<Rightarrow> tool_status \<Rightarrow> hitl \<Rightarrow> hitl" where
  "mount c k st s =
     set_status (length (h_cards s)) (Some st)
       (s\<lparr>h_cards := h_cards s @
          [\<lparr>ci_toolCallId = c, ci_kind = k, ci_status = None, ci_applied = False, ci_confirm = []\<rparr>]\<rparr>)"

definition delete_ready :: "card_instance \<Rightarrow> bool" where
  "delete_ready c = (case ci_kind c of Preview \<Rightarrow> False | Destructive filename \<Rightarrow> trim (ci_confirm c) = filename)"

definition type_confirm :: "nat \<Rightarrow> string \<Rightarrow> hitl \<Rightarrow> hitl" where
  "type_confirm i typed s = s\<lparr>h_cards := (h_cards s)[i := (the_card s i)\<lparr>ci_confirm := typed\<rparr>]\<rparr>"

text \<open>A microtask queued at registration, and the footer's button: it raises the flag and takes a snapshot
  of the handles, which it calls one after the other.\<close>

definition run_microtask :: "nat \<Rightarrow> hitl \<Rightarrow> hitl" where
  "run_microtask i s = (if h_auto s \<and> i \<in> set (h_pending s) then pendingApply i s else s)"

definition footer_visible :: "hitl \<Rightarrow> bool" where
  "footer_visible s = (2 \<le> length (h_pending s) \<or> h_busy s)"

definition apply_all_start :: "hitl \<Rightarrow> hitl" where
  "apply_all_start s = s\<lparr>h_busy := True, h_auto := True, h_kick := h_pending s\<rparr>"

definition apply_all_end :: "hitl \<Rightarrow> hitl" where
  "apply_all_end s = s\<lparr>h_auto := False, h_busy := False\<rparr>"

definition no_cards :: hitl where
  "no_cards = \<lparr>h_cards = [], h_pending = [], h_auto = False, h_micro = [], h_kick = [], h_busy = False, h_log = []\<rparr>"

definition shown :: "nat \<Rightarrow> tool_status \<Rightarrow> hitl \<Rightarrow> bool" where
  "shown i st s = (i < length (h_cards s) \<and> ci_status (the_card s i) = Some st)"

inductive hitl_step :: "hitl \<Rightarrow> hitl \<Rightarrow> bool" where
  mount: "hitl_step s (mount c k st s)"
| status: "shown i st s \<Longrightarrow> st \<noteq> st' \<Longrightarrow> hitl_step s (set_status i (Some st') s)"
| unmount: "shown i st s \<Longrightarrow> hitl_step s (set_status i None s)"
| click_apply: "shown i Executing s \<Longrightarrow> ci_kind (the_card s i) = Preview \<Longrightarrow> hitl_step s (pendingApply i s)"
| click_reject: "shown i Executing s \<Longrightarrow> hitl_step s (guardedReject i s)"
| confirm_text: "shown i Executing s \<Longrightarrow> hitl_step s (type_confirm i typed s)"
| click_delete: "shown i Executing s \<Longrightarrow> delete_ready (the_card s i) \<Longrightarrow> hitl_step s (pendingApply i s)"
| microtask: "h_micro s = i # ms \<Longrightarrow> hitl_step s (run_microtask i (s\<lparr>h_micro := ms\<rparr>))"
| apply_all: "\<not> h_busy s \<Longrightarrow> footer_visible s \<Longrightarrow> hitl_step s (apply_all_start s)"
| kick: "h_kick s = i # is \<Longrightarrow> hitl_step s (pendingApply i (s\<lparr>h_kick := is\<rparr>))"
| drained: "h_busy s \<Longrightarrow> h_kick s = [] \<Longrightarrow> hitl_step s (apply_all_end s)"

abbreviation hitl_reachable :: "hitl \<Rightarrow> bool" where
  "hitl_reachable s \<equiv> hitl_step\<^sup>*\<^sup>* no_cards s"

section \<open>The invariant\<close>

definition waiting :: "hitl \<Rightarrow> nat \<Rightarrow> bool" where
  "waiting s i = (shown i Executing s \<and> ci_kind (the_card s i) = Preview \<and> \<not> ci_applied (the_card s i))"

text \<open>The registry holds the executing preview cards that are not decided; while the flag is up each of
  them has its microtask or is in the snapshot.\<close>

definition registry_ok :: "hitl \<Rightarrow> bool" where
  "registry_ok s = (distinct (h_pending s) \<and> (\<forall>i. i \<in> set (h_pending s) \<longleftrightarrow> waiting s i) \<and>
     (h_auto s \<longrightarrow> set (h_pending s) \<subseteq> set (h_micro s) \<union> set (h_kick s)))"

text \<open>The log has one decision for each applied card; snapshot and microtasks are preview cards.\<close>

definition log_ok :: "hitl \<Rightarrow> bool" where
  "log_ok s = (distinct (map fst (h_log s)) \<and>
     (\<forall>i. i \<in> fst ` set (h_log s) \<longleftrightarrow> i < length (h_cards s) \<and> ci_applied (the_card s i)) \<and>
     (\<forall>i typed f. (i, True, typed) \<in> set (h_log s) \<longrightarrow> ci_kind (the_card s i) = Destructive f \<longrightarrow> trim typed = f))"

definition queues_ok :: "hitl \<Rightarrow> bool" where
  "queues_ok s = (h_busy s = h_auto s \<and>
     (\<forall>i \<in> set (h_micro s) \<union> set (h_kick s). i < length (h_cards s) \<and> ci_kind (the_card s i) = Preview))"

definition hitl_inv :: "hitl \<Rightarrow> bool" where
  "hitl_inv s = (registry_ok s \<and> log_ok s \<and> queues_ok s)"


lemma decide_frame [simp]:
  "h_auto (decide i b s) = h_auto s" "h_micro (decide i b s) = h_micro s" "h_kick (decide i b s) = h_kick s"
  "h_busy (decide i b s) = h_busy s"
  by (simp_all add: decide_def unregister_def)

lemma inv_decide:
  assumes "hitl_inv s" and i: "i < length (h_cards s)"
    and ready: "b \<Longrightarrow> ci_kind (the_card s i) = Preview \<or> delete_ready (the_card s i)"
  shows "hitl_inv (decide i b s)"
proof (cases "ci_applied (the_card s i)")
  case True
  then show ?thesis using assms(1) by (simp add: decide_def)
next
  case False
  let ?t = "decide i b s"
  have cards: "h_cards ?t = (h_cards s)[i := (the_card s i)\<lparr>ci_applied := True\<rparr>]"
    and log: "h_log ?t = h_log s @ [(i, b, ci_confirm (the_card s i))]"
    and pend: "h_pending ?t = filter (\<lambda>j. j \<noteq> i) (h_pending s)"
    and rest: "h_auto ?t = h_auto s" "h_micro ?t = h_micro s" "h_kick ?t = h_kick s" "h_busy ?t = h_busy s"
    using False by (simp_all add: decide_def unregister_def)
  have waiting: "waiting ?t j \<longleftrightarrow> waiting s j \<and> j \<noteq> i" for j
    using i by (auto simp: waiting_def shown_def cards nth_list_update)
  have kind: "ci_kind (the_card ?t j) = ci_kind (the_card s j)" for j
    using i by (simp add: cards nth_list_update)
  have "registry_ok ?t"
    using assms(1) by (auto simp: hitl_inv_def registry_ok_def waiting pend rest)
  moreover have "i \<notin> fst ` set (h_log s)"
    using assms(1) False by (auto simp: hitl_inv_def log_ok_def)
  then have "log_ok ?t"
    using assms(1) i ready unfolding hitl_inv_def log_ok_def kind log
    by (auto simp: cards nth_list_update delete_ready_def split: card_kind.splits)
  moreover have "queues_ok ?t"
    using assms(1) by (simp add: hitl_inv_def queues_ok_def kind rest) (simp add: cards)
  ultimately show ?thesis by (simp add: hitl_inv_def)
qed

lemma inv_set_status:
  assumes "hitl_inv s" and i: "i < length (h_cards s)"
  shows "hitl_inv (set_status i st s)"
proof -
  let ?t = "set_status i st s"
  have cards: "h_cards ?t = (h_cards s)[i := (the_card s i)\<lparr>ci_status := st\<rparr>]"
    and rest: "h_log ?t = h_log s" "h_auto ?t = h_auto s" "h_kick ?t = h_kick s" "h_busy ?t = h_busy s"
    by (simp_all add: set_status_def registration_effect_def registerPending_def unregister_def Let_def)
  have kind: "ci_kind (the_card ?t j) = ci_kind (the_card s j)"
    and applied: "ci_applied (the_card ?t j) = ci_applied (the_card s j)" for j
    using i by (simp_all add: cards nth_list_update)
  have pend: "h_pending ?t = (if ci_kind (the_card s i) = Preview
      then filter (\<lambda>j. j \<noteq> i) (h_pending s) @ (if waiting ?t i then [i] else []) else h_pending s)"
    and micro: "h_micro ?t = h_micro s @ (if h_auto s \<and> waiting ?t i then [i] else [])"
    using i by (auto simp: set_status_def registration_effect_def registerPending_def unregister_def Let_def
        waiting_def shown_def)
  have other: "j \<noteq> i \<Longrightarrow> waiting ?t j = waiting s j" for j
    by (simp add: waiting_def shown_def cards)
  have preview: "waiting u j \<Longrightarrow> ci_kind (the_card u j) = Preview" for u j
    by (simp add: waiting_def)
  have pend_iff: "j \<in> set (h_pending ?t) \<longleftrightarrow> waiting ?t j" for j
  proof (cases "j = i")
    case True
    have "\<not> waiting s i" "\<not> waiting ?t i" if "ci_kind (the_card s i) \<noteq> Preview"
      using that by (simp_all add: waiting_def kind)
    with True assms(1) show ?thesis by (auto simp: pend hitl_inv_def registry_ok_def)
  next
    case False
    with assms(1) show ?thesis by (auto simp: pend other hitl_inv_def registry_ok_def)
  qed
  have "registry_ok ?t"
    using assms(1) pend_iff by (auto simp: registry_ok_def hitl_inv_def micro rest pend)
  moreover have "log_ok ?t"
    using assms(1) by (simp add: hitl_inv_def log_ok_def kind applied rest) (simp add: cards)
  moreover have "queues_ok ?t"
    using assms(1) i preview [of ?t i, unfolded kind]
    by (auto simp: hitl_inv_def queues_ok_def rest micro cards nth_list_update)
  ultimately show ?thesis by (simp add: hitl_inv_def)
qed


lemma inv_append:
  assumes "hitl_inv s" and "ci_status c = None" and "\<not> ci_applied c"
  shows "hitl_inv (s\<lparr>h_cards := h_cards s @ [c]\<rparr>)"
proof -
  let ?t = "s\<lparr>h_cards := h_cards s @ [c]\<rparr>"
  have waiting: "waiting ?t i = waiting s i" for i
    using assms(2) by (auto simp: waiting_def shown_def nth_append)
  have "trim typed = f" if "(i, True, typed) \<in> set (h_log s)" "ci_kind ((h_cards s @ [c]) ! i) = Destructive f" for i typed f
  proof -
    have "i < length (h_cards s)"
      using that(1) assms(1) by (force simp: hitl_inv_def log_ok_def)
    with that assms(1) show ?thesis
      by (auto simp: hitl_inv_def log_ok_def nth_append)
  qed
  moreover have "i \<in> fst ` set (h_log s) \<longleftrightarrow> i < Suc (length (h_cards s)) \<and> ci_applied ((h_cards s @ [c]) ! i)" for i
    using assms(1,3) by (auto simp: hitl_inv_def log_ok_def nth_append less_Suc_eq)
  ultimately have "log_ok ?t"
    using assms(1) by (simp add: hitl_inv_def log_ok_def)
  then show ?thesis
    using assms(1) by (auto simp: hitl_inv_def registry_ok_def queues_ok_def waiting nth_append less_Suc_eq)
qed

lemma inv_confirm:
  assumes "hitl_inv s" and i: "i < length (h_cards s)"
  shows "hitl_inv (type_confirm i typed s)"
proof -
  let ?t = "type_confirm i typed s"
  have card: "ci_kind (the_card ?t j) = ci_kind (the_card s j)" "ci_applied (the_card ?t j) = ci_applied (the_card s j)"
    "ci_status (the_card ?t j) = ci_status (the_card s j)" "length (h_cards ?t) = length (h_cards s)" for j
    using i by (simp_all add: type_confirm_def nth_list_update)
  have waiting: "waiting ?t j = waiting s j" for j
    by (simp only: waiting_def shown_def card)
  have rest: "h_pending ?t = h_pending s" "h_auto ?t = h_auto s" "h_micro ?t = h_micro s" "h_kick ?t = h_kick s"
    "h_busy ?t = h_busy s" "h_log ?t = h_log s"
    by (simp_all add: type_confirm_def)
  show ?thesis
    using assms(1) by (simp add: hitl_inv_def registry_ok_def log_ok_def queues_ok_def card waiting rest)
qed

lemma inv_queues:
  assumes "registry_ok s" and "log_ok s" and "queues_ok s'" and "h_cards s' = h_cards s" and "h_log s' = h_log s"
    and "h_pending s' = h_pending s"
    and "h_auto s' \<longrightarrow> set (h_pending s) \<subseteq> set (h_micro s') \<union> set (h_kick s')"
  shows "hitl_inv s'"
  using assms by (simp add: hitl_inv_def registry_ok_def log_ok_def waiting_def shown_def)

text \<open>Firing a card that is taken out of a queue: the card leaves the registry with it.\<close>

lemma inv_fire:
  assumes "registry_ok s" and "log_ok s" and q: "queues_ok s'" and same: "h_cards s' = h_cards s" "h_log s' = h_log s"
    "h_pending s' = h_pending s"
    and cover: "h_auto s' \<longrightarrow> set (h_pending s) \<subseteq> set (h_micro s') \<union> set (h_kick s') \<union> {i}"
    and i: "i < length (h_cards s)" "ci_kind (the_card s i) = Preview"
  shows "hitl_inv (pendingApply i s')"
proof -
  let ?s = "s'\<lparr>h_kick := h_kick s' @ [i]\<rparr>"
  have "hitl_inv ?s"
  proof (rule inv_queues [OF assms(1,2)])
    show "queues_ok ?s" using q i same by (auto simp: queues_ok_def)
  qed (use same cover in auto)
  then have *: "hitl_inv (decide i True ?s)"
    using i same by (intro inv_decide) simp_all
  have "i \<notin> set (h_pending (decide i True ?s))"
  proof (cases "ci_applied (the_card s i)")
    case True
    with assms(1) same show ?thesis by (auto simp: decide_def registry_ok_def waiting_def)
  next
    case False
    with same show ?thesis by (simp add: decide_def unregister_def)
  qed
  then have cov: "h_auto s' \<longrightarrow> set (h_pending (decide i True ?s)) \<subseteq> set (h_micro s') \<union> set (h_kick s')"
    using cover same by (auto simp: decide_def unregister_def)
  have eq: "pendingApply i s' = (decide i True ?s)\<lparr>h_kick := h_kick s'\<rparr>"
    by (simp add: pendingApply_def decide_def unregister_def)
  show ?thesis
    unfolding eq
  proof (rule inv_queues)
    show "registry_ok (decide i True ?s)" "log_ok (decide i True ?s)"
      using * by (simp_all add: hitl_inv_def)
    show "queues_ok ((decide i True ?s)\<lparr>h_kick := h_kick s'\<rparr>)"
      using * by (simp add: hitl_inv_def queues_ok_def)
  qed (use cov in \<open>auto simp: decide_def unregister_def\<close>)
qed

lemma inv_step: "hitl_step s t \<Longrightarrow> hitl_inv s \<Longrightarrow> hitl_inv t"
proof (induction rule: hitl_step.induct)
  case (mount s c k st)
  then show ?case
    unfolding mount_def by (intro inv_set_status inv_append) simp_all
next
  case (microtask s i ms)
  then have inv: "registry_ok s" "log_ok s" "queues_ok s" and i: "i < length (h_cards s)" "ci_kind (the_card s i) = Preview"
    by (auto simp: hitl_inv_def queues_ok_def)
  have q: "queues_ok (s\<lparr>h_micro := ms\<rparr>)"
    using inv(3) microtask.hyps by (auto simp: queues_ok_def)
  show ?case
  proof (cases "h_auto s \<and> i \<in> set (h_pending s)")
    case True
    have "hitl_inv (pendingApply i (s\<lparr>h_micro := ms\<rparr>))"
      using inv i q microtask.hyps by (intro inv_fire [where s = s]) (auto simp: registry_ok_def)
    with True show ?thesis by (simp add: run_microtask_def)
  next
    case False
    then have "hitl_inv (s\<lparr>h_micro := ms\<rparr>)"
      using inv q microtask.hyps by (intro inv_queues [where s = s]) (auto simp: registry_ok_def)
    with False show ?thesis by (auto simp: run_microtask_def)
  qed
next
  case (apply_all s)
  then have *: "registry_ok s" "log_ok s" "queues_ok s" by (simp_all add: hitl_inv_def)
  moreover have "i \<in> set (h_pending s) \<Longrightarrow> i < length (h_cards s) \<and> ci_kind (the_card s i) = Preview" for i
    using *(1) by (simp add: registry_ok_def waiting_def shown_def)
  ultimately show ?case
    by (intro inv_queues [where s = s]) (auto simp: apply_all_start_def queues_ok_def)
next
  case (kick s i js)
  then have inv: "registry_ok s" "log_ok s" "queues_ok s" and i: "i < length (h_cards s)" "ci_kind (the_card s i) = Preview"
    by (auto simp: hitl_inv_def queues_ok_def)
  have "queues_ok (s\<lparr>h_kick := js\<rparr>)"
    using inv(3) kick.hyps by (auto simp: queues_ok_def)
  then show ?case
    using inv i kick.hyps by (intro inv_fire [where s = s]) (auto simp: registry_ok_def)
next
  case (drained s)
  then show ?case
    by (intro inv_queues [where s = s]) (auto simp: hitl_inv_def apply_all_end_def queues_ok_def)
qed (auto simp: shown_def pendingApply_def guardedReject_def intro!: inv_set_status inv_decide inv_confirm)

lemma inv_reachable: "hitl_reachable s \<Longrightarrow> hitl_inv s"
proof (induction rule: rtranclp_induct)
  case base
  then show ?case
    by (simp add: hitl_inv_def registry_ok_def log_ok_def queues_ok_def no_cards_def waiting_def shown_def)
next
  case (step t u)
  then show ?case by (blast intro: inv_step)
qed


section \<open>The loop of the footer\<close>

definition STABLE_EMPTY_MS :: nat where "STABLE_EMPTY_MS = 1500"
definition MAX_TOTAL_MS :: nat where "MAX_TOTAL_MS = 30000"

text \<open>The k-th turn of the loop waits for 200 ms and a delay of the scheduler, then looks whether the
  registry is empty (\<open>idle k\<close>). The result is the time and the turn at which the loop stops.\<close>

function drain :: "(nat \<Rightarrow> nat) \<Rightarrow> (nat \<Rightarrow> bool) \<Rightarrow> nat \<Rightarrow> nat \<Rightarrow> nat \<Rightarrow> nat option \<Rightarrow> nat \<times> nat" where
  "drain delay idle start k now since =
     (if now - start < MAX_TOTAL_MS then
        let now' = now + 200 + delay k in
        if idle k then
          (case since of
             None \<Rightarrow> drain delay idle start (k + 1) now' (Some now')
           | Some t \<Rightarrow> if now' - t > STABLE_EMPTY_MS then (now', k + 1) else drain delay idle start (k + 1) now' since)
        else drain delay idle start (k + 1) now' None
      else (now, k))"
  by pat_completeness auto
termination
  by (relation "measure (\<lambda>(delay, idle, start, k, now, since). start + MAX_TOTAL_MS - now)")
    (auto simp: MAX_TOTAL_MS_def)

declare drain.simps [simp del]

definition drain_loop :: "(nat \<Rightarrow> nat) \<Rightarrow> (nat \<Rightarrow> bool) \<Rightarrow> bool \<Rightarrow> nat \<Rightarrow> nat \<times> nat" where
  "drain_loop delay idle idle_now start = drain delay idle start 0 start (if idle_now then Some start else None)"

lemma drain_bounds:
  assumes "\<And>k. delay k \<le> d" and "start \<le> now" and "now \<le> start + MAX_TOTAL_MS + 200 + d"
    and "200 * k \<le> now - start" and "k \<le> 150"
  shows "now \<le> fst (drain delay idle start k now since) \<and>
    fst (drain delay idle start k now since) \<le> start + MAX_TOTAL_MS + 200 + d \<and>
    200 * snd (drain delay idle start k now since) \<le> fst (drain delay idle start k now since) - start \<and>
    snd (drain delay idle start k now since) \<le> 150"
  using assms
proof (induction delay idle start k now since rule: drain.induct)
  case (1 delay idle start k now since)
  let ?now = "now + 200 + delay k"
  show ?case
  proof (cases "now - start < MAX_TOTAL_MS")
    case True
    have pre: "start \<le> ?now" "?now \<le> start + MAX_TOTAL_MS + 200 + d" "200 * (k + 1) \<le> ?now - start"
      "k + 1 \<le> 150"
      using 1(5-8) 1(4) [of k] True by (auto simp: MAX_TOTAL_MS_def)
    note IH = 1(1-3) [OF True refl]
    show ?thesis
    proof (cases "idle k")
      case idle: True
      show ?thesis
      proof (cases since)
        case None
        with IH(1) [OF idle None 1(4) pre] True idle show ?thesis
          by (subst (1 2 3 4 5) drain.simps) (auto simp: Let_def)
      next
        case (Some t)
        show ?thesis
        proof (cases "STABLE_EMPTY_MS < ?now - t")
          case stop: True
          with True idle Some pre show ?thesis
            by (subst (1 2 3 4 5) drain.simps) (auto simp: Let_def)
        next
          case False
          with IH(2) [OF idle Some False 1(4) pre] True idle Some show ?thesis
            by (subst (1 2 3 4 5) drain.simps) (auto simp: Let_def)
        qed
      qed
    next
      case False
      with IH(3) [OF False 1(4) pre] True show ?thesis
        by (subst (1 2 3 4 5) drain.simps) (auto simp: Let_def)
    qed
  next
    case False
    with 1(5-8) show ?thesis by (subst (1 2 3 4 5) drain.simps) simp
  qed
qed


text \<open>Whatever the loop stops for, the registry was empty in the last turn or the time was up.\<close>

lemma drain_stops_idle:
  "snd (drain delay idle start k now since) = n \<Longrightarrow> fst (drain delay idle start k now since) = t \<Longrightarrow>
   t - start < MAX_TOTAL_MS \<Longrightarrow> now - start < MAX_TOTAL_MS \<and> k < n \<and> idle (n - 1)"
proof (induction delay idle start k now since rule: drain.induct)
  case (1 delay idle start k now since)
  show ?case
  proof (cases "now - start < MAX_TOTAL_MS")
    case True
    note IH = 1(1-3) [OF True refl]
    show ?thesis
      using 1(4-6) True IH
      by (cases "idle k"; cases since) (auto simp: drain.simps [of delay idle start k] Let_def split: if_splits)
  next
    case False
    then have "drain delay idle start k now since = (now, k)"
      by (subst drain.simps) simp
    with 1(4-6) False show ?thesis by simp
  qed
qed

section \<open>Properties of the cards\<close>

text \<open>C7. Each card decides its tool call at most once, however clicks, microtasks, the snapshot of Apply
  all and changes of status interleave; and a delete is only ever applied with the file name typed.\<close>

theorem each_card_decides_once:
  "hitl_reachable s \<Longrightarrow> distinct (map fst (h_log s)) \<and>
   (\<forall>(i, pressed, typed) \<in> set (h_log s). case ci_kind (the_card s i) of
      Preview \<Rightarrow> True | Destructive filename \<Rightarrow> pressed \<longrightarrow> trim typed = filename)"
  using inv_reachable [of s] by (fastforce simp: hitl_inv_def log_ok_def split: card_kind.split)

text \<open>C28. The footer counts exactly the cards that wait for a decision, and when Apply all has worked off
  its snapshot and its microtasks no card waits: a card that became executing in the meantime was fired as
  well.\<close>

theorem apply_all_reaches_every_card:
  assumes "hitl_reachable s"
  shows "length (h_pending s) = card {i. waiting s i} \<and>
    (h_auto s \<longrightarrow> h_kick s = [] \<longrightarrow> h_micro s = [] \<longrightarrow> (\<forall>i < length (h_cards s). \<not> waiting s i))"
proof -
  have inv: "registry_ok s" using inv_reachable [OF assms] by (simp add: hitl_inv_def)
  then have "set (h_pending s) = {i. waiting s i}" by (auto simp: registry_ok_def)
  moreover have "distinct (h_pending s)" using inv by (simp add: registry_ok_def)
  ultimately have "length (h_pending s) = card {i. waiting s i}"
    by (metis distinct_card)
  then show ?thesis using inv by (auto simp: registry_ok_def)
qed

text \<open>C37. Apply all gives the buttons back: its loop stops after at most 150 turns and 30.2 seconds and the
  delay of one timer, and it stops early only when the registry is empty.\<close>

theorem apply_all_terminates:
  assumes "\<And>k. delay k \<le> d"
  shows "snd (drain_loop delay idle now_idle start) \<le> 150 \<and>
    fst (drain_loop delay idle now_idle start) \<le> start + 30200 + d \<and>
    (fst (drain_loop delay idle now_idle start) < start + 30000 \<longrightarrow>
       idle (snd (drain_loop delay idle now_idle start) - 1))"
proof -
  let ?r = "drain delay idle start 0 start (if now_idle then Some start else None)"
  have "start \<le> fst ?r \<and> fst ?r \<le> start + 30200 + d \<and> snd ?r \<le> 150"
    using drain_bounds [of delay d start start 0 idle "if now_idle then Some start else None", OF assms]
    by (simp add: MAX_TOTAL_MS_def)
  moreover have "fst ?r < start + 30000 \<Longrightarrow> start \<le> fst ?r \<Longrightarrow> idle (snd ?r - 1)"
    using drain_stops_idle [of delay idle start 0 start "if now_idle then Some start else None", OF refl refl]
    by (simp add: MAX_TOTAL_MS_def)
  ultimately show ?thesis by (simp add: drain_loop_def)
qed

theorem apply_all_terminates_witness:
  "snd (drain_loop (\<lambda>k. 5) (\<lambda>k. 3 < k) False 1000) \<le> 150 \<and> fst (drain_loop (\<lambda>k. 5) (\<lambda>k. 3 < k) False 1000) \<le> 31205"
  using apply_all_terminates [of "\<lambda>k. 5" 5 "\<lambda>k. 3 < k" False 1000] by simp

section \<open>A turn with three cards\<close>

definition three_cards :: hitl where
  "three_cards = mount ''call-3'' (Destructive ''kyc.json'') Executing (mount ''call-2'' Preview Executing
     (mount ''call-1'' Preview Executing no_cards))"

text \<open>Apply all is pressed; the second card completes, a queued one becomes executing.\<close>

definition after_apply_all :: hitl where
  "after_apply_all =
     (let a = apply_all_start three_cards;
          b = pendingApply 0 (a\<lparr>h_kick := [1]\<rparr>);
          c = mount ''call-4'' Preview Executing b;
          d = pendingApply 1 (c\<lparr>h_kick := []\<rparr>);
          e = run_microtask 3 (d\<lparr>h_micro := []\<rparr>)
      in pendingApply 2 (type_confirm 2 '' kyc.json'' e))"

lemma three_cards_reachable: "hitl_reachable three_cards"
  unfolding three_cards_def
  by (rule rtranclp.rtrancl_into_rtrancl [OF rtranclp.rtrancl_into_rtrancl
        [OF rtranclp.rtrancl_into_rtrancl [OF rtranclp.rtrancl_refl]]]) (rule hitl_step.mount)+

lemma after_apply_all_reachable: "hitl_reachable after_apply_all"
proof -
  let ?a = "apply_all_start three_cards"
  let ?b = "pendingApply 0 (?a\<lparr>h_kick := [1]\<rparr>)"
  let ?c = "mount ''call-4'' Preview Executing ?b"
  let ?d = "pendingApply 1 (?c\<lparr>h_kick := []\<rparr>)"
  let ?e = "run_microtask 3 (?d\<lparr>h_micro := []\<rparr>)"
  let ?f = "type_confirm 2 '' kyc.json'' ?e"
  have "hitl_reachable ?a"
    by (rule rtranclp.rtrancl_into_rtrancl [OF three_cards_reachable], rule hitl_step.apply_all) code_simp+
  then have "hitl_reachable ?b"
    by (rule rtranclp.rtrancl_into_rtrancl) (rule hitl_step.kick, code_simp)
  then have "hitl_reachable ?c"
    by (rule rtranclp.rtrancl_into_rtrancl) (rule hitl_step.mount)
  then have "hitl_reachable ?d"
    by (rule rtranclp.rtrancl_into_rtrancl) (rule hitl_step.kick, code_simp)
  then have "hitl_reachable ?e"
    by (rule rtranclp.rtrancl_into_rtrancl) (rule hitl_step.microtask, code_simp)
  then have "hitl_reachable ?f"
    by (rule rtranclp.rtrancl_into_rtrancl) (rule hitl_step.confirm_text, code_simp)
  then have "hitl_reachable (pendingApply 2 ?f)"
    by (rule rtranclp.rtrancl_into_rtrancl) (rule hitl_step.click_delete, code_simp, code_simp)
  then show ?thesis by (simp add: after_apply_all_def Let_def)
qed

theorem each_card_decides_once_witness: "distinct (map fst (h_log after_apply_all)) \<and> length (h_log after_apply_all) = 4"
proof
  show "distinct (map fst (h_log after_apply_all))"
    using each_card_decides_once [OF after_apply_all_reachable] by simp
  show "length (h_log after_apply_all) = 4" by code_simp
qed

theorem apply_all_reaches_every_card_witness:
  "\<not> waiting after_apply_all 0 \<and> \<not> waiting after_apply_all 1 \<and> \<not> waiting after_apply_all 3"
proof -
  have "h_auto after_apply_all" "h_kick after_apply_all = []" "h_micro after_apply_all = []"
    "length (h_cards after_apply_all) = 4"
    by code_simp+
  with apply_all_reaches_every_card [OF after_apply_all_reachable] show ?thesis by simp
qed

end
