(* ===== verification/Tool_Cards.thy ===== *)
theory Tool_Cards
  imports Tool_Args Rule_Simulator
begin

text \<open>
  From the tool call of the agent to the page: the cards of the rule tools
  (\<open>example-apps/atomic-fi-jdm-editor/src/copilot/actions/use-persist-actions.tsx\<close>,
  \<open>use-simulate-action.tsx\<close>) beside those of \<open>Rule_Graph\<close>, the declarations of all tools, and the events
  of the page the two buttons of a card are.

  A card is drawn from the raw arguments, which are checked with the strict schema; its closures read the
  page through refs when they run, so only the summary depends on the page at the time of drawing. The
  message of a zod error is the argument \<open>message\<close>, the text of a single issue \<open>text_of\<close>.
\<close>

section \<open>Declarations\<close>

record tool_decl =
  td_name :: string
  td_description :: string
  td_parameters :: "param list"

definition add_node_tool :: tool_decl where
  "add_node_tool =
     \<lparr>td_name = ''add_node'', td_description = ''Add a node to the open decision graph.'', td_parameters = AddNodeToolParams\<rparr>"

definition update_node_tool :: tool_decl where
  "update_node_tool =
     \<lparr>td_name = ''update_node'', td_description =
        ''Update a node's name, content, or position. Pass the changes either nested under `patch` '' @
        ''(canonical) OR as top-level shorthand'' @
        dash @
        ''both are accepted. Provide ONLY the fields you want to change; omitted fields are preserved. '' @
        ''**Use this to fix typos and bugs in a node's content'' @
        dash @
        ''DO NOT remove and re-add.**'',
      td_parameters = UpdateNodeToolParams\<rparr>"

definition remove_node_tool :: tool_decl where
  "remove_node_tool =
     \<lparr>td_name = ''remove_node'', td_description =
        ''Delete a node (and edges touching it). Use sparingly'' @ dash @ ''prefer update_node for fixes.'',
      td_parameters = RemoveNodeToolParams\<rparr>"

definition add_edge_tool :: tool_decl where
  "add_edge_tool =
     \<lparr>td_name = ''add_edge'', td_description =
        ''Connect two nodes. source_id and target_id accept EITHER the real node id returned by add_node '' @
        ''OR the node's exact name. Use the name when you're emitting add_edge in the same turn as the '' @
        ''add_node calls it depends on (the real ids aren't available yet in that case).'',
      td_parameters = AddEdgeToolParams\<rparr>"

definition remove_edge_tool :: tool_decl where
  "remove_edge_tool =
     \<lparr>td_name = ''remove_edge'', td_description = ''Disconnect two nodes.'', td_parameters = RemoveEdgeToolParams\<rparr>"

definition save_rule_tool :: tool_decl where
  "save_rule_tool =
     \<lparr>td_name = ''save_rule'', td_description =
        ''Persist the current open graph to disk. Uses the current rule_type and filename from current_rule_meta.'',
      td_parameters = SaveRuleToolParams\<rparr>"

definition rename_rule_tool :: tool_decl where
  "rename_rule_tool =
     \<lparr>td_name = ''rename_rule'', td_description =
        ''Rename the currently open rule file. Saves the current graph under the new filename, deletes '' @
        ''the old file, and navigates to the new editor URL. Same rule_type'' @
        dash @
        ''to move across rule types, use create_rule and delete_rule explicitly.'',
      td_parameters = RenameRuleToolParams\<rparr>"

definition create_rule_tool :: tool_decl where
  "create_rule_tool =
     \<lparr>td_name = ''create_rule'', td_description = ''Navigate to a blank editor for a new rule file.'',
      td_parameters = RuleFileToolParams\<rparr>"

definition delete_rule_tool :: tool_decl where
  "delete_rule_tool =
     \<lparr>td_name = ''delete_rule'', td_description = ''Permanently remove a rule file from disk. Irreversible.'',
      td_parameters = RuleFileToolParams\<rparr>"

definition open_rule_tool :: tool_decl where
  "open_rule_tool =
     \<lparr>td_name = ''open_rule'', td_description = ''Navigate to a different rule.'', td_parameters = RuleFileToolParams\<rparr>"

definition simulate_rule_tool :: tool_decl where
  "simulate_rule_tool =
     \<lparr>td_name = ''simulate_rule'', td_description =
        ''Run the last saved version of the current rule against a JSON context. '' @
        ''Pass the context as a JSON-ENCODED STRING in the `context_json` argument'' @ dash @
        ''small models drop nested-object args. '' @
        ''The trace lands in last_simulation on the next turn.'',
      td_parameters = SimulateRuleToolParams\<rparr>"

fun tool_decl_of :: "tool \<Rightarrow> tool_decl" where
  "tool_decl_of Tool_add_node = add_node_tool"
| "tool_decl_of Tool_update_node = update_node_tool"
| "tool_decl_of Tool_remove_node = remove_node_tool"
| "tool_decl_of Tool_add_edge = add_edge_tool"
| "tool_decl_of Tool_remove_edge = remove_edge_tool"
| "tool_decl_of Tool_save_rule = save_rule_tool"
| "tool_decl_of Tool_rename_rule = rename_rule_tool"
| "tool_decl_of Tool_create_rule = create_rule_tool"
| "tool_decl_of Tool_delete_rule = delete_rule_tool"
| "tool_decl_of Tool_open_rule = open_rule_tool"
| "tool_decl_of Tool_simulate_rule = simulate_rule_tool"

section \<open>The cards of the rule tools\<close>

datatype rule_action =
  Give json
| Do_save
| Do_rename string
| Do_create rule_file
| Do_delete rule_file
| Do_open rule_file
| Do_simulate json

text \<open>\<open>rc_confirm\<close> is the name a destructive card asks for.\<close>

record rule_card =
  rc_title :: string
  rc_label :: string
  rc_summary :: string
  rc_confirm :: "string option"
  rc_apply :: rule_action
  rc_reject :: json

definition persist_card :: "string \<Rightarrow> string \<Rightarrow> string \<Rightarrow> rule_action \<Rightarrow> rule_card" where
  "persist_card title label summary act =
     \<lparr>rc_title = title, rc_label = label, rc_summary = summary, rc_confirm = None, rc_apply = act,
      rc_reject = rejected_by_user\<rparr>"

definition invalid_card :: "string \<Rightarrow> string \<Rightarrow> rule_card" where
  "invalid_card name msg =
     persist_card (name @ dash @ ''invalid args'') ''Acknowledge'' msg (Give (rejected msg))"

definition save_rule_card :: "((string \<times> string) list \<Rightarrow> bool) \<Rightarrow> session \<Rightarrow> rule_card" where
  "save_rule_card cyclic s =
     persist_card ''save_rule'' ''Save''
       (if checkCyclic cyclic (s_graph s) then ''Graph has a cycle'' @ dash @ ''refuse to save.''
        else if dirty s then ''Will write '' @ s_name s @ '' ('' @ nat_to_string (length (g_nodes (s_graph s))) @ '' nodes, '' @
               nat_to_string (length (g_edges (s_graph s))) @ '' edges) to disk.''
        else ''No unsaved changes; save will be a no-op.'') Do_save"

definition rename_rule_card ::
  "((string \<times> string) list \<Rightarrow> bool) \<Rightarrow> (issue list \<Rightarrow> string) \<Rightarrow> string checked \<Rightarrow> session \<Rightarrow> rule_card" where
  "rename_rule_card cyclic message parsed s =
     (case parsed of
        Inl es \<Rightarrow> invalid_card ''rename_rule'' (message es)
      | Inr new \<Rightarrow>
          persist_card ''rename_rule'' ''Rename''
            (if new = s_name s then ''New filename matches the current one ('' @ s_name s @ '')'' @ dash @ ''no-op.''
             else if checkCyclic cyclic (s_graph s) then ''Graph has a cycle'' @ dash @ ''refuse to rename.''
             else ''Will save under '' @ new @ '', delete '' @ s_name s @ '', then open the new file.'') (Do_rename new))"

definition rule_path :: "rule_file \<Rightarrow> string" where
  "rule_path f = rf_type f @ ''/'' @ rf_name f"

definition discard_note :: "session \<Rightarrow> string" where
  "discard_note s = (if dirty s then '' Unsaved changes in the current file will be discarded.'' else [])"

definition create_rule_card :: "(issue list \<Rightarrow> string) \<Rightarrow> rule_file checked \<Rightarrow> session \<Rightarrow> rule_card" where
  "create_rule_card message parsed s =
     (case parsed of
        Inl es \<Rightarrow> invalid_card ''create_rule'' (message es)
      | Inr f \<Rightarrow>
          persist_card ''create_rule'' ''Open blank editor''
            (''Open a blank editor for '' @ rule_path f @ ''.'' @ discard_note s) (Do_create f))"

text \<open>The card of a deletion asks for the name of the file; for invalid arguments the name is empty.\<close>

definition delete_rule_card :: "(issue list \<Rightarrow> string) \<Rightarrow> rule_file checked \<Rightarrow> rule_card" where
  "delete_rule_card message parsed =
     (case parsed of
        Inl es \<Rightarrow> (invalid_card ''delete_rule'' (message es))\<lparr>rc_label := ''Delete'', rc_confirm := Some []\<rparr>
      | Inr f \<Rightarrow>
          (persist_card ''delete_rule'' ''Delete'' (''This will permanently delete '' @ rule_path f @ '' from disk.'') (Do_delete f))
            \<lparr>rc_confirm := Some (rf_name f)\<rparr>)"

definition open_rule_card :: "(issue list \<Rightarrow> string) \<Rightarrow> rule_file checked \<Rightarrow> session \<Rightarrow> rule_card" where
  "open_rule_card message parsed s =
     (case parsed of
        Inl es \<Rightarrow> invalid_card ''open_rule'' (message es)
      | Inr f \<Rightarrow>
          persist_card ''open_rule'' ''Open'' (''Open '' @ rule_path f @ ''.'' @ discard_note s) (Do_open f))"

definition simulate_rule_card :: "(problem \<Rightarrow> string) \<Rightarrow> json checked \<Rightarrow> session \<Rightarrow> rule_card" where
  "simulate_rule_card text_of parsed s =
     (case parsed of
        Inl es \<Rightarrow>
          (let reason = issue_reason (map (map_prod id text_of) es) in
           persist_card (''simulate_rule'' @ dash @ ''missing context'') ''Acknowledge''
             (''Cannot simulate: '' @ reason @ ''. The agent must pass a concrete context object (e.g. { '' @
              quoted ''account_holder'' @ '': { '' @ quoted ''kyc_status'' @ '': '' @ quoted ''approved'' @ '' } })'' @ dash @
              ''not an empty body.'') (Give (rejected reason)))
      | Inr ctx \<Rightarrow>
          persist_card ''simulate_rule'' ''Run simulation''
            (if dirty s then ''Evaluates the LAST SAVED version. Unsaved changes are ignored'' @ dash @
               ''save first if you want them tested.''
             else ''Evaluate '' @ s_name s @ '' against the provided context.'') (Do_simulate ctx))"

section \<open>The buttons as events of the page\<close>

record tool_use =
  tu_call :: string
  tu_tool :: tool
  tu_args :: "json option"

text \<open>What a decision on a card brings with it: the drawn id of a new node or edge, the answer to the
  question about unsaved changes, and the answer of the rule engine.\<close>

record click =
  ck_fresh :: string
  ck_proceed :: bool
  ck_engine :: zen_reply

text \<open>The parameters a card depends on: \<open>JSON.parse\<close>, \<open>JSON.stringify(x, null, 2)\<close>, the cycle test and the
  two texts of zod.\<close>

record env =
  en_parse :: json_parser
  en_pretty :: "json \<Rightarrow> string"
  en_cyclic :: "(string \<times> string) list \<Rightarrow> bool"
  en_message :: "issue list \<Rightarrow> string"
  en_text :: "problem \<Rightarrow> string"

fun rule_event :: "env \<Rightarrow> string \<Rightarrow> click \<Rightarrow> session \<Rightarrow> rule_action \<Rightarrow> session_event" where
  "rule_event E c k s (Give r) = Reject_card c r"
| "rule_event E c k s Do_save = Apply_save c"
| "rule_event E c k s (Do_rename new) = Apply_rename c new"
| "rule_event E c k s (Do_create f) = Apply_create c (rf_type f) (rf_name f) (ck_proceed k)"
| "rule_event E c k s (Do_delete f) = Apply_delete c (rf_type f) (rf_name f)"
| "rule_event E c k s (Do_open f) = Apply_open c (rf_type f) (rf_name f) (ck_proceed k)"
| "rule_event E c k s (Do_simulate ctx) =
     Reject_card c (fst (simulate_apply (en_pretty E) ctx (ck_engine k) s))"

definition checked_message :: "env \<Rightarrow> 'a checked \<Rightarrow> string + 'a" where
  "checked_message E x = map_sum (en_message E) id x"

text \<open>The card of a tool call, drawn from the page at that time.\<close>

datatype any_card = Graph_card card | Rule_card rule_card

fun draw :: "env \<Rightarrow> tool \<Rightarrow> json option \<Rightarrow> session \<Rightarrow> any_card" where
  "draw E Tool_add_node v s =
     Graph_card (add_node_card (checked_message E (AddNodeArgsSchema (en_parse E) v)) (s_graph s))"
| "draw E Tool_update_node v s =
     Graph_card (update_node_card (checked_message E (UpdateNodeArgsSchema (en_parse E) v)) (s_graph s))"
| "draw E Tool_remove_node v s =
     Graph_card (remove_node_card (checked_message E (RemoveNodeArgsSchema v)) (s_graph s))"
| "draw E Tool_add_edge v s =
     Graph_card (add_edge_card (checked_message E (AddEdgeArgsSchema v)) (s_graph s))"
| "draw E Tool_remove_edge v s =
     Graph_card (remove_edge_card (checked_message E (RemoveEdgeArgsSchema v)))"
| "draw E Tool_save_rule v s = Rule_card (save_rule_card (en_cyclic E) s)"
| "draw E Tool_rename_rule v s = Rule_card (rename_rule_card (en_cyclic E) (en_message E) (RenameRuleArgsSchema v) s)"
| "draw E Tool_create_rule v s = Rule_card (create_rule_card (en_message E) (CreateRuleArgsSchema v) s)"
| "draw E Tool_delete_rule v s = Rule_card (delete_rule_card (en_message E) (CreateRuleArgsSchema v))"
| "draw E Tool_open_rule v s = Rule_card (open_rule_card (en_message E) (CreateRuleArgsSchema v) s)"
| "draw E Tool_simulate_rule v s =
     Rule_card (simulate_rule_card (en_text E) (SimulateRuleArgsSchema (en_parse E) v) s)"

fun apply_event :: "env \<Rightarrow> string \<Rightarrow> click \<Rightarrow> session \<Rightarrow> any_card \<Rightarrow> session_event" where
  "apply_event E c k s (Graph_card cd) = Apply_graph c (ck_fresh k) (cd_apply cd)"
| "apply_event E c k s (Rule_card rc) = rule_event E c k s (rc_apply rc)"

fun reject_event :: "string \<Rightarrow> any_card \<Rightarrow> session_event" where
  "reject_event c (Graph_card cd) = Reject_card c (cd_reject cd)"
| "reject_event c (Rule_card rc) = Reject_card c (rc_reject rc)"

text \<open>The page together with the copilot. A card may have been drawn long before it is decided: \<open>drawn\<close> is
  the page it was drawn from.\<close>

datatype happening =
  Page session_event
| Apply_card tool_use click session
| Decline_card tool_use session

fun page_event :: "env \<Rightarrow> session \<Rightarrow> happening \<Rightarrow> session_event" where
  "page_event E s (Page e) = e"
| "page_event E s (Apply_card u k drawn) =
     apply_event E (tu_call u) k s (draw E (tu_tool u) (tu_args u) drawn)"
| "page_event E s (Decline_card u drawn) =
     reject_event (tu_call u) (draw E (tu_tool u) (tu_args u) drawn)"

definition copilot_step :: "env \<Rightarrow> session \<Rightarrow> happening \<Rightarrow> session" where
  "copilot_step E s h = session_step (en_cyclic E) s (page_event E s h)"

section \<open>Which files the copilot can reach\<close>

text \<open>What happens on the page without a card: edits, saves by hand, answers of the server, and visits of
  rules with a name of \<open>N\<close>.\<close>

fun by_hand :: "string list \<Rightarrow> session_event \<Rightarrow> bool" where
  "by_hand N (Canvas v) = True"
| "by_hand N Click_save = True"
| "by_hand N (Visit t n new pr) = (t \<in> set RULE_TYPES \<and> n \<in> set N)"
| "by_hand N (Loaded k err) = True"
| "by_hand N (Reply k rp) = True"
| "by_hand N _ = False"

fun possible :: "string list \<Rightarrow> happening \<Rightarrow> bool" where
  "possible N (Page e) = by_hand N e"
| "possible N _ = True"

definition in_folders :: "string list \<Rightarrow> string \<times> string \<Rightarrow> bool" where
  "in_folders N f = (fst f \<in> set RULE_TYPES \<and> (tool_filename (snd f) \<or> snd f \<in> set N))"

fun op_files :: "op \<Rightarrow> (string \<times> string) list" where
  "op_files (Manual_save t n g r) = [(t, n)]"
| "op_files (Agent_save c t n g) = [(t, n)]"
| "op_files (Rename_save c t old new g) = [(t, old), (t, new)]"
| "op_files (Rename_delete c t old new) = [(t, old), (t, new)]"
| "op_files (Rename_refresh c t new) = [(t, new)]"
| "op_files (Delete_file c t n) = [(t, n)]"
| "op_files (Delete_refresh c) = []"
| "op_files Mount_refresh = []"

definition contained :: "string list \<Rightarrow> files \<Rightarrow> session \<Rightarrow> bool" where
  "contained N fs s =
     (in_folders N (s_ruleType s, s_name s) \<and> (\<forall>p \<in> set (s_ops s). list_all (in_folders N) (op_files p)) \<and>
      (\<forall>f. s_files s f \<noteq> fs f \<longrightarrow> in_folders N f))"

fun tame :: "string list \<Rightarrow> session_event \<Rightarrow> bool" where
  "tame N (Apply_rename c new) = tool_filename new"
| "tame N (Apply_delete c t n) = in_folders N (t, n)"
| "tame N (Apply_create c t n pr) = in_folders N (t, n)"
| "tame N (Apply_open c t n pr) = in_folders N (t, n)"
| "tame N (Visit t n new pr) = in_folders N (t, n)"
| "tame N _ = True"

lemma checked_folder: "CreateRuleArgsSchema v = Inr f \<Longrightarrow> in_folders N (rf_type f, rf_name f)"
  by (auto simp: accepts in_folders_def RULE_TYPES_def)

text \<open>Whatever the arguments are, the event of a card is tame.\<close>

lemma drawn_tame: "tame N (apply_event E c k s (draw E t v drawn))"
proof (cases t)
  case Tool_rename_rule
  moreover have "RenameRuleArgsSchema v = Inr new \<Longrightarrow> tool_filename new" for new
    by (auto simp: RenameRuleArgsSchema_def accepts)
  ultimately show ?thesis
    by (cases "RenameRuleArgsSchema v") (auto simp: rename_rule_card_def persist_card_def invalid_card_def)
next
  case Tool_create_rule
  then show ?thesis
    by (cases "CreateRuleArgsSchema v") (auto simp: create_rule_card_def persist_card_def invalid_card_def checked_folder)
next
  case Tool_delete_rule
  then show ?thesis
    by (cases "CreateRuleArgsSchema v") (auto simp: delete_rule_card_def persist_card_def invalid_card_def checked_folder)
next
  case Tool_open_rule
  then show ?thesis
    by (cases "CreateRuleArgsSchema v") (auto simp: open_rule_card_def persist_card_def invalid_card_def checked_folder)
next
  case Tool_simulate_rule
  then show ?thesis
    by (cases "SimulateRuleArgsSchema (en_parse E) v") (auto simp: simulate_rule_card_def persist_card_def Let_def)
qed (simp_all add: save_rule_card_def persist_card_def)

lemma page_event_tame: "possible N h \<Longrightarrow> tame N (page_event E s h)"
proof (cases h)
  case (Page e)
  then show "possible N h \<Longrightarrow> ?thesis" by (cases e) (simp_all add: in_folders_def)
next
  case (Decline_card u drawn)
  then show ?thesis by (cases "draw E (tu_tool u) (tu_args u) drawn") simp_all
qed (simp add: drawn_tame)

lemma contained_simps [simp]:
  "contained N fs (respond c r s) = contained N fs s"
  "contained N fs (say msg s) = contained N fs s"
  "contained N fs (onSaved s) = contained N fs s"
  "contained N fs (await p s) \<longleftrightarrow> contained N fs s \<and> list_all (in_folders N) (op_files p)"
  "contained N fs (refreshExistingRules out l s) = contained N fs s"
  "contained N fs (load_done j err s) = contained N fs s"
  "contained N fs (handleChange v s) = contained N fs s"
  "contained N fs (s\<lparr>s_saving := b\<rparr>) = contained N fs s"
  "contained N fs (s\<lparr>s_graph := g\<rparr>) = contained N fs s"
  "contained N fs (s\<lparr>s_revision := m\<rparr>) = contained N fs s"
  "contained N fs (s\<lparr>s_savedRevision := m\<rparr>) = contained N fs s"
  "contained N fs (s\<lparr>s_persisted := g\<rparr>) = contained N fs s"
  by (auto simp: contained_def respond_def say_def onSaved_def await_def refreshExistingRules_def load_done_def
      handleChange_def Let_def split: outcome.split option.split)

lemma contained_navigate: "contained N fs s \<Longrightarrow> in_folders N (t, n) \<Longrightarrow> contained N fs (navigate t n new pr s)"
  by (simp add: contained_def navigate_def load_effect_def)

lemma contained_request:
  "contained N fs s \<Longrightarrow> in_folders N (t, n) \<Longrightarrow> contained N fs (request out (saveRule t n g) s)"
  "contained N fs s \<Longrightarrow> in_folders N (t, n) \<Longrightarrow> contained N fs (request out (deleteRule t n) s)"
  by (auto simp: contained_def request_def saveRule_def deleteRule_def split: if_splits)

lemma contained_here: "contained N fs s \<Longrightarrow> in_folders N (s_ruleType s, s_name s)"
  by (simp add: contained_def)

lemma contained_take: "contained N fs s \<Longrightarrow> contained N fs (take_op k s)"
  by (auto simp: contained_def take_op_def dest: in_set_takeD in_set_dropD)

lemma contained_reply:
  assumes "contained N fs s" and "list_all (in_folders N) (op_files p)"
  shows "contained N fs (reply_to p rp s)"
  using assms
  by (cases p; cases "rp_outcome rp")
    (auto simp: saved_by_hand_def agent_saved_def rename_saved_def rename_deleted_def rename_refreshed_def
      file_deleted_def delete_refreshed_def Let_def intro!: contained_request contained_navigate)

lemma contained_step:
  assumes "contained N fs s" and "tame N e"
  shows "contained N fs (session_step cyclic s e)"
proof (cases e)
  case (Reply k rp)
  have "k < length (s_ops s) \<Longrightarrow> list_all (in_folders N) (op_files (s_ops s ! k))"
    using assms(1) by (simp add: contained_def)
  then show ?thesis
    using assms Reply by (simp add: contained_reply contained_take)
next
  case (Apply_rename c new)
  then show ?thesis
    using assms contained_here [OF assms(1)] by (simp add: apply_rename_def in_folders_def)
qed (use assms contained_here [OF assms(1)] in
    \<open>auto simp: apply_graph_card_def markAgentMutation_def handleSaveRule_def apply_save_def apply_delete_def
      apply_create_def apply_open_def intro: contained_navigate split: prod.split\<close>)

interpretation folders: guarded_machine "copilot_step E" "\<lambda>s. possible N" "contained N fs" for E N fs
  by unfold_locales (simp add: copilot_step_def contained_step page_event_tame)

text \<open>C12. The copilot stays in the rule folders: whatever JSON the model sends as the arguments of its tool
  calls, in any interleaving with what the user does and however the server answers, a file that changed
  is one of the two rule types and either has a name of letters, digits, \<open>_\<close> and \<open>-\<close> ending in
  \<open>.json\<close> - so no path - or is one the user had opened.\<close>

theorem copilot_stays_in_rule_folders:
  assumes "list_all (possible N) hs" and "n \<in> set N"
    and "s = run (copilot_step E) (open_page p n new fs) hs" and "s_files s (t, f) \<noteq> fs (t, f)"
  shows "t \<in> set RULE_TYPES \<and> (f \<in> set N \<or> tool_filename f \<and> CHR ''/'' \<notin> set f \<and> CHR 0x5C \<notin> set f)"
proof -
  have "contained N fs (open_page p n new fs)"
    using assms(2) by (simp add: contained_def open_page_def load_effect_def in_folders_def RULE_TYPES_def
        route_ruleType_def isRuleType_def)
  moreover have "admissible (copilot_step E) (\<lambda>s. possible N) s0 hs" for s0
    using assms(1) by (induction hs arbitrary: s0) simp_all
  ultimately have "contained N fs s"
    unfolding assms(3) by (rule folders.run_inv)
  then show ?thesis
    using assms(4) tool_filename_no_path by (auto simp: contained_def in_folders_def)
qed

section \<open>Which files can be lost\<close>

text \<open>The tools that can take a file away.\<close>

fun takes_away :: "happening \<Rightarrow> bool" where
  "takes_away (Apply_card u k drawn) = (tu_tool u = Tool_delete_rule \<or> tu_tool u = Tool_rename_rule)"
| "takes_away h = False"

fun deleting :: "op \<Rightarrow> bool" where
  "deleting (Rename_save c t old new g) = True"
| "deleting (Rename_delete c t old new) = True"
| "deleting (Delete_file c t n) = True"
| "deleting p = False"

definition keeping :: "files \<Rightarrow> session \<Rightarrow> bool" where
  "keeping fs s = ((\<forall>p \<in> set (s_ops s). \<not> deleting p) \<and> dom fs \<subseteq> dom (s_files s))"

fun harmless :: "session_event \<Rightarrow> bool" where
  "harmless (Apply_rename c new) = False"
| "harmless (Apply_delete c t n) = False"
| "harmless e = True"

lemma keeping_simps [simp]:
  "keeping fs (respond c r s) = keeping fs s"
  "keeping fs (say msg s) = keeping fs s"
  "keeping fs (onSaved s) = keeping fs s"
  "keeping fs (await p s) \<longleftrightarrow> keeping fs s \<and> \<not> deleting p"
  "keeping fs (refreshExistingRules out l s) = keeping fs s"
  "keeping fs (load_done j err s) = keeping fs s"
  "keeping fs (handleChange v s) = keeping fs s"
  "keeping fs (navigate t n new pr s) = keeping fs s"
  "keeping fs (s\<lparr>s_saving := b\<rparr>) = keeping fs s"
  "keeping fs (s\<lparr>s_graph := g\<rparr>) = keeping fs s"
  "keeping fs (s\<lparr>s_revision := m\<rparr>) = keeping fs s"
  "keeping fs (s\<lparr>s_savedRevision := m\<rparr>) = keeping fs s"
  "keeping fs (s\<lparr>s_persisted := g\<rparr>) = keeping fs s"
  by (auto simp: keeping_def respond_def say_def onSaved_def await_def refreshExistingRules_def load_done_def
      handleChange_def navigate_def load_effect_def Let_def split: outcome.split option.split)

lemma keeping_request: "keeping fs s \<Longrightarrow> keeping fs (request out (saveRule t n g) s)"
  by (auto simp: keeping_def request_def saveRule_def)

lemma keeping_take: "keeping fs s \<Longrightarrow> keeping fs (take_op k s)"
  by (auto simp: keeping_def take_op_def dest: in_set_takeD in_set_dropD)

lemma keeping_reply: "keeping fs s \<Longrightarrow> \<not> deleting p \<Longrightarrow> keeping fs (reply_to p rp s)"
  by (cases p; cases "rp_outcome rp")
    (auto simp: saved_by_hand_def agent_saved_def rename_refreshed_def delete_refreshed_def Let_def
      intro!: keeping_request)

lemma keeping_step:
  assumes "keeping fs s" and "harmless e"
  shows "keeping fs (session_step cyclic s e)"
proof (cases e)
  case (Reply k rp)
  have "k < length (s_ops s) \<Longrightarrow> \<not> deleting (s_ops s ! k)"
    using assms(1) by (simp add: keeping_def)
  then show ?thesis
    using assms Reply by (simp add: keeping_reply keeping_take)
qed (use assms in \<open>auto simp: apply_graph_card_def markAgentMutation_def handleSaveRule_def apply_save_def
      apply_create_def apply_open_def split: prod.split\<close>)

lemma drawn_harmless:
  "t \<noteq> Tool_delete_rule \<Longrightarrow> t \<noteq> Tool_rename_rule \<Longrightarrow> harmless (apply_event E c k s (draw E t v drawn))"
  by (cases t) (auto simp: save_rule_card_def persist_card_def create_rule_card_def open_rule_card_def
      invalid_card_def simulate_rule_card_def Let_def split: sum.split)

lemma page_event_harmless: "possible N h \<Longrightarrow> \<not> takes_away h \<Longrightarrow> harmless (page_event E s h)"
proof (cases h)
  case (Page e)
  then show "possible N h \<Longrightarrow> ?thesis" by (cases e) simp_all
next
  case (Decline_card u drawn)
  then show ?thesis by (cases "draw E (tu_tool u) (tu_args u) drawn") simp_all
qed (simp add: drawn_harmless)

interpretation kept: guarded_machine "copilot_step E" "\<lambda>s h. possible N h \<and> \<not> takes_away h" "keeping fs" for E N fs
  by unfold_locales (auto simp: copilot_step_def intro!: keeping_step intro: page_event_harmless)

text \<open>Without a delete or a rename the user approved no rule file ever disappears.\<close>

lemma files_lost_only_on_approval:
  assumes "list_all (\<lambda>h. possible N h \<and> \<not> takes_away h) hs"
  shows "dom fs \<subseteq> dom (s_files (run (copilot_step E) (open_page p n new fs) hs))"
proof -
  have "admissible (copilot_step E) (\<lambda>s h. possible N h \<and> \<not> takes_away h) s0 hs" for s0
    using assms by (induction hs arbitrary: s0) simp_all
  moreover have "keeping fs (open_page p n new fs)"
    by (simp add: keeping_def open_page_def load_effect_def)
  ultimately show ?thesis
    using kept.run_inv [of fs "open_page p n new fs" E N hs] by (simp add: keeping_def)
qed

section \<open>What a tool call can make of a graph\<close>

text \<open>Every node has a known kind and a name, and its content, if any, is an object.\<close>

definition object_or_none :: "json option \<Rightarrow> bool" where
  "object_or_none v = (v = None \<or> as_object v \<noteq> None)"

definition typed_node :: "jdm_node \<Rightarrow> bool" where
  "typed_node n = (j_name n \<noteq> None \<and> j_type n \<in> Some ` set NODE_TYPES \<and> object_or_none (j_content n))"

definition typed_graph :: "graph \<Rightarrow> bool" where
  "typed_graph g = list_all typed_node (g_nodes g)"

fun typed_proposal :: "proposal \<Rightarrow> bool" where
  "typed_proposal (Add_Node a) = (aa_type a \<in> set NODE_TYPES \<and> object_or_none (aa_content a))"
| "typed_proposal (Update_Node n p) = object_or_none (np_content p)"
| "typed_proposal _ = True"

lemma typed_update: "list_all typed_node ns \<Longrightarrow> object_or_none (np_content p) \<Longrightarrow>
    list_all typed_node (update_by j_id i (patch_node p) ns)"
  by (induction ns) (auto simp: typed_node_def patch_node_def)

lemma typed_apply: "typed_graph g \<Longrightarrow> typed_proposal p \<Longrightarrow> typed_graph (fst (apply_proposal i p g))"
proof (cases p)
  case (Update_Node n q)
  then show "typed_graph g \<Longrightarrow> typed_proposal p \<Longrightarrow> ?thesis"
    by (simp add: typed_graph_def update_node_def typed_update)
qed (auto simp: typed_graph_def add_node_def remove_node_def add_edge_def remove_edge_def
    typed_node_def object_or_none_def nullish_def remove_by_def list_all_iff split: option.split)

lemma content_typed: "content_field parse fs = Inr c \<Longrightarrow> object_or_none c"
  by (auto simp: accepts object_or_none_def Let_def)

lemma update_typed: "UpdateNodeArgsSchema parse v = Inr a \<Longrightarrow> object_or_none (np_content (ua_patch a))"
  by (auto simp: UpdateNodeArgsSchema_def UpdateNodePatchSchema_def patch_fields_def UpdateNodeArgs_def z_preprocess_def
      accepts Let_def object_or_none_def nullish_def split: option.splits if_splits)

lemma drawn_typed: "draw E t v drawn = Graph_card cd \<Longrightarrow> typed_proposal (cd_apply cd)"
proof (cases t)
  case Tool_add_node
  then show "draw E t v drawn = Graph_card cd \<Longrightarrow> ?thesis"
    by (cases "AddNodeArgsSchema (en_parse E) v")
      (auto simp: checked_message_def add_node_card_def problem_card_def action_card_def AddNode_Inr content_typed
        split: option.splits)
next
  case Tool_update_node
  then show "draw E t v drawn = Graph_card cd \<Longrightarrow> ?thesis"
    by (cases "UpdateNodeArgsSchema (en_parse E) v")
      (auto simp: checked_message_def update_node_card_def problem_card_def action_card_def update_typed
        split: if_splits)
qed (auto simp: checked_message_def remove_node_card_def add_edge_card_def remove_edge_card_def problem_card_def
    action_card_def split: sum.splits if_splits)

text \<open>The page and the files: every graph that is shown, stored or about to be stored.\<close>

definition all_typed :: "session \<Rightarrow> bool" where
  "all_typed s = (typed_graph (s_graph s) \<and> writes_ok typed_graph s)"

fun typed_event :: "session_event \<Rightarrow> bool" where
  "typed_event (Canvas v) = typed_graph v"
| "typed_event (Apply_graph c i p) = typed_proposal p"
| "typed_event _ = True"

lemma graph_of_reply [simp]: "s_graph (reply_to p rp s) = s_graph s" "s_graph (take_op k s) = s_graph s"
  by (cases p; cases "rp_outcome rp"; simp add: session_defs Let_def) (simp add: take_op_def)

lemma all_typed_step:
  assumes "all_typed s" and "typed_event e"
  shows "all_typed (session_step cyclic s e)"
proof (cases e)
  case (Apply_graph c i p)
  have "fst (apply_proposal i p (s_graph s)) = g \<Longrightarrow> typed_graph g" for g
    using assms typed_apply Apply_graph by (auto simp: all_typed_def)
  then show ?thesis
    using assms Apply_graph
    by (auto simp: all_typed_def apply_graph_card_def markAgentMutation_def respond_def writes_ok_def split: prod.split)
next
  case (Reply k rp)
  have "k < length (s_ops s) \<Longrightarrow> \<forall>g. op_graph (s_ops s ! k) = Some g \<longrightarrow> typed_graph g"
    using assms(1) nth_mem [of k "s_ops s"] by (auto simp: all_typed_def writes_ok_def)
  then show ?thesis
    using assms Reply by (simp add: all_typed_def writes_ok_reply writes_ok_take)
next
  case (Loaded k err)
  then show ?thesis
    using assms by (auto simp: all_typed_def load_done_def writes_ok_def files_ok_def split: option.split)
qed (use assms in \<open>auto simp: all_typed_def session_defs writes_ok_def Let_def split: prod.split\<close>)

fun typed_happening :: "happening \<Rightarrow> bool" where
  "typed_happening (Page e) = typed_event e"
| "typed_happening h = True"

lemma typed_page_event: "typed_happening h \<Longrightarrow> typed_event (page_event E s h)"
proof (cases h)
  case (Apply_card u k drawn)
  then show ?thesis
  proof (cases "draw E (tu_tool u) (tu_args u) drawn")
    case (Graph_card cd)
    then show ?thesis using Apply_card drawn_typed by simp
  next
    case (Rule_card rc)
    then show ?thesis using Apply_card by (cases "rc_apply rc") simp_all
  qed
next
  case (Decline_card u drawn)
  then show ?thesis by (cases "draw E (tu_tool u) (tu_args u) drawn") simp_all
qed simp

interpretation types: guarded_machine "copilot_step E" "\<lambda>s. typed_happening" all_typed for E
  by unfold_locales (simp add: copilot_step_def all_typed_step typed_page_event)


section \<open>What the cards say and do\<close>

text \<open>The card of a save without changes announces a no-op; Apply writes the file all the same.\<close>

lemma announced_no_op_writes:
  assumes "\<not> dirty s" and "\<not> checkCyclic cyclic (s_graph s)"
  shows "rc_summary (save_rule_card cyclic s) = ''No unsaved changes; save will be a no-op.'' \<and>
    s_ops (session_step cyclic s (rule_event E c k s (rc_apply (save_rule_card cyclic s)))) =
      s_ops s @ [Agent_save c (s_ruleType s) (s_name s) (s_graph s)]"
  using assms by (simp add: save_rule_card_def persist_card_def apply_save_def await_def)

text \<open>The cards that leave the page announce that unsaved changes will be discarded. For a new rule the page
  keeps them, and its mark, when the user agrees to leave.\<close>

lemma announced_discard_keeps:
  assumes "dirty s"
  shows "rc_summary (create_rule_card m (Inr f) s) = ''Open a blank editor for '' @ rule_path f @ ''.'' @
      '' Unsaved changes in the current file will be discarded.'' \<and>
    (let s' = session_step cyclic s (rule_event E c (k\<lparr>ck_proceed := True\<rparr>) s (rc_apply (create_rule_card m (Inr f) s)))
     in s_graph s' = s_graph s \<and> dirty s')"
  using assms by (simp add: create_rule_card_def persist_card_def discard_note_def apply_create_def navigate_def
      load_effect_def respond_def dirty_def Let_def)

text \<open>\<open>add_node\<close> asks for a name; \<open>update_node\<close> takes the empty one.\<close>

lemma update_takes_empty_name:
  assumes "i \<noteq> []"
  shows "AddNodeArgsSchema parse (Some (JObj [(''type'', JStr ''inputNode''), (''name'', JStr [])])) =
      Inl [([''name''], Too_small)] \<and>
    (\<exists>a. UpdateNodeArgsSchema parse (Some (JObj [(''node_id'', JStr i), (''name'', JStr [])])) = Inr a \<and> np_name (ua_patch a) = Some [])"
  using assms
  by (simp add: AddNodeArgsSchema_def UpdateNodeArgsSchema_def z_object_def z_field_def z_enum_def z_checks_def
      z_string_def z_min1_def at_key_def content_field_def z_preprocess_def z_optional_def parseIfJsonString_def
      position_field_eq TolerantPosition_def NODE_TYPES_def patch_fields_def UpdateNodeArgs_def nullish_def)

section \<open>Witnesses\<close>

definition an_env :: env where
  "an_env = \<lparr>en_parse = (\<lambda>txt. if txt = ''{}'' then Inr (JObj []) else Inl ''Unexpected token''), en_pretty = (\<lambda>j. []),
     en_cyclic = two_cycle, en_message = (\<lambda>es. ''invalid''), en_text = (\<lambda>p. ''invalid'')\<rparr>"

definition a_click :: click where
  "a_click = \<lparr>ck_fresh = ''9'', ck_proceed = True, ck_engine = Zen_throws ''off''\<rparr>"

definition kyc_file :: json where
  "kyc_file = JObj [(''rule_type'', JStr ''onboarding''), (''filename'', JStr ''kyc.json'')]"

text \<open>The model deletes the open rule; before that it asked for a file outside the folder, and its node came
  with contents as text.\<close>

definition a_turn_of_calls :: "session \<Rightarrow> happening list" where
  "a_turn_of_calls s0 =
     [Page (Loaded 1 None),
      Apply_card \<lparr>tu_call = ''c1'', tu_tool = Tool_add_node, tu_args = Some (JObj [(''type'', JStr ''expressionNode''),
        (''name'', JStr ''Score''), (''content'', JStr ''{}''), (''position'', JStr ''left'')])\<rparr> a_click s0,
      Apply_card \<lparr>tu_call = ''c2'', tu_tool = Tool_delete_rule, tu_args = Some (JObj [(''rule_type'', JStr ''onboarding''),
        (''filename'', JStr ''../kyc.json'')])\<rparr> a_click s0,
      Apply_card \<lparr>tu_call = ''c3'', tu_tool = Tool_delete_rule, tu_args = Some kyc_file\<rparr> a_click s0,
      Page (Reply 1 \<lparr>rp_outcome = Done, rp_listing = ([], []), rp_proceed = True\<rparr>)]"

abbreviation kyc_page :: session where
  "kyc_page \<equiv> open_page (Some ''onboarding'') ''kyc.json'' False some_files"

lemma calls_change_file:
  "s_files (run (copilot_step an_env) kyc_page (a_turn_of_calls kyc_page)) (''onboarding'', ''kyc.json'') \<noteq>
     some_files (''onboarding'', ''kyc.json'')"
  by code_simp

theorem copilot_stays_in_rule_folders_witness:
  "''onboarding'' \<in> set RULE_TYPES \<and> (''kyc.json'' \<in> set [''kyc.json''] \<or>
     tool_filename ''kyc.json'' \<and> CHR ''/'' \<notin> set ''kyc.json'' \<and> CHR 0x5C \<notin> set ''kyc.json'')"
proof (rule copilot_stays_in_rule_folders [OF _ _ refl calls_change_file])
  show "list_all (possible [''kyc.json'']) (a_turn_of_calls kyc_page)"
    by (simp add: a_turn_of_calls_def)
qed simp


text \<open>The turn adds the node with the decoded contents at the automatic position.\<close>

lemma a_turn_adds_a_node:
  "map (\<lambda>n. (j_name n, j_content n)) (drop (length (g_nodes a_graph))
     (g_nodes (s_graph (run (copilot_step an_env) kyc_page (a_turn_of_calls kyc_page))))) =
   [(Some ''Score'', Some (JObj []))]"
  by code_simp

end
