(* ===== verification/Card_Views.thy ===== *)
theory Card_Views
  imports Hitl_Cards Tool_Cards
begin

text \<open>
  What the cards of the copilot show (\<open>example-apps/atomic-fi-jdm-editor/src/copilot/cards/preview-card.tsx\<close>,
  \<open>destructive-card.tsx\<close>, \<open>apply-all-footer.tsx\<close>): texts, identifiers and buttons of a tool call's card
  for each status, and the buttons as steps of \<open>hitl_step\<close>. Icons and styles are left out.
\<close>

definition ellipsis :: string where
  "ellipsis = [CHR 0xE2, CHR 0x80, CHR 0xA6]"

definition status_text :: "tool_status \<Rightarrow> string" where
  "status_text st = (case st of Complete \<Rightarrow> ''resolved'' | Executing \<Rightarrow> ''executing'' | InProgress \<Rightarrow> ''queued'')"

record card_button =
  cb_id :: string
  cb_label :: string
  cb_enabled :: bool
  cb_pressed :: bool

record card_view =
  cv_id :: string
  cv_title :: string
  cv_status :: string
  cv_tag :: string
  cv_summary :: string
  cv_diff :: "string option"
  cv_prompt :: "string option"
  cv_buttons :: "card_button list"
  cv_queued :: "string option"

definition queued_note :: string where
  "queued_note = ''queued'' @ dash @ ''waiting for previous tool to finish'' @ ellipsis"

definition button_of :: "string \<Rightarrow> nat \<Rightarrow> string \<Rightarrow> bool \<Rightarrow> bool \<Rightarrow> card_button" where
  "button_of name idx label enabled pressed =
     \<lparr>cb_id = name @ nat_to_string idx, cb_label = label, cb_enabled = enabled, cb_pressed = pressed\<rparr>"

text \<open>\<open>idx\<close> is the ordinal of the tool call.\<close>

definition PreviewCard :: "nat \<Rightarrow> string \<Rightarrow> tool_status \<Rightarrow> string \<Rightarrow> string option \<Rightarrow> string option \<Rightarrow> card_view" where
  "PreviewCard idx title status summary diff applyLabel =
     (let decided = (status = Complete) in
      \<lparr>cv_id = ''hitl-card-'' @ nat_to_string idx, cv_title = title, cv_status = status_text status,
       cv_tag = (if decided then ''resolved'' else ''pending''), cv_summary = summary,
       cv_diff = (if truthy diff then diff else None), cv_prompt = None,
       cv_buttons = (if \<not> decided \<and> status = Executing
          then [button_of ''hitl-reject-'' idx ''Reject'' True False,
                button_of ''hitl-apply-'' idx (nullish applyLabel ''Apply'') True True] else []),
       cv_queued = (if \<not> decided \<and> status \<noteq> Executing then Some queued_note else None)\<rparr>)"

definition PersistCard :: "nat \<Rightarrow> string \<Rightarrow> tool_status \<Rightarrow> string \<Rightarrow> string option \<Rightarrow> string \<Rightarrow> card_view" where
  "PersistCard idx title status summary diff sideEffectLabel =
     PreviewCard idx title status summary diff (Some sideEffectLabel)"

definition DestructiveCard :: "nat \<Rightarrow> string \<Rightarrow> tool_status \<Rightarrow> string \<Rightarrow> string \<Rightarrow> string \<Rightarrow> card_view" where
  "DestructiveCard idx title status filename warning confirmText =
     (let decided = (status = Complete); ready = (trim confirmText = filename) in
      \<lparr>cv_id = ''hitl-card-'' @ nat_to_string idx, cv_title = title, cv_status = status_text status,
       cv_tag = (if decided then ''resolved'' else ''destructive''), cv_summary = warning, cv_diff = None,
       cv_prompt = (if \<not> decided \<and> status = Executing then Some (''Type '' @ filename @ '' to confirm:'') else None),
       cv_buttons = (if \<not> decided \<and> status = Executing
          then [button_of ''hitl-reject-'' idx ''Cancel'' True False,
                button_of ''hitl-apply-'' idx ''Delete'' ready True] else []),
       cv_queued = (if \<not> decided \<and> status \<noteq> Executing then Some queued_note else None)\<rparr>)"

text \<open>The card of a rule tool as drawn; \<open>diff\<close> is the context of a simulation.\<close>

definition rule_card_kind :: "rule_card \<Rightarrow> card_kind" where
  "rule_card_kind rc = (case rc_confirm rc of None \<Rightarrow> Preview | Some f \<Rightarrow> Destructive f)"

definition rule_card_view :: "(json \<Rightarrow> string) \<Rightarrow> nat \<Rightarrow> tool_status \<Rightarrow> rule_card \<Rightarrow> string \<Rightarrow> card_view" where
  "rule_card_view pretty idx st rc confirmText =
     (case rc_confirm rc of
        None \<Rightarrow> PersistCard idx (rc_title rc) st (rc_summary rc)
          (case rc_apply rc of Do_simulate ctx \<Rightarrow> Some (pretty ctx) | _ \<Rightarrow> None) (rc_label rc)
      | Some f \<Rightarrow> DestructiveCard idx (rc_title rc) st f (rc_summary rc) confirmText)"

text \<open>The text of the footer.\<close>

definition footer_text :: "hitl \<Rightarrow> string option" where
  "footer_text s =
     (let count = length (h_pending s) in
      if count < 2 \<and> \<not> h_busy s then None
      else Some (if h_busy s
                 then ''applying'' @ (if 0 < count then '' ('' @ nat_to_string count @ '' in flight)'' else ellipsis)
                 else nat_to_string count @ '' pending action'' @ (if count = 1 then [] else ''s'')))"

lemma footer_shown: "footer_text s \<noteq> None \<longleftrightarrow> footer_visible s"
  by (auto simp: footer_text_def footer_visible_def Let_def)

section \<open>Buttons and steps\<close>

definition press :: "nat \<Rightarrow> card_button \<Rightarrow> hitl \<Rightarrow> hitl" where
  "press i b s = (if cb_pressed b then pendingApply i s else guardedReject i s)"

text \<open>The view of the \<open>i\<close>-th card, which shows the card of a rule tool.\<close>

definition view_of_card :: "(json \<Rightarrow> string) \<Rightarrow> nat \<Rightarrow> rule_card \<Rightarrow> tool_status \<Rightarrow> hitl \<Rightarrow> nat \<Rightarrow> card_view" where
  "view_of_card pretty idx rc st s i = rule_card_view pretty idx st rc (ci_confirm (the_card s i))"

text \<open>Every button that can be pressed is a step of the cards, and the two decisions can be made through the
  buttons exactly when the machine allows them.\<close>

lemma enabled_buttons_are_steps:
  assumes "shown i st s" and "ci_kind (the_card s i) = rule_card_kind rc"
    and "b \<in> set (cv_buttons (view_of_card pretty idx rc st s i))" and "cb_enabled b"
  shows "hitl_step s (press i b s)"
proof -
  have "st = Executing"
    using assms(3) by (auto simp: view_of_card_def rule_card_view_def PersistCard_def PreviewCard_def
        DestructiveCard_def Let_def split: option.splits if_splits)
  with assms show ?thesis
    by (auto simp: view_of_card_def rule_card_view_def PersistCard_def PreviewCard_def DestructiveCard_def Let_def
        button_of_def press_def rule_card_kind_def delete_ready_def intro: hitl_step.intros split: option.splits)
qed

lemma decisions_have_buttons:
  assumes "shown i Executing s" and "ci_kind (the_card s i) = rule_card_kind rc"
  shows "(\<exists>b \<in> set (cv_buttons (view_of_card pretty idx rc Executing s i)). cb_enabled b \<and> cb_pressed b) \<longleftrightarrow>
    ci_kind (the_card s i) = Preview \<or> delete_ready (the_card s i)"
  using assms by (auto simp: view_of_card_def rule_card_view_def PersistCard_def PreviewCard_def DestructiveCard_def
      Let_def button_of_def rule_card_kind_def delete_ready_def split: option.splits)

text \<open>A card that was decided or waits for another one has no button.\<close>

lemma no_button_unless_executing: "st \<noteq> Executing \<Longrightarrow> cv_buttons (view_of_card pretty idx rc st s i) = []"
  by (simp add: view_of_card_def rule_card_view_def PersistCard_def PreviewCard_def DestructiveCard_def Let_def
      split: option.split)

text \<open>Invalid arguments of a deletion ask for the empty name: Delete can be pressed at once - and only
  acknowledges the problem.\<close>

lemma invalid_deletion_is_acknowledged:
  "rule_card_kind (delete_rule_card m (Inl es)) = Destructive [] \<and>
   rc_apply (delete_rule_card m (Inl es)) = Give (rejected (m es)) \<and>
   map cb_enabled (cv_buttons (rule_card_view pretty idx Executing (delete_rule_card m (Inl es)) [])) = [True, True]"
  by (simp add: rule_card_kind_def delete_rule_card_def invalid_card_def persist_card_def rule_card_view_def
      DestructiveCard_def button_of_def trim_Nil)

end
