(* ===== verification/Decision_Templates.thy ===== *)
theory Decision_Templates
  imports Rule_Graph
begin

text \<open>
  The decision templates of the rule editor
  (\<open>example-apps/atomic-fi-jdm-editor/src/assets/decision-templates.ts\<close>), as values of the types of
  \<open>helpers/graph.ts\<close>: three graphs with their decision tables, switches and functions. The properties
  say that the data has the shape the editor and the engine rely on.
\<close>

section \<open>The types\<close>

record dc_node =
  dn_id :: string
  dn_name :: string
  dn_description :: "string option"
  dn_type :: "string option"
  dn_content :: "json option"
  dn_position :: "rat \<times> rat"

record dc_edge =
  de_id :: string
  de_sourceId :: string
  de_targetId :: string
  de_type :: "string option"
  de_sourceHandle :: "string option"

record dc_content =
  dc_nodes :: "dc_node list"
  dc_edges :: "dc_edge list"

definition texts :: "(string \<times> string) list \<Rightarrow> json" where
  "texts kvs = JObj (map (\<lambda>(k, v). (k, JStr v)) kvs)"

definition lines :: "string list \<Rightarrow> string" where
  "lines ls = join [CHR 0x0A] ls"

section \<open>The templates\<close>

definition shipping_request :: dc_node where
  "shipping_request = \<lparr>dn_id = ''be0a5c2d-538d-4e50-9843-91b274e1b9d8'', dn_name = ''Request'', dn_description = None, dn_type = Some ''inputNode'',
    dn_content = None,
    dn_position = (180, 280)\<rparr>"

definition shipping_fees :: dc_node where
  "shipping_fees = \<lparr>dn_id = ''7c07550a-07bc-4ee4-80d6-9ad900e3d6c9'', dn_name = ''Fees'', dn_description = None, dn_type = Some ''decisionTableNode'',
    dn_content = Some (JObj [
      (''rules'', JArr [
        texts [(''_id'', ''vCqrZGdWjA''), (''DA3Ybo-shA'', ''\"US\"''), (''FD4qBBPv2G'', ''> 1000''), (''JuUcECFGe1'', ''2''), (''jrsT5Wg9F8'', ''\"gold\"''), (''qA7iYc3Wle'', [])],
        texts [(''_id'', ''CpXx-s78FH''), (''DA3Ybo-shA'', ''\"US\"''), (''FD4qBBPv2G'', ''> 1000''), (''JuUcECFGe1'', ''3''), (''jrsT5Wg9F8'', []), (''qA7iYc3Wle'', [])],
        texts [(''_id'', ''zH-PuRB2aQ''), (''DA3Ybo-shA'', ''\"US\"''), (''FD4qBBPv2G'', []), (''JuUcECFGe1'', []), (''jrsT5Wg9F8'', []), (''qA7iYc3Wle'', ''25'')],
        texts [(''_id'', ''HjEp-eQhAP''), (''DA3Ybo-shA'', ''\"CA\",\"MX\"''), (''FD4qBBPv2G'', ''> 1000''), (''JuUcECFGe1'', ''5''), (''jrsT5Wg9F8'', []), (''qA7iYc3Wle'', [])],
        texts [(''_id'', ''nq40hJ1nXy''), (''DA3Ybo-shA'', ''\"CA\",\"MX\"''), (''FD4qBBPv2G'', []), (''JuUcECFGe1'', []), (''jrsT5Wg9F8'', []), (''qA7iYc3Wle'', ''50'')],
        texts [(''_id'', ''G64ltgrVgV''), (''DA3Ybo-shA'', ''\"IE\",\"UK\",\"FR\",\"DE\"''), (''FD4qBBPv2G'', ''> 1000''), (''JuUcECFGe1'', ''10''), (''jrsT5Wg9F8'', []), (''qA7iYc3Wle'', [])],
        texts [(''_id'', ''PD3oYgtiDa''), (''DA3Ybo-shA'', ''\"IE\",\"UK\",\"FR\",\"DE\"''), (''FD4qBBPv2G'', []), (''JuUcECFGe1'', []), (''jrsT5Wg9F8'', []), (''qA7iYc3Wle'', ''100'')],
        texts [(''_id'', ''1BY7iMFoDw''), (''DA3Ybo-shA'', []), (''FD4qBBPv2G'', ''> 1000''), (''JuUcECFGe1'', ''15''), (''jrsT5Wg9F8'', []), (''qA7iYc3Wle'', [])],
        texts [(''_id'', ''dlwJlbW7ZH''), (''DA3Ybo-shA'', []), (''FD4qBBPv2G'', []), (''JuUcECFGe1'', []), (''jrsT5Wg9F8'', []), (''qA7iYc3Wle'', ''150'')]]),
      (''inputs'', JArr [
        texts [(''id'', ''FD4qBBPv2G''), (''name'', ''Cart Total''), (''type'', ''expression''), (''field'', ''cart.total'')],
        texts [(''id'', ''DA3Ybo-shA''), (''name'', ''Customer Country''), (''type'', ''expression''), (''field'', ''customer.country'')],
        texts [(''id'', ''jrsT5Wg9F8''), (''name'', ''Customer Tier''), (''type'', ''expression''), (''field'', ''customer.tier'')]]),
      (''outputs'', JArr [
        texts [(''id'', ''qA7iYc3Wle''), (''name'', ''Fees Flat ($)''), (''type'', ''expression''), (''field'', ''fees.flat'')],
        texts [(''id'', ''JuUcECFGe1''), (''name'', ''Fees Percent''), (''type'', ''expression''), (''field'', ''fees.percent'')]]),
      (''hitPolicy'', JStr ''first'')]),
    dn_position = (420, 280)\<rparr>"

definition shipping_response :: dc_node where
  "shipping_response = \<lparr>dn_id = ''72d52cfc-e866-4c11-bf79-6be9f750e4d7'', dn_name = ''Response'', dn_description = None, dn_type = Some ''outputNode'',
    dn_content = None,
    dn_position = (670, 280)\<rparr>"

definition shipping_edges :: "dc_edge list" where
  "shipping_edges = [
    \<lparr>de_id = ''1dfbc57d-ad1f-4cf8-978a-e43241856fc8'', de_sourceId = ''be0a5c2d-538d-4e50-9843-91b274e1b9d8'',
      de_targetId = ''7c07550a-07bc-4ee4-80d6-9ad900e3d6c9'', de_type = Some ''edge'', de_sourceHandle = None\<rparr>,
    \<lparr>de_id = ''5e2dc187-3b82-4f21-94f5-9c3fd16e12d4'', de_sourceId = ''7c07550a-07bc-4ee4-80d6-9ad900e3d6c9'',
      de_targetId = ''72d52cfc-e866-4c11-bf79-6be9f750e4d7'', de_type = Some ''edge'', de_sourceHandle = None\<rparr>]"

definition shipping_template :: dc_content where
  "shipping_template = \<lparr>dc_nodes = [shipping_request, shipping_fees, shipping_response], dc_edges = shipping_edges\<rparr>"

definition company_request :: dc_node where
  "company_request = \<lparr>dn_id = ''4e7e6bb9-f128-41e7-8cc5-b9d79670b96a'', dn_name = ''Request'', dn_description = None, dn_type = Some ''inputNode'',
    dn_content = None,
    dn_position = (70, 160)\<rparr>"

definition company_company_type :: dc_node where
  "company_company_type = \<lparr>dn_id = ''d6925cde-b3c9-4b7f-8652-7380dacea6a4'', dn_name = ''Company Type'', dn_description = None, dn_type = Some ''decisionTableNode'',
    dn_content = Some (JObj [
      (''rules'', JArr [
        texts [(''_id'', ''D8T0xuyYLC''), (''Yi49Ln4-V_'', ''\"green\"''), (''nd30YgUKve'', ''\"INC\",\"LTD\",\"LLC\"'')],
        texts [(''_id'', ''Ewgtm_21qr''), (''Yi49Ln4-V_'', ''\"amber\"''), (''nd30YgUKve'', [])]]),
      (''inputs'', JArr [
        texts [(''id'', ''nd30YgUKve''), (''name'', ''Company Type''), (''type'', ''expression''), (''field'', ''company.type'')]]),
      (''outputs'', JArr [
        texts [(''id'', ''Yi49Ln4-V_''), (''name'', ''Flag CompanyType''), (''type'', ''expression''), (''field'', ''flag.companyType'')]]),
      (''hitPolicy'', JStr ''first'')]),
    dn_position = (380, 270)\<rparr>"

definition company_turnover :: dc_node where
  "company_turnover = \<lparr>dn_id = ''46fbad36-4bbe-44ac-833f-d30e0d37d8d7'', dn_name = ''Turnover'', dn_description = None, dn_type = Some ''decisionTableNode'',
    dn_content = Some (JObj [
      (''rules'', JArr [
        texts [(''_id'', ''fJxWqBVUNk''), (''6xj5CMIFv9'', ''> 1_000_000''), (''rrW6s3l7vU'', ''\"green\"'')],
        texts [(''_id'', ''lqBoqkvWHA''), (''6xj5CMIFv9'', ''[200_000..1_000_000]''), (''rrW6s3l7vU'', ''\"amber\"'')],
        texts [(''_id'', ''YO3K4Q1iuU''), (''6xj5CMIFv9'', ''< 200_000''), (''rrW6s3l7vU'', ''\"red\"'')],
        texts [(''_id'', ''SY7uwJEPqS''), (''6xj5CMIFv9'', []), (''rrW6s3l7vU'', ''\"red\"'')]]),
      (''inputs'', JArr [
        texts [(''id'', ''6xj5CMIFv9''), (''name'', ''Turnover (LY)''), (''type'', ''expression''), (''field'', ''company.turnover'')]]),
      (''outputs'', JArr [
        texts [(''id'', ''rrW6s3l7vU''), (''name'', ''Flag Turnover''), (''type'', ''expression''), (''field'', ''flag.turnover'')]]),
      (''hitPolicy'', JStr ''first'')]),
    dn_position = (380, 160)\<rparr>"

definition company_country :: dc_node where
  "company_country = \<lparr>dn_id = ''abaaa033-5516-440c-b211-35f1d616ad9f'', dn_name = ''Country'', dn_description = None, dn_type = Some ''decisionTableNode'',
    dn_content = Some (JObj [
      (''rules'', JArr [
        texts [(''_id'', ''TOi2qECISd''), (''I493u7jDPg'', ''\"green\"''), (''bGOSakKon0'', []), (''z87lDk-Xar'', ''\"US\",\"IE\",\"GB\",\"CA\"'')],
        texts [(''_id'', ''aGPqCdh2tU''), (''I493u7jDPg'', ''\"amber\"''), (''bGOSakKon0'', ''true''), (''z87lDk-Xar'', [])],
        texts [(''_id'', ''VYiuLkrLWb''), (''I493u7jDPg'', ''\"red\"''), (''bGOSakKon0'', []), (''z87lDk-Xar'', [])]]),
      (''inputs'', JArr [
        texts [(''id'', ''z87lDk-Xar''), (''name'', ''Company Country''), (''type'', ''expression''), (''field'', ''company.country'')],
        texts [(''id'', ''bGOSakKon0''), (''name'', ''Company IsEU''), (''type'', ''expression''), (''field'', ''company.isEu'')]]),
      (''outputs'', JArr [
        texts [(''id'', ''I493u7jDPg''), (''name'', ''Flag Country''), (''type'', ''expression''), (''field'', ''flag.country'')]]),
      (''hitPolicy'', JStr ''first'')]),
    dn_position = (380, 50)\<rparr>"

definition company_overall_mapper :: dc_node where
  "company_overall_mapper = \<lparr>dn_id = ''af6cdac4-2019-4a0f-9715-2ecfb27e0bfc'', dn_name = ''Overall Mapper'', dn_description = None, dn_type = Some ''functionNode'',
    dn_content = Some (JStr (lines [
     ''/**'',
     ''* @param {import('gorules').Input} input'',
     ''* @param {{'',
     ''*  moment: import('dayjs')'',
     ''*  env: Record<string, any>'',
     ''* }} helpers'',
     ''*/'',
     ''const handler = (input, { moment, env }) => {'',
     ''  const count = (flag) => Object.values(input?.flag || {}).reduce((acc, curr) => {'',
     ''    if (curr === flag) return acc + 1;'',
     ''    return acc;'',
     ''  }, 0);'',
     [],
     ''  return {'',
     ''    critical: count('critical'),'',
     ''    red: count('red'),'',
     ''    amber: count('amber'),'',
     ''    green: count('green')'',
     ''  };'',
     ''}''])),
    dn_position = (630, 270)\<rparr>"

definition company_overall :: dc_node where
  "company_overall = \<lparr>dn_id = ''86ce04c9-b4dd-4513-ae2b-7f585ceb224a'', dn_name = ''Overall'', dn_description = None, dn_type = Some ''decisionTableNode'',
    dn_content = Some (JObj [
      (''rules'', JArr [
        texts [(''_id'', ''P0RQ3NFWfc''), (''AczIUwvClr'', []), (''KsBwLhAedP'', ''> 0''), (''QJttqyV2FB'', []), (''ek5q9WgLL9'', ''\"red\"''), (''iFQl1CKB5S'', [])],
        texts [(''_id'', ''UGrT2iHE61''), (''AczIUwvClr'', ''> 0''), (''KsBwLhAedP'', []), (''QJttqyV2FB'', []), (''ek5q9WgLL9'', ''\"red\"''), (''iFQl1CKB5S'', [])],
        texts [(''_id'', ''SBBO_aWujh''), (''AczIUwvClr'', []), (''KsBwLhAedP'', []), (''QJttqyV2FB'', ''> 1''), (''ek5q9WgLL9'', ''\"amber\"''), (''iFQl1CKB5S'', [])],
        texts [(''_id'', ''N2jO9BnXHY''), (''AczIUwvClr'', []), (''KsBwLhAedP'', []), (''QJttqyV2FB'', []), (''ek5q9WgLL9'', ''\"green\"''), (''iFQl1CKB5S'', [])]]),
      (''inputs'', JArr [
        texts [(''id'', ''AczIUwvClr''), (''name'', ''Red''), (''type'', ''expression''), (''field'', ''red'')],
        texts [(''id'', ''QJttqyV2FB''), (''name'', ''Amber''), (''type'', ''expression''), (''field'', ''amber'')],
        texts [(''id'', ''iFQl1CKB5S''), (''name'', ''Green''), (''type'', ''expression''), (''field'', ''green'')],
        texts [(''id'', ''KsBwLhAedP''), (''name'', ''Critical''), (''type'', ''expression''), (''field'', ''critical'')]]),
      (''outputs'', JArr [
        texts [(''id'', ''ek5q9WgLL9''), (''name'', ''Overall''), (''type'', ''expression''), (''field'', ''overall'')]]),
      (''hitPolicy'', JStr ''first'')]),
    dn_position = (880, 270)\<rparr>"

definition company_response :: dc_node where
  "company_response = \<lparr>dn_id = ''95aa8f3c-f371-4e48-beb3-0b5775d2a814'', dn_name = ''Response'', dn_description = None, dn_type = Some ''outputNode'',
    dn_content = None,
    dn_position = (1120, 160)\<rparr>"

definition company_edges :: "dc_edge list" where
  "company_edges = [
    \<lparr>de_id = ''3e749d7f-97d5-45c9-917f-20ae877c3bde'', de_sourceId = ''4e7e6bb9-f128-41e7-8cc5-b9d79670b96a'',
      de_targetId = ''abaaa033-5516-440c-b211-35f1d616ad9f'', de_type = Some ''edge'', de_sourceHandle = None\<rparr>,
    \<lparr>de_id = ''d00252c1-9a54-4599-940c-c9c1c3bb6800'', de_sourceId = ''4e7e6bb9-f128-41e7-8cc5-b9d79670b96a'',
      de_targetId = ''46fbad36-4bbe-44ac-833f-d30e0d37d8d7'', de_type = Some ''edge'', de_sourceHandle = None\<rparr>,
    \<lparr>de_id = ''f5be27b5-4eea-40f4-abce-31081a0caf65'', de_sourceId = ''4e7e6bb9-f128-41e7-8cc5-b9d79670b96a'',
      de_targetId = ''d6925cde-b3c9-4b7f-8652-7380dacea6a4'', de_type = Some ''edge'', de_sourceHandle = None\<rparr>,
    \<lparr>de_id = ''ae341e14-2d25-4941-a42f-eb587c17f9f5'', de_sourceId = ''abaaa033-5516-440c-b211-35f1d616ad9f'',
      de_targetId = ''95aa8f3c-f371-4e48-beb3-0b5775d2a814'', de_type = Some ''edge'', de_sourceHandle = None\<rparr>,
    \<lparr>de_id = ''3000e420-4846-4f86-8ed2-f595d204672e'', de_sourceId = ''46fbad36-4bbe-44ac-833f-d30e0d37d8d7'',
      de_targetId = ''95aa8f3c-f371-4e48-beb3-0b5775d2a814'', de_type = Some ''edge'', de_sourceHandle = None\<rparr>,
    \<lparr>de_id = ''638c35a9-eef7-4d90-bf1e-58ba10734d98'', de_sourceId = ''d6925cde-b3c9-4b7f-8652-7380dacea6a4'',
      de_targetId = ''95aa8f3c-f371-4e48-beb3-0b5775d2a814'', de_type = Some ''edge'', de_sourceHandle = None\<rparr>,
    \<lparr>de_id = ''30f2247a-140c-40f3-8160-a4e61d56da8e'', de_sourceId = ''af6cdac4-2019-4a0f-9715-2ecfb27e0bfc'',
      de_targetId = ''86ce04c9-b4dd-4513-ae2b-7f585ceb224a'', de_type = Some ''edge'', de_sourceHandle = None\<rparr>,
    \<lparr>de_id = ''822d2eeb-5a9e-4670-b181-4af0ed6dd9b9'', de_sourceId = ''86ce04c9-b4dd-4513-ae2b-7f585ceb224a'',
      de_targetId = ''95aa8f3c-f371-4e48-beb3-0b5775d2a814'', de_type = Some ''edge'', de_sourceHandle = None\<rparr>,
    \<lparr>de_id = ''61cc8c10-57c2-411d-a88c-90176ebb8593'', de_sourceId = ''d6925cde-b3c9-4b7f-8652-7380dacea6a4'',
      de_targetId = ''af6cdac4-2019-4a0f-9715-2ecfb27e0bfc'', de_type = Some ''edge'', de_sourceHandle = None\<rparr>,
    \<lparr>de_id = ''2011fc65-fd8c-421f-8123-d1fb5f1accb3'', de_sourceId = ''46fbad36-4bbe-44ac-833f-d30e0d37d8d7'',
      de_targetId = ''af6cdac4-2019-4a0f-9715-2ecfb27e0bfc'', de_type = Some ''edge'', de_sourceHandle = None\<rparr>,
    \<lparr>de_id = ''d65fb53d-0fef-47ff-aeac-b8cbac5af7be'', de_sourceId = ''abaaa033-5516-440c-b211-35f1d616ad9f'',
      de_targetId = ''af6cdac4-2019-4a0f-9715-2ecfb27e0bfc'', de_type = Some ''edge'', de_sourceHandle = None\<rparr>]"

definition company_template :: dc_content where
  "company_template = \<lparr>dc_nodes = [company_request, company_company_type, company_turnover, company_country, company_overall_mapper, company_overall, company_response], dc_edges = company_edges\<rparr>"

definition aml_request :: dc_node where
  "aml_request = \<lparr>dn_id = ''df092198-208d-4526-82a2-2ff4359d9001'', dn_name = ''Request'', dn_description = None, dn_type = Some ''inputNode'',
    dn_content = None,
    dn_position = (90, 330)\<rparr>"

definition aml_sanctions :: dc_node where
  "aml_sanctions = \<lparr>dn_id = ''f7e19179-48b7-4d94-b085-ea3d6c9e829e'', dn_name = ''Sanctions'', dn_description = None, dn_type = Some ''switchNode'',
    dn_content = Some (JObj [
      (''hitPolicy'', JStr ''collect''),
      (''statements'', JArr [
        texts [(''id'', ''5bffb0f5-a69d-46ba-9122-08bae9f6fe92''), (''condition'', ''transaction.currency == \"USD\"'')],
        texts [(''id'', ''13737427-cb8c-4c32-bde5-e49ef6fa03e0''), (''condition'', ''transaction.currency == \"EUR\"'')],
        texts [(''id'', ''aa630466-3bb1-45e3-9ae8-12eb57451f55''), (''condition'', [])]])]),
    dn_position = (400, 440)\<rparr>"

definition aml_usd_sanctions :: dc_node where
  "aml_usd_sanctions = \<lparr>dn_id = ''9bc09d87-84ce-4f4c-9c53-317688ee6cc5'', dn_name = ''USD Sanctions'', dn_description = None, dn_type = Some ''decisionTableNode'',
    dn_content = Some (JObj [
      (''hitPolicy'', JStr ''first''),
      (''inputs'', JArr [
        texts [(''id'', ''e03b1f07-7d3a-4a64-9aa5-aca83e4cfa01''), (''name'', ''Merchant country''), (''type'', ''expression''), (''field'', ''merchant.location.country'')]]),
      (''outputs'', JArr [
        texts [(''id'', ''1959963a-2aec-4988-87a5-bfc590ca08c4''), (''name'', ''Output''), (''type'', ''expression''), (''field'', ''flags.usdSanction'')]]),
      (''rules'', JArr [
        texts [(''_id'', ''fca1348e-026f-4356-a443-617fa99909eb''), (''e03b1f07-7d3a-4a64-9aa5-aca83e4cfa01'', ''\"RU\", \"CU\", \"KP\", \"VE\"''), (''1959963a-2aec-4988-87a5-bfc590ca08c4'', ''\"red\"'')],
        texts [(''_id'', ''26b794b7-26ce-4e51-9432-cf1d3580a638''), (''e03b1f07-7d3a-4a64-9aa5-aca83e4cfa01'', []), (''1959963a-2aec-4988-87a5-bfc590ca08c4'', ''\"green\"'')]])]),
    dn_position = (700, 520)\<rparr>"

definition aml_eur_sanctions :: dc_node where
  "aml_eur_sanctions = \<lparr>dn_id = ''3187c4af-565f-482c-805f-9099e9d56fc1'', dn_name = ''EUR Sanctions'', dn_description = None, dn_type = Some ''decisionTableNode'',
    dn_content = Some (JObj [
      (''hitPolicy'', JStr ''first''),
      (''inputs'', JArr [
        texts [(''id'', ''90adfc05-ffdf-490f-ab47-cede8dd899f3''), (''name'', ''Location''), (''type'', ''expression''), (''field'', ''merchant.location.country'')]]),
      (''outputs'', JArr [
        texts [(''id'', ''e49398d3-cc2b-4e5a-81b0-e50fd020b5c0''), (''name'', ''Output''), (''type'', ''expression''), (''field'', ''flags.eurSanctions'')]]),
      (''rules'', JArr [
        texts [(''_id'', ''ff990579-78ff-4a25-9706-eae402a26c4e''), (''90adfc05-ffdf-490f-ab47-cede8dd899f3'', ''\"RU\", \"NK\"''), (''e49398d3-cc2b-4e5a-81b0-e50fd020b5c0'', ''\"red\"'')],
        texts [(''_id'', ''380670ff-4a6a-48d6-b430-8cbb6186438b''), (''90adfc05-ffdf-490f-ab47-cede8dd899f3'', ''\"VE\", \"IR\"''), (''e49398d3-cc2b-4e5a-81b0-e50fd020b5c0'', ''\"amber\"'')],
        texts [(''_id'', ''5fb3c366-54d5-4a17-bbd0-88f2d65ce99d''), (''90adfc05-ffdf-490f-ab47-cede8dd899f3'', []), (''e49398d3-cc2b-4e5a-81b0-e50fd020b5c0'', ''\"green\"'')]])]),
    dn_position = (700, 620)\<rparr>"

definition aml_global_sanctions :: dc_node where
  "aml_global_sanctions = \<lparr>dn_id = ''fd8f6200-f236-4d00-859e-9a732e553176'', dn_name = ''Global Sanctions'', dn_description = None, dn_type = Some ''decisionTableNode'',
    dn_content = Some (JObj [
      (''hitPolicy'', JStr ''first''),
      (''inputs'', JArr [
        texts [(''id'', ''c31240e0-8761-4c31-9f79-5210a656f820''), (''name'', ''Input''), (''type'', ''expression'')]]),
      (''outputs'', JArr [
        texts [(''id'', ''156ad457-da15-468b-9444-978f37c28463''), (''name'', ''Output''), (''type'', ''expression''), (''field'', ''flags.globalSanctions'')]]),
      (''rules'', JArr [
        texts [(''_id'', ''e19c68ab-6db3-41b2-baef-8b5cca4254a9''), (''c31240e0-8761-4c31-9f79-5210a656f820'', ''\"RU\", \"NK\"''), (''156ad457-da15-468b-9444-978f37c28463'', ''\"red\"'')],
        texts [(''_id'', ''380eee74-94aa-4321-a673-878386dc3200''), (''c31240e0-8761-4c31-9f79-5210a656f820'', []), (''156ad457-da15-468b-9444-978f37c28463'', ''\"green\"'')]])]),
    dn_position = (700, 720)\<rparr>"

definition aml_aggregator :: dc_node where
  "aml_aggregator = \<lparr>dn_id = ''204af8f6-325f-41cc-a5bd-ee99905d8c1f'', dn_name = ''Aggregator'', dn_description = None, dn_type = Some ''functionNode'',
    dn_content = Some (JStr (lines [
     ''/**'',
     '' * @param input'',
     '' * @param {{'',
     '' *  dayjs: import('dayjs')'',
     '' *  Big: import('big.js').BigConstructor'',
     '' * }} helpers'',
     '' */'',
     ''const handler = (input, { dayjs, Big }) => {'',
     ''  const flags = input.flags || {};'',
     ''  const countFlags = (flag) => Object.values(flags).reduce((acc, curr) => {'',
     ''    return curr == flag ? acc + 1 : acc;'',
     ''  }, 0);'',
     [],
     ''  const breakdown = {'',
     ''    red: countFlags('red'),'',
     ''    amber: countFlags('amber'),'',
     ''    green: countFlags('green')'',
     ''  };'',
     [],
     ''  let overallFlag = 'green';'',
     ''  if (breakdown.amber > 0) {'',
     ''    overallFlag = 'amber';'',
     ''  }'',
     ''  if (breakdown.red > 0) {'',
     ''    overallFlag = 'red';'',
     ''  }'',
     [],
     ''  return {'',
     ''    ...input,'',
     ''    breakdown,'',
     ''    overallFlag,'',
     ''  };'',
     ''}''])),
    dn_position = (1060, 360)\<rparr>"

definition aml_transaction_amount :: dc_node where
  "aml_transaction_amount = \<lparr>dn_id = ''ac9cf968-98b2-4ba5-a481-28da1e32b649'', dn_name = ''Transaction Amount'', dn_description = None, dn_type = Some ''decisionTableNode'',
    dn_content = Some (JObj [
      (''hitPolicy'', JStr ''first''),
      (''inputs'', JArr [
        texts [(''id'', ''a713c7ef-1db6-4fa4-aca4-590c4092c742''), (''name'', ''Customer Tier''), (''type'', ''expression''), (''field'', ''customer.tier'')],
        texts [(''id'', ''360ba5d7-25b0-44ff-9cce-3f365634a42f''), (''type'', ''expression''), (''field'', ''transaction.amountUSD''), (''name'', ''Transaction Amount USD'')]]),
      (''outputs'', JArr [
        texts [(''id'', ''245ca04d-fd91-4c2b-80a5-660ec16d5ac1''), (''name'', ''Transaction amount flag''), (''type'', ''expression''), (''field'', ''flags.transactionAmount'')]]),
      (''rules'', JArr [
        texts [(''_id'', ''3819029a-2446-47ed-ae6c-268c23f06ad2''), (''a713c7ef-1db6-4fa4-aca4-590c4092c742'', ''\"enterprise\"''), (''360ba5d7-25b0-44ff-9cce-3f365634a42f'', ''> 50_000''), (''245ca04d-fd91-4c2b-80a5-660ec16d5ac1'', ''\"amber\"'')],
        texts [(''_id'', ''831b4587-4f1b-494c-97c3-da2861991779''), (''a713c7ef-1db6-4fa4-aca4-590c4092c742'', ''\"enterprise\"''), (''360ba5d7-25b0-44ff-9cce-3f365634a42f'', []), (''245ca04d-fd91-4c2b-80a5-660ec16d5ac1'', ''\"green\"'')],
        texts [(''_id'', ''94556461-324d-4a4b-a039-2b703203ae64''), (''a713c7ef-1db6-4fa4-aca4-590c4092c742'', ''\"business\"''), (''360ba5d7-25b0-44ff-9cce-3f365634a42f'', ''> 100_000''), (''245ca04d-fd91-4c2b-80a5-660ec16d5ac1'', ''\"red\"'')],
        texts [(''_id'', ''e4170bfe-9ceb-49d4-9ef8-c56e2d3501e9''), (''a713c7ef-1db6-4fa4-aca4-590c4092c742'', ''\"business\"''), (''360ba5d7-25b0-44ff-9cce-3f365634a42f'', ''> 20_000''), (''245ca04d-fd91-4c2b-80a5-660ec16d5ac1'', ''\"amber\"'')],
        texts [(''_id'', ''0156a3ca-aca4-42a0-8d6a-f55290501573''), (''a713c7ef-1db6-4fa4-aca4-590c4092c742'', ''\"business\"''), (''360ba5d7-25b0-44ff-9cce-3f365634a42f'', []), (''245ca04d-fd91-4c2b-80a5-660ec16d5ac1'', ''\"green\"'')],
        texts [(''_id'', ''26fbd01d-e355-49c9-88ad-7f5b00d4118a''), (''a713c7ef-1db6-4fa4-aca4-590c4092c742'', []), (''360ba5d7-25b0-44ff-9cce-3f365634a42f'', ''> 50_000''), (''245ca04d-fd91-4c2b-80a5-660ec16d5ac1'', ''\"red\"'')],
        texts [(''_id'', ''65f91c4f-bf69-40fa-86c6-36ad71abbc1b''), (''a713c7ef-1db6-4fa4-aca4-590c4092c742'', []), (''360ba5d7-25b0-44ff-9cce-3f365634a42f'', ''> 10_000''), (''245ca04d-fd91-4c2b-80a5-660ec16d5ac1'', ''\"amber\"'')],
        texts [(''_id'', ''58cf804e-ad94-4ed6-99fe-8263ae8cf7cd''), (''a713c7ef-1db6-4fa4-aca4-590c4092c742'', []), (''360ba5d7-25b0-44ff-9cce-3f365634a42f'', []), (''245ca04d-fd91-4c2b-80a5-660ec16d5ac1'', ''\"green\"'')]])]),
    dn_position = (460, 220)\<rparr>"

definition aml_merchant_reputation :: dc_node where
  "aml_merchant_reputation = \<lparr>dn_id = ''57b828f3-e0ff-4e3a-9549-7dae4eeba55d'', dn_name = ''Merchant Reputation'', dn_description = None, dn_type = Some ''decisionTableNode'',
    dn_content = Some (JObj [
      (''hitPolicy'', JStr ''first''),
      (''inputs'', JArr [
        texts [(''id'', ''c658ae97-99c8-46fe-bc3a-64c14ea8c475''), (''name'', ''Merchant reputation''), (''type'', ''expression''), (''field'', ''merchant.reputation'')]]),
      (''outputs'', JArr [
        texts [(''id'', ''71bf3b59-455d-4a6e-894c-4e3a7cf7cbde''), (''name'', ''Merchant Reputation Flag''), (''type'', ''expression''), (''field'', ''flags.merchantReputation'')]]),
      (''rules'', JArr [
        texts [(''_id'', ''e8a05a05-d7f7-4272-94a1-c5aa84b0feaf''), (''c658ae97-99c8-46fe-bc3a-64c14ea8c475'', ''(0.8..1.0]''), (''71bf3b59-455d-4a6e-894c-4e3a7cf7cbde'', ''\"green\"'')],
        texts [(''_id'', ''cdee900f-a1b1-4a0c-8aca-c305c19a33dd''), (''c658ae97-99c8-46fe-bc3a-64c14ea8c475'', ''(0.5..0.8]''), (''71bf3b59-455d-4a6e-894c-4e3a7cf7cbde'', ''\"amber\"'')],
        texts [(''_id'', ''5c58e04a-94b8-40ec-8709-39847e2d4704''), (''c658ae97-99c8-46fe-bc3a-64c14ea8c475'', []), (''71bf3b59-455d-4a6e-894c-4e3a7cf7cbde'', ''\"red\"'')]])]),
    dn_position = (460, 330)\<rparr>"

definition aml_response :: dc_node where
  "aml_response = \<lparr>dn_id = ''71285ae0-45cf-4300-afe7-de39e0f81590'', dn_name = ''Response'', dn_description = None, dn_type = Some ''outputNode'',
    dn_content = None,
    dn_position = (1320, 360)\<rparr>"

definition aml_edges :: "dc_edge list" where
  "aml_edges = [
    \<lparr>de_id = ''284924aa-b0e8-4161-bfc0-4cadb7a581a6'', de_sourceId = ''df092198-208d-4526-82a2-2ff4359d9001'',
      de_targetId = ''f7e19179-48b7-4d94-b085-ea3d6c9e829e'', de_type = Some ''edge'', de_sourceHandle = None\<rparr>,
    \<lparr>de_id = ''bbacf049-12b4-406d-bf36-1b68a9640992'', de_sourceId = ''f7e19179-48b7-4d94-b085-ea3d6c9e829e'',
      de_targetId = ''9bc09d87-84ce-4f4c-9c53-317688ee6cc5'', de_type = Some ''edge'', de_sourceHandle = Some ''5bffb0f5-a69d-46ba-9122-08bae9f6fe92''\<rparr>,
    \<lparr>de_id = ''79e399d4-57ba-46ec-8f74-12260081043f'', de_sourceId = ''f7e19179-48b7-4d94-b085-ea3d6c9e829e'',
      de_targetId = ''3187c4af-565f-482c-805f-9099e9d56fc1'', de_type = Some ''edge'', de_sourceHandle = Some ''13737427-cb8c-4c32-bde5-e49ef6fa03e0''\<rparr>,
    \<lparr>de_id = ''da7e7f8b-1e05-4189-afa4-42423be11367'', de_sourceId = ''f7e19179-48b7-4d94-b085-ea3d6c9e829e'',
      de_targetId = ''fd8f6200-f236-4d00-859e-9a732e553176'', de_type = Some ''edge'', de_sourceHandle = Some ''aa630466-3bb1-45e3-9ae8-12eb57451f55''\<rparr>,
    \<lparr>de_id = ''5624c75f-9f3c-4739-983d-9cf509967201'', de_sourceId = ''9bc09d87-84ce-4f4c-9c53-317688ee6cc5'',
      de_targetId = ''204af8f6-325f-41cc-a5bd-ee99905d8c1f'', de_type = Some ''edge'', de_sourceHandle = None\<rparr>,
    \<lparr>de_id = ''6d2d4d98-901a-4304-82e1-bc67219308a8'', de_sourceId = ''3187c4af-565f-482c-805f-9099e9d56fc1'',
      de_targetId = ''204af8f6-325f-41cc-a5bd-ee99905d8c1f'', de_type = Some ''edge'', de_sourceHandle = None\<rparr>,
    \<lparr>de_id = ''f0c921b9-9b8c-43ab-9215-ed9b3af54d88'', de_sourceId = ''fd8f6200-f236-4d00-859e-9a732e553176'',
      de_targetId = ''204af8f6-325f-41cc-a5bd-ee99905d8c1f'', de_type = Some ''edge'', de_sourceHandle = None\<rparr>,
    \<lparr>de_id = ''1fd5ad15-4bdf-451c-9bdc-f34424382e0b'', de_sourceId = ''df092198-208d-4526-82a2-2ff4359d9001'',
      de_targetId = ''57b828f3-e0ff-4e3a-9549-7dae4eeba55d'', de_type = Some ''edge'', de_sourceHandle = None\<rparr>,
    \<lparr>de_id = ''fd6caf40-ef8f-4a2e-bf05-a42bb7f33236'', de_sourceId = ''df092198-208d-4526-82a2-2ff4359d9001'',
      de_targetId = ''ac9cf968-98b2-4ba5-a481-28da1e32b649'', de_type = Some ''edge'', de_sourceHandle = None\<rparr>,
    \<lparr>de_id = ''74c48816-e17d-4d44-83da-e05940e778c7'', de_sourceId = ''ac9cf968-98b2-4ba5-a481-28da1e32b649'',
      de_targetId = ''204af8f6-325f-41cc-a5bd-ee99905d8c1f'', de_type = Some ''edge'', de_sourceHandle = None\<rparr>,
    \<lparr>de_id = ''ac21ce5c-0a87-4f23-8006-0d75b782f5dd'', de_sourceId = ''57b828f3-e0ff-4e3a-9549-7dae4eeba55d'',
      de_targetId = ''204af8f6-325f-41cc-a5bd-ee99905d8c1f'', de_type = Some ''edge'', de_sourceHandle = None\<rparr>,
    \<lparr>de_id = ''0af5670d-eb0f-4051-a129-843488525e43'', de_sourceId = ''204af8f6-325f-41cc-a5bd-ee99905d8c1f'',
      de_targetId = ''71285ae0-45cf-4300-afe7-de39e0f81590'', de_type = Some ''edge'', de_sourceHandle = None\<rparr>]"

definition aml_template :: dc_content where
  "aml_template = \<lparr>dc_nodes = [aml_request, aml_sanctions, aml_usd_sanctions, aml_eur_sanctions, aml_global_sanctions, aml_aggregator, aml_transaction_amount, aml_merchant_reputation, aml_response], dc_edges = aml_edges\<rparr>"

definition decisionTemplates :: "dc_content obj" where
  "decisionTemplates = [(''shipping-fees'', shipping_template), (''company-analysis'', company_template), (''aml'', aml_template)]"

section \<open>What a template has to be\<close>

definition elements :: "json option \<Rightarrow> json list" where
  "elements v = nullish (as_array v) []"

definition texts_at :: "string \<Rightarrow> json list \<Rightarrow> string list" where
  "texts_at k = somes (\<lambda>c. as_string (jget (Some c) k))"

fun text_entries :: "json \<Rightarrow> (string \<times> string) list" where
  "text_entries (JObj xs) = somes (\<lambda>(k, v). map_option (\<lambda>s. (k, s)) (as_string (Some v))) xs"
| "text_entries _ = []"

text \<open>A rule has a text in its id cell and in the cell of each column, and nothing else.\<close>

definition rule_typed :: "string list \<Rightarrow> json \<Rightarrow> bool" where
  "rule_typed cols r =
     (let ks = map fst (text_entries r) in
      distinct ks \<and> list_all (\<lambda>k. k \<in> set ks) (''_id'' # cols) \<and> list_all (\<lambda>k. k \<in> set (''_id'' # cols)) ks)"

definition column_ids :: "json option \<Rightarrow> string \<Rightarrow> string list" where
  "column_ids t k = texts_at ''id'' (elements (jget t k))"

definition table_typed :: "json option \<Rightarrow> bool" where
  "table_typed t =
     (let rules = elements (jget t ''rules''); cols = column_ids t ''inputs'' @ column_ids t ''outputs'' in
      distinct cols \<and> ''_id'' \<notin> set cols \<and> list_all (rule_typed cols) rules \<and>
      distinct (texts_at ''_id'' rules) \<and> jget t ''hitPolicy'' \<in> {Some (JStr ''first''), Some (JStr ''collect'')} \<and>
      length (texts_at ''type'' (elements (jget t ''inputs'') @ elements (jget t ''outputs''))) = length cols)"

text \<open>The last rule asks nothing of its inputs, so a table with the policy \<open>first\<close> always decides.\<close>

definition catch_all :: "json option \<Rightarrow> bool" where
  "catch_all t =
     (case rev (elements (jget t ''rules'')) of
        [] \<Rightarrow> False
      | r # rs \<Rightarrow> list_all (\<lambda>c. jget (Some r) c = Some (JStr [])) (column_ids t ''inputs''))"

definition statements :: "json option \<Rightarrow> string list" where
  "statements t = texts_at ''id'' (elements (jget t ''statements''))"

definition node_typed :: "dc_node \<Rightarrow> bool" where
  "node_typed n =
     (case dn_type n of
        None \<Rightarrow> False
      | Some t \<Rightarrow>
          t \<in> set NODE_TYPES \<and>
          (if t = ''inputNode'' \<or> t = ''outputNode'' then dn_content n = None
           else if t = ''decisionTableNode'' then table_typed (dn_content n) \<and> catch_all (dn_content n)
           else if t = ''functionNode'' then as_string (dn_content n) \<noteq> None
           else t = ''switchNode'' \<and> distinct (statements (dn_content n)) \<and> statements (dn_content n) \<noteq> []))"

text \<open>Edges that leave a switch name one of its statements, the others nothing.\<close>

definition handle_typed :: "dc_node list \<Rightarrow> dc_edge \<Rightarrow> bool" where
  "handle_typed ns e =
     (case find_by dn_id (de_sourceId e) ns of
        None \<Rightarrow> False
      | Some n \<Rightarrow> if dn_type n = Some ''switchNode''
                 then de_sourceHandle e \<noteq> None \<and> the (de_sourceHandle e) \<in> set (statements (dn_content n))
                 else de_sourceHandle e = None)"

definition of_type :: "string \<Rightarrow> dc_content \<Rightarrow> string list" where
  "of_type t c = map dn_id (filter (\<lambda>n. dn_type n = Some t) (dc_nodes c))"

definition template_typed :: "dc_content \<Rightarrow> bool" where
  "template_typed c =
     (list_all node_typed (dc_nodes c) \<and> list_all (handle_typed (dc_nodes c)) (dc_edges c) \<and>
      length (of_type ''inputNode'' c) = 1 \<and> length (of_type ''outputNode'' c) = 1)"

text \<open>The template as a graph of the editor.\<close>

definition graph_of :: "dc_content \<Rightarrow> graph" where
  "graph_of c =
     \<lparr>g_nodes = map (\<lambda>n. \<lparr>j_id = dn_id n, j_name = Some (dn_name n), j_type = dn_type n, j_content = dn_content n,
        j_position = Some (dn_position n)\<rparr>) (dc_nodes c),
      g_edges = map (\<lambda>e. \<lparr>je_id = de_id e, je_source = de_sourceId e, je_target = de_targetId e,
        je_sourceHandle = de_sourceHandle e, je_targetHandle = None\<rparr>) (dc_edges c)\<rparr>"

definition template_flow :: "dc_content \<Rightarrow> (string \<times> string) list" where
  "template_flow c = map (\<lambda>e. (de_sourceId e, de_targetId e)) (dc_edges c)"

text \<open>Nodes without an incoming edge are taken away, again and again.\<close>

fun peel :: "(string \<times> string) list \<Rightarrow> nat \<Rightarrow> string list \<Rightarrow> bool" where
  "peel es 0 vs = (vs = [])"
| "peel es (Suc n) vs = peel es n (filter (\<lambda>v. list_ex (\<lambda>e. snd e = v \<and> fst e \<in> set vs) es) vs)"

lemma peel_acyclic: "peel es n vs \<Longrightarrow> acyclic (set es \<inter> set vs \<times> set vs)"
proof (induction n arbitrary: vs)
  case (Suc n)
  let ?ws = "filter (\<lambda>v. list_ex (\<lambda>e. snd e = v \<and> fst e \<in> set vs) es) vs"
  have into: "y \<in> set ?ws" if "(x, y) \<in> (set es \<inter> set vs \<times> set vs)\<^sup>+" for x y
    using that by (induction) (force simp: list_ex_iff)+
  have stay: "(x, y) \<in> (set es \<inter> set ?ws \<times> set ?ws)\<^sup>+"
    if "(x, y) \<in> (set es \<inter> set vs \<times> set vs)\<^sup>+" and "x \<in> set ?ws" for x y
    using that
  proof (induction)
    case (base y)
    with into [OF r_into_trancl [OF base(1)]] show ?case by (auto intro!: r_into_trancl)
  next
    case (step y z)
    have "y \<in> set ?ws" "z \<in> set ?ws"
      using into [OF step(1)] into [OF r_into_trancl [OF step(2)]] by blast+
    with step show ?case by (meson IntD1 IntI SigmaI trancl.trancl_into_trancl)
  qed
  have "acyclic (set es \<inter> set ?ws \<times> set ?ws)"
    by (rule Suc.IH) (use Suc.prems in simp)
  then show ?case
    unfolding acyclic_def using stay [OF _ into] by blast
qed (simp add: acyclic_def)

lemma peel_flow:
  assumes "peel (template_flow c) n (map dn_id (dc_nodes c))" and "edges_attached (graph_of c)"
  shows "acyclic (set (template_flow c))"
proof -
  have "set (template_flow c) \<subseteq> set (map dn_id (dc_nodes c)) \<times> set (map dn_id (dc_nodes c))"
    using assms(2) by (auto simp: edges_attached_def graph_of_def template_flow_def)
  then have "set (template_flow c) \<inter> set (map dn_id (dc_nodes c)) \<times> set (map dn_id (dc_nodes c)) = set (template_flow c)"
    by blast
  with peel_acyclic [OF assms(1)] show ?thesis by simp
qed

lemma shipping_ok: "template_typed shipping_template \<and> graph_inv (graph_of shipping_template) \<and>
    peel (template_flow shipping_template) 3 (map dn_id (dc_nodes shipping_template))"
  by code_simp

lemma company_ok: "template_typed company_template \<and> graph_inv (graph_of company_template) \<and>
    peel (template_flow company_template) 7 (map dn_id (dc_nodes company_template))"
  by code_simp

lemma aml_ok: "template_typed aml_template \<and> graph_inv (graph_of aml_template) \<and>
    peel (template_flow aml_template) 9 (map dn_id (dc_nodes aml_template))"
  by code_simp

text \<open>Every template is well typed: node kinds and contents fit, every rule of a decision table fills
  exactly the columns of its table, every table ends in a rule without conditions, edges that leave a
  switch carry one of its statements; ids and names are distinct, no edge dangles, and the template_flow from the one
  request to the one response has no cycle.\<close>

theorem templates_well_typed:
  "list_all (\<lambda>(k, c). template_typed c \<and> graph_inv (graph_of c) \<and> acyclic (set (template_flow c))) decisionTemplates"
proof -
  have "graph_inv (graph_of c) \<Longrightarrow> edges_attached (graph_of c)" for c
    by (simp add: graph_inv_def)
  with shipping_ok company_ok aml_ok show ?thesis
    by (auto simp: decisionTemplates_def intro: peel_flow)
qed

text \<open>The country lists of the sanctions tables differ in the code they have for North Korea.\<close>

lemma sanctions_disagree:
  "list_ex (\<lambda>r. includes_str (nullish (as_string (jget (Some r) ''e03b1f07-7d3a-4a64-9aa5-aca83e4cfa01'')) []) ''\"KP\"'')
     (elements (jget (dn_content aml_usd_sanctions) ''rules'')) \<and>
   list_all (\<lambda>r. \<not> includes_str (nullish (as_string (jget (Some r) ''90adfc05-ffdf-490f-ab47-cede8dd899f3'')) []) ''\"KP\"'')
     (elements (jget (dn_content aml_eur_sanctions) ''rules'')) \<and>
   list_all (\<lambda>r. \<not> includes_str (nullish (as_string (jget (Some r) ''c31240e0-8761-4c31-9f79-5210a656f820'')) []) ''\"KP\"'')
     (elements (jget (dn_content aml_global_sanctions) ''rules'')) \<and>
   texts_at ''field'' (elements (jget (dn_content aml_global_sanctions) ''inputs'')) = []"
  by code_simp

end
