(* ===== verification/Payload_Schema.thy ===== *)
theory Payload_Schema
  imports Decision_Templates
begin

text \<open>
  The schema of the rule engine's payload that is published to the copilot
  (\<open>example-apps/atomic-fi-jdm-editor/src/copilot/payload-schema.ts\<close>), compared with the enumerations of
  the backend it mirrors (\<open>lib/atomic_fi/*_context\<close>) and with the fields the decision templates read.
\<close>

section \<open>The published schema\<close>

datatype field_type = T_string | T_number | T_object | T_enum "string list"

record schema_field =
  sf_path :: string
  sf_type :: field_type
  sf_description :: "string option"

definition ff :: "string \<Rightarrow> field_type \<Rightarrow> string option \<Rightarrow> schema_field" where
  "ff p t d = \<lparr>sf_path = p, sf_type = t, sf_description = d\<rparr>"

definition em_dash :: string where "em_dash = [CHR 0xE2, CHR 0x80, CHR 0x94]"

definition transaction_fields :: "schema_field list" where
  "transaction_fields = [
     ff ''transaction.id'' (T_string) (Some ''UUID''),
     ff ''transaction.transaction_type'' (T_enum [''credit_transfer'', ''direct_debit'', ''card_payment'', ''refund'', ''reversal'', ''internal_transfer'']) None,
     ff ''transaction.status'' (T_enum [''pending'', ''accepted'', ''settled'', ''rejected'', ''reversed'', ''cancelled'']) None,
     ff ''transaction.amount'' (T_number) (Some (''Minor units (cents) '' @ em_dash @ '' 2500 means $25.00'')),
     ff ''transaction.currency'' (T_string) (Some ''ISO 4217 (USD, EUR, ...)''),
     ff ''transaction.end_to_end_id'' (T_string) (Some ''ISO 20022 reference''),
     ff ''transaction.uetr'' (T_string) (Some ''SWIFT UETR''),
     ff ''transaction.requested_execution_date'' (T_string) (Some ''YYYY-MM-DD''),
     ff ''transaction.settlement_date'' (T_string) (Some ''YYYY-MM-DD''),
     ff ''transaction.rule'' (T_string) (Some ''Output: matched rule name''),
     ff ''transaction.max_amount'' (T_number) (Some ''Output: per-txn max (minor units)''),
     ff ''transaction.daily_debit_limit'' (T_number) (Some ''Output''),
     ff ''transaction.weekly_debit_limit'' (T_number) (Some ''Output''),
     ff ''transaction.monthly_debit_limit'' (T_number) (Some ''Output''),
     ff ''transaction.yearly_debit_limit'' (T_number) (Some ''Output''),
     ff ''transaction.daily_credit_limit'' (T_number) (Some ''Output''),
     ff ''transaction.weekly_credit_limit'' (T_number) (Some ''Output''),
     ff ''transaction.monthly_credit_limit'' (T_number) (Some ''Output''),
     ff ''transaction.yearly_credit_limit'' (T_number) (Some ''Output'')]"

definition account_holder_fields :: "schema_field list" where
  "account_holder_fields = [
     ff ''account_holder.id'' (T_string) (Some ''UUID''),
     ff ''account_holder.external_id'' (T_string) None,
     ff ''account_holder.holder_type'' (T_enum [''individual'', ''business'', ''trust'', ''nonprofit'']) None,
     ff ''account_holder.status'' (T_enum [''pending'', ''active'', ''suspended'', ''closed'', ''flagged'']) None,
     ff ''account_holder.kyc_status'' (T_enum [''not_started'', ''in_progress'', ''approved'', ''rejected'', ''expired'']) None,
     ff ''account_holder.risk_level'' (T_enum [''low'', ''medium'', ''high'', ''very_high'']) None,
     ff ''account_holder.enabled_currencies'' (T_object) (Some (''string[] '' @ em_dash @ '' e.g. [\"USD\",\"EUR\"]''))]"

definition debtor_payment_account_fields :: "schema_field list" where
  "debtor_payment_account_fields = [
     ff ''debtor_payment_account.id'' (T_string) (Some ''UUID''),
     ff ''debtor_payment_account.account_type'' (T_enum [''bank_account'', ''card'', ''wallet'', ''crypto_wallet'']) None,
     ff ''debtor_payment_account.status'' (T_enum [''active'', ''suspended'', ''blocked'']) None,
     ff ''debtor_payment_account.currency'' (T_string) (Some ''ISO 4217''),
     ff ''debtor_payment_account.bank_name'' (T_string) None,
     ff ''debtor_payment_account.iban'' (T_string) (Some ''sensitive (PCI/PII)''),
     ff ''debtor_payment_account.account_holder.kyc_status'' (T_enum [''not_started'', ''in_progress'', ''approved'', ''rejected'', ''expired'']) (Some ''Nested KYC of the counterparty payment account holder''),
     ff ''debtor_payment_account.account_holder.holder_type'' (T_enum [''individual'', ''business'', ''trust'', ''nonprofit'']) None,
     ff ''debtor_payment_account.account_holder.risk_level'' (T_enum [''low'', ''medium'', ''high'', ''very_high'']) None]"

definition creditor_payment_account_fields :: "schema_field list" where
  "creditor_payment_account_fields = [
     ff ''creditor_payment_account.id'' (T_string) (Some ''UUID''),
     ff ''creditor_payment_account.account_type'' (T_enum [''bank_account'', ''card'', ''wallet'', ''crypto_wallet'']) None,
     ff ''creditor_payment_account.status'' (T_enum [''active'', ''suspended'', ''blocked'']) None,
     ff ''creditor_payment_account.currency'' (T_string) (Some ''ISO 4217''),
     ff ''creditor_payment_account.bank_name'' (T_string) None,
     ff ''creditor_payment_account.iban'' (T_string) (Some ''sensitive (PCI/PII)''),
     ff ''creditor_payment_account.account_holder.kyc_status'' (T_enum [''not_started'', ''in_progress'', ''approved'', ''rejected'', ''expired'']) (Some ''Nested KYC of the counterparty payment account holder''),
     ff ''creditor_payment_account.account_holder.holder_type'' (T_enum [''individual'', ''business'', ''trust'', ''nonprofit'']) None,
     ff ''creditor_payment_account.account_holder.risk_level'' (T_enum [''low'', ''medium'', ''high'', ''very_high'']) None]"

definition debtor_counterparty_fields :: "schema_field list" where
  "debtor_counterparty_fields = [
     ff ''debtor_counterparty.id'' (T_string) (Some ''UUID''),
     ff ''debtor_counterparty.status'' (T_enum [''active'', ''suspended'', ''blocked'']) None,
     ff ''debtor_counterparty.counterparty_number'' (T_string) None]"

definition creditor_counterparty_fields :: "schema_field list" where
  "creditor_counterparty_fields = [
     ff ''creditor_counterparty.id'' (T_string) (Some ''UUID''),
     ff ''creditor_counterparty.status'' (T_enum [''active'', ''suspended'', ''blocked'']) None,
     ff ''creditor_counterparty.counterparty_number'' (T_string) None]"

definition RULE_ENGINE_PAYLOAD_SCHEMA :: "schema_field list obj" where
  "RULE_ENGINE_PAYLOAD_SCHEMA =
     [(''transaction'', transaction_fields), (''account_holder'', account_holder_fields),
      (''debtor_payment_account'', debtor_payment_account_fields),
      (''creditor_payment_account'', creditor_payment_account_fields),
      (''debtor_counterparty'', debtor_counterparty_fields), (''creditor_counterparty'', creditor_counterparty_fields)]"

definition all_fields :: "schema_field list" where
  "all_fields = concat (map snd RULE_ENGINE_PAYLOAD_SCHEMA)"

section \<open>The enumerations of the backend\<close>

definition transaction_enums :: "string list obj" where
  "transaction_enums =
     [(''transaction_type'', [''credit_transfer'', ''direct_debit'', ''card_payment'', ''refund'', ''reversal'', ''internal_transfer'']),
      (''status'', [''pending'', ''accepted'', ''settled'', ''rejected'', ''reversed'', ''cancelled''])]"

definition account_holder_enums :: "string list obj" where
  "account_holder_enums =
     [(''account_holder_type'', [''individual'', ''business'', ''trust'', ''nonprofit'']),
      (''status'', [''pending'', ''active'', ''suspended'', ''closed'', ''flagged'']),
      (''kyc_status'', [''not_started'', ''in_progress'', ''approved'', ''rejected'', ''expired'']),
      (''risk_level'', [''low'', ''medium'', ''high'', ''very_high'', ''prohibited''])]"

definition payment_account_enums :: "string list obj" where
  "payment_account_enums =
     [(''account_type'', [''bank_account'', ''card'', ''wallet'', ''crypto_wallet'']),
      (''status'', [''active'', ''suspended'', ''blocked''])]"

definition counterparty_enums :: "string list obj" where
  "counterparty_enums = [(''status'', [''active'', ''suspended'', ''blocked''])]"

definition under :: "string \<Rightarrow> string list obj \<Rightarrow> string list obj" where
  "under p enums = map (\<lambda>(k, vs). (p @ ''.'' @ k, vs)) enums"

text \<open>The payload of a transaction (\<open>RuleEngine.build_payload\<close>): the entities as their public API shows them,
  with the account holder inside each payment account.\<close>

definition payload_enums :: "string list obj" where
  "payload_enums =
     under ''transaction'' transaction_enums @ under ''account_holder'' account_holder_enums @
     concat (map (\<lambda>p. under p payment_account_enums @ under (p @ ''.account_holder'') account_holder_enums)
       [''debtor_payment_account'', ''creditor_payment_account'']) @
     under ''debtor_counterparty'' counterparty_enums @ under ''creditor_counterparty'' counterparty_enums"

text \<open>A field of the schema with values agrees with the backend when the backend has it with the same values.\<close>

definition agrees :: "schema_field \<Rightarrow> bool" where
  "agrees f = (case sf_type f of T_enum vs \<Rightarrow> obj_get payload_enums (sf_path f) = Some vs | _ \<Rightarrow> True)"

section \<open>Facts\<close>

lemmas field_lists = transaction_fields_def account_holder_fields_def debtor_payment_account_fields_def
  creditor_payment_account_fields_def debtor_counterparty_fields_def creditor_counterparty_fields_def

lemma schema_paths: "distinct (map sf_path all_fields)"
  by code_simp

lemma schema_groups:
  "list_all (\<lambda>(g, fs). list_all (\<lambda>f. starts_with (sf_path f) (g @ ''.'')) fs) RULE_ENGINE_PAYLOAD_SCHEMA"
  by code_simp

text \<open>The input fields of the decision tables of a template.\<close>

definition input_fields :: "dc_content \<Rightarrow> string list" where
  "input_fields c =
     concat (map (\<lambda>n. texts_at ''field'' (elements (jget (dn_content n) ''inputs''))) (dc_nodes c))"

section \<open>Properties\<close>


text \<open>The copilot is told to use only the paths of the schema; no input of a decision template is one of them.\<close>

lemma templates_read_no_payload_field:
  "list_all (\<lambda>(k, c). input_fields c \<noteq> [] \<and>
       list_all (\<lambda>f. f \<notin> set (map sf_path all_fields)) (input_fields c)) decisionTemplates"
  by code_simp

end
