(* ===== verification/Copilot_Runtime.thy ===== *)
theory Copilot_Runtime
  imports Js_Object
begin

text \<open>
  The sidecar that serves the copilot (\<open>external-deps/copilot-runtime/src/\<close>): the keepalive wrapper around
  event streams (\<open>server.ts\<close>), the choice of the model from the environment (\<open>models/index.ts\<close>), the
  system prompt made of the readables (\<open>runtime.ts\<close>) and the logger (\<open>logger.ts\<close>).

  The environment is a function from names to values. What the wrapper reads are the chunks of the
  upstream response and the ticks of its timer, each with the time of the clock in milliseconds.
\<close>

section \<open>Keepalive\<close>

definition SSE_KEEPALIVE_MS :: nat where "SSE_KEEPALIVE_MS = 15000"

definition timer_period :: "nat \<Rightarrow> nat" where
  "timer_period intervalMs = max 1000 (intervalMs div 2)"

definition newline :: string where "newline = [CHR 0x0A]"

definition keepaliveFrame :: string where
  "keepaliveFrame = '': keepalive'' @ newline @ newline"

text \<open>\<open>ka_open\<close>: the stream still takes bytes (it was neither closed, failed nor cancelled by the client).\<close>

record keepalive =
  ka_closed :: bool
  ka_open :: bool
  ka_lastByteAt :: nat
  ka_out :: "string list"

datatype stream_event = Tick nat | Chunk nat string | Upstream_end | Upstream_error | Client_cancel

definition ka_start :: "nat \<Rightarrow> keepalive" where
  "ka_start now = \<lparr>ka_closed = False, ka_open = True, ka_lastByteAt = now, ka_out = []\<rparr>"

definition ka_tick :: "nat \<Rightarrow> nat \<Rightarrow> keepalive \<Rightarrow> keepalive" where
  "ka_tick intervalMs now s =
     (if ka_closed s then s
      else if now - ka_lastByteAt s < intervalMs then s
      else if ka_open s then s\<lparr>ka_out := ka_out s @ [keepaliveFrame], ka_lastByteAt := now\<rparr>
      else s)"

definition ka_finish :: "keepalive \<Rightarrow> keepalive" where
  "ka_finish s = s\<lparr>ka_closed := True, ka_open := False\<rparr>"

definition ka_chunk :: "nat \<Rightarrow> string \<Rightarrow> keepalive \<Rightarrow> keepalive" where
  "ka_chunk now bytes s =
     (if ka_closed s then s
      else let s' = s\<lparr>ka_lastByteAt := now\<rparr> in
           if ka_open s then s'\<lparr>ka_out := ka_out s @ [bytes]\<rparr> else ka_finish s')"

fun ka_step :: "nat \<Rightarrow> keepalive \<Rightarrow> stream_event \<Rightarrow> keepalive" where
  "ka_step intervalMs s (Tick now) = ka_tick intervalMs now s"
| "ka_step intervalMs s (Chunk now bytes) = ka_chunk now bytes s"
| "ka_step intervalMs s Upstream_end = (if ka_closed s then s else ka_finish s)"
| "ka_step intervalMs s Upstream_error = (if ka_closed s then s else ka_finish s)"
| "ka_step intervalMs s Client_cancel = s\<lparr>ka_open := False\<rparr>"

text \<open>Only a response with a body and the content type of an event stream is wrapped.\<close>

record response =
  rs_contentType :: "string option"
  rs_body :: "stream_event list option"

definition withSseKeepalive :: "nat \<Rightarrow> nat \<Rightarrow> response \<Rightarrow> keepalive option" where
  "withSseKeepalive intervalMs now r =
     (if \<not> starts_with (nullish (rs_contentType r) []) ''text/event-stream'' then None
      else map_option (run (ka_step intervalMs) (ka_start now)) (rs_body r))"

section \<open>What a client reads\<close>

text \<open>The event-stream format: a line that starts with a colon is a comment, an empty line ends the
  event, every other line is a field of it. The reader keeps the events, the fields of the event that is
  not complete, and the line that is not complete.\<close>

type_synonym reader = "string list list \<times> string list \<times> string"

fun read_char :: "reader \<Rightarrow> char \<Rightarrow> reader" where
  "read_char (evs, fs, line) c =
     (if c \<noteq> CHR 0x0A then (evs, fs, line @ [c])
      else if line = [] then (if fs = [] then (evs, [], []) else (evs @ [fs], [], []))
      else if hd line = CHR '':'' then (evs, fs, [])
      else (evs, fs @ [line], []))"

definition read_bytes :: "reader \<Rightarrow> string \<Rightarrow> reader" where
  "read_bytes = foldl read_char"

definition events_of :: "string list \<Rightarrow> string list list" where
  "events_of chunks = fst (read_bytes ([], [], []) (concat chunks))"

text \<open>The chunk holds whole events.\<close>

definition whole_events :: "string \<Rightarrow> bool" where
  "whole_events bytes = (snd (read_bytes ([], [], []) bytes) = ([], []))"

lemma read_bytes_append [simp]: "read_bytes r (xs @ ys) = read_bytes (read_bytes r xs) ys"
  by (simp add: read_bytes_def)

lemma read_bytes_Nil [simp]: "read_bytes r [] = r"
  by (simp add: read_bytes_def)

lemma read_keepalive: "read_bytes (evs, [], []) keepaliveFrame = (evs, [], [])"
  by (simp add: read_bytes_def keepaliveFrame_def newline_def)

text \<open>The events read so far do not matter to the reader.\<close>

lemma read_char_evs: "read_char (evs @ es, r) c = (evs @ fst (read_char (es, r) c), snd (read_char (es, r) c))"
  by (cases r) auto

lemma read_bytes_evs: "read_bytes (evs @ es, r) bytes = (evs @ fst (read_bytes (es, r) bytes), snd (read_bytes (es, r) bytes))"
  unfolding read_bytes_def
proof (induction bytes arbitrary: es r)
  case (Cons c bytes)
  obtain es' r' where "read_char (es, r) c = (es', r')" by (cases "read_char (es, r) c")
  then show ?case
    using Cons.IH [of es' r'] read_char_evs [of evs es r c] by simp
qed simp

lemma read_whole: "whole_events bytes \<Longrightarrow> \<exists>es. read_bytes (evs, [], []) bytes = (evs @ es, [], [])"
  using read_bytes_evs [of evs "[]" "([], [])" bytes] by (auto simp: whole_events_def prod_eq_iff)

text \<open>The chunks the upstream sent while the stream took them.\<close>

fun forwarded :: "nat \<Rightarrow> keepalive \<Rightarrow> stream_event list \<Rightarrow> string list" where
  "forwarded i s [] = []"
| "forwarded i s (e # es) =
     (case e of Chunk now bytes \<Rightarrow> (if \<not> ka_closed s \<and> ka_open s then [bytes] else []) | _ \<Rightarrow> []) @
     forwarded i (ka_step i s e) es"

fun chunks_whole :: "stream_event list \<Rightarrow> bool" where
  "chunks_whole [] = True"
| "chunks_whole (Chunk now bytes # es) = (whole_events bytes \<and> chunks_whole es)"
| "chunks_whole (e # es) = chunks_whole es"

lemma keepalive_run:
  assumes "chunks_whole es" and "read_bytes ([], [], []) (concat (ka_out s)) = (evs, [], [])"
  shows "read_bytes ([], [], []) (concat (ka_out (run (ka_step i) s es))) =
    read_bytes (evs, [], []) (concat (forwarded i s es))"
  using assms
proof (induction es arbitrary: s evs)
  case (Cons e es)
  show ?case
  proof (cases e)
    case (Chunk now bytes)
    with Cons.prems obtain more_evs where "read_bytes (evs, [], []) bytes = (evs @ more_evs, [], [])"
      using read_whole by auto
    with Cons Chunk show ?thesis
      by (auto simp: ka_chunk_def ka_finish_def Let_def)
  next
    case (Tick now)
    with Cons show ?thesis by (auto simp: ka_tick_def read_keepalive)
  qed (use Cons in \<open>auto simp: ka_finish_def\<close>)
qed simp


section \<open>Silence\<close>

text \<open>The events come in the order of the clock, and a tick comes at most \<open>p\<close> after the tick before it
  (\<open>t0\<close>).\<close>

fun on_schedule :: "nat \<Rightarrow> nat \<Rightarrow> nat \<Rightarrow> stream_event list \<Rightarrow> bool" where
  "on_schedule p t0 prev [] = True"
| "on_schedule p t0 prev (Tick now # es) = (prev \<le> now \<and> now \<le> t0 + p \<and> on_schedule p now now es)"
| "on_schedule p t0 prev (Chunk now bytes # es) = (prev \<le> now \<and> now \<le> t0 + p \<and> on_schedule p t0 now es)"
| "on_schedule p t0 prev (e # es) = on_schedule p t0 prev es"

text \<open>How long the stream has been silent at each event while it is open.\<close>

fun silences :: "nat \<Rightarrow> keepalive \<Rightarrow> stream_event list \<Rightarrow> nat list" where
  "silences i s [] = []"
| "silences i s (e # es) =
     (if ka_closed s \<or> \<not> ka_open s then []
      else (case e of Tick now \<Rightarrow> [now - ka_lastByteAt s] | Chunk now bytes \<Rightarrow> [now - ka_lastByteAt s] | _ \<Rightarrow> [])) @
     silences i (ka_step i s e) es"

lemma silences_bounded:
  assumes "on_schedule p t0 prev es" and "ka_open s \<Longrightarrow> \<not> ka_closed s \<Longrightarrow> t0 - ka_lastByteAt s < i" and "t0 \<le> prev"
    and "0 < i"
  shows "list_all (\<lambda>g. g < i + p) (silences i s es)"
  using assms
proof (induction es arbitrary: s t0 prev)
  case (Cons e es)
  show ?case
  proof (cases e)
    case (Tick now)
    have "list_all (\<lambda>g. g < i + p) (silences i (ka_tick i now s) es)"
      using Cons.prems Tick by (intro Cons.IH [of now now]) (auto simp: ka_tick_def split: if_splits)
    with Cons.prems Tick show ?thesis by auto
  next
    case (Chunk now bytes)
    have "list_all (\<lambda>g. g < i + p) (silences i (ka_chunk now bytes s) es)"
      using Cons.prems Chunk by (intro Cons.IH [of t0 now]) (auto simp: ka_chunk_def ka_finish_def Let_def)
    with Cons.prems Chunk show ?thesis by auto
  next
    case Upstream_end
    with Cons.prems have "list_all (\<lambda>g. g < i + p) (silences i (ka_step i s e) es)"
      by (intro Cons.IH [of t0 prev]) (auto simp: ka_finish_def split: if_splits)
    with Upstream_end show ?thesis by simp
  next
    case Upstream_error
    with Cons.prems have "list_all (\<lambda>g. g < i + p) (silences i (ka_step i s e) es)"
      by (intro Cons.IH [of t0 prev]) (auto simp: ka_finish_def split: if_splits)
    with Upstream_error show ?thesis by simp
  next
    case Client_cancel
    with Cons.prems have "list_all (\<lambda>g. g < i + p) (silences i (ka_step i s e) es)"
      by (intro Cons.IH [of t0 prev]) auto
    with Client_cancel show ?thesis by simp
  qed
qed simp

section \<open>The choice of the model\<close>

type_synonym env = "string \<Rightarrow> string option"

definition PROVIDERS :: "string list" where
  "PROVIDERS = [''openai'', ''anthropic'', ''google'', ''groq'', ''ollama'', ''compatible'']"

definition quote :: "string \<Rightarrow> string" where
  "quote s = [CHR 0x22] @ s @ [CHR 0x22]"

definition envProvider :: "env \<Rightarrow> string + string" where
  "envProvider env =
     (let raw = nullish (env ''LLM_PROVIDER'') ''ollama'' in
      if raw \<notin> set PROVIDERS
      then Inl (''Unknown LLM_PROVIDER '' @ quote raw @ ''. Expected one of: '' @ join '', '' PROVIDERS @ ''.'')
      else Inr raw)"

definition requireEnv :: "env \<Rightarrow> string \<Rightarrow> string + string" where
  "requireEnv env key =
     (if truthy (env key) then Inr (the (env key))
      else (case envProvider env of
              Inl e \<Rightarrow> Inl e
            | Inr p \<Rightarrow> Inl (key @ '' is required for LLM_PROVIDER='' @ p @ ''.'')))"

text \<open>The calls of the provider packages with the arguments they get.\<close>

datatype language_model =
  OpenAI string string
| Anthropic string string
| Google string string
| Groq string string
| Ollama "string option" string
| Compatible string string "string option" string

definition pickModel :: "env \<Rightarrow> string + language_model" where
  "pickModel env =
     bind_sum (envProvider env) (\<lambda>provider.
     bind_sum (requireEnv env ''LLM_MODEL'') (\<lambda>model.
       if provider = ''openai'' then bind_sum (requireEnv env ''OPENAI_API_KEY'') (\<lambda>k. Inr (OpenAI k model))
       else if provider = ''anthropic'' then bind_sum (requireEnv env ''ANTHROPIC_API_KEY'') (\<lambda>k. Inr (Anthropic k model))
       else if provider = ''google'' then bind_sum (requireEnv env ''GOOGLE_API_KEY'') (\<lambda>k. Inr (Google k model))
       else if provider = ''groq'' then bind_sum (requireEnv env ''GROQ_API_KEY'') (\<lambda>k. Inr (Groq k model))
       else if provider = ''ollama'' then
         Inr (Ollama (if truthy (env ''OLLAMA_BASE_URL'') then env ''OLLAMA_BASE_URL'' else None) model)
       else bind_sum (requireEnv env ''LLM_BASE_URL'') (\<lambda>url.
         Inr (Compatible (nullish (env ''LLM_COMPATIBLE_NAME'') ''compatible'') url (env ''LLM_API_KEY'') model))))"

text \<open>The variables a provider needs beside the model name.\<close>

definition needed :: "string \<Rightarrow> string list" where
  "needed p =
     (if p = ''openai'' then [''OPENAI_API_KEY'']
      else if p = ''anthropic'' then [''ANTHROPIC_API_KEY'']
      else if p = ''google'' then [''GOOGLE_API_KEY'']
      else if p = ''groq'' then [''GROQ_API_KEY'']
      else if p = ''compatible'' then [''LLM_BASE_URL'']
      else [])"

lemma requireEnv_Inr: "requireEnv env k = Inr v \<longleftrightarrow> truthy (env k) \<and> v = the (env k)"
  by (auto simp: requireEnv_def split: sum.split)

lemma requireEnv_Inl: "(\<exists>e. requireEnv env k = Inl e) \<longleftrightarrow> \<not> truthy (env k)"
  by (auto simp: requireEnv_def split: sum.split)

lemma bind_requireEnv: "(\<exists>e. bind_sum (requireEnv env k) (\<lambda>v. Inr (f v)) = Inl e) \<longleftrightarrow> \<not> truthy (env k)"
  by (simp add: bind_sum_Inl requireEnv_Inl)

section \<open>The system prompt\<close>

record context_item =
  cx_description :: string
  cx_value :: string

definition system_prompt :: "context_item list \<Rightarrow> string option" where
  "system_prompt items =
     (if items \<noteq> []
      then Some (''The following information is available to you:'' @ newline @ newline @
             join newline (map (\<lambda>c. cx_description c @ '':'' @ newline @ cx_value c @ newline) items))
      else None)"

section \<open>The logger\<close>

text \<open>\<open>stringify\<close> is \<open>JSON.stringify\<close>, \<open>None\<close> when it throws; \<open>plain\<close> is \<open>String\<close>.\<close>

definition formatValue :: "(json \<Rightarrow> string option) \<Rightarrow> (json \<Rightarrow> string) \<Rightarrow> json option \<Rightarrow> string" where
  "formatValue stringify plain v =
     (case v of
        Some JNull \<Rightarrow> ''null''
      | None \<Rightarrow> ''undefined''
      | Some (JStr s) \<Rightarrow>
          if s = [] then [CHR 0x22, CHR 0x22]
          else if list_ex (\<lambda>c. is_ws c \<or> c = CHR ''='') s then nullish (stringify (JStr s)) (plain (JStr s)) else s
      | Some (JNum n) \<Rightarrow> plain (JNum n)
      | Some (JBool b) \<Rightarrow> plain (JBool b)
      | Some x \<Rightarrow> nullish (stringify x) (plain x))"

definition truncate :: "string option \<Rightarrow> nat \<Rightarrow> string option" where
  "truncate text limit =
     (case text of
        None \<Rightarrow> None
      | Some s \<Rightarrow> Some (if length s \<le> limit then s
                   else take limit s @ [CHR 0xE2, CHR 0x80, CHR 0xA6] @ ''(+'' @ nat_to_string (length s - limit) @ '' chars)''))"


lemma truncate_short: "length s \<le> n \<Longrightarrow> truncate (Some s) n = Some s"
  by (simp add: truncate_def)

lemma truncate_head: "n < length s \<Longrightarrow> starts_with (the (truncate (Some s) n)) (take n s)"
  by (simp add: truncate_def starts_with_iff)

lemma formatValue_plain: "s \<noteq> [] \<Longrightarrow> \<not> list_ex (\<lambda>c. is_ws c \<or> c = CHR ''='') s \<Longrightarrow> formatValue f g (Some (JStr s)) = s"
  by (simp add: formatValue_def)

section \<open>Properties\<close>

text \<open>C30. The keepalive is invisible to the client: when every upstream chunk holds whole events, the
  client reads exactly the events of the chunks that were forwarded, however ticks and chunks interleave
  and however the stream ends.\<close>

theorem keepalive_invisible:
  "chunks_whole es \<Longrightarrow>
   events_of (ka_out (run (ka_step i) (ka_start now) es)) = events_of (forwarded i (ka_start now) es)"
  using keepalive_run [of es "ka_start now" "[]" i] by (simp add: events_of_def ka_start_def)

text \<open>A chunk may end inside an event. A keepalive that falls into the gap ends the event too early, and
  inside a line it becomes part of the data.\<close>

definition split_stream :: "stream_event list" where
  "split_stream = [Chunk 0 ''data: {1'', Tick 2, Tick 4, Chunk 5 (''23}'' @ newline @ newline), Upstream_end]"

lemma keepalive_corrupts_a_split_event:
  "events_of (forwarded 4 (ka_start 0) split_stream) = [[''data: {123}'']] \<and>
   events_of (ka_out (run (ka_step 4) (ka_start 0) split_stream)) = [[''data: {1: keepalive''], [''23}'']]"
  by code_simp


lemma pickModel_Inl:
  "(\<exists>e. pickModel env = Inl e) \<longleftrightarrow>
     nullish (env ''LLM_PROVIDER'') ''ollama'' \<notin> set PROVIDERS \<or>
     list_ex (\<lambda>k. \<not> truthy (env k)) (''LLM_MODEL'' # needed (nullish (env ''LLM_PROVIDER'') ''ollama''))"
proof -
  let ?p = "nullish (env ''LLM_PROVIDER'') ''ollama''"
  show ?thesis
  proof (cases "?p \<in> set PROVIDERS")
    case False
    then show ?thesis by (simp add: pickModel_def envProvider_def Let_def)
  next
    case True
    then have p: "envProvider env = Inr ?p" by (simp add: envProvider_def Let_def)
    have cases: "?p = ''openai'' \<or> ?p = ''anthropic'' \<or> ?p = ''google'' \<or> ?p = ''groq'' \<or> ?p = ''ollama'' \<or> ?p = ''compatible''"
      using True by (simp add: PROVIDERS_def)
    have "(\<exists>e. pickModel env = Inl e) \<longleftrightarrow> list_ex (\<lambda>k. \<not> truthy (env k)) (''LLM_MODEL'' # needed ?p)"
      unfolding pickModel_def p bind_sum.simps bind_sum_Inl
      using cases by (elim disjE) (auto simp: bind_requireEnv requireEnv_Inl requireEnv_Inr needed_def)
    with True show ?thesis by simp
  qed
qed

text \<open>A model is chosen exactly when the provider is known and every variable it needs is set and not
  empty; the model name is passed on unchanged. Otherwise the choice fails, never falling back to another
  provider.\<close>

theorem pickModel_fails_loud:
  "(\<exists>m. pickModel env = Inr m) \<longleftrightarrow>
     nullish (env ''LLM_PROVIDER'') ''ollama'' \<in> set PROVIDERS \<and>
     list_all (\<lambda>k. truthy (env k)) (''LLM_MODEL'' # needed (nullish (env ''LLM_PROVIDER'') ''ollama''))"
proof -
  have "(\<exists>m. pickModel env = Inr m) \<longleftrightarrow> \<not> (\<exists>e. pickModel env = Inl e)"
    by (cases "pickModel env") simp_all
  then show ?thesis
    unfolding pickModel_Inl by (auto simp: list_ex_iff list_all_iff)
qed

theorem keepalive_invisible_witness:
  "events_of (ka_out (run (ka_step 4) (ka_start 0)
     [Chunk 0 (''data: 1'' @ newline @ newline), Tick 2, Tick 4, Chunk 5 (''data: 2'' @ newline @ newline), Upstream_end])) =
   [[''data: 1''], [''data: 2'']]"
proof -
  have "chunks_whole
      [Chunk 0 (''data: 1'' @ newline @ newline), Tick 2, Tick 4, Chunk 5 (''data: 2'' @ newline @ newline), Upstream_end]"
    by code_simp
  from keepalive_invisible [OF this, of 4 0] show ?thesis
    by (rule trans) code_simp
qed


end
