(* ===== verification/Copilot_Server.thy ===== *)
theory Copilot_Server
  imports Copilot_Runtime
begin

text \<open>
  The copilot sidecar around the pieces of \<open>Copilot_Runtime\<close>
  (\<open>external-deps/copilot-runtime/src\<close>): writing log lines (\<open>logger.ts\<close>), one turn of the agent and the
  runtime (\<open>runtime.ts\<close>), the routes of the server (\<open>server.ts\<close>) and the
  entry point with its crash handlers (\<open>main.ts\<close>).

  The conversions of messages and tools and the call of the language model belong to the agent library: the
  conversions are arguments, the call is a value. \<open>stringify\<close> is \<open>JSON.stringify\<close> (\<open>None\<close> when it throws),
  \<open>plain\<close> is \<open>String\<close>, \<open>clock\<close> the clock.
\<close>

section \<open>Log lines\<close>

datatype log_level = INFO | WARN | ERROR | DEBUG

fun level_name :: "log_level \<Rightarrow> string" where
  "level_name INFO = ''INFO''"
| "level_name WARN = ''WARN''"
| "level_name ERROR = ''ERROR''"
| "level_name DEBUG = ''DEBUG''"

definition padEnd :: "nat \<Rightarrow> string \<Rightarrow> string" where
  "padEnd n s = s @ replicate (n - length s) (CHR '' '')"

datatype console = Console_log string | Console_error string

type_synonym log_fields = "(string \<times> json option) list"

definition debugEnabled :: "env \<Rightarrow> bool" where
  "debugEnabled env = (env ''LOG_LEVEL'' = Some ''debug'')"

definition log_line ::
  "(json \<Rightarrow> string option) \<Rightarrow> (json \<Rightarrow> string) \<Rightarrow> string \<Rightarrow> log_level \<Rightarrow> string \<Rightarrow> log_fields \<Rightarrow> string" where
  "log_line stringify plain clock level event fds =
     join '' '' ((clock @ '' ['' @ padEnd 5 (level_name level) @ ''] '' @ event) #
       map (\<lambda>(key, v). key @ ''='' @ formatValue stringify plain v) fds)"

definition emit ::
  "(json \<Rightarrow> string option) \<Rightarrow> (json \<Rightarrow> string) \<Rightarrow> env \<Rightarrow> string \<Rightarrow> log_level \<Rightarrow> string \<Rightarrow> log_fields \<Rightarrow> console list" where
  "emit stringify plain env clock level event fds =
     (if level = DEBUG \<and> \<not> debugEnabled env then []
      else (let line = log_line stringify plain clock level event fds in
            [if level = ERROR then Console_error line else Console_log line]))"

section \<open>A turn of the agent\<close>

record agent_input =
  ai_messages :: "json list"
  ai_tools :: "json list"
  ai_context :: "context_item list option"

record stream_call =
  sc_model :: language_model
  sc_system :: "string option"
  sc_messages :: "json list"
  sc_tools :: "(string \<times> json) list"

text \<open>The module's counter and the events it has logged.\<close>

record turn_state =
  ts_turnSeq :: nat
  ts_log :: "(log_level \<times> string \<times> log_fields) list"

definition aisdkFactory ::
  "(json list \<Rightarrow> json list) \<Rightarrow> (json list \<Rightarrow> (string \<times> json) list) \<Rightarrow> env \<Rightarrow> agent_input \<Rightarrow> turn_state \<Rightarrow>
   (string + stream_call) \<times> turn_state" where
  "aisdkFactory convertMessages convertTools env ctx s =
     (if env ''RUNTIME_DEBUG_THROW'' = Some ''1''
      then (Inl ''RUNTIME_DEBUG_THROW=1: forced factory throw for error-path testing'', s)
      else
        (let s1 = s\<lparr>ts_turnSeq := ts_turnSeq s + 1\<rparr>;
             turnId = ''turn-'' @ nat_to_string (ts_turnSeq s1);
             messages = convertMessages (ai_messages ctx);
             tools = convertTools (ai_tools ctx);
             contextItems = nullish (ai_context ctx) [];
             system = system_prompt contextItems
         in case envProvider env of
              Inl e \<Rightarrow> (Inl e, s1)
            | Inr provider \<Rightarrow>
                (let s2 = s1\<lparr>ts_log := ts_log s1 @ [(INFO, ''llm.turn'',
                       [(''turn_id'', Some (JStr turnId)), (''provider'', Some (JStr provider)),
                        (''model'', map_option JStr (env ''LLM_MODEL'')),
                        (''messages'', Some (JNum (of_nat (length messages)))),
                        (''context_items'', Some (JNum (of_nat (length contextItems)))),
                        (''tools'', Some (JNum (of_nat (length tools))))])]\<rparr>
                 in (bind_sum (pickModel env) (\<lambda>m.
                       Inr \<lparr>sc_model = m, sc_system = system, sc_messages = messages, sc_tools = tools\<rparr>), s2))))"

section \<open>The server\<close>

definition COPILOT_BASE_PATH :: string where "COPILOT_BASE_PATH = ''/api/copilotkit''"

record app =
  ap_provider :: string
  ap_log :: "(log_level \<times> string \<times> log_fields) list"

definition createApp :: "env \<Rightarrow> string + app" where
  "createApp env =
     bind_sum (envProvider env) (\<lambda>provider.
       Inr \<lparr>ap_provider = provider,
            ap_log = [(INFO, ''runtime.built'',
              [(''provider'', Some (JStr provider)),
               (''model'', Some (JStr (nullish (env ''LLM_MODEL'') ''(unset)'')))])]\<rparr>)"

datatype answer = Json_answer json | From_runtime response "keepalive option" | No_route

text \<open>What a request is answered with; \<open>From_runtime r k\<close> is the response of the runtime's handler, with the
  keepalive around it when its guard lets it through.\<close>

definition app_handle :: "app \<Rightarrow> nat \<Rightarrow> string \<Rightarrow> string \<Rightarrow> response \<Rightarrow> answer" where
  "app_handle a now verb path r =
     (if verb = ''GET'' \<and> path = ''/healthz''
      then Json_answer (JObj [(''ok'', JBool True), (''provider'', JStr (ap_provider a))])
      else if path = COPILOT_BASE_PATH \<or> starts_with path (COPILOT_BASE_PATH @ ''/'') then From_runtime r (withSseKeepalive SSE_KEEPALIVE_MS now r)
      else No_route)"

definition DEFAULT_PORT :: nat where "DEFAULT_PORT = 4111"

text \<open>\<open>number\<close> is \<open>Number\<close> on a text.\<close>

definition server_port :: "(string \<Rightarrow> rat) \<Rightarrow> env \<Rightarrow> rat" where
  "server_port number env = (case env ''PORT'' of None \<Rightarrow> of_nat DEFAULT_PORT | Some s \<Rightarrow> number s)"

definition listening_fields :: "env \<Rightarrow> rat \<Rightarrow> rat \<Rightarrow> log_fields" where
  "listening_fields env port pid =
     [(''port'', Some (JNum port)), (''pid'', Some (JNum pid)), (''runtime'', Some (JStr ''node'')),
      (''log_level'', Some (JStr (nullish (env ''LOG_LEVEL'') ''info'')))]"

text \<open>What was thrown: an \<open>Error\<close> with message and stack, or another value with its text.\<close>

datatype thrown = Thrown_error string "string option" | Thrown_value string

datatype crash = Unhandled_rejection thrown | Uncaught_exception string "string option"

definition opt_text :: "string option \<Rightarrow> json option" where
  "opt_text v = Some (case v of None \<Rightarrow> JNull | Some s \<Rightarrow> JStr s)"

fun crash_event :: "crash \<Rightarrow> log_level \<times> string \<times> log_fields" where
  "crash_event (Unhandled_rejection (Thrown_error msg st)) =
     (ERROR, ''process.unhandledRejection'', [(''reason'', Some (JStr msg)), (''stack'', opt_text (Copilot_Runtime.truncate st 800))])"
| "crash_event (Unhandled_rejection (Thrown_value txt)) =
     (ERROR, ''process.unhandledRejection'', [(''reason'', Some (JStr txt)), (''stack'', opt_text (Copilot_Runtime.truncate None 800))])"
| "crash_event (Uncaught_exception msg st) =
     (ERROR, ''process.uncaughtException'', [(''error'', Some (JStr msg)), (''stack'', opt_text (Copilot_Runtime.truncate st 800))])"

section \<open>Facts\<close>

definition one_line :: "string \<Rightarrow> bool" where
  "one_line s = (CHR 0x0A \<notin> set s \<and> CHR 0x0D \<notin> set s)"

lemma one_line_simps [simp]:
  "one_line []" "one_line (a @ b) \<longleftrightarrow> one_line a \<and> one_line b"
  "one_line (c # s) \<longleftrightarrow> c \<noteq> CHR 0x0A \<and> c \<noteq> CHR 0x0D \<and> one_line s"
  by (auto simp: one_line_def)

lemma one_line_join: "one_line sep \<Longrightarrow> list_all one_line xs \<Longrightarrow> one_line (join sep xs)"
  by (induction sep xs rule: join.induct) auto

lemma one_line_pad: "one_line s \<Longrightarrow> one_line (padEnd n s)"
  by (simp add: padEnd_def one_line_def)

lemma one_line_level: "one_line (level_name l)"
  by (cases l) simp_all

lemma one_line_value:
  assumes "\<And>x. one_line (plain x)" "\<And>x y. stringify x = Some y \<Longrightarrow> one_line y"
  shows "one_line (formatValue stringify plain v)"
proof -
  have n: "one_line (nullish (stringify x) (plain x))" for x
    using assms by (cases "stringify x") auto
  have s: "one_line s" if "\<not> list_ex (\<lambda>c. is_ws c \<or> c = CHR ''='') s" for s
    using that by (auto simp: one_line_def list_ex_iff is_ws_def)
  show ?thesis
  proof (cases v)
    case (Some x)
    then show ?thesis using n s assms(1) by (cases x) (auto simp: formatValue_def)
  qed (simp add: formatValue_def)
qed

lemma turns_numbered:
  "ts_turnSeq s \<le> ts_turnSeq (snd (aisdkFactory cm ct env ctx s))"
  by (auto simp: aisdkFactory_def Let_def split: sum.split)

text \<open>The health probe answers with the provider chosen at the start.\<close>

lemma healthz: "createApp env = Inr a \<Longrightarrow> envProvider env = Inr p \<Longrightarrow>
  app_handle a now ''GET'' ''/healthz'' r = Json_answer (JObj [(''ok'', JBool True), (''provider'', JStr p)])"
  by (auto simp: createApp_def app_handle_def)

section \<open>Properties\<close>

text \<open>A log entry is one line: when the event and the keys are, and neither \<open>JSON.stringify\<close> nor \<open>String\<close> writes a
  line break, no value breaks the line.\<close>

lemma log_entry_is_one_line:
  assumes "\<And>x. one_line (plain x)" "\<And>x y. stringify x = Some y \<Longrightarrow> one_line y"
    and "one_line clock" "one_line event" "list_all (one_line \<circ> fst) fds"
  shows "one_line (log_line stringify plain clock level event fds)"
proof -
  have "list_all one_line (map (\<lambda>(key, v). key @ ''='' @ formatValue stringify plain v) fds)"
    using assms(5) one_line_value [OF assms(1,2)] by (auto simp: list_all_iff)
  then show ?thesis
    unfolding log_line_def by (intro one_line_join) (simp_all add: assms(3,4) one_line_pad one_line_level)
qed

text \<open>A turn that starts a call of the model hands it the whole context: the call exists exactly when the seam is
  off and a model can be picked, and its system prompt is absent only without context items.\<close>

lemma turn_calls_the_model:
  assumes "aisdkFactory cm ct env ctx s = (Inr call, s')"
  shows "pickModel env = Inr (sc_model call) \<and> sc_messages call = cm (ai_messages ctx) \<and>
    sc_tools call = ct (ai_tools ctx) \<and> sc_system call = system_prompt (nullish (ai_context ctx) []) \<and>
    ts_turnSeq s' = ts_turnSeq s + 1 \<and> length (ts_log s') = length (ts_log s) + 1"
  using assms by (auto simp: aisdkFactory_def Let_def bind_sum_Inr split: if_splits sum.splits)

end
