(* ===== verification/Spec2Isabelle.thy ===== *)
theory Spec2Isabelle
  imports Onboarding_Views Ui_Views Workflow_Views Rule_Network Card_Views Decision_Templates
    Payload_Schema Copilot_Server
begin

text \<open>
  \<^bold>\<open>The user interfaces of atomic-fi.\<close>

  This development models the TypeScript programs of the repository: the onboarding application
  (\<open>example-apps/onboarding-flow\<close>), the rule editor with its copilot (\<open>example-apps/atomic-fi-jdm-editor\<close>),
  the workflow editor (\<open>atomic-fi-web\<close>), the copilot's sidecar (\<open>external-deps/copilot-runtime\<close>), two small
  clients (\<open>packages/sdk\<close>, \<open>example-apps/lotus-embed\<close>) and the programs the integration tests are run with
  (\<open>integration-tests/src\<close>), and, where they meet the backend, its routes and its store of rule files
  (\<open>lib\<close>, in Elixir). Every definition is a translation of the
  function, handler, type or constant of the same name; paths below are relative to \<open>src/\<close>.

  \<^bold>\<open>Conventions.\<close>
  \<^item> \<open>undefined\<close> and \<open>null\<close> are \<open>None\<close>; strings are lists of the bytes of their UTF-8 form; a JSON value is a
    \<open>json\<close> and an object the list of its entries; numbers are \<open>rat\<close>, \<open>int\<close> or \<open>nat\<close> (the code only compares,
    adds and rounds them).
  \<^item> Clock, random ids, third-party packages, the browser's decoders and the servers are arguments of the
    definitions. Where text is serialised only to be parsed again, the model keeps the value.
  \<^item> A React component is a record of its state and a step function over its events. A handler that awaits
    is split at its awaits, so that everything that can happen in between is an event of its own; effects
    are steps after the change they depend on. A closure keeps the values of the render it was made in.
  \<^item> Exceptions are values: \<open>Inl\<close> of a sum, or an error in the result.

  \<^bold>\<open>Shared theories.\<close> \<open>Prelude\<close>: strings, \<open>||\<close> and \<open>??\<close>, arrays updated by key (locale \<open>keyed\<close>), machines and
  their invariants (locales \<open>machine\<close> and \<open>guarded_machine\<close>, interpreted by each component), stores keyed by an
  identifier (locale \<open>keyed_store\<close>, interpreted on the stored applications and on the states of a test run).
  \<open>Js_Object\<close>: objects and JSON. \<open>Regex\<close>: the regular expressions of the file classifier and of the copilot's file
  names. \<open>Url_Text\<close>: segments of a path and the escapes of \<open>encodeURIComponent\<close>, with their round trip.

  \<^bold>\<open>Onboarding application\<close> (\<open>features/\<close>).
  \<^item> \<open>Onboarding_Types\<close> (\<open>onboarding/types.ts, constants.ts\<close>), \<open>Onboarding_Store\<close> (\<open>store.ts\<close>,
    \<open>useApplication.ts\<close>): the data model, the stored applications and the hook that edits one of them. The
    memory and the storage agree after every run; the lost update of two callbacks of one render is shown.
  \<^item> \<open>Documents\<close> (\<open>documents/classifier.ts, verification.ts\<close>), \<open>Doc_Extraction\<close> (\<open>extraction.ts\<close>), \<open>Samples\<close>,
    \<open>Bulk_Upload\<close> (\<open>BulkUploadZone.tsx\<close>): classification and verification of files, the mappers of extracted
    fields and their merge, and the upload zone as a machine with its asynchronous jobs. The merge acts as
    the mappers acting one after the other, prefill never empties a field, every verification ends.
  \<^item> \<open>Submission\<close> (\<open>onboarding/api.ts\<close>): session, request bodies, the exact sequence of requests.
  \<^item> \<open>Onboarding_Flow\<close> (layout, stepper, steps and start page): navigation and the gate before a submission;
    from an empty browser no sequence of clicks ever submits. The locale \<open>flow_invariant\<close> is the contract
    between the pages and a predicate on applications; \<open>untouched\<close> (no step is completed) and \<open>inert\<close> interpret it.
  \<^item> \<open>Step_Views\<close> (\<open>onboarding/components/steps\<close>): what the steps show. Only one step has controlled inputs; the
    invariant \<open>inert\<close> gives the answers that stay empty whatever the applicant types. The tab that lists
    documents by type is compared with the documents.
  \<^item> \<open>App_Shell\<close> (\<open>app/routes.tsx\<close>, \<open>components/layout\<close>): routes, layout and menu; the paths the pages navigate to
    are routed. \<open>Ops_Pages\<close>, \<open>Toasts\<close>: the operator's pages, the
    status page, the connect gate, notifications and their timers.
  \<^item> \<open>Onboarding_Views\<close>: what the start page, the stepper, the layout, the review step, the connect gate, the user
    menu and the header of the operator's page show; the submission of the review step and the drop zone as
    machines. A visit of the review step sends at most one submission (locale \<open>machine\<close>, interpretation
    \<open>review\<close>); a second visit can send another.
  \<^item> \<open>Ui_Sidebar\<close>, \<open>Ui_Kit\<close> (\<open>components/ui\<close>): the components of the kit that have logic of their own: the sidebar
    with its cookie and shortcut, chart styles and tooltips, the carousel over its engine, form fields, toggle
    groups, pagination links, the slots of a one-time code, the toaster; and the rule editor's \<open>Stack\<close>.
  \<^item> \<open>Ui_Elements\<close>: elements, their properties and how a later one replaces an earlier one, class names.
    \<open>Ui_Surfaces\<close>, \<open>Ui_Inputs\<close>, \<open>Ui_Menus\<close>, \<open>Ui_Overlays\<close>, \<open>Ui_Sidebar_Parts\<close>: every component of \<open>components/ui\<close>
    as a function from properties to elements, file by file. \<open>Ui_Views\<close>: the elements of the components with
    logic, what all components pass on to the element they wrap, and where one differs.

  \<^bold>\<open>Workflow editor\<close> (\<open>atomic-fi-web/src\<close>). \<open>Decision_Table\<close>: the table editor refines an abstract table with the
  operations of a spreadsheet. \<open>Workflow_Editor\<close>: canvas, inspector, schema editor, file format and the
  application as one machine; saving and loading is a round trip and table edits survive it. \<open>Workflow_Views\<close>: toolbar,
  palette, drag and drop, code editors.

  \<^bold>\<open>Rule editor and copilot\<close> (\<open>example-apps/atomic-fi-jdm-editor/src\<close>).
  \<^item> \<open>Rule_Graph\<close> (\<open>copilot/actions/use-graph-actions.tsx\<close>, \<open>node-types.ts\<close>): a tool call becomes a card, a card
    a change of the graph. The relation \<open>proposes\<close> says which changes fit a graph; every card drawn from a
    graph makes one of them, and these keep the graph well formed.
  \<^item> \<open>Tool_Args\<close> (\<open>copilot/node-types.ts\<close>, \<open>tool-params.ts\<close>): from the raw JSON arguments of a call to the values the
    cards work with. The constructs of zod the code uses are combinators (\<open>z_object\<close>, \<open>z_optional\<close>,
    \<open>z_preprocess\<close>) that return the issues or the value; the collection \<open>accepts\<close> says when they return a
    value. The loose schemas a tool is declared with are compared with the strict ones of its card.
  \<^item> \<open>Tool_Cards\<close>: the declarations, the cards of the rule tools and the page driven by raw calls
    (\<open>copilot_step\<close>): whatever the model sends, graphs stay well typed and files stay in the rule folders.
    \<open>Card_Views\<close>: what the cards show, and their buttons as steps of \<open>hitl_step\<close>.
  \<^item> \<open>Hitl_Cards\<close> (\<open>copilot/cards/\<close>): cards, the registry of executing cards and the footer as the step
    relation \<open>hitl_step\<close>; its invariant gives one decision per card and that Apply all reaches every card.
    The loop of the footer is a function that terminates because the clock moves at least 200 ms a turn.
  \<^item> \<open>Rule_Session\<close> (\<open>pages/decision-simple.tsx\<close>, \<open>use-persist-actions.tsx\<close>, \<open>rules-api.ts\<close>): the page, its load
    effect, saves by hand and by the copilot, rename, delete and navigation, over the rule files of the
    server. Requests may fail before or after the server carried them out and are answered in any order.
    Under \<open>calm\<close> histories the mark of unsaved changes can be trusted; the lemmas at the end show how it
    misleads otherwise.
  \<^item> \<open>Rule_Page\<close> (\<open>app.tsx\<close>, \<open>main.tsx\<close>, \<open>use-editor-readables.ts\<close>): the routes and the name a route carries, the
    requests, what the page shows and what it tells the agent, the handlers of errors nobody caught.
  \<^item> \<open>Rule_Simulator\<close> (\<open>helpers/simulator.ts\<close>, \<open>use-simulate-action.tsx\<close>), \<open>Rule_App\<close> (\<open>rules-index.tsx\<close>, gate,
    theme, errors), \<open>Decision_Templates\<close> (\<open>assets/decision-templates.ts\<close>, \<open>helpers/graph.ts\<close>),
    \<open>Payload_Schema\<close> (\<open>copilot/payload-schema.ts\<close>): the schema the copilot is given, compared with the
    enumerations of the backend and with the fields the templates read.
  \<^item> \<open>Backend_Router\<close> (\<open>lib/atomic_fi_api/routes.ex\<close>, \<open>plugs/api_authentication.ex\<close>, \<open>helpers/screening-api.ts\<close>,
    \<open>clients.ts\<close>): the routes of the backend and its credential check; every request of the clients finds its
    action and brings a credential. \<open>Rule_Server\<close> (\<open>rule_controller.ex\<close>, \<open>rules_context.ex\<close>): the server of the rule
    files over the files of a volume. No request changes a file outside the two folders, and over HTTP the
    server implements (locale \<open>implements\<close>) the map from type and name to contents that \<open>Rule_Session\<close> works on.
  \<^item> \<open>Rule_Network\<close>: page and server as one machine. The operations of \<open>Rule_Session\<close> are requests to \<open>Rule_Server\<close>,
    their answers the events of the page, and a request may be lost on the way there or back. The interpretation
    \<open>net\<close> of \<open>guarded_machine\<close> gives that the files the page takes for stored are the volume's, and \<open>any_order\<close>
    that no history whatever stores a cyclic rule.

  \<^bold>\<open>Services and clients.\<close> \<open>Copilot_Runtime\<close>: the keepalive of event streams against a reader of the
  event-stream format, the choice of the model, prompt and log values. \<open>Copilot_Server\<close>: log lines, a turn of the
  agent, the routes and the entry point. \<open>Backend_Clients\<close>: the SDK's provisioning of a tenant and the embedding
  demo. \<open>Repo_Scripts\<close> (\<open>integration-tests/src/state.ts, env.ts\<close>, \<open>packages/sdk/scripts/sync-version.ts, generate-spec.ts\<close>): the
  programs that keep their state in files, over a model of the file system; the state directory is a keyed
  store. \<open>Api_Helpers\<close> (\<open>test-helpers.ts\<close>, \<open>playwright.global-setup.ts\<close>): requests, payloads, unique names.

  \<^bold>\<open>Composition.\<close> This theory composes cards and page: a decision on a card is the event of the page that
  answers its tool call. \<open>Rule_Network\<close> composes page, client and server.

  \<^bold>\<open>Bounds.\<close> There is no fuel: recursion is structural, or has a measure (\<open>drain\<close>: the time left of
  30 seconds). Peeling a template takes as many rounds as its longest path has nodes.

  \<^bold>\<open>Not modelled.\<close> Markup and styling outside \<open>components/ui\<close>, display names; the cheatsheet, the system
  prompt and the descriptions of parameters for the language model; the texts zod composes for its issues (the
  issues are modelled); the graph canvas, chart, carousel, chat, router and agent libraries; the test cases
  themselves and build configurations; of the Elixir backend everything behind its routes but the rule files, and
  the rule engine: their answers are arguments.
\<close>

section \<open>Cards and page together\<close>

text \<open>The tool calls decided on the cards, in the order of the decisions.\<close>

definition decided_calls :: "hitl \<Rightarrow> string list" where
  "decided_calls h = map (\<lambda>(i, pressed, typed). ci_toolCallId (the_card h i)) (h_log h)"

lemma decided_calls_distinct:
  assumes "hitl_reachable h" and "distinct (map ci_toolCallId (h_cards h))"
  shows "distinct (decided_calls h)"
proof -
  have log: "log_ok h"
    using inv_reachable [OF assms(1)] by (simp add: hitl_inv_def)
  have eq: "decided_calls h = map (\<lambda>i. ci_toolCallId (the_card h i)) (map fst (h_log h))"
    by (simp add: decided_calls_def case_prod_beta)
  have "inj_on (\<lambda>i. ci_toolCallId (the_card h i)) (set (map fst (h_log h)))"
  proof (rule inj_onI)
    fix i j
    assume "i \<in> set (map fst (h_log h))" "j \<in> set (map fst (h_log h))"
      and same: "ci_toolCallId (the_card h i) = ci_toolCallId (the_card h j)"
    then have "i < length (h_cards h)" "j < length (h_cards h)"
      using log by (auto simp: log_ok_def)
    with same assms(2) show "i = j" by (simp add: distinct_conv_nth) (metis nth_map)
  qed
  then show ?thesis
    using log unfolding eq by (subst distinct_map) (simp add: log_ok_def)
qed


text \<open>The turn of \<open>after_apply_all\<close>: two graph edits, a delete and a save.\<close>

definition a_busy_turn :: "session_event list" where
  "a_busy_turn =
     [Loaded 1 None, reply_done 0, Apply_graph ''call-1'' ''n1'' (Remove_Edge ''e''), Apply_graph ''call-2'' ''n2'' (Remove_Edge ''e''),
      Apply_save ''call-4'', Apply_delete ''call-3'' ''onboarding'' ''kyc.json'', reply_done 1, reply_done 0, reply_done 0]"


end
